(* ===== verification/Prelude.thy ===== *)
theory Prelude
  imports Main "HOL-Library.AList" "HOL-Library.Multiset"
begin

text \<open>
  Shared vocabulary of the development: error values as sums, the state-and-exception
  computations in which the mutating engines are written (an exception keeps the state reached
  so far, as a JavaScript throw does), the insertion-ordered JavaScript \<open>Map\<close>, the stable
  \<open>Array.prototype.sort\<close>, and the de-duplication idiom \<open>[...new Set(xs)]\<close>. The rule
  collections \<open>keeps_rules\<close> and \<open>map_simps\<close> carry the component proofs.
\<close>

named_theorems keeps_rules "step relations respected by computations"
named_theorems map_simps "equations of the insertion-ordered map"

section \<open>Errors as values\<close>

definition bind_e :: "'e + 'a \<Rightarrow> ('a \<Rightarrow> 'e + 'b) \<Rightarrow> 'e + 'b" where
  "bind_e m f = (case m of Inl e \<Rightarrow> Inl e | Inr x \<Rightarrow> f x)"

fun each_e :: "('a \<Rightarrow> 'e + 'b) \<Rightarrow> 'a list \<Rightarrow> 'e + 'b list" where
  "each_e f [] = Inr []"
| "each_e f (x # xs) = bind_e (f x) (\<lambda>y. bind_e (each_e f xs) (\<lambda>ys. Inr (y # ys)))"

lemma bind_e_simps [simp]:
  "bind_e (Inl e) f = Inl e"
  "bind_e (Inr x) f = f x"
  by (simp_all add: bind_e_def)

lemma bind_e_Inr_iff: "bind_e m f = Inr y \<longleftrightarrow> (\<exists>x. m = Inr x \<and> f x = Inr y)"
  by (cases m) auto

lemma bind_e_Inl_iff: "bind_e m f = Inl e \<longleftrightarrow> m = Inl e \<or> (\<exists>x. m = Inr x \<and> f x = Inl e)"
  by (cases m) auto

lemma each_e_Inr_length: "each_e f xs = Inr ys \<Longrightarrow> length ys = length xs"
  by (induction xs arbitrary: ys) (auto simp: bind_e_Inr_iff)

lemma each_e_Inr_set: "each_e f xs = Inr ys \<Longrightarrow> x \<in> set xs \<Longrightarrow> \<exists>y \<in> set ys. f x = Inr y"
  by (induction xs arbitrary: ys) (auto simp: bind_e_Inr_iff)

lemma each_e_set_back: "each_e f xs = Inr ys \<Longrightarrow> y \<in> set ys \<Longrightarrow> \<exists>x \<in> set xs. f x = Inr y"
  by (induction xs arbitrary: ys) (auto simp: bind_e_Inr_iff)

section \<open>State and exceptions\<close>

type_synonym ('s, 'e, 'a) act = "'s \<Rightarrow> ('e + 'a) \<times> 's"

definition ret :: "'a \<Rightarrow> ('s, 'e, 'a) act" where
  "ret x = (\<lambda>s. (Inr x, s))"

definition throw :: "'e \<Rightarrow> ('s, 'e, 'a) act" where
  "throw e = (\<lambda>s. (Inl e, s))"

definition lift_e :: "'e + 'a \<Rightarrow> ('s, 'e, 'a) act" where
  "lift_e r = (\<lambda>s. (r, s))"

definition reads :: "('s \<Rightarrow> 'a) \<Rightarrow> ('s, 'e, 'a) act" where
  "reads f = (\<lambda>s. (Inr (f s), s))"

definition modifies :: "('s \<Rightarrow> 's) \<Rightarrow> ('s, 'e, unit) act" where
  "modifies f = (\<lambda>s. (Inr (), f s))"

definition bnd :: "('s, 'e, 'a) act \<Rightarrow> ('a \<Rightarrow> ('s, 'e, 'b) act) \<Rightarrow> ('s, 'e, 'b) act" where
  "bnd m f = (\<lambda>s. case m s of (Inl e, t) \<Rightarrow> (Inl e, t) | (Inr x, t) \<Rightarrow> f x t)"

fun each :: "('a \<Rightarrow> ('s, 'e, 'b) act) \<Rightarrow> 'a list \<Rightarrow> ('s, 'e, 'b list) act" where
  "each f [] = ret []"
| "each f (x # xs) = bnd (f x) (\<lambda>y. bnd (each f xs) (\<lambda>ys. ret (y # ys)))"

lemma act_simps [simp]:
  "ret x s = (Inr x, s)"
  "throw e s = (Inl e, s)"
  "lift_e r s = (r, s)"
  "reads g s = (Inr (g s), s)"
  "modifies h s = (Inr (), h s)"
  by (simp_all add: ret_def throw_def lift_e_def reads_def modifies_def)

lemma bnd_Inr_iff:
  "bnd m f s = (Inr y, u) \<longleftrightarrow> (\<exists>x t. m s = (Inr x, t) \<and> f x t = (Inr y, u))"
  by (auto simp: bnd_def split: prod.splits sum.splits)

lemma bnd_Inl_iff:
  "bnd m f s = (Inl e, u) \<longleftrightarrow>
     m s = (Inl e, u) \<or> (\<exists>x t. m s = (Inr x, t) \<and> f x t = (Inl e, u))"
  by (auto simp: bnd_def split: prod.splits sum.splits)

lemma bnd_apply [simp]:
  "m s = (Inr x, t) \<Longrightarrow> bnd m f s = f x t"
  "m s = (Inl e, t) \<Longrightarrow> bnd m f s = (Inl e, t)"
  by (simp_all add: bnd_def)

subsection \<open>Step relations\<close>

text \<open>
  \<open>keeps R m\<close>: every run of \<open>m\<close> relates its first and its final state by \<open>R\<close>, which
  is told whether the run returned (\<open>True\<close>) or threw. The rules hold for every relation that is
  reflexive and composes after a run that returned, so they are proved once in a locale and
  interpreted for each relation the engines respect.
\<close>

definition keeps :: "(bool \<Rightarrow> 's \<Rightarrow> 's \<Rightarrow> bool) \<Rightarrow> ('s, 'e, 'a) act \<Rightarrow> bool" where
  "keeps R m \<longleftrightarrow> (\<forall>s. R (\<not> isl (fst (m s))) s (snd (m s)))"

lemma keepsD: "keeps R m \<Longrightarrow> m s = (r, t) \<Longrightarrow> R (\<not> isl r) s t"
  unfolding keeps_def by (metis fst_conv snd_conv)

lemma keeps_case_prod [keeps_rules]: "(\<And>a b. keeps R (f a b)) \<Longrightarrow> keeps R (case p of (a, b) \<Rightarrow> f a b)"
  by (cases p) simp

definition unchanged :: "bool \<Rightarrow> 's \<Rightarrow> 's \<Rightarrow> bool" where
  "unchanged ok s t \<longleftrightarrow> t = s"

locale step_preorder =
  fixes R :: "bool \<Rightarrow> 's \<Rightarrow> 's \<Rightarrow> bool"
  assumes R_refl: "R ok s s"
    and R_trans: "R True s t \<Longrightarrow> R ok t u \<Longrightarrow> R ok s u"
begin

lemma keeps_ret [keeps_rules]: "keeps R (ret x)"
  by (simp add: keeps_def R_refl)

lemma keeps_throw [keeps_rules]: "keeps R (throw e)"
  by (simp add: keeps_def R_refl)

lemma keeps_lift_e [keeps_rules]: "keeps R (lift_e r)"
  by (simp add: keeps_def R_refl)

lemma keeps_reads [keeps_rules]: "keeps R (reads f)"
  by (simp add: keeps_def R_refl)

lemma keeps_bnd [keeps_rules]:
  assumes "keeps R m" and "\<And>x. keeps R (f x)"
  shows "keeps R (bnd m f)"
  unfolding keeps_def
proof
  fix s
  obtain r t where m: "m s = (r, t)" by fastforce
  have "R (\<not> isl r) s t" using assms(1) m by (rule keepsD)
  then show "R (\<not> isl (fst (bnd m f s))) s (snd (bnd m f s))"
    using m assms(2) R_trans by (cases r) (auto simp: keeps_def)
qed

lemma keeps_each [keeps_rules]:
  assumes "\<And>x. keeps R (f x)"
  shows "keeps R (each f xs)"
proof (induction xs)
  case Nil
  show ?case by (simp only: each.simps) (rule keeps_ret)
next
  case (Cons x xs)
  then show ?case by (simp only: each.simps) (intro keeps_bnd assms keeps_ret)
qed

lemma keeps_if [keeps_rules]:
  "keeps R a \<Longrightarrow> keeps R b \<Longrightarrow> keeps R (if c then a else b)"
  by simp

lemma keeps_option [keeps_rules]:
  "keeps R a \<Longrightarrow> (\<And>x. keeps R (b x)) \<Longrightarrow> keeps R (case c of None \<Rightarrow> a | Some x \<Rightarrow> b x)"
  by (cases c) auto

lemma keeps_Let [keeps_rules]: "(\<And>x. keeps R (f x)) \<Longrightarrow> keeps R (let x = c in f x)"
  by simp

lemma keeps_unchanged: "keeps unchanged m \<Longrightarrow> keeps R m"
  by (simp add: keeps_def unchanged_def R_refl)

end

interpretation same: step_preorder unchanged
  by unfold_locales (auto simp: unchanged_def)

lemma unchangedD: "keeps unchanged m \<Longrightarrow> m s = (r, t) \<Longrightarrow> t = s"
  using keepsD[of unchanged m s r t] by (simp add: unchanged_def)

section \<open>The JavaScript Map: association lists in insertion order\<close>

type_synonym ('k, 'v) jmap = "('k \<times> 'v) list"

definition jget :: "('k, 'v) jmap \<Rightarrow> 'k \<Rightarrow> 'v option" where
  "jget m k = map_of m k"

definition jset :: "'k \<Rightarrow> 'v \<Rightarrow> ('k, 'v) jmap \<Rightarrow> ('k, 'v) jmap" where
  "jset k v m = AList.update k v m"

definition jvals :: "('k, 'v) jmap \<Rightarrow> 'v list" where
  "jvals m = map snd m"

definition jkeys :: "('k, 'v) jmap \<Rightarrow> 'k list" where
  "jkeys m = map fst m"

text \<open>The contract of a keyed store, and the \<open>Map\<close> model as its provider.\<close>

locale keyed_store =
  fixes get :: "'m \<Rightarrow> 'k \<Rightarrow> 'v option"
    and put :: "'k \<Rightarrow> 'v \<Rightarrow> 'm \<Rightarrow> 'm"
    and vals :: "'m \<Rightarrow> 'v list"
    and wf :: "'m \<Rightarrow> bool"
  assumes get_put: "get (put k v m) j = (if j = k then Some v else get m j)"
    and wf_put: "wf m \<Longrightarrow> wf (put k v m)"
    and vals_get: "wf m \<Longrightarrow> v \<in> set (vals m) \<longleftrightarrow> (\<exists>k. get m k = Some v)"
begin

lemma get_put_same [map_simps]: "get (put k v m) k = Some v"
  by (simp add: get_put)

lemma get_put_other [map_simps]: "j \<noteq> k \<Longrightarrow> get (put k v m) j = get m j"
  by (simp add: get_put)

lemma vals_put_subset: "wf m \<Longrightarrow> set (vals (put k v m)) \<subseteq> insert v (set (vals m))"
  by (auto simp: vals_get wf_put get_put split: if_splits)

lemma vals_put_new: "wf m \<Longrightarrow> get m k = None \<Longrightarrow> set (vals (put k v m)) = insert v (set (vals m))"
proof -
  assume wf: "wf m" and new: "get m k = None"
  have "x \<in> set (vals (put k v m)) \<longleftrightarrow> x = v \<or> x \<in> set (vals m)" for x
    using new by (simp add: vals_get[OF wf] vals_get[OF wf_put[OF wf]] get_put)
      (metis option.distinct(1) option.inject)
  then show ?thesis by blast
qed

end

lemma jget_jset: "jget (jset k v m) j = (if j = k then Some v else jget m j)"
  by (simp add: jget_def jset_def update_conv)

interpretation jm: keyed_store jget jset jvals "\<lambda>m. distinct (jkeys m)"
proof unfold_locales
  fix k j :: 'a and v :: 'b and m :: "('a, 'b) jmap"
  show "jget (jset k v m) j = (if j = k then Some v else jget m j)" by (rule jget_jset)
  show "distinct (jkeys m) \<Longrightarrow> distinct (jkeys (jset k v m))"
    by (simp add: jkeys_def jset_def distinct_update)
  show "distinct (jkeys m) \<Longrightarrow> v \<in> set (jvals m) \<longleftrightarrow> (\<exists>k. jget m k = Some v)"
    by (force simp: jvals_def jkeys_def jget_def)
qed

lemma jget_Nil [simp]: "jget [] k = None"
  by (simp add: jget_def)

lemma jget_Cons: "jget ((j, v) # m) k = (if k = j then Some v else jget m k)"
  by (simp add: jget_def)

lemma jget_in_vals: "jget m k = Some v \<Longrightarrow> v \<in> set (jvals m)"
  by (force simp: jget_def jvals_def dest: map_of_SomeD)

section \<open>Array.prototype.sort and de-duplication\<close>

text \<open>
  A comparator answers a negative number, zero or a positive number. The JavaScript sort is
  stable; insertion in front of the first strictly later element gives the same list for
  every comparator that is a total preorder.
\<close>

fun insert_cmp :: "('a \<Rightarrow> 'a \<Rightarrow> int) \<Rightarrow> 'a \<Rightarrow> 'a list \<Rightarrow> 'a list" where
  "insert_cmp c x [] = [x]"
| "insert_cmp c x (y # ys) = (if c x y \<le> 0 then x # y # ys else y # insert_cmp c x ys)"

definition sort_cmp :: "('a \<Rightarrow> 'a \<Rightarrow> int) \<Rightarrow> 'a list \<Rightarrow> 'a list" where
  "sort_cmp c xs = foldr (insert_cmp c) xs []"

lemma mset_insert_cmp [simp]: "mset (insert_cmp c x xs) = add_mset x (mset xs)"
  by (induction xs) auto

lemma mset_sort_cmp [simp]: "mset (sort_cmp c xs) = mset xs"
  unfolding sort_cmp_def by (induction xs) auto

lemma set_sort_cmp [simp]: "set (sort_cmp c xs) = set xs"
  by (metis mset_sort_cmp set_mset_mset)

lemma length_sort_cmp [simp]: "length (sort_cmp c xs) = length xs"
  by (metis mset_sort_cmp size_mset)

lemma distinct_sort_cmp [simp]: "distinct (sort_cmp c xs) = distinct xs"
  by (rule mset_eq_imp_distinct_iff) simp

lemma insert_cmp_sorted:
  assumes "\<And>a b. c a b \<le> 0 \<or> c b a \<le> 0"
    and "\<And>a b d. c a b \<le> 0 \<Longrightarrow> c b d \<le> 0 \<Longrightarrow> c a d \<le> 0"
  shows "sorted_wrt (\<lambda>a b. c a b \<le> 0) xs \<Longrightarrow> sorted_wrt (\<lambda>a b. c a b \<le> 0) (insert_cmp c x xs)"
proof (induction xs)
  case (Cons y ys)
  have sub: "set (insert_cmp c x ys) = insert x (set ys)"
    by (metis mset_insert_cmp set_mset_add_mset_insert set_mset_mset)
  show ?case
  proof (cases "c x y \<le> 0")
    case True
    then show ?thesis using Cons.prems by (auto dest: assms(2))
  next
    case False
    then have "c y x \<le> 0" using assms(1) by blast
    with False Cons show ?thesis by (simp add: sub)
  qed
qed simp

lemma sort_cmp_sorted:
  assumes "\<And>a b. c a b \<le> 0 \<or> c b a \<le> 0"
    and "\<And>a b d. c a b \<le> 0 \<Longrightarrow> c b d \<le> 0 \<Longrightarrow> c a d \<le> 0"
  shows "sorted_wrt (\<lambda>a b. c a b \<le> 0) (sort_cmp c xs)"
  unfolding sort_cmp_def
proof (induction xs)
  case (Cons x xs)
  then show ?case using insert_cmp_sorted[OF assms] by simp
qed simp

definition uniq :: "'a list \<Rightarrow> 'a list" where
  "uniq xs = rev (remdups (rev xs))"

lemma set_uniq [simp]: "set (uniq xs) = set xs"
  by (simp add: uniq_def)

lemma distinct_uniq [simp]: "distinct (uniq xs)"
  by (simp add: uniq_def)

lemma uniq_Nil [simp]: "uniq [] = []"
  by (simp add: uniq_def)

lemma uniq_eq_Nil [simp]: "uniq xs = [] \<longleftrightarrow> xs = []"
  by (simp add: uniq_def)

lemma length_uniq_le: "length (uniq xs) \<le> length xs"
  by (metis length_remdups_leq length_rev uniq_def)

lemma length_uniq_eq: "length (uniq xs) = length xs \<longleftrightarrow> distinct xs"
  by (simp add: uniq_def length_remdups_eq[of "rev xs", simplified] remdups_id_iff_distinct)

definition first_such :: "('a \<Rightarrow> bool) \<Rightarrow> 'a list \<Rightarrow> 'a option" where
  "first_such p xs = List.find p xs"

lemma first_such_Some: "first_such p xs = Some x \<Longrightarrow> x \<in> set xs \<and> p x"
  unfolding first_such_def by (auto simp: find_Some_iff)

lemma first_such_None: "first_such p xs = None \<longleftrightarrow> (\<forall>x \<in> set xs. \<not> p x)"
  by (auto simp: first_such_def find_None_iff)

end
