(* ===== verification/Js_Number.thy ===== *)
theory Js_Number
  imports Complex_Main "HOL-Library.Log_Nat" Prelude
begin

text \<open>
  JavaScript numbers: IEEE-754 binary64 values, with every arithmetic result rounded to the
  nearest representable value, ties to even. A finite number is the rational it denotes (the
  two zeros are one value: no operation of the modelled code tells them apart). The rounding is
  executable, so a model computes the cents, megabytes and averages the program computes.
\<close>

datatype num = Fin rat | PInf | NInf | NaN

definition pow2 :: "int \<Rightarrow> rat" where
  "pow2 e = (if 0 \<le> e then 2 ^ nat e else 1 / 2 ^ nat (- e))"

text \<open>\<open>ilog2 a\<close> is the exponent with \<open>2^e \<le> a < 2^(e+1)\<close>, for \<open>a > 0\<close>.\<close>

definition ilog2 :: "rat \<Rightarrow> int" where
  "ilog2 a = (let (p, q) = quotient_of a;
                  e = int (floorlog 2 (nat p)) - int (floorlog 2 (nat q))
              in if pow2 e \<le> a then e else e - 1)"

definition round_even :: "rat \<Rightarrow> int" where
  "round_even x = (let f = \<lfloor>x\<rfloor>; d = x - of_int f
                   in if d < 1 / 2 then f else if 1 / 2 < d then f + 1
                      else if even f then f else f + 1)"

definition max_safe :: int where
  "max_safe = 2 ^ 53 - 1"

text \<open>
  Integers of at most 53 bits are representable, so they are returned at once; any other value
  is scaled to a 53-bit significand (fewer bits below the smallest normal exponent), rounded, and
  overflows to an infinity from \<open>2^1024\<close> on.
\<close>

definition round_pos :: "rat \<Rightarrow> num" where
  "round_pos a = (let q = pow2 (max (ilog2 a - 52) (- 1074));
                      r = of_int (round_even (a / q)) * q
                  in if pow2 1024 \<le> r then PInf else Fin r)"

definition neg_num :: "num \<Rightarrow> num" where
  "neg_num x = (case x of Fin r \<Rightarrow> Fin (- r) | PInf \<Rightarrow> NInf | NInf \<Rightarrow> PInf | NaN \<Rightarrow> NaN)"

definition round64 :: "rat \<Rightarrow> num" where
  "round64 x = (if of_int \<lfloor>x\<rfloor> = x \<and> \<bar>x\<bar> \<le> of_int (2 ^ 53) then Fin x
                else if 0 \<le> x then round_pos x else neg_num (round_pos (- x)))"

definition num_of_int :: "int \<Rightarrow> num" where
  "num_of_int n = Fin (of_int n)"

section \<open>Operators\<close>

fun num_add :: "num \<Rightarrow> num \<Rightarrow> num" where
  "num_add (Fin a) (Fin b) = round64 (a + b)"
| "num_add NaN _ = NaN"
| "num_add _ NaN = NaN"
| "num_add PInf NInf = NaN"
| "num_add NInf PInf = NaN"
| "num_add PInf _ = PInf"
| "num_add _ PInf = PInf"
| "num_add NInf _ = NInf"
| "num_add _ NInf = NInf"

definition num_sub :: "num \<Rightarrow> num \<Rightarrow> num" where
  "num_sub a b = num_add a (neg_num b)"

fun num_mul :: "num \<Rightarrow> num \<Rightarrow> num" where
  "num_mul (Fin a) (Fin b) = round64 (a * b)"
| "num_mul NaN _ = NaN"
| "num_mul _ NaN = NaN"
| "num_mul x (Fin b) = (if b = 0 then NaN else if 0 < b then x else neg_num x)"
| "num_mul (Fin a) y = (if a = 0 then NaN else if 0 < a then y else neg_num y)"
| "num_mul x y = (if x = y then PInf else NInf)"

text \<open>Division of finite numbers; the sign of a zero divisor is not represented.\<close>

definition fin_div :: "rat \<Rightarrow> rat \<Rightarrow> num" where
  "fin_div a b = (if b = 0 then (if a = 0 then NaN else if 0 < a then PInf else NInf)
                  else round64 (a / b))"

fun num_le :: "num \<Rightarrow> num \<Rightarrow> bool" where
  "num_le (Fin a) (Fin b) \<longleftrightarrow> a \<le> b"
| "num_le NaN _ \<longleftrightarrow> False"
| "num_le _ NaN \<longleftrightarrow> False"
| "num_le NInf _ \<longleftrightarrow> True"
| "num_le _ PInf \<longleftrightarrow> True"
| "num_le _ _ \<longleftrightarrow> False"

fun num_lt :: "num \<Rightarrow> num \<Rightarrow> bool" where
  "num_lt (Fin a) (Fin b) \<longleftrightarrow> a < b"
| "num_lt NaN _ \<longleftrightarrow> False"
| "num_lt _ NaN \<longleftrightarrow> False"
| "num_lt NInf y \<longleftrightarrow> y \<noteq> NInf"
| "num_lt x PInf \<longleftrightarrow> x \<noteq> PInf"
| "num_lt _ _ \<longleftrightarrow> False"

text \<open>Strict equality: NaN is not equal to itself.\<close>

definition num_eq :: "num \<Rightarrow> num \<Rightarrow> bool" where
  "num_eq a b \<longleftrightarrow> a = b \<and> a \<noteq> NaN"

definition num_ceil :: "num \<Rightarrow> num" where
  "num_ceil x = (case x of Fin r \<Rightarrow> Fin (of_int \<lceil>r\<rceil>) | _ \<Rightarrow> x)"

definition num_max :: "num \<Rightarrow> num \<Rightarrow> num" where
  "num_max a b = (if a = NaN \<or> b = NaN then NaN else if num_le a b then b else a)"

definition num_min :: "num \<Rightarrow> num \<Rightarrow> num" where
  "num_min a b = (if a = NaN \<or> b = NaN then NaN else if num_le a b then a else b)"

definition is_finite :: "num \<Rightarrow> bool" where
  "is_finite x = (case x of Fin _ \<Rightarrow> True | _ \<Rightarrow> False)"

definition is_integral :: "num \<Rightarrow> bool" where
  "is_integral x = (case x of Fin r \<Rightarrow> of_int \<lfloor>r\<rfloor> = r | _ \<Rightarrow> False)"

definition is_safe_integer :: "num \<Rightarrow> bool" where
  "is_safe_integer x = (case x of Fin r \<Rightarrow> of_int \<lfloor>r\<rfloor> = r \<and> \<bar>r\<bar> \<le> of_int max_safe | _ \<Rightarrow> False)"

section \<open>Rounding facts\<close>

lemma round64_safe: "\<bar>n\<bar> \<le> 2 ^ 53 \<Longrightarrow> round64 (of_int n) = Fin (of_int n)"
proof -
  assume "\<bar>n\<bar> \<le> 2 ^ 53"
  then have "\<bar>of_int n :: rat\<bar> \<le> of_int (2 ^ 53)"
    by (metis of_int_abs of_int_le_iff)
  then show ?thesis by (simp add: round64_def)
qed

lemma num_add_int:
  "\<bar>a + b\<bar> \<le> 2 ^ 53 \<Longrightarrow> num_add (num_of_int a) (num_of_int b) = num_of_int (a + b)"
  using round64_safe[of "a + b"] by (simp add: num_of_int_def)

lemma num_sub_int:
  "\<bar>a - b\<bar> \<le> 2 ^ 53 \<Longrightarrow> num_sub (num_of_int a) (num_of_int b) = num_of_int (a - b)"
  using num_add_int[of a "- b"] by (simp add: num_sub_def neg_num_def num_of_int_def)

lemma num_mul_int:
  "\<bar>a * b\<bar> \<le> 2 ^ 53 \<Longrightarrow> num_mul (num_of_int a) (num_of_int b) = num_of_int (a * b)"
  using round64_safe[of "a * b"] by (simp add: num_of_int_def)

lemma num_of_int_inject [simp]: "num_of_int a = num_of_int b \<longleftrightarrow> a = b"
  by (simp add: num_of_int_def)

lemma num_eq_refl_iff [simp]: "num_eq a a \<longleftrightarrow> a \<noteq> NaN"
  by (simp add: num_eq_def)

lemma num_of_int_not_NaN [simp]: "num_of_int n \<noteq> NaN"
  by (simp add: num_of_int_def)

lemma num_le_int [simp]: "num_le (num_of_int a) (num_of_int b) \<longleftrightarrow> a \<le> b"
  by (simp add: num_of_int_def)

lemma num_lt_int [simp]: "num_lt (num_of_int a) (num_of_int b) \<longleftrightarrow> a < b"
  by (simp add: num_of_int_def)

lemma num_max_int: "num_max (num_of_int a) (num_of_int b) = num_of_int (max a b)"
  by (simp add: num_max_def max_def)

lemma is_safe_integer_int [simp]: "is_safe_integer (num_of_int n) \<longleftrightarrow> \<bar>n\<bar> \<le> max_safe"
  by (simp add: is_safe_integer_def num_of_int_def) (metis of_int_abs of_int_le_iff)

lemma is_safe_integerD:
  "is_safe_integer x \<Longrightarrow> \<exists>n. x = num_of_int n \<and> \<bar>n\<bar> \<le> max_safe"
proof -
  assume safe: "is_safe_integer x"
  then obtain r where r: "x = Fin r" and i: "of_int \<lfloor>r\<rfloor> = r" and b: "\<bar>r\<bar> \<le> of_int max_safe"
    by (auto simp: is_safe_integer_def split: num.splits)
  have "\<bar>of_int \<lfloor>r\<rfloor> :: rat\<bar> \<le> of_int max_safe" using b by (simp only: i)
  then have "\<bar>\<lfloor>r\<rfloor>\<bar> \<le> max_safe" by (metis of_int_abs of_int_le_iff)
  with r i show ?thesis by (metis num_of_int_def)
qed

lemma round_even_close: "\<bar>of_int (round_even x) - x\<bar> \<le> 1 / 2"
proof -
  have "of_int \<lfloor>x\<rfloor> \<le> x" "x < of_int \<lfloor>x\<rfloor> + 1" by linarith+
  then show ?thesis unfolding round_even_def Let_def abs_if
    by (simp only: of_int_add of_int_1 split: if_splits) linarith
qed

lemma round_even_int [simp]: "round_even (of_int n) = n"
  by (simp add: round_even_def)

lemma round_even_mono: "x \<le> y \<Longrightarrow> round_even x \<le> round_even y"
proof -
  assume le: "x \<le> y"
  show ?thesis
  proof (cases "\<lfloor>x\<rfloor> = \<lfloor>y\<rfloor>")
    case True
    with le show ?thesis unfolding round_even_def Let_def by auto
  next
    case False
    with floor_mono[OF le] have "\<lfloor>x\<rfloor> + 1 \<le> \<lfloor>y\<rfloor>" by linarith
    moreover have "round_even x \<le> \<lfloor>x\<rfloor> + 1" by (simp add: round_even_def Let_def)
    moreover have "\<lfloor>y\<rfloor> \<le> round_even y" by (simp add: round_even_def Let_def)
    ultimately show ?thesis by linarith
  qed
qed

lemma pow2_pos [simp]: "0 < pow2 e"
  by (simp add: pow2_def)

lemma pow2_Suc: "pow2 (e + 1) = 2 * pow2 e"
proof (cases "0 \<le> e")
  case True
  then show ?thesis by (simp add: pow2_def nat_add_distrib)
next
  case False
  then have "nat (- e) = Suc (nat (- (e + 1)))" by simp
  with False show ?thesis by (auto simp: pow2_def)
qed

lemma pow2_add_nat: "pow2 (e + int n) = pow2 e * 2 ^ n"
proof (induction n)
  case (Suc n)
  have "pow2 (e + int (Suc n)) = pow2 ((e + int n) + 1)" by (simp add: algebra_simps)
  also have "\<dots> = 2 * (pow2 e * 2 ^ n)" by (simp only: pow2_Suc Suc)
  finally show ?case by simp
qed simp

lemma pow2_mono: "d \<le> e \<Longrightarrow> pow2 d \<le> pow2 e"
proof -
  assume "d \<le> e"
  then obtain n where "e = d + int n" by (metis add.commute diff_add_cancel zle_iff_zadd)
  moreover have "pow2 d * 1 \<le> pow2 d * 2 ^ n" by (rule mult_left_mono) (simp_all add: less_imp_le)
  ultimately show ?thesis by (simp add: pow2_add_nat)
qed

lemma pow2_diff: "pow2 (int m - int n) = 2 ^ m / 2 ^ n"
  by (cases "n \<le> m") (auto simp: pow2_def power_diff divide_simps nat_diff_distrib of_nat_diff
      power_add[symmetric])

lemma ilog2_lower: "0 < a \<Longrightarrow> pow2 (ilog2 a) \<le> a"
proof -
  assume pos: "0 < a"
  obtain p q where pq: "quotient_of a = (p, q)" by fastforce
  have q0: "0 < q" by (rule quotient_of_denom_pos[OF pq])
  have a: "a = of_int p / of_int q" by (rule quotient_of_div[OF pq])
  with pos q0 have p0: "0 < p" by (simp add: zero_less_divide_iff)
  define e where "e = int (floorlog 2 (nat p)) - int (floorlog 2 (nat q))"
  have "2 ^ (floorlog 2 (nat p) - 1) \<le> nat p" and "1 \<le> floorlog 2 (nat p)"
    using floorlog_bounds[of "nat p" 2] p0 floorlog_eq_zero_iff[of 2 "nat p"] by auto
  then have "2 * (2::nat) ^ (floorlog 2 (nat p) - 1) = 2 ^ floorlog 2 (nat p)"
    by (metis One_nat_def Suc_pred less_eq_Suc_le power_Suc)
  with \<open>2 ^ (floorlog 2 (nat p) - 1) \<le> nat p\<close> have "2 ^ floorlog 2 (nat p) \<le> 2 * nat p" by linarith
  then have lp: "2 ^ floorlog 2 (nat p) \<le> 2 * (of_int p :: rat)"
    using p0 by (metis (mono_tags, lifting) nat_0_le of_int_of_nat_eq of_nat_le_iff of_nat_mult
        of_nat_numeral of_nat_power order_less_imp_le)
  have "nat q < 2 ^ floorlog 2 (nat q)" using floorlog_bounds[of "nat q" 2] q0 by simp
  then have uq: "(of_int q :: rat) < 2 ^ floorlog 2 (nat q)"
    using q0 by (metis (mono_tags, lifting) nat_0_le of_int_of_nat_eq of_nat_less_iff
        of_nat_numeral of_nat_power order_less_imp_le)
  have "pow2 e = 2 ^ floorlog 2 (nat p) / 2 ^ floorlog 2 (nat q)" by (simp add: e_def pow2_diff)
  also have "\<dots> \<le> 2 * of_int p / of_int q"
    using lp uq q0 p0 by (intro frac_le) auto
  finally have "pow2 e \<le> 2 * a" by (simp add: a)
  then have "pow2 (e - 1) \<le> a" using pow2_Suc[of "e - 1"] by simp
  then show ?thesis by (auto simp: ilog2_def pq Let_def e_def[symmetric])
qed

lemma ilog2_upper: "0 < a \<Longrightarrow> a < pow2 (ilog2 a + 1)"
proof -
  assume pos: "0 < a"
  obtain p q where pq: "quotient_of a = (p, q)" by fastforce
  have q0: "0 < q" by (rule quotient_of_denom_pos[OF pq])
  have a: "a = of_int p / of_int q" by (rule quotient_of_div[OF pq])
  with pos q0 have p0: "0 < p" by (simp add: zero_less_divide_iff)
  define e where "e = int (floorlog 2 (nat p)) - int (floorlog 2 (nat q))"
  have "2 ^ (floorlog 2 (nat q) - 1) \<le> nat q" and "1 \<le> floorlog 2 (nat q)"
    using floorlog_bounds[of "nat q" 2] q0 floorlog_eq_zero_iff[of 2 "nat q"] by auto
  then have "2 * (2::nat) ^ (floorlog 2 (nat q) - 1) = 2 ^ floorlog 2 (nat q)"
    by (metis One_nat_def Suc_pred less_eq_Suc_le power_Suc)
  with \<open>2 ^ (floorlog 2 (nat q) - 1) \<le> nat q\<close> have "2 ^ floorlog 2 (nat q) \<le> 2 * nat q" by linarith
  then have lq: "2 ^ floorlog 2 (nat q) \<le> 2 * (of_int q :: rat)"
    using q0 by (metis (mono_tags, lifting) nat_0_le of_int_of_nat_eq of_nat_le_iff of_nat_mult
        of_nat_numeral of_nat_power order_less_imp_le)
  have "nat p < 2 ^ floorlog 2 (nat p)" using floorlog_bounds[of "nat p" 2] p0 by simp
  then have up: "(of_int p :: rat) < 2 ^ floorlog 2 (nat p)"
    using p0 by (metis (mono_tags, lifting) nat_0_le of_int_of_nat_eq of_nat_less_iff
        of_nat_numeral of_nat_power order_less_imp_le)
  have "2 ^ floorlog 2 (nat q) * (of_int p :: rat) \<le> 2 * of_int q * of_int p"
    using lq p0 by (intro mult_right_mono) auto
  also have "\<dots> < 2 * of_int q * 2 ^ floorlog 2 (nat p)"
    using up q0 by (intro mult_strict_left_mono) auto
  finally have "a < 2 * (2 ^ floorlog 2 (nat p) / 2 ^ floorlog 2 (nat q))"
    using q0 by (simp add: a field_simps)
  then have "a < pow2 (e + 1)" by (simp only: pow2_Suc e_def pow2_diff)
  then show ?thesis by (auto simp: ilog2_def pq Let_def e_def[symmetric])
qed

lemma ilog2_unique:
  assumes "0 < a" and "pow2 e \<le> a" and "a < pow2 (e + 1)"
  shows "ilog2 a = e"
proof -
  have "\<not> e + 1 \<le> ilog2 a" using pow2_mono[of "e + 1" "ilog2 a"] ilog2_lower[OF assms(1)] assms(3) by linarith
  moreover have "\<not> ilog2 a + 1 \<le> e" using pow2_mono[of "ilog2 a + 1" e] ilog2_upper[OF assms(1)] assms(2) by linarith
  ultimately show ?thesis by linarith
qed

lemma round_even_near: "\<bar>x - of_int k\<bar> < 1 / 2 \<Longrightarrow> round_even x = k"
proof -
  assume near: "\<bar>x - of_int k\<bar> < 1 / 2"
  have "\<bar>of_int (round_even x) - x\<bar> \<le> 1 / 2" by (rule round_even_close)
  with near have "\<bar>of_int (round_even x) - of_int k :: rat\<bar> < 1" by linarith
  then have "\<bar>of_int (round_even x - k) :: rat\<bar> < 1" by simp
  then show ?thesis by linarith
qed

text \<open>A rounding is found by naming the binade and the nearest significand.\<close>

lemma round_pos_value:
  assumes "pow2 e \<le> a" and "a < pow2 (e + 1)" and "- 1022 \<le> e" "e \<le> 52"
    and "\<bar>a * 2 ^ nat (52 - e) - of_int k\<bar> < 1 / 2" and "\<bar>k\<bar> \<le> 2 ^ 60"
  shows "round_pos a = Fin (of_int k / 2 ^ nat (52 - e))"
proof -
  have pos: "0 < a" using assms(1) pow2_pos[of e] by linarith
  have e: "ilog2 a = e" by (rule ilog2_unique[OF pos assms(1,2)])
  have q: "pow2 (max (e - 52) (- 1074)) = 1 / 2 ^ nat (52 - e)"
    using assms(3,4) by (auto simp: pow2_def max_def)
  have "round_even (a / (1 / 2 ^ nat (52 - e))) = k" using assms(5) by (intro round_even_near) simp
  moreover have "of_int k / 2 ^ nat (52 - e) < pow2 1024"
  proof -
    have "of_int k / 2 ^ nat (52 - e) \<le> (2 ^ 60 :: rat)"
    proof -
      have "(of_int k :: rat) \<le> 2 ^ 60" using assms(6) by (metis abs_le_iff of_int_le_iff of_int_numeral of_int_power)
      also have "\<dots> \<le> 2 ^ 60 * 2 ^ nat (52 - e)" by simp
      finally show ?thesis by (simp add: divide_le_eq)
    qed
    also have "\<dots> < pow2 1024" by (simp add: pow2_def)
    finally show ?thesis .
  qed
  ultimately show ?thesis by (simp add: round_pos_def Let_def e q)
qed

text \<open>The relative error of rounding a value in the normal range is at most \<open>2^-53\<close>.\<close>

lemma round_pos_error:
  assumes pos: "0 < a" and normal: "- 1022 \<le> ilog2 a" and r: "round_pos a = Fin y"
  shows "\<bar>y - a\<bar> \<le> a / 2 ^ 53"
proof -
  define q where "q = pow2 (ilog2 a - 52)"
  have q0: "0 < q" by (simp add: q_def)
  have "max (ilog2 a - 52) (- 1074) = ilog2 a - 52" using normal by simp
  then have y: "y = of_int (round_even (a / q)) * q"
    using r by (auto simp: round_pos_def Let_def q_def split: if_splits)
  have "y - a = (of_int (round_even (a / q)) - a / q) * q" using q0 by (simp add: y algebra_simps)
  then have "\<bar>y - a\<bar> = \<bar>of_int (round_even (a / q)) - a / q\<bar> * q" using q0 by (simp add: abs_mult)
  also have "\<dots> \<le> 1 / 2 * q" using round_even_close[of "a / q"] q0 by (intro mult_right_mono) auto
  also have "\<dots> = pow2 (ilog2 a) / 2 ^ 53"
    using pow2_add_nat[of "ilog2 a - 52" 52] by (simp add: q_def)
  also have "\<dots> \<le> a / 2 ^ 53" using ilog2_lower[OF pos] by (intro divide_right_mono) auto
  finally show ?thesis .
qed

lemma round_pos_nonneg: "0 < a \<Longrightarrow> round_pos a = Fin y \<Longrightarrow> 0 \<le> y"
proof -
  assume a: "0 < a" and r: "round_pos a = Fin y"
  define q where "q = pow2 (max (ilog2 a - 52) (- 1074))"
  have "0 < q" unfolding q_def by (rule pow2_pos)
  with a have "of_int 0 \<le> a / q" by simp
  then have "round_even (of_int 0) \<le> round_even (a / q)" by (rule round_even_mono)
  then have "0 \<le> round_even (a / q)" by (simp only: round_even_int)
  then show ?thesis using r by (auto simp: round_pos_def Let_def q_def[symmetric] split: if_splits)
      (metis less_imp_le mult_nonneg_nonneg of_int_0_le_iff pow2_pos q_def)
qed

lemma floor_fraction:
  "\<lfloor>numeral a / numeral b :: rat\<rfloor> = numeral a div numeral b" "\<lfloor>1 / numeral b :: rat\<rfloor> = 1 div numeral b"
  using floor_divide_of_int_eq[of "numeral a" "numeral b", where ?'a = rat]
    floor_divide_of_int_eq[of 1 "numeral b", where ?'a = rat] by simp_all

end
