(* ===== verification/Js_Value.thy ===== *)
theory Js_Value
  imports Js_Number "HOL-Library.Char_ord"
begin

text \<open>
  Dynamic JavaScript values as the server's JSON-shaped records hold them, with the operations the
  source applies to them: property reads that give \<open>undefined\<close>, object spread, strict equality,
  truthiness, string and number conversion, and the regular expressions the code tests as
  character predicates. A string is a list of code units below 256.

  \<open>js_env\<close> holds what the host supplies: the SHA-256 of a text, the shortest decimal text of a
  number and its inverse, \<open>Date.parse\<close> and \<open>toISOString\<close>, the collation used by
  \<open>localeCompare\<close>, and the successive values of \<open>randomUUID\<close>.
\<close>

datatype json =
    JUndef
  | JNull
  | JBool bool
  | JNum num
  | JStr string
  | JArr "json list"
  | JObj "(string \<times> json) list"

type_synonym obj = "(string \<times> json) list"

record js_env =
  sha256_hex :: "string \<Rightarrow> string"
  num_text :: "rat \<Rightarrow> string"
  text_num :: "string \<Rightarrow> num"
  parse_date :: "string \<Rightarrow> int option"
  iso_text :: "int \<Rightarrow> string"
  collate :: "string \<Rightarrow> string \<Rightarrow> int"
  uuid_at :: "nat \<Rightarrow> string"

section \<open>Objects\<close>

lemma size_entry: "(k, v) \<in> set kvs \<Longrightarrow> size v < Suc (size_list (size_prod (\<lambda>x. 0) size) kvs)"
  by (induction kvs) auto

definition oget :: "obj \<Rightarrow> string \<Rightarrow> json" where
  "oget ob k = (case map_of ob k of None \<Rightarrow> JUndef | Some v \<Rightarrow> v)"

definition oset :: "string \<Rightarrow> json \<Rightarrow> obj \<Rightarrow> obj" where
  "oset k v ob = AList.update k v ob"

definition has_own :: "obj \<Rightarrow> string \<Rightarrow> bool" where
  "has_own ob k \<longleftrightarrow> k \<in> set (map fst ob)"

text \<open>\<open>{ ...base, ...extra }\<close>: later entries win, earlier keys keep their place.\<close>

definition spread :: "obj \<Rightarrow> obj \<Rightarrow> obj" where
  "spread base extra = fold (\<lambda>(k, v). oset k v) extra base"

text \<open>
  Names every plain object inherits from \<open>Object.prototype\<close>: a bracket read with one of these
  is not \<open>undefined\<close> even when the object has no such entry.
\<close>

definition proto_keys :: "string list" where
  "proto_keys = [''constructor'', ''__defineGetter__'', ''__defineSetter__'', ''hasOwnProperty'',
     ''__lookupGetter__'', ''__lookupSetter__'', ''isPrototypeOf'', ''propertyIsEnumerable'',
     ''toString'', ''valueOf'', ''__proto__'', ''toLocaleString'']"

lemma oget_oset: "oget (oset k v ob) j = (if j = k then v else oget ob j)"
  by (simp add: oget_def oset_def update_conv)

lemma oget_oset_same [simp]: "oget (oset k v ob) k = v"
  by (simp add: oget_oset)

lemma oget_Nil [simp]: "oget [] k = JUndef"
  by (simp add: oget_def)

lemma oget_Cons [simp]: "oget ((j, v) # ob) k = (if k = j then v else oget ob k)"
  by (simp add: oget_def)

lemma spread_Nil [simp]: "spread base [] = base"
  by (simp add: spread_def)

lemma spread_Cons [simp]: "spread base ((k, v) # extra) = spread (oset k v base) extra"
  by (simp add: spread_def)

lemma oget_spread_other: "k \<notin> set (map fst extra) \<Longrightarrow> oget (spread base extra) k = oget base k"
  by (induction extra arbitrary: base) (auto simp: oget_oset)

lemma oget_spread_own:
  "distinct (map fst extra) \<Longrightarrow> k \<in> set (map fst extra) \<Longrightarrow> oget (spread base extra) k = oget extra k"
proof (induction extra arbitrary: base)
  case (Cons e extra)
  obtain j v where e: "e = (j, v)" by fastforce
  show ?case
  proof (cases "k = j")
    case True
    with Cons.prems e show ?thesis by (simp add: oget_spread_other oget_oset)
  next
    case False
    with Cons e show ?thesis by auto
  qed
qed simp

lemma oset_in: "(k', x) \<in> set (oset k v ob) \<Longrightarrow> (k', x) = (k, v) \<or> (k', x) \<in> set ob"
  unfolding oset_def by (induction ob) (auto split: if_splits)

lemma spread_in: "(k, x) \<in> set (spread base extra) \<Longrightarrow> (k, x) \<in> set base \<or> (k, x) \<in> set extra"
proof (induction extra arbitrary: base)
  case (Cons e extra)
  obtain j w where e: "e = (j, w)" by fastforce
  with Cons.prems have "(k, x) \<in> set (spread (oset j w base) extra)" by simp
  from Cons.IH[OF this] show ?case using e oset_in[of k x j w base] by auto
qed simp

section \<open>Type tests, equality and conversions\<close>

definition is_str :: "json \<Rightarrow> bool" where
  "is_str v = (case v of JStr _ \<Rightarrow> True | _ \<Rightarrow> False)"

definition is_obj :: "json \<Rightarrow> bool" where
  "is_obj v = (case v of JObj _ \<Rightarrow> True | _ \<Rightarrow> False)"

definition is_arr :: "json \<Rightarrow> bool" where
  "is_arr v = (case v of JArr _ \<Rightarrow> True | _ \<Rightarrow> False)"

definition is_bool :: "json \<Rightarrow> bool" where
  "is_bool v = (case v of JBool _ \<Rightarrow> True | _ \<Rightarrow> False)"

text \<open>Strict equality; two separately built arrays or objects are never identical.\<close>

definition strict_eq :: "json \<Rightarrow> json \<Rightarrow> bool" where
  "strict_eq a b = (case (a, b) of
       (JNum x, JNum y) \<Rightarrow> num_eq x y
     | (JArr _, _) \<Rightarrow> False
     | (JObj _, _) \<Rightarrow> False
     | _ \<Rightarrow> a = b)"

definition truthy :: "json \<Rightarrow> bool" where
  "truthy v = (case v of JUndef \<Rightarrow> False | JNull \<Rightarrow> False | JBool b \<Rightarrow> b
     | JNum n \<Rightarrow> n \<noteq> Fin 0 \<and> n \<noteq> NaN | JStr s \<Rightarrow> s \<noteq> [] | _ \<Rightarrow> True)"

definition nullish :: "json \<Rightarrow> bool" where
  "nullish v \<longleftrightarrow> v = JUndef \<or> v = JNull"

definition or_else :: "json \<Rightarrow> json \<Rightarrow> json" where
  "or_else a b = (if nullish a then b else a)"

definition jint :: "int \<Rightarrow> json" where
  "jint n = JNum (num_of_int n)"

fun join_with :: "string \<Rightarrow> string list \<Rightarrow> string" where
  "join_with sep [] = []"
| "join_with sep [x] = x"
| "join_with sep (x # xs) = x @ sep @ join_with sep xs"

text \<open>\<open>String(v)\<close>.\<close>

fun to_str :: "js_env \<Rightarrow> json \<Rightarrow> string" where
  "to_str E JUndef = ''undefined''"
| "to_str E JNull = ''null''"
| "to_str E (JBool b) = (if b then ''true'' else ''false'')"
| "to_str E (JNum n) = (case n of Fin r \<Rightarrow> num_text E r | PInf \<Rightarrow> ''Infinity''
     | NInf \<Rightarrow> ''-Infinity'' | NaN \<Rightarrow> ''NaN'')"
| "to_str E (JStr s) = s"
| "to_str E (JArr xs) =
     join_with '','' (map (\<lambda>v. if v = JUndef \<or> v = JNull then [] else to_str E v) xs)"
| "to_str E (JObj _) = ''[object Object]''"

text \<open>\<open>Number(v)\<close>.\<close>

definition to_num :: "js_env \<Rightarrow> json \<Rightarrow> num" where
  "to_num E v = (case v of JUndef \<Rightarrow> NaN | JNull \<Rightarrow> Fin 0 | JBool b \<Rightarrow> Fin (if b then 1 else 0)
     | JNum n \<Rightarrow> n | JStr s \<Rightarrow> text_num E s | _ \<Rightarrow> text_num E (to_str E v))"

lemma is_str_iff: "is_str v \<longleftrightarrow> (\<exists>s. v = JStr s)"
  by (cases v) (auto simp: is_str_def)

lemma is_obj_iff: "is_obj v \<longleftrightarrow> (\<exists>ob. v = JObj ob)"
  by (cases v) (auto simp: is_obj_def)

lemma is_arr_iff: "is_arr v \<longleftrightarrow> (\<exists>xs. v = JArr xs)"
  by (cases v) (auto simp: is_arr_def)

lemma is_bool_iff: "is_bool v \<longleftrightarrow> (\<exists>b. v = JBool b)"
  by (cases v) (auto simp: is_bool_def)

lemma type_tests [simp]:
  "is_str (JStr s)" "\<not> is_str JUndef" "\<not> is_str JNull" "\<not> is_str (JBool b)" "\<not> is_str (JNum n)"
  "\<not> is_str (JArr xs)" "\<not> is_str (JObj ob)"
  "is_obj (JObj ob)" "\<not> is_obj JUndef" "\<not> is_obj JNull" "\<not> is_obj (JBool b)" "\<not> is_obj (JNum n)"
  "\<not> is_obj (JStr s)" "\<not> is_obj (JArr xs)"
  by (simp_all add: is_str_def is_obj_def)

lemma strict_eq_str [simp]: "strict_eq v (JStr s) \<longleftrightarrow> v = JStr s" "strict_eq (JStr s) v \<longleftrightarrow> v = JStr s"
  by (cases v; auto simp: strict_eq_def)+

lemma strict_eq_bool [simp]: "strict_eq v (JBool b) \<longleftrightarrow> v = JBool b"
  by (cases v) (auto simp: strict_eq_def)

lemma strict_eq_undef [simp]: "strict_eq v JUndef \<longleftrightarrow> v = JUndef"
  by (cases v) (auto simp: strict_eq_def)

lemma strict_eq_null [simp]: "strict_eq v JNull \<longleftrightarrow> v = JNull"
  by (cases v) (auto simp: strict_eq_def)

lemma strict_eq_jint [simp]: "strict_eq v (jint n) \<longleftrightarrow> v = jint n"
  by (cases v) (auto simp: strict_eq_def jint_def num_eq_def)

lemma strict_eq_imp_eq: "strict_eq a b \<Longrightarrow> a = b"
  by (cases a; cases b) (auto simp: strict_eq_def num_eq_def)

lemma jint_inject [simp]: "jint a = jint b \<longleftrightarrow> a = b"
  by (simp add: jint_def)

section \<open>Strings\<close>

definition code :: "char \<Rightarrow> nat" where
  "code c = of_char c"

definition is_ws :: "char \<Rightarrow> bool" where
  "is_ws c \<longleftrightarrow> (9 \<le> code c \<and> code c \<le> 13) \<or> code c = 32 \<or> code c = 160"

definition trim :: "string \<Rightarrow> string" where
  "trim s = rev (dropWhile is_ws (rev (dropWhile is_ws s)))"

definition lower_char :: "char \<Rightarrow> char" where
  "lower_char c = (if (65 \<le> code c \<and> code c \<le> 90) \<or> (192 \<le> code c \<and> code c \<le> 222 \<and> code c \<noteq> 215)
                   then char_of (code c + 32) else c)"

definition lower :: "string \<Rightarrow> string" where
  "lower s = map lower_char s"

definition is_digit :: "char \<Rightarrow> bool" where
  "is_digit c \<longleftrightarrow> 48 \<le> code c \<and> code c \<le> 57"

definition is_lower_alpha :: "char \<Rightarrow> bool" where
  "is_lower_alpha c \<longleftrightarrow> 97 \<le> code c \<and> code c \<le> 122"

definition is_upper_alpha :: "char \<Rightarrow> bool" where
  "is_upper_alpha c \<longleftrightarrow> 65 \<le> code c \<and> code c \<le> 90"

definition is_lower_hex :: "char \<Rightarrow> bool" where
  "is_lower_hex c \<longleftrightarrow> is_digit c \<or> (97 \<le> code c \<and> code c \<le> 102)"

definition is_hex :: "char \<Rightarrow> bool" where
  "is_hex c \<longleftrightarrow> is_lower_hex c \<or> (65 \<le> code c \<and> code c \<le> 70)"

definition starts_with :: "string \<Rightarrow> string \<Rightarrow> bool" where
  "starts_with s p \<longleftrightarrow> take (length p) s = p"

definition ends_with :: "string \<Rightarrow> string \<Rightarrow> bool" where
  "ends_with s p \<longleftrightarrow> length p \<le> length s \<and> drop (length s - length p) s = p"

fun has_part :: "string \<Rightarrow> string \<Rightarrow> bool" where
  "has_part p [] \<longleftrightarrow> p = []"
| "has_part p (x # xs) \<longleftrightarrow> starts_with (x # xs) p \<or> has_part p xs"

fun split_on :: "char \<Rightarrow> string \<Rightarrow> string list" where
  "split_on c [] = [[]]"
| "split_on c (x # xs) =
     (if x = c then [] # split_on c xs
      else (case split_on c xs of [] \<Rightarrow> [[x]] | w # ws \<Rightarrow> (x # w) # ws))"

text \<open>\<open>s.replace(/\.$/, "")\<close>\<close>

definition drop_dot :: "string \<Rightarrow> string" where
  "drop_dot s = (if s \<noteq> [] \<and> last s = CHR ''.'' then butlast s else s)"

text \<open>\<open>/^[a-f0-9]{64}$/\<close>, \<open>/^[A-Za-z0-9._:-]{16,200}$/\<close> and the RFC 4122 pattern.\<close>

definition sha_pattern :: "string \<Rightarrow> bool" where
  "sha_pattern s \<longleftrightarrow> length s = 64 \<and> list_all is_lower_hex s"

definition is_key_char :: "char \<Rightarrow> bool" where
  "is_key_char c \<longleftrightarrow> is_digit c \<or> is_lower_alpha c \<or> is_upper_alpha c \<or> c \<in> set ''._:-''"

definition key_pattern :: "string \<Rightarrow> bool" where
  "key_pattern s \<longleftrightarrow> 16 \<le> length s \<and> length s \<le> 200 \<and> list_all is_key_char s"

definition uuid_pattern :: "string \<Rightarrow> bool" where
  "uuid_pattern s \<longleftrightarrow> length s = 36
     \<and> s ! 8 = CHR ''-'' \<and> s ! 13 = CHR ''-'' \<and> s ! 18 = CHR ''-'' \<and> s ! 23 = CHR ''-''
     \<and> (\<forall>i \<in> set [0..<36]. i \<in> {8, 13, 18, 23} \<or> is_hex (s ! i))
     \<and> s ! 14 \<in> set ''12345678'' \<and> s ! 19 \<in> set ''89abAB''"

definition valid_date_time :: "js_env \<Rightarrow> json \<Rightarrow> bool" where
  "valid_date_time E v = (case v of JStr s \<Rightarrow> trim s \<noteq> [] \<and> parse_date E s \<noteq> None | _ \<Rightarrow> False)"

lemma split_on_not_Nil [simp]: "split_on c s \<noteq> []"
  by (induction s) (auto split: list.splits)

lemma split_on_no_sep: "w \<in> set (split_on c s) \<Longrightarrow> c \<notin> set w"
  by (induction s arbitrary: w) (auto split: if_splits list.splits)

lemma split_on_join: "join_with [c] (split_on c s) = s"
proof (induction s)
  case (Cons x xs)
  show ?case
  proof (cases "split_on c xs")
    case (Cons w ws)
    with Cons.IH show ?thesis by (cases ws) auto
  qed simp
qed simp

lemma trim_Nil [simp]: "trim [] = []"
  by (simp add: trim_def)

lemma length_trim_le: "length (trim s) \<le> length s"
  unfolding trim_def
  by (metis (no_types, lifting) length_dropWhile_le length_rev order_trans)

lemma lower_idem: "lower (lower s) = lower s"
proof -
  have "lower_char (lower_char c) = lower_char c" for c
  proof -
    have "code c < 256" by (simp add: code_def)
    then show ?thesis by (auto simp: lower_char_def code_def)
  qed
  then show ?thesis by (simp add: lower_def)
qed

section \<open>Locale comparison\<close>

text \<open>What \<open>localeCompare\<close> guarantees: a consistent comparator, antisymmetric and transitive.\<close>

definition collation_ok :: "js_env \<Rightarrow> bool" where
  "collation_ok E \<longleftrightarrow> (\<forall>a b. sgn (collate E b a) = - sgn (collate E a b))
     \<and> (\<forall>a b d. collate E a b \<le> 0 \<longrightarrow> collate E b d \<le> 0 \<longrightarrow> collate E a d \<le> 0)"

lemma collation_order:
  assumes "collation_ok E"
  shows "collate E b a \<le> 0 \<longleftrightarrow> 0 \<le> collate E a b" and "collate E b a = 0 \<longleftrightarrow> collate E a b = 0"
    and "collate E a b \<le> 0 \<Longrightarrow> collate E b d \<le> 0 \<Longrightarrow> collate E a d \<le> 0"
    and "collate E a b < 0 \<Longrightarrow> collate E b d \<le> 0 \<Longrightarrow> collate E a d < 0"
    and "collate E a b \<le> 0 \<Longrightarrow> collate E b d < 0 \<Longrightarrow> collate E a d < 0"
proof -
  have sg: "sgn (collate E b a) = - sgn (collate E a b)" for a b
    using assms unfolding collation_ok_def by blast
  have le: "collate E b a \<le> 0 \<longleftrightarrow> 0 \<le> collate E a b" for a b
    using sg[of b a] unfolding sgn_if by (simp split: if_splits)
  have tr: "collate E a b \<le> 0 \<Longrightarrow> collate E b d \<le> 0 \<Longrightarrow> collate E a d \<le> 0" for a b d
    using assms unfolding collation_ok_def by blast
  show "collate E b a \<le> 0 \<longleftrightarrow> 0 \<le> collate E a b" by (rule le)
  show "collate E b a = 0 \<longleftrightarrow> collate E a b = 0"
    using sg[of b a] unfolding sgn_if by (simp split: if_splits)
  show "collate E a b \<le> 0 \<Longrightarrow> collate E b d \<le> 0 \<Longrightarrow> collate E a d \<le> 0" by (rule tr)
  show "collate E a b < 0 \<Longrightarrow> collate E b d \<le> 0 \<Longrightarrow> collate E a d < 0"
    using tr[of b d a] tr[of a b d] le[of d a] le[of b a] by linarith
  show "collate E a b \<le> 0 \<Longrightarrow> collate E b d < 0 \<Longrightarrow> collate E a d < 0"
    using tr[of d a b] tr[of a b d] le[of d a] le[of d b] by linarith
qed

end
