(* ===== verification/Additive_Schema.thy ===== *)
theory Additive_Schema
  imports Js_Value
begin

text \<open>
  Input schemas of the additive business actions and their validator, from
  \<open>src/shared/additive-business-actions.ts\<close> (the schema builders) and
  \<open>src/server/additive-business-engine.ts\<close> (\<open>asObject\<close>, \<open>asObjects\<close>, \<open>asStrings\<close>,
  \<open>validateSchemaValue\<close>, \<open>validateInput\<close>). A schema is a tagged union over its \<open>type\<close>
  keyword; a schema without one carries only \<open>const\<close>. Error messages keep their kind, not the
  interpolated label. The last section says what a schema means without the validator, and that the validator decides it.
\<close>

datatype schema_err =
    NotAllowedValue
  | NotTheConstant
  | NotAString
  | TooShort
  | TooLong
  | InvalidFormat
  | NotAUuid
  | NotADateTime
  | NotASafeInteger
  | BelowMinimum
  | AboveMaximum
  | NotAFiniteNumber
  | NotABoolean
  | NotAnArray
  | TooManyItems
  | NotAnObject
  | NotRecordIds
  | FieldRequired string
  | FieldNotAllowed string

datatype re = Sha256Re | KeyRe

datatype str_format = Uuid | DateTime

datatype schema =
    SString (s_min_length: "nat option") (s_max_length: "nat option") (s_pattern: "re option")
      (s_format: "str_format option") (s_enum: "string list option")
  | SInteger int int
  | SNumber rat rat
  | SBoolean
  | SArray schema nat
  | SObject (s_required: "string list") (s_properties: "(string \<times> schema) list option") (s_closed: bool)
  | SConst json

section \<open>Builders\<close>

definition uuid_schema :: schema where
  "uuid_schema = SString None None None (Some Uuid) None"

definition text_schema :: "nat \<Rightarrow> schema" where
  "text_schema n = SString (Some 1) (Some n) None None None"

definition optional_text_schema :: "nat \<Rightarrow> schema" where
  "optional_text_schema n = SString None (Some n) None None None"

definition integer_schema :: "int \<Rightarrow> int \<Rightarrow> schema" where
  "integer_schema lo hi = SInteger lo hi"

text \<open>The largest finite double, \<open>Number.MAX_VALUE\<close>.\<close>

definition max_value :: rat where
  "max_value = of_int (2 ^ 1024 - 2 ^ 971)"

definition number_schema :: schema where
  "number_schema = SNumber (- max_value) max_value"

definition boolean_schema :: schema where
  "boolean_schema = SBoolean"

definition date_time_schema :: schema where
  "date_time_schema = SString None None None (Some DateTime) None"

definition sha256_schema :: schema where
  "sha256_schema = SString None None (Some Sha256Re) None None"

definition object_schema :: schema where
  "object_schema = SObject [] None False"

definition array_schema :: "schema \<Rightarrow> nat \<Rightarrow> schema" where
  "array_schema items n = SArray items n"

definition enum_schema :: "string list \<Rightarrow> schema" where
  "enum_schema vs = SString None None None None (Some vs)"

definition idempotency_key_schema :: schema where
  "idempotency_key_schema = SString (Some 16) (Some 200) (Some KeyRe) None None"

definition approval_schema :: schema where
  "approval_schema = SObject
     [''approved'', ''approvedBy'', ''approvedAt'', ''decisionId'', ''reason'']
     (Some [(''approved'', SConst (JBool True)),
            (''approvedBy'', SString (Some 1) (Some 200) None None None),
            (''approvedAt'', SString None None None (Some DateTime) None),
            (''decisionId'', SString (Some 16) (Some 200) (Some KeyRe) None None),
            (''reason'', SString (Some 1) (Some 1000) None None None)])
     True"

definition dry_run_schema :: schema where
  "dry_run_schema = boolean_schema"

definition evidence_ids_schema :: schema where
  "evidence_ids_schema = array_schema uuid_schema 500"

definition model_id_schema :: schema where
  "model_id_schema = text_schema 200"

section \<open>Shape checks\<close>

definition as_object :: "json \<Rightarrow> schema_err + obj" where
  "as_object v = (case v of JObj d \<Rightarrow> Inr d | _ \<Rightarrow> Inl NotAnObject)"

definition as_objects :: "json \<Rightarrow> schema_err + obj list" where
  "as_objects v = (case v of JArr vs \<Rightarrow> each_e as_object vs | _ \<Rightarrow> Inl NotAnArray)"

definition as_strings :: "json \<Rightarrow> schema_err + string list" where
  "as_strings v =
     (case v of
        JArr vs \<Rightarrow>
          if \<exists>x \<in> set vs. \<not> is_str x then Inl NotRecordIds
          else Inr (uniq (map (\<lambda>x. case x of JStr s \<Rightarrow> s | _ \<Rightarrow> []) vs))
      | _ \<Rightarrow> Inl NotRecordIds)"

text \<open>
  \<open>ob[k] === undefined\<close> with a name chosen at run time: an object without the entry still answers
  for the names it inherits from \<open>Object.prototype\<close>.
\<close>

definition lookup_undefined :: "obj \<Rightarrow> string \<Rightarrow> bool" where
  "lookup_undefined ob k \<longleftrightarrow> (if has_own ob k then oget ob k = JUndef else k \<notin> set proto_keys)"

section \<open>The validator\<close>

definition matches_re :: "re \<Rightarrow> string \<Rightarrow> bool" where
  "matches_re p s = (case p of Sha256Re \<Rightarrow> sha_pattern s | KeyRe \<Rightarrow> key_pattern s)"

definition check_that :: "bool \<Rightarrow> 'e \<Rightarrow> 'e + unit" where
  "check_that ok e = (if ok then Inr () else Inl e)"

definition validate_string ::
  "js_env \<Rightarrow> nat option \<Rightarrow> nat option \<Rightarrow> re option \<Rightarrow> str_format option \<Rightarrow> string list option \<Rightarrow> json \<Rightarrow>
   schema_err + unit" where
  "validate_string E lo hi pat fmt enum v =
     bind_e (check_that (case enum of None \<Rightarrow> True | Some vs \<Rightarrow> v \<in> JStr ` set vs) NotAllowedValue) (\<lambda>_.
       case v of
         JStr s \<Rightarrow>
           bind_e (check_that (case lo of None \<Rightarrow> True | Some n \<Rightarrow> n \<le> length s) TooShort) (\<lambda>_.
           bind_e (check_that (case hi of None \<Rightarrow> True | Some n \<Rightarrow> length s \<le> n) TooLong) (\<lambda>_.
           bind_e (check_that (case pat of None \<Rightarrow> True | Some p \<Rightarrow> matches_re p s) InvalidFormat) (\<lambda>_.
           bind_e (check_that (fmt = Some Uuid \<longrightarrow> uuid_pattern s) NotAUuid) (\<lambda>_.
           check_that (fmt = Some DateTime \<longrightarrow> valid_date_time E v) NotADateTime))))
       | _ \<Rightarrow> Inl NotAString)"

definition validate_integer :: "int \<Rightarrow> int \<Rightarrow> json \<Rightarrow> schema_err + unit" where
  "validate_integer lo hi v =
     (case v of
        JNum (Fin r) \<Rightarrow>
          if \<not> is_safe_integer (Fin r) then Inl NotASafeInteger
          else if r < of_int lo then Inl BelowMinimum
          else if r > of_int hi then Inl AboveMaximum
          else Inr ()
      | _ \<Rightarrow> Inl NotASafeInteger)"

definition validate_number :: "rat \<Rightarrow> rat \<Rightarrow> json \<Rightarrow> schema_err + unit" where
  "validate_number lo hi v =
     (case v of
        JNum (Fin r) \<Rightarrow>
          if r < lo then Inl BelowMinimum else if r > hi then Inl AboveMaximum else Inr ()
      | _ \<Rightarrow> Inl NotAFiniteNumber)"

fun first_missing :: "obj \<Rightarrow> string list \<Rightarrow> schema_err + unit" where
  "first_missing d [] = Inr ()"
| "first_missing d (f # fs) =
     (if lookup_undefined d f then Inl (FieldRequired f) else first_missing d fs)"

text \<open>
  \<open>validate_field\<close> looks the field's schema up in \<open>properties\<close>. A name inherited from
  \<open>Object.prototype\<close> finds a value there that is truthy and carries no schema keyword: such a
  field is accepted whatever it holds.
\<close>

fun validate_value :: "js_env \<Rightarrow> schema \<Rightarrow> json \<Rightarrow> schema_err + unit"
  and validate_items :: "js_env \<Rightarrow> schema \<Rightarrow> json list \<Rightarrow> schema_err + unit"
  and validate_fields :: "js_env \<Rightarrow> (string \<times> schema) list \<Rightarrow> bool \<Rightarrow> obj \<Rightarrow> schema_err + unit"
where
  "validate_value E (SString lo hi pat fmt enum) v = validate_string E lo hi pat fmt enum v"
| "validate_value E (SInteger lo hi) v = validate_integer lo hi v"
| "validate_value E (SNumber lo hi) v = validate_number lo hi v"
| "validate_value E SBoolean v = check_that (is_bool v) NotABoolean"
| "validate_value E (SConst c) v = check_that (strict_eq v c) NotTheConstant"
| "validate_value E (SArray items n) (JArr vs) =
     (if length vs > n then Inl TooManyItems else validate_items E items vs)"
| "validate_value E (SArray items n) _ = Inl NotAnArray"
| "validate_value E (SObject req props strict) (JObj d) =
     (case first_missing d req of
        Inl e \<Rightarrow> Inl e
      | Inr _ \<Rightarrow> (case props of None \<Rightarrow> Inr () | Some ps \<Rightarrow> validate_fields E ps strict d))"
| "validate_value E (SObject req props strict) _ = Inl NotAnObject"
| "validate_items E items [] = Inr ()"
| "validate_items E items (v # vs) =
     (case validate_value E items v of Inl e \<Rightarrow> Inl e | Inr _ \<Rightarrow> validate_items E items vs)"
| "validate_fields E ps strict [] = Inr ()"
| "validate_fields E ps strict ((f, v) # fs) =
     (case map_of ps f of
        None \<Rightarrow>
          if f \<notin> set proto_keys \<and> strict then Inl (FieldNotAllowed f) else validate_fields E ps strict fs
      | Some s \<Rightarrow>
          (case validate_value E s v of Inl e \<Rightarrow> Inl e | Inr _ \<Rightarrow> validate_fields E ps strict fs))"

record input_schema =
  i_required :: "string list"
  i_properties :: "(string \<times> schema) list"

definition validate_input :: "js_env \<Rightarrow> input_schema \<Rightarrow> obj \<Rightarrow> schema_err + unit" where
  "validate_input E sch input =
     (case first_missing input (i_required sch) of
        Inl e \<Rightarrow> Inl e
      | Inr _ \<Rightarrow> validate_fields E (i_properties sch) True input)"

section \<open>What acceptance guarantees\<close>

lemma check_that_ok [simp]: "check_that b e = Inr u \<longleftrightarrow> b"
  by (simp add: check_that_def)

lemma check_that_True [simp]: "check_that True e = Inr ()"
  by (simp add: check_that_def)

lemma first_missing_ok:
  "first_missing d fs = Inr u \<longleftrightarrow> (\<forall>f \<in> set fs. \<not> lookup_undefined d f)"
  by (induction fs) auto

lemma validate_items_ok:
  "validate_items E s vs = Inr u \<longleftrightarrow> (\<forall>v \<in> set vs. validate_value E s v = Inr ())"
  by (induction vs) (auto split: sum.splits)

lemma validate_fields_ok:
  "validate_fields E ps strict fs = Inr u \<longleftrightarrow>
     (\<forall>(f, v) \<in> set fs. case map_of ps f of
        None \<Rightarrow> strict \<longrightarrow> f \<in> set proto_keys
      | Some s \<Rightarrow> validate_value E s v = Inr ())"
proof (induction fs)
  case (Cons x fs)
  obtain f v where x: "x = (f, v)" by fastforce
  show ?case
  proof (cases "map_of ps f")
    case None
    with Cons x show ?thesis by auto
  next
    case (Some s)
    then show ?thesis using Cons x by (cases "validate_value E s v") auto
  qed
qed simp

lemma validate_input_ok:
  "validate_input E sch input = Inr u \<longleftrightarrow>
     (\<forall>f \<in> set (i_required sch). \<not> lookup_undefined input f)
     \<and> (\<forall>(f, v) \<in> set input. case map_of (i_properties sch) f of
          None \<Rightarrow> f \<in> set proto_keys
        | Some s \<Rightarrow> validate_value E s v = Inr ())"
proof (cases "first_missing input (i_required sch)")
  case (Inl e)
  then have "\<not> (\<forall>f \<in> set (i_required sch). \<not> lookup_undefined input f)"
    using first_missing_ok[of input "i_required sch" "()"] by auto
  with Inl show ?thesis by (auto simp: validate_input_def)
next
  case (Inr w)
  then have "\<forall>f \<in> set (i_required sch). \<not> lookup_undefined input f"
    using first_missing_ok by blast
  with Inr show ?thesis by (simp add: validate_input_def validate_fields_ok cong: option.case_cong)
qed

lemma lookup_undefined_plain:
  "k \<notin> set proto_keys \<Longrightarrow> lookup_undefined d k \<longleftrightarrow> oget d k = JUndef"
proof -
  assume "k \<notin> set proto_keys"
  moreover have "\<not> has_own d k \<Longrightarrow> oget d k = JUndef"
    by (force simp: has_own_def oget_def dest: map_of_SomeD split: option.splits)
  ultimately show ?thesis by (auto simp: lookup_undefined_def)
qed

lemma oget_in: "oget d k \<noteq> JUndef \<Longrightarrow> (k, oget d k) \<in> set d"
  by (auto simp: oget_def dest: map_of_SomeD split: option.splits)

text \<open>A declared field that is present satisfies its own schema.\<close>

lemma validated_field:
  assumes "validate_input E sch input = Inr u" and "map_of (i_properties sch) f = Some s"
    and "oget input f \<noteq> JUndef"
  shows "validate_value E s (oget input f) = Inr ()"
  using assms oget_in[OF assms(3)] by (auto simp: validate_input_ok)

lemma required_present:
  assumes "validate_input E sch input = Inr u" and "f \<in> set (i_required sch)" and "f \<notin> set proto_keys"
  shows "oget input f \<noteq> JUndef"
  using assms lookup_undefined_plain by (auto simp: validate_input_ok)

lemma validated_enum:
  "validate_value E (enum_schema vs) v = Inr u \<Longrightarrow> \<exists>s \<in> set vs. v = JStr s"
  by (auto simp: enum_schema_def validate_string_def bind_e_Inr_iff)

lemma validated_text: "validate_value E (text_schema n) v = Inr u \<Longrightarrow> \<exists>s. v = JStr s \<and> s \<noteq> [] \<and> length s \<le> n"
  by (cases v) (auto simp: text_schema_def validate_string_def bind_e_Inr_iff)

lemma validated_uuid: "validate_value E uuid_schema v = Inr u \<Longrightarrow> \<exists>s. v = JStr s \<and> uuid_pattern s"
  by (cases v) (auto simp: uuid_schema_def validate_string_def bind_e_Inr_iff)

lemma validated_key:
  "validate_value E idempotency_key_schema v = Inr u \<Longrightarrow> \<exists>s. v = JStr s \<and> key_pattern s"
  by (cases v) (auto simp: idempotency_key_schema_def validate_string_def bind_e_Inr_iff matches_re_def)

lemma validated_bool: "validate_value E boolean_schema v = Inr u \<Longrightarrow> \<exists>b. v = JBool b"
  by (simp add: boolean_schema_def is_bool_iff)

section \<open>The meaning of a schema\<close>

text \<open>
  What a schema says of a value, stated without the validator: types, lengths, patterns, ranges,
  required members and closed objects. The validator accepts exactly the values that conform.
\<close>

definition conforming_string ::
  "js_env \<Rightarrow> nat option \<Rightarrow> nat option \<Rightarrow> re option \<Rightarrow> str_format option \<Rightarrow> string list option \<Rightarrow> string \<Rightarrow> bool" where
  "conforming_string E lo hi pat fmt enum s \<longleftrightarrow>
     (\<forall>n. lo = Some n \<longrightarrow> n \<le> length s) \<and> (\<forall>n. hi = Some n \<longrightarrow> length s \<le> n)
     \<and> (pat = Some Sha256Re \<longrightarrow> sha_pattern s) \<and> (pat = Some KeyRe \<longrightarrow> key_pattern s)
     \<and> (fmt = Some Uuid \<longrightarrow> uuid_pattern s) \<and> (fmt = Some DateTime \<longrightarrow> valid_date_time E (JStr s))
     \<and> (\<forall>ws. enum = Some ws \<longrightarrow> s \<in> set ws)"

function conforms :: "js_env \<Rightarrow> schema \<Rightarrow> json \<Rightarrow> bool" where
  "conforms E (SString lo hi pat fmt enum) v \<longleftrightarrow> (\<exists>s. v = JStr s \<and> conforming_string E lo hi pat fmt enum s)"
| "conforms E (SInteger lo hi) v \<longleftrightarrow> (\<exists>n. v = JNum (num_of_int n) \<and> \<bar>n\<bar> \<le> max_safe \<and> lo \<le> n \<and> n \<le> hi)"
| "conforms E (SNumber lo hi) v \<longleftrightarrow> (\<exists>r. v = JNum (Fin r) \<and> lo \<le> r \<and> r \<le> hi)"
| "conforms E SBoolean v \<longleftrightarrow> (\<exists>b. v = JBool b)"
| "conforms E (SConst c) v \<longleftrightarrow> strict_eq v c"
| "conforms E (SArray items n) v \<longleftrightarrow>
     (case v of JArr vs \<Rightarrow> length vs \<le> n \<and> (\<forall>x \<in> set vs. conforms E items x) | _ \<Rightarrow> False)"
| "conforms E (SObject req props strict) v \<longleftrightarrow>
     (case v of
        JObj d \<Rightarrow> (\<forall>f \<in> set req. \<not> lookup_undefined d f)
          \<and> (\<forall>ps. props = Some ps \<longrightarrow> (\<forall>(f, x) \<in> set d.
               case map_of ps f of None \<Rightarrow> strict \<longrightarrow> f \<in> set proto_keys | Some s \<Rightarrow> conforms E s x))
      | _ \<Rightarrow> False)"
  by pat_completeness auto
termination
  by (relation "measure (\<lambda>(E, s, v). size v)")
    (auto dest: size_entry size_list_estimation'[where f = size])

lemma validate_string_ok:
  "validate_string E lo hi pat fmt enum v = Inr () \<longleftrightarrow> (\<exists>s. v = JStr s \<and> conforming_string E lo hi pat fmt enum s)"
  by (cases v) (auto simp: validate_string_def conforming_string_def bind_e_Inr_iff matches_re_def
      split: option.splits re.splits)

lemma validate_integer_ok:
  "validate_integer lo hi v = Inr () \<longleftrightarrow> (\<exists>n. v = JNum (num_of_int n) \<and> \<bar>n\<bar> \<le> max_safe \<and> lo \<le> n \<and> n \<le> hi)"
proof
  assume ok: "validate_integer lo hi v = Inr ()"
  then obtain r where r: "v = JNum (Fin r)" "is_safe_integer (Fin r)" "of_int lo \<le> r" "r \<le> of_int hi"
    by (auto simp: validate_integer_def not_less split: json.splits num.splits if_splits)
  from is_safe_integerD[OF r(2)] obtain n where "Fin r = num_of_int n" "\<bar>n\<bar> \<le> max_safe" by blast
  with r show "\<exists>n. v = JNum (num_of_int n) \<and> \<bar>n\<bar> \<le> max_safe \<and> lo \<le> n \<and> n \<le> hi"
    by (auto simp: num_of_int_def)
next
  assume "\<exists>n. v = JNum (num_of_int n) \<and> \<bar>n\<bar> \<le> max_safe \<and> lo \<le> n \<and> n \<le> hi"
  then show "validate_integer lo hi v = Inr ()"
    using is_safe_integer_int by (auto simp: validate_integer_def num_of_int_def)
qed

lemma validate_conforms: "validate_value E s v = Inr () \<longleftrightarrow> conforms E s v"
proof (induction E s v rule: conforms.induct)
  case (1 E lo hi pat fmt enum v)
  then show ?case by (simp add: validate_string_ok)
next
  case (2 E lo hi v)
  then show ?case by (simp add: validate_integer_ok)
next
  case (3 E lo hi v)
  then show ?case by (auto simp: validate_number_def split: json.splits num.splits)
next
  case (4 E v)
  then show ?case by (simp add: is_bool_iff)
next
  case (5 E c v)
  then show ?case by simp
next
  case (6 E items n v)
  then show ?case by (cases v) (auto simp: validate_items_ok)
next
  case (7 E req props strict v)
  show ?case
  proof (cases v)
    case (JObj d)
    have "first_missing d req = Inr () \<longleftrightarrow> (\<forall>f \<in> set req. \<not> lookup_undefined d f)" by (rule first_missing_ok)
    moreover have "validate_fields E ps strict d = Inr () \<longleftrightarrow> (\<forall>(f, x) \<in> set d.
        case map_of ps f of None \<Rightarrow> strict \<longrightarrow> f \<in> set proto_keys | Some s \<Rightarrow> conforms E s x)" if "props = Some ps" for ps
      unfolding validate_fields_ok using 7[OF JObj that]
      by (intro ball_cong refl) (fastforce split: option.splits)
    ultimately show ?thesis using JObj by (cases props) (auto split: sum.splits)
  qed simp_all
qed

text \<open>An input conforms when every required field is present, every declared field conforms to its
  schema, and no other field is sent; names every object inherits are looked up in the prototype.\<close>

definition input_conforms :: "js_env \<Rightarrow> input_schema \<Rightarrow> obj \<Rightarrow> bool" where
  "input_conforms E sch input \<longleftrightarrow>
     (\<forall>f \<in> set (i_required sch). f \<notin> set proto_keys \<longrightarrow> oget input f \<noteq> JUndef)
     \<and> (\<forall>(f, v) \<in> set input. case map_of (i_properties sch) f of
          None \<Rightarrow> f \<in> set proto_keys
        | Some s \<Rightarrow> conforms E s v)"

lemma validated_input_conforms: "validate_input E sch input = Inr () \<Longrightarrow> input_conforms E sch input"
  using validate_conforms lookup_undefined_plain
  by (auto simp: validate_input_ok input_conforms_def split: option.splits)

end
