(* ===== verification/Canonical_Json.thy ===== *)
theory Canonical_Json
  imports Js_Value
begin

text \<open>
  The canonical JSON encoding of \<open>src/server/ai-result.ts\<close>: a self-delimiting token stream with
  length-prefixed strings and numbers, counted arrays and objects, object keys in UTF-8 order and
  undefined members dropped. \<open>digest\<close> is \<open>canonicalJsonSha256\<close>. The lemmas show that the encoding
  is prefix-free, hence injective up to key order and dropped members.
\<close>

datatype canon_error =
  Nul_character | Non_finite_number | Unparsed_number | Undefined_element | Outside_domain

section \<open>Decimal text\<close>

definition digit_char :: "nat \<Rightarrow> char" where
  "digit_char d = char_of (48 + d)"

fun nat_text :: "nat \<Rightarrow> string" where
  "nat_text n = (if n < 10 then [digit_char n] else nat_text (n div 10) @ [digit_char (n mod 10)])"

declare nat_text.simps [simp del]

definition hex_digit :: "nat \<Rightarrow> char" where
  "hex_digit d = (if d < 10 then char_of (48 + d) else char_of (87 + d))"

definition utf8 :: "string \<Rightarrow> nat list" where
  "utf8 s = concat (map (\<lambda>c. if code c < 128 then [code c]
                              else [192 + code c div 64, 128 + code c mod 64]) s)"

definition hex_text :: "nat list \<Rightarrow> string" where
  "hex_text bs = concat (map (\<lambda>b. [hex_digit (b div 16), hex_digit (b mod 16)]) bs)"

fun cmp_bytes :: "nat list \<Rightarrow> nat list \<Rightarrow> int" where
  "cmp_bytes [] [] = 0"
| "cmp_bytes [] (y # ys) = - 1"
| "cmp_bytes (x # xs) [] = 1"
| "cmp_bytes (x # xs) (y # ys) = (if x < y then - 1 else if y < x then 1 else cmp_bytes xs ys)"

definition compare_utf8 :: "string \<Rightarrow> string \<Rightarrow> int" where
  "compare_utf8 a b = cmp_bytes (utf8 a) (utf8 b)"

section \<open>Tokens\<close>

definition has_nul :: "string \<Rightarrow> bool" where
  "has_nul s \<longleftrightarrow> CHR 0x00 \<in> set s"

definition canonical_string :: "string \<Rightarrow> canon_error + string" where
  "canonical_string s =
     (if has_nul s then Inl Nul_character
      else Inr (''S'' @ nat_text (length (utf8 s)) @ '':'' @ hex_text (utf8 s)))"

text \<open>
  \<open>/^(-?)(\d+)(?:\.(\d+))?(?:e([+-]?\d+))?$/\<close> on a number's text: sign, integer digits, fraction
  digits and exponent (0 when absent).
\<close>

definition digits_val :: "string \<Rightarrow> nat" where
  "digits_val s = foldl (\<lambda>n c. 10 * n + (code c - 48)) 0 s"

definition parse_exponent :: "string \<Rightarrow> int option" where
  "parse_exponent s =
     (case s of
        [] \<Rightarrow> Some 0
      | c # t \<Rightarrow>
          if c \<noteq> CHR ''e'' then None
          else let neg = (t \<noteq> [] \<and> hd t = CHR ''-'');
                   ds = (if t \<noteq> [] \<and> (hd t = CHR ''-'' \<or> hd t = CHR ''+'') then tl t else t)
               in if ds = [] \<or> \<not> list_all is_digit ds then None
                  else Some (if neg then - int (digits_val ds) else int (digits_val ds)))"

definition parse_number :: "string \<Rightarrow> (bool \<times> string \<times> string \<times> int) option" where
  "parse_number s =
     (let neg = (s \<noteq> [] \<and> hd s = CHR ''-'');
          t = (if neg then tl s else s);
          i = takeWhile is_digit t;
          r = dropWhile is_digit t
      in if i = [] then None
         else if r \<noteq> [] \<and> hd r = CHR ''.''
           then let f = takeWhile is_digit (tl r); r2 = dropWhile is_digit (tl r)
                in if f = [] then None
                   else map_option (\<lambda>e. (neg, i, f, e)) (parse_exponent r2)
           else map_option (\<lambda>e. (neg, i, [], e)) (parse_exponent r))"

definition plain_decimal :: "bool \<times> string \<times> string \<times> int \<Rightarrow> string" where
  "plain_decimal p =
     (case p of (neg, i, f, e) \<Rightarrow>
        let digits = i @ f;
            scale = e - int (length f);
            point = int (length digits) + scale;
            magnitude =
              (if 0 \<le> scale then digits @ replicate (nat scale) CHR ''0''
               else if 0 < point then take (nat point) digits @ ''.'' @ drop (nat point) digits
               else ''0.'' @ replicate (nat (- point)) CHR ''0'' @ digits)
        in (if neg then ''-'' else []) @ magnitude)"

definition canonical_number :: "js_env \<Rightarrow> num \<Rightarrow> canon_error + string" where
  "canonical_number E n =
     (case n of
        Fin r \<Rightarrow> (if r = 0 then Inr ''0''
                  else (case parse_number (num_text E r) of
                          None \<Rightarrow> Inl Unparsed_number
                        | Some p \<Rightarrow> Inr (plain_decimal p)))
      | _ \<Rightarrow> Inl Non_finite_number)"

section \<open>Values\<close>

definition defined_entries :: "obj \<Rightarrow> obj" where
  "defined_entries kvs = filter (\<lambda>(k, v). v \<noteq> JUndef) kvs"

definition key_order :: "string \<times> 'a \<Rightarrow> string \<times> 'a \<Rightarrow> int" where
  "key_order a b = compare_utf8 (fst a) (fst b)"

lemma each_e_cong [fundef_cong]:
  "xs = ys \<Longrightarrow> (\<And>x. x \<in> set ys \<Longrightarrow> f x = g x) \<Longrightarrow> each_e f xs = each_e g ys"
  by (induction xs arbitrary: ys) auto

function canonical_value :: "js_env \<Rightarrow> json \<Rightarrow> canon_error + string" where
  "canonical_value E JUndef = Inl Outside_domain"
| "canonical_value E JNull = Inr ''N''"
| "canonical_value E (JBool b) = Inr (if b then ''T'' else ''F'')"
| "canonical_value E (JStr s) = canonical_string s"
| "canonical_value E (JNum n) =
     bind_e (canonical_number E n) (\<lambda>t. Inr (''D'' @ nat_text (length t) @ '':'' @ t))"
| "canonical_value E (JArr xs) =
     bind_e (each_e (\<lambda>x. if x = JUndef then Inl Undefined_element else canonical_value E x) xs)
       (\<lambda>items. Inr (''A'' @ nat_text (length xs) @ '':'' @ concat items))"
| "canonical_value E (JObj kvs) =
     (if \<exists>(k, v) \<in> set (defined_entries kvs). has_nul k then Inl Nul_character
      else bind_e
        (each_e (\<lambda>(k, v). bind_e (canonical_string k) (\<lambda>kt.
                           bind_e (canonical_value E v) (\<lambda>vt. Inr (kt @ vt))))
           (sort_cmp key_order (defined_entries kvs)))
        (\<lambda>entries. Inr (''O'' @ nat_text (length (defined_entries kvs)) @ '':'' @ concat entries)))"
  by pat_completeness auto
termination
  by (relation "measure (\<lambda>(E, v). size v)")
    (auto simp: defined_entries_def dest: size_entry size_list_estimation'[where f = size])

definition canonical_text :: "js_env \<Rightarrow> json \<Rightarrow> canon_error + string" where
  "canonical_text E v =
     bind_e (canonical_value E v) (\<lambda>t. Inr (''managed-oss-canonical-json.v1|'' @ t))"

definition digest :: "js_env \<Rightarrow> json \<Rightarrow> canon_error + string" where
  "digest E v = bind_e (canonical_text E v) (\<lambda>t. Inr (sha256_hex E t))"

section \<open>The encoding is prefix-free\<close>

lemma code_less [simp]: "code c < 256"
  by (simp add: code_def)

lemma code_inject [simp]: "code a = code b \<longleftrightarrow> a = b"
  by (simp add: code_def)

lemma code_char_of: "n < 256 \<Longrightarrow> code (char_of n) = n"
  by (simp add: code_def)

lemma is_digit_digit_char: "d < 10 \<Longrightarrow> is_digit (digit_char d)"
  by (simp add: is_digit_def digit_char_def code_char_of)

lemma nat_text_digits: "c \<in> set (nat_text n) \<Longrightarrow> is_digit c"
proof (induction n rule: nat_text.induct)
  case (1 n)
  show ?case
  proof (cases "n < 10")
    case True
    with 1 show ?thesis by (simp add: nat_text.simps[of n] is_digit_digit_char)
  next
    case False
    with 1 show ?thesis by (auto simp: nat_text.simps[of n] is_digit_digit_char)
  qed
qed

lemma digits_val_snoc: "digits_val (s @ [c]) = 10 * digits_val s + (code c - 48)"
  by (simp add: digits_val_def)

lemma digits_val_nat_text [simp]: "digits_val (nat_text n) = n"
proof (induction n rule: nat_text.induct)
  case (1 n)
  show ?case
  proof (cases "n < 10")
    case True
    then show ?thesis
      by (simp add: nat_text.simps[of n] digits_val_def digit_char_def code_char_of)
  next
    case False
    with 1 show ?thesis
      by (simp add: nat_text.simps[of n] digits_val_snoc digit_char_def code_char_of)
  qed
qed

lemma not_digit_colon: "\<not> is_digit (CHR '':'')"
  by (simp add: is_digit_def code_def)

lemma nat_text_colon:
  assumes "nat_text n @ CHR '':'' # x = nat_text m @ CHR '':'' # y"
  shows "n = m \<and> x = y"
proof -
  have tw: "takeWhile is_digit (nat_text k @ CHR '':'' # z) = nat_text k" for k z
    by (simp add: takeWhile_append nat_text_digits not_digit_colon)
  have "nat_text n = nat_text m" using tw[of n x] tw[of m y] assms by simp
  then have "n = m" by (metis digits_val_nat_text)
  with assms show ?thesis by simp
qed

lemma length_hex_text [simp]: "length (hex_text bs) = 2 * length bs"
  by (induction bs) (auto simp: hex_text_def)

lemma hex_digit_inj: "a < 16 \<Longrightarrow> b < 16 \<Longrightarrow> hex_digit a = hex_digit b \<Longrightarrow> a = b"
proof -
  assume a: "a < 16" and b: "b < 16" and "hex_digit a = hex_digit b"
  then have "code (hex_digit a) = code (hex_digit b)" by simp
  with a b show "a = b" by (auto simp: hex_digit_def code_char_of split: if_splits)
qed

lemma hex_text_inj:
  "hex_text xs = hex_text ys \<Longrightarrow> \<forall>b \<in> set xs. b < 256 \<Longrightarrow> \<forall>b \<in> set ys. b < 256 \<Longrightarrow> xs = ys"
proof (induction xs arbitrary: ys)
  case Nil
  then show ?case by (cases ys) (auto simp: hex_text_def)
next
  case (Cons x xs)
  then obtain y zs where ys: "ys = y # zs" by (cases ys) (auto simp: hex_text_def)
  from Cons.prems ys have hd: "hex_digit (x div 16) = hex_digit (y div 16)"
    "hex_digit (x mod 16) = hex_digit (y mod 16)" and tl: "hex_text xs = hex_text zs"
    by (auto simp: hex_text_def)
  have "x < 256" "y < 256" using Cons.prems ys by auto
  then have "x div 16 = y div 16" "x mod 16 = y mod 16"
    using hd by (auto intro: hex_digit_inj)
  then have "x = y" by (metis div_mult_mod_eq)
  with Cons ys tl show ?case by auto
qed

lemma utf8_bytes: "b \<in> set (utf8 s) \<Longrightarrow> b < 256"
proof (induction s)
  case (Cons c s)
  have "code c < 256" by simp
  then have "code c div 64 < 4" by (simp add: less_mult_imp_div_less)
  then show ?case using Cons by (auto simp: utf8_def split: if_splits)
qed (simp add: utf8_def)

lemma utf8_inj: "utf8 s = utf8 t \<Longrightarrow> s = t"
proof (induction s arbitrary: t)
  case Nil
  then show ?case by (cases t) (auto simp: utf8_def split: if_splits)
next
  case (Cons c s)
  then obtain d u where t: "t = d # u" by (cases t) (auto simp: utf8_def split: if_splits)
  have hd: "code c = code d" and tl: "utf8 s = utf8 u"
  proof -
    have eq: "(if code c < 128 then [code c] else [192 + code c div 64, 128 + code c mod 64]) @ utf8 s
      = (if code d < 128 then [code d] else [192 + code d div 64, 128 + code d mod 64]) @ utf8 u"
      using Cons.prems t by (simp add: utf8_def)
    have "code c div 64 * 64 + code c mod 64 = code c" "code d div 64 * 64 + code d mod 64 = code d"
      by simp_all
    moreover from eq have "code c = code d \<or> code c div 64 = code d div 64 \<and> code c mod 64 = code d mod 64"
      by (auto split: if_splits)
    ultimately show "code c = code d" by metis
    from eq show "utf8 s = utf8 u" by (auto split: if_splits)
  qed
  from Cons.IH[OF tl] hd t show ?case by simp
qed

lemma canonical_string_prefix:
  assumes "canonical_string s = Inr t" and "canonical_string s' = Inr t'" and "t @ x = t' @ y"
  shows "s = s' \<and> x = y"
proof -
  from assms have eq: "nat_text (length (utf8 s)) @ CHR '':'' # (hex_text (utf8 s) @ x)
      = nat_text (length (utf8 s')) @ CHR '':'' # (hex_text (utf8 s') @ y)"
    by (auto simp: canonical_string_def split: if_splits)
  then have len: "length (utf8 s) = length (utf8 s')"
    and rest: "hex_text (utf8 s) @ x = hex_text (utf8 s') @ y"
    using nat_text_colon by blast+
  then have "hex_text (utf8 s) = hex_text (utf8 s')" and "x = y" by auto
  then show ?thesis by (metis hex_text_inj utf8_bytes utf8_inj)
qed

text \<open>
  The normal form of a value: undefined members dropped and keys sorted, at every level. Two
  canonicalisable values with the same text have the same normal form.
\<close>

function normal_form :: "json \<Rightarrow> json" where
  "normal_form (JArr xs) = JArr (map normal_form xs)"
| "normal_form (JObj kvs) =
     JObj (map (\<lambda>(k, v). (k, normal_form v)) (sort_cmp key_order (defined_entries kvs)))"
| "normal_form JUndef = JUndef"
| "normal_form JNull = JNull"
| "normal_form (JBool b) = JBool b"
| "normal_form (JNum n) = JNum n"
| "normal_form (JStr s) = JStr s"
  by pat_completeness auto
termination
  by (relation "measure size")
    (auto simp: defined_entries_def dest: size_entry size_list_estimation'[where f = size])

text \<open>
  A JavaScript number is a representable value, and the host's formatting of numbers reads back:
  \<open>Number(String(x)) === x\<close> for every finite number \<open>x\<close>, the guarantee ECMAScript gives for its shortest
  decimal texts. Nothing is assumed of the canonical form computed from that text.
\<close>

definition decimal_value :: "bool \<times> string \<times> string \<times> int \<Rightarrow> rat" where
  "decimal_value p = (case p of (neg, i, f, e) \<Rightarrow>
     (if neg then - 1 else 1) * of_nat (digits_val (i @ f)) * 10 powi (e - int (length f)))"

definition is_double :: "num \<Rightarrow> bool" where
  "is_double n = (case n of Fin r \<Rightarrow> round64 r = Fin r | _ \<Rightarrow> True)"

definition number_text_ok :: "js_env \<Rightarrow> bool" where
  "number_text_ok E \<longleftrightarrow> (\<forall>r. is_double (Fin r) \<longrightarrow> r \<noteq> 0 \<longrightarrow>
     (\<exists>p. parse_number (num_text E r) = Some p \<and> round64 (decimal_value p) = Fin r))"

fun doubles_only :: "json \<Rightarrow> bool" where
  "doubles_only (JNum n) \<longleftrightarrow> is_double n"
| "doubles_only (JArr xs) \<longleftrightarrow> (\<forall>x \<in> set xs. doubles_only x)"
| "doubles_only (JObj kvs) \<longleftrightarrow> (\<forall>(k, v) \<in> set kvs. doubles_only v)"
| "doubles_only v \<longleftrightarrow> True"

lemma doubles_entries: "doubles_only (JObj kvs) \<Longrightarrow> \<forall>(k, v) \<in> set (sort_cmp key_order (defined_entries kvs)). doubles_only v"
  by (auto simp: defined_entries_def)

subsection \<open>Canonical numbers\<close>

lemma digits_val_append: "digits_val (s @ t) = digits_val s * 10 ^ length t + digits_val t"
proof (induction t rule: rev_induct)
  case (snoc c t)
  have "digits_val ((s @ t) @ [c]) = 10 * digits_val (s @ t) + (code c - 48)" by (rule digits_val_snoc)
  with snoc show ?case by (simp add: digits_val_snoc algebra_simps)
qed (simp add: digits_val_def)

lemma digits_val_zeros: "digits_val (replicate n (CHR ''0'')) = 0"
  by (induction n) (auto simp: digits_val_def code_def)

lemma not_digit_marks: "\<not> is_digit (CHR ''-'')" "\<not> is_digit (CHR ''.'')" "is_digit (CHR ''0'')"
  by (simp_all add: is_digit_def code_def)

lemma list_all_prefix: "list_all P s \<Longrightarrow> takeWhile P s = s \<and> dropWhile P s = []"
  by (auto simp: list_all_iff takeWhile_eq_all_conv)

lemma parse_plain:
  assumes "i \<noteq> []" "list_all is_digit i" "list_all is_digit f"
  shows "parse_number ((if neg then ''-'' else []) @ i @ (if f = [] then [] else ''.'' @ f)) = Some (neg, i, f, 0)"
proof -
  have hd: "hd i \<noteq> CHR ''-''" using assms(1,2) not_digit_marks by (cases i) auto
  have tw: "takeWhile is_digit (i @ ''.'' @ f) = i" "dropWhile is_digit (i @ ''.'' @ f) = ''.'' @ f"
    using assms(2) not_digit_marks by (auto simp: list_all_iff takeWhile_append dropWhile_append)
  note ws = list_all_prefix[OF assms(2)] and fs = list_all_prefix[OF assms(3)]
  have e: "parse_exponent [] = Some 0" by (simp add: parse_exponent_def)
  show ?thesis
  proof (cases "f = []")
    case True
    with conjunct1[OF ws] conjunct2[OF ws] hd assms(1) e show ?thesis by (simp add: parse_number_def Let_def del: takeWhile_eq_all_conv dropWhile_eq_Nil_conv)
  next
    case False
    with tw hd hd_append2[OF assms(1)] conjunct1[OF fs] conjunct2[OF fs] assms(1) e show ?thesis
      by (simp add: parse_number_def Let_def del: takeWhile_eq_all_conv dropWhile_eq_Nil_conv)
  qed
qed

lemma parse_number_digits:
  "parse_number s = Some (neg, i, f, e) \<Longrightarrow> i \<noteq> [] \<and> list_all is_digit i \<and> list_all is_digit f"
  by (auto simp: parse_number_def Let_def list_all_iff split: if_splits dest: set_takeWhileD)

text \<open>Shifting the point keeps the value: the canonical text reads back as the number of the host's text.\<close>

lemma plain_decimal_value:
  assumes "i \<noteq> []" "list_all is_digit i" "list_all is_digit f"
  shows "\<exists>q. parse_number (plain_decimal (neg, i, f, e)) = Some q \<and> decimal_value q = decimal_value (neg, i, f, e)"
proof -
  let ?d = "i @ f" and ?scale = "e - int (length f)"
  let ?point = "int (length ?d) + ?scale"
  have d: "?d \<noteq> []" "list_all is_digit ?d" using assms by auto
  consider (whole) "0 \<le> ?scale" | (inner) "?scale < 0" "0 < ?point" | (small) "?scale < 0" "?point \<le> 0" by linarith
  then show ?thesis
  proof cases
    case whole
    let ?z = "replicate (nat ?scale) CHR ''0''"
    have "list_all is_digit ?z" using not_digit_marks(3) by (auto simp: list_all_iff)
    with d have "list_all is_digit (?d @ ?z)" by simp
    moreover have pd: "plain_decimal (neg, i, f, e) = (if neg then ''-'' else []) @ (?d @ ?z) @ (if [] = ([] :: string) then [] else ''.'' @ [])"
      using whole by (simp add: plain_decimal_def Let_def)
    ultimately have "parse_number (plain_decimal (neg, i, f, e)) = Some (neg, ?d @ ?z, [], 0)"
      unfolding pd using d(1) by (intro parse_plain) auto
    moreover have "decimal_value (neg, ?d @ ?z, [], 0) = decimal_value (neg, i, f, e)"
      using whole by (simp add: decimal_value_def digits_val_append[of ?d ?z, simplified] digits_val_zeros power_int_def)
    ultimately show ?thesis by blast
  next
    case inner
    let ?n = "nat ?point"
    have n: "0 < ?n" "?n < length ?d" using inner by auto
    have parts: "take ?n ?d \<noteq> []" "drop ?n ?d \<noteq> []" using n by auto
    have digits: "list_all is_digit (take ?n ?d)" "list_all is_digit (drop ?n ?d)"
      using d(2) by (metis append_take_drop_id list_all_append)+
    have pd: "plain_decimal (neg, i, f, e) = (if neg then ''-'' else []) @ take ?n ?d
        @ (if drop ?n ?d = [] then [] else ''.'' @ drop ?n ?d)"
      using inner parts(2) by (simp add: plain_decimal_def Let_def del: take_append drop_append)
    have "parse_number (plain_decimal (neg, i, f, e)) = Some (neg, take ?n ?d, drop ?n ?d, 0)"
      unfolding pd by (rule parse_plain[OF parts(1) digits])
    moreover have "- int (length (drop ?n ?d)) = ?scale" using n inner by simp
    then have "decimal_value (neg, take ?n ?d, drop ?n ?d, 0) = decimal_value (neg, i, f, e)"
      by (simp add: decimal_value_def del: take_append drop_append length_drop)
    ultimately show ?thesis by blast
  next
    case small
    let ?f = "replicate (nat (- ?point)) CHR ''0'' @ ?d"
    have "list_all is_digit (replicate (nat (- ?point)) (CHR ''0''))" using not_digit_marks(3) by (auto simp: list_all_iff)
    with d have "list_all is_digit ?f" by simp
    moreover have pd: "plain_decimal (neg, i, f, e) = (if neg then ''-'' else []) @ ''0'' @ (if ?f = [] then [] else ''.'' @ ?f)"
      using small d(1) by (simp add: plain_decimal_def Let_def)
    ultimately have run: "parse_number (plain_decimal (neg, i, f, e)) = Some (neg, ''0'', ?f, 0)"
      unfolding pd using not_digit_marks(3) by (intro parse_plain) simp_all
    have "0 - int (length ?f) = ?scale" using small by simp
    moreover have "digits_val (''0'' @ ?f) = digits_val ?d"
      using digits_val_append[of "''0'' @ replicate (nat (- ?point)) CHR ''0''" ?d] digits_val_zeros[of "Suc (nat (- ?point))"]
      by simp
    ultimately have "decimal_value (neg, ''0'', ?f, 0) = decimal_value (neg, i, f, e)"
      by (simp only: decimal_value_def prod.case)
    with run show ?thesis by blast
  qed
qed

lemma canonical_number_reads_back:
  assumes "number_text_ok E" and "is_double n" and "canonical_number E n = Inr t"
  shows "\<exists>q. parse_number t = Some q \<and> round64 (decimal_value q) = n"
proof -
  from assms(3) obtain r where n: "n = Fin r" by (cases n) (auto simp: canonical_number_def)
  show ?thesis
  proof (cases "r = 0")
    case True
    have "parse_number ''0'' = Some (False, ''0'', [], 0)" by code_simp
    moreover have "round64 (decimal_value (False, ''0'', [], 0)) = Fin 0"
      using digits_val_zeros[of 1] round64_safe[of 0] by (simp add: decimal_value_def)
    ultimately show ?thesis using True assms(3) n by (simp add: canonical_number_def)
  next
    case False
    with assms(1,2) n obtain p where p: "parse_number (num_text E r) = Some p" "round64 (decimal_value p) = Fin r"
      by (auto simp: number_text_ok_def)
    obtain neg i f e where q: "p = (neg, i, f, e)" by (cases p) auto
    have "t = plain_decimal p" using assms(3) n False p(1) by (simp add: canonical_number_def)
    with plain_decimal_value[of i f neg e] parse_number_digits[of "num_text E r" neg i f e] p q n
    show ?thesis by auto
  qed
qed

lemma canonical_number_inj:
  assumes "number_text_ok E" and "is_double m" and "is_double n"
    and "canonical_number E m = Inr t" and "canonical_number E n = Inr t"
  shows "m = n"
  using canonical_number_reads_back[OF assms(1,2,4)] canonical_number_reads_back[OF assms(1,3,5)] by auto

subsection \<open>Values\<close>

definition prefix_free_at :: "js_env \<Rightarrow> json \<Rightarrow> bool" where
  "prefix_free_at E v \<longleftrightarrow> (\<forall>w t u x y. doubles_only w \<longrightarrow> canonical_value E v = Inr t \<longrightarrow> canonical_value E w = Inr u \<longrightarrow>
     t @ x = u @ y \<longrightarrow> normal_form v = normal_form w \<and> x = y)"

lemma prefix_free_atD:
  "prefix_free_at E v \<Longrightarrow> doubles_only w \<Longrightarrow> canonical_value E v = Inr t \<Longrightarrow> canonical_value E w = Inr u \<Longrightarrow>
     t @ x = u @ y \<Longrightarrow> normal_form v = normal_form w \<and> x = y"
  unfolding prefix_free_at_def by blast

text \<open>The first character of a token names its constructor.\<close>

lemma canonical_head:
  "canonical_value E v = Inr t \<Longrightarrow> t \<noteq> [] \<and> hd t =
     (case v of JNull \<Rightarrow> CHR ''N'' | JBool b \<Rightarrow> (if b then CHR ''T'' else CHR ''F'') | JStr _ \<Rightarrow> CHR ''S''
        | JNum _ \<Rightarrow> CHR ''D'' | JArr _ \<Rightarrow> CHR ''A'' | JObj _ \<Rightarrow> CHR ''O'' | JUndef \<Rightarrow> CHR ''?'')"
  by (cases v) (auto simp: canonical_string_def bind_e_Inr_iff split: if_splits)

lemma same_head: "t \<noteq> [] \<Longrightarrow> u \<noteq> [] \<Longrightarrow> t @ x = u @ y \<Longrightarrow> hd t = hd u"
  by (metis hd_append2)

lemma items_prefix:
  assumes "\<forall>v \<in> set xs. prefix_free_at E v" and "\<forall>w \<in> set ys. doubles_only w"
    and "each_e (\<lambda>v. if v = JUndef then Inl Undefined_element else canonical_value E v) xs = Inr ts"
    and "each_e (\<lambda>v. if v = JUndef then Inl Undefined_element else canonical_value E v) ys = Inr us"
    and "length xs = length ys" and "concat ts @ x = concat us @ y"
  shows "map normal_form xs = map normal_form ys \<and> x = y"
  using assms
proof (induction xs arbitrary: ys ts us)
  case Nil
  then show ?case by simp
next
  case (Cons v xs)
  then obtain w zs where ys: "ys = w # zs" by (cases ys) auto
  from Cons.prems(3,4) ys obtain t ts' u us' where
    t: "canonical_value E v = Inr t" "ts = t # ts'"
      "each_e (\<lambda>v. if v = JUndef then Inl Undefined_element else canonical_value E v) xs = Inr ts'"
    and u: "canonical_value E w = Inr u" "us = u # us'"
      "each_e (\<lambda>v. if v = JUndef then Inl Undefined_element else canonical_value E v) zs = Inr us'"
    by (auto simp: bind_e_Inr_iff split: if_splits)
  have hd: "normal_form v = normal_form w \<and> concat ts' @ x = concat us' @ y"
    using prefix_free_atD[OF _ _ t(1) u(1), of "concat ts' @ x" "concat us' @ y"] Cons.prems(1,2,6) t(2) u(2) ys
    by simp
  with Cons.IH[OF _ _ t(3) u(3)] Cons.prems(1,2,5) ys show ?case by simp
qed

lemma entries_prefix:
  assumes "\<forall>(k, v) \<in> set xs. prefix_free_at E v" and "\<forall>(k, w) \<in> set ys. doubles_only w"
    and "each_e (\<lambda>(k, v). bind_e (canonical_string k) (\<lambda>kt.
           bind_e (canonical_value E v) (\<lambda>vt. Inr (kt @ vt)))) xs = Inr ts"
    and "each_e (\<lambda>(k, v). bind_e (canonical_string k) (\<lambda>kt.
           bind_e (canonical_value E v) (\<lambda>vt. Inr (kt @ vt)))) ys = Inr us"
    and "length xs = length ys" and "concat ts @ x = concat us @ y"
  shows "map (\<lambda>(k, v). (k, normal_form v)) xs = map (\<lambda>(k, v). (k, normal_form v)) ys \<and> x = y"
  using assms
proof (induction xs arbitrary: ys ts us)
  case Nil
  then show ?case by simp
next
  case (Cons a xs)
  obtain k v where a: "a = (k, v)" by fastforce
  from Cons.prems(5) obtain j w zs where ys: "ys = (j, w) # zs" by (cases ys) auto
  from Cons.prems(3,4) ys a obtain kt vt ts' jt wt us' where
    t: "canonical_string k = Inr kt" "canonical_value E v = Inr vt" "ts = (kt @ vt) # ts'"
      "each_e (\<lambda>(k, v). bind_e (canonical_string k) (\<lambda>kt.
           bind_e (canonical_value E v) (\<lambda>vt. Inr (kt @ vt)))) xs = Inr ts'"
    and u: "canonical_string j = Inr jt" "canonical_value E w = Inr wt" "us = (jt @ wt) # us'"
      "each_e (\<lambda>(k, v). bind_e (canonical_string k) (\<lambda>kt.
           bind_e (canonical_value E v) (\<lambda>vt. Inr (kt @ vt)))) zs = Inr us'"
    by (auto simp: bind_e_Inr_iff)
  have "kt @ (vt @ concat ts' @ x) = jt @ (wt @ concat us' @ y)"
    using Cons.prems(6) t(3) u(3) by simp
  from canonical_string_prefix[OF t(1) u(1) this]
  have k: "k = j" and rest: "vt @ (concat ts' @ x) = wt @ (concat us' @ y)" by auto
  have hd: "normal_form v = normal_form w \<and> concat ts' @ x = concat us' @ y"
    using prefix_free_atD[OF _ _ t(2) u(2) rest] Cons.prems(1,2) a ys by simp
  with Cons.IH[OF _ _ t(4) u(4)] Cons.prems(1,2,5) ys a k show ?case by simp
qed

lemma prefix_free_arr:
  assumes elems: "\<forall>v \<in> set xs. prefix_free_at E v"
  shows "prefix_free_at E (JArr xs)"
  unfolding prefix_free_at_def
proof (intro allI impI)
  fix w t u x y
  assume dw: "doubles_only w" and t: "canonical_value E (JArr xs) = Inr t" and u: "canonical_value E w = Inr u"
    and eq: "t @ x = u @ y"
  obtain ys where w: "w = JArr ys"
    using canonical_head[OF t] canonical_head[OF u] same_head[OF _ _ eq]
    by (cases w) (auto split: if_splits)
  from t u w obtain ts us where
    ts: "each_e (\<lambda>v. if v = JUndef then Inl Undefined_element else canonical_value E v) xs = Inr ts"
      "t = ''A'' @ nat_text (length xs) @ '':'' @ concat ts"
    and us: "each_e (\<lambda>v. if v = JUndef then Inl Undefined_element else canonical_value E v) ys = Inr us"
      "u = ''A'' @ nat_text (length ys) @ '':'' @ concat us"
    by (auto simp: bind_e_Inr_iff)
  have "nat_text (length xs) @ CHR '':'' # (concat ts @ x) = nat_text (length ys) @ CHR '':'' # (concat us @ y)"
    using eq ts(2) us(2) by simp
  then have "length xs = length ys" "concat ts @ x = concat us @ y" using nat_text_colon by blast+
  with items_prefix[OF _ _ ts(1) us(1)] elems w dw show "normal_form (JArr xs) = normal_form w \<and> x = y" by simp
qed

lemma prefix_free_obj:
  assumes elems: "\<forall>(k, v) \<in> set (defined_entries kvs). prefix_free_at E v"
  shows "prefix_free_at E (JObj kvs)"
  unfolding prefix_free_at_def
proof (intro allI impI)
  fix w t u x y
  assume dw: "doubles_only w" and t: "canonical_value E (JObj kvs) = Inr t" and u: "canonical_value E w = Inr u"
    and eq: "t @ x = u @ y"
  obtain ks where w: "w = JObj ks"
    using canonical_head[OF t] canonical_head[OF u] same_head[OF _ _ eq]
    by (cases w) (auto split: if_splits)
  from t u w obtain ts us where
    ts: "each_e (\<lambda>(k, v). bind_e (canonical_string k) (\<lambda>kt.
           bind_e (canonical_value E v) (\<lambda>vt. Inr (kt @ vt)))) (sort_cmp key_order (defined_entries kvs)) = Inr ts"
      "t = ''O'' @ nat_text (length (defined_entries kvs)) @ '':'' @ concat ts"
    and us: "each_e (\<lambda>(k, v). bind_e (canonical_string k) (\<lambda>kt.
           bind_e (canonical_value E v) (\<lambda>vt. Inr (kt @ vt)))) (sort_cmp key_order (defined_entries ks)) = Inr us"
      "u = ''O'' @ nat_text (length (defined_entries ks)) @ '':'' @ concat us"
    by (auto simp: bind_e_Inr_iff split: if_splits)
  have "nat_text (length (defined_entries kvs)) @ CHR '':'' # (concat ts @ x)
      = nat_text (length (defined_entries ks)) @ CHR '':'' # (concat us @ y)"
    using eq ts(2) us(2) by simp
  then have len: "length (defined_entries kvs) = length (defined_entries ks)"
    and rest: "concat ts @ x = concat us @ y" using nat_text_colon by blast+
  have "\<forall>(k, v) \<in> set (sort_cmp key_order (defined_entries kvs)). prefix_free_at E v"
    using elems by auto
  from entries_prefix[OF this doubles_entries ts(1) us(1) _ rest] len w dw
  show "normal_form (JObj kvs) = normal_form w \<and> x = y" by simp
qed

lemma prefix_free_num:
  assumes numbers: "number_text_ok E" "is_double n"
  shows "prefix_free_at E (JNum n)"
  unfolding prefix_free_at_def
proof (intro allI impI)
  fix w t u x y
  assume dw: "doubles_only w" and t: "canonical_value E (JNum n) = Inr t" and u: "canonical_value E w = Inr u"
    and eq: "t @ x = u @ y"
  obtain m where w: "w = JNum m"
    using canonical_head[OF t] canonical_head[OF u] same_head[OF _ _ eq]
    by (cases w) (auto split: if_splits)
  from t u w obtain a b where a: "canonical_number E n = Inr a" "t = ''D'' @ nat_text (length a) @ '':'' @ a"
    and b: "canonical_number E m = Inr b" "u = ''D'' @ nat_text (length b) @ '':'' @ b"
    by (auto simp: bind_e_Inr_iff)
  have "nat_text (length a) @ CHR '':'' # (a @ x) = nat_text (length b) @ CHR '':'' # (b @ y)"
    using eq a(2) b(2) by simp
  then have "length a = length b" "a @ x = b @ y" using nat_text_colon by blast+
  then have "a = b" "x = y" by auto
  with canonical_number_inj[OF numbers] a(1) b(1) dw w show "normal_form (JNum n) = normal_form w \<and> x = y" by simp
qed

lemma prefix_free_str: "prefix_free_at E (JStr s)"
  unfolding prefix_free_at_def
proof (intro allI impI)
  fix w t u x y
  assume dw: "doubles_only w" and t: "canonical_value E (JStr s) = Inr t" and u: "canonical_value E w = Inr u"
    and eq: "t @ x = u @ y"
  obtain s' where w: "w = JStr s'"
    using canonical_head[OF t] canonical_head[OF u] same_head[OF _ _ eq]
    by (cases w) (auto split: if_splits)
  with t u canonical_string_prefix[of s t s' u x y] eq
  show "normal_form (JStr s) = normal_form w \<and> x = y" by simp
qed

lemma prefix_free_const:
  assumes "v = JNull \<or> v = JBool b"
  shows "prefix_free_at E v"
  unfolding prefix_free_at_def
proof (intro allI impI)
  fix w t u x y
  assume dw: "doubles_only w" and t: "canonical_value E v = Inr t" and u: "canonical_value E w = Inr u" and eq: "t @ x = u @ y"
  have "w = v"
    using assms canonical_head[OF t] canonical_head[OF u] same_head[OF _ _ eq]
    by (cases w) (auto split: if_splits)
  with t u eq show "normal_form v = normal_form w \<and> x = y" by simp
qed

lemma canonical_value_prefix_free: "number_text_ok E \<Longrightarrow> doubles_only v \<Longrightarrow> prefix_free_at E v"
proof (induction v rule: normal_form.induct)
  case (1 xs)
  then show ?case by (intro prefix_free_arr) simp
next
  case (2 kvs)
  have "prefix_free_at E v" if "(k, v) \<in> set (defined_entries kvs)" for k v
    using 2 that by (auto simp: defined_entries_def)
  then show ?case by (intro prefix_free_obj) auto
qed (auto intro: prefix_free_const prefix_free_num prefix_free_str simp: prefix_free_at_def[of E JUndef])

text \<open>C25: Canonical texts determine their values. Two JavaScript values with the same canonical text are
  equal up to what JSON transport drops: the order of object keys and undefined entries. All that is
  asked of the host is that the text it prints for a number reads back as that number.\<close>

theorem canonical_text_injective:
  assumes "number_text_ok E" and "doubles_only v" and "doubles_only w"
    and "canonical_text E v = Inr t" and "canonical_text E w = Inr t"
  shows "normal_form v = normal_form w"
proof -
  from assms(4,5) obtain a where "canonical_value E v = Inr a" "canonical_value E w = Inr a"
    by (auto simp: canonical_text_def bind_e_Inr_iff)
  with prefix_free_atD[OF canonical_value_prefix_free[OF assms(1,2)] assms(3), of a a "[]" "[]"]
  show ?thesis by simp
qed

section \<open>When a value can be encoded\<close>

text \<open>
  Every number the host formats is encodable: its text has the shape of a JSON number. Under that
  guarantee the encoder fails exactly on a NUL character, a non-finite number, an undefined array
  element or an undefined value.
\<close>

definition number_format_ok :: "js_env \<Rightarrow> bool" where
  "number_format_ok E \<longleftrightarrow> (\<forall>r. parse_number (num_text E r) \<noteq> None)"

fun encodable :: "json \<Rightarrow> bool" where
  "encodable JUndef \<longleftrightarrow> False"
| "encodable JNull \<longleftrightarrow> True"
| "encodable (JBool b) \<longleftrightarrow> True"
| "encodable (JStr s) \<longleftrightarrow> \<not> has_nul s"
| "encodable (JNum n) \<longleftrightarrow> is_finite n"
| "encodable (JArr xs) \<longleftrightarrow> (\<forall>x \<in> set xs. encodable x)"
| "encodable (JObj kvs) \<longleftrightarrow> (\<forall>(k, v) \<in> set kvs. v = JUndef \<or> \<not> has_nul k \<and> encodable v)"

lemma each_e_total: "(\<And>x. x \<in> set xs \<Longrightarrow> \<exists>y. f x = Inr y) \<Longrightarrow> \<exists>ys. each_e f xs = Inr ys"
  by (induction xs) (fastforce simp: bind_e_Inr_iff)+

lemma canonical_string_total: "\<not> has_nul s \<Longrightarrow> \<exists>t. canonical_string s = Inr t"
  by (simp add: canonical_string_def)

lemma encodable_total:
  assumes "number_format_ok E"
  shows "encodable v \<Longrightarrow> \<exists>t. canonical_value E v = Inr t"
proof (induction v rule: normal_form.induct)
  case (1 xs)
  have "\<exists>ys. each_e (\<lambda>x. if x = JUndef then Inl Undefined_element else canonical_value E x) xs = Inr ys"
  proof (rule each_e_total)
    fix x assume "x \<in> set xs"
    with 1 show "\<exists>y. (if x = JUndef then Inl Undefined_element else canonical_value E x) = Inr y"
      by (cases "x = JUndef") auto
  qed
  then show ?case by auto
next
  case (2 kvs)
  have keys: "\<not> has_nul k" and vals: "encodable v" if "(k, v) \<in> set (defined_entries kvs)" for k v
    using 2 that by (auto simp: defined_entries_def)
  have "\<exists>ys. each_e (\<lambda>(k, v). bind_e (canonical_string k) (\<lambda>kt.
           bind_e (canonical_value E v) (\<lambda>vt. Inr (kt @ vt)))) (sort_cmp key_order (defined_entries kvs)) = Inr ys"
    using 2(1) keys vals by (intro each_e_total) (fastforce simp: bind_e_Inr_iff dest: canonical_string_total)
  then show ?case using keys by auto
next
  case (6 n)
  then show ?case using assms
    by (cases n) (auto simp: canonical_number_def is_finite_def number_format_ok_def split: option.splits,
        metis option.distinct(1))
qed (auto simp: canonical_string_def)

lemma digest_total: "number_format_ok E \<Longrightarrow> encodable v \<Longrightarrow> \<exists>h. digest E v = Inr h"
  using encodable_total by (fastforce simp: digest_def canonical_text_def bind_e_Inr_iff)

lemma digest_encodable: "digest E v = Inr h \<Longrightarrow> v \<noteq> JUndef"
  by (auto simp: digest_def canonical_text_def)

end
