(* ===== verification/Json_Text.thy ===== *)
theory Json_Text
  imports Canonical_Json
begin

text \<open>
  \<open>JSON.stringify\<close> without an indent, which the server uses to compare and to measure values:
  undefined members are left out, undefined elements and non-finite numbers become null. The texts
  determine the values up to exactly that (\<open>wire\<close>).
\<close>

definition json_escape :: "char \<Rightarrow> string" where
  "json_escape c =
     (if c = CHR 0x22 then [CHR 0x5C, CHR 0x22] else if c = CHR 0x5C then [CHR 0x5C, CHR 0x5C]
      else if code c = 8 then [CHR 0x5C, CHR ''b''] else if code c = 9 then [CHR 0x5C, CHR ''t'']
      else if code c = 10 then [CHR 0x5C, CHR ''n''] else if code c = 12 then [CHR 0x5C, CHR ''f'']
      else if code c = 13 then [CHR 0x5C, CHR ''r'']
      else if code c < 32 then [CHR 0x5C, CHR ''u'', CHR ''0'', CHR ''0'', hex_digit (code c div 16), hex_digit (code c mod 16)]
      else [c])"

definition json_quote :: "string \<Rightarrow> string" where
  "json_quote s = CHR 0x22 # concat (map json_escape s) @ [CHR 0x22]"

definition json_number :: "js_env \<Rightarrow> num \<Rightarrow> string" where
  "json_number E n = (case n of Fin r \<Rightarrow> num_text E r | _ \<Rightarrow> ''null'')"

function json_text :: "js_env \<Rightarrow> json \<Rightarrow> string" where
  "json_text E (JArr xs) = ''['' @ join_with '','' (map (json_text E) xs) @ '']''"
| "json_text E (JObj kvs) =
     ''{'' @ join_with '','' (map (\<lambda>(k, v). json_quote k @ '':'' @ json_text E v) (defined_entries kvs)) @ ''}''"
| "json_text E JUndef = ''null''"
| "json_text E JNull = ''null''"
| "json_text E (JBool b) = (if b then ''true'' else ''false'')"
| "json_text E (JNum n) = json_number E n"
| "json_text E (JStr s) = json_quote s"
  by pat_completeness auto
termination
  by (relation "measure (size \<circ> snd)")
    (auto simp: defined_entries_def dest: size_entry size_list_estimation'[where f = size])

definition stringify :: "js_env \<Rightarrow> json \<Rightarrow> string option" where
  "stringify E v = (if v = JUndef then None else Some (json_text E v))"

function wire :: "json \<Rightarrow> json" where
  "wire (JArr xs) = JArr (map wire xs)"
| "wire (JObj kvs) = JObj (map (\<lambda>(k, v). (k, wire v)) (defined_entries kvs))"
| "wire JUndef = JNull"
| "wire JNull = JNull"
| "wire (JBool b) = JBool b"
| "wire (JNum n) = (if is_finite n then JNum n else JNull)"
| "wire (JStr s) = JStr s"
  by pat_completeness auto
termination
  by (relation "measure size")
    (auto simp: defined_entries_def dest: size_entry size_list_estimation'[where f = size])

section \<open>The texts determine the values\<close>

text \<open>What the host's number formatting guarantees: distinct texts over the characters of numerals.\<close>

definition is_num_char :: "char \<Rightarrow> bool" where
  "is_num_char c \<longleftrightarrow> is_digit c \<or> c \<in> set ''-+.e''"

definition json_number_ok :: "js_env \<Rightarrow> bool" where
  "json_number_ok E \<longleftrightarrow> inj (num_text E)
     \<and> (\<forall>r. \<exists>c t. num_text E r = c # t \<and> (is_digit c \<or> c = CHR ''-'') \<and> (\<forall>x \<in> set t. is_num_char x))"

lemma hex_pair_inj:
  assumes "hex_digit (code c div 16) = hex_digit (code d div 16)" "hex_digit (code c mod 16) = hex_digit (code d mod 16)"
  shows "code c = code d"
proof -
  have "code c div 16 < 16" "code d div 16 < 16" using code_less by (simp_all add: less_mult_imp_div_less)
  then have "code c div 16 = code d div 16" "code c mod 16 = code d mod 16"
    using assms by (auto intro: hex_digit_inj)
  then show ?thesis by (metis div_mult_mod_eq)
qed

lemma json_escape_prefix:
  assumes "json_escape c @ u = json_escape d @ v"
  shows "c = d \<and> u = v"
  using assms hex_pair_inj[of c d] unfolding code_inject[symmetric, of c d]
  by (auto simp: json_escape_def split: if_splits)

lemma json_escape_no_quote: "json_escape c \<noteq> [] \<and> hd (json_escape c) \<noteq> CHR 0x22"
  by (simp add: json_escape_def)

lemma json_quote_prefix:
  assumes "json_quote s @ x = json_quote t @ y"
  shows "s = t \<and> x = y"
proof -
  have "concat (map json_escape s) @ CHR 0x22 # x = concat (map json_escape t) @ CHR 0x22 # y"
    using assms by (simp add: json_quote_def)
  then show ?thesis
  proof (induction s arbitrary: t)
    case Nil
    then show ?case
    proof (cases t)
      case (Cons d u)
      then show ?thesis using Nil json_escape_no_quote[of d] by (cases "json_escape d") auto
    qed simp
  next
    case (Cons c s)
    show ?case
    proof (cases t)
      case Nil
      then show ?thesis using Cons.prems json_escape_no_quote[of c] by (cases "json_escape c") auto
    next
      case (Cons d u)
      have "json_escape c @ (concat (map json_escape s) @ CHR 0x22 # x) = json_escape d @ (concat (map json_escape u) @ CHR 0x22 # y)"
        using Cons.prems Cons by simp
      from json_escape_prefix[OF this] Cons.IH[of u] Cons show ?thesis by simp
    qed
  qed
qed

text \<open>What can follow a value in a text.\<close>

definition delimited :: "string \<Rightarrow> bool" where
  "delimited x \<longleftrightarrow> x = [] \<or> hd x \<in> set '',]}''"

definition separates :: "js_env \<Rightarrow> json \<Rightarrow> bool" where
  "separates E v \<longleftrightarrow> (\<forall>w x y. delimited x \<longrightarrow> delimited y \<longrightarrow> json_text E v @ x = json_text E w @ y
     \<longrightarrow> wire v = wire w \<and> x = y)"

lemma separatesD: "separates E v \<Longrightarrow> delimited x \<Longrightarrow> delimited y \<Longrightarrow> json_text E v @ x = json_text E w @ y
    \<Longrightarrow> wire v = wire w \<and> x = y"
  unfolding separates_def by blast

lemma delimited_Cons [simp]: "delimited (c # s) \<longleftrightarrow> c \<in> set '',]}''"
  by (simp add: delimited_def)

lemma number_head:
  assumes "json_number_ok E"
  shows "(case n of Fin r \<Rightarrow> \<exists>c t. json_number E n = c # t \<and> (is_digit c \<or> c = CHR ''-'') \<and> (\<forall>x \<in> set t. is_num_char x)
     | _ \<Rightarrow> json_number E n = ''null'')"
  using assms by (auto simp: json_number_def json_number_ok_def split: num.split)

lemma num_char_plain: "is_num_char c \<Longrightarrow> c \<notin> set '',]}''" "is_digit c \<Longrightarrow> c \<notin> {CHR ''n'', CHR ''t'', CHR ''f'', CHR 0x22, CHR ''['', CHR ''{''}"
  by (auto simp: is_num_char_def is_digit_def code_def)

text \<open>The first character of a text names the constructor of its value.\<close>

lemma json_text_head:
  assumes "json_number_ok E"
  shows "json_text E v \<noteq> [] \<and> (case wire v of JNull \<Rightarrow> json_text E v = ''null'' | JBool b \<Rightarrow> json_text E v = (if b then ''true'' else ''false'')
     | JNum n \<Rightarrow> is_digit (hd (json_text E v)) \<or> hd (json_text E v) = CHR ''-'' | JStr _ \<Rightarrow> hd (json_text E v) = CHR 0x22
     | JArr _ \<Rightarrow> hd (json_text E v) = CHR ''['' | JObj _ \<Rightarrow> hd (json_text E v) = CHR ''{'' | JUndef \<Rightarrow> False)"
proof (cases v)
  case (JNum n)
  then show ?thesis using number_head[OF assms, of n] by (cases n) (auto simp: json_number_def is_finite_def)
qed (auto simp: json_quote_def)

lemma join_with_tail: "join_with sep (x # xs) = x @ concat (map (\<lambda>y. sep @ y) xs)"
  by (induction xs arbitrary: x) simp_all

definition item_separates :: "('a \<Rightarrow> string) \<Rightarrow> ('a \<Rightarrow> 'b) \<Rightarrow> 'a \<Rightarrow> bool" where
  "item_separates f g a \<longleftrightarrow> (\<forall>b x y. delimited x \<longrightarrow> delimited y \<longrightarrow> f a @ x = f b @ y \<longrightarrow> g a = g b \<and> x = y)"

lemma item_separatesD: "item_separates f g a \<Longrightarrow> delimited x \<Longrightarrow> delimited y \<Longrightarrow> f a @ x = f b @ y
    \<Longrightarrow> g a = g b \<and> x = y"
  unfolding item_separates_def by blast

definition tail_text :: "('a \<Rightarrow> string) \<Rightarrow> 'a list \<Rightarrow> string" where
  "tail_text f xs = concat (map (\<lambda>a. CHR '','' # f a) xs)"

lemma tail_delimited: "c \<in> set '']}'' \<Longrightarrow> delimited (tail_text f xs @ c # z)"
  by (cases xs) (auto simp: tail_text_def)

lemma join_tail: "join_with '','' (map f (a # xs)) @ z = f a @ tail_text f xs @ z"
  by (simp only: list.map join_with_tail) (simp add: tail_text_def comp_def)

lemma tails_prefix:
  assumes "\<forall>a \<in> set xs. item_separates f g a" and "c \<in> set '']}''"
    and "tail_text f xs @ c # u = tail_text f ys @ c # v"
  shows "map g xs = map g ys \<and> u = v"
  using assms
proof (induction xs arbitrary: ys)
  case Nil
  then show ?case by (cases ys) (auto simp: tail_text_def)
next
  case (Cons a xs)
  then obtain b zs where ys: "ys = b # zs" by (cases ys) (auto simp: tail_text_def)
  have "f a @ (tail_text f xs @ c # u) = f b @ (tail_text f zs @ c # v)"
    using Cons.prems(3) ys by (simp add: tail_text_def)
  from item_separatesD[of f g a, OF _ tail_delimited[OF assms(2)] tail_delimited[OF assms(2)] this] Cons.prems(1)
  have "g a = g b" "tail_text f xs @ c # u = tail_text f zs @ c # v" by auto
  with Cons.IH[of zs] Cons.prems(1,2) ys show ?case by simp
qed

lemma join_head:
  assumes "\<And>a. f a \<noteq> [] \<and> hd (f a) \<notin> set '']}''" and "c \<in> set '']}''"
  shows "join_with '','' (map f (a # xs)) @ z \<noteq> c # w"
proof
  assume "join_with '','' (map f (a # xs)) @ z = c # w"
  then have "f a @ (tail_text f xs @ z) = c # w" by (simp only: join_tail)
  then have "hd (f a) = c" using assms(1)[of a] by (metis hd_append2 list.sel(1))
  with assms show False by blast
qed

lemma items_separate:
  assumes "\<forall>a \<in> set xs. item_separates f g a" and "c \<in> set '']}''"
    and heads: "\<And>a. f a \<noteq> [] \<and> hd (f a) \<notin> set '']}''"
    and eq: "join_with '','' (map f xs) @ c # u = join_with '','' (map f ys) @ c # v"
  shows "map g xs = map g ys \<and> u = v"
proof (cases xs)
  case Nil
  with eq join_head[of f c _ _ "c # v" u, OF heads assms(2)] show ?thesis by (cases ys) auto
next
  case (Cons a as')
  then obtain b bs where ys: "ys = b # bs"
    using eq join_head[of f c a as' "c # u" v, OF heads assms(2)] by (cases ys) auto
  have "f a @ (tail_text f as' @ c # u) = f b @ (tail_text f bs @ c # v)"
    using eq unfolding Cons ys join_tail .
  from item_separatesD[of f g a, OF _ tail_delimited[OF assms(2)] tail_delimited[OF assms(2)] this] assms(1) Cons
  have "g a = g b" "tail_text f as' @ c # u = tail_text f bs @ c # v" by auto
  with tails_prefix[OF _ assms(2), of as' f g u bs v] assms(1) Cons ys show ?thesis by simp
qed

lemma entry_separates: "separates E v \<Longrightarrow> item_separates (\<lambda>(k, v). json_quote k @ '':'' @ json_text E v) (\<lambda>(k, v). (k, wire v)) (k, v)"
  unfolding item_separates_def
proof (intro allI impI)
  fix b x y
  assume sep: "separates E v" and d: "delimited x" "delimited y"
    and eq: "(case (k, v) of (k, v) \<Rightarrow> json_quote k @ '':'' @ json_text E v) @ x = (case b of (k, v) \<Rightarrow> json_quote k @ '':'' @ json_text E v) @ y"
  obtain j w where b: "b = (j, w)" by fastforce
  have "json_quote k @ (CHR '':'' # json_text E v @ x) = json_quote j @ (CHR '':'' # json_text E w @ y)"
    using eq b by simp
  from json_quote_prefix[OF this] have "k = j" "json_text E v @ x = json_text E w @ y" by auto
  with separatesD[OF sep d] b show "(case (k, v) of (k, v) \<Rightarrow> (k, wire v)) = (case b of (k, v) \<Rightarrow> (k, wire v)) \<and> x = y" by simp
qed

lemma not_digits:
  "\<not> is_digit (CHR ''n'')" "\<not> is_digit (CHR ''t'')" "\<not> is_digit (CHR ''f'')" "\<not> is_digit (CHR 0x22)"
  "\<not> is_digit (CHR ''['')" "\<not> is_digit (CHR ''{'')" "\<not> is_digit (CHR '']'')" "\<not> is_digit (CHR ''}'')"
  by (simp_all add: is_digit_def code_def)

lemma digit_plain: "is_digit c \<Longrightarrow> c \<notin> set ''ntf[{]}'' \<and> c \<noteq> CHR 0x22"
  using not_digits by auto

lemma same_kind:
  assumes ok: "json_number_ok E" and "json_text E v @ x = json_text E w @ y"
  shows "(case wire v of JNull \<Rightarrow> wire w = JNull | JBool b \<Rightarrow> wire w = JBool b | JNum _ \<Rightarrow> (\<exists>m. wire w = JNum m)
     | JStr _ \<Rightarrow> (\<exists>t. wire w = JStr t) | JArr _ \<Rightarrow> (\<exists>ys. wire w = JArr ys) | JObj _ \<Rightarrow> (\<exists>ks. wire w = JObj ks) | JUndef \<Rightarrow> False)"
proof -
  have "hd (json_text E w) = hd (json_text E v)"
    using assms(2) json_text_head[OF ok] by (metis hd_append2)
  then show ?thesis
    using json_text_head[OF ok, of v] json_text_head[OF ok, of w]
    by (cases "wire v"; cases "wire w"; auto dest: digit_plain split: if_splits)
qed

lemma wire_kind:
  "wire w = JArr ys \<Longrightarrow> \<exists>xs. w = JArr xs" "wire w = JObj ks \<Longrightarrow> \<exists>ls. w = JObj ls" "wire w = JStr t \<Longrightarrow> w = JStr t"
  "wire w = JNum m \<Longrightarrow> w = JNum m \<and> is_finite m"
  by (cases w; auto split: if_splits)+

lemma separates_number:
  assumes ok: "json_number_ok E"
  shows "separates E (JNum (Fin r))"
  unfolding separates_def
proof (intro allI impI)
  fix w x y
  assume d: "delimited x" "delimited y" and eq: "json_text E (JNum (Fin r)) @ x = json_text E w @ y"
  from same_kind[OF ok eq] obtain m where w: "w = JNum m" "is_finite m"
    using wire_kind(4) by (auto simp: is_finite_def)
  then obtain q where m: "m = Fin q" by (cases m) (auto simp: is_finite_def)
  have num: "\<forall>c \<in> set (num_text E a). is_num_char c" for a
  proof -
    from ok obtain c t where "num_text E a = c # t" "is_digit c \<or> c = CHR ''-''" "\<forall>x \<in> set t. is_num_char x"
      unfolding json_number_ok_def by blast
    then show ?thesis by (auto simp: is_num_char_def)
  qed
  have "takeWhile is_num_char (num_text E a @ z) = num_text E a" if "delimited z" for a z
    using num that by (cases z) (auto simp: takeWhile_append dest: num_char_plain(1))
  moreover have eq': "num_text E r @ x = num_text E q @ y" using eq w m by (simp add: json_number_def)
  ultimately have "num_text E r = num_text E q" using d by metis
  then show "wire (JNum (Fin r)) = wire w \<and> x = y"
    using eq ok w m by (auto simp: json_number_ok_def json_number_def inj_eq)
qed

lemma separates_null: "json_number_ok E \<Longrightarrow> wire v \<in> {JNull, JBool b} \<Longrightarrow> separates E v"
  unfolding separates_def
proof (intro allI impI)
  fix w x y
  assume ok: "json_number_ok E" and v: "wire v \<in> {JNull, JBool b}" and eq: "json_text E v @ x = json_text E w @ y"
  from same_kind[OF ok eq] v have "wire w = wire v" by auto
  with v json_text_head[OF ok, of v] json_text_head[OF ok, of w] eq show "wire v = wire w \<and> x = y"
    by auto
qed

lemma separates_str: "json_number_ok E \<Longrightarrow> separates E (JStr s)"
  unfolding separates_def
proof (intro allI impI)
  fix w x y
  assume ok: "json_number_ok E" and eq: "json_text E (JStr s) @ x = json_text E w @ y"
  from same_kind[OF ok eq] obtain t where "w = JStr t" using wire_kind(3) by auto
  with eq json_quote_prefix[of s x t y] show "wire (JStr s) = wire w \<and> x = y" by simp
qed

lemma item_head:
  assumes "json_number_ok E"
  shows "json_text E v \<noteq> [] \<and> hd (json_text E v) \<notin> set '']}''"
  using json_text_head[OF assms, of v]
  by (cases "wire v") (auto simp: not_digits split: if_splits)

lemma separates_arr:
  assumes ok: "json_number_ok E" and "\<forall>v \<in> set xs. separates E v"
  shows "separates E (JArr xs)"
  unfolding separates_def
proof (intro allI impI)
  fix w x y
  assume eq: "json_text E (JArr xs) @ x = json_text E w @ y"
  from same_kind[OF ok eq] obtain ys where w: "w = JArr ys" using wire_kind(1) by fastforce
  have "\<forall>v \<in> set xs. item_separates (json_text E) wire v"
    unfolding item_separates_def using assms(2) separatesD[of E] by blast
  from items_separate[OF this _ item_head[OF ok], of "CHR '']''" x ys y] eq w
  show "wire (JArr xs) = wire w \<and> x = y" by simp
qed

lemma separates_obj:
  assumes ok: "json_number_ok E" and "\<forall>(k, v) \<in> set (defined_entries kvs). separates E v"
  shows "separates E (JObj kvs)"
  unfolding separates_def
proof (intro allI impI)
  fix w x y
  assume eq: "json_text E (JObj kvs) @ x = json_text E w @ y"
  from same_kind[OF ok eq] obtain ls where w: "w = JObj ls" using wire_kind(2) by fastforce
  let ?f = "\<lambda>(k, v). json_quote k @ '':'' @ json_text E v"
  have "\<forall>p \<in> set (defined_entries kvs). item_separates ?f (\<lambda>(k, v). (k, wire v)) p"
    using assms(2) entry_separates by fastforce
  moreover have "?f p \<noteq> [] \<and> hd (?f p) \<notin> set '']}''" for p
    by (cases p) (simp add: json_quote_def)
  ultimately show "wire (JObj kvs) = wire w \<and> x = y"
    using items_separate[of "defined_entries kvs" ?f "\<lambda>(k, v). (k, wire v)" "CHR ''}''" x "defined_entries ls" y] eq w
    by simp
qed

lemma json_text_separates: "json_number_ok E \<Longrightarrow> separates E v"
proof (induction v rule: wire.induct)
  case (1 xs)
  then show ?case by (intro separates_arr) auto
next
  case (2 kvs)
  then show ?case by (intro separates_obj) auto
next
  case (6 n)
  then show ?case
  proof (cases n)
    case (Fin r)
    then show ?thesis using separates_number[OF 6] by simp
  qed (auto intro!: separates_null[OF 6] simp: is_finite_def)
qed (auto intro: separates_null separates_str)

text \<open>So the comparisons of texts in the server compare values.\<close>

lemma stringify_injective:
  assumes "json_number_ok E" and "stringify E v = stringify E w" and "stringify E v = Some t"
  shows "wire v = wire w"
proof -
  from assms(2,3) have "json_text E v @ [] = json_text E w @ []" by (auto simp: stringify_def split: if_splits)
  from separatesD[OF json_text_separates[OF assms(1)] _ _ this] show ?thesis by (simp add: delimited_def)
qed

end
