(* ===== verification/Sample_Host.thy ===== *)
theory Sample_Host
  imports Json_Text
begin

text \<open>
  A concrete host environment: it meets the guarantees the theorems ask of the host (distinct numeral texts,
  digest format, unused identifiers, collation), so the witnesses instantiate the parameters with it.
  \<open>exact_env\<close> is the same host printing every double exactly, so that numbers read back.
\<close>

definition sample_num_text :: "rat \<Rightarrow> string" where
  "sample_num_text r =
     (case quotient_of r of (p, q) \<Rightarrow>
        (if p < 0 then ''-'' else []) @ nat_text (nat \<bar>p\<bar>)
        @ (if q = 1 then [] else ''.'' @ nat_text (nat q)))"

definition sample_sha :: "string \<Rightarrow> string" where
  "sample_sha s = hex_text (replicate 32 (sum_list (map code s) mod 256))"

definition pad12 :: "string \<Rightarrow> string" where
  "pad12 s = replicate (12 - length s) CHR ''0'' @ s"

definition sample_uuid :: "nat \<Rightarrow> string" where
  "sample_uuid n = ''00000000-0000-4000-8000-'' @ pad12 (nat_text n)"

definition sample_env :: js_env where
  "sample_env = \<lparr>sha256_hex = sample_sha, num_text = sample_num_text, text_num = (\<lambda>s. NaN),
     parse_date = (\<lambda>s. if s = [] then None else Some (int (digits_val s))),
     iso_text = (\<lambda>n. nat_text (nat n)), collate = compare_utf8, uuid_at = sample_uuid\<rparr>"

lemma sample_env_sel [simp]:
  "sha256_hex sample_env = sample_sha" "num_text sample_env = sample_num_text"
  "uuid_at sample_env = sample_uuid" "collate sample_env = compare_utf8"
  "iso_text sample_env n = nat_text (nat n)"
  "parse_date sample_env s = (if s = [] then None else Some (int (digits_val s)))"
  by (simp_all add: sample_env_def)

section \<open>Numerals\<close>

lemma list_all_nat_text [simp]: "list_all is_digit (nat_text n)"
  by (simp add: list_all_iff nat_text_digits)

lemma nat_text_not_Nil [simp]: "nat_text n \<noteq> []"
  by (simp add: nat_text.simps)

lemma nat_text_inject [simp]: "nat_text m = nat_text n \<longleftrightarrow> m = n"
  by (metis digits_val_nat_text)

lemma hd_nat_text: "is_digit (hd (nat_text n))"
  by (rule nat_text_digits[OF hd_in_set[OF nat_text_not_Nil]])

lemma takeWhile_nat_text [simp]:
  "takeWhile is_digit (nat_text n) = nat_text n"
  "dropWhile is_digit (nat_text n) = []"
  "takeWhile is_digit (nat_text n @ CHR ''.'' # s) = nat_text n"
  "dropWhile is_digit (nat_text n @ CHR ''.'' # s) = CHR ''.'' # s"
  by (simp_all add: takeWhile_append dropWhile_append nat_text_digits not_digit_marks)

lemma parse_sample:
  assumes "quotient_of r = (p, q)"
  shows "parse_number (sample_num_text r) =
     Some (p < 0, nat_text (nat \<bar>p\<bar>), if q = 1 then [] else nat_text (nat q), 0)"
proof -
  have "hd (nat_text n @ s) \<noteq> CHR ''-''" for n s
    using hd_nat_text[of n] not_digit_marks by (auto simp: hd_append)
  then show ?thesis
    using assms hd_nat_text not_digit_marks
    by (auto simp: parse_number_def sample_num_text_def Let_def parse_exponent_def hd_append
        dest: nat_text_digits)
qed

lemma sample_number_format: "number_format_ok sample_env"
  unfolding number_format_ok_def using parse_sample by (metis option.distinct(1) prod.exhaust sample_env_sel(2))

lemma sample_num_text_inj: "sample_num_text r = sample_num_text r' \<Longrightarrow> r = r'"
proof -
  assume eq: "sample_num_text r = sample_num_text r'"
  obtain p q p' q' where pq: "quotient_of r = (p, q)" "quotient_of r' = (p', q')" by fastforce
  from eq parse_sample[OF pq(1)] parse_sample[OF pq(2)]
  have eqs: "p < 0 \<longleftrightarrow> p' < 0" "nat_text (nat \<bar>p\<bar>) = nat_text (nat \<bar>p'\<bar>)"
    "(if q = 1 then [] else nat_text (nat q)) = (if q' = 1 then [] else nat_text (nat q'))" by simp_all
  have "0 < q" "0 < q'" using pq quotient_of_denom_pos by blast+
  moreover from eqs(2) have "nat \<bar>p\<bar> = nat \<bar>p'\<bar>" by simp
  moreover from eqs(3) have "q = q'"
    using \<open>0 < q\<close> \<open>0 < q'\<close> nat_text_not_Nil[of "nat q"] nat_text_not_Nil[of "nat q'"]
    by (auto split: if_splits simp: nat_text_not_Nil[symmetric])
  ultimately have "p = p'" "q = q'" using eqs(1) by linarith+
  with pq show "r = r'" by (metis quotient_of_inject)
qed

text \<open>
  A host that prints every number exactly: a double is an integer multiple of \<open>2^-1074\<close>, hence of
  \<open>10^-1074\<close>, so its decimal expansion is finite and reads back as that double.
\<close>

definition exact_places :: nat where
  "exact_places = 1074"

definition exact_text :: "rat \<Rightarrow> string" where
  "exact_text r = (if r < 0 then ''-'' else []) @ nat_text (nat \<lfloor>\<bar>r\<bar> * 10 ^ exact_places\<rfloor>) @ ''e-'' @ nat_text exact_places"

definition exact_env :: js_env where
  "exact_env = sample_env\<lparr>num_text := exact_text\<rparr>"

lemma pow2_scaled: "- int k \<le> e \<Longrightarrow> \<exists>m :: nat. pow2 e * 10 ^ k = of_nat m"
proof (cases "0 \<le> e")
  case True
  then have "pow2 e * 10 ^ k = of_nat (2 ^ nat e * 10 ^ k)" by (simp add: pow2_def)
  then show ?thesis by blast
next
  case False
  assume "- int k \<le> e"
  with False have k: "k = nat (- e) + (k - nat (- e))" by simp
  have "(10 :: rat) ^ k = 2 ^ k * 5 ^ k" by (simp flip: power_mult_distrib)
  also have "(2 :: rat) ^ k = 2 ^ nat (- e) * 2 ^ (k - nat (- e))" by (subst k) (rule power_add)
  finally have "pow2 e * 10 ^ k = of_nat (2 ^ (k - nat (- e)) * 5 ^ k)" using False by (simp add: pow2_def)
  then show ?thesis by blast
qed

lemma double_scaled:
  assumes "round64 r = Fin r"
  shows "\<exists>n :: nat. \<bar>r\<bar> * 10 ^ exact_places = of_nat n"
proof -
  have scaled: "\<exists>n :: nat. \<bar>a\<bar> * 10 ^ exact_places = of_nat n" if "round_pos a = Fin a" for a
  proof -
    define e where "e = max (ilog2 a - 52) (- 1074)"
    define k where "k = round_even (a / pow2 e)"
    have a: "a = of_int k * pow2 e" "- int exact_places \<le> e"
      using that by (simp_all add: round_pos_def Let_def exact_places_def e_def[symmetric] k_def[symmetric] split: if_splits)
        (simp add: e_def)
    obtain m :: nat where "pow2 e * 10 ^ exact_places = of_nat m" using pow2_scaled[OF a(2)] by blast
    then have "\<bar>a\<bar> * 10 ^ exact_places = of_nat (nat \<bar>k\<bar> * m)"
      by (simp add: a(1) abs_mult mult.assoc of_nat_nat less_imp_le)
    then show ?thesis by blast
  qed
  consider (int) "of_int \<lfloor>r\<rfloor> = r" | (pos) "0 \<le> r" "round_pos r = Fin r" | (neg) "r < 0" "round_pos (- r) = Fin (- r)"
    using assms by (auto simp: round64_def neg_num_def split: if_splits num.splits)
  then show ?thesis
  proof cases
    case int
    have "\<bar>r\<bar> = of_nat (nat \<bar>\<lfloor>r\<rfloor>\<bar>)" by (subst int[symmetric]) (simp del: int add: of_nat_nat)
    then have "\<bar>r\<bar> * 10 ^ exact_places = of_nat (nat \<bar>\<lfloor>r\<rfloor>\<bar> * 10 ^ exact_places)" by simp
    then show ?thesis by blast
  next
    case pos
    from scaled[OF pos(2)] pos(1) show ?thesis by simp
  next
    case neg
    from scaled[OF neg(2)] neg(1) show ?thesis by simp
  qed
qed

lemma parse_exponential:
  "parse_number ((if neg then ''-'' else []) @ nat_text n @ ''e-'' @ nat_text k) = Some (neg, nat_text n, [], - int k)"
proof -
  have marks: "\<not> is_digit (CHR ''e'')" "is_digit (hd (nat_text n))" using hd_nat_text by (simp_all add: is_digit_def code_def)
  have parts: "takeWhile is_digit (nat_text n @ ''e-'' @ nat_text k) = nat_text n"
    "dropWhile is_digit (nat_text n @ ''e-'' @ nat_text k) = ''e-'' @ nat_text k"
    using marks(1) by (simp_all add: takeWhile_append dropWhile_append nat_text_digits)
  have "parse_exponent (''e-'' @ nat_text k) = Some (- int k)" by (simp add: parse_exponent_def Let_def)
  moreover have "hd (nat_text n) \<noteq> CHR ''-''" using marks(2) not_digit_marks(1) by auto
  ultimately show ?thesis using parts by (simp add: parse_number_def Let_def)
qed

lemma parse_exact:
  "parse_number (exact_text r) = Some (r < 0, nat_text (nat \<lfloor>\<bar>r\<bar> * 10 ^ exact_places\<rfloor>), [], - int exact_places)"
  unfolding exact_text_def by (rule parse_exponential)

lemma exact_number_format: "number_format_ok exact_env"
  by (simp add: number_format_ok_def exact_env_def parse_exact)

lemma exact_number_text: "number_text_ok exact_env"
  unfolding number_text_ok_def
proof (intro allI impI)
  fix r assume d: "is_double (Fin r)"
  then obtain n where n: "\<bar>r\<bar> * 10 ^ exact_places = of_nat n" using double_scaled by (auto simp: is_double_def)
  then have "decimal_value (r < 0, nat_text n, [], - int exact_places) = r"
    by (auto simp: decimal_value_def power_int_minus field_simps abs_if split: if_splits)
  with d n show "\<exists>p. parse_number (num_text exact_env r) = Some p \<and> round64 (decimal_value p) = Fin r"
    by (simp add: exact_env_def is_double_def parse_exact)
qed

section \<open>Identifiers and order\<close>

lemma digits_val_zeros_append: "digits_val (replicate k (CHR ''0'') @ s) = digits_val s"
  by (simp add: digits_val_append digits_val_zeros)

lemma sample_uuid_inj: "sample_uuid m = sample_uuid n \<longleftrightarrow> m = n"
  by (auto simp: sample_uuid_def pad12_def) (metis digits_val_nat_text digits_val_zeros_append)

lemma cmp_bytes_flip: "sgn (cmp_bytes b a) = - sgn (cmp_bytes a b)"
  by (induction a b rule: cmp_bytes.induct) auto

lemma cmp_bytes_trans: "cmp_bytes a b \<le> 0 \<Longrightarrow> cmp_bytes b d \<le> 0 \<Longrightarrow> cmp_bytes a d \<le> 0"
proof (induction a b arbitrary: d rule: cmp_bytes.induct)
  case (1)
  then show ?case by simp
next
  case (2 y ys)
  then show ?case by (cases d) auto
next
  case (3 x xs)
  then show ?case by simp
next
  case (4 x xs y ys)
  show ?case
  proof (cases d)
    case (Cons z zs)
    have "x = y \<Longrightarrow> cmp_bytes xs ys \<le> 0 \<Longrightarrow> cmp_bytes ys zs \<le> 0 \<Longrightarrow> cmp_bytes xs zs \<le> 0"
      using "4.IH"[of zs] by blast
    with "4.prems" Cons show ?thesis by (auto split: if_splits)
  qed (use "4.prems" in simp)
qed

lemma sample_collation: "collation_ok sample_env"
  unfolding collation_ok_def sample_env_sel compare_utf8_def
  by (intro conjI allI impI cmp_bytes_flip) (rule cmp_bytes_trans)

lemma hex_digit_lower: "d < 16 \<Longrightarrow> is_lower_hex (hex_digit d)"
  by (auto simp: is_lower_hex_def is_digit_def hex_digit_def code_def)

lemma sample_sha_pattern: "sha_pattern (sample_sha s)"
proof -
  have "hex_text bs = concat (map (\<lambda>b. [hex_digit (b div 16), hex_digit (b mod 16)]) bs)" for bs
    by (rule hex_text_def)
  then have "length (hex_text bs) = 2 * length bs" for bs by (induction bs) auto
  moreover have "list_all is_lower_hex (hex_text bs)" if "\<forall>b \<in> set bs. b < 256" for bs
    using that by (auto simp: hex_text_def list_all_iff intro!: hex_digit_lower)
  ultimately show ?thesis by (simp add: sha_pattern_def sample_sha_def)
qed

lemma sample_json_numbers: "json_number_ok sample_env"
proof -
  have "inj sample_num_text" by (rule injI) (rule sample_num_text_inj)
  moreover have "\<exists>c t. sample_num_text r = c # t \<and> (is_digit c \<or> c = CHR ''-'') \<and> (\<forall>x \<in> set t. is_num_char x)" for r
  proof -
    have "\<forall>x \<in> set (sample_num_text r). is_num_char x"
      by (auto simp: sample_num_text_def is_num_char_def nat_text_digits split: prod.splits if_splits)
    moreover have "is_digit (hd (sample_num_text r)) \<or> hd (sample_num_text r) = CHR ''-''"
      by (auto simp: sample_num_text_def hd_append hd_nat_text split: prod.splits)
    moreover have "sample_num_text r \<noteq> []" by (auto simp: sample_num_text_def split: prod.splits)
    ultimately show ?thesis by (cases "sample_num_text r") auto
  qed
  ultimately show ?thesis by (simp add: json_number_ok_def)
qed

end
