(* ===== verification/Additive_Actions.thy ===== *)
theory Additive_Actions
  imports Additive_Schema Sample_Host
begin

text \<open>
  The registry of additive business actions, \<open>src/shared/additive-business-actions.ts\<close>: the five
  modules, the 46 action drafts, and \<open>define\<close>, which resolves the defaults of a draft into the
  definition that the engine enforces. Descriptions of actions and the CLI example
  are documentation and are left out; titles, prompts, tool names and example inputs are kept.
\<close>

datatype operation = OpRead | OpMutation | OpAi

datatype scope = ScopeRead | ScopeWrite | ScopeAi

datatype risk = RiskLow | RiskMedium | RiskHigh | RiskCritical

datatype effect = EffectNone | EffectDelivery | EffectCredential | EffectModel

datatype role = Viewer | Member | Admin | Owner

datatype plan = PlanNone | PlanStarter | PlanScale | PlanFleet

text \<open>Roles and plans are ordered by the ranks \<open>roleRank\<close> and \<open>planRank\<close> of the engine.\<close>

definition role_rank :: "role \<Rightarrow> nat" where
  "role_rank r = (case r of Viewer \<Rightarrow> 0 | Member \<Rightarrow> 1 | Admin \<Rightarrow> 2 | Owner \<Rightarrow> 3)"

definition plan_rank :: "plan \<Rightarrow> nat" where
  "plan_rank p = (case p of PlanNone \<Rightarrow> 0 | PlanStarter \<Rightarrow> 1 | PlanScale \<Rightarrow> 2 | PlanFleet \<Rightarrow> 3)"

lemma role_rank_inject: "role_rank a = role_rank b \<longleftrightarrow> a = b"
  by (cases a; cases b) (simp_all add: role_rank_def)

lemma plan_rank_inject: "plan_rank a = plan_rank b \<longleftrightarrow> a = b"
  by (cases a; cases b) (simp_all add: plan_rank_def)

instantiation role :: linorder
begin

definition less_eq_role :: "role \<Rightarrow> role \<Rightarrow> bool" where
  "less_eq_role a b \<longleftrightarrow> role_rank a \<le> role_rank b"

definition less_role :: "role \<Rightarrow> role \<Rightarrow> bool" where
  "less_role a b \<longleftrightarrow> role_rank a < role_rank b"

instance
  by standard (auto simp: less_eq_role_def less_role_def role_rank_inject)

end

instantiation plan :: linorder
begin

definition less_eq_plan :: "plan \<Rightarrow> plan \<Rightarrow> bool" where
  "less_eq_plan a b \<longleftrightarrow> plan_rank a \<le> plan_rank b"

definition less_plan :: "plan \<Rightarrow> plan \<Rightarrow> bool" where
  "less_plan a b \<longleftrightarrow> plan_rank a < plan_rank b"

instance
  by standard (auto simp: less_eq_plan_def less_plan_def plan_rank_inject)

end

lemmas role_order = less_eq_role_def less_role_def role_rank_def
lemmas plan_order = less_eq_plan_def less_plan_def plan_rank_def

text \<open>The names under which a request carries its role and plan.\<close>

definition role_of :: "string \<Rightarrow> role option" where
  "role_of s = map_of [(''viewer'', Viewer), (''member'', Member), (''admin'', Admin), (''owner'', Owner)] s"

definition plan_of :: "string \<Rightarrow> plan option" where
  "plan_of s = map_of [(''none'', PlanNone), (''starter'', PlanStarter), (''scale'', PlanScale),
     (''fleet'', PlanFleet)] s"

definition scope_text :: "scope \<Rightarrow> string" where
  "scope_text s = (case s of ScopeRead \<Rightarrow> ''read'' | ScopeWrite \<Rightarrow> ''write'' | ScopeAi \<Rightarrow> ''ai'')"

section \<open>Modules\<close>

datatype resource_class = ClassShared | ClassHigh | ClassAccelerated

record business_module =
  m_id :: string
  m_name :: string
  m_category :: string
  m_thesis :: string
  m_min_plan :: plan
  m_monthly_usd :: nat
  m_class :: resource_class
  m_cpu :: nat
  m_memory :: nat
  m_storage :: nat
  m_concurrency :: nat
  m_qualities :: "string list"

definition additive_modules :: "business_module list" where
  "additive_modules =
     [\<lparr>m_id = ''tables'', m_name = ''SchemaDeck'', m_category = ''Structured collaborative data'',
        m_thesis = ''Turn governed schemas, typed rows, deterministic views, and cited proposals into one shared workspace data fabric.'',
        m_min_plan = PlanStarter, m_monthly_usd = 7, m_class = ClassShared, m_cpu = 150, m_memory = 256, m_storage = 2, m_concurrency = 2,
        m_qualities = [''Version-pinned schema proposals'', ''Deterministic formulas'', ''No model-applied row or schema changes'']\<rparr>,
      \<lparr>m_id = ''meetings'', m_name = ''Recall Room'', m_category = ''Meeting decisions and commitments'',
        m_thesis = ''Preserve meetings as a privacy-aware ledger of participants, transcript evidence, decisions, owners, and reviewed follow-up proposals.'',
        m_min_plan = PlanScale, m_monthly_usd = 50, m_class = ClassHigh, m_cpu = 500, m_memory = 768, m_storage = 10, m_concurrency = 2,
        m_qualities = [''Transcript-cited proposals'', ''Human-owned decisions'', ''Approval-gated redaction'']\<rparr>,
      \<lparr>m_id = ''insights'', m_name = ''Proofline Insights'', m_category = ''Business intelligence'',
        m_thesis = ''Model metrics, observations, dashboards, and immutable reporting clocks before asking a model for cited explanations or hypotheses.'',
        m_min_plan = PlanScale, m_monthly_usd = 50, m_class = ClassHigh, m_cpu = 650, m_memory = 1024, m_storage = 20, m_concurrency = 3,
        m_qualities = [''Measurement-clock provenance'', ''Hypotheses separated from facts'', ''No autonomous alert or metric mutation'']\<rparr>,
      \<lparr>m_id = ''learning'', m_name = ''Learning Forge'', m_category = ''Courses and skills'',
        m_thesis = ''Bind lessons, attempts, rubrics, feedback proposals, and credentials to explicit evidence and human-reviewed achievement rules.'',
        m_min_plan = PlanScale, m_monthly_usd = 50, m_class = ClassHigh, m_cpu = 500, m_memory = 768, m_storage = 12, m_concurrency = 2,
        m_qualities = [''Rubric-grounded feedback proposals'', ''Evidence-bound learning paths'', ''Human-issued credentials'']\<rparr>,
      \<lparr>m_id = ''community'', m_name = ''Circlefield'', m_category = ''Customer community'',
        m_thesis = ''Make community context, membership, moderation receipts, and reviewed announcements portable without silent model moderation or posting.'',
        m_min_plan = PlanScale, m_monthly_usd = 50, m_class = ClassHigh, m_cpu = 600, m_memory = 1024, m_storage = 15, m_concurrency = 4,
        m_qualities = [''Policy-cited moderation proposals'', ''Exact-copy announcement approvals'', ''No silent model hiding, banning, or posting'']\<rparr>]"

definition module_by_id :: "string \<Rightarrow> business_module option" where
  "module_by_id m = first_such (\<lambda>b. m_id b = m) additive_modules"

section \<open>Drafts and definitions\<close>

record draft =
  d_module :: string
  d_product :: string
  d_id :: string
  d_title :: string
  d_operation :: operation
  d_type :: string
  d_required :: "string list"
  d_properties :: "(string \<times> schema) list"
  d_example :: obj
  d_scope :: "scope option"
  d_minimum_role :: "role option"
  d_risk :: "risk option"
  d_destructive :: "bool option"
  d_external :: "effect option"
  d_requires_approval :: "bool option"
  d_supports_dry_run :: "bool option"

definition draft_of ::
  "string \<Rightarrow> string \<Rightarrow> string \<Rightarrow> string \<Rightarrow> operation \<Rightarrow> string \<Rightarrow> string list \<Rightarrow> (string \<times> schema) list \<Rightarrow> obj \<Rightarrow>
   draft" where
  "draft_of m product i title op rt req ps example =
     \<lparr>d_module = m, d_product = product, d_id = i, d_title = title, d_operation = op, d_type = rt,
      d_required = req, d_properties = ps, d_example = example, d_scope = None, d_minimum_role = None,
      d_risk = None, d_destructive = None, d_external = None, d_requires_approval = None,
      d_supports_dry_run = None\<rparr>"

record action =
  a_module :: string
  a_product :: string
  a_id :: string
  a_title :: string
  a_operation :: operation
  a_type :: string
  a_scope :: scope
  a_role :: role
  a_risk :: risk
  a_destructive :: bool
  a_external :: effect
  a_requires_approval :: bool
  a_supports_dry_run :: bool
  a_idempotent :: bool
  a_input :: input_schema
  a_example :: obj
  a_tool_name :: string
  a_prompt :: "(string \<times> string) option"

definition or_default :: "'a option \<Rightarrow> 'a \<Rightarrow> 'a" where
  "or_default x y = (case x of None \<Rightarrow> y | Some z \<Rightarrow> z)"

definition is_high_risk :: "risk \<Rightarrow> bool" where
  "is_high_risk r \<longleftrightarrow> r = RiskHigh \<or> r = RiskCritical"

datatype define_err = RoleTooLowForRisk string

definition define_action :: "draft \<Rightarrow> define_err + action" where
  "define_action d =
     (let ai = (d_operation d = OpAi);
          destructive = or_default (d_destructive d) False;
          external = or_default (d_external d) (if ai then EffectModel else EffectNone);
          requires = or_default (d_requires_approval d) (ai \<or> destructive);
          dry = or_default (d_supports_dry_run d) (ai \<or> destructive);
          idempotent = (d_operation d \<noteq> OpRead);
          props1 = (if idempotent then AList.update ''idempotencyKey'' idempotency_key_schema (d_properties d)
                    else d_properties d);
          req1 = (if idempotent then d_required d @ [''idempotencyKey''] else d_required d);
          example1 = (if idempotent
                      then oset ''idempotencyKey'' (JStr (d_module d @ ''.'' @ d_id d @ ''.example-0001'')) (d_example d)
                      else d_example d);
          props2 = (if dry then AList.update ''approval'' approval_schema
                             (AList.update ''dryRun'' dry_run_schema props1) else props1);
          req2 = (if dry then req1 @ [''dryRun''] else req1);
          example2 = (if dry then oset ''dryRun'' (JBool True) example1 else example1);
          risk = or_default (d_risk d)
            (if destructive \<or> external \<noteq> EffectNone then RiskHigh else if ai then RiskMedium else RiskLow);
          role = or_default (d_minimum_role d)
            (if is_high_risk risk then Admin else if d_operation d = OpRead then Viewer else Member)
      in if is_high_risk risk \<and> role \<noteq> Admin \<and> role \<noteq> Owner
         then Inl (RoleTooLowForRisk (d_module d @ '':'' @ d_id d))
         else Inr \<lparr>a_module = d_module d, a_product = d_product d, a_id = d_id d, a_title = d_title d,
                a_operation = d_operation d, a_type = d_type d,
                a_scope = or_default (d_scope d)
                  (case d_operation d of OpRead \<Rightarrow> ScopeRead | OpAi \<Rightarrow> ScopeAi | OpMutation \<Rightarrow> ScopeWrite),
                a_role = role, a_risk = risk, a_destructive = destructive, a_external = external,
                a_requires_approval = requires, a_supports_dry_run = dry, a_idempotent = idempotent,
                a_input = \<lparr>i_required = uniq req2, i_properties = props2\<rparr>, a_example = example2,
                a_tool_name = d_module d @ ''_'' @ map (\<lambda>c. if c = CHR ''-'' then CHR ''_'' else c) (d_id d),
                a_prompt = (if ai then Some (d_module d @ ''.'' @ d_id d, ''2026-08-24.1'') else None)\<rparr>)"

section \<open>The drafts\<close>

definition sample_record :: string where
  "sample_record = ''00000000-0000-4000-8000-000000000100''"

definition sample_evidence :: string where
  "sample_evidence = ''00000000-0000-4000-8000-000000000101''"

definition sample_actor :: string where
  "sample_actor = ''user-owner-0001''"

definition tables_drafts :: "draft list" where
  "tables_drafts =
    [(draft_of ''tables'' ''SchemaDeck'' ''base-create'' ''Create governed base'' OpMutation ''table-base''
        [''key'', ''name'', ''purpose'']
        [(''key'', (text_schema 80)),
        (''name'', (text_schema 160)),
        (''purpose'', (text_schema 2000))]
        [(''key'', JStr ''customers''), (''name'', JStr ''Customers''), (''purpose'', JStr ''Track opted-in customer facts'')]),
     (draft_of ''tables'' ''SchemaDeck'' ''field-add'' ''Add typed field'' OpMutation ''table-field''
        [''baseId'', ''key'', ''label'', ''fieldType'']
        [(''baseId'', uuid_schema),
        (''key'', (text_schema 80)),
        (''label'', (text_schema 160)),
        (''fieldType'', (enum_schema [''text'', ''number'', ''boolean'', ''date-time'', ''relation''])),
        (''required'', boolean_schema)]
        [(''baseId'', JStr sample_record), (''key'', JStr ''company''), (''label'', JStr ''Company''), (''fieldType'', JStr ''text''), (''required'', JBool True)]),
     (draft_of ''tables'' ''SchemaDeck'' ''row-create'' ''Create validated row'' OpMutation ''table-row''
        [''baseId'', ''values'']
        [(''baseId'', uuid_schema),
        (''values'', object_schema),
        (''sourceRecordIds'', (array_schema uuid_schema 100))]
        [(''baseId'', JStr sample_record), (''values'', JObj [(''company'', JStr ''Northwind'')]), (''sourceRecordIds'', JArr [])]),
     (draft_of ''tables'' ''SchemaDeck'' ''row-update'' ''Update row with optimistic lock'' OpMutation ''table-row''
        [''rowId'', ''expectedVersion'', ''patch'']
        [(''rowId'', uuid_schema),
        (''expectedVersion'', (integer_schema 1 max_safe)),
        (''patch'', object_schema)]
        [(''rowId'', JStr sample_record), (''expectedVersion'', jint 1), (''patch'', JObj [(''company'', JStr ''Northwind Labs'')])]),
     (draft_of ''tables'' ''SchemaDeck'' ''view-create'' ''Create deterministic view'' OpMutation ''table-view''
        [''baseId'', ''name'', ''filter'', ''sort'']
        [(''baseId'', uuid_schema),
        (''name'', (text_schema 160)),
        (''filter'', object_schema),
        (''sort'', (array_schema object_schema 20))]
        [(''baseId'', JStr sample_record), (''name'', JStr ''Companies''), (''filter'', JObj []), (''sort'', JArr [JObj [(''field'', JStr ''company''), (''direction'', JStr ''asc'')]])]),
     (draft_of ''tables'' ''SchemaDeck'' ''import-preview'' ''Preview typed row import'' OpRead ''table-row''
        [''baseId'', ''rows'']
        [(''baseId'', uuid_schema),
        (''rows'', (array_schema object_schema 500))]
        [(''baseId'', JStr sample_record), (''rows'', JArr [JObj [(''company'', JStr ''Northwind'')]])]),
     (draft_of ''tables'' ''SchemaDeck'' ''import-apply'' ''Apply approved typed row import'' OpMutation ''table-row''
        [''baseId'', ''rows'', ''previewHash'']
        [(''baseId'', uuid_schema),
        (''rows'', (array_schema object_schema 500)),
        (''previewHash'', sha256_schema)]
        [(''baseId'', JStr sample_record), (''rows'', JArr [JObj [(''company'', JStr ''Northwind'')]]), (''previewHash'', JStr (replicate 64 CHR ''a''))])\<lparr>d_requires_approval := Some True, d_supports_dry_run := Some True, d_risk := Some RiskHigh\<rparr>,
     (draft_of ''tables'' ''SchemaDeck'' ''formula-evaluate'' ''Evaluate bounded aggregate'' OpRead ''table-row''
        [''baseId'', ''operation'', ''fieldKey'']
        [(''baseId'', uuid_schema),
        (''operation'', (enum_schema [''count'', ''sum'', ''min'', ''max'', ''average''])),
        (''fieldKey'', (optional_text_schema 80))]
        [(''baseId'', JStr sample_record), (''operation'', JStr ''count''), (''fieldKey'', JStr '''')]),
     (draft_of ''tables'' ''SchemaDeck'' ''schema-propose'' ''Queue grounded schema proposal'' OpAi ''ai-proposal-request''
        [''baseId'', ''goal'', ''evidenceIds'']
        [(''baseId'', uuid_schema),
        (''goal'', (text_schema 4000)),
        (''evidenceIds'', evidence_ids_schema),
        (''modelId'', model_id_schema)]
        [(''baseId'', JStr sample_record), (''goal'', JStr ''Propose a minimal customer-health field set.''), (''evidenceIds'', JArr [JStr sample_evidence])])]"

definition meetings_drafts :: "draft list" where
  "meetings_drafts =
    [(draft_of ''meetings'' ''Recall Room'' ''meeting-create'' ''Create meeting ledger'' OpMutation ''meeting''
        [''title'', ''purpose'', ''startsAt'', ''privacy'']
        [(''title'', (text_schema 240)),
        (''purpose'', (text_schema 2000)),
        (''startsAt'', date_time_schema),
        (''privacy'', (enum_schema [''workspace'', ''confidential'', ''restricted'']))]
        [(''title'', JStr ''Launch review''), (''purpose'', JStr ''Choose a safe launch window''), (''startsAt'', JStr ''2026-08-25T15:00:00.000Z''), (''privacy'', JStr ''confidential'')]),
     (draft_of ''meetings'' ''Recall Room'' ''participant-add'' ''Add attributed participant'' OpMutation ''meeting-participant''
        [''meetingId'', ''displayName'', ''role'']
        [(''meetingId'', uuid_schema),
        (''displayName'', (text_schema 160)),
        (''role'', (enum_schema [''host'', ''participant'', ''observer''])),
        (''userRef'', (optional_text_schema 200))]
        [(''meetingId'', JStr sample_record), (''displayName'', JStr ''Avery''), (''role'', JStr ''participant''), (''userRef'', JStr sample_actor)]),
     (draft_of ''meetings'' ''Recall Room'' ''transcript-append'' ''Append transcript evidence'' OpMutation ''transcript-segment''
        [''meetingId'', ''speaker'', ''startMs'', ''endMs'', ''text'', ''source'']
        [(''meetingId'', uuid_schema),
        (''speaker'', (text_schema 160)),
        (''startMs'', (integer_schema 0 max_safe)),
        (''endMs'', (integer_schema 1 max_safe)),
        (''text'', (text_schema 20000)),
        (''source'', (enum_schema [''manual'', ''local-transcription'', ''imported'']))]
        [(''meetingId'', JStr sample_record), (''speaker'', JStr ''Avery''), (''startMs'', jint 0), (''endMs'', jint 8000), (''text'', JStr ''Tuesday is the proposed launch day.''), (''source'', JStr ''local-transcription'')]),
     (draft_of ''meetings'' ''Recall Room'' ''decision-record'' ''Record human decision'' OpMutation ''meeting-decision''
        [''meetingId'', ''decision'', ''ownerRef'', ''evidenceIds'']
        [(''meetingId'', uuid_schema),
        (''decision'', (text_schema 4000)),
        (''ownerRef'', (text_schema 200)),
        (''evidenceIds'', evidence_ids_schema)]
        [(''meetingId'', JStr sample_record), (''decision'', JStr ''Launch Tuesday after final checks.''), (''ownerRef'', JStr sample_actor), (''evidenceIds'', JArr [JStr sample_evidence])]),
     (draft_of ''meetings'' ''Recall Room'' ''action-item-create'' ''Create owned action item'' OpMutation ''meeting-action-item''
        [''meetingId'', ''title'', ''ownerRef'', ''dueAt'', ''evidenceIds'']
        [(''meetingId'', uuid_schema),
        (''title'', (text_schema 500)),
        (''ownerRef'', (text_schema 200)),
        (''dueAt'', date_time_schema),
        (''evidenceIds'', evidence_ids_schema)]
        [(''meetingId'', JStr sample_record), (''title'', JStr ''Complete release checks''), (''ownerRef'', JStr sample_actor), (''dueAt'', JStr ''2026-08-26T15:00:00.000Z''), (''evidenceIds'', JArr [JStr sample_evidence])]),
     (draft_of ''meetings'' ''Recall Room'' ''summary-propose'' ''Queue cited meeting summary'' OpAi ''ai-proposal-request''
        [''meetingId'', ''goal'', ''evidenceIds'']
        [(''meetingId'', uuid_schema),
        (''goal'', (text_schema 4000)),
        (''evidenceIds'', evidence_ids_schema),
        (''modelId'', model_id_schema)]
        [(''meetingId'', JStr sample_record), (''goal'', JStr ''Summarize supported decisions and open questions.''), (''evidenceIds'', JArr [JStr sample_evidence])]),
     (draft_of ''meetings'' ''Recall Room'' ''followup-propose'' ''Queue follow-up proposal'' OpAi ''ai-proposal-request''
        [''meetingId'', ''audience'', ''goal'', ''evidenceIds'']
        [(''meetingId'', uuid_schema),
        (''audience'', (text_schema 1000)),
        (''goal'', (text_schema 4000)),
        (''evidenceIds'', evidence_ids_schema),
        (''modelId'', model_id_schema)]
        [(''meetingId'', JStr sample_record), (''audience'', JStr ''Meeting participants''), (''goal'', JStr ''Draft a factual recap.''), (''evidenceIds'', JArr [JStr sample_evidence])]),
     (draft_of ''meetings'' ''Recall Room'' ''transcript-redact'' ''Redact transcript segment'' OpMutation ''transcript-segment''
        [''segmentId'', ''expectedVersion'', ''reason'']
        [(''segmentId'', uuid_schema),
        (''expectedVersion'', (integer_schema 1 max_safe)),
        (''reason'', (text_schema 1000))]
        [(''segmentId'', JStr sample_record), (''expectedVersion'', jint 1), (''reason'', JStr ''Approved privacy request'')])\<lparr>d_destructive := Some True, d_risk := Some RiskCritical\<rparr>,
     (draft_of ''meetings'' ''Recall Room'' ''meeting-export'' ''Freeze private meeting export'' OpMutation ''meeting-export''
        [''meetingId'', ''includeTranscript'', ''format'']
        [(''meetingId'', uuid_schema),
        (''includeTranscript'', boolean_schema),
        (''format'', (enum_schema [''canonical-json'', ''markdown'']))]
        [(''meetingId'', JStr sample_record), (''includeTranscript'', JBool True), (''format'', JStr ''canonical-json'')])]"

definition insights_drafts :: "draft list" where
  "insights_drafts =
    [(draft_of ''insights'' ''Proofline Insights'' ''source-register'' ''Register governed data source'' OpMutation ''insight-source''
        [''name'', ''kind'', ''ownerRef'', ''refreshCadence'']
        [(''name'', (text_schema 160)),
        (''kind'', (enum_schema [''table'', ''database-view'', ''file-import'', ''manual''])),
        (''ownerRef'', (text_schema 200)),
        (''refreshCadence'', (enum_schema [''manual'', ''hourly'', ''daily'', ''weekly'']))]
        [(''name'', JStr ''Revenue ledger''), (''kind'', JStr ''table''), (''ownerRef'', JStr sample_actor), (''refreshCadence'', JStr ''daily'')]),
     (draft_of ''insights'' ''Proofline Insights'' ''metric-define'' ''Define typed metric'' OpMutation ''insight-metric''
        [''sourceId'', ''key'', ''name'', ''unit'', ''aggregation'']
        [(''sourceId'', uuid_schema),
        (''key'', (text_schema 80)),
        (''name'', (text_schema 160)),
        (''unit'', (text_schema 80)),
        (''aggregation'', (enum_schema [''sum'', ''count'', ''minimum'', ''maximum'', ''average'', ''last'']))]
        [(''sourceId'', JStr sample_record), (''key'', JStr ''mrr''), (''name'', JStr ''Monthly recurring revenue''), (''unit'', JStr ''USD-minor''), (''aggregation'', JStr ''sum'')]),
     (draft_of ''insights'' ''Proofline Insights'' ''observation-import'' ''Import approved observations'' OpMutation ''metric-observation''
        [''metricId'', ''observations'', ''sourceRevision'']
        [(''metricId'', uuid_schema),
        (''observations'', (array_schema object_schema 2000)),
        (''sourceRevision'', (text_schema 200))]
        [(''metricId'', JStr sample_record), (''observations'', JArr [JObj [(''observedAt'', JStr ''2026-08-24T00:00:00.000Z''), (''value'', jint 1200), (''dimensions'', JObj [])]]), (''sourceRevision'', JStr ''warehouse-2026-08-24'')])\<lparr>d_requires_approval := Some True, d_supports_dry_run := Some True, d_risk := Some RiskHigh\<rparr>,
     (draft_of ''insights'' ''Proofline Insights'' ''dashboard-create'' ''Create dashboard contract'' OpMutation ''insight-dashboard''
        [''name'', ''purpose'', ''audience'']
        [(''name'', (text_schema 160)),
        (''purpose'', (text_schema 2000)),
        (''audience'', (text_schema 1000))]
        [(''name'', JStr ''Revenue health''), (''purpose'', JStr ''Review measured recurring revenue''), (''audience'', JStr ''Finance operators'')]),
     (draft_of ''insights'' ''Proofline Insights'' ''chart-add'' ''Add deterministic chart'' OpMutation ''insight-chart''
        [''dashboardId'', ''metricId'', ''visualization'', ''window'']
        [(''dashboardId'', uuid_schema),
        (''metricId'', uuid_schema),
        (''visualization'', (enum_schema [''line'', ''bar'', ''number'', ''table''])),
        (''window'', (enum_schema [''7d'', ''30d'', ''90d'', ''365d'', ''all'']))]
        [(''dashboardId'', JStr sample_record), (''metricId'', JStr sample_evidence), (''visualization'', JStr ''line''), (''window'', JStr ''30d'')]),
     (draft_of ''insights'' ''Proofline Insights'' ''alert-rule-create'' ''Create inert alert rule'' OpMutation ''insight-alert-rule''
        [''metricId'', ''operator'', ''threshold'', ''cooldownMinutes'']
        [(''metricId'', uuid_schema),
        (''operator'', (enum_schema [''gt'', ''gte'', ''lt'', ''lte''])),
        (''threshold'', number_schema),
        (''cooldownMinutes'', (integer_schema 1 43200))]
        [(''metricId'', JStr sample_record), (''operator'', JStr ''lt''), (''threshold'', jint 1000), (''cooldownMinutes'', jint 1440)]),
     (draft_of ''insights'' ''Proofline Insights'' ''snapshot-freeze'' ''Freeze reporting snapshot'' OpMutation ''insight-snapshot''
        [''dashboardId'', ''asOf'', ''evidenceIds'']
        [(''dashboardId'', uuid_schema),
        (''asOf'', date_time_schema),
        (''evidenceIds'', evidence_ids_schema)]
        [(''dashboardId'', JStr sample_record), (''asOf'', JStr ''2026-08-24T12:00:00.000Z''), (''evidenceIds'', JArr [JStr sample_evidence])])\<lparr>d_requires_approval := Some True, d_supports_dry_run := Some True, d_risk := Some RiskHigh\<rparr>,
     (draft_of ''insights'' ''Proofline Insights'' ''anomaly-propose'' ''Queue cited anomaly hypotheses'' OpAi ''ai-proposal-request''
        [''metricId'', ''question'', ''evidenceIds'']
        [(''metricId'', uuid_schema),
        (''question'', (text_schema 4000)),
        (''evidenceIds'', evidence_ids_schema),
        (''modelId'', model_id_schema)]
        [(''metricId'', JStr sample_record), (''question'', JStr ''Which measured changes deserve investigation?''), (''evidenceIds'', JArr [JStr sample_evidence])]),
     (draft_of ''insights'' ''Proofline Insights'' ''narrative-propose'' ''Queue dashboard narrative'' OpAi ''ai-proposal-request''
        [''snapshotId'', ''audience'', ''evidenceIds'']
        [(''snapshotId'', uuid_schema),
        (''audience'', (text_schema 1000)),
        (''evidenceIds'', evidence_ids_schema),
        (''modelId'', model_id_schema)]
        [(''snapshotId'', JStr sample_record), (''audience'', JStr ''Executive operators''), (''evidenceIds'', JArr [JStr sample_evidence])])]"

definition learning_drafts :: "draft list" where
  "learning_drafts =
    [(draft_of ''learning'' ''Learning Forge'' ''course-create'' ''Create outcome-based course'' OpMutation ''learning-course''
        [''title'', ''audience'', ''outcome'', ''visibility'']
        [(''title'', (text_schema 240)),
        (''audience'', (text_schema 1000)),
        (''outcome'', (text_schema 2000)),
        (''visibility'', (enum_schema [''private'', ''workspace'', ''public-catalog'']))]
        [(''title'', JStr ''Secure releases''), (''audience'', JStr ''Release operators''), (''outcome'', JStr ''Run the approved release checklist''), (''visibility'', JStr ''workspace'')]),
     (draft_of ''learning'' ''Learning Forge'' ''lesson-create'' ''Create cited lesson'' OpMutation ''learning-lesson''
        [''courseId'', ''title'', ''content'', ''sourceRecordIds'', ''position'']
        [(''courseId'', uuid_schema),
        (''title'', (text_schema 240)),
        (''content'', (text_schema 50000)),
        (''sourceRecordIds'', evidence_ids_schema),
        (''position'', (integer_schema 1 10000))]
        [(''courseId'', JStr sample_record), (''title'', JStr ''Preflight''), (''content'', JStr ''Review every release gate.''), (''sourceRecordIds'', JArr [JStr sample_evidence]), (''position'', jint 1)]),
     (draft_of ''learning'' ''Learning Forge'' ''learner-enroll'' ''Enroll learner'' OpMutation ''learning-enrollment''
        [''courseId'', ''learnerRef'', ''reason'']
        [(''courseId'', uuid_schema),
        (''learnerRef'', (text_schema 200)),
        (''reason'', (text_schema 1000))]
        [(''courseId'', JStr sample_record), (''learnerRef'', JStr sample_actor), (''reason'', JStr ''Release role onboarding'')]),
     (draft_of ''learning'' ''Learning Forge'' ''rubric-create'' ''Create assessment rubric'' OpMutation ''learning-rubric''
        [''courseId'', ''name'', ''criteria'', ''passingScore'']
        [(''courseId'', uuid_schema),
        (''name'', (text_schema 160)),
        (''criteria'', (array_schema object_schema 100)),
        (''passingScore'', (integer_schema 0 100))]
        [(''courseId'', JStr sample_record), (''name'', JStr ''Release assessment''), (''criteria'', JArr [JObj [(''key'', JStr ''preflight''), (''weight'', jint 100)]]), (''passingScore'', jint 80)]),
     (draft_of ''learning'' ''Learning Forge'' ''attempt-record'' ''Record assessment attempt'' OpMutation ''learning-attempt''
        [''enrollmentId'', ''rubricId'', ''score'', ''evidenceIds'']
        [(''enrollmentId'', uuid_schema),
        (''rubricId'', uuid_schema),
        (''score'', (integer_schema 0 100)),
        (''evidenceIds'', evidence_ids_schema)]
        [(''enrollmentId'', JStr sample_record), (''rubricId'', JStr sample_evidence), (''score'', jint 90), (''evidenceIds'', JArr [JStr sample_evidence])]),
     (draft_of ''learning'' ''Learning Forge'' ''feedback-propose'' ''Queue rubric-grounded feedback'' OpAi ''ai-proposal-request''
        [''attemptId'', ''goal'', ''evidenceIds'']
        [(''attemptId'', uuid_schema),
        (''goal'', (text_schema 4000)),
        (''evidenceIds'', evidence_ids_schema),
        (''modelId'', model_id_schema)]
        [(''attemptId'', JStr sample_record), (''goal'', JStr ''Propose feedback tied to rubric evidence.''), (''evidenceIds'', JArr [JStr sample_evidence])]),
     (draft_of ''learning'' ''Learning Forge'' ''path-propose'' ''Queue adaptive learning path'' OpAi ''ai-proposal-request''
        [''enrollmentId'', ''goal'', ''evidenceIds'']
        [(''enrollmentId'', uuid_schema),
        (''goal'', (text_schema 4000)),
        (''evidenceIds'', evidence_ids_schema),
        (''modelId'', model_id_schema)]
        [(''enrollmentId'', JStr sample_record), (''goal'', JStr ''Propose the smallest evidence-based next lesson.''), (''evidenceIds'', JArr [JStr sample_evidence])]),
     (draft_of ''learning'' ''Learning Forge'' ''credential-preview'' ''Preview credential eligibility'' OpRead ''learning-credential''
        [''enrollmentId'', ''attemptId'']
        [(''enrollmentId'', uuid_schema),
        (''attemptId'', uuid_schema)]
        [(''enrollmentId'', JStr sample_record), (''attemptId'', JStr sample_evidence)]),
     (draft_of ''learning'' ''Learning Forge'' ''credential-issue'' ''Issue approved credential'' OpMutation ''learning-credential''
        [''enrollmentId'', ''attemptId'', ''previewHash'']
        [(''enrollmentId'', uuid_schema),
        (''attemptId'', uuid_schema),
        (''previewHash'', sha256_schema)]
        [(''enrollmentId'', JStr sample_record), (''attemptId'', JStr sample_evidence), (''previewHash'', JStr (replicate 64 CHR ''b''))])\<lparr>d_requires_approval := Some True, d_supports_dry_run := Some True, d_risk := Some RiskCritical, d_external := Some EffectCredential\<rparr>]"

definition community_drafts :: "draft list" where
  "community_drafts =
    [(draft_of ''community'' ''Circlefield'' ''space-create'' ''Create governed community space'' OpMutation ''community-space''
        [''key'', ''name'', ''purpose'', ''visibility'', ''policy'']
        [(''key'', (text_schema 80)),
        (''name'', (text_schema 160)),
        (''purpose'', (text_schema 2000)),
        (''visibility'', (enum_schema [''private'', ''workspace'', ''public''])),
        (''policy'', (text_schema 10000))]
        [(''key'', JStr ''customers''), (''name'', JStr ''Customer circle''), (''purpose'', JStr ''Share product knowledge''), (''visibility'', JStr ''workspace''), (''policy'', JStr ''Be factual and respectful.'')]),
     (draft_of ''community'' ''Circlefield'' ''member-add'' ''Add community member'' OpMutation ''community-member''
        [''spaceId'', ''memberRef'', ''displayName'']
        [(''spaceId'', uuid_schema),
        (''memberRef'', (text_schema 200)),
        (''displayName'', (text_schema 160))]
        [(''spaceId'', JStr sample_record), (''memberRef'', JStr sample_actor), (''displayName'', JStr ''Avery'')])\<lparr>d_minimum_role := Some Admin\<rparr>,
     (draft_of ''community'' ''Circlefield'' ''post-create'' ''Create attributed post'' OpMutation ''community-post''
        [''spaceId'', ''authorRef'', ''title'', ''body'', ''evidenceIds'']
        [(''spaceId'', uuid_schema),
        (''authorRef'', (text_schema 200)),
        (''title'', (text_schema 240)),
        (''body'', (text_schema 50000)),
        (''evidenceIds'', evidence_ids_schema)]
        [(''spaceId'', JStr sample_record), (''authorRef'', JStr sample_actor), (''title'', JStr ''Launch notes''), (''body'', JStr ''Here are the reviewed launch facts.''), (''evidenceIds'', JArr [JStr sample_evidence])]),
     (draft_of ''community'' ''Circlefield'' ''reply-create'' ''Create attributed reply'' OpMutation ''community-reply''
        [''postId'', ''authorRef'', ''body'', ''evidenceIds'']
        [(''postId'', uuid_schema),
        (''authorRef'', (text_schema 200)),
        (''body'', (text_schema 20000)),
        (''evidenceIds'', evidence_ids_schema)]
        [(''postId'', JStr sample_record), (''authorRef'', JStr sample_actor), (''body'', JStr ''The cited checklist confirms this.''), (''evidenceIds'', JArr [JStr sample_evidence])]),
     (draft_of ''community'' ''Circlefield'' ''reaction-record'' ''Record member reaction'' OpMutation ''community-reaction''
        [''postId'', ''memberRef'', ''reaction'']
        [(''postId'', uuid_schema),
        (''memberRef'', (text_schema 200)),
        (''reaction'', (enum_schema [''helpful'', ''thanks'', ''insightful'', ''withdraw'']))]
        [(''postId'', JStr sample_record), (''memberRef'', JStr sample_actor), (''reaction'', JStr ''helpful'')]),
     (draft_of ''community'' ''Circlefield'' ''moderation-propose'' ''Queue policy-cited moderation proposal'' OpAi ''ai-proposal-request''
        [''spaceId'', ''targetRecordId'', ''question'', ''evidenceIds'']
        [(''spaceId'', uuid_schema),
        (''targetRecordId'', uuid_schema),
        (''question'', (text_schema 4000)),
        (''evidenceIds'', evidence_ids_schema),
        (''modelId'', model_id_schema)]
        [(''spaceId'', JStr sample_record), (''targetRecordId'', JStr sample_evidence), (''question'', JStr ''Which policy clauses may apply?''), (''evidenceIds'', JArr [JStr sample_evidence])]),
     (draft_of ''community'' ''Circlefield'' ''digest-propose'' ''Queue cited community digest'' OpAi ''ai-proposal-request''
        [''spaceId'', ''audience'', ''evidenceIds'']
        [(''spaceId'', uuid_schema),
        (''audience'', (text_schema 1000)),
        (''evidenceIds'', evidence_ids_schema),
        (''modelId'', model_id_schema)]
        [(''spaceId'', JStr sample_record), (''audience'', JStr ''Workspace members''), (''evidenceIds'', JArr [JStr sample_evidence])]),
     (draft_of ''community'' ''Circlefield'' ''post-hide'' ''Hide post after approval'' OpMutation ''community-post''
        [''postId'', ''expectedVersion'', ''reason'']
        [(''postId'', uuid_schema),
        (''expectedVersion'', (integer_schema 1 max_safe)),
        (''reason'', (text_schema 2000))]
        [(''postId'', JStr sample_record), (''expectedVersion'', jint 1), (''reason'', JStr ''Reviewed policy violation'')])\<lparr>d_destructive := Some True, d_risk := Some RiskCritical\<rparr>,
     (draft_of ''community'' ''Circlefield'' ''member-role-set'' ''Set approved community role'' OpMutation ''community-member''
        [''memberId'', ''role'', ''expectedVersion'', ''reason'']
        [(''memberId'', uuid_schema),
        (''role'', (enum_schema [''member'', ''moderator''])),
        (''expectedVersion'', (integer_schema 1 max_safe)),
        (''reason'', (text_schema 1000))]
        [(''memberId'', JStr sample_record), (''role'', JStr ''moderator''), (''expectedVersion'', jint 1), (''reason'', JStr ''Approved moderation duty'')])\<lparr>d_requires_approval := Some True, d_supports_dry_run := Some True, d_risk := Some RiskHigh\<rparr>,
     (draft_of ''community'' ''Circlefield'' ''announcement-publish'' ''Publish exact approved announcement'' OpMutation ''community-announcement''
        [''spaceId'', ''title'', ''body'', ''evidenceIds'']
        [(''spaceId'', uuid_schema),
        (''title'', (text_schema 240)),
        (''body'', (text_schema 20000)),
        (''evidenceIds'', evidence_ids_schema)]
        [(''spaceId'', JStr sample_record), (''title'', JStr ''Service update''), (''body'', JStr ''The reviewed maintenance window begins Tuesday.''), (''evidenceIds'', JArr [JStr sample_evidence])])\<lparr>d_requires_approval := Some True, d_supports_dry_run := Some True, d_risk := Some RiskCritical, d_external := Some EffectDelivery\<rparr>]"

section \<open>The registry\<close>

definition additive_drafts :: "draft list" where
  "additive_drafts =
     tables_drafts @ meetings_drafts @ insights_drafts @ learning_drafts @ community_drafts"

definition additive_actions :: "action list" where
  "additive_actions = (case each_e define_action additive_drafts of Inr xs \<Rightarrow> xs | Inl _ \<Rightarrow> [])"

text \<open>\<open>additiveBusinessActionByKey.get(`${moduleId}:${actionId}`)\<close>.\<close>

definition action_key :: "action \<Rightarrow> string" where
  "action_key a = a_module a @ '':'' @ a_id a"

definition action_by_key :: "string \<Rightarrow> string \<Rightarrow> action option" where
  "action_by_key m i = map_of (map (\<lambda>a. (action_key a, a)) (rev additive_actions)) (m @ '':'' @ i)"

definition actions_by_module :: "string \<Rightarrow> action list option" where
  "actions_by_module m =
     (case module_by_id m of None \<Rightarrow> None
      | Some _ \<Rightarrow> Some (filter (\<lambda>a. a_module a = m) additive_actions))"

section \<open>Facts of the registry\<close>

text \<open>The drafts are long literals, so facts about all of them are proved by resolution on the list.\<close>

lemma all_drafts:
  assumes "list_all P tables_drafts" "list_all P meetings_drafts" "list_all P insights_drafts"
    "list_all P learning_drafts" "list_all P community_drafts"
  shows "\<forall>d \<in> set additive_drafts. P d"
  using assms by (simp add: additive_drafts_def list_all_iff ball_Un)

lemma list_all_intros: "list_all P []" "P x \<Longrightarrow> list_all P xs \<Longrightarrow> list_all P (x # xs)"
  by simp_all

lemmas drafts_defs =
  tables_drafts_def meetings_drafts_def insights_drafts_def learning_drafts_def community_drafts_def

lemma draft_of_sel:
  "d_id (draft_of m p i t op rt r ps ex) = i" "d_module (draft_of m p i t op rt r ps ex) = m"
  by (simp_all add: draft_of_def)

lemma draft_update_sel:
  "d_id (d\<lparr>d_requires_approval := a\<rparr>) = d_id d" "d_id (d\<lparr>d_supports_dry_run := a\<rparr>) = d_id d"
  "d_id (d\<lparr>d_risk := b\<rparr>) = d_id d" "d_id (d\<lparr>d_destructive := a\<rparr>) = d_id d"
  "d_id (d\<lparr>d_external := c\<rparr>) = d_id d" "d_id (d\<lparr>d_minimum_role := r\<rparr>) = d_id d"
  "d_module (d\<lparr>d_requires_approval := a\<rparr>) = d_module d" "d_module (d\<lparr>d_supports_dry_run := a\<rparr>) = d_module d"
  "d_module (d\<lparr>d_risk := b\<rparr>) = d_module d" "d_module (d\<lparr>d_destructive := a\<rparr>) = d_module d"
  "d_module (d\<lparr>d_external := c\<rparr>) = d_module d" "d_module (d\<lparr>d_minimum_role := r\<rparr>) = d_module d"
  by (cases d; simp)+

lemma draft_names:
  "map (\<lambda>d. (d_module d, d_id d)) additive_drafts =
    [(''tables'', ''base-create''), (''tables'', ''field-add''), (''tables'', ''row-create''),
     (''tables'', ''row-update''), (''tables'', ''view-create''), (''tables'', ''import-preview''),
     (''tables'', ''import-apply''), (''tables'', ''formula-evaluate''),
     (''tables'', ''schema-propose''), (''meetings'', ''meeting-create''),
     (''meetings'', ''participant-add''), (''meetings'', ''transcript-append''),
     (''meetings'', ''decision-record''), (''meetings'', ''action-item-create''),
     (''meetings'', ''summary-propose''), (''meetings'', ''followup-propose''),
     (''meetings'', ''transcript-redact''), (''meetings'', ''meeting-export''),
     (''insights'', ''source-register''), (''insights'', ''metric-define''),
     (''insights'', ''observation-import''), (''insights'', ''dashboard-create''),
     (''insights'', ''chart-add''), (''insights'', ''alert-rule-create''),
     (''insights'', ''snapshot-freeze''), (''insights'', ''anomaly-propose''),
     (''insights'', ''narrative-propose''), (''learning'', ''course-create''),
     (''learning'', ''lesson-create''), (''learning'', ''learner-enroll''),
     (''learning'', ''rubric-create''), (''learning'', ''attempt-record''),
     (''learning'', ''feedback-propose''), (''learning'', ''path-propose''),
     (''learning'', ''credential-preview''), (''learning'', ''credential-issue''),
     (''community'', ''space-create''), (''community'', ''member-add''),
     (''community'', ''post-create''), (''community'', ''reply-create''),
     (''community'', ''reaction-record''), (''community'', ''moderation-propose''),
     (''community'', ''digest-propose''), (''community'', ''post-hide''),
     (''community'', ''member-role-set''), (''community'', ''announcement-publish'')]"
  unfolding additive_drafts_def map_append drafts_defs list.map append.simps
  by (simp only: draft_of_sel draft_update_sel)

text \<open>
  What \<open>define\<close> resolves for every draft of the registry: it is accepted, an AI action is an
  approval-gated proposal, a gated action can be retried and dry-run by an administrator only.
\<close>

definition well_gated :: "action \<Rightarrow> bool" where
  "well_gated a \<longleftrightarrow>
     (a_requires_approval a \<longrightarrow> a_idempotent a \<and> a_supports_dry_run a \<and> Admin \<le> a_role a)
     \<and> (is_high_risk (a_risk a) \<longrightarrow> Admin \<le> a_role a)
     \<and> (a_supports_dry_run a \<longrightarrow> a_requires_approval a \<and> ''dryRun'' \<in> set (i_required (a_input a))
          \<and> map_of (i_properties (a_input a)) ''dryRun'' = Some dry_run_schema
          \<and> map_of (i_properties (a_input a)) ''approval'' = Some approval_schema)
     \<and> (a_idempotent a \<longrightarrow> ''idempotencyKey'' \<in> set (i_required (a_input a))
          \<and> map_of (i_properties (a_input a)) ''idempotencyKey'' = Some idempotency_key_schema)
     \<and> (a_idempotent a \<longleftrightarrow> a_operation a \<noteq> OpRead)
     \<and> (a_operation a = OpRead \<longrightarrow> a_scope a = ScopeRead \<and> a_role a = Viewer)
     \<and> (a_operation a = OpMutation \<longrightarrow> a_scope a = ScopeWrite \<and> Member \<le> a_role a)
     \<and> (a_operation a = OpAi \<longrightarrow> a_scope a = ScopeAi \<and> a_requires_approval a \<and> a_prompt a \<noteq> None)"

definition defines_well :: "draft \<Rightarrow> bool" where
  "defines_well d \<longleftrightarrow> (\<exists>a. define_action d = Inr a \<and> well_gated a
     \<and> a_module a = d_module d \<and> a_id a = d_id d \<and> a_operation a = d_operation d)"

lemmas define_facts = defines_well_def define_action_def draft_of_def well_gated_def or_default_def
  is_high_risk_def Let_def role_order update_conv'

lemma defines_plain: "defines_well (draft_of m p i t op rt r ps ex)"
  by (cases op) (simp_all add: define_facts)

lemma defines_gated:
  "is_high_risk x \<Longrightarrow> op = OpMutation \<Longrightarrow> defines_well (draft_of m p i t op rt r ps ex
     \<lparr>d_requires_approval := Some True, d_supports_dry_run := Some True, d_risk := Some x\<rparr>)"
  by (auto simp: define_facts)

lemma defines_destructive:
  "is_high_risk x \<Longrightarrow> op = OpMutation \<Longrightarrow> defines_well (draft_of m p i t op rt r ps ex
     \<lparr>d_destructive := Some True, d_risk := Some x\<rparr>)"
  by (auto simp: define_facts)

lemma defines_external:
  "is_high_risk x \<Longrightarrow> op = OpMutation \<Longrightarrow> defines_well (draft_of m p i t op rt r ps ex
     \<lparr>d_requires_approval := Some True, d_supports_dry_run := Some True, d_risk := Some x,
      d_external := Some eff\<rparr>)"
  by (auto simp: define_facts)

lemma defines_role:
  "op = OpMutation \<Longrightarrow> defines_well (draft_of m p i t op rt r ps ex\<lparr>d_minimum_role := Some Admin\<rparr>)"
  by (auto simp: define_facts)

lemma high_risks: "is_high_risk RiskHigh" "is_high_risk RiskCritical"
  by (simp_all add: is_high_risk_def)

lemma drafts_define_well: "\<forall>d \<in> set additive_drafts. defines_well d"
  by (rule all_drafts; unfold drafts_defs;
      intro list_all_intros defines_plain defines_gated defines_destructive defines_external
        defines_role high_risks refl)

lemma each_e_all: "\<forall>x \<in> set xs. \<exists>y. f x = Inr y \<and> Q x y \<Longrightarrow>
    \<exists>ys. each_e f xs = Inr ys \<and> list_all2 Q xs ys"
proof (induction xs)
  case (Cons x xs)
  then obtain y ys where "f x = Inr y" "Q x y" "each_e f xs = Inr ys" "list_all2 Q xs ys" by auto
  then show ?case by auto
qed simp

lemma list_all2_member: "list_all2 P xs ys \<Longrightarrow> y \<in> set ys \<Longrightarrow> \<exists>x \<in> set xs. P x y"
  by (induction rule: list_all2_induct) auto

lemma registry_defined:
  "each_e define_action additive_drafts = Inr additive_actions
   \<and> list_all2 (\<lambda>d a. well_gated a \<and> a_module a = d_module d \<and> a_id a = d_id d
       \<and> a_operation a = d_operation d) additive_drafts additive_actions"
proof -
  have "\<forall>d \<in> set additive_drafts. \<exists>a. define_action d = Inr a \<and> (well_gated a
      \<and> a_module a = d_module d \<and> a_id a = d_id d \<and> a_operation a = d_operation d)"
    using drafts_define_well by (simp add: defines_well_def)
  from each_e_all[OF this] show ?thesis by (auto simp: additive_actions_def)
qed

lemma action_names: "map (\<lambda>a. (a_module a, a_id a)) additive_actions =
    map (\<lambda>d. (d_module d, d_id d)) additive_drafts"
proof -
  have "list_all2 (\<lambda>d a. a_module a = d_module d \<and> a_id a = d_id d) additive_drafts additive_actions"
    using registry_defined by (auto elim: list_all2_mono)
  then show ?thesis by (induction rule: list_all2_induct) simp_all
qed

lemma actions_well_gated: "a \<in> set additive_actions \<Longrightarrow> well_gated a"
proof -
  have "list_all2 (\<lambda>d a. well_gated a) additive_drafts additive_actions"
    using registry_defined by (auto elim: list_all2_mono)
  then show "a \<in> set additive_actions \<Longrightarrow> well_gated a"
    by (induction rule: list_all2_induct) auto
qed

definition plain_name :: "string \<Rightarrow> bool" where
  "plain_name s \<longleftrightarrow> CHR '':'' \<notin> set s \<and> s \<noteq> []"

lemma names_plain: "list_all (\<lambda>(m, i). plain_name m \<and> plain_name i) (map (\<lambda>a. (a_module a, a_id a)) additive_actions)"
  unfolding action_names draft_names by (simp add: plain_name_def)

lemma names_distinct: "distinct (map (\<lambda>a. (a_module a, a_id a)) additive_actions)"
  unfolding action_names draft_names by simp

lemma plain_split:
  assumes "m @ '':'' @ i = m' @ '':'' @ i'" "plain_name m'" "plain_name i'"
  shows "m = m' \<and> i = i'"
proof -
  have "CHR '':'' \<notin> set m"
  proof
    assume "CHR '':'' \<in> set m"
    then have "0 < count_list m (CHR '':'')" by (metis count_list_0_iff gr0I)
    then have "2 \<le> count_list (m @ '':'' @ i) (CHR '':'')" by simp
    moreover have "count_list (m @ '':'' @ i) (CHR '':'') = 1"
      unfolding assms(1) using assms(2,3) by (simp add: plain_name_def)
    ultimately show False by linarith
  qed
  then show ?thesis using assms append_Cons_eq_iff[of "CHR '':''" m' i' m i] by (auto simp: plain_name_def)
qed

lemma action_by_key_eq:
  assumes "a \<in> set additive_actions"
  shows "action_by_key (a_module a) (a_id a) = Some a"
proof -
  have inj: "inj_on (\<lambda>a. (a_module a, a_id a)) (set additive_actions)" and dist: "distinct additive_actions"
    using names_distinct by (simp_all add: distinct_map)
  have plain: "plain_name (a_module y)" "plain_name (a_id y)" if "y \<in> set additive_actions" for y
    using names_plain that by (auto simp: list_all_iff)
  have "inj_on action_key (set additive_actions)"
  proof (rule inj_onI)
    fix x y assume xy: "x \<in> set additive_actions" "y \<in> set additive_actions" "action_key x = action_key y"
    then have "a_module x = a_module y \<and> a_id x = a_id y"
      unfolding action_key_def using plain by (intro plain_split)
    then show "x = y" using inj_onD[OF inj _ xy(1,2)] by simp
  qed
  with dist have "distinct (map fst (map (\<lambda>a. (action_key a, a)) (rev additive_actions)))"
    by (simp only: map_map comp_def fst_conv rev_map[symmetric] distinct_rev distinct_map)
  moreover have "(action_key a, a) \<in> set (map (\<lambda>a. (action_key a, a)) (rev additive_actions))"
    using assms by simp
  ultimately show ?thesis
    unfolding action_by_key_def action_key_def by (rule map_of_is_SomeI)
qed

text \<open>An action of the registry, from its draft.\<close>

lemma action_of_draft:
  assumes "d \<in> set additive_drafts" and "define_action d = Inr a"
  shows "action_by_key (d_module d) (d_id d) = Some a"
proof -
  have "a \<in> set additive_actions"
    using each_e_Inr_set[OF conjunct1[OF registry_defined] assms(1)] unfolding assms(2) by simp
  moreover have "a_module a = d_module d" "a_id a = d_id d"
    using bspec[OF drafts_define_well assms(1)] unfolding defines_well_def assms(2) by simp_all
  ultimately show ?thesis using action_by_key_eq[of a] by simp
qed

text \<open>The registry has three read actions.\<close>

definition read_action_names :: "(string \<times> string) list" where
  "read_action_names = [(''tables'', ''import-preview''), (''tables'', ''formula-evaluate''),
     (''learning'', ''credential-preview'')]"

definition read_named :: "draft \<Rightarrow> bool" where
  "read_named d \<longleftrightarrow> (d_operation d = OpRead \<longrightarrow> (d_module d, d_id d) \<in> set read_action_names)"

lemma read_named_other:
  "op = OpMutation \<or> op = OpAi \<Longrightarrow> read_named (draft_of m p i t op rt r ps ex)"
  by (auto simp: read_named_def draft_of_def)

lemma read_named_read:
  "(m, i) \<in> set read_action_names \<Longrightarrow> read_named (draft_of m p i t OpRead rt r ps ex)"
  by (simp add: read_named_def draft_of_def)

lemma read_named_update:
  "read_named d \<Longrightarrow> read_named (d\<lparr>d_requires_approval := x\<rparr>)" "read_named d \<Longrightarrow> read_named (d\<lparr>d_supports_dry_run := x\<rparr>)"
  "read_named d \<Longrightarrow> read_named (d\<lparr>d_risk := y\<rparr>)" "read_named d \<Longrightarrow> read_named (d\<lparr>d_destructive := x\<rparr>)"
  "read_named d \<Longrightarrow> read_named (d\<lparr>d_external := z\<rparr>)" "read_named d \<Longrightarrow> read_named (d\<lparr>d_minimum_role := w\<rparr>)"
  by (cases d; simp add: read_named_def)+

lemma read_names:
  "(''tables'', ''import-preview'') \<in> set read_action_names"
  "(''tables'', ''formula-evaluate'') \<in> set read_action_names"
  "(''learning'', ''credential-preview'') \<in> set read_action_names"
  by (simp_all add: read_action_names_def)

lemma drafts_read_named: "\<forall>d \<in> set additive_drafts. read_named d"
  by (rule all_drafts; unfold drafts_defs;
      intro list_all_intros read_named_update read_named_read[OF read_names(1)]
        read_named_read[OF read_names(2)] read_named_read[OF read_names(3)]
        read_named_other disjI1[OF refl] disjI2[OF refl])

lemma read_actions:
  assumes "a \<in> set additive_actions" and "a_operation a = OpRead"
  shows "(a_module a, a_id a) \<in> set read_action_names"
proof -
  obtain d where "d \<in> set additive_drafts" "a_module a = d_module d" "a_id a = d_id d" "a_operation a = d_operation d"
    using list_all2_member[OF conjunct2[OF registry_defined] assms(1)] by blast
  with drafts_read_named assms(2) show ?thesis by (auto simp: read_named_def)
qed

lemma action_by_key_Some:
  assumes "action_by_key m i = Some a"
  shows "a \<in> set additive_actions \<and> a_module a = m \<and> a_id a = i"
proof -
  have a: "a \<in> set additive_actions" "action_key a = m @ '':'' @ i"
    using assms by (auto simp: action_by_key_def dest!: map_of_SomeD)
  with names_plain have "plain_name (a_module a)" "plain_name (a_id a)"
    by (auto simp: list_all_iff)
  with a plain_split[of m i "a_module a" "a_id a"] show ?thesis by (simp add: action_key_def)
qed

end
