(* ===== verification/Visibility.thy ===== *)
theory Visibility
  imports Sample_Host
begin

text \<open>
  Record-level read policy, \<open>src/server/suite-record-visibility.ts\<close>: who may read a record of the
  shared workspace graph. One definition per function of the source, policies as tables from record
  type to identity fields. The lemmas give the tenant boundary, the privilege order, the
  non-spoofable envelope and the exact readers of the protected record types.
\<close>

record principal =
  p_user :: string
  p_workspace :: string
  p_role :: string

record vis_target =
  t_workspace :: string
  t_module :: string
  t_type :: string
  t_state :: string
  t_data :: json

record identity_policy =
  id_fields :: "string list"
  id_array_fields :: "string list"

definition policy :: "string list \<Rightarrow> string list \<Rightarrow> identity_policy" where
  "policy fs afs = \<lparr>id_fields = fs, id_array_fields = afs\<rparr>"

definition additive_record_contract :: string where
  "additive_record_contract = ''additive-business-record.v1''"

definition privileged_roles :: "string list" where
  "privileged_roles = [''owner'', ''admin'']"

definition protected_module_ids :: "string list" where
  "protected_module_ids =
     [''people'', ''meetings'', ''learning'', ''community'', ''assistant'', ''assurance'', ''live'']"

section \<open>Policy tables\<close>

definition people_policies :: "(string \<times> identity_policy) list" where
  "people_policies =
     [(''people-profile'', policy [''employeeRef'', ''managerRef''] []),
      (''onboarding'', policy [''subjectUserId'', ''managerRef'', ''ownerRef''] []),
      (''policy-acknowledgement'', policy [''subjectUserId'', ''managerRef''] []),
      (''leave-request'', policy [''subjectUserId'', ''managerRef''] []),
      (''leave-decision'', policy [''subjectUserId'', ''managerRef'', ''decidedBy''] []),
      (''attendance'', policy [''subjectUserId'', ''managerRef''] []),
      (''attendance-correction'', policy [''subjectUserId'', ''managerRef'', ''approvedBy''] []),
      (''people-review'', policy [''subjectUserId'', ''managerRef'', ''reviewerRef''] []),
      (''review-submission'', policy [''subjectUserId'', ''managerRef'', ''reviewerRef'', ''submittedBy''] []),
      (''access-revocation-receipt'', policy [''subjectUserId'', ''verifiedBy''] []),
      (''offboarding-receipt'', policy [''subjectUserId'', ''managerRef''] [])]"

definition meeting_policies :: "(string \<times> identity_policy) list" where
  "meeting_policies =
     [(''meeting-participant'', policy [''meetingCreatedBy'', ''userRef''] [''meetingParticipantUserRefs'']),
      (''transcript-segment'', policy [''meetingCreatedBy'', ''speakerRef'', ''recordedBy''] [''meetingParticipantUserRefs'']),
      (''meeting-decision'', policy [''meetingCreatedBy'', ''ownerRef'', ''recordedBy''] [''meetingParticipantUserRefs'']),
      (''meeting-action-item'', policy [''meetingCreatedBy'', ''ownerRef'', ''createdBy''] [''meetingParticipantUserRefs'']),
      (''ai-proposal-request'', policy [''meetingCreatedBy'', ''queuedBy''] [])]"

definition learning_policies :: "(string \<times> identity_policy) list" where
  "learning_policies =
     [(''learning-lesson'', policy [''courseCreatedBy'', ''createdBy''] [''courseLearnerRefs'']),
      (''learning-rubric'', policy [''courseCreatedBy'', ''createdBy''] [''courseLearnerRefs'']),
      (''learning-enrollment'', policy [''courseCreatedBy'', ''learnerRef'', ''enrolledBy''] []),
      (''learning-attempt'', policy [''courseCreatedBy'', ''learnerRef'', ''recordedBy''] []),
      (''learning-credential'', policy [''courseCreatedBy'', ''learnerRef'', ''issuedBy''] []),
      (''ai-proposal-request'', policy [''courseCreatedBy'', ''learnerRef'', ''queuedBy''] [])]"

definition community_policies :: "(string \<times> identity_policy) list" where
  "community_policies =
     [(''community-member'', policy [''spaceCreatedBy'', ''memberRef'', ''addedBy''] [''spaceMemberRefs'']),
      (''community-post'', policy [''spaceCreatedBy'', ''authorRef''] [''spaceMemberRefs'']),
      (''community-reply'', policy [''spaceCreatedBy'', ''authorRef''] [''spaceMemberRefs'']),
      (''community-reaction'', policy [''spaceCreatedBy'', ''memberRef''] [''spaceMemberRefs'']),
      (''community-announcement'', policy [''spaceCreatedBy'', ''publishedBy''] [''spaceMemberRefs'']),
      (''ai-proposal-request'', policy [''spaceCreatedBy'', ''queuedBy''] [])]"

definition protected_meeting_privacy :: "string list" where
  "protected_meeting_privacy = [''confidential'', ''restricted'']"

definition shared_learning_visibility :: "string list" where
  "shared_learning_visibility = [''workspace'', ''public-catalog'']"

definition shared_community_visibility :: "string list" where
  "shared_community_visibility = [''workspace'', ''public'']"

definition shared_learning_record_types :: "string list" where
  "shared_learning_record_types = [''learning-lesson'', ''learning-rubric'']"

definition shared_assurance_classifications :: "string list" where
  "shared_assurance_classifications = [''public'', ''internal'']"

definition protected_assurance_classifications :: "string list" where
  "protected_assurance_classifications = [''confidential'', ''restricted'']"

definition shared_live_visibility :: "string list" where
  "shared_live_visibility = [''workspace'', ''invited-public'']"

definition live_session_shared_record_types :: "string list" where
  "live_session_shared_record_types =
     [''broadcast-receipt'', ''broadcast-update'', ''live-chat-message'', ''live-prompt'']"

definition globally_private_ai_record_types :: "string list" where
  "globally_private_ai_record_types =
     [''ai-proposal-request'', ''ai-request-audit'', ''premium-ai-request-audit'', ''ai-result'']"

section \<open>Decisions\<close>

definition authorization_data :: "vis_target \<Rightarrow> obj option" where
  "authorization_data r =
     (case t_data r of
        JObj d \<Rightarrow>
          if oget d ''additiveContract'' \<noteq> JStr additive_record_contract then Some d
          else (case oget d ''record'' of
                  JObj st \<Rightarrow>
                    if oget st ''workspaceId'' \<noteq> JStr (t_workspace r)
                      \<or> oget st ''moduleId'' \<noteq> JStr (t_module r)
                      \<or> oget st ''recordType'' \<noteq> JStr (t_type r)
                      \<or> oget st ''state'' \<noteq> JStr (t_state r) then None
                    else (case oget st ''data'' of JObj inner \<Rightarrow> Some inner | _ \<Rightarrow> None)
                | _ \<Rightarrow> None)
      | _ \<Rightarrow> None)"

definition has_exact_identity :: "obj \<Rightarrow> string \<Rightarrow> identity_policy option \<Rightarrow> bool" where
  "has_exact_identity d user p =
     (case p of
        None \<Rightarrow> False
      | Some pol \<Rightarrow>
          (\<exists>f \<in> set (id_fields pol). has_own d f \<and> oget d f = JStr user)
          \<or> (\<exists>f \<in> set (id_array_fields pol). case oget d f of JArr vs \<Rightarrow> JStr user \<in> set vs | _ \<Rightarrow> False))"

definition is_internal_record :: "string \<Rightarrow> bool" where
  "is_internal_record rt \<longleftrightarrow>
     rt = ''audit'' \<or> ends_with rt ''-audit'' \<or> ends_with rt ''-command-receipt''"

definition is_globally_private_ai_record :: "string \<Rightarrow> bool" where
  "is_globally_private_ai_record rt \<longleftrightarrow>
     rt \<in> set globally_private_ai_record_types \<or> ends_with rt ''-ai-request-audit''"

definition can_read_private_ai_record :: "string \<Rightarrow> obj \<Rightarrow> bool" where
  "can_read_private_ai_record user d = has_exact_identity d user
     (Some (policy [''requestedByUserId'', ''requestedBy'', ''queuedBy'', ''reviewedByUserId'', ''reviewedBy''] []))"

definition can_read_people_record :: "string \<Rightarrow> vis_target \<Rightarrow> obj \<Rightarrow> bool" where
  "can_read_people_record user r d =
     (if t_type r = ''people-policy'' then t_state r = ''published''
      else if t_type r = ''ai-proposal-request'' \<or> is_internal_record (t_type r) then False
      else if t_type r = ''people-profile'' then
        (if oget d ''employeeRef'' = JStr user then True
         else oget d ''privacy'' = JStr ''manager-and-person'' \<and> oget d ''managerRef'' = JStr user)
      else (case map_of people_policies (t_type r) of
              None \<Rightarrow> False
            | Some pol \<Rightarrow>
                (if has_exact_identity d user (Some (pol\<lparr>id_fields := filter (\<lambda>f. f \<noteq> ''managerRef'') (id_fields pol)\<rparr>))
                 then True
                 else oget d ''profilePrivacy'' = JStr ''manager-and-person''
                      \<and> oget d ''managerRef'' = JStr user)))"

text \<open>
  \<open>String(x)\<close> of a policy value: only a string (or an array holding just one) prints as a policy
  word, so membership after conversion is decided on the printed form.
\<close>

definition word_in :: "js_env \<Rightarrow> json \<Rightarrow> string list \<Rightarrow> bool" where
  "word_in E v ws \<longleftrightarrow> to_str E v \<in> set ws"

definition can_read_meeting_record :: "js_env \<Rightarrow> string \<Rightarrow> vis_target \<Rightarrow> obj \<Rightarrow> bool" where
  "can_read_meeting_record E user r d =
     (if is_internal_record (t_type r) then False
      else if t_type r = ''meeting'' then
        (if oget d ''privacy'' = JStr ''workspace'' then True
         else if \<not> word_in E (oget d ''privacy'') protected_meeting_privacy then False
         else has_exact_identity d user (Some (policy [''createdBy''] [''participantUserRefs''])))
      else
        (let privacy = oget d ''meetingPrivacy''
         in if privacy \<noteq> JStr ''workspace'' \<and> \<not> word_in E privacy protected_meeting_privacy then False
            else if t_type r = ''meeting-export'' then
              has_exact_identity d user (Some (policy [''meetingCreatedBy'', ''exportedBy'', ''createdBy''] []))
            else (case map_of meeting_policies (t_type r) of
                    None \<Rightarrow> False
                  | Some pol \<Rightarrow>
                      if t_type r = ''ai-proposal-request'' then has_exact_identity d user (Some pol)
                      else if privacy = JStr ''workspace'' then True
                      else has_exact_identity d user (Some pol))))"

definition can_read_learning_record :: "js_env \<Rightarrow> string \<Rightarrow> vis_target \<Rightarrow> obj \<Rightarrow> bool" where
  "can_read_learning_record E user r d =
     (if is_internal_record (t_type r) then False
      else if t_type r = ''learning-course'' then
        (if word_in E (oget d ''visibility'') shared_learning_visibility then True
         else if oget d ''visibility'' \<noteq> JStr ''private'' then False
         else has_exact_identity d user (Some (policy [''createdBy''] [''learnerRefs''])))
      else
        (let visibility = oget d ''courseVisibility''
         in if visibility \<noteq> JStr ''private'' \<and> \<not> word_in E visibility shared_learning_visibility then False
            else (case map_of learning_policies (t_type r) of
                    None \<Rightarrow> False
                  | Some pol \<Rightarrow>
                      if t_type r \<in> set shared_learning_record_types
                         \<and> word_in E visibility shared_learning_visibility then True
                      else has_exact_identity d user (Some pol))))"

definition is_shareable_community_state :: "vis_target \<Rightarrow> bool" where
  "is_shareable_community_state r =
     (if t_type r = ''community-member'' then t_state r = ''active''
      else if t_type r = ''community-post'' \<or> t_type r = ''community-reply'' then t_state r = ''visible''
      else if t_type r = ''community-reaction'' then t_state r = ''active''
      else if t_type r = ''community-announcement'' then t_state r = ''published''
      else False)"

definition can_read_community_record :: "js_env \<Rightarrow> string \<Rightarrow> vis_target \<Rightarrow> obj \<Rightarrow> bool" where
  "can_read_community_record E user r d =
     (if is_internal_record (t_type r) then False
      else if t_type r = ''community-space'' then
        (if word_in E (oget d ''visibility'') shared_community_visibility then True
         else if oget d ''visibility'' \<noteq> JStr ''private'' then False
         else has_exact_identity d user (Some (policy [''createdBy''] [''memberRefs''])))
      else
        (let visibility = oget d ''spaceVisibility''
         in if visibility \<noteq> JStr ''private'' \<and> \<not> word_in E visibility shared_community_visibility then False
            else (case map_of community_policies (t_type r) of
                    None \<Rightarrow> False
                  | Some pol \<Rightarrow>
                      if t_type r = ''ai-proposal-request'' then has_exact_identity d user (Some pol)
                      else if word_in E visibility shared_community_visibility
                              \<and> is_shareable_community_state r then True
                      else if \<not> is_shareable_community_state r
                        then has_exact_identity d user (Some (policy (id_fields pol) []))
                      else has_exact_identity d user (Some pol))))"

definition can_read_assistant_record :: "string \<Rightarrow> obj \<Rightarrow> bool" where
  "can_read_assistant_record user d = has_exact_identity d user
     (Some (policy [''createdByUserId'', ''requestedByUserId'', ''approvedByUserId'', ''reviewedByUserId''] []))"

definition assurance_identity_policy :: identity_policy where
  "assurance_identity_policy = policy
     [''programOwnerRef'', ''subjectOwnerRef'', ''ownerRef'', ''controlOwnerRef'', ''evidenceOwnerRef'',
      ''remediationOwnerRef'', ''createdByUserId'', ''attachedByUserId'', ''testerRef'', ''approvedBy'',
      ''requestedByUserId''] [''subjectOwnerRefs'']"

definition can_read_assurance_record :: "js_env \<Rightarrow> string \<Rightarrow> vis_target \<Rightarrow> obj \<Rightarrow> bool" where
  "can_read_assurance_record E user r d =
     (if is_internal_record (t_type r) then False
      else if t_type r = ''audit-pack'' \<or> oget d ''private'' = JBool True \<or> t_state r = ''ready-private''
        then has_exact_identity d user (Some assurance_identity_policy)
      else
        (let classification = oget d ''assuranceClassification''
         in if word_in E classification shared_assurance_classifications then True
            else if classification \<noteq> JUndef \<and> \<not> word_in E classification protected_assurance_classifications
              then False
            else has_exact_identity d user (Some assurance_identity_policy)))"

definition live_identity_policy :: "string \<Rightarrow> identity_policy option" where
  "live_identity_policy rt =
     (if rt = ''attendee-access'' then Some (policy [''attendeeRef''] [])
      else if rt = ''presenter-grant'' then Some (policy [''presenterRef''] [])
      else if rt = ''media-consent-receipt'' then Some (policy [''participantRef''] [])
      else if rt = ''live-prompt-response'' then Some (policy [''attendeeRef''] [])
      else if rt = ''chat-moderation-receipt'' then Some (policy [''messageSenderRef'', ''approvedBy''] [])
      else None)"

definition can_read_live_record :: "js_env \<Rightarrow> string \<Rightarrow> vis_target \<Rightarrow> obj \<Rightarrow> bool" where
  "can_read_live_record E user r d =
     (if is_internal_record (t_type r) then False
      else
        (let visibility = (if t_type r = ''live-session'' then oget d ''visibility''
                           else oget d ''sessionVisibility'')
         in if visibility \<noteq> JStr ''private'' \<and> \<not> word_in E visibility shared_live_visibility then False
            else (case live_identity_policy (t_type r) of
                    Some narrow \<Rightarrow> has_exact_identity d user (Some narrow)
                  | None \<Rightarrow>
                      if t_type r \<noteq> ''live-session'' \<and> t_type r \<notin> set live_session_shared_record_types
                        then False
                      else if t_type r = ''live-chat-message'' \<and> t_state r \<noteq> ''visible''
                        then has_exact_identity d user (Some (policy [''senderRef'', ''sessionCreatedBy''] []))
                      else if word_in E visibility shared_live_visibility then True
                      else has_exact_identity d user
                             (Some (policy [''sessionCreatedBy'', ''senderRef''] [''sessionParticipantRefs''])))))"

definition is_non_empty_string :: "string \<Rightarrow> bool" where
  "is_non_empty_string s \<longleftrightarrow> trim s \<noteq> []"

definition can_read_suite_record :: "js_env \<Rightarrow> principal \<Rightarrow> vis_target \<Rightarrow> bool" where
  "can_read_suite_record E p r =
     (if \<not> is_non_empty_string (p_user p) \<or> \<not> is_non_empty_string (p_workspace p)
         \<or> t_workspace r \<noteq> p_workspace p then False
      else if p_role p \<in> set privileged_roles then True
      else (case authorization_data r of
              None \<Rightarrow> False
            | Some d \<Rightarrow>
                if is_globally_private_ai_record (t_type r) then can_read_private_ai_record (p_user p) d
                else if t_module r \<notin> set protected_module_ids then True
                else if t_module r = ''people'' then can_read_people_record (p_user p) r d
                else if t_module r = ''meetings'' then can_read_meeting_record E (p_user p) r d
                else if t_module r = ''learning'' then can_read_learning_record E (p_user p) r d
                else if t_module r = ''assistant'' then can_read_assistant_record (p_user p) d
                else if t_module r = ''community'' then can_read_community_record E (p_user p) r d
                else if t_module r = ''assurance'' then can_read_assurance_record E (p_user p) r d
                else can_read_live_record E (p_user p) r d))"

definition suite_module_has_protected_records :: "string \<Rightarrow> bool" where
  "suite_module_has_protected_records m \<longleftrightarrow> m \<in> set protected_module_ids"

section \<open>Consequences\<close>

lemma policy_simps [simp]: "id_fields (policy fs afs) = fs" "id_array_fields (policy fs afs) = afs"
  by (simp_all add: policy_def)

lemma own_str [simp]: "oget d f = JStr u \<Longrightarrow> has_own d f"
  by (force simp: has_own_def oget_def dest: map_of_SomeD split: option.splits)

lemma has_exact_identity_iff:
  "has_exact_identity d u (Some pol) \<longleftrightarrow>
     (\<exists>f \<in> set (id_fields pol). oget d f = JStr u)
     \<or> (\<exists>f \<in> set (id_array_fields pol). \<exists>vs. oget d f = JArr vs \<and> JStr u \<in> set vs)"
proof -
  have "(case oget d f of JArr vs \<Rightarrow> JStr u \<in> set vs | _ \<Rightarrow> False)
      \<longleftrightarrow> (\<exists>vs. oget d f = JArr vs \<and> JStr u \<in> set vs)" for f
    by (cases "oget d f") auto
  then show ?thesis unfolding has_exact_identity_def by (auto, (metis own_str)+)
qed

text \<open>A plain reader has no administrative role and acts in the record's own workspace.\<close>

definition plain_reader :: "principal \<Rightarrow> vis_target \<Rightarrow> bool" where
  "plain_reader p r \<longleftrightarrow> is_non_empty_string (p_user p) \<and> is_non_empty_string (p_workspace p)
     \<and> t_workspace r = p_workspace p \<and> p_role p \<notin> set privileged_roles"

text \<open>What the data of a record says to a reader without an administrative role, whichever data that is.\<close>

definition data_decision :: "js_env \<Rightarrow> string \<Rightarrow> vis_target \<Rightarrow> obj \<Rightarrow> bool" where
  "data_decision E user r d =
     (if is_globally_private_ai_record (t_type r) then can_read_private_ai_record user d
      else if t_module r \<notin> set protected_module_ids then True
      else if t_module r = ''people'' then can_read_people_record user r d
      else if t_module r = ''meetings'' then can_read_meeting_record E user r d
      else if t_module r = ''learning'' then can_read_learning_record E user r d
      else if t_module r = ''assistant'' then can_read_assistant_record user d
      else if t_module r = ''community'' then can_read_community_record E user r d
      else if t_module r = ''assurance'' then can_read_assurance_record E user r d
      else can_read_live_record E user r d)"

lemma can_read_decision:
  "can_read_suite_record E p r \<longleftrightarrow>
     trim (p_user p) \<noteq> [] \<and> trim (p_workspace p) \<noteq> [] \<and> t_workspace r = p_workspace p
     \<and> (p_role p \<in> {''owner'', ''admin''}
        \<or> (case authorization_data r of None \<Rightarrow> False | Some d \<Rightarrow> data_decision E (p_user p) r d))"
  by (cases "authorization_data r")
    (auto simp: can_read_suite_record_def data_decision_def is_non_empty_string_def privileged_roles_def)

lemma plain_reader_decision:
  "plain_reader p r \<Longrightarrow> can_read_suite_record E p r =
     (case authorization_data r of None \<Rightarrow> False | Some d \<Rightarrow> data_decision E (p_user p) r d)"
  by (auto simp: plain_reader_def can_read_decision is_non_empty_string_def privileged_roles_def)

lemma can_read_workspace: "can_read_suite_record E p r \<Longrightarrow> t_workspace r = p_workspace p"
  by (auto simp: can_read_suite_record_def split: if_splits)

lemma internal_not_private_ai_meeting [simp]:
  "\<not> is_globally_private_ai_record ''meeting''" "\<not> is_internal_record ''meeting''"
  "\<not> is_globally_private_ai_record ''people-profile''" "\<not> is_internal_record ''people-profile''"
  by (simp_all add: is_globally_private_ai_record_def is_internal_record_def
      globally_private_ai_record_types_def ends_with_def)

text \<open>C7: Tenant boundary and privilege. No principal reads a record of another workspace, whatever
  its role, and a blank identity reads nothing. Inside its workspace an owner or admin reads every
  record, whatever its type and data. Every other role reads alike: no third role is privileged.\<close>

theorem tenant_boundary_and_privilege:
  "(can_read_suite_record E p r \<longrightarrow>
      t_workspace r = p_workspace p \<and> trim (p_user p) \<noteq> [] \<and> trim (p_workspace p) \<noteq> [])
   \<and> (p_role p \<in> {''owner'', ''admin''} \<longrightarrow>
      (can_read_suite_record E p r \<longleftrightarrow>
        t_workspace r = p_workspace p \<and> trim (p_user p) \<noteq> [] \<and> trim (p_workspace p) \<noteq> []))
   \<and> (\<forall>a b. a \<notin> {''owner'', ''admin''} \<longrightarrow> b \<notin> {''owner'', ''admin''} \<longrightarrow>
      can_read_suite_record E (p\<lparr>p_role := a\<rparr>) r = can_read_suite_record E (p\<lparr>p_role := b\<rparr>) r)"
  by (auto simp: can_read_decision cong: option.case_cong)

definition sample_principal :: principal where
  "sample_principal = \<lparr>p_user = ''u1'', p_workspace = ''w1'', p_role = ''member''\<rparr>"

definition sample_meeting :: vis_target where
  "sample_meeting = \<lparr>t_workspace = ''w1'', t_module = ''meetings'', t_type = ''meeting'',
     t_state = ''scheduled'', t_data = JObj [(''privacy'', JStr ''confidential''),
       (''createdBy'', JStr ''u2''), (''participantUserRefs'', JArr [JStr ''u1''])]\<rparr>"

definition sample_profile :: vis_target where
  "sample_profile = \<lparr>t_workspace = ''w1'', t_module = ''people'', t_type = ''people-profile'',
     t_state = ''active'', t_data = JObj [(''employeeRef'', JStr ''u2''),
       (''privacy'', JStr ''person-only''), (''managerRef'', JStr ''u1'')]\<rparr>"

lemmas sample_defs = sample_principal_def sample_meeting_def sample_profile_def

lemma sample_readers [simp]: "plain_reader sample_principal sample_meeting"
  "plain_reader sample_principal sample_profile"
  by (simp_all add: plain_reader_def sample_defs is_non_empty_string_def privileged_roles_def trim_def
      is_ws_def code_def)

theorem tenant_boundary_and_privilege_witness:
  "\<not> can_read_suite_record sample_env sample_principal sample_profile
   \<and> can_read_suite_record sample_env (sample_principal\<lparr>p_role := ''admin''\<rparr>) sample_profile
   \<and> \<not> can_read_suite_record sample_env (sample_principal\<lparr>p_role := ''admin'', p_workspace := ''w2''\<rparr>) sample_profile"
proof -
  have "trim ''u1'' \<noteq> []" "trim ''w1'' \<noteq> []" by (simp_all add: trim_def is_ws_def code_def)
  then have "can_read_suite_record sample_env (sample_principal\<lparr>p_role := ''admin''\<rparr>) sample_profile"
    using tenant_boundary_and_privilege[of sample_env "sample_principal\<lparr>p_role := ''admin''\<rparr>" sample_profile]
    by (simp add: sample_defs)
  moreover have "\<not> can_read_suite_record sample_env (sample_principal\<lparr>p_role := ''admin'', p_workspace := ''w2''\<rparr>) sample_profile"
    using tenant_boundary_and_privilege[of sample_env "sample_principal\<lparr>p_role := ''admin'', p_workspace := ''w2''\<rparr>" sample_profile]
    by (auto simp: sample_defs)
  moreover have "\<not> can_read_suite_record sample_env sample_principal sample_profile"
    by (simp add: plain_reader_decision)
      (simp add: sample_defs authorization_data_def additive_record_contract_def data_decision_def
        protected_module_ids_def can_read_people_record_def is_globally_private_ai_record_def
        globally_private_ai_record_types_def ends_with_def is_internal_record_def)
  ultimately show ?thesis by blast
qed

lemma header_fields [simp]:
  "t_type (r\<lparr>t_data := v\<rparr>) = t_type r" "t_state (r\<lparr>t_data := v\<rparr>) = t_state r"
  "t_module (r\<lparr>t_data := v\<rparr>) = t_module r" "t_workspace (r\<lparr>t_data := v\<rparr>) = t_workspace r"
  by (cases r, simp)+

lemma header_only [simp]:
  "can_read_people_record u (r\<lparr>t_data := v\<rparr>) d = can_read_people_record u r d"
  "can_read_meeting_record E u (r\<lparr>t_data := v\<rparr>) d = can_read_meeting_record E u r d"
  "can_read_learning_record E u (r\<lparr>t_data := v\<rparr>) d = can_read_learning_record E u r d"
  "can_read_community_record E u (r\<lparr>t_data := v\<rparr>) d = can_read_community_record E u r d"
  "can_read_assurance_record E u (r\<lparr>t_data := v\<rparr>) d = can_read_assurance_record E u r d"
  "can_read_live_record E u (r\<lparr>t_data := v\<rparr>) d = can_read_live_record E u r d"
  unfolding can_read_people_record_def can_read_meeting_record_def can_read_learning_record_def
    can_read_community_record_def can_read_assurance_record_def can_read_live_record_def
    is_shareable_community_state_def header_fields by (rule refl)+

lemma decision_header_only [simp]: "data_decision E u (r\<lparr>t_data := v\<rparr>) d = data_decision E u r d"
  by (simp add: data_decision_def)

text \<open>C26: Envelope integrity. A principal without an administrative role reads an additive record
  exactly when it acts in the record's workspace, the stored envelope names the very workspace, module,
  type and state of the record that carries it, and the data inside the envelope admits the reader.
  Nothing else the record holds is consulted: no top-level field can widen or narrow access.\<close>

theorem envelope_decides:
  assumes "p_role p \<notin> {''owner'', ''admin''}" and "t_data r = JObj d"
    and "oget d ''additiveContract'' = JStr ''additive-business-record.v1''"
  shows "can_read_suite_record E p r \<longleftrightarrow>
     trim (p_user p) \<noteq> [] \<and> trim (p_workspace p) \<noteq> [] \<and> t_workspace r = p_workspace p
     \<and> (\<exists>env inner. oget d ''record'' = JObj env
          \<and> oget env ''workspaceId'' = JStr (t_workspace r) \<and> oget env ''moduleId'' = JStr (t_module r)
          \<and> oget env ''recordType'' = JStr (t_type r) \<and> oget env ''state'' = JStr (t_state r)
          \<and> oget env ''data'' = JObj inner \<and> data_decision E (p_user p) (r\<lparr>t_data := JNull\<rparr>) inner)"
proof -
  have "authorization_data r = Some inner \<longleftrightarrow> (\<exists>env. oget d ''record'' = JObj env
      \<and> oget env ''workspaceId'' = JStr (t_workspace r) \<and> oget env ''moduleId'' = JStr (t_module r)
      \<and> oget env ''recordType'' = JStr (t_type r) \<and> oget env ''state'' = JStr (t_state r)
      \<and> oget env ''data'' = JObj inner)" for inner
    using assms(2,3) by (auto simp: authorization_data_def additive_record_contract_def split: json.splits)
  moreover have "(case x of None \<Rightarrow> False | Some y \<Rightarrow> Q y) \<longleftrightarrow> (\<exists>y. x = Some y \<and> Q y)" for x :: "obj option" and Q
    by (cases x) auto
  ultimately show ?thesis using assms(1) by (simp add: can_read_decision) blast
qed

definition sample_envelope :: "string \<Rightarrow> string \<Rightarrow> obj" where
  "sample_envelope state creator = [(''additiveContract'', JStr ''additive-business-record.v1''), (''createdBy'', JStr ''u1''),
     (''record'', JObj [(''workspaceId'', JStr ''w1''), (''moduleId'', JStr ''meetings''), (''recordType'', JStr ''meeting''),
        (''state'', JStr state), (''data'', JObj [(''privacy'', JStr ''confidential''), (''createdBy'', JStr creator)])])]"

theorem envelope_decides_witness:
  "can_read_suite_record sample_env sample_principal (sample_meeting\<lparr>t_data := JObj (sample_envelope ''scheduled'' ''u1'')\<rparr>)
   \<and> \<not> can_read_suite_record sample_env sample_principal (sample_meeting\<lparr>t_data := JObj (sample_envelope ''closed'' ''u1'')\<rparr>)
   \<and> \<not> can_read_suite_record sample_env sample_principal (sample_meeting\<lparr>t_data := JObj (sample_envelope ''scheduled'' ''u2'')\<rparr>)"
proof -
  have names: "trim ''u1'' \<noteq> []" "trim ''w1'' \<noteq> []" by (simp_all add: trim_def is_ws_def code_def)
  have d: "data_decision sample_env ''u1'' (sample_meeting\<lparr>t_data := v\<rparr>) [(''privacy'', JStr ''confidential''), (''createdBy'', JStr u)]
      \<longleftrightarrow> u = ''u1''" for u v
    by (simp add: data_decision_def)
      (simp add: sample_meeting_def protected_module_ids_def can_read_meeting_record_def word_in_def
        protected_meeting_privacy_def has_exact_identity_iff)
  have "can_read_suite_record sample_env sample_principal (sample_meeting\<lparr>t_data := JObj (sample_envelope state u)\<rparr>)
      \<longleftrightarrow> state = ''scheduled'' \<and> u = ''u1''" for state u
    by (subst envelope_decides[of sample_principal _ "sample_envelope state u"])
      (use names d[of JNull u] in \<open>auto simp: sample_principal_def sample_envelope_def sample_meeting_def\<close>)
  then show ?thesis by simp
qed

text \<open>Confidential meetings. A workspace member without an administrative role reads a
  confidential or restricted meeting exactly when they created it or are one of its recorded
  participants.\<close>

theorem restricted_meeting_readers:
  assumes "plain_reader p r" and "t_module r = ''meetings''" and "t_type r = ''meeting''"
    and "authorization_data r = Some d"
    and "oget d ''privacy'' = JStr privacy" and "privacy \<in> set protected_meeting_privacy"
  shows "can_read_suite_record E p r \<longleftrightarrow>
     oget d ''createdBy'' = JStr (p_user p)
     \<or> (\<exists>refs. oget d ''participantUserRefs'' = JArr refs \<and> JStr (p_user p) \<in> set refs)"
proof -
  have "privacy \<noteq> ''workspace''" using assms(6) by (auto simp: protected_meeting_privacy_def)
  with assms show ?thesis
    by (simp add: plain_reader_decision data_decision_def can_read_meeting_record_def word_in_def has_exact_identity_iff
        protected_module_ids_def)
qed

theorem restricted_meeting_readers_witness:
  "can_read_suite_record sample_env sample_principal sample_meeting"
  by (rule restricted_meeting_readers[THEN iffD2, of _ _
        "[(''privacy'', JStr ''confidential''), (''createdBy'', JStr ''u2''),
          (''participantUserRefs'', JArr [JStr ''u1''])]" "''confidential''"])
    (simp_all add: sample_defs sample_readers[unfolded sample_defs]
      authorization_data_def additive_record_contract_def protected_meeting_privacy_def)

text \<open>Personnel profiles. A member without an administrative role reads a people profile
  exactly when it is their own, or when its privacy admits the manager and they are that manager.\<close>

theorem people_profile_readers:
  assumes "plain_reader p r" and "t_module r = ''people''" and "t_type r = ''people-profile''"
    and "authorization_data r = Some d"
  shows "can_read_suite_record E p r \<longleftrightarrow>
     oget d ''employeeRef'' = JStr (p_user p)
     \<or> oget d ''privacy'' = JStr ''manager-and-person'' \<and> oget d ''managerRef'' = JStr (p_user p)"
  using assms by (simp add: plain_reader_decision data_decision_def can_read_people_record_def protected_module_ids_def)

theorem people_profile_readers_witness:
  "\<not> can_read_suite_record sample_env sample_principal sample_profile"
  using people_profile_readers[of sample_principal sample_profile
      "[(''employeeRef'', JStr ''u2''), (''privacy'', JStr ''person-only''), (''managerRef'', JStr ''u1'')]" sample_env]
  by (simp) (simp add: sample_defs authorization_data_def additive_record_contract_def)

text \<open>Internal evidence. Audit records and command receipts of the people, meetings,
  learning, community, assurance and live modules are never readable without an administrative
  role; the only exception is an AI request audit, which its own requester or reviewer may read.\<close>

theorem internal_records_hidden:
  assumes "plain_reader p r" and "is_internal_record (t_type r)"
    and "t_module r \<in> set protected_module_ids" and "t_module r \<noteq> ''assistant''"
    and "can_read_suite_record E p r"
  shows "is_globally_private_ai_record (t_type r)
     \<and> (\<exists>d. authorization_data r = Some d \<and> can_read_private_ai_record (p_user p) d)"
proof -
  have "t_type r \<noteq> ''people-policy''" using assms(2) by (auto simp: is_internal_record_def ends_with_def)
  with assms show ?thesis
    by (auto simp: plain_reader_decision data_decision_def can_read_people_record_def can_read_meeting_record_def
        can_read_learning_record_def can_read_community_record_def can_read_assurance_record_def
        can_read_live_record_def split: option.splits if_splits)
qed

definition sample_ai_audit :: vis_target where
  "sample_ai_audit = \<lparr>t_workspace = ''w1'', t_module = ''people'', t_type = ''people-ai-request-audit'',
     t_state = ''queued'', t_data = JObj [(''requestedBy'', JStr ''u1'')]\<rparr>"

theorem internal_records_hidden_witness:
  "is_globally_private_ai_record (t_type sample_ai_audit)"
proof -
  have "plain_reader sample_principal sample_ai_audit"
    by (simp add: plain_reader_def sample_defs sample_ai_audit_def is_non_empty_string_def
        privileged_roles_def trim_def is_ws_def code_def)
  moreover have "can_read_suite_record sample_env sample_principal sample_ai_audit"
    using calculation
    by (simp add: plain_reader_decision)
      (simp add: sample_defs sample_ai_audit_def authorization_data_def additive_record_contract_def
        data_decision_def is_globally_private_ai_record_def ends_with_def can_read_private_ai_record_def has_exact_identity_iff)
  ultimately show ?thesis
    using internal_records_hidden[of sample_principal sample_ai_audit sample_env]
    by (simp add: sample_ai_audit_def is_internal_record_def ends_with_def protected_module_ids_def)
qed

end
