(* ===== verification/Additive_State.thy ===== *)
theory Additive_State
  imports Additive_Actions Visibility
begin

text \<open>
  State and primitive operations of \<open>AdditiveBusinessEngine\<close>
  (\<open>src/server/additive-business-engine.ts\<close>): records, evidence, audit receipts, the request
  context and its guards, hydration, visibility-filtered listing, reference resolution, and the two
  writes \<open>create\<close> and \<open>update\<close> with the membership synchronisation built on them. Handlers are
  computations over the engine state; a throw keeps the writes made before it.
\<close>

section \<open>Errors\<close>

datatype ctx_err =
    IdentityRequired
  | UnknownPlan
  | UnknownRole
  | MembersRequired
  | MembersMalformed
  | ActorNotMember
  | UnknownAction
  | PlanTooLow plan
  | RoleTooLow role
  | ScopeMissing scope
  | ModelPolicyRequired
  | ModelIdIsCredential
  | ModelIdMismatch
  | ClockInvalid
  | UnknownModule

datatype approval_err = ApprovalRequired | ApprovalFuture | ApprovalStale | DecisionReused

datatype idem_err = KeyOfOtherActor | KeyOfOtherInput

datatype ref_err =
    RecordIdRequired
  | RecordNotFound
  | EvidenceIdRequired
  | EvidenceNotFound
  | EvidenceEmpty
  | NotWorkspaceMember string
  | NotActingMember string
  | StaleVersion int

datatype hydrate_err = EngineNotEmpty | MalformedRecord | DuplicateRecord | MalformedEvidence | DuplicateEvidence

datatype rule_err =
    KeyTaken string
  | RowFieldUnknown string
  | RowFieldMissing string
  | RowFieldType string
  | ImportEmpty
  | PreviewMismatch
  | ViewFilterUnknown string
  | ViewSortInvalid nat
  | AggregateField
  | AggregateEmpty
  | BoundaryUntrusted string
  | BoundaryDenied string
  | TranscriptOrder
  | ObservationEmpty
  | ObservationInvalid nat
  | PositionTaken
  | AlreadyEnrolled
  | CriteriaInvalid
  | CriteriaDuplicate
  | CourseMismatch
  | AttemptMismatch
  | NotEligible
  | CredentialExists
  | AlreadyMember
  | AuthorNotActive
  | TargetOutsideSpace
  | Unsupported string

datatype err =
    CanonErr canon_error
  | SchemaErr schema_err
  | CtxErr ctx_err
  | ApprovalErr approval_err
  | IdemErr idem_err
  | RefErr ref_err
  | HydrateErr hydrate_err
  | RuleErr rule_err

section \<open>Data\<close>

record ctx =
  c_workspace :: string
  c_actor :: string
  c_plan :: string
  c_role :: string
  c_members :: "(string \<times> string) list"
  c_model_policy :: "string option"
  c_scopes :: "string list option"
  c_request_id :: "string option"
  c_now :: "int option"

record brecord =
  b_id :: string
  b_workspace :: string
  b_module :: string
  b_type :: string
  b_title :: string
  b_state :: string
  b_version :: int
  b_hash :: string
  b_data :: obj
  b_created :: string
  b_updated :: string

datatype evidence = Own (ev_record: brecord) | External (ev_record: brecord)

datatype decision = DecRead | DecPreviewed | DecApplied | DecQueued | DecReplayed

record audit =
  au_receipt :: string
  au_request :: "string option"
  au_workspace :: string
  au_actor :: string
  au_module :: string
  au_action :: string
  au_digest :: string
  au_dry_run :: bool
  au_replayed :: bool
  au_decision :: decision
  au_approved_by :: "string option"
  au_decision_id :: "string option"
  au_approved_at :: "string option"
  au_reason :: "string option"
  au_model_executed :: bool
  au_automatic_mutation :: bool
  au_external_effect :: bool
  au_created :: string

datatype result_kind = KRead | KCommand | KProposal

record body =
  o_kind :: result_kind
  o_records :: "brecord list"
  o_preview :: "obj option"

record exec_result =
  x_body :: body
  x_audit :: audit

record stored_receipt =
  s_workspace :: string
  s_actor :: string
  s_module :: string
  s_action :: string
  s_key :: string
  s_digest :: string
  s_result :: exec_result

record approval =
  ap_by :: string
  ap_at :: string
  ap_decision :: string
  ap_reason :: string

record engine =
  e_records :: "(string, brecord) jmap"
  e_external :: "(string, brecord) jmap"
  e_receipts :: "(string, stored_receipt) jmap"
  e_dirty :: "string list"
  e_draws :: nat

type_synonym 'a eng = "(engine, err, 'a) act"

definition empty_engine :: engine where
  "empty_engine = \<lparr>e_records = [], e_external = [], e_receipts = [], e_dirty = [], e_draws = 0\<rparr>"

definition schema_act :: "schema_err + 'a \<Rightarrow> 'a eng" where
  "schema_act r = lift_e (case r of Inl e \<Rightarrow> Inl (SchemaErr e) | Inr x \<Rightarrow> Inr x)"

definition digest_act :: "js_env \<Rightarrow> json \<Rightarrow> string eng" where
  "digest_act E v = lift_e (case digest E v of Inl e \<Rightarrow> Inl (CanonErr e) | Inr h \<Rightarrow> Inr h)"

definition guard :: "bool \<Rightarrow> err \<Rightarrow> unit eng" where
  "guard ok e = (if ok then ret () else throw e)"

section \<open>The model policy\<close>

definition tails :: "string \<Rightarrow> string list" where
  "tails s = map (\<lambda>n. drop n s) [0..<length s]"

text \<open>\<open>/(?:api[_-]?key|secret|token|sk-[a-z0-9])/i\<close>\<close>

definition model_credential_pattern :: "string \<Rightarrow> bool" where
  "model_credential_pattern s =
     (\<exists>t \<in> set (tails (lower s)).
        (\<exists>p \<in> {''apikey'', ''api_key'', ''api-key'', ''secret'', ''token''}. starts_with t p)
        \<or> (starts_with t ''sk-'' \<and> 3 < length t \<and> (is_digit (t ! 3) \<or> is_lower_alpha (t ! 3))))"

definition expected_model_policy :: "json \<Rightarrow> string option \<Rightarrow> err + string" where
  "expected_model_policy expected trusted =
     (case trusted of
        None \<Rightarrow> Inl (CtxErr ModelPolicyRequired)
      | Some t \<Rightarrow>
          if trim t = [] \<or> length t > 200 \<or> model_credential_pattern t then Inl (CtxErr ModelPolicyRequired)
          else (case expected of
                  JUndef \<Rightarrow> Inr t
                | JStr e \<Rightarrow>
                    if model_credential_pattern e then Inl (CtxErr ModelIdIsCredential)
                    else if e \<noteq> t then Inl (CtxErr ModelIdMismatch)
                    else Inr t
                | _ \<Rightarrow> Inl (CtxErr ModelIdIsCredential)))"

section \<open>Guards on the request context\<close>

fun check_members :: "(string \<times> string) list \<Rightarrow> string list \<Rightarrow> err + unit" where
  "check_members [] seen = Inr ()"
| "check_members ((u, r) # ms) seen =
     (if trim u = [] \<or> role_of r = None \<or> u \<in> set seen then Inl (CtxErr MembersMalformed)
      else check_members ms (u # seen))"

definition assert_context :: "ctx \<Rightarrow> err + unit" where
  "assert_context c =
     (if trim (c_workspace c) = [] \<or> trim (c_actor c) = [] then Inl (CtxErr IdentityRequired)
      else if plan_of (c_plan c) = None then Inl (CtxErr UnknownPlan)
      else if role_of (c_role c) = None then Inl (CtxErr UnknownRole)
      else if c_members c = [] then Inl (CtxErr MembersRequired)
      else bind_e (check_members (c_members c) []) (\<lambda>_.
        if map_of (c_members c) (c_actor c) \<noteq> Some (c_role c) then Inl (CtxErr ActorNotMember)
        else Inr ()))"

text \<open>A rank missing from its table reads as \<open>undefined\<close>, and no comparison with it holds.\<close>

definition plan_below :: "string \<Rightarrow> plan \<Rightarrow> bool" where
  "plan_below s p = (case plan_of s of None \<Rightarrow> False | Some q \<Rightarrow> q < p)"

definition role_below :: "string \<Rightarrow> role \<Rightarrow> bool" where
  "role_below s r = (case role_of s of None \<Rightarrow> False | Some q \<Rightarrow> q < r)"

definition assert_plan :: "ctx \<Rightarrow> string \<Rightarrow> err + unit" where
  "assert_plan c m =
     (case module_by_id m of
        None \<Rightarrow> Inl (CtxErr UnknownModule)
      | Some b \<Rightarrow> check_that (\<not> plan_below (c_plan c) (m_min_plan b)) (CtxErr (PlanTooLow (m_min_plan b))))"

definition assert_role :: "ctx \<Rightarrow> action \<Rightarrow> err + unit" where
  "assert_role c a = check_that (\<not> role_below (c_role c) (a_role a)) (CtxErr (RoleTooLow (a_role a)))"

definition assert_scope :: "ctx \<Rightarrow> string \<Rightarrow> scope \<Rightarrow> err + unit" where
  "assert_scope c m s =
     (let scopes = (case c_scopes c of None \<Rightarrow> [''*''] | Some ss \<Rightarrow> ss)
      in check_that (''*'' \<in> set scopes \<or> (m @ '':*'') \<in> set scopes \<or> (m @ '':'' @ scope_text s) \<in> set scopes)
           (CtxErr (ScopeMissing s)))"

definition approval_freshness_ms :: int where
  "approval_freshness_ms = 24 * 60 * 60 * 1000"

definition assert_approval_if_required ::
  "js_env \<Rightarrow> ctx \<Rightarrow> action \<Rightarrow> obj \<Rightarrow> int \<Rightarrow> err + approval option" where
  "assert_approval_if_required E c a input now =
     (if \<not> a_requires_approval a then Inr None
      else (case oget input ''approval'' of
              JObj ap \<Rightarrow>
                (case (oget ap ''approvedAt'', oget ap ''decisionId'', oget ap ''reason'') of
                   (JStr ts, JStr did, JStr reason) \<Rightarrow>
                     if oget ap ''approved'' \<noteq> JBool True \<or> oget ap ''approvedBy'' \<noteq> JStr (c_actor c)
                       \<or> \<not> valid_date_time E (JStr ts) \<or> \<not> key_pattern did \<or> trim reason = []
                     then Inl (ApprovalErr ApprovalRequired)
                     else (case parse_date E ts of
                             None \<Rightarrow> Inl (ApprovalErr ApprovalRequired)
                           | Some t \<Rightarrow>
                               if t > now then Inl (ApprovalErr ApprovalFuture)
                               else if now - t > approval_freshness_ms then Inl (ApprovalErr ApprovalStale)
                               else Inr (Some \<lparr>ap_by = c_actor c, ap_at = iso_text E t,
                                           ap_decision = did, ap_reason = trim reason\<rparr>))
                 | _ \<Rightarrow> Inl (ApprovalErr ApprovalRequired))
            | _ \<Rightarrow> Inl (ApprovalErr ApprovalRequired)))"

definition trusted_now :: "ctx \<Rightarrow> err + int" where
  "trusted_now c = (case c_now c of None \<Rightarrow> Inl (CtxErr ClockInvalid) | Some t \<Rightarrow> Inr t)"

section \<open>Hydration\<close>

definition well_formed_record :: "brecord \<Rightarrow> bool" where
  "well_formed_record r \<longleftrightarrow> b_id r \<noteq> [] \<and> b_workspace r \<noteq> [] \<and> module_by_id (b_module r) \<noteq> None
     \<and> \<bar>b_version r\<bar> \<le> max_safe \<and> 1 \<le> b_version r \<and> sha_pattern (b_hash r)"

definition put_record :: "brecord \<Rightarrow> engine \<Rightarrow> engine" where
  "put_record r s = s\<lparr>e_records := jset (b_id r) r (e_records s)\<rparr>"

definition hydrate_records :: "brecord list \<Rightarrow> unit eng" where
  "hydrate_records rs =
     bnd (reads (\<lambda>s. e_records s = [] \<and> e_external s = [] \<and> e_receipts s = [])) (\<lambda>empty.
     bnd (guard empty (HydrateErr EngineNotEmpty)) (\<lambda>_.
     bnd (each (\<lambda>r.
       bnd (guard (well_formed_record r) (HydrateErr MalformedRecord)) (\<lambda>_.
       bnd (reads (\<lambda>s. jget (e_records s) (b_id r) = None)) (\<lambda>fresh.
       bnd (guard fresh (HydrateErr DuplicateRecord)) (\<lambda>_.
       modifies (put_record r))))) rs) (\<lambda>_. ret ())))"

definition well_formed_evidence :: "brecord \<Rightarrow> bool" where
  "well_formed_evidence r \<longleftrightarrow> b_id r \<noteq> [] \<and> b_workspace r \<noteq> [] \<and> b_module r \<noteq> [] \<and> b_type r \<noteq> []
     \<and> \<bar>b_version r\<bar> \<le> max_safe \<and> 1 \<le> b_version r \<and> sha_pattern (b_hash r)"

definition hydrate_external :: "brecord list \<Rightarrow> unit eng" where
  "hydrate_external rs =
     bnd (each (\<lambda>r.
       bnd (guard (well_formed_evidence r) (HydrateErr MalformedEvidence)) (\<lambda>_.
       bnd (reads (\<lambda>s. jget (e_records s) (b_id r) = None \<and> jget (e_external s) (b_id r) = None)) (\<lambda>fresh.
       bnd (guard fresh (HydrateErr DuplicateEvidence)) (\<lambda>_.
       modifies (\<lambda>s. s\<lparr>e_external := jset (b_id r) r (e_external s)\<rparr>))))) rs) (\<lambda>_. ret ())"

definition changed_records :: "engine \<Rightarrow> brecord list" where
  "changed_records s = concat (map (\<lambda>i. case jget (e_records s) i of None \<Rightarrow> [] | Some r \<Rightarrow> [r]) (e_dirty s))"

section \<open>Visibility-filtered reads\<close>

definition ctx_principal :: "ctx \<Rightarrow> principal" where
  "ctx_principal c = \<lparr>p_user = c_actor c, p_workspace = c_workspace c, p_role = c_role c\<rparr>"

definition vis_of :: "brecord \<Rightarrow> vis_target" where
  "vis_of r = \<lparr>t_workspace = b_workspace r, t_module = b_module r, t_type = b_type r,
     t_state = b_state r, t_data = JObj (b_data r)\<rparr>"

definition can_read :: "js_env \<Rightarrow> ctx \<Rightarrow> brecord \<Rightarrow> bool" where
  "can_read E c r = can_read_suite_record E (ctx_principal c) (vis_of r)"

definition created_order :: "js_env \<Rightarrow> (string \<times> string) \<Rightarrow> (string \<times> string) \<Rightarrow> int" where
  "created_order E x y =
     (let d = collate E (fst x) (fst y) in if d \<noteq> 0 then d else collate E (snd x) (snd y))"

definition list_records ::
  "js_env \<Rightarrow> ctx \<Rightarrow> string option \<Rightarrow> string option \<Rightarrow> string option \<Rightarrow> engine \<Rightarrow> brecord list" where
  "list_records E c m rt st s =
     sort_cmp (\<lambda>x y. created_order E (b_created x, b_id x) (b_created y, b_id y))
       (filter (\<lambda>r. b_workspace r = c_workspace c \<and> can_read E c r
           \<and> (case m of None \<Rightarrow> True | Some w \<Rightarrow> b_module r = w)
           \<and> (case rt of None \<Rightarrow> True | Some w \<Rightarrow> b_type r = w)
           \<and> (case st of None \<Rightarrow> True | Some w \<Rightarrow> b_state r = w))
         (jvals (e_records s)))"

definition get_record :: "js_env \<Rightarrow> ctx \<Rightarrow> string \<Rightarrow> engine \<Rightarrow> brecord option" where
  "get_record E c i s =
     (case jget (e_records s) i of
        None \<Rightarrow> None
      | Some r \<Rightarrow> if b_workspace r = c_workspace c \<and> can_read E c r then Some r else None)"

definition list_audit_receipts :: "js_env \<Rightarrow> ctx \<Rightarrow> engine \<Rightarrow> audit list" where
  "list_audit_receipts E c s =
     sort_cmp (\<lambda>x y. created_order E (au_created x, au_receipt x) (au_created y, au_receipt y))
       (map (\<lambda>r. x_audit (s_result r))
         (filter (\<lambda>r. s_workspace r = c_workspace c
             \<and> (c_role c = ''owner'' \<or> c_role c = ''admin'' \<or> s_actor r = c_actor c))
           (jvals (e_receipts s))))"

section \<open>References\<close>

definition workspace_member :: "ctx \<Rightarrow> json \<Rightarrow> string \<Rightarrow> err + string" where
  "workspace_member c v label =
     (case v of
        JStr u \<Rightarrow>
          if trim u = [] \<or> map_of (c_members c) u = None then Inl (RefErr (NotWorkspaceMember label)) else Inr u
      | _ \<Rightarrow> Inl (RefErr (NotWorkspaceMember label)))"

definition acting_member :: "ctx \<Rightarrow> json \<Rightarrow> string \<Rightarrow> err + unit" where
  "acting_member c v label =
     bind_e (workspace_member c v label) (\<lambda>u.
       check_that (u = c_actor c) (RefErr (NotActingMember label)))"

definition owned :: "js_env \<Rightarrow> ctx \<Rightarrow> json \<Rightarrow> string option \<Rightarrow> string option \<Rightarrow> brecord eng" where
  "owned E c v m rt =
     (case v of
        JStr i \<Rightarrow>
          bnd (reads (\<lambda>s. jget (e_records s) i)) (\<lambda>found.
            case found of
              None \<Rightarrow> throw (RefErr RecordNotFound)
            | Some r \<Rightarrow>
                if b_workspace r \<noteq> c_workspace c \<or> \<not> can_read E c r
                  \<or> (case m of None \<Rightarrow> False | Some w \<Rightarrow> b_module r \<noteq> w)
                  \<or> (case rt of None \<Rightarrow> False | Some w \<Rightarrow> b_type r \<noteq> w)
                then throw (RefErr RecordNotFound) else ret r)
      | _ \<Rightarrow> throw (RefErr RecordIdRequired))"

definition evidence_record :: "js_env \<Rightarrow> ctx \<Rightarrow> json \<Rightarrow> evidence eng" where
  "evidence_record E c v =
     (case v of
        JStr i \<Rightarrow>
          bnd (reads (\<lambda>s. case jget (e_records s) i of
                 Some r \<Rightarrow> Some (Own r)
               | None \<Rightarrow> map_option External (jget (e_external s) i))) (\<lambda>found.
            case found of
              None \<Rightarrow> throw (RefErr EvidenceNotFound)
            | Some ev \<Rightarrow>
                if b_workspace (ev_record ev) \<noteq> c_workspace c \<or> \<not> can_read E c (ev_record ev)
                then throw (RefErr EvidenceNotFound) else ret ev)
      | _ \<Rightarrow> throw (RefErr EvidenceIdRequired))"

definition evidence_of :: "js_env \<Rightarrow> ctx \<Rightarrow> json \<Rightarrow> evidence list eng" where
  "evidence_of E c v =
     bnd (schema_act (as_strings v)) (\<lambda>ids.
     bnd (guard (ids \<noteq> []) (RefErr EvidenceEmpty)) (\<lambda>_.
     each (\<lambda>i. evidence_record E c (JStr i)) ids))"

definition assert_expected_version :: "brecord \<Rightarrow> json \<Rightarrow> unit eng" where
  "assert_expected_version r v = guard (v = jint (b_version r)) (RefErr (StaleVersion (b_version r)))"

section \<open>Membership references\<close>

definition member_ref :: "ctx \<Rightarrow> string \<Rightarrow> bool \<Rightarrow> brecord \<Rightarrow> err + string list" where
  "member_ref c field nullable r =
     (let ref = oget (b_data r) field
      in if ref = JNull \<and> nullable then Inr []
         else bind_e (workspace_member c ref (b_type r @ ''.'' @ field)) (\<lambda>u. Inr [u]))"

definition active_membership_refs ::
  "js_env \<Rightarrow> ctx \<Rightarrow> string \<Rightarrow> string \<Rightarrow> string \<Rightarrow> string \<Rightarrow> string \<Rightarrow> string option \<Rightarrow> bool \<Rightarrow> string list eng" where
  "active_membership_refs E c m rt parent_field parent_id field extra nullable =
     bnd (reads (list_records E c (Some m) (Some rt) (Some ''active''))) (\<lambda>rs.
     bnd (lift_e (each_e (member_ref c field nullable)
            (filter (\<lambda>r. oget (b_data r) parent_field = JStr parent_id) rs))) (\<lambda>refs.
     bnd (lift_e (case extra of
            None \<Rightarrow> Inr []
          | Some x \<Rightarrow> if x = [] then Inr []
                      else bind_e (workspace_member c (JStr x) field) (\<lambda>u. Inr [u]))) (\<lambda>more.
     ret (sort_cmp (collate E) (uniq (concat refs @ more))))))"

definition record_belongs_to_parent :: "brecord \<Rightarrow> string \<Rightarrow> string \<Rightarrow> string \<Rightarrow> engine \<Rightarrow> bool" where
  "record_belongs_to_parent r m parent_id parent_field s =
     (if b_module r \<noteq> m \<or> b_id r = parent_id then False
      else if oget (b_data r) parent_field = JStr parent_id then True
      else (case oget (b_data r) ''targetRecordId'' of
              JStr t \<Rightarrow>
                (case jget (e_records s) t of
                   None \<Rightarrow> False
                 | Some target \<Rightarrow> b_workspace target = b_workspace r \<and> b_module target = m
                     \<and> (b_id target = parent_id \<or> oget (b_data target) parent_field = JStr parent_id))
            | _ \<Rightarrow> False))"

section \<open>Writes\<close>

definition mark_dirty :: "string \<Rightarrow> engine \<Rightarrow> engine" where
  "mark_dirty i s = s\<lparr>e_dirty := (if i \<in> set (e_dirty s) then e_dirty s else e_dirty s @ [i])\<rparr>"

definition content_of :: "string \<Rightarrow> string \<Rightarrow> string \<Rightarrow> string \<Rightarrow> int \<Rightarrow> obj \<Rightarrow> json" where
  "content_of m rt title st version d =
     JObj [(''moduleId'', JStr m), (''recordType'', JStr rt), (''title'', JStr title), (''state'', JStr st),
           (''version'', jint version), (''data'', JObj d)]"

definition draw_uuid :: "js_env \<Rightarrow> string eng" where
  "draw_uuid E = bnd (reads (\<lambda>s. uuid_at E (e_draws s))) (\<lambda>u.
     bnd (modifies (\<lambda>s. s\<lparr>e_draws := e_draws s + 1\<rparr>)) (\<lambda>_. ret u))"

definition create ::
  "js_env \<Rightarrow> ctx \<Rightarrow> string \<Rightarrow> string \<Rightarrow> string \<Rightarrow> string \<Rightarrow> obj \<Rightarrow> string \<Rightarrow> brecord eng" where
  "create E c m rt title st d ts =
     bnd (draw_uuid E) (\<lambda>i.
     bnd (digest_act E (content_of m rt title st 1 d)) (\<lambda>h.
     let r = \<lparr>b_id = i, b_workspace = c_workspace c, b_module = m, b_type = rt, b_title = title,
              b_state = st, b_version = 1, b_hash = h, b_data = d, b_created = ts, b_updated = ts\<rparr>
     in bnd (modifies (\<lambda>s. mark_dirty i (put_record r s))) (\<lambda>_. ret r)))"

text \<open>
  \<open>update\<close> receives a reference to a stored record object, so it works on the current value
  stored under that identifier. It assigns the fields before it computes the digest: when the digest
  throws, the record keeps its new fields and its old hash, and is not marked for persistence.
\<close>

definition current :: "brecord \<Rightarrow> engine \<Rightarrow> brecord" where
  "current r s = (case jget (e_records s) (b_id r) of None \<Rightarrow> r | Some r0 \<Rightarrow> r0)"

definition assign_at :: "string \<Rightarrow> brecord \<Rightarrow> engine \<Rightarrow> engine" where
  "assign_at i r s =
     (case jget (e_records s) i of None \<Rightarrow> s | Some _ \<Rightarrow> s\<lparr>e_records := jset i r (e_records s)\<rparr>)"

definition patched :: "brecord \<Rightarrow> string option \<Rightarrow> string option \<Rightarrow> obj option \<Rightarrow> string \<Rightarrow> brecord" where
  "patched r title st d ts = r\<lparr>b_title := or_default title (b_title r), b_state := or_default st (b_state r),
     b_data := or_default d (b_data r), b_version := b_version r + 1, b_updated := ts\<rparr>"

definition record_digest :: "js_env \<Rightarrow> brecord \<Rightarrow> canon_error + string" where
  "record_digest E r = digest E (content_of (b_module r) (b_type r) (b_title r) (b_state r) (b_version r) (b_data r))"

definition update ::
  "js_env \<Rightarrow> brecord \<Rightarrow> string option \<Rightarrow> string option \<Rightarrow> obj option \<Rightarrow> string \<Rightarrow> brecord eng" where
  "update E r title st d ts =
     bnd (reads (current r)) (\<lambda>r0.
     let r1 = patched r0 title st d ts
     in bnd (modifies (assign_at (b_id r) r1)) (\<lambda>_.
        bnd (lift_e (case record_digest E r1 of Inl e \<Rightarrow> Inl (CanonErr e) | Inr h \<Rightarrow> Inr h)) (\<lambda>h.
        let r2 = r1\<lparr>b_hash := h\<rparr>
        in bnd (modifies (\<lambda>s. mark_dirty (b_id r) (assign_at (b_id r) r2 s))) (\<lambda>_. ret r2))))"

text \<open>
  \<open>synchronizeMembershipVisibility\<close>. The loop runs over the record objects present when it
  starts and updates each at most once, so the snapshot of a child is its current value when the
  loop reaches it; the target of a child is looked up in the live map.
\<close>

definition synchronize_membership ::
  "js_env \<Rightarrow> brecord \<Rightarrow> string \<Rightarrow> string \<Rightarrow> string \<Rightarrow> string list \<Rightarrow> string \<Rightarrow> brecord eng" where
  "synchronize_membership E parent parent_field child_field child_parent_field refs ts =
     (let refs_json = JArr (map JStr refs)
      in bnd (update E parent None None (Some (spread (b_data parent) [(parent_field, refs_json)])) ts) (\<lambda>updated.
         bnd (reads (\<lambda>s. jvals (e_records s))) (\<lambda>children.
         bnd (each (\<lambda>ref.
           bnd (reads (current ref)) (\<lambda>child.
           bnd (reads (record_belongs_to_parent child (b_module parent) (b_id parent) child_parent_field)) (\<lambda>mine.
             if \<not> mine \<or> oget (b_data child) child_field = refs_json then ret ()
             else bnd (update E child None None (Some (spread (b_data child) [(child_field, refs_json)])) ts)
                    (\<lambda>_. ret ())))) children) (\<lambda>_.
         ret updated))))"

end
