(* ===== verification/Additive_Handlers.thy ===== *)
theory Additive_Handlers
  imports Additive_State
begin

text \<open>
  The command handlers of \<open>AdditiveBusinessEngine\<close> (\<open>tables\<close>, \<open>meetings\<close>,
  \<open>insights\<close>, \<open>learning\<close>, \<open>community\<close>), one definition per action branch, with the
  boundary checks they share, and \<open>dispatch\<close> that selects among them. The arguments are the host
  \<open>E\<close>, the request context \<open>c\<close>, the validated input \<open>i\<close> and the timestamp \<open>ts\<close>.
\<close>

definition command :: "brecord list \<Rightarrow> body" where
  "command rs = \<lparr>o_kind = KCommand, o_records = rs, o_preview = None\<rparr>"

definition read_only :: "obj \<Rightarrow> body" where
  "read_only p = \<lparr>o_kind = KRead, o_records = [], o_preview = Some p\<rparr>"

definition one_record :: "brecord eng \<Rightarrow> body eng" where
  "one_record m = bnd m (\<lambda>r. ret (command [r]))"

definition binding3 :: "brecord \<Rightarrow> json" where
  "binding3 r = JObj [(''recordId'', JStr (b_id r)), (''version'', jint (b_version r)),
     (''contentHash'', JStr (b_hash r))]"

definition binding5 :: "brecord \<Rightarrow> json" where
  "binding5 r = JObj [(''recordId'', JStr (b_id r)), (''moduleId'', JStr (b_module r)),
     (''recordType'', JStr (b_type r)), (''version'', jint (b_version r)),
     (''contentHash'', JStr (b_hash r))]"

definition bindings3 :: "evidence list \<Rightarrow> json" where
  "bindings3 evs = JArr (map (binding3 \<circ> ev_record) evs)"

definition bindings5 :: "evidence list \<Rightarrow> json" where
  "bindings5 evs = JArr (map (binding5 \<circ> ev_record) evs)"

section \<open>Tables\<close>

definition table_fields :: "js_env \<Rightarrow> ctx \<Rightarrow> string \<Rightarrow> brecord list eng" where
  "table_fields E c base =
     bnd (owned E c (JStr base) (Some ''tables'') (Some ''table-base'')) (\<lambda>_.
     reads (\<lambda>s. filter (\<lambda>f. oget (b_data f) ''baseId'' = JStr base)
       (list_records E c (Some ''tables'') (Some ''table-field'') None s)))"

definition field_key :: "js_env \<Rightarrow> brecord \<Rightarrow> string" where
  "field_key E f = to_str E (oget (b_data f) ''key'')"

definition validate_cell :: "js_env \<Rightarrow> ctx \<Rightarrow> json \<Rightarrow> string \<Rightarrow> json \<Rightarrow> unit eng" where
  "validate_cell E c ty k v =
     (if ty = JStr ''text'' then guard (is_str v) (RuleErr (RowFieldType k))
      else if ty = JStr ''number'' then
        guard (case v of JNum n \<Rightarrow> is_finite n | _ \<Rightarrow> False) (RuleErr (RowFieldType k))
      else if ty = JStr ''boolean'' then guard (is_bool v) (RuleErr (RowFieldType k))
      else if ty = JStr ''date-time'' then guard (valid_date_time E v) (RuleErr (RowFieldType k))
      else if ty = JStr ''relation'' then bnd (evidence_record E c v) (\<lambda>_. ret ())
      else ret ())"

definition validate_row :: "js_env \<Rightarrow> ctx \<Rightarrow> string \<Rightarrow> obj \<Rightarrow> unit eng" where
  "validate_row E c base values =
     bnd (table_fields E c base) (\<lambda>fields.
     let by_key = map_of (rev (map (\<lambda>f. (field_key E f, f)) fields))
     in bnd (case first_such (\<lambda>k. by_key k = None) (map fst values) of
               None \<Rightarrow> ret () | Some k \<Rightarrow> throw (RuleErr (RowFieldUnknown k))) (\<lambda>_.
        bnd (case first_such (\<lambda>f. oget (b_data f) ''required'' = JBool True
                    \<and> lookup_undefined values (field_key E f)) fields of
               None \<Rightarrow> ret () | Some f \<Rightarrow> throw (RuleErr (RowFieldMissing (field_key E f)))) (\<lambda>_.
        bnd (each (\<lambda>(k, v). validate_cell E c
               (case by_key k of None \<Rightarrow> JUndef | Some f \<Rightarrow> oget (b_data f) ''fieldType'') k v) values)
          (\<lambda>_. ret ()))))"

definition validate_import :: "js_env \<Rightarrow> ctx \<Rightarrow> string \<Rightarrow> obj list \<Rightarrow> unit eng" where
  "validate_import E c base rows =
     bnd (guard (rows \<noteq> []) (RuleErr ImportEmpty)) (\<lambda>_.
     bnd (each (validate_row E c base) rows) (\<lambda>_. ret ()))"

definition import_hash :: "js_env \<Rightarrow> string \<Rightarrow> obj list \<Rightarrow> string eng" where
  "import_hash E base rows = digest_act E (JObj [(''version'', JStr ''schemadeck-import.v1''),
     (''baseId'', JStr base), (''rows'', JArr (map JObj rows))])"

definition base_create :: "js_env \<Rightarrow> ctx \<Rightarrow> obj \<Rightarrow> string \<Rightarrow> body eng" where
  "base_create E c i ts =
     bnd (reads (list_records E c (Some ''tables'') (Some ''table-base'') None)) (\<lambda>bases.
     bnd (guard (\<not> (\<exists>r \<in> set bases. strict_eq (oget (b_data r) ''key'') (oget i ''key'')))
            (RuleErr (KeyTaken ''base''))) (\<lambda>_.
     one_record (create E c ''tables'' ''table-base'' (to_str E (oget i ''name'')) ''active''
       [(''key'', oget i ''key''), (''purpose'', oget i ''purpose''), (''schemaVersion'', jint 1)] ts)))"

definition field_add :: "js_env \<Rightarrow> ctx \<Rightarrow> obj \<Rightarrow> string \<Rightarrow> body eng" where
  "field_add E c i ts =
     bnd (owned E c (oget i ''baseId'') (Some ''tables'') (Some ''table-base'')) (\<lambda>base.
     bnd (table_fields E c (b_id base)) (\<lambda>fields.
     bnd (guard (\<not> (\<exists>r \<in> set fields. strict_eq (oget (b_data r) ''key'') (oget i ''key'')))
            (RuleErr (KeyTaken ''field''))) (\<lambda>_.
     one_record (create E c ''tables'' ''table-field'' (to_str E (oget i ''label'')) ''active''
       [(''baseId'', JStr (b_id base)), (''key'', oget i ''key''), (''fieldType'', oget i ''fieldType''),
        (''required'', JBool (oget i ''required'' = JBool True))] ts))))"

definition source_binding :: "evidence \<Rightarrow> json" where
  "source_binding ev =
     (let r = ev_record ev
      in JObj [(''recordId'', JStr (b_id r)), (''moduleId'', JStr (b_module r)),
           (''recordType'', JStr (b_type r)), (''version'', jint (b_version r)),
           (''contentHash'', JStr (b_hash r)),
           (''readonlyExternal'', JBool (case ev of Own _ \<Rightarrow> False | External _ \<Rightarrow> True))])"

definition row_create :: "js_env \<Rightarrow> ctx \<Rightarrow> obj \<Rightarrow> string \<Rightarrow> body eng" where
  "row_create E c i ts =
     (let base = to_str E (oget i ''baseId'')
      in bnd (schema_act (as_object (oget i ''values''))) (\<lambda>values.
         bnd (validate_row E c base values) (\<lambda>_.
         bnd (if is_arr (oget i ''sourceRecordIds'')
              then bnd (schema_act (as_strings (oget i ''sourceRecordIds''))) (\<lambda>ids.
                     each (\<lambda>k. evidence_record E c (JStr k)) ids)
              else ret []) (\<lambda>sources.
         bnd (reads (\<lambda>s. length (filter (\<lambda>r. oget (b_data r) ''baseId'' = JStr base)
                (list_records E c (Some ''tables'') (Some ''table-row'') None s)))) (\<lambda>n.
         one_record (create E c ''tables'' ''table-row'' (''Row '' @ nat_text (n + 1)) ''active''
           [(''baseId'', JStr base), (''values'', JObj values),
            (''sourceBindings'', JArr (map source_binding sources))] ts))))))"

definition row_update :: "js_env \<Rightarrow> ctx \<Rightarrow> obj \<Rightarrow> string \<Rightarrow> body eng" where
  "row_update E c i ts =
     bnd (owned E c (oget i ''rowId'') (Some ''tables'') (Some ''table-row'')) (\<lambda>row.
     bnd (assert_expected_version row (oget i ''expectedVersion'')) (\<lambda>_.
     bnd (schema_act (as_object (oget i ''patch''))) (\<lambda>patch.
     bnd (schema_act (as_object (oget (b_data row) ''values''))) (\<lambda>stored.
     let values = spread stored patch
     in bnd (validate_row E c (to_str E (oget (b_data row) ''baseId'')) values) (\<lambda>_.
        one_record (update E row None None (Some (spread (b_data row)
          [(''values'', JObj values), (''lastEditedBy'', JStr (c_actor c))])) ts))))))"

definition view_create :: "js_env \<Rightarrow> ctx \<Rightarrow> obj \<Rightarrow> string \<Rightarrow> body eng" where
  "view_create E c i ts =
     (let base = to_str E (oget i ''baseId'')
      in bnd (table_fields E c base) (\<lambda>fs.
         let fields = map (field_key E) fs
         in bnd (schema_act (as_object (oget i ''filter''))) (\<lambda>flt.
            bnd (case first_such (\<lambda>k. k \<notin> set fields) (map fst flt) of
                   None \<Rightarrow> ret () | Some k \<Rightarrow> throw (RuleErr (ViewFilterUnknown k))) (\<lambda>_.
            bnd (schema_act (as_objects (oget i ''sort''))) (\<lambda>sorts.
            bnd (each (\<lambda>(n, so). guard (to_str E (oget so ''field'') \<in> set fields
                     \<and> to_str E (oget so ''direction'') \<in> {''asc'', ''desc''}) (RuleErr (ViewSortInvalid n)))
                   (zip [0..<length sorts] sorts)) (\<lambda>_.
            one_record (create E c ''tables'' ''table-view'' (to_str E (oget i ''name'')) ''active''
              [(''baseId'', JStr base), (''filter'', oget i ''filter''), (''sort'', oget i ''sort'')] ts)))))))"

definition import_preview :: "js_env \<Rightarrow> ctx \<Rightarrow> obj \<Rightarrow> string \<Rightarrow> body eng" where
  "import_preview E c i ts =
     bnd (schema_act (as_objects (oget i ''rows''))) (\<lambda>rows.
     bnd (validate_import E c (to_str E (oget i ''baseId'')) rows) (\<lambda>_.
     bnd (import_hash E (to_str E (oget i ''baseId'')) rows) (\<lambda>h.
     ret (read_only [(''rowCount'', jint (int (length rows))), (''previewHash'', JStr h),
       (''wouldWrite'', JBool False)]))))"

definition import_apply :: "js_env \<Rightarrow> ctx \<Rightarrow> obj \<Rightarrow> string \<Rightarrow> body eng" where
  "import_apply E c i ts =
     (let base = to_str E (oget i ''baseId'')
      in bnd (schema_act (as_objects (oget i ''rows''))) (\<lambda>rows.
         bnd (validate_import E c base rows) (\<lambda>_.
         bnd (import_hash E base rows) (\<lambda>h.
         bnd (guard (oget i ''previewHash'' = JStr h) (RuleErr PreviewMismatch)) (\<lambda>_.
         bnd (each (\<lambda>(n, values). create E c ''tables'' ''table-row'' (''Imported row '' @ nat_text (n + 1))
                ''active'' [(''baseId'', JStr base), (''values'', JObj values),
                   (''import'', JObj [(''previewHash'', JStr h), (''rowIndex'', jint (int n)),
                      (''approvedBy'', JStr (c_actor c))])] ts)
                (zip [0..<length rows] rows)) (\<lambda>rs.
         ret (command rs)))))))"

definition div_count :: "num \<Rightarrow> nat \<Rightarrow> num" where
  "div_count x n = (case x of Fin r \<Rightarrow> fin_div r (of_nat n) | y \<Rightarrow> y)"

definition aggregate :: "json \<Rightarrow> num list \<Rightarrow> num" where
  "aggregate op vs =
     (let total = foldl num_add (Fin 0) vs
      in if op = JStr ''sum'' then total
         else if op = JStr ''min'' then foldl num_min PInf vs
         else if op = JStr ''max'' then foldl num_max NInf vs
         else div_count total (length vs))"

definition finite_numbers :: "json list \<Rightarrow> num list" where
  "finite_numbers vs = concat (map (\<lambda>v. case v of JNum n \<Rightarrow> if is_finite n then [n] else [] | _ \<Rightarrow> []) vs)"

definition formula_evaluate :: "js_env \<Rightarrow> ctx \<Rightarrow> obj \<Rightarrow> string \<Rightarrow> body eng" where
  "formula_evaluate E c i ts =
     (let base = to_str E (oget i ''baseId'')
      in bnd (owned E c (JStr base) (Some ''tables'') (Some ''table-base'')) (\<lambda>_.
         bnd (reads (\<lambda>s. filter (\<lambda>r. oget (b_data r) ''baseId'' = JStr base)
                (list_records E c (Some ''tables'') (Some ''table-row'') (Some ''active'') s))) (\<lambda>rows.
         if oget i ''operation'' = JStr ''count''
         then ret (read_only [(''operation'', JStr ''count''), (''value'', jint (int (length rows))),
                (''rowCount'', jint (int (length rows))), (''deterministic'', JBool True)])
         else
           (let key = to_str E (oget i ''fieldKey'')
            in bnd (table_fields E c base) (\<lambda>fields.
               bnd (guard (case first_such (\<lambda>f. oget (b_data f) ''key'' = JStr key) fields of
                      None \<Rightarrow> False | Some f \<Rightarrow> oget (b_data f) ''fieldType'' = JStr ''number'')
                      (RuleErr AggregateField)) (\<lambda>_.
               bnd (schema_act (each_e (\<lambda>r. as_object (oget (b_data r) ''values'')) rows)) (\<lambda>stored.
               let vs = finite_numbers (map (\<lambda>d. oget d key) stored)
               in bnd (guard (vs \<noteq> []) (RuleErr AggregateEmpty)) (\<lambda>_.
                  ret (read_only [(''operation'', oget i ''operation''), (''fieldKey'', JStr key),
                    (''value'', JNum (aggregate (oget i ''operation'') vs)),
                    (''valueCount'', jint (int (length vs))), (''deterministic'', JBool True)])))))))))"

definition tables :: "js_env \<Rightarrow> ctx \<Rightarrow> string \<Rightarrow> obj \<Rightarrow> string \<Rightarrow> body eng" where
  "tables E c a i ts =
     (if a = ''base-create'' then base_create E c i ts
      else if a = ''field-add'' then field_add E c i ts
      else if a = ''row-create'' then row_create E c i ts
      else if a = ''row-update'' then row_update E c i ts
      else if a = ''view-create'' then view_create E c i ts
      else if a = ''import-preview'' then import_preview E c i ts
      else if a = ''import-apply'' then import_apply E c i ts
      else if a = ''formula-evaluate'' then formula_evaluate E c i ts
      else throw (RuleErr (Unsupported a)))"

section \<open>Meetings\<close>

definition meeting_boundary :: "js_env \<Rightarrow> ctx \<Rightarrow> brecord \<Rightarrow> obj eng" where
  "meeting_boundary E c meeting =
     (let privacy = oget (b_data meeting) ''privacy''; created_by = oget (b_data meeting) ''createdBy''
      in bnd (guard (to_str E privacy \<in> {''workspace'', ''confidential'', ''restricted''}
                \<and> is_str created_by \<and> truthy created_by) (RuleErr (BoundaryUntrusted ''meeting''))) (\<lambda>_.
         bnd (active_membership_refs E c ''meetings'' ''meeting-participant'' ''meetingId'' (b_id meeting)
                ''userRef'' None True) (\<lambda>refs.
         bnd (guard (\<not> (privacy \<noteq> JStr ''workspace'' \<and> role_below (c_role c) Admin
                \<and> created_by \<noteq> JStr (c_actor c) \<and> c_actor c \<notin> set refs))
                (RuleErr (BoundaryDenied ''meeting''))) (\<lambda>_.
         ret [(''meetingPrivacy'', privacy), (''meetingCreatedBy'', created_by),
              (''meetingParticipantUserRefs'', JArr (map JStr refs))]))))"

definition owned_meeting :: "js_env \<Rightarrow> ctx \<Rightarrow> json \<Rightarrow> brecord eng" where
  "owned_meeting E c v = owned E c v (Some ''meetings'') (Some ''meeting'')"

definition meeting_create :: "js_env \<Rightarrow> ctx \<Rightarrow> obj \<Rightarrow> string \<Rightarrow> body eng" where
  "meeting_create E c i ts =
     one_record (create E c ''meetings'' ''meeting'' (to_str E (oget i ''title'')) ''scheduled''
       [(''purpose'', oget i ''purpose''), (''startsAt'', oget i ''startsAt''), (''privacy'', oget i ''privacy''),
        (''createdBy'', JStr (c_actor c)), (''participantUserRefs'', JArr [])] ts)"

definition participant_add :: "js_env \<Rightarrow> ctx \<Rightarrow> obj \<Rightarrow> string \<Rightarrow> body eng" where
  "participant_add E c i ts =
     bnd (owned_meeting E c (oget i ''meetingId'')) (\<lambda>meeting.
     bnd (meeting_boundary E c meeting) (\<lambda>boundary.
     let user_ref = (case oget i ''userRef'' of JStr u \<Rightarrow> if trim u \<noteq> [] then Some u else None | _ \<Rightarrow> None)
     in bnd (case user_ref of None \<Rightarrow> ret ()
             | Some u \<Rightarrow> bnd (lift_e (workspace_member c (JStr u) ''userRef'')) (\<lambda>_. ret ())) (\<lambda>_.
        bnd (active_membership_refs E c ''meetings'' ''meeting-participant'' ''meetingId'' (b_id meeting)
               ''userRef'' user_ref True) (\<lambda>refs.
        let visibility = oset ''meetingParticipantUserRefs'' (JArr (map JStr refs)) boundary
        in bnd (synchronize_membership E meeting ''participantUserRefs'' ''meetingParticipantUserRefs''
                  ''meetingId'' refs ts) (\<lambda>updated.
           bnd (create E c ''meetings'' ''meeting-participant'' (to_str E (oget i ''displayName'')) ''active''
                  ([(''meetingId'', JStr (b_id meeting))] @ visibility @
                   [(''role'', oget i ''role''),
                    (''userRef'', case user_ref of None \<Rightarrow> JNull | Some u \<Rightarrow> JStr u)]) ts) (\<lambda>participant.
           ret (command [participant, updated])))))))"

definition transcript_append :: "js_env \<Rightarrow> ctx \<Rightarrow> obj \<Rightarrow> string \<Rightarrow> body eng" where
  "transcript_append E c i ts =
     bnd (owned_meeting E c (oget i ''meetingId'')) (\<lambda>meeting.
     bnd (meeting_boundary E c meeting) (\<lambda>boundary.
     bnd (guard (\<not> num_le (to_num E (oget i ''endMs'')) (to_num E (oget i ''startMs'')))
            (RuleErr TranscriptOrder)) (\<lambda>_.
     let speaker = (case oget i ''speaker'' of
                      JStr u \<Rightarrow> if map_of (c_members c) u \<noteq> None then [(''speakerRef'', JStr u)] else []
                    | _ \<Rightarrow> [])
     in one_record (create E c ''meetings'' ''transcript-segment''
          (to_str E (oget i ''speaker'') @ '' '' @ to_str E (oget i ''startMs'') @ ''-'' @ to_str E (oget i ''endMs''))
          ''captured''
          ([(''meetingId'', JStr (b_id meeting))] @ boundary @ [(''speaker'', oget i ''speaker'')] @ speaker @
           [(''recordedBy'', JStr (c_actor c)), (''startMs'', oget i ''startMs''), (''endMs'', oget i ''endMs''),
            (''text'', oget i ''text''), (''source'', oget i ''source''), (''redacted'', JBool False)]) ts))))"

definition decision_record :: "js_env \<Rightarrow> ctx \<Rightarrow> obj \<Rightarrow> string \<Rightarrow> body eng" where
  "decision_record E c i ts =
     bnd (owned_meeting E c (oget i ''meetingId'')) (\<lambda>meeting.
     bnd (meeting_boundary E c meeting) (\<lambda>boundary.
     bnd (lift_e (workspace_member c (oget i ''ownerRef'') ''ownerRef'')) (\<lambda>_.
     bnd (evidence_of E c (oget i ''evidenceIds'')) (\<lambda>evs.
     one_record (create E c ''meetings'' ''meeting-decision'' (take 160 (to_str E (oget i ''decision'')))
       ''decided''
       ([(''meetingId'', JStr (b_id meeting))] @ boundary @
        [(''decision'', oget i ''decision''), (''ownerRef'', oget i ''ownerRef''),
         (''evidenceBindings'', bindings3 evs), (''recordedBy'', JStr (c_actor c))]) ts)))))"

definition action_item_create :: "js_env \<Rightarrow> ctx \<Rightarrow> obj \<Rightarrow> string \<Rightarrow> body eng" where
  "action_item_create E c i ts =
     bnd (owned_meeting E c (oget i ''meetingId'')) (\<lambda>meeting.
     bnd (meeting_boundary E c meeting) (\<lambda>boundary.
     bnd (lift_e (workspace_member c (oget i ''ownerRef'') ''ownerRef'')) (\<lambda>_.
     bnd (evidence_of E c (oget i ''evidenceIds'')) (\<lambda>evs.
     one_record (create E c ''meetings'' ''meeting-action-item'' (to_str E (oget i ''title'')) ''open''
       ([(''meetingId'', JStr (b_id meeting))] @ boundary @
        [(''ownerRef'', oget i ''ownerRef''), (''createdBy'', JStr (c_actor c)), (''dueAt'', oget i ''dueAt''),
         (''evidenceBindings'', bindings3 evs)]) ts)))))"

definition transcript_redact :: "js_env \<Rightarrow> ctx \<Rightarrow> obj \<Rightarrow> string \<Rightarrow> body eng" where
  "transcript_redact E c i ts =
     bnd (owned E c (oget i ''segmentId'') (Some ''meetings'') (Some ''transcript-segment'')) (\<lambda>segment.
     bnd (owned_meeting E c (oget (b_data segment) ''meetingId'')) (\<lambda>meeting.
     bnd (meeting_boundary E c meeting) (\<lambda>boundary.
     bnd (assert_expected_version segment (oget i ''expectedVersion'')) (\<lambda>_.
     one_record (update E segment None (Some ''redacted'')
       (Some (spread (b_data segment) (boundary @
          [(''text'', JNull), (''redacted'', JBool True), (''redactedBy'', JStr (c_actor c)),
           (''redactedAt'', JStr ts), (''redactionReason'', oget i ''reason'')]))) ts)))))"

definition meeting_export :: "js_env \<Rightarrow> ctx \<Rightarrow> obj \<Rightarrow> string \<Rightarrow> body eng" where
  "meeting_export E c i ts =
     bnd (owned_meeting E c (oget i ''meetingId'')) (\<lambda>meeting.
     bnd (meeting_boundary E c meeting) (\<lambda>boundary.
     bnd (reads (list_records E c (Some ''meetings'') None None)) (\<lambda>all.
     let included = filter (\<lambda>r. oget i ''includeTranscript'' = JBool True \<or> b_type r \<noteq> ''transcript-segment'')
           (filter (\<lambda>r. b_id r = b_id meeting \<or> oget (b_data r) ''meetingId'' = JStr (b_id meeting)) all);
         bindings = JArr (map binding3 included)
     in bnd (digest_act E bindings) (\<lambda>h.
        one_record (create E c ''meetings'' ''meeting-export'' (b_title meeting @ '' export'') ''immutable''
          ([(''meetingId'', JStr (b_id meeting))] @ boundary @
           [(''exportedBy'', JStr (c_actor c)), (''format'', oget i ''format''),
            (''includeTranscript'', oget i ''includeTranscript''), (''bindings'', bindings),
            (''exportHash'', JStr h)]) ts)))))"

definition meetings :: "js_env \<Rightarrow> ctx \<Rightarrow> string \<Rightarrow> obj \<Rightarrow> string \<Rightarrow> body eng" where
  "meetings E c a i ts =
     (if a = ''meeting-create'' then meeting_create E c i ts
      else if a = ''participant-add'' then participant_add E c i ts
      else if a = ''transcript-append'' then transcript_append E c i ts
      else if a = ''decision-record'' then decision_record E c i ts
      else if a = ''action-item-create'' then action_item_create E c i ts
      else if a = ''transcript-redact'' then transcript_redact E c i ts
      else if a = ''meeting-export'' then meeting_export E c i ts
      else throw (RuleErr (Unsupported a)))"

section \<open>Insights\<close>

definition validate_observations :: "js_env \<Rightarrow> json \<Rightarrow> obj list eng" where
  "validate_observations E v =
     bnd (schema_act (as_objects v)) (\<lambda>obs.
     bnd (guard (obs \<noteq> []) (RuleErr ObservationEmpty)) (\<lambda>_.
     bnd (each (\<lambda>(n, ob).
            bnd (guard (valid_date_time E (oget ob ''observedAt'')
                   \<and> (case oget ob ''value'' of JNum x \<Rightarrow> is_finite x | _ \<Rightarrow> False))
                   (RuleErr (ObservationInvalid n))) (\<lambda>_.
            schema_act (as_object (or_else (oget ob ''dimensions'') (JObj [])))))
          (zip [0..<length obs] obs)) (\<lambda>_. ret obs)))"

definition source_register :: "js_env \<Rightarrow> ctx \<Rightarrow> obj \<Rightarrow> string \<Rightarrow> body eng" where
  "source_register E c i ts =
     bnd (lift_e (workspace_member c (oget i ''ownerRef'') ''ownerRef'')) (\<lambda>_.
     one_record (create E c ''insights'' ''insight-source'' (to_str E (oget i ''name'')) ''active''
       [(''kind'', oget i ''kind''), (''ownerRef'', oget i ''ownerRef''),
        (''refreshCadence'', oget i ''refreshCadence''), (''credentialStored'', JBool False)] ts))"

definition owned_metric :: "js_env \<Rightarrow> ctx \<Rightarrow> json \<Rightarrow> brecord eng" where
  "owned_metric E c v = owned E c v (Some ''insights'') (Some ''insight-metric'')"

definition owned_dashboard :: "js_env \<Rightarrow> ctx \<Rightarrow> json \<Rightarrow> brecord eng" where
  "owned_dashboard E c v = owned E c v (Some ''insights'') (Some ''insight-dashboard'')"

definition metric_define :: "js_env \<Rightarrow> ctx \<Rightarrow> obj \<Rightarrow> string \<Rightarrow> body eng" where
  "metric_define E c i ts =
     bnd (owned E c (oget i ''sourceId'') (Some ''insights'') (Some ''insight-source'')) (\<lambda>source.
     bnd (reads (list_records E c (Some ''insights'') (Some ''insight-metric'') None)) (\<lambda>metrics.
     bnd (guard (\<not> (\<exists>r \<in> set metrics. strict_eq (oget (b_data r) ''key'') (oget i ''key'')))
            (RuleErr (KeyTaken ''metric''))) (\<lambda>_.
     one_record (create E c ''insights'' ''insight-metric'' (to_str E (oget i ''name'')) ''active''
       [(''sourceId'', JStr (b_id source)), (''key'', oget i ''key''), (''unit'', oget i ''unit''),
        (''aggregation'', oget i ''aggregation'')] ts))))"

definition observation_import :: "js_env \<Rightarrow> ctx \<Rightarrow> obj \<Rightarrow> string \<Rightarrow> body eng" where
  "observation_import E c i ts =
     bnd (owned_metric E c (oget i ''metricId'')) (\<lambda>metric.
     bnd (validate_observations E (oget i ''observations'')) (\<lambda>obs.
     bnd (each (\<lambda>ob. create E c ''insights'' ''metric-observation''
            (b_title metric @ '' at '' @ to_str E (oget ob ''observedAt'')) ''observed''
            [(''metricId'', JStr (b_id metric)), (''observedAt'', oget ob ''observedAt''),
             (''value'', oget ob ''value''), (''dimensions'', or_else (oget ob ''dimensions'') (JObj [])),
             (''sourceRevision'', oget i ''sourceRevision''), (''importedBy'', JStr (c_actor c))] ts) obs) (\<lambda>rs.
     ret (command rs))))"

definition dashboard_create :: "js_env \<Rightarrow> ctx \<Rightarrow> obj \<Rightarrow> string \<Rightarrow> body eng" where
  "dashboard_create E c i ts =
     one_record (create E c ''insights'' ''insight-dashboard'' (to_str E (oget i ''name'')) ''active''
       [(''purpose'', oget i ''purpose''), (''audience'', oget i ''audience'')] ts)"

definition chart_add :: "js_env \<Rightarrow> ctx \<Rightarrow> obj \<Rightarrow> string \<Rightarrow> body eng" where
  "chart_add E c i ts =
     bnd (owned_dashboard E c (oget i ''dashboardId'')) (\<lambda>dashboard.
     bnd (owned_metric E c (oget i ''metricId'')) (\<lambda>metric.
     one_record (create E c ''insights'' ''insight-chart''
       (b_title metric @ '' '' @ to_str E (oget i ''visualization'')) ''active''
       [(''dashboardId'', JStr (b_id dashboard)), (''metricId'', JStr (b_id metric)),
        (''visualization'', oget i ''visualization''), (''window'', oget i ''window'')] ts)))"

definition alert_rule_create :: "js_env \<Rightarrow> ctx \<Rightarrow> obj \<Rightarrow> string \<Rightarrow> body eng" where
  "alert_rule_create E c i ts =
     bnd (owned_metric E c (oget i ''metricId'')) (\<lambda>metric.
     one_record (create E c ''insights'' ''insight-alert-rule''
       (b_title metric @ '' '' @ to_str E (oget i ''operator'') @ '' '' @ to_str E (oget i ''threshold'')) ''inert''
       [(''metricId'', JStr (b_id metric)), (''operator'', oget i ''operator''),
        (''threshold'', oget i ''threshold''), (''cooldownMinutes'', oget i ''cooldownMinutes''),
        (''deliveryConfigured'', JBool False)] ts))"

definition snapshot_freeze :: "js_env \<Rightarrow> ctx \<Rightarrow> obj \<Rightarrow> string \<Rightarrow> body eng" where
  "snapshot_freeze E c i ts =
     bnd (owned_dashboard E c (oget i ''dashboardId'')) (\<lambda>dashboard.
     bnd (evidence_of E c (oget i ''evidenceIds'')) (\<lambda>evs.
     let bindings = bindings5 evs
     in bnd (digest_act E (JObj [(''dashboardId'', JStr (b_id dashboard)), (''asOf'', oget i ''asOf''),
               (''bindings'', bindings)])) (\<lambda>h.
        one_record (create E c ''insights'' ''insight-snapshot''
          (b_title dashboard @ '' '' @ to_str E (oget i ''asOf'')) ''immutable''
          [(''dashboardId'', JStr (b_id dashboard)), (''asOf'', oget i ''asOf''), (''bindings'', bindings),
           (''snapshotHash'', JStr h)] ts))))"

definition insights :: "js_env \<Rightarrow> ctx \<Rightarrow> string \<Rightarrow> obj \<Rightarrow> string \<Rightarrow> body eng" where
  "insights E c a i ts =
     (if a = ''source-register'' then source_register E c i ts
      else if a = ''metric-define'' then metric_define E c i ts
      else if a = ''observation-import'' then observation_import E c i ts
      else if a = ''dashboard-create'' then dashboard_create E c i ts
      else if a = ''chart-add'' then chart_add E c i ts
      else if a = ''alert-rule-create'' then alert_rule_create E c i ts
      else if a = ''snapshot-freeze'' then snapshot_freeze E c i ts
      else throw (RuleErr (Unsupported a)))"

section \<open>Learning\<close>

definition owned_course :: "js_env \<Rightarrow> ctx \<Rightarrow> json \<Rightarrow> brecord eng" where
  "owned_course E c v = owned E c v (Some ''learning'') (Some ''learning-course'')"

definition owned_enrollment :: "js_env \<Rightarrow> ctx \<Rightarrow> json \<Rightarrow> brecord eng" where
  "owned_enrollment E c v = owned E c v (Some ''learning'') (Some ''learning-enrollment'')"

definition course_boundary :: "js_env \<Rightarrow> ctx \<Rightarrow> brecord \<Rightarrow> bool \<Rightarrow> json \<Rightarrow> obj eng" where
  "course_boundary E c course learner_owned learner_ref =
     (let visibility = oget (b_data course) ''visibility''; created_by = oget (b_data course) ''createdBy''
      in bnd (guard (to_str E visibility \<in> {''private'', ''workspace'', ''public-catalog''}
                \<and> is_str created_by \<and> truthy created_by) (RuleErr (BoundaryUntrusted ''course''))) (\<lambda>_.
         bnd (active_membership_refs E c ''learning'' ''learning-enrollment'' ''courseId'' (b_id course)
                ''learnerRef'' None False) (\<lambda>refs.
         bnd (guard (\<not> (visibility = JStr ''private'' \<and> role_below (c_role c) Admin
                \<and> created_by \<noteq> JStr (c_actor c)
                \<and> (\<not> learner_owned \<or> learner_ref \<noteq> JStr (c_actor c))))
                (RuleErr (BoundaryDenied ''course''))) (\<lambda>_.
         ret [(''courseVisibility'', visibility), (''courseCreatedBy'', created_by),
              (''courseLearnerRefs'', JArr (map JStr refs))]))))"

record eligibility =
  el_facts :: obj
  el_hash :: string
  el_eligible :: bool
  el_enrollment :: string

definition eligibility_facts :: "brecord \<Rightarrow> brecord \<Rightarrow> brecord \<Rightarrow> brecord \<Rightarrow> obj \<Rightarrow> bool \<Rightarrow> obj" where
  "eligibility_facts course enrollment attempt rubric boundary eligible =
     [(''courseId'', JStr (b_id course)), (''courseVersion'', jint (b_version course))] @ boundary @
     [(''learnerRef'', oget (b_data enrollment) ''learnerRef''),
      (''enrollmentId'', JStr (b_id enrollment)), (''enrollmentVersion'', jint (b_version enrollment)),
      (''attemptId'', JStr (b_id attempt)), (''attemptVersion'', jint (b_version attempt)),
      (''rubricId'', JStr (b_id rubric)), (''rubricVersion'', jint (b_version rubric)),
      (''score'', oget (b_data attempt) ''score''),
      (''passingScore'', oget (b_data rubric) ''passingScore''), (''eligible'', JBool eligible)]"

definition reaches_passing_score :: "js_env \<Rightarrow> brecord \<Rightarrow> brecord \<Rightarrow> bool" where
  "reaches_passing_score E attempt rubric =
     num_le (to_num E (oget (b_data rubric) ''passingScore'')) (to_num E (oget (b_data attempt) ''score''))"

definition credential_eligibility :: "js_env \<Rightarrow> ctx \<Rightarrow> string \<Rightarrow> string \<Rightarrow> eligibility eng" where
  "credential_eligibility E c enrollment_id attempt_id =
     bnd (owned_enrollment E c (JStr enrollment_id)) (\<lambda>enrollment.
     bnd (owned_course E c (oget (b_data enrollment) ''courseId'')) (\<lambda>course.
     bnd (course_boundary E c course True (oget (b_data enrollment) ''learnerRef'')) (\<lambda>boundary.
     bnd (owned E c (JStr attempt_id) (Some ''learning'') (Some ''learning-attempt'')) (\<lambda>attempt.
     bnd (guard (oget (b_data attempt) ''enrollmentId'' = JStr (b_id enrollment)) (RuleErr AttemptMismatch)) (\<lambda>_.
     bnd (owned E c (oget (b_data attempt) ''rubricId'') (Some ''learning'') (Some ''learning-rubric'')) (\<lambda>rubric.
     let eligible = reaches_passing_score E attempt rubric;
         facts = eligibility_facts course enrollment attempt rubric boundary eligible
     in bnd (digest_act E (JObj ([(''version'', JStr ''learning-forge-credential.v1'')] @ facts))) (\<lambda>h.
        ret \<lparr>el_facts = facts @ [(''previewHash'', JStr h)], el_hash = h, el_eligible = eligible,
             el_enrollment = b_id enrollment\<rparr>)))))))"

definition course_create :: "js_env \<Rightarrow> ctx \<Rightarrow> obj \<Rightarrow> string \<Rightarrow> body eng" where
  "course_create E c i ts =
     one_record (create E c ''learning'' ''learning-course'' (to_str E (oget i ''title'')) ''draft''
       [(''audience'', oget i ''audience''), (''outcome'', oget i ''outcome''),
        (''visibility'', oget i ''visibility''), (''createdBy'', JStr (c_actor c)), (''learnerRefs'', JArr [])] ts)"

definition lesson_binding :: "brecord \<Rightarrow> json" where
  "lesson_binding r = JObj [(''recordId'', JStr (b_id r)), (''moduleId'', JStr (b_module r)),
     (''version'', jint (b_version r)), (''contentHash'', JStr (b_hash r))]"

definition lesson_create :: "js_env \<Rightarrow> ctx \<Rightarrow> obj \<Rightarrow> string \<Rightarrow> body eng" where
  "lesson_create E c i ts =
     bnd (owned_course E c (oget i ''courseId'')) (\<lambda>course.
     bnd (course_boundary E c course False JUndef) (\<lambda>boundary.
     bnd (evidence_of E c (oget i ''sourceRecordIds'')) (\<lambda>evs.
     bnd (reads (list_records E c (Some ''learning'') (Some ''learning-lesson'') None)) (\<lambda>lessons.
     bnd (guard (\<not> (\<exists>r \<in> set lessons. oget (b_data r) ''courseId'' = JStr (b_id course)
              \<and> strict_eq (oget (b_data r) ''position'') (oget i ''position''))) (RuleErr PositionTaken)) (\<lambda>_.
     one_record (create E c ''learning'' ''learning-lesson'' (to_str E (oget i ''title'')) ''draft''
       ([(''courseId'', JStr (b_id course))] @ boundary @
        [(''content'', oget i ''content''), (''position'', oget i ''position''),
         (''sourceBindings'', JArr (map (lesson_binding \<circ> ev_record) evs))]) ts))))))"

definition learner_enroll :: "js_env \<Rightarrow> ctx \<Rightarrow> obj \<Rightarrow> string \<Rightarrow> body eng" where
  "learner_enroll E c i ts =
     bnd (owned_course E c (oget i ''courseId'')) (\<lambda>course.
     bnd (course_boundary E c course False JUndef) (\<lambda>boundary.
     bnd (lift_e (workspace_member c (oget i ''learnerRef'') ''learnerRef'')) (\<lambda>_.
     bnd (reads (list_records E c (Some ''learning'') (Some ''learning-enrollment'') None)) (\<lambda>enrollments.
     bnd (guard (\<not> (\<exists>r \<in> set enrollments. oget (b_data r) ''courseId'' = JStr (b_id course)
              \<and> strict_eq (oget (b_data r) ''learnerRef'') (oget i ''learnerRef'') \<and> b_state r = ''active''))
              (RuleErr AlreadyEnrolled)) (\<lambda>_.
     bnd (active_membership_refs E c ''learning'' ''learning-enrollment'' ''courseId'' (b_id course)
            ''learnerRef'' (Some (to_str E (oget i ''learnerRef''))) False) (\<lambda>refs.
     let visibility = oset ''courseLearnerRefs'' (JArr (map JStr refs)) boundary
     in bnd (synchronize_membership E course ''learnerRefs'' ''courseLearnerRefs'' ''courseId'' refs ts) (\<lambda>updated.
        bnd (create E c ''learning'' ''learning-enrollment''
               (b_title course @ '': '' @ to_str E (oget i ''learnerRef'')) ''active''
               ([(''courseId'', JStr (b_id course))] @ visibility @
                [(''learnerRef'', oget i ''learnerRef''), (''reason'', oget i ''reason''),
                 (''enrolledBy'', JStr (c_actor c))]) ts) (\<lambda>enrollment.
        ret (command [enrollment, updated])))))))))"

definition bad_criterion :: "obj \<Rightarrow> bool" where
  "bad_criterion cr \<longleftrightarrow>
     (case oget cr ''key'' of JStr k \<Rightarrow> trim k = [] | _ \<Rightarrow> True)
     \<or> (case oget cr ''weight'' of JNum w \<Rightarrow> \<not> is_finite w \<or> num_le w (Fin 0) | _ \<Rightarrow> True)"

definition rubric_create :: "js_env \<Rightarrow> ctx \<Rightarrow> obj \<Rightarrow> string \<Rightarrow> body eng" where
  "rubric_create E c i ts =
     bnd (owned_course E c (oget i ''courseId'')) (\<lambda>course.
     bnd (course_boundary E c course False JUndef) (\<lambda>boundary.
     bnd (schema_act (as_objects (oget i ''criteria''))) (\<lambda>criteria.
     bnd (guard (criteria \<noteq> [] \<and> \<not> (\<exists>cr \<in> set criteria. bad_criterion cr)) (RuleErr CriteriaInvalid)) (\<lambda>_.
     bnd (guard (length (uniq (map (\<lambda>cr. oget cr ''key'') criteria)) = length criteria)
            (RuleErr CriteriaDuplicate)) (\<lambda>_.
     one_record (create E c ''learning'' ''learning-rubric'' (to_str E (oget i ''name'')) ''active''
       ([(''courseId'', JStr (b_id course))] @ boundary @
        [(''criteria'', JArr (map JObj criteria)), (''passingScore'', oget i ''passingScore'')]) ts))))))"

definition attempt_record :: "js_env \<Rightarrow> ctx \<Rightarrow> obj \<Rightarrow> string \<Rightarrow> body eng" where
  "attempt_record E c i ts =
     bnd (owned_enrollment E c (oget i ''enrollmentId'')) (\<lambda>enrollment.
     bnd (owned E c (oget i ''rubricId'') (Some ''learning'') (Some ''learning-rubric'')) (\<lambda>rubric.
     bnd (guard (strict_eq (oget (b_data rubric) ''courseId'') (oget (b_data enrollment) ''courseId''))
            (RuleErr CourseMismatch)) (\<lambda>_.
     bnd (owned_course E c (oget (b_data enrollment) ''courseId'')) (\<lambda>course.
     bnd (course_boundary E c course True (oget (b_data enrollment) ''learnerRef'')) (\<lambda>boundary.
     bnd (evidence_of E c (oget i ''evidenceIds'')) (\<lambda>evs.
     one_record (create E c ''learning'' ''learning-attempt'' (''Attempt '' @ to_str E (oget i ''score''))
       ''recorded''
       ([(''enrollmentId'', JStr (b_id enrollment)), (''rubricId'', JStr (b_id rubric)),
         (''courseId'', oget (b_data enrollment) ''courseId'')] @ boundary @
        [(''learnerRef'', oget (b_data enrollment) ''learnerRef''), (''score'', oget i ''score''),
         (''passed'', JBool (num_le (to_num E (oget (b_data rubric) ''passingScore''))
                                   (to_num E (oget i ''score'')))),
         (''evidenceBindings'', bindings3 evs), (''recordedBy'', JStr (c_actor c))]) ts)))))))"

definition credential_preview :: "js_env \<Rightarrow> ctx \<Rightarrow> obj \<Rightarrow> string \<Rightarrow> body eng" where
  "credential_preview E c i ts =
     bnd (credential_eligibility E c (to_str E (oget i ''enrollmentId'')) (to_str E (oget i ''attemptId''))) (\<lambda>el.
     ret (read_only (el_facts el)))"

definition credential_issue :: "js_env \<Rightarrow> ctx \<Rightarrow> obj \<Rightarrow> string \<Rightarrow> body eng" where
  "credential_issue E c i ts =
     bnd (credential_eligibility E c (to_str E (oget i ''enrollmentId'')) (to_str E (oget i ''attemptId''))) (\<lambda>el.
     bnd (guard (oget i ''previewHash'' = JStr (el_hash el)) (RuleErr PreviewMismatch)) (\<lambda>_.
     bnd (guard (el_eligible el) (RuleErr NotEligible)) (\<lambda>_.
     bnd (reads (list_records E c (Some ''learning'') (Some ''learning-credential'') None)) (\<lambda>creds.
     bnd (guard (\<not> (\<exists>r \<in> set creds. oget (b_data r) ''enrollmentId'' = JStr (el_enrollment el)
              \<and> b_state r = ''issued'')) (RuleErr CredentialExists)) (\<lambda>_.
     one_record (create E c ''learning'' ''learning-credential'' (''Credential '' @ el_enrollment el) ''issued''
       (el_facts el @ [(''issuedBy'', JStr (c_actor c)), (''issuedAt'', JStr ts), (''revocable'', JBool True)])
       ts))))))"

definition learning :: "js_env \<Rightarrow> ctx \<Rightarrow> string \<Rightarrow> obj \<Rightarrow> string \<Rightarrow> body eng" where
  "learning E c a i ts =
     (if a = ''course-create'' then course_create E c i ts
      else if a = ''lesson-create'' then lesson_create E c i ts
      else if a = ''learner-enroll'' then learner_enroll E c i ts
      else if a = ''rubric-create'' then rubric_create E c i ts
      else if a = ''attempt-record'' then attempt_record E c i ts
      else if a = ''credential-preview'' then credential_preview E c i ts
      else if a = ''credential-issue'' then credential_issue E c i ts
      else throw (RuleErr (Unsupported a)))"

section \<open>Community\<close>

definition owned_space :: "js_env \<Rightarrow> ctx \<Rightarrow> json \<Rightarrow> brecord eng" where
  "owned_space E c v = owned E c v (Some ''community'') (Some ''community-space'')"

definition owned_post :: "js_env \<Rightarrow> ctx \<Rightarrow> json \<Rightarrow> brecord eng" where
  "owned_post E c v = owned E c v (Some ''community'') (Some ''community-post'')"

definition community_member :: "js_env \<Rightarrow> ctx \<Rightarrow> string \<Rightarrow> json \<Rightarrow> engine \<Rightarrow> brecord option" where
  "community_member E c space_id member s =
     first_such (\<lambda>r. oget (b_data r) ''spaceId'' = JStr space_id \<and> strict_eq (oget (b_data r) ''memberRef'') member)
       (list_records E c (Some ''community'') (Some ''community-member'') (Some ''active'') s)"

definition space_boundary :: "js_env \<Rightarrow> ctx \<Rightarrow> brecord \<Rightarrow> bool \<Rightarrow> obj eng" where
  "space_boundary E c space require_active =
     (let visibility = oget (b_data space) ''visibility''; created_by = oget (b_data space) ''createdBy''
      in bnd (guard (to_str E visibility \<in> {''private'', ''workspace'', ''public''}
                \<and> is_str created_by \<and> truthy created_by) (RuleErr (BoundaryUntrusted ''space''))) (\<lambda>_.
         bnd (active_membership_refs E c ''community'' ''community-member'' ''spaceId'' (b_id space)
                ''memberRef'' None False) (\<lambda>refs.
         bnd (guard (\<not> (visibility = JStr ''private'' \<and> require_active \<and> c_actor c \<notin> set refs))
                (RuleErr (BoundaryDenied ''space''))) (\<lambda>_.
         ret [(''spaceVisibility'', visibility), (''spaceCreatedBy'', created_by),
              (''spaceMemberRefs'', JArr (map JStr refs))]))))"

definition space_create :: "js_env \<Rightarrow> ctx \<Rightarrow> obj \<Rightarrow> string \<Rightarrow> body eng" where
  "space_create E c i ts =
     bnd (reads (list_records E c (Some ''community'') (Some ''community-space'') None)) (\<lambda>spaces.
     bnd (guard (\<not> (\<exists>r \<in> set spaces. strict_eq (oget (b_data r) ''key'') (oget i ''key'')))
            (RuleErr (KeyTaken ''space''))) (\<lambda>_.
     bnd (digest_act E (oget i ''policy'')) (\<lambda>h.
     one_record (create E c ''community'' ''community-space'' (to_str E (oget i ''name'')) ''active''
       [(''key'', oget i ''key''), (''purpose'', oget i ''purpose''), (''visibility'', oget i ''visibility''),
        (''policy'', oget i ''policy''), (''policyHash'', JStr h), (''createdBy'', JStr (c_actor c)),
        (''memberRefs'', JArr [])] ts))))"

definition member_add :: "js_env \<Rightarrow> ctx \<Rightarrow> obj \<Rightarrow> string \<Rightarrow> body eng" where
  "member_add E c i ts =
     bnd (owned_space E c (oget i ''spaceId'')) (\<lambda>space.
     bnd (space_boundary E c space False) (\<lambda>boundary.
     bnd (lift_e (workspace_member c (oget i ''memberRef'') ''memberRef'')) (\<lambda>_.
     bnd (reads (community_member E c (b_id space) (oget i ''memberRef''))) (\<lambda>existing.
     bnd (guard (existing = None) (RuleErr AlreadyMember)) (\<lambda>_.
     bnd (active_membership_refs E c ''community'' ''community-member'' ''spaceId'' (b_id space)
            ''memberRef'' (Some (to_str E (oget i ''memberRef''))) False) (\<lambda>refs.
     let visibility = oset ''spaceMemberRefs'' (JArr (map JStr refs)) boundary
     in bnd (synchronize_membership E space ''memberRefs'' ''spaceMemberRefs'' ''spaceId'' refs ts) (\<lambda>updated.
        bnd (create E c ''community'' ''community-member'' (to_str E (oget i ''displayName'')) ''active''
               ([(''spaceId'', JStr (b_id space))] @ visibility @
                [(''memberRef'', oget i ''memberRef''), (''role'', JStr ''member''),
                 (''addedBy'', JStr (c_actor c))]) ts) (\<lambda>member.
        ret (command [member, updated])))))))))"

definition post_create :: "js_env \<Rightarrow> ctx \<Rightarrow> obj \<Rightarrow> string \<Rightarrow> body eng" where
  "post_create E c i ts =
     bnd (owned_space E c (oget i ''spaceId'')) (\<lambda>space.
     bnd (space_boundary E c space True) (\<lambda>boundary.
     bnd (lift_e (acting_member c (oget i ''authorRef'') ''authorRef'')) (\<lambda>_.
     bnd (reads (community_member E c (b_id space) (oget i ''authorRef''))) (\<lambda>author.
     bnd (guard (author \<noteq> None) (RuleErr AuthorNotActive)) (\<lambda>_.
     bnd (evidence_of E c (oget i ''evidenceIds'')) (\<lambda>evs.
     one_record (create E c ''community'' ''community-post'' (to_str E (oget i ''title'')) ''visible''
       ([(''spaceId'', JStr (b_id space))] @ boundary @
        [(''authorRef'', oget i ''authorRef''), (''body'', oget i ''body''),
         (''evidenceBindings'', bindings3 evs)]) ts)))))))"

definition reply_create :: "js_env \<Rightarrow> ctx \<Rightarrow> obj \<Rightarrow> string \<Rightarrow> body eng" where
  "reply_create E c i ts =
     bnd (owned_post E c (oget i ''postId'')) (\<lambda>post.
     bnd (owned_space E c (oget (b_data post) ''spaceId'')) (\<lambda>space.
     bnd (space_boundary E c space True) (\<lambda>boundary.
     bnd (lift_e (acting_member c (oget i ''authorRef'') ''authorRef'')) (\<lambda>_.
     bnd (reads (community_member E c (to_str E (oget (b_data post) ''spaceId'')) (oget i ''authorRef''))) (\<lambda>author.
     bnd (guard (author \<noteq> None) (RuleErr AuthorNotActive)) (\<lambda>_.
     bnd (evidence_of E c (oget i ''evidenceIds'')) (\<lambda>evs.
     one_record (create E c ''community'' ''community-reply'' (''Reply to '' @ b_title post) ''visible''
       ([(''postId'', JStr (b_id post)), (''spaceId'', JStr (b_id space))] @ boundary @
        [(''authorRef'', oget i ''authorRef''), (''body'', oget i ''body''),
         (''evidenceBindings'', bindings3 evs)]) ts))))))))"

definition reaction_state :: "obj \<Rightarrow> string" where
  "reaction_state i = (if oget i ''reaction'' = JStr ''withdraw'' then ''withdrawn'' else ''active'')"

definition reaction_record :: "js_env \<Rightarrow> ctx \<Rightarrow> obj \<Rightarrow> string \<Rightarrow> body eng" where
  "reaction_record E c i ts =
     bnd (owned_post E c (oget i ''postId'')) (\<lambda>post.
     bnd (owned_space E c (oget (b_data post) ''spaceId'')) (\<lambda>space.
     bnd (space_boundary E c space True) (\<lambda>boundary.
     bnd (lift_e (acting_member c (oget i ''memberRef'') ''memberRef'')) (\<lambda>_.
     bnd (reads (community_member E c (to_str E (oget (b_data post) ''spaceId'')) (oget i ''memberRef''))) (\<lambda>author.
     bnd (guard (author \<noteq> None) (RuleErr AuthorNotActive)) (\<lambda>_.
     bnd (reads (\<lambda>s. first_such (\<lambda>r. oget (b_data r) ''postId'' = JStr (b_id post)
                 \<and> strict_eq (oget (b_data r) ''memberRef'') (oget i ''memberRef''))
               (list_records E c (Some ''community'') (Some ''community-reaction'') None s))) (\<lambda>existing.
     case existing of
       Some r \<Rightarrow>
         one_record (update E r None (Some (reaction_state i))
           (Some (spread (b_data r) ([(''spaceId'', JStr (b_id space))] @ boundary @
              [(''reaction'', oget i ''reaction'')]))) ts)
     | None \<Rightarrow>
         one_record (create E c ''community'' ''community-reaction''
           (to_str E (oget i ''reaction'') @ '' on '' @ b_title post) (reaction_state i)
           ([(''postId'', JStr (b_id post)), (''spaceId'', JStr (b_id space))] @ boundary @
            [(''memberRef'', oget i ''memberRef''), (''reaction'', oget i ''reaction'')]) ts))))))))"

definition post_hide :: "js_env \<Rightarrow> ctx \<Rightarrow> obj \<Rightarrow> string \<Rightarrow> body eng" where
  "post_hide E c i ts =
     bnd (owned_post E c (oget i ''postId'')) (\<lambda>post.
     bnd (owned_space E c (oget (b_data post) ''spaceId'')) (\<lambda>space.
     bnd (space_boundary E c space True) (\<lambda>boundary.
     bnd (assert_expected_version post (oget i ''expectedVersion'')) (\<lambda>_.
     one_record (update E post None (Some ''hidden'')
       (Some (spread (b_data post) (boundary @
          [(''moderation'', JObj [(''hiddenBy'', JStr (c_actor c)), (''hiddenAt'', JStr ts),
              (''reason'', oget i ''reason'')]), (''bodyPreserved'', JBool True)]))) ts)))))"

definition member_role_set :: "js_env \<Rightarrow> ctx \<Rightarrow> obj \<Rightarrow> string \<Rightarrow> body eng" where
  "member_role_set E c i ts =
     bnd (owned E c (oget i ''memberId'') (Some ''community'') (Some ''community-member'')) (\<lambda>member.
     bnd (owned_space E c (oget (b_data member) ''spaceId'')) (\<lambda>space.
     bnd (space_boundary E c space False) (\<lambda>boundary.
     bnd (lift_e (workspace_member c (oget (b_data member) ''memberRef'') ''community memberRef'')) (\<lambda>_.
     bnd (assert_expected_version member (oget i ''expectedVersion'')) (\<lambda>_.
     one_record (update E member None None
       (Some (spread (b_data member) (boundary @
          [(''role'', oget i ''role''), (''roleChangedBy'', JStr (c_actor c)),
           (''roleChangeReason'', oget i ''reason'')]))) ts))))))"

definition announcement_publish :: "js_env \<Rightarrow> ctx \<Rightarrow> obj \<Rightarrow> string \<Rightarrow> body eng" where
  "announcement_publish E c i ts =
     bnd (owned_space E c (oget i ''spaceId'')) (\<lambda>space.
     bnd (space_boundary E c space True) (\<lambda>boundary.
     bnd (evidence_of E c (oget i ''evidenceIds'')) (\<lambda>evs.
     bnd (digest_act E (JObj [(''title'', oget i ''title''), (''body'', oget i ''body'')])) (\<lambda>h.
     one_record (create E c ''community'' ''community-announcement'' (to_str E (oget i ''title'')) ''published''
       ([(''spaceId'', JStr (b_id space))] @ boundary @
        [(''body'', oget i ''body''), (''exactCopyHash'', JStr h), (''evidenceBindings'', bindings3 evs),
         (''publishedBy'', JStr (c_actor c)), (''publishedAt'', JStr ts), (''modelAuthored'', JBool False)])
       ts)))))"

definition community :: "js_env \<Rightarrow> ctx \<Rightarrow> string \<Rightarrow> obj \<Rightarrow> string \<Rightarrow> body eng" where
  "community E c a i ts =
     (if a = ''space-create'' then space_create E c i ts
      else if a = ''member-add'' then member_add E c i ts
      else if a = ''post-create'' then post_create E c i ts
      else if a = ''reply-create'' then reply_create E c i ts
      else if a = ''reaction-record'' then reaction_record E c i ts
      else if a = ''post-hide'' then post_hide E c i ts
      else if a = ''member-role-set'' then member_role_set E c i ts
      else if a = ''announcement-publish'' then announcement_publish E c i ts
      else throw (RuleErr (Unsupported a)))"

section \<open>Dispatch\<close>

definition dispatch :: "js_env \<Rightarrow> ctx \<Rightarrow> action \<Rightarrow> obj \<Rightarrow> string \<Rightarrow> body eng" where
  "dispatch E c a i ts =
     (if a_module a = ''tables'' then tables E c (a_id a) i ts
      else if a_module a = ''meetings'' then meetings E c (a_id a) i ts
      else if a_module a = ''insights'' then insights E c (a_id a) i ts
      else if a_module a = ''learning'' then learning E c (a_id a) i ts
      else community E c (a_id a) i ts)"

end
