(* ===== verification/Additive_Engine.thy ===== *)
theory Additive_Engine
  imports Additive_Handlers
begin

text \<open>
  The pipeline of \<open>AdditiveBusinessEngine\<close>: dry-run previews, grounded AI proposals, and
  \<open>execute\<close>, which runs the guards, replays a command already committed under the same
  idempotency key, checks the human approval, evaluates the action and records the audit receipt.
\<close>

section \<open>Proposals\<close>

fun first_defined :: "json list \<Rightarrow> json" where
  "first_defined [] = JUndef"
| "first_defined [v] = v"
| "first_defined (v # vs) = (if nullish v then first_defined vs else v)"

definition dedup_by_id :: "brecord list \<Rightarrow> brecord list" where
  "dedup_by_id rs = jvals (fold (\<lambda>r. jset (b_id r) r) rs [])"

definition proposal_target_fields :: "string list" where
  "proposal_target_fields = [''baseId'', ''meetingId'', ''metricId'', ''snapshotId'', ''attemptId'',
     ''enrollmentId'', ''targetRecordId'', ''spaceId'']"

definition proposal_binding :: "js_env \<Rightarrow> ctx \<Rightarrow> action \<Rightarrow> obj \<Rightarrow> (brecord \<times> brecord list) eng" where
  "proposal_binding E c a i =
     bnd (owned E c (first_defined (map (oget i) proposal_target_fields)) None None) (\<lambda>target.
     bnd (if a_module a = ''community''
          then bnd (owned_space E c (oget i ''spaceId'')) (\<lambda>space.
                 guard (b_id target = b_id space \<or> oget (b_data target) ''spaceId'' = JStr (b_id space))
                   (RuleErr TargetOutsideSpace))
          else ret ()) (\<lambda>_.
     bnd (evidence_of E c (oget i ''evidenceIds'')) (\<lambda>evs.
     ret (target, dedup_by_id (target # map ev_record evs)))))"

definition proposal_boundary :: "js_env \<Rightarrow> ctx \<Rightarrow> brecord \<Rightarrow> obj eng" where
  "proposal_boundary E c target =
     (if b_module target = ''meetings'' then
        bnd (if b_type target = ''meeting'' then ret target
             else owned_meeting E c (oget (b_data target) ''meetingId'')) (meeting_boundary E c)
      else if b_module target = ''learning'' then
        bnd (if b_type target = ''learning-enrollment'' then ret (Some target)
             else if b_type target = ''learning-attempt''
             then bnd (owned_enrollment E c (oget (b_data target) ''enrollmentId'')) (\<lambda>r. ret (Some r))
             else ret None) (\<lambda>enrollment.
        let course_id = (if b_type target = ''learning-course'' then JStr (b_id target)
              else or_else (case enrollment of None \<Rightarrow> JUndef | Some r \<Rightarrow> oget (b_data r) ''courseId'')
                     (oget (b_data target) ''courseId''));
            learner = (case enrollment of None \<Rightarrow> JUndef | Some r \<Rightarrow> oget (b_data r) ''learnerRef'')
        in bnd (owned_course E c course_id) (\<lambda>course.
           bnd (course_boundary E c course (enrollment \<noteq> None) learner) (\<lambda>boundary.
           ret (boundary @ (if enrollment = None then [] else [(''learnerRef'', learner)])))))
      else if b_module target = ''community'' then
        bnd (if b_type target = ''community-space'' then ret target
             else owned_space E c (oget (b_data target) ''spaceId'')) (\<lambda>space. space_boundary E c space True)
      else ret [])"

definition proposal_goal :: "js_env \<Rightarrow> action \<Rightarrow> obj \<Rightarrow> string" where
  "proposal_goal E a i = to_str E (first_defined [oget i ''goal'', oget i ''question'',
     JStr (''Prepare a cited '' @ lower (a_title a) @ '' for ''
       @ to_str E (or_else (oget i ''audience'') (JStr ''human review'')) @ ''.'')])"

definition prompt_invariant :: string where
  "prompt_invariant = ''Evidence-bound proposals only. Never apply a mutation, send, publish, moderate, score, credential, or alter records.''"

definition prompt_json :: "action \<Rightarrow> obj" where
  "prompt_json a = (case a_prompt a of
     None \<Rightarrow> [(''id'', JUndef), (''version'', JUndef)]
   | Some (p, v) \<Rightarrow> [(''id'', JStr p), (''version'', JStr v)])"

definition proposal_data ::
  "js_env \<Rightarrow> ctx \<Rightarrow> action \<Rightarrow> obj \<Rightarrow> string \<Rightarrow> brecord \<Rightarrow> brecord list \<Rightarrow> obj \<Rightarrow> string \<Rightarrow> obj" where
  "proposal_data E c a i model target bound boundary h =
     [(''proposalKind'', JStr (a_id a)), (''targetRecordId'', JStr (b_id target))] @ boundary @
     [(''goal'', JStr (proposal_goal E a i)), (''modelPolicyId'', JStr model), (''requestedModelId'', JStr model),
      (''prompt'', JObj (prompt_json a @ [(''digest'', JStr h)])),
      (''evidenceBindings'', JArr (map binding5 bound)),
      (''evidenceIds'', JArr (map (JStr \<circ> b_id) bound)), (''output'', JNull), (''confidence'', JNull),
      (''assumptions'', JArr []),
      (''review'', JObj [(''status'', JStr ''pending-model''), (''required'', JBool True),
         (''reviewedBy'', JNull), (''reviewedAt'', JNull)]),
      (''proposalOnly'', JBool True), (''automaticMutationAllowed'', JBool False),
      (''applyActionId'', JNull), (''modelExecuted'', JBool False),
      (''fabricatedOutputAllowed'', JBool False), (''queuedBy'', JStr (c_actor c))]"

definition queue_grounded_proposal ::
  "js_env \<Rightarrow> ctx \<Rightarrow> action \<Rightarrow> obj \<Rightarrow> string \<Rightarrow> string \<Rightarrow> body eng" where
  "queue_grounded_proposal E c a i model ts =
     bnd (proposal_binding E c a i) (\<lambda>(target, bound).
     bnd (proposal_boundary E c target) (\<lambda>boundary.
     bnd (digest_act E (JObj (prompt_json a @ [(''invariant'', JStr prompt_invariant)]))) (\<lambda>h.
     bnd (create E c (a_module a) ''ai-proposal-request'' (a_title a) ''queued''
            (proposal_data E c a i model target bound boundary h) ts) (\<lambda>r.
     ret \<lparr>o_kind = KProposal, o_records = [r],
          o_preview = Some [(''requestId'', JStr (b_id r)), (''modelExecuted'', JBool False),
            (''output'', JNull), (''automaticMutationAllowed'', JBool False)]\<rparr>))))"

section \<open>Previews\<close>

definition preview_redact :: "js_env \<Rightarrow> ctx \<Rightarrow> obj \<Rightarrow> obj eng" where
  "preview_redact E c i =
     bnd (owned E c (oget i ''segmentId'') (Some ''meetings'') (Some ''transcript-segment'')) (\<lambda>segment.
     bnd (owned_meeting E c (oget (b_data segment) ''meetingId'')) (\<lambda>meeting.
     bnd (meeting_boundary E c meeting) (\<lambda>_.
     bnd (assert_expected_version segment (oget i ''expectedVersion'')) (\<lambda>_.
     ret [(''wouldRedact'', JStr (b_id segment)), (''currentHash'', JStr (b_hash segment))]))))"

definition preview_import :: "js_env \<Rightarrow> ctx \<Rightarrow> obj \<Rightarrow> obj eng" where
  "preview_import E c i =
     bnd (schema_act (as_objects (oget i ''rows''))) (\<lambda>rows.
     bnd (validate_import E c (to_str E (oget i ''baseId'')) rows) (\<lambda>_.
     bnd (import_hash E (to_str E (oget i ''baseId'')) rows) (\<lambda>h.
     bnd (guard (oget i ''previewHash'' = JStr h) (RuleErr PreviewMismatch)) (\<lambda>_.
     ret [(''wouldCreateRows'', jint (int (length rows))), (''previewHash'', JStr h)]))))"

definition preview_credential :: "js_env \<Rightarrow> ctx \<Rightarrow> obj \<Rightarrow> obj eng" where
  "preview_credential E c i =
     bnd (credential_eligibility E c (to_str E (oget i ''enrollmentId'')) (to_str E (oget i ''attemptId''))) (\<lambda>el.
     bnd (guard (oget i ''previewHash'' = JStr (el_hash el)) (RuleErr PreviewMismatch)) (\<lambda>_.
     bnd (guard (el_eligible el) (RuleErr NotEligible)) (\<lambda>_.
     ret ([(''wouldIssueCredential'', JBool True)] @ el_facts el))))"

definition preview_community :: "js_env \<Rightarrow> ctx \<Rightarrow> action \<Rightarrow> obj \<Rightarrow> obj eng" where
  "preview_community E c a i =
     (if a_id a = ''post-hide'' then
        bnd (owned_post E c (oget i ''postId'')) (\<lambda>post.
        bnd (owned_space E c (oget (b_data post) ''spaceId'')) (\<lambda>space.
        bnd (space_boundary E c space True) (\<lambda>_.
        bnd (assert_expected_version post (oget i ''expectedVersion'')) (\<lambda>_.
        ret [(''wouldHide'', JStr (b_id post)), (''currentHash'', JStr (b_hash post))]))))
      else if a_id a = ''member-role-set'' then
        bnd (owned E c (oget i ''memberId'') (Some ''community'') (Some ''community-member'')) (\<lambda>member.
        bnd (owned_space E c (oget (b_data member) ''spaceId'')) (\<lambda>space.
        bnd (space_boundary E c space False) (\<lambda>_.
        bnd (lift_e (workspace_member c (oget (b_data member) ''memberRef'') ''community memberRef'')) (\<lambda>_.
        bnd (assert_expected_version member (oget i ''expectedVersion'')) (\<lambda>_.
        ret [(''wouldSetRole'', oget i ''role''), (''memberId'', JStr (b_id member)),
             (''currentHash'', JStr (b_hash member))])))))
      else if a_id a = ''announcement-publish'' then
        bnd (owned_space E c (oget i ''spaceId'')) (\<lambda>space.
        bnd (space_boundary E c space True) (\<lambda>_.
        bnd (evidence_of E c (oget i ''evidenceIds'')) (\<lambda>evs.
        bnd (digest_act E (JObj [(''title'', oget i ''title''), (''body'', oget i ''body'')])) (\<lambda>h.
        ret [(''wouldPublishExactCopy'', JBool True), (''copyHash'', JStr h),
             (''evidenceIds'', JArr (map (JStr \<circ> b_id \<circ> ev_record) evs))]))))
      else ret [(''validated'', JBool True), (''actionId'', JStr (a_id a))])"

definition preview_action :: "js_env \<Rightarrow> ctx \<Rightarrow> action \<Rightarrow> obj \<Rightarrow> obj eng" where
  "preview_action E c a i =
     (if a_operation a = OpAi then
        bnd (proposal_binding E c a i) (\<lambda>(target, bound).
        ret [(''wouldQueueProposal'', JStr (a_id a)), (''modelInvoked'', JBool False), (''output'', JNull),
             (''evidenceBindings'', JArr (map binding5 bound)), (''automaticMutationAllowed'', JBool False)])
      else if a_module a = ''tables'' \<and> a_id a = ''import-apply'' then preview_import E c i
      else if a_module a = ''meetings'' \<and> a_id a = ''transcript-redact'' then preview_redact E c i
      else if a_module a = ''insights'' \<and> a_id a = ''observation-import'' then
        bnd (owned_metric E c (oget i ''metricId'')) (\<lambda>_.
        bnd (validate_observations E (oget i ''observations'')) (\<lambda>obs.
        ret [(''wouldAppendObservations'', jint (int (length obs))),
             (''sourceRevision'', oget i ''sourceRevision'')]))
      else if a_module a = ''insights'' \<and> a_id a = ''snapshot-freeze'' then
        bnd (owned_dashboard E c (oget i ''dashboardId'')) (\<lambda>_.
        bnd (evidence_of E c (oget i ''evidenceIds'')) (\<lambda>evs.
        ret [(''wouldFreeze'', bindings3 evs), (''asOf'', oget i ''asOf'')]))
      else if a_module a = ''learning'' \<and> a_id a = ''credential-issue'' then preview_credential E c i
      else if a_module a = ''community'' then preview_community E c a i
      else ret [(''validated'', JBool True), (''actionId'', JStr (a_id a))])"

section \<open>Execution\<close>

definition authorize :: "js_env \<Rightarrow> ctx \<Rightarrow> string \<Rightarrow> string \<Rightarrow> obj \<Rightarrow> err + action" where
  "authorize E c m aid input =
     bind_e (assert_context c) (\<lambda>_.
     case action_by_key m aid of
       None \<Rightarrow> Inl (CtxErr UnknownAction)
     | Some a \<Rightarrow>
         bind_e (assert_plan c m) (\<lambda>_.
         bind_e (assert_role c a) (\<lambda>_.
         bind_e (assert_scope c m (a_scope a)) (\<lambda>_.
         case validate_input E (a_input a) input of
           Inl e \<Rightarrow> Inl (SchemaErr e)
         | Inr _ \<Rightarrow> Inr a))))"

definition input_digest :: "js_env \<Rightarrow> ctx \<Rightarrow> obj \<Rightarrow> err + string" where
  "input_digest E c input =
     (case digest E (JObj [(''workspaceId'', JStr (c_workspace c)), (''actorUserId'', JStr (c_actor c)),
              (''input'', JObj input)]) of
        Inl e \<Rightarrow> Inl (CanonErr e) | Inr h \<Rightarrow> Inr h)"

definition receipt_key :: "js_env \<Rightarrow> ctx \<Rightarrow> string \<Rightarrow> action \<Rightarrow> obj \<Rightarrow> string option" where
  "receipt_key E c m a input =
     (if \<not> a_idempotent a then None
      else (let k = to_str E (oget input ''idempotencyKey'')
            in if k = [] then None
               else Some (c_workspace c @ '':'' @ m @ '':'' @ a_id a @ '':'' @ k)))"

definition replay_of :: "exec_result \<Rightarrow> exec_result" where
  "replay_of x = x\<lparr>x_audit := (x_audit x)\<lparr>au_replayed := True, au_decision := DecReplayed\<rparr>\<rparr>"

definition find_replay :: "ctx \<Rightarrow> string option \<Rightarrow> string \<Rightarrow> engine \<Rightarrow> err + exec_result option" where
  "find_replay c key h s =
     (case key of
        None \<Rightarrow> Inr None
      | Some k \<Rightarrow>
          (case jget (e_receipts s) k of
             None \<Rightarrow> Inr None
           | Some r \<Rightarrow>
               if s_actor r \<noteq> c_actor c then Inl (IdemErr KeyOfOtherActor)
               else if s_digest r \<noteq> h then Inl (IdemErr KeyOfOtherInput)
               else Inr (Some (replay_of (s_result r)))))"

definition decision_used :: "ctx \<Rightarrow> string \<Rightarrow> engine \<Rightarrow> bool" where
  "decision_used c did s \<longleftrightarrow>
     (\<exists>r \<in> set (jvals (e_receipts s)). s_workspace r = c_workspace c
        \<and> au_decision_id (x_audit (s_result r)) = Some did)"

definition is_dry_run :: "action \<Rightarrow> obj \<Rightarrow> bool" where
  "is_dry_run a input \<longleftrightarrow> a_supports_dry_run a \<and> oget input ''dryRun'' = JBool True"

definition evaluate ::
  "js_env \<Rightarrow> ctx \<Rightarrow> action \<Rightarrow> obj \<Rightarrow> string \<Rightarrow> string \<Rightarrow> body eng" where
  "evaluate E c a input model ts =
     (if is_dry_run a input then
        bnd (preview_action E c a input) (\<lambda>p.
        ret \<lparr>o_kind = (if a_operation a = OpAi then KProposal else KCommand), o_records = [],
             o_preview = Some p\<rparr>)
      else if a_operation a = OpAi then queue_grounded_proposal E c a input model ts
      else dispatch E c a input ts)"

definition audit_of ::
  "ctx \<Rightarrow> string \<Rightarrow> action \<Rightarrow> obj \<Rightarrow> string \<Rightarrow> approval option \<Rightarrow> string \<Rightarrow> string \<Rightarrow> audit" where
  "audit_of c m a input h ap rid ts =
     \<lparr>au_receipt = rid, au_request = c_request_id c, au_workspace = c_workspace c, au_actor = c_actor c,
      au_module = m, au_action = a_id a, au_digest = h, au_dry_run = is_dry_run a input,
      au_replayed = False,
      au_decision = (if is_dry_run a input then DecPreviewed
         else (case a_operation a of OpRead \<Rightarrow> DecRead | OpAi \<Rightarrow> DecQueued | OpMutation \<Rightarrow> DecApplied)),
      au_approved_by = map_option ap_by ap, au_decision_id = map_option ap_decision ap,
      au_approved_at = map_option ap_at ap, au_reason = map_option ap_reason ap,
      au_model_executed = False, au_automatic_mutation = False, au_external_effect = False,
      au_created = ts\<rparr>"

definition store_receipt :: "ctx \<Rightarrow> string \<Rightarrow> action \<Rightarrow> string \<Rightarrow> string \<Rightarrow> string option \<Rightarrow> exec_result \<Rightarrow> engine \<Rightarrow> engine" where
  "store_receipt c m a k h key x s =
     (case key of
        None \<Rightarrow> s
      | Some kk \<Rightarrow> s\<lparr>e_receipts := jset kk
          \<lparr>s_workspace = c_workspace c, s_actor = c_actor c, s_module = m, s_action = a_id a, s_key = k,
           s_digest = h, s_result = x\<rparr> (e_receipts s)\<rparr>)"

definition clear_dirty :: "engine \<Rightarrow> engine" where
  "clear_dirty s = s\<lparr>e_dirty := []\<rparr>"

definition approve :: "js_env \<Rightarrow> ctx \<Rightarrow> action \<Rightarrow> obj \<Rightarrow> int \<Rightarrow> approval option eng" where
  "approve E c a input now =
     (if is_dry_run a input then ret None
      else bnd (lift_e (assert_approval_if_required E c a input now)) (\<lambda>ap.
           case ap of
             None \<Rightarrow> ret None
           | Some p \<Rightarrow> bnd (reads (decision_used c (ap_decision p))) (\<lambda>used.
                        if used then throw (ApprovalErr DecisionReused) else ret (Some p))))"

definition run_action :: "js_env \<Rightarrow> ctx \<Rightarrow> string \<Rightarrow> action \<Rightarrow> obj \<Rightarrow> string \<Rightarrow> string \<Rightarrow> exec_result eng" where
  "run_action E c m a input model h =
     bnd (lift_e (trusted_now c)) (\<lambda>now.
     bnd (approve E c a input now) (\<lambda>ap.
     bnd (evaluate E c a input model (iso_text E now)) (\<lambda>body.
     bnd (draw_uuid E) (\<lambda>rid.
     let x = \<lparr>x_body = body, x_audit = audit_of c m a input h ap rid (iso_text E now)\<rparr>
     in bnd (modifies (store_receipt c m a (to_str E (oget input ''idempotencyKey'')) h
               (receipt_key E c m a input) x)) (\<lambda>_. ret x)))))"

definition execute :: "js_env \<Rightarrow> ctx \<Rightarrow> string \<Rightarrow> string \<Rightarrow> obj \<Rightarrow> exec_result eng" where
  "execute E c m aid input =
     bnd (modifies clear_dirty) (\<lambda>_.
     bnd (lift_e (authorize E c m aid input)) (\<lambda>a.
     bnd (lift_e (if a_operation a = OpAi
                  then expected_model_policy (oget input ''modelId'') (c_model_policy c) else Inr [])) (\<lambda>model.
     bnd (lift_e (input_digest E c input)) (\<lambda>h.
     bnd (reads (find_replay c (receipt_key E c m a input) h)) (\<lambda>found.
     bnd (lift_e found) (\<lambda>replay.
     case replay of
       Some x \<Rightarrow> ret x
     | None \<Rightarrow> run_action E c m a input model h))))))"

end
