(* ===== verification/Additive_Frames.thy ===== *)
theory Additive_Frames
  imports Additive_Engine
begin

text \<open>
  What the handlers of the additive engine may do to the store, proved compositionally: the guards,
  boundaries, previews and read actions leave the state alone; every handler lets records only
  evolve (no deletion, no change of identity, a larger version whenever anything changed), keeps the
  content hash of records marked for persistence exact, and stays in the workspace of the request.
\<close>

section \<open>Read-only computations\<close>

named_theorems read_only "computations that leave the engine unchanged"

lemma keeps_json [keeps_rules]:
  assumes "\<And>s. keeps R (f s)" "\<And>x. keeps R (ar x)" "\<And>x. keeps R (ob x)" "\<And>x. keeps R (nu x)"
    "\<And>x. keeps R (bo x)" "keeps R un" "keeps R nl"
  shows "keeps R (case v of JUndef \<Rightarrow> un | JNull \<Rightarrow> nl | JBool x \<Rightarrow> bo x | JNum x \<Rightarrow> nu x | JStr x \<Rightarrow> f x
     | JArr x \<Rightarrow> ar x | JObj x \<Rightarrow> ob x)"
  using assms by (cases v) simp_all

lemma same_guard [read_only]: "keeps unchanged (guard b e)"
  unfolding guard_def by (intro keeps_rules)

lemma same_schema_act [read_only]: "keeps unchanged (schema_act r)"
  unfolding schema_act_def by (intro keeps_rules)

lemma same_digest_act [read_only]: "keeps unchanged (digest_act E v)"
  unfolding digest_act_def by (intro keeps_rules)

lemma same_owned [read_only]: "keeps unchanged (owned E c v m rt)"
  unfolding owned_def by (intro keeps_rules)

lemma same_evidence_record [read_only]: "keeps unchanged (evidence_record E c v)"
  unfolding evidence_record_def by (intro keeps_rules)

lemma same_evidence_of [read_only]: "keeps unchanged (evidence_of E c v)"
  unfolding evidence_of_def by (intro keeps_rules read_only)

lemma same_expected_version [read_only]: "keeps unchanged (assert_expected_version r v)"
  unfolding assert_expected_version_def by (intro read_only)

lemma same_membership_refs [read_only]: "keeps unchanged (active_membership_refs E c m rt pf p f x n)"
  unfolding active_membership_refs_def by (intro keeps_rules)

lemma same_table_fields [read_only]: "keeps unchanged (table_fields E c b)"
  unfolding table_fields_def by (intro keeps_rules read_only)

lemma same_validate_cell [read_only]: "keeps unchanged (validate_cell E c ty k v)"
  unfolding validate_cell_def by (intro keeps_rules read_only)

lemma same_validate_row [read_only]: "keeps unchanged (validate_row E c b vs)"
  unfolding validate_row_def by (intro keeps_rules read_only)

lemma same_validate_import [read_only]: "keeps unchanged (validate_import E c b rows)"
  unfolding validate_import_def by (intro keeps_rules read_only)

lemma same_import_hash [read_only]: "keeps unchanged (import_hash E b rows)"
  unfolding import_hash_def by (intro read_only)

lemma same_owned_kinds [read_only]:
  "keeps unchanged (owned_meeting E c v)" "keeps unchanged (owned_metric E c v)" "keeps unchanged (owned_dashboard E c v)"
  "keeps unchanged (owned_course E c v)" "keeps unchanged (owned_enrollment E c v)" "keeps unchanged (owned_space E c v)"
  "keeps unchanged (owned_post E c v)"
  unfolding owned_meeting_def owned_metric_def owned_dashboard_def owned_course_def owned_enrollment_def
    owned_space_def owned_post_def by (rule same_owned)+

lemma same_boundaries [read_only]:
  "keeps unchanged (meeting_boundary E c r)" "keeps unchanged (course_boundary E c r b l)"
  "keeps unchanged (space_boundary E c r b)"
  unfolding meeting_boundary_def course_boundary_def space_boundary_def Let_def
  by (intro keeps_rules read_only)+

lemma same_observations [read_only]: "keeps unchanged (validate_observations E v)"
  unfolding validate_observations_def by (intro keeps_rules read_only)

lemma same_eligibility [read_only]: "keeps unchanged (credential_eligibility E c e a)"
  unfolding credential_eligibility_def Let_def by (intro keeps_rules read_only)

lemma same_proposal_binding [read_only]: "keeps unchanged (proposal_binding E c a i)"
  unfolding proposal_binding_def by (intro keeps_rules read_only)

lemma same_proposal_boundary [read_only]: "keeps unchanged (proposal_boundary E c r)"
  unfolding proposal_boundary_def Let_def by (intro keeps_rules read_only)

lemma same_previews [read_only]:
  "keeps unchanged (preview_redact E c i)" "keeps unchanged (preview_import E c i)"
  "keeps unchanged (preview_credential E c i)" "keeps unchanged (preview_community E c a i)"
  unfolding preview_redact_def preview_import_def preview_credential_def preview_community_def
  by (intro keeps_rules read_only)+

lemma same_preview_action [read_only]: "keeps unchanged (preview_action E c a i)"
  unfolding preview_action_def by (intro keeps_rules read_only)

text \<open>The read actions of the registry.\<close>

lemma same_read_actions [read_only]:
  "keeps unchanged (import_preview E c i ts)" "keeps unchanged (formula_evaluate E c i ts)"
  "keeps unchanged (credential_preview E c i ts)"
  unfolding import_preview_def formula_evaluate_def credential_preview_def Let_def
  by (intro keeps_rules read_only)+

lemmas read_only_facts =
  same_guard same_schema_act same_digest_act same_owned same_evidence_record same_evidence_of
  same_expected_version same_membership_refs same_table_fields same_validate_cell same_validate_row
  same_validate_import same_import_hash same_owned_kinds same_boundaries same_observations
  same_eligibility same_proposal_binding same_proposal_boundary same_previews same_preview_action
  same_read_actions

section \<open>The two writes\<close>

lemma digest_act_run: "digest_act E v s = (case digest E v of Inl e \<Rightarrow> (Inl (CanonErr e), s) | Inr h \<Rightarrow> (Inr h, s))"
  by (simp add: digest_act_def split: sum.split)

definition new_record :: "js_env \<Rightarrow> ctx \<Rightarrow> string \<Rightarrow> string \<Rightarrow> string \<Rightarrow> string \<Rightarrow> obj \<Rightarrow> string \<Rightarrow> nat \<Rightarrow> brecord" where
  "new_record E c m rt title st d ts n =
     \<lparr>b_id = uuid_at E n, b_workspace = c_workspace c, b_module = m, b_type = rt, b_title = title,
      b_state = st, b_version = 1, b_hash = [], b_data = d, b_created = ts, b_updated = ts\<rparr>"

lemma create_run:
  "create E c m rt title st d ts s =
     (let r = new_record E c m rt title st d ts (e_draws s); s1 = s\<lparr>e_draws := Suc (e_draws s)\<rparr>
      in case record_digest E r of
           Inl e \<Rightarrow> (Inl (CanonErr e), s1)
         | Inr h \<Rightarrow> (Inr (r\<lparr>b_hash := h\<rparr>), mark_dirty (b_id r) (put_record (r\<lparr>b_hash := h\<rparr>) s1)))"
  by (simp add: create_def draw_uuid_def bnd_def digest_act_run new_record_def record_digest_def
      Let_def split: sum.split)

lemma update_run:
  "update E r title st d ts s =
     (let r1 = patched (current r s) title st d ts
      in case record_digest E r1 of
           Inl e \<Rightarrow> (Inl (CanonErr e), assign_at (b_id r) r1 s)
         | Inr h \<Rightarrow> (Inr (r1\<lparr>b_hash := h\<rparr>), mark_dirty (b_id r) (assign_at (b_id r) (r1\<lparr>b_hash := h\<rparr>) s)))"
proof -
  have twice: "assign_at i b (assign_at i a s) = assign_at i b s" for i and a b :: brecord
  proof (cases "jget (e_records s) i")
    case (Some x)
    have "jset i b (jset i a m) = jset i b m" for m :: "(string, brecord) jmap"
      unfolding jset_def by (induction m) auto
    with Some show ?thesis by (simp add: assign_at_def jget_jset)
  qed (simp add: assign_at_def)
  show ?thesis by (simp add: update_def bnd_def Let_def twice split: sum.split)
qed

lemma records_mark_dirty [simp]:
  "e_records (mark_dirty i s) = e_records s" "e_external (mark_dirty i s) = e_external s"
  "e_receipts (mark_dirty i s) = e_receipts s" "e_draws (mark_dirty i s) = e_draws s"
  "set (e_dirty (mark_dirty i s)) = insert i (set (e_dirty s))"
  by (auto simp: mark_dirty_def)

lemma records_assign_at:
  "jget (e_records (assign_at i r s)) j =
     (if j = i \<and> jget (e_records s) i \<noteq> None then Some r else jget (e_records s) j)"
  by (simp add: assign_at_def jget_jset split: option.split)

lemma other_assign_at [simp]:
  "e_external (assign_at i r s) = e_external s" "e_receipts (assign_at i r s) = e_receipts s"
  "e_draws (assign_at i r s) = e_draws s" "e_dirty (assign_at i r s) = e_dirty s"
  by (simp_all add: assign_at_def split: option.split)

lemma records_put_record [simp]:
  "jget (e_records (put_record r s)) j = (if j = b_id r then Some r else jget (e_records s) j)"
  "e_external (put_record r s) = e_external s" "e_receipts (put_record r s) = e_receipts s"
  "e_draws (put_record r s) = e_draws s" "e_dirty (put_record r s) = e_dirty s"
  by (simp_all add: put_record_def jget_jset)

section \<open>Evolution\<close>

definition fresh_from :: "js_env \<Rightarrow> engine \<Rightarrow> bool" where
  "fresh_from E s \<longleftrightarrow> inj (uuid_at E) \<and> (\<forall>n \<ge> e_draws s. jget (e_records s) (uuid_at E n) = None)"

definition same_identity :: "brecord \<Rightarrow> brecord \<Rightarrow> bool" where
  "same_identity r r' \<longleftrightarrow> b_id r' = b_id r \<and> b_workspace r' = b_workspace r \<and> b_module r' = b_module r
     \<and> b_type r' = b_type r \<and> b_created r' = b_created r"

definition successor :: "brecord \<Rightarrow> brecord \<Rightarrow> bool" where
  "successor r r' \<longleftrightarrow> same_identity r r' \<and> (r' = r \<or> b_version r < b_version r')"

definition evolves :: "js_env \<Rightarrow> engine \<Rightarrow> engine \<Rightarrow> bool" where
  "evolves E s t \<longleftrightarrow> (fresh_from E s \<longrightarrow> fresh_from E t \<and> e_draws s \<le> e_draws t
     \<and> (\<forall>i r. jget (e_records s) i = Some r \<longrightarrow> (\<exists>r'. jget (e_records t) i = Some r' \<and> successor r r')))"

lemma successor_refl: "successor r r"
  by (simp add: successor_def same_identity_def)

lemma successor_trans: "successor a b \<Longrightarrow> successor b d \<Longrightarrow> successor a d"
  by (auto simp: successor_def same_identity_def)

lemma successor_patched: "successor r ((patched r title st d ts)\<lparr>b_hash := h\<rparr>)"
  "successor r (patched r title st d ts)"
  by (simp_all add: successor_def same_identity_def patched_def)

definition evolving :: "js_env \<Rightarrow> bool \<Rightarrow> engine \<Rightarrow> engine \<Rightarrow> bool" where
  "evolving E ok s t \<longleftrightarrow> evolves E s t"

lemma evolves_refl: "evolves E s s"
  by (auto simp: evolves_def successor_refl)

lemma evolves_trans: "evolves E s t \<Longrightarrow> evolves E t u \<Longrightarrow> evolves E s u"
  by (cases "fresh_from E s") (simp_all add: evolves_def, meson successor_trans)

lemma evolves_assign:
  assumes "successor (current r s) r1"
  shows "evolves E s (assign_at (b_id r) r1 s)"
  using assms by (auto simp: evolves_def fresh_from_def records_assign_at current_def successor_refl)

lemma evolves_dirty: "evolves E s t \<Longrightarrow> evolves E s (mark_dirty i t)"
  by (simp add: evolves_def fresh_from_def)

lemma evolves_draw: "evolves E s (s\<lparr>e_draws := Suc (e_draws s)\<rparr>)"
  by (auto simp: evolves_def fresh_from_def successor_refl)

lemma evolves_put: "b_id r = uuid_at E (e_draws s) \<Longrightarrow> evolves E s (put_record r (s\<lparr>e_draws := Suc (e_draws s)\<rparr>))"
  by (fastforce simp: evolves_def fresh_from_def successor_refl inj_eq)

section \<open>Lifting a relation over the handlers\<close>

text \<open>
  A relation that the two writes respect is respected by every handler. The identifiers drawn and
  the digest come from the same host \<open>E\<close> throughout, and the workspace from the same context.
\<close>

locale write_respecting = step_preorder R for R :: "bool \<Rightarrow> engine \<Rightarrow> engine \<Rightarrow> bool" +
  fixes E :: js_env and c :: ctx
  assumes keeps_create: "keeps R (create E c m rt title st d ts)"
    and keeps_update: "keeps R (update E r title' st' d' ts)"
begin

lemmas reads_keep = read_only_facts[THEN keeps_unchanged]

lemmas rules = keeps_ret keeps_throw keeps_lift_e keeps_reads keeps_bnd keeps_each keeps_if keeps_option
  keeps_Let keeps_case_prod keeps_json keeps_create keeps_update reads_keep

lemma keeps_synchronize: "keeps R (synchronize_membership E p pf cf cp refs ts)"
  unfolding synchronize_membership_def Let_def by (intro rules)

lemma keeps_one_record: "keeps R m \<Longrightarrow> keeps R (one_record m)"
  unfolding one_record_def by (intro rules)

lemmas step_rules = rules keeps_synchronize keeps_one_record

lemma keeps_tables: "keeps R (tables E c a i ts)"
  unfolding tables_def base_create_def field_add_def row_create_def row_update_def view_create_def
    import_apply_def Let_def
  by (intro step_rules)

lemma keeps_meetings: "keeps R (meetings E c a i ts)"
  unfolding meetings_def meeting_create_def participant_add_def transcript_append_def decision_record_def
    action_item_create_def transcript_redact_def meeting_export_def Let_def
  by (intro step_rules)

lemma keeps_insights: "keeps R (insights E c a i ts)"
  unfolding insights_def source_register_def metric_define_def observation_import_def dashboard_create_def
    chart_add_def alert_rule_create_def snapshot_freeze_def Let_def
  by (intro step_rules)

lemma keeps_learning: "keeps R (learning E c a i ts)"
  unfolding learning_def course_create_def lesson_create_def learner_enroll_def rubric_create_def
    attempt_record_def credential_issue_def Let_def
  by (intro step_rules)

lemma keeps_community: "keeps R (community E c a i ts)"
  unfolding community_def space_create_def member_add_def post_create_def reply_create_def
    reaction_record_def post_hide_def member_role_set_def announcement_publish_def Let_def
  by (intro step_rules)

lemma keeps_dispatch: "keeps R (dispatch E c a i ts)"
  unfolding dispatch_def
  by (intro keeps_if keeps_tables keeps_meetings keeps_insights keeps_learning keeps_community)

lemma keeps_proposal: "keeps R (queue_grounded_proposal E c a i model ts)"
  unfolding queue_grounded_proposal_def Let_def by (intro step_rules)

lemma keeps_evaluate: "keeps R (evaluate E c a i model ts)"
  unfolding evaluate_def by (intro step_rules keeps_dispatch keeps_proposal)

end

section \<open>The relations\<close>

interpretation ev: write_respecting "evolving E" E c for E c
proof unfold_locales
  fix s t u ok
  show "evolving E ok s s" by (simp add: evolving_def evolves_refl)
  show "evolving E True s t \<Longrightarrow> evolving E ok t u \<Longrightarrow> evolving E ok s u"
    unfolding evolving_def by (rule evolves_trans)
next
  fix m rt title st d ts
  show "keeps (evolving E) (create E c m rt title st d ts)"
    by (auto simp: keeps_def evolving_def create_run Let_def new_record_def evolves_draw split: sum.split
        intro!: evolves_dirty evolves_put)
next
  fix r title st d ts
  show "keeps (evolving E) (update E r title st d ts)"
    by (auto simp: keeps_def evolving_def update_run Let_def split: sum.split
        intro!: evolves_dirty evolves_assign successor_patched)
qed

text \<open>Records marked for persistence carry the digest of their content, after every run that returns.\<close>

definition dirty_hashed :: "js_env \<Rightarrow> engine \<Rightarrow> bool" where
  "dirty_hashed E s \<longleftrightarrow>
     (\<forall>i \<in> set (e_dirty s). \<forall>r. jget (e_records s) i = Some r \<longrightarrow> record_digest E r = Inr (b_hash r))"

definition hashing :: "js_env \<Rightarrow> bool \<Rightarrow> engine \<Rightarrow> engine \<Rightarrow> bool" where
  "hashing E ok s t \<longleftrightarrow> (ok \<longrightarrow> dirty_hashed E s \<longrightarrow> dirty_hashed E t)"

lemma record_digest_hash [simp]: "record_digest E (r\<lparr>b_hash := h\<rparr>) = record_digest E r"
  by (simp add: record_digest_def)

interpretation hs: write_respecting "hashing E" E c for E c
proof unfold_locales
  fix s t u ok
  show "hashing E ok s s" by (simp add: hashing_def)
  show "hashing E True s t \<Longrightarrow> hashing E ok t u \<Longrightarrow> hashing E ok s u" by (simp add: hashing_def)
next
  fix m rt title st d ts
  show "keeps (hashing E) (create E c m rt title st d ts)"
    by (auto simp: keeps_def hashing_def dirty_hashed_def create_run Let_def split: sum.splits if_splits)
next
  fix r title st d ts
  show "keeps (hashing E) (update E r title st d ts)"
    by (auto simp: keeps_def hashing_def dirty_hashed_def update_run Let_def records_assign_at
        split: sum.splits if_splits)
qed

text \<open>Records stay in the workspace of the request.\<close>

definition all_in :: "string \<Rightarrow> engine \<Rightarrow> bool" where
  "all_in w s \<longleftrightarrow> (\<forall>i r. jget (e_records s) i = Some r \<longrightarrow> b_workspace r = w)"

lemma all_in_mark [simp]: "all_in w (mark_dirty i s) = all_in w s"
  by (simp add: all_in_def)

lemma all_in_update:
  "all_in w s \<Longrightarrow> all_in w (assign_at (b_id r) (patched (current r s) title st d ts) s)"
  "all_in w s \<Longrightarrow> all_in w (assign_at (b_id r) ((patched (current r s) title st d ts)\<lparr>b_hash := h\<rparr>) s)"
  by (auto simp: all_in_def records_assign_at patched_def current_def split: if_splits)

definition confining :: "ctx \<Rightarrow> bool \<Rightarrow> engine \<Rightarrow> engine \<Rightarrow> bool" where
  "confining c ok s t \<longleftrightarrow> (all_in (c_workspace c) s \<longrightarrow> all_in (c_workspace c) t)"

interpretation cf: write_respecting "confining c" E c for E c
proof unfold_locales
  fix s t u ok
  show "confining c ok s s" by (simp add: confining_def)
  show "confining c True s t \<Longrightarrow> confining c ok t u \<Longrightarrow> confining c ok s u" by (simp add: confining_def)
next
  fix m rt title st d ts
  show "keeps (confining c) (create E c m rt title st d ts)"
    by (auto simp: keeps_def confining_def all_in_def create_run Let_def new_record_def
        split: sum.splits if_splits)
next
  fix r title st d ts
  show "keeps (confining c) (update E r title st d ts)"
    by (simp add: keeps_def confining_def update_run Let_def all_in_update split: sum.split)
qed

text \<open>Handlers neither write receipts nor touch the hydrated evidence.\<close>

definition logging :: "bool \<Rightarrow> engine \<Rightarrow> engine \<Rightarrow> bool" where
  "logging ok s t \<longleftrightarrow> e_receipts t = e_receipts s \<and> e_external t = e_external s"

interpretation lg: write_respecting logging E c for E c
  by unfold_locales (auto simp: logging_def keeps_def create_run update_run Let_def split: sum.split)

text \<open>Every record is stored under its own identifier.\<close>

definition well_keyed :: "engine \<Rightarrow> bool" where
  "well_keyed s \<longleftrightarrow> (\<forall>i r. jget (e_records s) i = Some r \<longrightarrow> b_id r = i)"

definition keying :: "bool \<Rightarrow> engine \<Rightarrow> engine \<Rightarrow> bool" where
  "keying ok s t \<longleftrightarrow> (well_keyed s \<longrightarrow> well_keyed t)"

lemma well_keyed_mark [simp]: "well_keyed (mark_dirty i s) = well_keyed s"
  by (simp add: well_keyed_def)

lemma well_keyed_update:
  "well_keyed s \<Longrightarrow> well_keyed (assign_at (b_id r) (patched (current r s) title st d ts) s)"
  "well_keyed s \<Longrightarrow> well_keyed (assign_at (b_id r) ((patched (current r s) title st d ts)\<lparr>b_hash := h\<rparr>) s)"
  by (auto simp: well_keyed_def records_assign_at patched_def current_def split: if_splits)

interpretation ky: write_respecting keying E c for E c
proof unfold_locales
  fix s t u ok
  show "keying ok s s" by (simp add: keying_def)
  show "keying True s t \<Longrightarrow> keying ok t u \<Longrightarrow> keying ok s u" by (simp add: keying_def)
next
  fix m rt title st d ts
  show "keeps keying (create E c m rt title st d ts)"
    by (auto simp: keeps_def keying_def well_keyed_def create_run Let_def split: sum.splits if_splits)
next
  fix r title st d ts
  show "keeps keying (update E r title st d ts)"
    by (simp add: keeps_def keying_def update_run Let_def well_keyed_update split: sum.split)
qed

end
