(* ===== verification/Additive_Properties.thy ===== *)
theory Additive_Properties
  imports Additive_Frames
begin

text \<open>
  Properties of \<open>AdditiveBusinessEngine.execute\<close> and of the handlers it dispatches to:
  authorization, idempotent replay, dry runs, approvals, AI proposals, the evolution of records and
  the integrity of what is handed to the store.
\<close>

section \<open>The shape of a successful execution\<close>

lemma draw_uuid_run [simp]: "draw_uuid E s = (Inr (uuid_at E (e_draws s)), s\<lparr>e_draws := Suc (e_draws s)\<rparr>)"
  by (simp add: draw_uuid_def bnd_def)

lemma approve_ok:
  "approve E c a input now s = (Inr ap, t) \<longleftrightarrow> t = s
     \<and> (if is_dry_run a input then ap = None
        else assert_approval_if_required E c a input now = Inr ap
          \<and> (\<forall>p. ap = Some p \<longrightarrow> \<not> decision_used c (ap_decision p) s))"
  by (auto simp: approve_def bnd_def split: sum.splits option.splits)

lemma run_action_cases:
  assumes "run_action E c m a input model h s = (Inr x, t)"
  obtains now ap bd u where
    "trusted_now c = Inr now" "approve E c a input now s = (Inr ap, s)"
    "evaluate E c a input model (iso_text E now) s = (Inr bd, u)"
    "x = \<lparr>x_body = bd, x_audit = audit_of c m a input h ap (uuid_at E (e_draws u)) (iso_text E now)\<rparr>"
    "t = store_receipt c m a (to_str E (oget input ''idempotencyKey'')) h (receipt_key E c m a input) x
           (u\<lparr>e_draws := Suc (e_draws u)\<rparr>)"
proof -
  from assms obtain now s1 ap s2 bd u rid v where *: "lift_e (trusted_now c) s = (Inr now, s1)"
    "approve E c a input now s1 = (Inr ap, s2)"
    "evaluate E c a input model (iso_text E now) s2 = (Inr bd, u)"
    "draw_uuid E u = (Inr rid, v)"
    "(let x = \<lparr>x_body = bd, x_audit = audit_of c m a input h ap rid (iso_text E now)\<rparr>
      in bnd (modifies (store_receipt c m a (to_str E (oget input ''idempotencyKey'')) h
           (receipt_key E c m a input) x)) (\<lambda>_. ret x)) v = (Inr x :: err + exec_result, t)"
    unfolding run_action_def
    by (elim bnd_Inr_iff[THEN iffD1, elim_format] exE conjE) (rule that, assumption+)
  then have st: "s1 = s" "s2 = s" by (auto simp: approve_ok)
  have "x = \<lparr>x_body = bd, x_audit = audit_of c m a input h ap (uuid_at E (e_draws u)) (iso_text E now)\<rparr>
    \<and> t = store_receipt c m a (to_str E (oget input ''idempotencyKey'')) h (receipt_key E c m a input) x
           (u\<lparr>e_draws := Suc (e_draws u)\<rparr>)"
    using *(4,5) by (auto simp: bnd_def Let_def)
  with * st show thesis by (intro that) auto
qed

lemma execute_cases:
  assumes "execute E c m aid input s = (Inr x, t)"
  obtains (Replayed) a h model where
    "authorize E c m aid input = Inr a" "input_digest E c input = Inr h"
    "a_operation a = OpAi \<longrightarrow> expected_model_policy (oget input ''modelId'') (c_model_policy c) = Inr model"
    "find_replay c (receipt_key E c m a input) h (clear_dirty s) = Inr (Some x)" "t = clear_dirty s"
  | (Ran) a h model where
    "authorize E c m aid input = Inr a" "input_digest E c input = Inr h"
    "find_replay c (receipt_key E c m a input) h (clear_dirty s) = Inr None"
    "a_operation a = OpAi \<longrightarrow> expected_model_policy (oget input ''modelId'') (c_model_policy c) = Inr model"
    "run_action E c m a input model h (clear_dirty s) = (Inr x, t)"
proof -
  from assms obtain a model h found where b: "authorize E c m aid input = Inr a"
      "(if a_operation a = OpAi then expected_model_policy (oget input ''modelId'') (c_model_policy c)
        else Inr []) = Inr model"
      "input_digest E c input = Inr h"
      "find_replay c (receipt_key E c m a input) h (clear_dirty s) = Inr found"
      "(case found of Some y \<Rightarrow> ret y | None \<Rightarrow> run_action E c m a input model h) (clear_dirty s) = (Inr x, t)"
    unfolding execute_def
    by (elim bnd_Inr_iff[THEN iffD1, elim_format] exE conjE) (simp only: act_simps prod.inject, elim conjE, simp)
  show thesis
  proof (cases found)
    case None
    with b show thesis by (intro Ran[of a h model]) (auto split: if_splits)
  next
    case (Some y)
    with b show thesis by (intro Replayed[of a h model]) (auto split: if_splits)
  qed
qed

lemma authorize_cases:
  assumes "authorize E c m aid input = Inr a"
  shows "assert_context c = Inr ()" "action_by_key m aid = Some a" "assert_plan c m = Inr ()"
    "assert_role c a = Inr ()" "assert_scope c m (a_scope a) = Inr ()"
    "validate_input E (a_input a) input = Inr ()"
  using assms by (auto simp: authorize_def bind_e_Inr_iff split: option.splits sum.splits)

lemma authorize_action: "authorize E c m aid input = Inr a \<Longrightarrow> a_module a = m \<and> a_id a = aid \<and> well_gated a"
  using authorize_cases(2)[of E c m aid input a] action_by_key_Some actions_well_gated by blast

section \<open>Authorization\<close>

text \<open>C1: Authorization. A command that returns was registered under the requested name, by an actor
  recorded as a workspace member with exactly the role it claims, whose role and plan reach the
  minimum of the action and its module, and whose token scopes grant the action; and its input conforms to
  the schema of the action: every required field is there, every declared field has the type, length,
  pattern, range and members its schema asks for, and no other field is sent, but for the names every
  object inherits, which the validator lets pass.\<close>

theorem execute_authorized:
  assumes "execute E c m aid input s = (Inr x, t)"
  shows "\<exists>a b role plan. action_by_key m aid = Some a \<and> module_by_id m = Some b
     \<and> map_of (c_members c) (c_actor c) = Some (c_role c)
     \<and> role_of (c_role c) = Some role \<and> a_role a \<le> role
     \<and> plan_of (c_plan c) = Some plan \<and> m_min_plan b \<le> plan
     \<and> (\<exists>g \<in> set (case c_scopes c of None \<Rightarrow> [''*''] | Some ss \<Rightarrow> ss).
          g \<in> {''*'', m @ '':*'', m @ '':'' @ scope_text (a_scope a)})
     \<and> input_conforms E (a_input a) input"
proof -
  obtain a where a: "authorize E c m aid input = Inr a" using assms by (elim execute_cases) auto
  note ok = authorize_cases[OF a]
  from ok(1) obtain role plan where rp: "role_of (c_role c) = Some role" "plan_of (c_plan c) = Some plan"
      "map_of (c_members c) (c_actor c) = Some (c_role c)"
    by (auto simp: assert_context_def bind_e_Inr_iff split: if_splits)
  from ok(3) rp obtain b where b: "module_by_id m = Some b" "m_min_plan b \<le> plan"
    by (auto simp: assert_plan_def plan_below_def split: option.splits)
  from ok(4) rp have "a_role a \<le> role" by (simp add: assert_role_def role_below_def)
  with ok(2,5) rp b validated_input_conforms[OF ok(6)] show ?thesis by (auto simp: assert_scope_def Let_def)
qed

section \<open>Evolution of the store\<close>

lemma keeps_draw: "keeps (evolving E) (draw_uuid E)" "keeps keying (draw_uuid E)"
  "keeps (confining c) (draw_uuid E)" "keeps (hashing E) (draw_uuid E)" "keeps logging (draw_uuid E)"
  by (simp_all add: keeps_def evolving_def evolves_draw keying_def well_keyed_def confining_def all_in_def
      hashing_def dirty_hashed_def logging_def)

lemma records_store_receipt [simp]:
  "e_records (store_receipt c m a k h key x s) = e_records s" "e_dirty (store_receipt c m a k h key x s) = e_dirty s"
  "e_draws (store_receipt c m a k h key x s) = e_draws s" "e_external (store_receipt c m a k h key x s) = e_external s"
  by (simp_all add: store_receipt_def split: option.split)

lemma keeps_store: "keeps (evolving E) (modifies (store_receipt c m a k h key x))"
  "keeps keying (modifies (store_receipt c m a k h key x))"
  "keeps (confining w) (modifies (store_receipt c m a k h key x))"
  by (simp_all add: keeps_def evolving_def evolves_def fresh_from_def successor_refl keying_def
      well_keyed_def confining_def all_in_def)

lemma records_clear_dirty [simp]:
  "e_records (clear_dirty s) = e_records s" "e_receipts (clear_dirty s) = e_receipts s"
  "e_external (clear_dirty s) = e_external s" "e_draws (clear_dirty s) = e_draws s" "e_dirty (clear_dirty s) = []"
  by (simp_all add: clear_dirty_def)

lemma keeps_clear: "keeps (evolving E) (modifies clear_dirty)" "keeps keying (modifies clear_dirty)"
  "keeps (confining w) (modifies clear_dirty)"
  by (simp_all add: keeps_def evolving_def evolves_def fresh_from_def successor_refl keying_def
      well_keyed_def confining_def all_in_def)

lemma same_approve: "keeps unchanged (approve E c a input now)"
  unfolding approve_def by (intro keeps_rules)

lemma evolving_execute: "keeps (evolving E) (execute E c m aid input)"
  unfolding execute_def run_action_def Let_def
  by (intro ev.rules keeps_clear keeps_store keeps_draw ev.keeps_evaluate ev.keeps_unchanged[OF same_approve])

lemma keying_execute: "keeps keying (execute E c m aid input)"
  unfolding execute_def run_action_def Let_def
  by (intro ky.rules keeps_clear keeps_store keeps_draw ky.keeps_evaluate ky.keeps_unchanged[OF same_approve])

lemma confining_execute: "keeps (confining c) (execute E c m aid input)"
  unfolding execute_def run_action_def Let_def
  by (intro cf.rules keeps_clear keeps_store keeps_draw cf.keeps_evaluate cf.keeps_unchanged[OF same_approve])

text \<open>C21: Records only evolve. Whatever a command does, and whether it returns or throws, no record
  disappears or changes its identifier, workspace, module, type or creation time, and any record that
  differs afterwards has a strictly larger version; nothing leaves the workspace of the request.\<close>

theorem execute_evolves:
  assumes "execute E c m aid input s = (r, t)" and "fresh_from E s" and "all_in (c_workspace c) s"
  shows "fresh_from E t \<and> all_in (c_workspace c) t
     \<and> (\<forall>i b. jget (e_records s) i = Some b \<longrightarrow> (\<exists>b'. jget (e_records t) i = Some b'
          \<and> b_id b' = b_id b \<and> b_workspace b' = b_workspace b \<and> b_module b' = b_module b
          \<and> b_type b' = b_type b \<and> b_created b' = b_created b
          \<and> (b' = b \<or> b_version b < b_version b')))"
  using keepsD[OF evolving_execute assms(1)] keepsD[OF confining_execute assms(1)] assms(2,3)
  by (simp add: evolving_def evolves_def confining_def successor_def same_identity_def)

text \<open>C22: Integrity of what is persisted. After a command that returns, every record handed to the
  store adapter carries the digest of exactly its module, type, title, state, version and data.\<close>

theorem changed_records_hashed:
  assumes "execute E c m aid input s = (Inr x, t)" and "b \<in> set (changed_records t)"
  shows "digest E (content_of (b_module b) (b_type b) (b_title b) (b_state b) (b_version b) (b_data b))
     = Inr (b_hash b)"
proof -
  have "dirty_hashed E t"
    using assms(1)
  proof (cases rule: execute_cases)
    case (Replayed a h model)
    then show ?thesis by (simp add: dirty_hashed_def)
  next
    case (Ran a h model)
    from Ran(5) obtain bd u ts where u: "evaluate E c a input model ts (clear_dirty s) = (Inr bd, u)"
      and t: "e_records t = e_records u" "e_dirty t = e_dirty u"
      by (elim run_action_cases) auto
    have "dirty_hashed E u"
      using keepsD[OF hs.keeps_evaluate u] by (simp add: hashing_def dirty_hashed_def)
    with t show ?thesis by (simp add: dirty_hashed_def)
  qed
  with assms(2) show ?thesis
    by (auto simp: changed_records_def dirty_hashed_def record_digest_def split: option.splits)
qed

section \<open>Commands that must not write\<close>

lemma read_dispatch: "action_by_key m aid = Some a \<Longrightarrow> a_operation a = OpRead \<Longrightarrow> keeps unchanged (dispatch E c a i ts)"
proof -
  assume "action_by_key m aid = Some a" "a_operation a = OpRead"
  then have "(a_module a, a_id a) \<in> set read_action_names"
    using action_by_key_Some read_actions by blast
  then show ?thesis
    by (auto simp: read_action_names_def dispatch_def tables_def learning_def same_read_actions)
qed

lemma no_write_evaluate:
  assumes "action_by_key m aid = Some a" and "a_operation a = OpRead \<or> is_dry_run a input"
  shows "keeps unchanged (evaluate E c a input model ts)"
  using assms read_dispatch[of m aid a E c input ts]
  by (cases "is_dry_run a input") (auto simp: evaluate_def intro!: keeps_rules read_only)

text \<open>C19: Dry runs and reads write nothing. A read action, and any action called as a dry run, leaves
  every record and the hydrated evidence as they were and hands nothing to the store.\<close>

theorem dry_run_writes_nothing:
  assumes "action_by_key m aid = Some a" and "a_operation a = OpRead \<or> is_dry_run a input"
    and "execute E c m aid input s = (Inr x, t)"
  shows "e_records t = e_records s \<and> e_external t = e_external s \<and> changed_records t = []"
  using assms(3)
proof (cases rule: execute_cases)
  case (Replayed a' h model)
  then show ?thesis by (simp add: changed_records_def)
next
  case (Ran a' h model)
  have "a' = a" using authorize_cases(2)[OF Ran(1)] assms(1) by simp
  with Ran(5) obtain bd u ts where "evaluate E c a input model ts (clear_dirty s) = (Inr bd, u)"
      "e_records t = e_records u" "e_dirty t = e_dirty u" "e_external t = e_external u"
    by (elim run_action_cases) auto
  moreover from this have "u = clear_dirty s"
    using no_write_evaluate[OF assms(1,2)] by (blast dest: unchangedD)
  ultimately show ?thesis by (simp add: changed_records_def)
qed

section \<open>AI proposals\<close>

lemma replay_flag [simp]: "au_replayed (x_audit (replay_of y))" "x_body (replay_of y) = x_body y"
  by (simp_all add: replay_of_def)

lemma find_replay_flag: "find_replay c key h s = Inr (Some x) \<Longrightarrow> au_replayed (x_audit x)"
  by (auto simp: find_replay_def split: option.splits if_splits)

lemma fresh_run:
  assumes "execute E c m aid input s = (Inr x, t)" and "\<not> au_replayed (x_audit x)"
    and "action_by_key m aid = Some a"
  obtains h model where "authorize E c m aid input = Inr a" "input_digest E c input = Inr h"
    "find_replay c (receipt_key E c m a input) h (clear_dirty s) = Inr None"
    "a_operation a = OpAi \<Longrightarrow> expected_model_policy (oget input ''modelId'') (c_model_policy c) = Inr model"
    "run_action E c m a input model h (clear_dirty s) = (Inr x, t)"
  using assms(1)
proof (cases rule: execute_cases)
  case (Replayed a' h model)
  with assms(2) find_replay_flag show ?thesis by blast
next
  case (Ran a' h model)
  have "a' = a" using authorize_cases(2)[OF Ran(1)] assms(3) by simp
  with Ran that show ?thesis by blast
qed

definition proposal_fields :: "string \<Rightarrow> obj" where
  "proposal_fields actor = [(''output'', JNull), (''proposalOnly'', JBool True),
     (''automaticMutationAllowed'', JBool False), (''applyActionId'', JNull), (''modelExecuted'', JBool False),
     (''queuedBy'', JStr actor)]"

lemma oget_append: "oget (a @ b) k = (if has_own a k then oget a k else oget b k)"
  by (auto simp: oget_def has_own_def map_add_def map_of_eq_None_iff split: option.splits)
    (force dest: map_of_SomeD)+

text \<open>The names under which a boundary records who may see a child of a meeting, course or space.\<close>

definition boundary_names :: "string list" where
  "boundary_names = [''meetingPrivacy'', ''meetingCreatedBy'', ''meetingParticipantUserRefs'',
     ''courseVisibility'', ''courseCreatedBy'', ''courseLearnerRefs'', ''learnerRef'',
     ''spaceVisibility'', ''spaceCreatedBy'', ''spaceMemberRefs'']"

lemma boundary_fields:
  "meeting_boundary E c r s = (Inr d, t) \<Longrightarrow> fst ` set d \<subseteq> set boundary_names"
  "course_boundary E c r b l s = (Inr d, t) \<Longrightarrow> fst ` set d \<subseteq> set boundary_names"
  "space_boundary E c r b s = (Inr d, t) \<Longrightarrow> fst ` set d \<subseteq> set boundary_names"
  by (auto simp: meeting_boundary_def course_boundary_def space_boundary_def Let_def bnd_Inr_iff
      boundary_names_def)

lemma learner_name: "''learnerRef'' \<in> set boundary_names"
  by (simp add: boundary_names_def)

lemma boundary_mem: "fst ` set d \<subseteq> B \<Longrightarrow> (k, v) \<in> set d \<Longrightarrow> k \<in> B"
  by force

lemma proposal_boundary_fields:
  "proposal_boundary E c r s = (Inr d, t) \<Longrightarrow> fst ` set d \<subseteq> set boundary_names"
  unfolding proposal_boundary_def Let_def
  by (auto simp: bnd_Inr_iff learner_name split: if_splits dest!: boundary_fields dest: boundary_mem)

lemma boundary_absent: "fst ` set d \<subseteq> set boundary_names \<Longrightarrow> k \<notin> set boundary_names \<Longrightarrow> \<not> has_own d k"
  by (auto simp: has_own_def)


lemma create_Inr:
  assumes "create E c m rt title st d ts s = (Inr r, t)"
  shows "b_id r = uuid_at E (e_draws s)" "b_module r = m" "b_type r = rt" "b_title r = title"
    "b_state r = st" "b_version r = 1" "b_data r = d" "b_workspace r = c_workspace c"
    "b_created r = ts" "b_updated r = ts" "record_digest E r = Inr (b_hash r)"
    "t = mark_dirty (b_id r) (put_record r (s\<lparr>e_draws := Suc (e_draws s)\<rparr>))"
  using assms by (auto simp: create_run Let_def new_record_def record_digest_def split: sum.splits)

lemma proposal_data_fields:
  assumes "fst ` set boundary \<subseteq> set boundary_names"
  shows "\<forall>(k, v) \<in> set (proposal_fields (c_actor c)). oget (proposal_data E c a i model target bound boundary h) k = v"
    "oget (proposal_data E c a i model target bound boundary h) ''modelPolicyId'' = JStr model"
  using boundary_absent[OF assms]
  by (simp_all add: proposal_fields_def proposal_data_def oget_append boundary_names_def)

lemma queue_result:
  assumes "queue_grounded_proposal E c a i model ts s = (Inr bd, t)"
  shows "\<exists>r. o_kind bd = KProposal \<and> o_records bd = [r] \<and> b_id r = uuid_at E (e_draws s)
     \<and> b_module r = a_module a \<and> b_type r = ''ai-proposal-request'' \<and> b_state r = ''queued''
     \<and> (\<forall>(k, v) \<in> set (proposal_fields (c_actor c)). oget (b_data r) k = v)
     \<and> oget (b_data r) ''modelPolicyId'' = JStr model
     \<and> t = mark_dirty (b_id r) (put_record r (s\<lparr>e_draws := Suc (e_draws s)\<rparr>))"
proof -
  from assms obtain target bound boundary h r s1 s2 s3 where
    1: "proposal_binding E c a i s = (Inr (target, bound), s1)"
    and 2: "proposal_boundary E c target s1 = (Inr boundary, s2)"
    and 3: "digest_act E (JObj (prompt_json a @ [(''invariant'', JStr prompt_invariant)])) s2 = (Inr h, s3)"
    and 4: "create E c (a_module a) ''ai-proposal-request'' (a_title a) ''queued''
            (proposal_data E c a i model target bound boundary h) ts s3 = (Inr r, t)"
    and bd: "o_kind bd = KProposal" "o_records bd = [r]"
    unfolding queue_grounded_proposal_def by (auto simp: bnd_Inr_iff)
  have "s3 = s"
    using unchangedD[OF same_proposal_binding 1] unchangedD[OF same_proposal_boundary 2]
      unchangedD[OF same_digest_act 3] by simp
  with bd create_Inr[OF 4] proposal_data_fields[OF proposal_boundary_fields[OF 2]] show ?thesis by auto
qed

text \<open>C20: AI actions only propose. A fresh AI command that is not a dry run adds exactly one record, a
  queued proposal of the actor under the trusted model policy with no output and no way to apply
  itself, under an identifier no record had; every record that was there is left exactly as it was, and the
  audit states that no model ran. The host's identifiers are unused, as random UUIDs are.\<close>

theorem ai_only_proposes:
  assumes "action_by_key m aid = Some a" and "a_operation a = OpAi" and "\<not> is_dry_run a input"
    and "execute E c m aid input s = (Inr x, t)" and "\<not> au_replayed (x_audit x)" and "fresh_from E s"
  shows "\<exists>r model. o_kind (x_body x) = KProposal \<and> o_records (x_body x) = [r]
     \<and> b_module r = m \<and> b_type r = ''ai-proposal-request'' \<and> b_state r = ''queued''
     \<and> (\<forall>(k, v) \<in> set (proposal_fields (c_actor c)). oget (b_data r) k = v)
     \<and> c_model_policy c = Some model \<and> oget (b_data r) ''modelPolicyId'' = JStr model
     \<and> jget (e_records s) (b_id r) = None
     \<and> (\<forall>i. jget (e_records t) i = (if i = b_id r then Some r else jget (e_records s) i))
     \<and> au_decision (x_audit x) = DecQueued \<and> \<not> au_model_executed (x_audit x)"
proof -
  from fresh_run[OF assms(4,5,1)] obtain h model where
    ex: "expected_model_policy (oget input ''modelId'') (c_model_policy c) = Inr model"
      "run_action E c m a input model h (clear_dirty s) = (Inr x, t)"
    using assms(2) by metis
  then obtain now ap bd u where
    ev: "evaluate E c a input model (iso_text E now) (clear_dirty s) = (Inr bd, u)"
    and x: "x = \<lparr>x_body = bd, x_audit = audit_of c m a input h ap (uuid_at E (e_draws u)) (iso_text E now)\<rparr>"
    and t: "e_records t = e_records u"
    by (elim run_action_cases) auto
  have "queue_grounded_proposal E c a input model (iso_text E now) (clear_dirty s) = (Inr bd, u)"
    using ev assms(2,3) by (simp add: evaluate_def)
  from queue_result[OF this] obtain r where r: "o_kind bd = KProposal" "o_records bd = [r]" "b_id r = uuid_at E (e_draws s)"
    "b_module r = a_module a" "b_type r = ''ai-proposal-request''" "b_state r = ''queued''"
    "\<forall>(k, v) \<in> set (proposal_fields (c_actor c)). oget (b_data r) k = v"
    "oget (b_data r) ''modelPolicyId'' = JStr model"
    "u = mark_dirty (b_id r) (put_record r ((clear_dirty s)\<lparr>e_draws := Suc (e_draws s)\<rparr>))" by auto
  have "c_model_policy c = Some model"
    using ex(1) by (auto simp: expected_model_policy_def split: option.splits json.splits if_splits)
  moreover have "a_module a = m" using action_by_key_Some[OF assms(1)] by simp
  moreover have "jget (e_records s) (b_id r) = None" using assms(6) r(3) by (simp add: fresh_from_def)
  ultimately show ?thesis using r x t assms(2,3) by (simp add: audit_of_def)
qed

section \<open>Human approval\<close>

lemma approval_checked:
  assumes "assert_approval_if_required E c a input now = Inr ap" and "a_requires_approval a"
  obtains given ts t0 p where "oget input ''approval'' = JObj given"
    "oget given ''approved'' = JBool True" "oget given ''approvedBy'' = JStr (c_actor c)"
    "oget given ''approvedAt'' = JStr ts" "parse_date E ts = Some t0" "t0 \<le> now"
    "now - t0 \<le> approval_freshness_ms" "ap = Some p" "ap_by p = c_actor c"
    "oget given ''decisionId'' = JStr (ap_decision p)" "key_pattern (ap_decision p)" "ap_reason p \<noteq> []"
  using assms
  by (auto simp: assert_approval_if_required_def split: json.splits if_splits option.splits)

text \<open>C2: Human approval. A fresh run of an approval-gated action that is not a dry run carries an
  approval given by the acting member itself, dated at most 24 hours before the trusted clock and
  never after it, under a decision identifier that no committed command of the workspace had used;
  the audit receipt records that approver and that decision.\<close>

theorem approval_enforced:
  assumes "action_by_key m aid = Some a" and "a_requires_approval a" and "\<not> is_dry_run a input"
    and "execute E c m aid input s = (Inr x, t)" and "\<not> au_replayed (x_audit x)"
  shows "\<exists>given ts t0 now did. oget input ''approval'' = JObj given
     \<and> oget given ''approved'' = JBool True \<and> oget given ''approvedBy'' = JStr (c_actor c)
     \<and> oget given ''approvedAt'' = JStr ts \<and> parse_date E ts = Some t0
     \<and> c_now c = Some now \<and> t0 \<le> now \<and> now - t0 \<le> 86400000
     \<and> oget given ''decisionId'' = JStr did \<and> key_pattern did \<and> \<not> decision_used c did s
     \<and> au_approved_by (x_audit x) = Some (c_actor c) \<and> au_decision_id (x_audit x) = Some did"
proof -
  from fresh_run[OF assms(4,5,1)] obtain h model where
    "run_action E c m a input model h (clear_dirty s) = (Inr x, t)" by metis
  then obtain now ap bd and u :: engine where now: "trusted_now c = Inr now"
    and ap: "approve E c a input now (clear_dirty s) = (Inr ap, clear_dirty s)"
    and x: "x = \<lparr>x_body = bd, x_audit = audit_of c m a input h ap (uuid_at E (e_draws u)) (iso_text E now)\<rparr>"
    by (elim run_action_cases) (rule that, assumption+)
  from ap assms(3) have ok: "assert_approval_if_required E c a input now = Inr ap"
    and unused: "\<And>p. ap = Some p \<Longrightarrow> \<not> decision_used c (ap_decision p) s"
    by (auto simp: approve_ok decision_used_def)
  from now have "c_now c = Some now" by (simp add: trusted_now_def split: option.splits)
  with approval_checked[OF ok assms(2)] unused x show ?thesis
    by (fastforce simp: audit_of_def approval_freshness_ms_def)
qed

section \<open>Idempotency\<close>

text \<open>C18: An idempotency key is bound to its first command. When an authorized retry finds a receipt
  under its key, it changes no record and no receipt: it answers with the stored result marked as a
  replay for the same actor and input, and rejects another actor or another input.\<close>

theorem idempotency_key_bound:
  assumes "authorize E c m aid input = Inr a"
    and "a_operation a = OpAi \<longrightarrow> expected_model_policy (oget input ''modelId'') (c_model_policy c) = Inr model"
    and "input_digest E c input = Inr h"
    and "receipt_key E c m a input = Some k" and "jget (e_receipts s) k = Some rec"
  shows "execute E c m aid input s =
     ((if s_actor rec \<noteq> c_actor c then Inl (IdemErr KeyOfOtherActor)
       else if s_digest rec \<noteq> h then Inl (IdemErr KeyOfOtherInput)
       else Inr (replay_of (s_result rec))), clear_dirty s)"
proof -
  obtain model' where m: "(if a_operation a = OpAi
      then expected_model_policy (oget input ''modelId'') (c_model_policy c) else Inr []) = Inr model'"
    using assms(2) by (cases "a_operation a = OpAi") auto
  show ?thesis
    unfolding execute_def using assms(1,3,4,5) m by (simp add: bnd_def find_replay_def)
qed

lemma receipt_key_actor: "receipt_key E (c\<lparr>c_now := n\<rparr>) m a i = receipt_key E c m a i"
  by (simp add: receipt_key_def Let_def)

lemma ctx_now_other: "authorize E (c\<lparr>c_now := n\<rparr>) m aid i = authorize E c m aid i"
  "input_digest E (c\<lparr>c_now := n\<rparr>) i = input_digest E c i"
  by (simp_all add: authorize_def assert_context_def[unfolded bind_e_def] assert_context_def assert_plan_def assert_role_def assert_scope_def
      input_digest_def cong: if_cong option.case_cong sum.case_cong)

lemma receipt_key_some:
  assumes "authorize E c m aid input = Inr a" and "a_operation a \<noteq> OpRead"
  shows "\<exists>k. receipt_key E c m a input = Some k"
proof -
  have g: "a_idempotent a" "''idempotencyKey'' \<in> set (i_required (a_input a))"
    "map_of (i_properties (a_input a)) ''idempotencyKey'' = Some idempotency_key_schema"
    using authorize_action[OF assms(1)] assms(2) by (auto simp: well_gated_def)
  have v: "validate_input E (a_input a) input = Inr ()" by (rule authorize_cases(6)[OF assms(1)])
  have "oget input ''idempotencyKey'' \<noteq> JUndef"
    by (rule required_present[OF v g(2)]) (simp add: proto_keys_def)
  from validated_key[OF validated_field[OF v g(3) this]]
  obtain s where "oget input ''idempotencyKey'' = JStr s" "key_pattern s" by auto
  then show ?thesis using g(1) by (auto simp: receipt_key_def key_pattern_def)
qed

lemma replay_replay [simp]: "replay_of (replay_of x) = replay_of x"
  by (simp add: replay_of_def)

text \<open>C17: Safe retry. Repeating a successful command at any later time, in the state it left, returns
  the same records and preview, flagged as replayed, and changes nothing: no second record, no second
  receipt.\<close>

theorem retry_replays:
  assumes "execute E c m aid input s = (Inr x, t)"
    and "action_by_key m aid = Some a" and "a_operation a \<noteq> OpRead"
  shows "execute E (c\<lparr>c_now := later\<rparr>) m aid input t = (Inr (replay_of x), clear_dirty t)"
proof -
  obtain h model k rec where r: "authorize E c m aid input = Inr a" "input_digest E c input = Inr h"
     "a_operation a = OpAi \<longrightarrow> expected_model_policy (oget input ''modelId'') (c_model_policy c) = Inr model"
     "receipt_key E c m a input = Some k" "jget (e_receipts t) k = Some rec"
     "s_actor rec = c_actor c" "s_digest rec = h" "replay_of (s_result rec) = replay_of x"
    using assms(1)
  proof (cases rule: execute_cases)
    case (Replayed a' h model)
    have a: "a' = a" using authorize_cases(2)[OF Replayed(1)] assms(2) by simp
    obtain k rec where "receipt_key E c m a input = Some k" "jget (e_receipts s) k = Some rec"
        "s_actor rec = c_actor c" "s_digest rec = h" "x = replay_of (s_result rec)"
      using Replayed(4) a by (auto simp: find_replay_def split: option.splits if_splits)
    with Replayed a show ?thesis by (intro that[of h model k rec]) auto
  next
    case (Ran a' h model)
    have a: "a' = a" using authorize_cases(2)[OF Ran(1)] assms(2) by simp
    with receipt_key_some[OF Ran(1)] assms(3) obtain k where k: "receipt_key E c m a input = Some k" by auto
    with Ran(5) a obtain rec where "jget (e_receipts t) k = Some rec" "s_actor rec = c_actor c"
        "s_digest rec = h" "s_result rec = x"
      by (elim run_action_cases) (auto simp: store_receipt_def jget_jset)
    with Ran a k show ?thesis by (intro that[of h model k rec]) auto
  qed
  show ?thesis
    using idempotency_key_bound[of E "c\<lparr>c_now := later\<rparr>" m aid input a model h k t rec] r
    by (simp add: ctx_now_other receipt_key_actor)
qed

section \<open>Histories of commands\<close>

text \<open>The states a hydrated engine can reach by any sequence of commands, failing ones included.\<close>

inductive reaches :: "js_env \<Rightarrow> engine \<Rightarrow> engine \<Rightarrow> bool" for E s where
  start: "reaches E s s"
| step: "reaches E s t \<Longrightarrow> execute E c m aid input t = (r, u) \<Longrightarrow> reaches E s u"

inductive_cases reaches_stepE: "reaches E s u"

lemma evaluate_logs: "evaluate E c a input model ts s = (r, t) \<Longrightarrow> e_receipts t = e_receipts s"
  using keepsD[OF lg.keeps_evaluate] by (fastforce simp: logging_def)

lemma run_action_error:
  "run_action E c m a input model h s = (Inl e, t) \<Longrightarrow> e_receipts t = e_receipts s"
  unfolding run_action_def
  by (auto simp: bnd_Inl_iff Let_def dest!: evaluate_logs unchangedD[OF same_approve])

lemma execute_error: "execute E c m aid input s = (Inl e, t) \<Longrightarrow> e_receipts t = e_receipts s"
  unfolding execute_def
  by (auto simp: bnd_Inl_iff dest!: run_action_error split: option.splits)

definition decisions_unique :: "engine \<Rightarrow> bool" where
  "decisions_unique s \<longleftrightarrow> (\<forall>k1 k2 r1 r2 d. jget (e_receipts s) k1 = Some r1 \<longrightarrow> jget (e_receipts s) k2 = Some r2
     \<longrightarrow> s_workspace r1 = s_workspace r2 \<longrightarrow> au_decision_id (x_audit (s_result r1)) = Some d
     \<longrightarrow> au_decision_id (x_audit (s_result r2)) = Some d \<longrightarrow> k1 = k2)"

lemma store_receipt_unique:
  assumes "decisions_unique u" and "\<And>d. au_decision_id (x_audit x) = Some d \<Longrightarrow> \<not> decision_used c d u"
  shows "decisions_unique (store_receipt c m a k h key x u)"
proof -
  have free: "au_decision_id (x_audit (s_result r)) \<noteq> Some d"
    if "jget (e_receipts u) j = Some r" "s_workspace r = c_workspace c" "au_decision_id (x_audit x) = Some d" for j r d
    using that assms(2) by (auto simp: decision_used_def dest: jget_in_vals)
  show ?thesis
    using assms(1) free unfolding decisions_unique_def store_receipt_def
    by (auto simp: jget_jset split: option.splits if_splits)
qed

lemma execute_decisions:
  assumes "execute E c m aid input s = (r, t)" and "decisions_unique s"
  shows "decisions_unique t"
proof (cases r)
  case (Inl e)
  with assms execute_error[of E c m aid input s e t] show ?thesis by (simp add: decisions_unique_def)
next
  case (Inr x)
  with assms(1) have "execute E c m aid input s = (Inr x, t)" by simp
  then show ?thesis
  proof (cases rule: execute_cases)
    case (Replayed a h model)
    with assms(2) show ?thesis by (simp add: decisions_unique_def)
  next
    case (Ran a h model)
    from Ran(5) obtain now ap bd u where
      ap: "approve E c a input now (clear_dirty s) = (Inr ap, clear_dirty s)"
      and u: "evaluate E c a input model (iso_text E now) (clear_dirty s) = (Inr bd, u)"
      and x: "au_decision_id (x_audit x) = map_option ap_decision ap"
      and t: "t = store_receipt c m a (to_str E (oget input ''idempotencyKey'')) h (receipt_key E c m a input) x
           (u\<lparr>e_draws := Suc (e_draws u)\<rparr>)"
      by (elim run_action_cases) (auto simp: audit_of_def)
    have rc: "e_receipts u = e_receipts s" using evaluate_logs[OF u] by simp
    have "\<not> decision_used c d (u\<lparr>e_draws := Suc (e_draws u)\<rparr>)" if "au_decision_id (x_audit x) = Some d" for d
      using that ap x rc by (auto simp: approve_ok decision_used_def split: if_splits)
    moreover have "decisions_unique (u\<lparr>e_draws := Suc (e_draws u)\<rparr>)"
      using assms(2) rc by (simp add: decisions_unique_def)
    ultimately show ?thesis unfolding t by (rule store_receipt_unique[rotated])
  qed
qed

text \<open>C3: An approval decision is spent once. However commands, failures, retries and actors follow
  one another after hydration, no two receipts of a workspace carry the same approval decision.\<close>

theorem decision_spent_once:
  assumes "reaches E s t" and "e_receipts s = []"
    and "jget (e_receipts t) k1 = Some r1" and "jget (e_receipts t) k2 = Some r2"
    and "s_workspace r1 = s_workspace r2"
    and "au_decision_id (x_audit (s_result r1)) = Some d" and "au_decision_id (x_audit (s_result r2)) = Some d"
  shows "k1 = k2"
proof -
  have "decisions_unique t"
    using assms(1,2) by (induction rule: reaches.induct) (auto simp: decisions_unique_def[of s] intro: execute_decisions)
  with assms(3-) show ?thesis unfolding decisions_unique_def by blast
qed

end
