(* ===== verification/Action_Gates.thy ===== *)
theory Action_Gates
  imports Additive_Actions
begin

text \<open>
  What the registry of additive actions (\<open>src/shared/additive-business-actions.ts\<close>) asks of its commands:
  exactly which commands can be dry-run under an approval, and exactly which demand the version of the
  record they edit. Properties of "every gated command" and "every version-locked command" quantify over the
  registry and reach the handlers through these tables.
\<close>

section \<open>Gated commands\<close>

definition gated_commands :: "(string \<times> string) list" where
  "gated_commands = [(''tables'', ''import-apply''), (''meetings'', ''transcript-redact''),
     (''insights'', ''observation-import''), (''insights'', ''snapshot-freeze''), (''learning'', ''credential-issue''),
     (''community'', ''post-hide''), (''community'', ''member-role-set''), (''community'', ''announcement-publish'')]"

text \<open>The commands that demand \<open>expectedVersion\<close>, with the field that names the record.\<close>

definition locked_actions :: "((string \<times> string) \<times> string) list" where
  "locked_actions = [((''tables'', ''row-update''), ''rowId''), ((''meetings'', ''transcript-redact''), ''segmentId''),
     ((''community'', ''post-hide''), ''postId''), ((''community'', ''member-role-set''), ''memberId'')]"

definition gate_tables_ok :: "draft \<Rightarrow> bool" where
  "gate_tables_ok d \<longleftrightarrow>
     (or_default (d_supports_dry_run d) (or_default (d_destructive d) False) \<longrightarrow> (d_module d, d_id d) \<in> set gated_commands)
     \<and> (''expectedVersion'' \<in> set (d_required d) \<longrightarrow> (d_module d, d_id d) \<in> fst ` set locked_actions)"

lemma draft_of_gates [simp]:
  "d_required (draft_of m p i t op rt r ps ex) = r" "d_supports_dry_run (draft_of m p i t op rt r ps ex) = None"
  "d_destructive (draft_of m p i t op rt r ps ex) = None"
  by (simp_all add: draft_of_def)

lemma gate_plain:
  "''expectedVersion'' \<notin> set r \<or> (m, i) \<in> fst ` set locked_actions \<Longrightarrow> gate_tables_ok (draft_of m p i t op rt r ps ex)"
  by (simp add: gate_tables_ok_def or_default_def draft_of_sel)

lemma gate_update:
  "gate_tables_ok d \<Longrightarrow> gate_tables_ok (d\<lparr>d_requires_approval := x\<rparr>)"
  "gate_tables_ok d \<Longrightarrow> gate_tables_ok (d\<lparr>d_risk := y\<rparr>)"
  "gate_tables_ok d \<Longrightarrow> gate_tables_ok (d\<lparr>d_external := z\<rparr>)"
  "gate_tables_ok d \<Longrightarrow> gate_tables_ok (d\<lparr>d_minimum_role := w\<rparr>)"
  "gate_tables_ok d \<Longrightarrow> (d_module d, d_id d) \<in> set gated_commands \<Longrightarrow> gate_tables_ok (d\<lparr>d_supports_dry_run := x\<rparr>)"
  "gate_tables_ok d \<Longrightarrow> (d_module d, d_id d) \<in> set gated_commands \<Longrightarrow> gate_tables_ok (d\<lparr>d_destructive := x\<rparr>)"
  by (simp_all add: gate_tables_ok_def)

lemmas gate_sel = draft_of_sel draft_update_sel

lemma drafts_gated: "\<forall>d \<in> set additive_drafts. gate_tables_ok d"
  by (rule all_drafts; unfold drafts_defs;
      intro list_all_intros gate_update gate_plain;
      simp add: gate_sel gated_commands_def locked_actions_def)

section \<open>From drafts to actions\<close>

lemma action_draft:
  assumes "a \<in> set additive_actions"
  obtains d where "d \<in> set additive_drafts" "define_action d = Inr a"
  using each_e_set_back[OF conjunct1[OF registry_defined] assms] by blast

lemma if_Inr: "(if c then Inl x else Inr y) = Inr z \<longleftrightarrow> \<not> c \<and> z = y"
  by auto

lemma define_action_gates:
  assumes "define_action d = Inr a"
  shows "a_module a = d_module d" "a_id a = d_id d" "a_operation a = d_operation d"
    "a_supports_dry_run a = or_default (d_supports_dry_run d) (d_operation d = OpAi \<or> or_default (d_destructive d) False)"
    "set (i_required (a_input a)) \<subseteq> set (d_required d) \<union> {''idempotencyKey'', ''dryRun''}"
proof -
  note a = conjunct2[OF assms[unfolded define_action_def Let_def if_Inr]]
  show "a_module a = d_module d" "a_id a = d_id d" "a_operation a = d_operation d"
    "a_supports_dry_run a = or_default (d_supports_dry_run d) (d_operation d = OpAi \<or> or_default (d_destructive d) False)"
    by (simp_all only: a action.simps)
  show "set (i_required (a_input a)) \<subseteq> set (d_required d) \<union> {''idempotencyKey'', ''dryRun''}"
    by (simp only: a action.simps input_schema.simps set_uniq) auto
qed

lemma required_kept: "define_action d = Inr a \<Longrightarrow> set (d_required d) \<subseteq> set (i_required (a_input a))"
proof -
  assume d: "define_action d = Inr a"
  note a = conjunct2[OF d[unfolded define_action_def Let_def if_Inr]]
  show ?thesis by (simp only: a action.simps input_schema.simps set_uniq) auto
qed

lemma gated_action:
  assumes "action_by_key m i = Some a" and "a_supports_dry_run a" and "a_operation a \<noteq> OpAi"
  shows "(m, i) \<in> set gated_commands \<and> a_operation a = OpMutation"
proof -
  have a: "a \<in> set additive_actions" "a_module a = m" "a_id a = i" using action_by_key_Some[OF assms(1)] by auto
  obtain d where d: "d \<in> set additive_drafts" "define_action d = Inr a" by (rule action_draft[OF a(1)])
  have "a_operation a \<noteq> OpRead" using actions_well_gated[OF a(1)] assms(2) by (auto simp: well_gated_def)
  with define_action_gates(1-4)[OF d(2)] bspec[OF drafts_gated d(1)] a assms(2,3) show ?thesis
    by (cases "a_operation a") (auto simp: gate_tables_ok_def)
qed

lemma locked_action:
  assumes "action_by_key m i = Some a" and "''expectedVersion'' \<in> set (i_required (a_input a))"
  shows "\<exists>field. ((m, i), field) \<in> set locked_actions"
proof -
  have a: "a \<in> set additive_actions" "a_module a = m" "a_id a = i" using action_by_key_Some[OF assms(1)] by auto
  obtain d where d: "d \<in> set additive_drafts" "define_action d = Inr a" by (rule action_draft[OF a(1)])
  have "''expectedVersion'' \<in> set (d_required d)" using define_action_gates(5)[OF d(2)] assms(2) by auto
  then have "(m, i) \<in> fst ` set locked_actions"
    using define_action_gates(1,2)[OF d(2)] bspec[OF drafts_gated d(1)] a by (simp add: gate_tables_ok_def)
  then show ?thesis by force
qed

end
