(* ===== verification/Additive_Commands.thy ===== *)
theory Additive_Commands
  imports Additive_Properties Action_Gates
begin

text \<open>
  Functional properties of single command handlers of the additive engine: optimistic locking,
  redaction, credential issue, exact imports, visible listings, and the agreement of dry-run
  previews with the commands they announce.
\<close>

section \<open>What a successful step tells\<close>

lemma owned_Inr:
  "owned E c v m rt s = (Inr r, t) \<longleftrightarrow> t = s \<and> (\<exists>i. v = JStr i \<and> jget (e_records s) i = Some r)
     \<and> b_workspace r = c_workspace c \<and> can_read E c r
     \<and> (\<forall>w. m = Some w \<longrightarrow> b_module r = w) \<and> (\<forall>w. rt = Some w \<longrightarrow> b_type r = w)"
  by (cases v) (auto simp: owned_def bnd_def split: option.splits)

lemma guard_Inr: "guard b e s = (Inr u, t) \<longleftrightarrow> b \<and> t = s"
  by (auto simp: guard_def)

lemma expected_version_Inr:
  "assert_expected_version r v s = (Inr u, t) \<longleftrightarrow> v = jint (b_version r) \<and> t = s"
  by (simp add: assert_expected_version_def guard_Inr)

lemma schema_act_Inr: "schema_act r s = (Inr x, t) \<longleftrightarrow> r = Inr x \<and> t = s"
  by (auto simp: schema_act_def split: sum.splits)

lemma digest_act_Inr: "digest_act E v s = (Inr h, t) \<longleftrightarrow> digest E v = Inr h \<and> t = s"
  by (auto simp: digest_act_run split: sum.splits)

lemma one_record_Inr: "one_record m s = (Inr bd, t) \<longleftrightarrow> (\<exists>r. m s = (Inr r, t) \<and> bd = command [r])"
  by (auto simp: one_record_def bnd_Inr_iff)

lemma unchanged_Inr: "keeps unchanged m \<Longrightarrow> m s = (Inr x, t) \<longleftrightarrow> t = s \<and> fst (m s) = Inr x"
  using unchangedD by (metis fst_conv prod.collapse)

lemmas Inr_facts = bnd_Inr_iff owned_Inr guard_Inr expected_version_Inr schema_act_Inr digest_act_Inr
  one_record_Inr same_boundaries[THEN unchanged_Inr] same_validate_row[THEN unchanged_Inr]
  same_validate_import[THEN unchanged_Inr] same_evidence_of[THEN unchanged_Inr]
  same_import_hash[THEN unchanged_Inr] same_eligibility[THEN unchanged_Inr]
  same_observations[THEN unchanged_Inr] same_table_fields[THEN unchanged_Inr]

lemma command_simps [simp]: "o_records (command rs) = rs" "o_kind (command rs) = KCommand" "o_preview (command rs) = None"
  by (simp_all add: command_def)

text \<open>A successful update of a stored record.\<close>

lemma update_Inr:
  assumes "update E r title st d ts s = (Inr r', t)" and "jget (e_records s) i = Some r" and "well_keyed s"
  shows "\<exists>h. r' = (patched r title st d ts)\<lparr>b_hash := h\<rparr>
     \<and> (\<forall>j. jget (e_records t) j = (if j = i then Some r' else jget (e_records s) j))"
proof -
  have "b_id r = i" using assms(2,3) by (simp add: well_keyed_def)
  with assms(1,2) show ?thesis
    by (auto simp: update_run Let_def current_def records_assign_at split: sum.splits)
qed

section \<open>Optimistic locking\<close>

lemma locked_steps:
  "row_update E c i ts s = (Inr bd, t) \<Longrightarrow> \<exists>k r st d. oget i ''rowId'' = JStr k \<and> jget (e_records s) k = Some r
     \<and> oget i ''expectedVersion'' = jint (b_version r) \<and> one_record (update E r None st (Some d) ts) s = (Inr bd, t)"
  "transcript_redact E c i ts s = (Inr bd, t) \<Longrightarrow> \<exists>k r st d. oget i ''segmentId'' = JStr k \<and> jget (e_records s) k = Some r
     \<and> oget i ''expectedVersion'' = jint (b_version r) \<and> one_record (update E r None st (Some d) ts) s = (Inr bd, t)"
  "post_hide E c i ts s = (Inr bd, t) \<Longrightarrow> \<exists>k r st d. oget i ''postId'' = JStr k \<and> jget (e_records s) k = Some r
     \<and> oget i ''expectedVersion'' = jint (b_version r) \<and> one_record (update E r None st (Some d) ts) s = (Inr bd, t)"
  "member_role_set E c i ts s = (Inr bd, t) \<Longrightarrow> \<exists>k r st d. oget i ''memberId'' = JStr k \<and> jget (e_records s) k = Some r
     \<and> oget i ''expectedVersion'' = jint (b_version r) \<and> one_record (update E r None st (Some d) ts) s = (Inr bd, t)"
     apply (simp add: row_update_def Inr_facts Let_def, blast)
    apply (simp add: transcript_redact_def owned_meeting_def Inr_facts, blast)
   apply (simp add: post_hide_def owned_post_def owned_space_def Inr_facts, blast)
  apply (simp add: member_role_set_def owned_space_def Inr_facts, blast)
  done

text \<open>C23: Optimistic locking. Every registered command whose input schema demands the expected version
  succeeds only when the caller named the current version of the record it edits, returns that record one
  version later, and leaves every other record as it was. (The commands that add a participant, learner,
  member or reaction demand no version.)\<close>

theorem optimistic_lock:
  assumes "action_by_key m aid = Some a" and "''expectedVersion'' \<in> set (i_required (a_input a))" and "well_keyed s"
    and "dispatch E c a i ts s = (Inr bd, t)"
  shows "\<exists>field k r r'. ((m, aid), field) \<in> set locked_actions \<and> oget i field = JStr k \<and> jget (e_records s) k = Some r
     \<and> oget i ''expectedVersion'' = jint (b_version r)
     \<and> o_records bd = [r'] \<and> b_id r' = k \<and> b_version r' = b_version r + 1 \<and> b_updated r' = ts
     \<and> (\<forall>j. jget (e_records t) j = (if j = k then Some r' else jget (e_records s) j))"
proof -
  obtain field where f: "((m, aid), field) \<in> set locked_actions" using locked_action[OF assms(1,2)] by blast
  have a: "a_module a = m" "a_id a = aid" using action_by_key_Some[OF assms(1)] by auto
  have "\<exists>k r st d. oget i field = JStr k \<and> jget (e_records s) k = Some r
     \<and> oget i ''expectedVersion'' = jint (b_version r) \<and> one_record (update E r None st (Some d) ts) s = (Inr bd, t)"
    using f assms(4) a
    by (auto simp: locked_actions_def dispatch_def tables_def meetings_def community_def dest!: locked_steps) blast+
  then obtain k r st d r' where k: "oget i field = JStr k" "jget (e_records s) k = Some r"
     "oget i ''expectedVersion'' = jint (b_version r)" "update E r None st (Some d) ts s = (Inr r', t)"
     "bd = command [r']" by (auto simp: one_record_Inr)
  from update_Inr[OF k(4,2) assms(3)] k assms(3) f show ?thesis
    by (auto simp: patched_def well_keyed_def)
qed

section \<open>Redaction and moderation\<close>

lemma oget_spread: "oget (spread d e) k = (case map_of (rev e) k of Some v \<Rightarrow> v | None \<Rightarrow> oget d k)"
proof (induction e arbitrary: d)
  case (Cons p e)
  obtain j v where "p = (j, v)" by fastforce
  with Cons show ?case by (auto simp: oget_oset map_add_def split: option.split)
qed simp

lemma oget_spread_boundary:
  assumes "fst ` set b \<subseteq> set boundary_names" and "k \<notin> set boundary_names"
  shows "oget (spread d (b @ e)) k = oget (spread d e) k"
proof -
  have "map_of (rev b) k = None" using assms by (auto simp: map_of_eq_None_iff)
  then show ?thesis by (simp add: oget_spread map_add_def split: option.split)
qed

text \<open>Redaction. A successful redaction leaves no transcript text in the stored segment, states who
  redacted it, when and why, and keeps every other field except the recomputed meeting boundary.\<close>

theorem redaction_erases_text:
  assumes "well_keyed s" and "transcript_redact E c i ts s = (Inr bd, t)"
  shows "\<exists>k r r'. oget i ''segmentId'' = JStr k \<and> jget (e_records s) k = Some r \<and> jget (e_records t) k = Some r'
     \<and> b_state r' = ''redacted'' \<and> oget (b_data r') ''text'' = JNull \<and> oget (b_data r') ''redacted'' = JBool True
     \<and> oget (b_data r') ''redactedBy'' = JStr (c_actor c) \<and> oget (b_data r') ''redactedAt'' = JStr ts
     \<and> oget (b_data r') ''redactionReason'' = oget i ''reason''
     \<and> (\<forall>f. f \<notin> {''text'', ''redacted'', ''redactedBy'', ''redactedAt'', ''redactionReason''} \<union> set boundary_names
           \<longrightarrow> oget (b_data r') f = oget (b_data r) f)"
proof -
  let ?own = "[(''text'', JNull), (''redacted'', JBool True), (''redactedBy'', JStr (c_actor c)),
    (''redactedAt'', JStr ts), (''redactionReason'', oget i ''reason'')]"
  from assms(2) obtain k r meeting b r' where k: "oget i ''segmentId'' = JStr k" "jget (e_records s) k = Some r"
    and b: "fst (meeting_boundary E c meeting s) = Inr b"
    and u: "update E r None (Some ''redacted'') (Some (spread (b_data r) (b @ ?own))) ts s = (Inr r', t)"
    by (auto simp: transcript_redact_def owned_meeting_def Inr_facts)
  have "oget (spread (b_data r) (b @ ?own)) f = oget (spread (b_data r) ?own) f" if "f \<notin> set boundary_names" for f
    using b boundary_fields(1)[of E c meeting s b s] that
    by (intro oget_spread_boundary) (simp_all add: Inr_facts)
  with update_Inr[OF u k(2) assms(1)] have d: "oget (b_data r') f = oget (spread (b_data r) ?own) f"
    if "f \<notin> set boundary_names" for f using that by (auto simp: patched_def or_default_def)
  have "b_state r' = ''redacted''" "jget (e_records t) k = Some r'"
    using update_Inr[OF u k(2) assms(1)] by (auto simp: patched_def or_default_def)
  moreover have "oget (b_data r') f = oget (b_data r) f"
    if "f \<notin> {''text'', ''redacted'', ''redactedBy'', ''redactedAt'', ''redactionReason''} \<union> set boundary_names" for f
    using that by (simp add: d oget_oset)
  moreover have "\<forall>f \<in> set (map fst ?own). oget (b_data r') f = oget (spread (b_data r) ?own) f"
    using d by (simp add: boundary_names_def)
  ultimately show ?thesis using k by (intro exI[of _ k] exI[of _ r] exI[of _ r']) (simp add: oget_oset)
qed

text \<open>Moderation keeps the evidence. Hiding a post changes its state and records the moderator, the
  time and the reason, but its body and evidence bindings stay as they were.\<close>

theorem hide_preserves_body:
  assumes "well_keyed s" and "post_hide E c i ts s = (Inr bd, t)"
  shows "\<exists>k r r'. oget i ''postId'' = JStr k \<and> jget (e_records s) k = Some r \<and> jget (e_records t) k = Some r'
     \<and> b_state r' = ''hidden'' \<and> oget (b_data r') ''body'' = oget (b_data r) ''body''
     \<and> oget (b_data r') ''evidenceBindings'' = oget (b_data r) ''evidenceBindings''
     \<and> oget (b_data r') ''moderation'' = JObj [(''hiddenBy'', JStr (c_actor c)), (''hiddenAt'', JStr ts),
          (''reason'', oget i ''reason'')]"
proof -
  let ?own = "[(''moderation'', JObj [(''hiddenBy'', JStr (c_actor c)), (''hiddenAt'', JStr ts),
    (''reason'', oget i ''reason'')]), (''bodyPreserved'', JBool True)]"
  from assms(2) obtain k r space b r' where k: "oget i ''postId'' = JStr k" "jget (e_records s) k = Some r"
    and b: "fst (space_boundary E c space True s) = Inr b"
    and u: "update E r None (Some ''hidden'') (Some (spread (b_data r) (b @ ?own))) ts s = (Inr r', t)"
    by (auto simp: post_hide_def owned_post_def owned_space_def Inr_facts)
  have "oget (spread (b_data r) (b @ ?own)) f = oget (spread (b_data r) ?own) f" if "f \<notin> set boundary_names" for f
    using b boundary_fields(3)[of E c space True s b s] that
    by (intro oget_spread_boundary) (simp_all add: Inr_facts)
  with update_Inr[OF u k(2) assms(1)] have d: "oget (b_data r') f = oget (spread (b_data r) ?own) f"
    if "f \<notin> set boundary_names" for f using that by (auto simp: patched_def or_default_def)
  have "b_state r' = ''hidden''" "jget (e_records t) k = Some r'"
    using update_Inr[OF u k(2) assms(1)] by (auto simp: patched_def or_default_def)
  moreover have "\<forall>f \<in> set [''body'', ''evidenceBindings'', ''moderation'']. oget (b_data r') f = oget (spread (b_data r) ?own) f"
    using d by (simp add: boundary_names_def)
  ultimately show ?thesis using k by (intro exI[of _ k] exI[of _ r] exI[of _ r']) (simp add: oget_oset)
qed

section \<open>Previews announce their commands\<close>

text \<open>Every failure of \<open>m\<close> is content without canonical form or one of the named errors.\<close>

definition fails_within :: "err set \<Rightarrow> 'a eng \<Rightarrow> bool" where
  "fails_within X m \<longleftrightarrow> (\<forall>s e t. m s = (Inl e, t) \<longrightarrow> (\<exists>k. e = CanonErr k) \<or> e \<in> X)"

text \<open>
  \<open>announces X p m\<close>: whenever the preview \<open>p\<close> throws, the command \<open>m\<close> throws the same error
  in the same state; whenever it returns, \<open>m\<close> can fail only on content that has no canonical form
  or with an error of \<open>X\<close>.
\<close>

definition announces :: "err set \<Rightarrow> 'a eng \<Rightarrow> 'b eng \<Rightarrow> bool" where
  "announces X p m \<longleftrightarrow> (\<forall>s. (\<forall>e t. p s = (Inl e, t) \<longrightarrow> m s = (Inl e, t))
     \<and> (\<forall>x t e u. p s = (Inr x, t) \<longrightarrow> m s = (Inl e, u) \<longrightarrow> (\<exists>k. e = CanonErr k) \<or> e \<in> X))"

lemma within_ret: "fails_within X (ret x)" "fails_within X (reads f)"
  by (simp_all add: fails_within_def reads_def)

lemma within_guard: "e \<in> X \<Longrightarrow> fails_within X (guard b e)"
  by (simp add: fails_within_def guard_def)

lemma within_bnd: "fails_within X m \<Longrightarrow> (\<And>x. fails_within X (f x)) \<Longrightarrow> fails_within X (bnd m f)"
  unfolding fails_within_def bnd_Inl_iff by blast

lemma within_create: "fails_within X (create E c m rt title st d ts)"
  by (auto simp: fails_within_def create_run Let_def split: sum.splits)

lemma within_update: "fails_within X (update E r title st d ts)"
  by (auto simp: fails_within_def update_run Let_def split: sum.splits)

lemma within_digest: "fails_within X (digest_act E v)"
  by (auto simp: fails_within_def digest_act_run split: sum.splits)

lemma within_each: "(\<And>x. fails_within X (f x)) \<Longrightarrow> fails_within X (each f xs)"
  by (induction xs) (simp_all only: each.simps within_ret within_bnd)

lemma within_one: "fails_within X m \<Longrightarrow> fails_within X (one_record m)"
  unfolding one_record_def by (intro within_bnd within_ret)

lemma within_Let: "(\<And>x. fails_within X (f x)) \<Longrightarrow> fails_within X (let x = v in f x)"
  by simp

lemma within_prod: "(\<And>a b. fails_within X (f a b)) \<Longrightarrow> fails_within X (case p of (a, b) \<Rightarrow> f a b)"
  by (cases p) simp

lemmas within_rules = within_ret within_bnd within_create within_update within_digest within_each within_one within_Let
  within_prod

lemma announces_ret: "fails_within X m \<Longrightarrow> announces X (ret x) m"
  by (auto simp: announces_def fails_within_def)

lemma announces_bnd: "(\<And>x. announces X (f x) (g x)) \<Longrightarrow> announces X (bnd m f) (bnd m g)"
  unfolding announces_def bnd_Inl_iff bnd_Inr_iff by (metis Inl_Inr_False prod.inject sum.inject(2))

lemma announces_error: "announces X p m \<Longrightarrow> p s = (Inl e, t) \<Longrightarrow> m s = (Inl e, t)"
  by (simp add: announces_def)

lemma announces_return:
  "announces X p m \<Longrightarrow> p s = (Inr x, t) \<Longrightarrow> m s = (Inl e, u) \<Longrightarrow> (\<exists>k. e = CanonErr k) \<or> e \<in> X"
  unfolding announces_def by blast

lemmas announce_rules = announces_bnd announces_ret within_rules

text \<open>
  A credential preview does not look for a credential that was already issued; the proposal preview does
  not look at the access boundary of its target.
\<close>

lemma announced_previews:
  "announces X (preview_import E c i) (import_apply E c i ts)"
  "announces X (preview_redact E c i) (transcript_redact E c i ts)"
  "announces X (bnd (owned_metric E c (oget i ''metricId'')) (\<lambda>_.
     bnd (validate_observations E (oget i ''observations'')) (\<lambda>obs. ret (f obs)))) (observation_import E c i ts)"
  "announces X (bnd (owned_dashboard E c (oget i ''dashboardId'')) (\<lambda>_.
     bnd (evidence_of E c (oget i ''evidenceIds'')) (\<lambda>evs. ret (g evs)))) (snapshot_freeze E c i ts)"
  "announces {RuleErr CredentialExists} (preview_credential E c i) (credential_issue E c i ts)"
  unfolding preview_import_def import_apply_def Let_def preview_redact_def transcript_redact_def
    observation_import_def snapshot_freeze_def preview_credential_def credential_issue_def
  by (intro announce_rules within_guard insertI1)+

lemma announced_community:
  assumes "a_id a = k" and "(k, m) \<in> {(''post-hide'', post_hide), (''member-role-set'', member_role_set),
    (''announcement-publish'', announcement_publish)}"
  shows "announces X (preview_community E c a i) (m E c i ts)"
proof -
  have "a_id a = ''post-hide'' \<Longrightarrow> announces X (preview_community E c a i) (post_hide E c i ts)"
    "a_id a = ''member-role-set'' \<Longrightarrow> announces X (preview_community E c a i) (member_role_set E c i ts)"
    "a_id a = ''announcement-publish'' \<Longrightarrow> announces X (preview_community E c a i) (announcement_publish E c i ts)"
    unfolding preview_community_def by (simp_all, unfold post_hide_def member_role_set_def announcement_publish_def)
      (intro announce_rules)+
  with assms show ?thesis by auto
qed

definition missed_by_preview :: "string \<times> string \<Rightarrow> err set" where
  "missed_by_preview k = (if k = (''learning'', ''credential-issue'') then {RuleErr CredentialExists} else {})"

lemma announced_mutation:
  assumes "(a_module a, a_id a) \<in> set gated_commands" and "a_operation a = OpMutation"
  shows "announces (missed_by_preview (a_module a, a_id a)) (preview_action E c a i) (dispatch E c a i ts)"
proof -
  have mutation: "a_operation a \<noteq> OpAi" using assms(2) by simp
  note unfold = preview_action_def dispatch_def missed_by_preview_def
  consider (import) "a_module a = ''tables''" "a_id a = ''import-apply''"
    | (redact) "a_module a = ''meetings''" "a_id a = ''transcript-redact''"
    | (observe) "a_module a = ''insights''" "a_id a = ''observation-import''"
    | (freeze) "a_module a = ''insights''" "a_id a = ''snapshot-freeze''"
    | (issue) "a_module a = ''learning''" "a_id a = ''credential-issue''"
    | (community) "a_module a = ''community''" "a_id a \<in> {''post-hide'', ''member-role-set'', ''announcement-publish''}"
    using assms(1) by (auto simp: gated_commands_def)
  then show ?thesis
  proof cases
    case import
    then show ?thesis using mutation announced_previews(1) by (simp add: unfold tables_def)
  next
    case redact
    then show ?thesis using mutation announced_previews(2) by (simp add: unfold meetings_def)
  next
    case observe
    then show ?thesis using mutation announced_previews(3) by (simp add: unfold insights_def)
  next
    case freeze
    then show ?thesis using mutation announced_previews(4) by (simp add: unfold insights_def)
  next
    case issue
    then show ?thesis using mutation announced_previews(5) by (simp add: unfold learning_def)
  next
    case community
    then have "announces {} (preview_community E c a i) (community E c (a_id a) i ts)"
      using announced_community[of a "a_id a" _ "{}" E c i ts] by (auto simp: community_def)
    with community(1) mutation show ?thesis by (simp add: unfold)
  qed
qed

lemma announced_proposal:
  assumes "a_operation a = OpAi" and "preview_action E c a i s = (Inl e, t)"
  shows "queue_grounded_proposal E c a i model ts s = (Inl e, t)"
  using assms by (auto simp: preview_action_def queue_grounded_proposal_def bnd_Inl_iff split: prod.splits)

text \<open>C24: Previews are honest. For every registered action that can be dry-run, a dry run that fails fails
  with the very error, in the very state, with which the action would fail. For every mutation among them, a
  dry run that succeeds rules out every failure of the command but two: content that has no canonical digest,
  and, for issuing a credential only, that one was already issued.\<close>

theorem preview_announces_command:
  assumes "action_by_key m aid = Some a" and "a_supports_dry_run a"
    and "action = (if a_operation a = OpAi then queue_grounded_proposal E c a i model ts else dispatch E c a i ts)"
  shows "(\<forall>s e t. preview_action E c a i s = (Inl e, t) \<longrightarrow> action s = (Inl e, t))
    \<and> (\<forall>s p t e u. a_operation a = OpMutation \<longrightarrow> preview_action E c a i s = (Inr p, t) \<longrightarrow> action s = (Inl e, u) \<longrightarrow>
         (\<exists>k. e = CanonErr k) \<or> (m, aid) = (''learning'', ''credential-issue'') \<and> e = RuleErr CredentialExists)"
proof (cases "a_operation a = OpAi")
  case True
  with announced_proposal[of a E c i _ _ _ model ts] assms(3) show ?thesis by simp
next
  case False
  have a: "a_module a = m" "a_id a = aid" using action_by_key_Some[OF assms(1)] by auto
  have "announces (missed_by_preview (m, aid)) (preview_action E c a i) (dispatch E c a i ts)"
    using announced_mutation[of a E c i ts] gated_action[OF assms(1,2) False] a by simp
  note told = announces_error[OF this] announces_return[OF this]
  have "e \<in> missed_by_preview (m, aid) \<longleftrightarrow> (m, aid) = (''learning'', ''credential-issue'') \<and> e = RuleErr CredentialExists" for e
    unfolding missed_by_preview_def by auto
  moreover have "action = dispatch E c a i ts" using assms(3) False by simp
  ultimately show ?thesis using told by blast
qed

section \<open>Listings\<close>

lemma created_order_total:
  assumes "collation_ok E"
  shows "created_order E x y \<le> 0 \<or> created_order E y x \<le> 0"
    and "created_order E x y \<le> 0 \<Longrightarrow> created_order E y z \<le> 0 \<Longrightarrow> created_order E x z \<le> 0"
proof -
  note o = collation_order[OF assms]
  show "created_order E x y \<le> 0 \<or> created_order E y x \<le> 0"
    using o(1)[of "fst y" "fst x"] o(2)[of "fst y" "fst x"] o(1)[of "snd y" "snd x"]
    by (auto simp: created_order_def Let_def)
  show "created_order E x y \<le> 0 \<Longrightarrow> created_order E y z \<le> 0 \<Longrightarrow> created_order E x z \<le> 0"
    using o(3)[of "snd x" "snd y" "snd z"] o(3,4,5)[of "fst x" "fst y" "fst z"] o(2)[of "fst x" "fst y"]
      o(3)[of "fst z" "fst y" "fst x"] o(1,2)[of "fst y" "fst z"] o(1,2)[of "fst x" "fst z"] o(1)[of "fst x" "fst y"]
    by (auto simp: created_order_def Let_def split: if_splits)
qed

text \<open>Listings. A listing contains exactly the stored records of the caller's workspace that the
  caller may read and that match the filter, each as often as it is stored, ordered by creation time
  and then by identifier.\<close>

theorem listing_exact_and_sorted:
  assumes "collation_ok E"
  shows "mset (list_records E c m rt st s) = mset (filter (\<lambda>r. b_workspace r = c_workspace c \<and> can_read E c r
       \<and> (m = None \<or> m = Some (b_module r)) \<and> (rt = None \<or> rt = Some (b_type r))
       \<and> (st = None \<or> st = Some (b_state r))) (jvals (e_records s)))
     \<and> sorted_wrt (\<lambda>x y. created_order E (b_created x, b_id x) (b_created y, b_id y) \<le> 0)
         (list_records E c m rt st s)"
proof -
  have "sorted_wrt (\<lambda>x y. created_order E (b_created x, b_id x) (b_created y, b_id y) \<le> 0)
         (list_records E c m rt st s)"
    unfolding list_records_def
    by (rule sort_cmp_sorted) (rule created_order_total[OF assms], erule (1) created_order_total(2)[OF assms])
  moreover have "(\<lambda>r. b_workspace r = c_workspace c \<and> can_read E c r
           \<and> (case m of None \<Rightarrow> True | Some w \<Rightarrow> b_module r = w)
           \<and> (case rt of None \<Rightarrow> True | Some w \<Rightarrow> b_type r = w)
           \<and> (case st of None \<Rightarrow> True | Some w \<Rightarrow> b_state r = w))
     = (\<lambda>r. b_workspace r = c_workspace c \<and> can_read E c r
       \<and> (m = None \<or> m = Some (b_module r)) \<and> (rt = None \<or> rt = Some (b_type r))
       \<and> (st = None \<or> st = Some (b_state r)))"
    by (rule ext) (auto split: option.splits)
  ultimately show ?thesis unfolding list_records_def by simp
qed

section \<open>Credentials\<close>

lemma course_boundary_names:
  "fst (course_boundary E c r b l s) = Inr d \<Longrightarrow> map fst d = [''courseVisibility'', ''courseCreatedBy'', ''courseLearnerRefs'']"
  using unchanged_Inr[OF same_boundaries(2), of E c r b l s d s]
  by (auto simp: course_boundary_def Let_def bnd_Inr_iff)

lemma eligibility_Inr:
  "credential_eligibility E c eid aid s = (Inr el, t) \<Longrightarrow> t = s \<and> (\<exists>enr course att rub k b h.
     jget (e_records s) eid = Some enr \<and> b_type enr = ''learning-enrollment'' \<and> b_workspace enr = c_workspace c
     \<and> jget (e_records s) aid = Some att \<and> b_type att = ''learning-attempt'' \<and> b_workspace att = c_workspace c
     \<and> oget (b_data att) ''enrollmentId'' = JStr (b_id enr)
     \<and> oget (b_data att) ''rubricId'' = JStr k \<and> jget (e_records s) k = Some rub \<and> b_type rub = ''learning-rubric''
     \<and> b_workspace rub = c_workspace c
     \<and> fst (course_boundary E c course True (oget (b_data enr) ''learnerRef'') s) = Inr b
     \<and> el = \<lparr>el_facts = eligibility_facts course enr att rub b (reaches_passing_score E att rub) @ [(''previewHash'', JStr h)],
          el_hash = h, el_eligible = reaches_passing_score E att rub, el_enrollment = b_id enr\<rparr>)"
  unfolding credential_eligibility_def owned_enrollment_def owned_course_def
  by (simp add: Inr_facts Let_def) (elim exE conjE, hypsubst, intro conjI exI, (assumption | rule refl)+)

text \<open>Credentials are earned. A credential is issued only for an attempt of the selected enrollment
  whose score reaches the passing score of its own rubric, under the exact hash the caller was shown,
  and only when the caller can see no other issued credential of that enrollment; it carries the
  learner of the enrollment, the attempt's score and the issuer.\<close>

theorem credential_earned:
  assumes "credential_issue E c i ts s = (Inr bd, t)"
  shows "\<exists>enr att rub k r. jget (e_records s) (to_str E (oget i ''enrollmentId'')) = Some enr
     \<and> jget (e_records s) (to_str E (oget i ''attemptId'')) = Some att
     \<and> b_type enr = ''learning-enrollment'' \<and> b_type att = ''learning-attempt''
     \<and> oget (b_data att) ''enrollmentId'' = JStr (b_id enr) \<and> oget (b_data att) ''rubricId'' = JStr k
     \<and> jget (e_records s) k = Some rub
     \<and> num_le (to_num E (oget (b_data rub) ''passingScore'')) (to_num E (oget (b_data att) ''score''))
     \<and> (\<forall>q \<in> set (list_records E c (Some ''learning'') (Some ''learning-credential'') None s).
          oget (b_data q) ''enrollmentId'' = JStr (b_id enr) \<longrightarrow> b_state q \<noteq> ''issued'')
     \<and> o_records bd = [r] \<and> b_type r = ''learning-credential'' \<and> b_state r = ''issued''
     \<and> oget (b_data r) ''previewHash'' = oget i ''previewHash''
     \<and> oget (b_data r) ''learnerRef'' = oget (b_data enr) ''learnerRef''
     \<and> oget (b_data r) ''score'' = oget (b_data att) ''score''
     \<and> oget (b_data r) ''issuedBy'' = JStr (c_actor c)"
proof -
  from assms obtain el r where el: "fst (credential_eligibility E c (to_str E (oget i ''enrollmentId''))
        (to_str E (oget i ''attemptId'')) s) = Inr el"
    and g: "oget i ''previewHash'' = JStr (el_hash el)" "el_eligible el"
      "\<not> (\<exists>q \<in> set (list_records E c (Some ''learning'') (Some ''learning-credential'') None s).
          oget (b_data q) ''enrollmentId'' = JStr (el_enrollment el) \<and> b_state q = ''issued'')"
    and cr: "create E c ''learning'' ''learning-credential'' (''Credential '' @ el_enrollment el) ''issued''
       (el_facts el @ [(''issuedBy'', JStr (c_actor c)), (''issuedAt'', JStr ts), (''revocable'', JBool True)]) ts s
       = (Inr r, t)" and bd: "bd = command [r]"
    unfolding credential_issue_def by (simp only: Inr_facts act_simps) blast
  have "credential_eligibility E c (to_str E (oget i ''enrollmentId'')) (to_str E (oget i ''attemptId'')) s = (Inr el, s)"
    using el by (simp add: same_eligibility[THEN unchanged_Inr])
  from eligibility_Inr[OF this] obtain enr course att rub k b h where
    e: "jget (e_records s) (to_str E (oget i ''enrollmentId'')) = Some enr" "b_type enr = ''learning-enrollment''"
     "jget (e_records s) (to_str E (oget i ''attemptId'')) = Some att" "b_type att = ''learning-attempt''"
     "oget (b_data att) ''enrollmentId'' = JStr (b_id enr)" "oget (b_data att) ''rubricId'' = JStr k"
     "jget (e_records s) k = Some rub"
    and b: "fst (course_boundary E c course True (oget (b_data enr) ''learnerRef'') s) = Inr b"
    and f: "el = \<lparr>el_facts = eligibility_facts course enr att rub b (reaches_passing_score E att rub) @ [(''previewHash'', JStr h)],
          el_hash = h, el_eligible = reaches_passing_score E att rub, el_enrollment = b_id enr\<rparr>" by blast
  have names: "map fst b = [''courseVisibility'', ''courseCreatedBy'', ''courseLearnerRefs'']"
    by (rule course_boundary_names[OF b])
  have data: "oget (b_data r) ''previewHash'' = JStr h" "oget (b_data r) ''score'' = oget (b_data att) ''score''"
    "oget (b_data r) ''learnerRef'' = oget (b_data enr) ''learnerRef''" "oget (b_data r) ''issuedBy'' = JStr (c_actor c)"
    unfolding create_Inr(7)[OF cr] f by (simp_all add: eligibility_facts_def oget_append has_own_def names flip: set_map)
  show ?thesis
    using e g data f bd create_Inr(3,5)[OF cr] by (intro exI[of _ enr] exI[of _ att] exI[of _ rub] exI[of _ k] exI[of _ r])
      (auto simp: reaches_passing_score_def)
qed

section \<open>Imports\<close>

lemma each_Inr: "each f xs s = (Inr ys, t) \<Longrightarrow> list_all2 (\<lambda>x y. \<exists>s1 s2. f x s1 = (Inr y, s2)) xs ys"
  by (induction xs arbitrary: s ys) (auto simp: bnd_Inr_iff)

text \<open>Imports persist the exact previewed batch. An import that returns was given the digest of
  exactly these rows in this base, the digest its preview shows, and creates one row record per row,
  in order, holding that row's values.\<close>

theorem import_exact:
  assumes "import_apply E c i ts s = (Inr bd, t)"
  shows "\<exists>rows h. as_objects (oget i ''rows'') = Inr rows \<and> rows \<noteq> []
     \<and> oget i ''previewHash'' = JStr h
     \<and> fst (import_preview E c i ts s) = Inr (read_only [(''rowCount'', jint (int (length rows))),
          (''previewHash'', JStr h), (''wouldWrite'', JBool False)])
     \<and> list_all2 (\<lambda>row r. b_type r = ''table-row'' \<and> b_workspace r = c_workspace c
          \<and> oget (b_data r) ''baseId'' = JStr (to_str E (oget i ''baseId''))
          \<and> oget (b_data r) ''values'' = JObj row) rows (o_records bd)"
proof -
  let ?base = "to_str E (oget i ''baseId'')"
  let ?new = "\<lambda>h (n, values). create E c ''tables'' ''table-row'' (''Imported row '' @ nat_text (n + 1))
                ''active'' [(''baseId'', JStr ?base), (''values'', JObj values),
                   (''import'', JObj [(''previewHash'', JStr h), (''rowIndex'', jint (int n)),
                      (''approvedBy'', JStr (c_actor c))])] ts"
  from assms obtain rows h rs where r: "as_objects (oget i ''rows'') = Inr rows"
    "fst (validate_import E c ?base rows s) = Inr ()" "fst (import_hash E ?base rows s) = Inr h"
    "oget i ''previewHash'' = JStr h"
    and e: "each (?new h) (zip [0..<length rows] rows) s = (Inr rs, t)" and bd: "o_records bd = rs"
    unfolding import_apply_def Let_def by (auto simp: Inr_facts)
  have v: "validate_import E c ?base rows s = (Inr (), s)" "import_hash E ?base rows s = (Inr h, s)"
    using r(2,3) by (simp_all add: Inr_facts)
  then have "rows \<noteq> []" by (auto simp: validate_import_def Inr_facts)
  moreover have "fst (import_preview E c i ts s) = Inr (read_only [(''rowCount'', jint (int (length rows))),
          (''previewHash'', JStr h), (''wouldWrite'', JBool False)])"
    using r(1) v by (simp add: import_preview_def schema_act_def bnd_def)
  moreover have "list_all2 (\<lambda>row r. b_type r = ''table-row'' \<and> b_workspace r = c_workspace c
          \<and> oget (b_data r) ''baseId'' = JStr ?base \<and> oget (b_data r) ''values'' = JObj row) rows rs"
    using each_Inr[OF e] by (fastforce simp: list_all2_conv_all_nth create_Inr)
  ultimately show ?thesis using r bd by blast
qed

end
