(* ===== verification/Additive_Samples.thy ===== *)
theory Additive_Samples
  imports Additive_Commands
begin

text \<open>
  A small workspace on the sample host: an owner, a base, a meeting with a transcript segment, a
  community space with a post, and a course with an enrollment, a rubric and an attempt. The
  witnesses run commands of the registry on it.
\<close>

section \<open>The workspace\<close>

definition owner_ctx :: ctx where
  "owner_ctx = \<lparr>c_workspace = ''w1'', c_actor = ''u1'', c_plan = ''scale'', c_role = ''owner'',
     c_members = [(''u1'', ''owner'')], c_model_policy = Some ''model-1'', c_scopes = None,
     c_request_id = None, c_now = Some 1000\<rparr>"

definition sample_rec :: "nat \<Rightarrow> string \<Rightarrow> string \<Rightarrow> string \<Rightarrow> obj \<Rightarrow> brecord" where
  "sample_rec n m rt st d = \<lparr>b_id = sample_uuid n, b_workspace = ''w1'', b_module = m, b_type = rt,
     b_title = ''sample'', b_state = st, b_version = 1, b_hash = replicate 64 CHR ''0'', b_data = d,
     b_created = ''1'', b_updated = ''1''\<rparr>"

definition sample_records :: "brecord list" where
  "sample_records =
     [sample_rec 100 ''tables'' ''table-base'' ''active'' [(''key'', JStr ''k'')],
      sample_rec 101 ''meetings'' ''meeting'' ''scheduled''
        [(''privacy'', JStr ''workspace''), (''createdBy'', JStr ''u1'')],
      sample_rec 102 ''meetings'' ''transcript-segment'' ''captured''
        [(''meetingId'', JStr (sample_uuid 101)), (''text'', JStr ''hello'')],
      sample_rec 103 ''community'' ''community-space'' ''active''
        [(''visibility'', JStr ''workspace''), (''createdBy'', JStr ''u1'')],
      sample_rec 104 ''community'' ''community-post'' ''visible''
        [(''spaceId'', JStr (sample_uuid 103)), (''body'', JStr ''text'')],
      sample_rec 105 ''learning'' ''learning-course'' ''draft''
        [(''visibility'', JStr ''workspace''), (''createdBy'', JStr ''u1'')],
      sample_rec 106 ''learning'' ''learning-enrollment'' ''active''
        [(''courseId'', JStr (sample_uuid 105)), (''learnerRef'', JStr ''u1'')],
      sample_rec 107 ''learning'' ''learning-rubric'' ''active''
        [(''courseId'', JStr (sample_uuid 105)), (''passingScore'', jint 80)],
      sample_rec 108 ''learning'' ''learning-attempt'' ''recorded''
        [(''enrollmentId'', JStr (sample_uuid 106)), (''rubricId'', JStr (sample_uuid 107)), (''score'', jint 90)]]"

definition sample_engine :: engine where
  "sample_engine = \<lparr>e_records = map (\<lambda>r. (b_id r, r)) sample_records, e_external = [], e_receipts = [],
     e_dirty = [], e_draws = 1000\<rparr>"

lemma owner_ctx_sel [simp]:
  "c_workspace owner_ctx = ''w1''" "c_actor owner_ctx = ''u1''" "c_plan owner_ctx = ''scale''"
  "c_role owner_ctx = ''owner''" "c_members owner_ctx = [(''u1'', ''owner'')]"
  "c_model_policy owner_ctx = Some ''model-1''" "c_scopes owner_ctx = None" "c_now owner_ctx = Some 1000"
  by (simp_all add: owner_ctx_def)

lemma sample_rec_sel [simp]:
  "b_id (sample_rec n m rt st d) = sample_uuid n" "b_workspace (sample_rec n m rt st d) = ''w1''"
  "b_module (sample_rec n m rt st d) = m" "b_type (sample_rec n m rt st d) = rt"
  "b_state (sample_rec n m rt st d) = st" "b_data (sample_rec n m rt st d) = d"
  "b_version (sample_rec n m rt st d) = 1" "b_title (sample_rec n m rt st d) = ''sample''"
  by (simp_all add: sample_rec_def)

lemma sample_engine_sel [simp]:
  "e_receipts sample_engine = []" "e_draws sample_engine = 1000" "e_dirty sample_engine = []"
  "e_external sample_engine = []"
  by (simp_all add: sample_engine_def)

lemma sample_uuid_eq [simp]: "sample_uuid n = sample_uuid m \<longleftrightarrow> n = m"
  using sample_uuid_inj by (simp add: inj_eq)

lemma sample_lookup: "jget (e_records sample_engine) (sample_uuid n) =
    (if 100 \<le> n \<and> n \<le> 108 then Some (sample_records ! (n - 100)) else None)"
proof (cases "n \<in> {100, 101, 102, 103, 104, 105, 106, 107, 108}")
  case True
  then show ?thesis by (auto simp: sample_engine_def sample_records_def jget_Cons)
next
  case False
  then show ?thesis by (auto simp: sample_engine_def sample_records_def jget_Cons)
qed

lemma owner_can_read [simp]: "b_workspace r = ''w1'' \<Longrightarrow> can_read E owner_ctx r"
  by (simp add: can_read_def can_read_suite_record_def ctx_principal_def vis_of_def is_non_empty_string_def
      trim_def is_ws_def code_def privileged_roles_def)

lemma sample_fresh: "fresh_from sample_env sample_engine"
  by (auto simp: fresh_from_def sample_lookup inj_def)

lemma sample_in_records: "jget (e_records sample_engine) i = Some r \<Longrightarrow> r \<in> set sample_records \<and> b_id r = i"
  by (auto simp: sample_engine_def jget_def dest!: map_of_SomeD)

lemma sample_all_in: "all_in ''w1'' sample_engine"
  using sample_in_records by (fastforce simp: all_in_def sample_records_def)

lemma sample_well_keyed: "well_keyed sample_engine"
  using sample_in_records by (simp add: well_keyed_def)

lemma sample_hash: "encodable v \<Longrightarrow> \<exists>h. digest sample_env v = Inr h"
  by (rule digest_total[OF sample_number_format])

lemma encodable_jint [simp]: "encodable (jint n)"
  by (simp add: jint_def num_of_int_def is_finite_def)

lemma encodable_content: "encodable (content_of m rt title st v d) \<longleftrightarrow>
    \<not> has_nul m \<and> \<not> has_nul rt \<and> \<not> has_nul title \<and> \<not> has_nul st \<and> encodable (JObj d)"
  by (simp add: content_of_def has_nul_def)

lemma new_record_hash:
  assumes "\<not> has_nul m" "\<not> has_nul rt" "\<not> has_nul title" "\<not> has_nul st" "encodable (JObj d)"
  shows "\<exists>h. record_digest sample_env (new_record E c m rt title st d ts n) = Inr h"
  using assms sample_hash[of "content_of m rt title st 1 d"]
  by (simp add: record_digest_def new_record_def encodable_content)

section \<open>Registered actions\<close>

definition defined_action :: "draft \<Rightarrow> action \<Rightarrow> bool" where
  "defined_action d a \<longleftrightarrow> define_action d = Inr a \<and> d \<in> set additive_drafts"

lemma defined_lookup:
  "defined_action d a \<Longrightarrow> action_by_key (d_module d) (d_id d) = Some a"
  by (simp add: defined_action_def action_of_draft)

lemma defined_plain_mutation:
  assumes "defined_action (draft_of m p i t OpMutation rt req ps ex) a"
  shows "a_module a = m \<and> a_id a = i \<and> a_operation a = OpMutation \<and> a_scope a = ScopeWrite \<and> a_role a = Member
    \<and> \<not> a_requires_approval a \<and> \<not> a_supports_dry_run a \<and> a_idempotent a
    \<and> a_input a = \<lparr>i_required = uniq (req @ [''idempotencyKey'']),
        i_properties = AList.update ''idempotencyKey'' idempotency_key_schema ps\<rparr>"
  using assms by (auto simp: defined_action_def define_action_def draft_of_def or_default_def is_high_risk_def Let_def)

lemma defined_read:
  assumes "defined_action (draft_of m p i t OpRead rt req ps ex) a"
  shows "a_module a = m \<and> a_id a = i \<and> a_operation a = OpRead \<and> a_scope a = ScopeRead \<and> a_role a = Viewer
    \<and> \<not> a_requires_approval a \<and> \<not> a_supports_dry_run a \<and> \<not> a_idempotent a
    \<and> a_input a = \<lparr>i_required = uniq req, i_properties = ps\<rparr>"
  using assms by (auto simp: defined_action_def define_action_def draft_of_def or_default_def is_high_risk_def Let_def)

lemma defined_ai:
  assumes "defined_action (draft_of m p i t OpAi rt req ps ex) a"
  shows "a_module a = m \<and> a_id a = i \<and> a_operation a = OpAi \<and> a_scope a = ScopeAi \<and> a_role a = Admin
    \<and> a_requires_approval a \<and> a_supports_dry_run a \<and> a_idempotent a \<and> a_title a = t
    \<and> a_prompt a = Some (m @ ''.'' @ i, ''2026-08-24.1'')
    \<and> a_input a = \<lparr>i_required = uniq ((req @ [''idempotencyKey'']) @ [''dryRun'']),
        i_properties = AList.update ''approval'' approval_schema (AList.update ''dryRun'' dry_run_schema
          (AList.update ''idempotencyKey'' idempotency_key_schema ps))\<rparr>"
  using assms by (auto simp: defined_action_def define_action_def draft_of_def or_default_def is_high_risk_def Let_def)

lemma drafted: "d \<in> set additive_drafts \<Longrightarrow> \<exists>a. defined_action d a"
  using drafts_define_well by (auto simp: defines_well_def defined_action_def)

lemma table_drafts_members: "n < 9 \<Longrightarrow> tables_drafts ! n \<in> set additive_drafts"
proof -
  assume "n < 9"
  then have "n < length tables_drafts" by (simp add: tables_drafts_def)
  then show ?thesis by (simp add: additive_drafts_def)
qed

lemma base_create_defined: "\<exists>a. defined_action (draft_of ''tables'' ''SchemaDeck'' ''base-create''
    ''Create governed base'' OpMutation ''table-base'' [''key'', ''name'', ''purpose'']
    [(''key'', text_schema 80), (''name'', text_schema 160), (''purpose'', text_schema 2000)]
    [(''key'', JStr ''customers''), (''name'', JStr ''Customers''), (''purpose'', JStr ''Track opted-in customer facts'')]) a"
  using drafted[OF table_drafts_members[of 0]] by (simp only: tables_drafts_def nth_Cons_0)

lemma formula_defined: "\<exists>ex a. defined_action (draft_of ''tables'' ''SchemaDeck'' ''formula-evaluate''
    ''Evaluate bounded aggregate'' OpRead ''table-row'' [''baseId'', ''operation'', ''fieldKey'']
    [(''baseId'', uuid_schema), (''operation'', enum_schema [''count'', ''sum'', ''min'', ''max'', ''average'']),
     (''fieldKey'', optional_text_schema 80)] ex) a"
  using drafted[OF table_drafts_members[of 7]] by (simp add: tables_drafts_def) blast

lemma schema_propose_defined: "\<exists>ex a. defined_action (draft_of ''tables'' ''SchemaDeck'' ''schema-propose''
    ''Queue grounded schema proposal'' OpAi ''ai-proposal-request'' [''baseId'', ''goal'', ''evidenceIds'']
    [(''baseId'', uuid_schema), (''goal'', text_schema 4000), (''evidenceIds'', evidence_ids_schema),
     (''modelId'', model_id_schema)] ex) a"
  using drafted[OF table_drafts_members[of 8]] by (simp add: tables_drafts_def) blast

section \<open>A run of the pipeline\<close>

lemma execute_run:
  assumes "authorize E c m aid input = Inr a"
    and "a_operation a = OpAi \<longrightarrow> expected_model_policy (oget input ''modelId'') (c_model_policy c) = Inr model"
    and "input_digest E c input = Inr h" and "e_receipts s = []"
    and "c_now c = Some now" and "approve E c a input now (clear_dirty s) = (Inr ap, clear_dirty s)"
    and "\<And>model'. (a_operation a = OpAi \<Longrightarrow> model' = model) \<Longrightarrow>
        evaluate E c a input model' (iso_text E now) (clear_dirty s) = (Inr bd, u)"
  shows "\<exists>x. execute E c m aid input s = (Inr x, store_receipt c m a (to_str E (oget input ''idempotencyKey'')) h
        (receipt_key E c m a input) x (u\<lparr>e_draws := Suc (e_draws u)\<rparr>)) \<and> x_body x = bd
      \<and> x_audit x = audit_of c m a input h ap (uuid_at E (e_draws u)) (iso_text E now)"
proof -
  obtain model' where m: "(if a_operation a = OpAi
      then expected_model_policy (oget input ''modelId'') (c_model_policy c) else Inr []) = Inr model'"
    and "a_operation a = OpAi \<Longrightarrow> model' = model"
    using assms(2) by (cases "a_operation a = OpAi") auto
  with assms(7) have ev: "evaluate E c a input model' (iso_text E now) (clear_dirty s) = (Inr bd, u)" by blast
  have "find_replay c (receipt_key E c m a input) h (clear_dirty s) = Inr None"
    using assms(4) by (simp add: find_replay_def split: option.split)
  then show ?thesis
    unfolding execute_def run_action_def using assms(1,3,5,6) m ev
    by (simp add: bnd_def trusted_now_def Let_def)
qed

definition base_input :: obj where
  "base_input = [(''key'', JStr ''crm''), (''name'', JStr ''CRM''), (''purpose'', JStr ''facts''),
     (''idempotencyKey'', JStr ''base-create-0001'')]"

lemma lookup_undefined_own: "oget d k \<noteq> JUndef \<Longrightarrow> \<not> lookup_undefined d k"
  using oget_in[of d k] by (auto simp: lookup_undefined_def has_own_def intro: rev_image_eqI)

lemma key_pattern_sample: "key_pattern ''base-create-0001''"
  by (simp add: key_pattern_def is_key_char_def is_digit_def is_lower_alpha_def is_upper_alpha_def code_def)

lemma sample_context: "assert_context owner_ctx = Inr ()" "assert_plan owner_ctx ''tables'' = Inr ()"
  "assert_scope owner_ctx m sc = Inr ()" "assert_role owner_ctx a = Inr ()"
  by (auto simp: assert_context_def assert_plan_def assert_scope_def assert_role_def trim_def is_ws_def code_def
      plan_of_def role_of_def module_by_id_def first_such_def additive_modules_def plan_below_def role_below_def
      plan_order role_order bind_e_def check_that_def split: option.splits role.splits)

lemma base_authorized:
  assumes "defined_action (draft_of ''tables'' ''SchemaDeck'' ''base-create''
    ''Create governed base'' OpMutation ''table-base'' [''key'', ''name'', ''purpose'']
    [(''key'', text_schema 80), (''name'', text_schema 160), (''purpose'', text_schema 2000)] ex) a"
  shows "authorize sample_env owner_ctx ''tables'' ''base-create'' base_input = Inr a"
proof -
  have "validate_input sample_env (a_input a) base_input = Inr ()"
    using defined_plain_mutation[OF assms]
    by (simp add: validate_input_ok base_input_def lookup_undefined_own uniq_def text_schema_def
        validate_string_def idempotency_key_schema_def key_pattern_sample matches_re_def)
  then show ?thesis
    using defined_lookup[OF assms] by (simp add: authorize_def sample_context draft_of_sel)
qed

section \<open>Three runs\<close>

lemma sample_list_records:
  "r \<in> set (list_records E owner_ctx m rt st sample_engine) \<Longrightarrow> r \<in> set sample_records"
  by (auto simp: list_records_def sample_engine_def jvals_def)

lemma base_input_digest: "\<exists>h. input_digest sample_env owner_ctx base_input = Inr h"
  using sample_hash[of "JObj [(''workspaceId'', JStr ''w1''), (''actorUserId'', JStr ''u1''), (''input'', JObj base_input)]"]
  by (auto simp: input_digest_def base_input_def has_nul_def)

lemma base_create_runs:
  "\<exists>a x t k. authorize sample_env owner_ctx ''tables'' ''base-create'' base_input = Inr a
     \<and> action_by_key ''tables'' ''base-create'' = Some a \<and> a_operation a = OpMutation
     \<and> execute sample_env owner_ctx ''tables'' ''base-create'' base_input sample_engine = (Inr x, t)
     \<and> receipt_key sample_env owner_ctx ''tables'' a base_input = Some k \<and> jget (e_receipts t) k \<noteq> None
     \<and> e_dirty t = [sample_uuid 1000] \<and> jget (e_records t) (sample_uuid 1000) \<noteq> None"
proof -
  obtain a where def: "defined_action (draft_of ''tables'' ''SchemaDeck'' ''base-create''
    ''Create governed base'' OpMutation ''table-base'' [''key'', ''name'', ''purpose'']
    [(''key'', text_schema 80), (''name'', text_schema 160), (''purpose'', text_schema 2000)]
    [(''key'', JStr ''customers''), (''name'', JStr ''Customers''), (''purpose'', JStr ''Track opted-in customer facts'')]) a"
    using base_create_defined by blast
  note a = defined_plain_mutation[OF def] and auth = base_authorized[OF def]
  obtain h where h: "input_digest sample_env owner_ctx base_input = Inr h"
    using base_input_digest by blast
  let ?r = "new_record sample_env owner_ctx ''tables'' ''table-base'' ''CRM'' ''active''
       [(''key'', JStr ''crm''), (''purpose'', JStr ''facts''), (''schemaVersion'', jint 1)] (nat_text 1000) 1000"
  obtain g where g: "record_digest sample_env ?r = Inr g"
    using new_record_hash[of "''tables''" "''table-base''" "''CRM''" "''active''"
      "[(''key'', JStr ''crm''), (''purpose'', JStr ''facts''), (''schemaVersion'', jint 1)]"]
    by (fastforce simp: has_nul_def)
  have free: "\<not> (\<exists>r \<in> set (list_records sample_env owner_ctx (Some ''tables'') (Some ''table-base'') None (clear_dirty sample_engine)).
      strict_eq (oget (b_data r) ''key'') (JStr ''crm''))"
    using sample_list_records[of _ sample_env "Some ''tables''" "Some ''table-base''" None]
    by (force simp: sample_records_def clear_dirty_def list_records_def sample_engine_def)
  have ev: "evaluate sample_env owner_ctx a base_input model (iso_text sample_env 1000) (clear_dirty sample_engine)
    = (Inr (command [?r\<lparr>b_hash := g\<rparr>]), mark_dirty (sample_uuid 1000)
        (put_record (?r\<lparr>b_hash := g\<rparr>) ((clear_dirty sample_engine)\<lparr>e_draws := Suc 1000\<rparr>)))" for model
    using a free g
    by (simp add: evaluate_def is_dry_run_def dispatch_def tables_def base_create_def bnd_def guard_def one_record_def
        create_run base_input_def new_record_def)
  have "approve sample_env owner_ctx a base_input 1000 (clear_dirty sample_engine) = (Inr None, clear_dirty sample_engine)"
    using a by (simp add: approve_ok is_dry_run_def assert_approval_if_required_def)
  from execute_run[OF auth _ _ _ _ this ev] a h obtain x t where
    "execute sample_env owner_ctx ''tables'' ''base-create'' base_input sample_engine = (Inr x, t)"
    "t = store_receipt owner_ctx ''tables'' a (to_str sample_env (oget base_input ''idempotencyKey'')) h
        (receipt_key sample_env owner_ctx ''tables'' a base_input) x
        ((mark_dirty (sample_uuid 1000) (put_record (?r\<lparr>b_hash := g\<rparr>) ((clear_dirty sample_engine)\<lparr>e_draws := Suc 1000\<rparr>)))
           \<lparr>e_draws := Suc (Suc 1000)\<rparr>)"
    by fastforce
  moreover have "receipt_key sample_env owner_ctx ''tables'' a base_input = Some ''w1:tables:base-create:base-create-0001''"
    using a by (simp add: receipt_key_def base_input_def)
  ultimately show ?thesis using auth a authorize_cases(2)[OF auth]
    by (auto simp: store_receipt_def jget_jset mark_dirty_def put_record_def new_record_def)
qed


lemma uuid100_ok: "uuid_pattern (sample_uuid 100)"
  by code_simp

definition approval_given :: obj where
  "approval_given = [(''approved'', JBool True), (''approvedBy'', JStr ''u1''), (''approvedAt'', JStr ''500''),
     (''decisionId'', JStr ''decision-0000001''), (''reason'', JStr ''ok'')]"

definition proposal_input :: obj where
  "proposal_input = [(''baseId'', JStr (sample_uuid 100)), (''goal'', JStr ''fields''),
     (''evidenceIds'', JArr [JStr (sample_uuid 100)]), (''idempotencyKey'', JStr ''proposal-0000001''),
     (''dryRun'', JBool False), (''approval'', JObj approval_given)]"

lemma keys_ok: "key_pattern ''proposal-0000001''" "key_pattern ''decision-0000001''"
  by (simp_all add: key_pattern_def is_key_char_def is_digit_def is_lower_alpha_def is_upper_alpha_def code_def)

lemma approved_at: "valid_date_time sample_env (JStr ''500'')"
  by (simp add: valid_date_time_def trim_def is_ws_def code_def)

lemma approval_valid: "validate_value sample_env approval_schema (JObj approval_given) = Inr ()"
  by (simp add: approval_schema_def approval_given_def validate_fields_ok first_missing_ok lookup_undefined_own
      validate_string_def keys_ok approved_at matches_re_def)

lemma proposal_authorized:
  assumes "defined_action (draft_of ''tables'' ''SchemaDeck'' ''schema-propose''
    ''Queue grounded schema proposal'' OpAi ''ai-proposal-request'' [''baseId'', ''goal'', ''evidenceIds'']
    [(''baseId'', uuid_schema), (''goal'', text_schema 4000), (''evidenceIds'', evidence_ids_schema),
     (''modelId'', model_id_schema)] ex) a"
  shows "authorize sample_env owner_ctx ''tables'' ''schema-propose'' proposal_input = Inr a"
proof -
  have "validate_input sample_env (a_input a) proposal_input = Inr ()"
    using defined_ai[OF assms]
    by (simp add: validate_input_ok proposal_input_def lookup_undefined_own uniq_def text_schema_def
        validate_string_def idempotency_key_schema_def keys_ok matches_re_def approval_valid uuid_schema_def
        uuid100_ok evidence_ids_schema_def array_schema_def validate_items_ok dry_run_schema_def boolean_schema_def
        is_bool_def)
  then show ?thesis
    using defined_lookup[OF assms] by (simp add: authorize_def sample_context draft_of_sel)
qed

lemma owned_base: "s = sample_engine \<or> s = clear_dirty sample_engine \<Longrightarrow>
    owned sample_env owner_ctx (JStr (sample_uuid 100)) m rt s =
      (if (\<forall>w. m = Some w \<longrightarrow> w = ''tables'') \<and> (\<forall>w. rt = Some w \<longrightarrow> w = ''table-base'')
       then (Inr (sample_records ! 0), s) else (Inl (RefErr RecordNotFound), s))"
  by (auto simp: owned_def bnd_def sample_lookup sample_records_def split: option.splits)

lemma proposal_bound: "proposal_binding sample_env owner_ctx a proposal_input (clear_dirty sample_engine)
    = (Inr (sample_records ! 0, [sample_records ! 0]), clear_dirty sample_engine)" if "a_module a = ''tables''"
  using that
  by (simp add: proposal_binding_def bnd_def proposal_target_fields_def proposal_input_def nullish_def owned_base
      evidence_of_def schema_act_def as_strings_def uniq_def guard_def evidence_record_def sample_lookup
      sample_records_def dedup_by_id_def jvals_def jset_def)

lemma digest_no_nul: "digest sample_env v = Inr h \<Longrightarrow> \<not> has_nul h"
proof -
  assume "digest sample_env v = Inr h"
  then have "list_all is_lower_hex h"
    using sample_sha_pattern by (auto simp: digest_def bind_e_Inr_iff sha_pattern_def)
  then show ?thesis by (auto simp: has_nul_def list_all_iff is_lower_hex_def is_digit_def code_def)
qed

lemma proposal_runs:
  "\<exists>a x t k r. authorize sample_env owner_ctx ''tables'' ''schema-propose'' proposal_input = Inr a
     \<and> action_by_key ''tables'' ''schema-propose'' = Some a \<and> a_operation a = OpAi \<and> a_requires_approval a
     \<and> \<not> is_dry_run a proposal_input
     \<and> execute sample_env owner_ctx ''tables'' ''schema-propose'' proposal_input sample_engine = (Inr x, t)
     \<and> \<not> au_replayed (x_audit x) \<and> jget (e_receipts t) k = Some r
     \<and> au_decision_id (x_audit (s_result r)) = Some ''decision-0000001''"
proof -
  obtain a ex where def: "defined_action (draft_of ''tables'' ''SchemaDeck'' ''schema-propose''
    ''Queue grounded schema proposal'' OpAi ''ai-proposal-request'' [''baseId'', ''goal'', ''evidenceIds'']
    [(''baseId'', uuid_schema), (''goal'', text_schema 4000), (''evidenceIds'', evidence_ids_schema),
     (''modelId'', model_id_schema)] ex) a"
    using schema_propose_defined by blast
  note a = defined_ai[OF def] and auth = proposal_authorized[OF def]
  let ?s = "clear_dirty sample_engine" and ?b = "sample_records ! 0"
  have nul: "\<not> has_nul (sample_uuid 100)" by code_simp
  obtain h where h: "input_digest sample_env owner_ctx proposal_input = Inr h"
    using sample_hash[of "JObj [(''workspaceId'', JStr ''w1''), (''actorUserId'', JStr ''u1''), (''input'', JObj proposal_input)]"] nul
    by (auto simp: input_digest_def proposal_input_def approval_given_def has_nul_def)
  obtain g where g: "digest sample_env (JObj (prompt_json a @ [(''invariant'', JStr prompt_invariant)])) = Inr g"
    using sample_hash[of "JObj (prompt_json a @ [(''invariant'', JStr prompt_invariant)])"] a
    by (auto simp: prompt_json_def prompt_invariant_def has_nul_def)
  have bnd0: "proposal_boundary sample_env owner_ctx ?b ?s = (Inr [], ?s)"
    by (simp add: proposal_boundary_def sample_records_def)
  let ?d = "proposal_data sample_env owner_ctx a proposal_input ''model-1'' ?b [?b] [] g"
  have hg: "\<not> has_nul g" using g by (auto simp: digest_no_nul)
  have goal: "proposal_goal sample_env a proposal_input = ''fields''"
    by (simp add: proposal_goal_def proposal_input_def nullish_def)
  have "encodable (JObj ?d)"
    using a nul hg by (simp add: proposal_data_def goal prompt_json_def sample_records_def binding5_def sample_rec_def has_nul_def)
  moreover have "\<not> has_nul (a_title a)" using a by (simp add: has_nul_def)
  moreover have "\<not> has_nul ''tables''" "\<not> has_nul ''ai-proposal-request''" "\<not> has_nul ''queued''"
    by (simp_all add: has_nul_def)
  ultimately obtain k where k: "record_digest sample_env (new_record sample_env owner_ctx ''tables'' ''ai-proposal-request''
      (a_title a) ''queued'' ?d (nat_text 1000) 1000) = Inr k"
    using new_record_hash by blast
  have m: "a_module a = ''tables''" "a_operation a = OpAi" using a by simp_all
  obtain bd u where ev: "evaluate sample_env owner_ctx a proposal_input ''model-1'' (iso_text sample_env 1000) ?s = (Inr bd, u)"
      and rc: "e_receipts u = []"
  proof -
    have "\<not> is_dry_run a proposal_input" by (simp add: is_dry_run_def proposal_input_def)
    then show thesis
      using that m k g proposal_bound[OF m(1)] bnd0
      by (simp add: evaluate_def queue_grounded_proposal_def bnd_def digest_act_run create_run Let_def)
  qed
  obtain p where ap: "approve sample_env owner_ctx a proposal_input 1000 ?s = (Inr (Some p), ?s)"
      and pd: "ap_decision p = ''decision-0000001''"
  proof -
    have "\<not> is_dry_run a proposal_input" by (simp add: is_dry_run_def proposal_input_def)
    moreover have "digits_val ''500'' = 500" by code_simp
    ultimately show thesis
      using that a approved_at
      by (simp add: approve_ok assert_approval_if_required_def proposal_input_def approval_given_def keys_ok
          trim_def is_ws_def code_def approval_freshness_ms_def decision_used_def jvals_def)
  qed
  have pol: "expected_model_policy (oget proposal_input ''modelId'') (c_model_policy owner_ctx) = Inr ''model-1''"
    by code_simp
  from execute_run[OF auth _ h _ _ ap, of "''model-1''" bd u] pol ev m obtain x t where
    x: "execute sample_env owner_ctx ''tables'' ''schema-propose'' proposal_input sample_engine = (Inr x, t)"
      "x_audit x = audit_of owner_ctx ''tables'' a proposal_input h (Some p) (uuid_at sample_env (e_draws u)) (iso_text sample_env 1000)"
      "t = store_receipt owner_ctx ''tables'' a (to_str sample_env (oget proposal_input ''idempotencyKey'')) h
        (receipt_key sample_env owner_ctx ''tables'' a proposal_input) x (u\<lparr>e_draws := Suc (e_draws u)\<rparr>)"
    by fastforce
  obtain kk where "receipt_key sample_env owner_ctx ''tables'' a proposal_input = Some kk"
    using a by (simp add: receipt_key_def proposal_input_def)
  with x pd a auth authorize_cases(2)[OF auth] show ?thesis
    by (auto simp: store_receipt_def jget_jset audit_of_def is_dry_run_def proposal_input_def)
qed

definition count_input :: obj where
  "count_input = [(''baseId'', JStr (sample_uuid 100)), (''operation'', JStr ''count''), (''fieldKey'', JStr [])]"

lemma count_runs:
  "\<exists>a x t. action_by_key ''tables'' ''formula-evaluate'' = Some a \<and> a_operation a = OpRead
     \<and> execute sample_env owner_ctx ''tables'' ''formula-evaluate'' count_input sample_engine = (Inr x, t)"
proof -
  obtain ex a where def: "defined_action (draft_of ''tables'' ''SchemaDeck'' ''formula-evaluate''
    ''Evaluate bounded aggregate'' OpRead ''table-row'' [''baseId'', ''operation'', ''fieldKey'']
    [(''baseId'', uuid_schema), (''operation'', enum_schema [''count'', ''sum'', ''min'', ''max'', ''average'']),
     (''fieldKey'', optional_text_schema 80)] ex) a"
    using formula_defined by blast
  note a = defined_read[OF def]
  have "validate_input sample_env (a_input a) count_input = Inr ()"
    using a by (simp add: validate_input_ok count_input_def lookup_undefined_own uniq_def validate_string_def
        uuid_schema_def uuid100_ok enum_schema_def optional_text_schema_def image_iff)
  then have auth: "authorize sample_env owner_ctx ''tables'' ''formula-evaluate'' count_input = Inr a"
    using defined_lookup[OF def] by (simp add: authorize_def sample_context draft_of_sel)
  have nul: "\<not> has_nul (sample_uuid 100)" by code_simp
  obtain h where h: "input_digest sample_env owner_ctx count_input = Inr h"
    using sample_hash[of "JObj [(''workspaceId'', JStr ''w1''), (''actorUserId'', JStr ''u1''), (''input'', JObj count_input)]"] nul
    by (auto simp: input_digest_def count_input_def has_nul_def)
  have ap: "approve sample_env owner_ctx a count_input 1000 (clear_dirty sample_engine) = (Inr None, clear_dirty sample_engine)"
    using a by (simp add: approve_ok is_dry_run_def assert_approval_if_required_def)
  obtain bd u where ev: "\<And>model. evaluate sample_env owner_ctx a count_input model (iso_text sample_env 1000) (clear_dirty sample_engine)
      = (Inr bd, u)"
    using a by (simp add: evaluate_def is_dry_run_def dispatch_def tables_def formula_evaluate_def bnd_def
        count_input_def owned_base Let_def)
  from execute_run[OF auth _ h _ _ ap ev] a show ?thesis
    using authorize_cases(2)[OF auth] by fastforce
qed

end
