(* ===== verification/Additive_Witnesses.thy ===== *)
theory Additive_Witnesses
  imports Additive_Samples
begin

text \<open>The properties of the additive engine, applied to commands on the sample workspace.\<close>

section \<open>Pipeline\<close>

theorem execute_authorized_witness:
  "\<exists>a. action_by_key ''tables'' ''base-create'' = Some a \<and> a_role a \<le> Owner
     \<and> input_conforms sample_env (a_input a) base_input"
proof -
  obtain a x t where "action_by_key ''tables'' ''base-create'' = Some a"
    "execute sample_env owner_ctx ''tables'' ''base-create'' base_input sample_engine = (Inr x, t)"
    using base_create_runs by blast
  with execute_authorized[OF this(2)] show ?thesis by (auto simp: role_of_def)
qed

theorem execute_evolves_witness:
  "\<exists>b'. jget (e_records (snd (execute sample_env owner_ctx ''tables'' ''base-create'' base_input sample_engine)))
        (sample_uuid 100) = Some b' \<and> b_type b' = ''table-base'' \<and> b_workspace b' = ''w1''"
proof -
  obtain r t where run: "execute sample_env owner_ctx ''tables'' ''base-create'' base_input sample_engine = (r, t)"
    by fastforce
  have "jget (e_records sample_engine) (sample_uuid 100) = Some (sample_records ! 0)"
    by (simp add: sample_lookup)
  with execute_evolves[OF run sample_fresh] sample_all_in run show ?thesis
    by (fastforce simp: sample_records_def)
qed

theorem changed_records_hashed_witness:
  "\<exists>t b. b \<in> set (changed_records t)
     \<and> digest sample_env (content_of (b_module b) (b_type b) (b_title b) (b_state b) (b_version b) (b_data b))
       = Inr (b_hash b)"
proof -
  obtain a x t where run: "execute sample_env owner_ctx ''tables'' ''base-create'' base_input sample_engine = (Inr x, t)"
    and d: "e_dirty t = [sample_uuid 1000]" "jget (e_records t) (sample_uuid 1000) \<noteq> None"
    using base_create_runs by blast
  then obtain b where "b \<in> set (changed_records t)" by (auto simp: changed_records_def)
  with changed_records_hashed[OF run this] show ?thesis by blast
qed

theorem dry_run_writes_nothing_witness:
  "e_records (snd (execute sample_env owner_ctx ''tables'' ''formula-evaluate'' count_input sample_engine))
     = e_records sample_engine"
proof -
  obtain a x t where a: "action_by_key ''tables'' ''formula-evaluate'' = Some a" "a_operation a = OpRead"
    "execute sample_env owner_ctx ''tables'' ''formula-evaluate'' count_input sample_engine = (Inr x, t)"
    using count_runs by blast
  with dry_run_writes_nothing[OF a(1) disjI1[OF a(2)] a(3)] show ?thesis by simp
qed

theorem ai_only_proposes_witness:
  "\<exists>x t r. execute sample_env owner_ctx ''tables'' ''schema-propose'' proposal_input sample_engine = (Inr x, t)
     \<and> o_records (x_body x) = [r] \<and> b_type r = ''ai-proposal-request'' \<and> jget (e_records sample_engine) (b_id r) = None"
proof -
  obtain a x t where a: "action_by_key ''tables'' ''schema-propose'' = Some a" "a_operation a = OpAi"
    "\<not> is_dry_run a proposal_input" "\<not> au_replayed (x_audit x)"
    "execute sample_env owner_ctx ''tables'' ''schema-propose'' proposal_input sample_engine = (Inr x, t)"
    using proposal_runs by blast
  with ai_only_proposes[OF a(1-3,5,4) sample_fresh] show ?thesis by blast
qed

theorem approval_enforced_witness:
  "\<exists>x t. execute sample_env owner_ctx ''tables'' ''schema-propose'' proposal_input sample_engine = (Inr x, t)
     \<and> au_approved_by (x_audit x) = Some ''u1''"
proof -
  obtain a x t where a: "action_by_key ''tables'' ''schema-propose'' = Some a" "a_requires_approval a"
    "\<not> is_dry_run a proposal_input" "\<not> au_replayed (x_audit x)"
    "execute sample_env owner_ctx ''tables'' ''schema-propose'' proposal_input sample_engine = (Inr x, t)"
    using proposal_runs by blast
  with approval_enforced[OF a(1-3,5,4)] show ?thesis by auto
qed

theorem retry_replays_witness:
  "\<exists>x t. execute sample_env (owner_ctx\<lparr>c_now := Some 2000\<rparr>) ''tables'' ''base-create'' base_input t
     = (Inr (replay_of x), clear_dirty t)"
proof -
  obtain a x t where a: "action_by_key ''tables'' ''base-create'' = Some a" "a_operation a = OpMutation"
    "execute sample_env owner_ctx ''tables'' ''base-create'' base_input sample_engine = (Inr x, t)"
    using base_create_runs by blast
  have "a_operation a \<noteq> OpRead" using a(2) by simp
  from retry_replays[OF a(3,1) this] show ?thesis by blast
qed

theorem idempotency_key_bound_witness:
  "\<exists>t r. execute sample_env owner_ctx ''tables'' ''base-create'' base_input t = (r, clear_dirty t)"
proof -
  obtain a k rec and t :: engine where a: "authorize sample_env owner_ctx ''tables'' ''base-create'' base_input = Inr a"
    "a_operation a = OpMutation" "receipt_key sample_env owner_ctx ''tables'' a base_input = Some k"
    "jget (e_receipts t) k = Some rec"
    using base_create_runs by blast
  obtain h where h: "input_digest sample_env owner_ctx base_input = Inr h"
    using base_input_digest by blast
  have "a_operation a = OpAi \<longrightarrow> expected_model_policy (oget base_input ''modelId'') (c_model_policy owner_ctx) = Inr []"
    using a(2) by simp
  from idempotency_key_bound[OF a(1) this h a(3,4)] show ?thesis by blast
qed

theorem decision_spent_once_witness:
  "\<exists>t k r. reaches sample_env sample_engine t \<and> jget (e_receipts t) k = Some r
     \<and> (\<forall>k' r'. jget (e_receipts t) k' = Some r' \<and> s_workspace r' = s_workspace r
          \<and> au_decision_id (x_audit (s_result r')) = Some ''decision-0000001'' \<longrightarrow> k' = k)"
proof -
  obtain x t k r where run: "execute sample_env owner_ctx ''tables'' ''schema-propose'' proposal_input sample_engine = (Inr x, t)"
    and r: "jget (e_receipts t) k = Some r" "au_decision_id (x_audit (s_result r)) = Some ''decision-0000001''"
    using proposal_runs by blast
  have t: "reaches sample_env sample_engine t" by (rule reaches.step[OF reaches.start run])
  have "k' = k" if "jget (e_receipts t) k' = Some r'" "s_workspace r' = s_workspace r"
      "au_decision_id (x_audit (s_result r')) = Some ''decision-0000001''" for k' r'
    by (rule decision_spent_once[OF t _ that(1) r(1) that(2,3) r(2)]) simp
  with t r show ?thesis by blast
qed

end
