(* ===== verification/Additive_Command_Witnesses.thy ===== *)
theory Additive_Command_Witnesses
  imports Additive_Witnesses
begin

text \<open>The properties of the commands, and of canonical texts, applied to the sample workspace.\<close>

section \<open>Commands\<close>

lemma sample_workspace: "r \<in> set sample_records \<Longrightarrow> b_workspace r = ''w1''"
  by (auto simp: sample_records_def)

lemma no_members:
  assumes "\<forall>r \<in> set sample_records. \<not> (b_module r = m \<and> b_type r = rt)"
  shows "list_records E owner_ctx (Some m) (Some rt) st sample_engine = []"
proof -
  have "filter (\<lambda>r. b_workspace r = ''w1'' \<and> can_read E owner_ctx r \<and> b_module r = m \<and> b_type r = rt
      \<and> (case st of None \<Rightarrow> True | Some w \<Rightarrow> b_state r = w)) (jvals (e_records sample_engine)) = []"
    using assms by (auto simp: sample_engine_def jvals_def filter_empty_conv)
  then show ?thesis by (simp add: list_records_def sort_cmp_def)
qed

lemma no_refs:
  assumes "\<forall>r \<in> set sample_records. \<not> (b_module r = m \<and> b_type r = rt)"
  shows "active_membership_refs sample_env owner_ctx m rt pf p f None n sample_engine = (Inr [], sample_engine)"
  using no_members[OF assms] by (simp add: active_membership_refs_def bnd_def sort_cmp_def)

lemma owned_sample:
  assumes "jget (e_records sample_engine) i = Some r"
  shows "owned sample_env owner_ctx (JStr i) m rt sample_engine =
     (if (\<forall>w. m = Some w \<longrightarrow> b_module r = w) \<and> (\<forall>w. rt = Some w \<longrightarrow> b_type r = w)
      then (Inr r, sample_engine) else (Inl (RefErr RecordNotFound), sample_engine))"
  using assms sample_workspace sample_in_records[OF assms] by (auto simp: owned_def bnd_def split: option.splits)


definition redact_input :: obj where
  "redact_input = [(''segmentId'', JStr (sample_uuid 102)), (''expectedVersion'', jint 1), (''reason'', JStr ''privacy'')]"

lemma sample_boundary: "meeting_boundary sample_env owner_ctx (sample_records ! 1) sample_engine
    = (Inr [(''meetingPrivacy'', JStr ''workspace''), (''meetingCreatedBy'', JStr ''u1''),
        (''meetingParticipantUserRefs'', JArr [])], sample_engine)"
  by (simp add: meeting_boundary_def bnd_def guard_def no_refs[of "''meetings''" "''meeting-participant''"] sample_records_def truthy_def Let_def role_below_def role_of_def role_order)

lemma update_succeeds:
  assumes "\<not> has_nul (b_module (current r s))" "\<not> has_nul (b_type (current r s))" "\<not> has_nul (b_title (current r s))"
    "\<not> has_nul (or_default st (b_state (current r s)))" "encodable (JObj d)"
  shows "\<exists>r' t. update sample_env r None st (Some d) ts s = (Inr r', t)"
  using assms sample_hash[of "content_of (b_module (current r s)) (b_type (current r s)) (b_title (current r s))
      (or_default st (b_state (current r s))) (b_version (current r s) + 1) d"]
  by (auto simp: update_run Let_def record_digest_def patched_def or_default_def encodable_content)

lemma uuid_no_nul: "\<not> has_nul (sample_uuid 101)" "\<not> has_nul (sample_uuid 103)"
  by code_simp+

lemma sample_data:
  "b_data (sample_records ! 1) = [(''privacy'', JStr ''workspace''), (''createdBy'', JStr ''u1'')]"
  "b_data (sample_records ! 2) = [(''meetingId'', JStr (sample_uuid 101)), (''text'', JStr ''hello'')]"
  "b_data (sample_records ! 4) = [(''spaceId'', JStr (sample_uuid 103)), (''body'', JStr ''text'')]"
  "b_module (sample_records ! 1) = ''meetings''" "b_type (sample_records ! 1) = ''meeting''"
  "b_module (sample_records ! 2) = ''meetings''" "b_type (sample_records ! 2) = ''transcript-segment''"
  "b_module (sample_records ! 4) = ''community''" "b_type (sample_records ! 4) = ''community-post''"
  "b_version (sample_records ! 2) = 1" "b_version (sample_records ! 4) = 1" "b_version (sample_records ! 1) = 1"
  "b_title (sample_records ! 2) = ''sample''" "b_title (sample_records ! 4) = ''sample''" 
  "b_id (sample_records ! 1) = sample_uuid 101" "b_id (sample_records ! 2) = sample_uuid 102" "b_id (sample_records ! 4) = sample_uuid 104"
  by (simp_all add: sample_records_def)

lemma sample_lookups:
  "jget (e_records sample_engine) (sample_uuid 101) = Some (sample_records ! 1)"
  "jget (e_records sample_engine) (sample_uuid 102) = Some (sample_records ! 2)"
  "jget (e_records sample_engine) (sample_uuid 103) = Some (sample_records ! 3)"
  "jget (e_records sample_engine) (sample_uuid 104) = Some (sample_records ! 4)"
  by (simp_all add: sample_lookup)

lemma owned_at:
  assumes "jget (e_records sample_engine) i = Some r" "b_module r = m" "b_type r = rt"
  shows "owned sample_env owner_ctx (JStr i) (Some m) (Some rt) sample_engine = (Inr r, sample_engine)"
  using owned_sample[OF assms(1), of "Some m" "Some rt"] assms(2,3) by simp

lemma redact_runs: "\<exists>bd t. transcript_redact sample_env owner_ctx redact_input ''2'' sample_engine = (Inr bd, t)"
proof -
  let ?r = "sample_records ! 2"
  let ?d = "spread (b_data ?r) ([(''meetingPrivacy'', JStr ''workspace''), (''meetingCreatedBy'', JStr ''u1''),
        (''meetingParticipantUserRefs'', JArr [])] @ [(''text'', JNull), (''redacted'', JBool True), (''redactedBy'', JStr ''u1''),
           (''redactedAt'', JStr ''2''), (''redactionReason'', JStr ''privacy'')])"
  have "\<exists>r' t. update sample_env ?r None (Some ''redacted'') (Some ?d) ''2'' sample_engine = (Inr r', t)"
    by (rule update_succeeds)
      (simp_all add: current_def sample_lookups sample_data has_nul_def or_default_def oset_def uuid_no_nul[unfolded has_nul_def])
  then obtain r' t where "update sample_env ?r None (Some ''redacted'') (Some ?d) ''2'' sample_engine = (Inr r', t)" by blast
  moreover note owned_at[OF sample_lookups(2) sample_data(6,7)] owned_at[OF sample_lookups(1) sample_data(4,5)] sample_boundary
  ultimately show ?thesis
    by (simp add: transcript_redact_def bnd_def redact_input_def owned_meeting_def sample_data
        assert_expected_version_def guard_def one_record_def ret_def del: One_nat_def)
qed

lemma define_action_keys:
  "define_action d = Inr a \<Longrightarrow> a_module a = d_module d \<and> a_id a = d_id d \<and> a_operation a = d_operation d"
  unfolding define_action_def Let_def by (auto simp: bind_e_Inr_iff split: if_splits)

lemma redact_action: "\<exists>a. action_by_key ''meetings'' ''transcript-redact'' = Some a \<and> a_module a = ''meetings''
    \<and> a_id a = ''transcript-redact'' \<and> a_operation a = OpMutation \<and> a_supports_dry_run a
    \<and> ''expectedVersion'' \<in> set (i_required (a_input a))"
proof -
  have "meetings_drafts ! 7 \<in> set additive_drafts" by (simp add: additive_drafts_def meetings_drafts_def)
  from drafted[OF this] obtain a where a: "defined_action (meetings_drafts ! 7) a" by blast
  have d: "define_action (meetings_drafts ! 7) = Inr a" using a by (simp add: defined_action_def)
  have look: "action_by_key ''meetings'' ''transcript-redact'' = Some a"
    using defined_lookup[OF a] by (simp add: meetings_drafts_def draft_of_sel)
  have "''expectedVersion'' \<in> set (d_required (meetings_drafts ! 7))" "a_operation a = OpMutation" "a_supports_dry_run a"
    using define_action_gates(3,4)[OF d] by (simp_all add: meetings_drafts_def draft_of_def or_default_def)
  with required_kept[OF d] look action_by_key_Some[OF look] show ?thesis by blast
qed

theorem redaction_erases_text_witness:
  "\<exists>bd t r. transcript_redact sample_env owner_ctx redact_input ''2'' sample_engine = (Inr bd, t)
     \<and> jget (e_records t) (sample_uuid 102) = Some r \<and> oget (b_data r) ''text'' = JNull
     \<and> oget (b_data r) ''meetingId'' = JStr (sample_uuid 101)"
proof -
  obtain bd t where run: "transcript_redact sample_env owner_ctx redact_input ''2'' sample_engine = (Inr bd, t)"
    using redact_runs by blast
  from redaction_erases_text[OF sample_well_keyed run] obtain r r' where
    "jget (e_records sample_engine) (sample_uuid 102) = Some r" "jget (e_records t) (sample_uuid 102) = Some r'"
    "oget (b_data r') ''text'' = JNull" "oget (b_data r') ''meetingId'' = oget (b_data r) ''meetingId''"
    by (auto simp: redact_input_def boundary_names_def)
  with run show ?thesis by (auto simp: sample_lookups sample_data)
qed

theorem optimistic_lock_witness:
  "\<exists>a bd t r. action_by_key ''meetings'' ''transcript-redact'' = Some a
     \<and> dispatch sample_env owner_ctx a redact_input ''2'' sample_engine = (Inr bd, t)
     \<and> o_records bd = [r] \<and> b_version r = 2 \<and> jget (e_records t) (sample_uuid 101) = Some (sample_records ! 1)"
proof -
  obtain a where a: "action_by_key ''meetings'' ''transcript-redact'' = Some a" "a_module a = ''meetings''"
    "a_id a = ''transcript-redact''" "''expectedVersion'' \<in> set (i_required (a_input a))" using redact_action by blast
  obtain bd t where run: "dispatch sample_env owner_ctx a redact_input ''2'' sample_engine = (Inr bd, t)"
    using redact_runs a by (auto simp: dispatch_def meetings_def)
  from optimistic_lock[OF a(1,4) sample_well_keyed run] obtain field k r r' where
    "((''meetings'', ''transcript-redact''), field) \<in> set locked_actions"
    "oget redact_input field = JStr k" "jget (e_records sample_engine) k = Some r"
    "o_records bd = [r']" "b_version r' = b_version r + 1"
    "\<forall>j. jget (e_records t) j = (if j = k then Some r' else jget (e_records sample_engine) j)" by blast
  with a(1) run show ?thesis by (auto simp: redact_input_def locked_actions_def sample_lookups sample_data)
qed

text \<open>A dry run against a stale version, and the command it announces.\<close>

definition stale_input :: obj where
  "stale_input = [(''segmentId'', JStr (sample_uuid 102)), (''expectedVersion'', jint 2), (''reason'', JStr ''privacy'')]"

lemma stale_preview: "preview_redact sample_env owner_ctx stale_input sample_engine = (Inl (RefErr (StaleVersion 1)), sample_engine)"
proof -
  have "jint 2 \<noteq> jint 1" by (simp add: jint_def)
  then show ?thesis
    using owned_at[OF sample_lookups(2) sample_data(6,7)] owned_at[OF sample_lookups(1) sample_data(4,5)] sample_boundary
    by (simp add: preview_redact_def bnd_def stale_input_def owned_meeting_def sample_data
        assert_expected_version_def guard_def del: One_nat_def)
qed

theorem preview_announces_command_witness:
  "\<exists>a. action_by_key ''meetings'' ''transcript-redact'' = Some a
     \<and> preview_action sample_env owner_ctx a stale_input sample_engine = (Inl (RefErr (StaleVersion 1)), sample_engine)
     \<and> dispatch sample_env owner_ctx a stale_input ''2'' sample_engine = (Inl (RefErr (StaleVersion 1)), sample_engine)"
proof -
  obtain a where a: "action_by_key ''meetings'' ''transcript-redact'' = Some a" "a_operation a = OpMutation"
    "a_supports_dry_run a" "a_module a = ''meetings''" "a_id a = ''transcript-redact''" using redact_action by blast
  have act: "dispatch sample_env owner_ctx a stale_input ''2'' = (if a_operation a = OpAi
      then queue_grounded_proposal sample_env owner_ctx a stale_input [] ''2'' else dispatch sample_env owner_ctx a stale_input ''2'')"
    using a(2) by simp
  have "preview_action sample_env owner_ctx a stale_input sample_engine = (Inl (RefErr (StaleVersion 1)), sample_engine)"
    using a stale_preview by (simp add: preview_action_def)
  with preview_announces_command[OF a(1,3) act] a(1) show ?thesis by blast
qed

definition hide_input :: obj where
  "hide_input = [(''postId'', JStr (sample_uuid 104)), (''expectedVersion'', jint 1), (''reason'', JStr ''spam'')]"

lemma hide_runs: "\<exists>bd t. post_hide sample_env owner_ctx hide_input ''2'' sample_engine = (Inr bd, t)"
proof -
  let ?r = "sample_records ! 4" and ?s = "sample_records ! 3"
  have sp: "b_data ?s = [(''visibility'', JStr ''workspace''), (''createdBy'', JStr ''u1'')]" "b_id ?s = sample_uuid 103"
    "b_module ?s = ''community''" "b_type ?s = ''community-space''" by (simp_all add: sample_records_def)
  have b: "space_boundary sample_env owner_ctx ?s True sample_engine
    = (Inr [(''spaceVisibility'', JStr ''workspace''), (''spaceCreatedBy'', JStr ''u1''), (''spaceMemberRefs'', JArr [])], sample_engine)"
    by (simp add: space_boundary_def sp bnd_def guard_def no_refs[of "''community''" "''community-member''"]
        sample_records_def truthy_def Let_def)
  let ?d = "spread (b_data ?r) ([(''spaceVisibility'', JStr ''workspace''), (''spaceCreatedBy'', JStr ''u1''), (''spaceMemberRefs'', JArr [])]
     @ [(''moderation'', JObj [(''hiddenBy'', JStr ''u1''), (''hiddenAt'', JStr ''2''), (''reason'', JStr ''spam'')]), (''bodyPreserved'', JBool True)])"
  have "\<exists>r' t. update sample_env ?r None (Some ''hidden'') (Some ?d) ''2'' sample_engine = (Inr r', t)"
    by (rule update_succeeds)
      (simp_all add: current_def sample_lookups sample_data has_nul_def or_default_def oset_def uuid_no_nul[unfolded has_nul_def])
  then obtain r' t where "update sample_env ?r None (Some ''hidden'') (Some ?d) ''2'' sample_engine = (Inr r', t)" by blast
  moreover note owned_at[OF sample_lookups(4) sample_data(8,9)] owned_at[OF sample_lookups(3) sp(3,4)] b
  ultimately show ?thesis
    by (simp add: post_hide_def bnd_def hide_input_def owned_post_def owned_space_def sample_data
        assert_expected_version_def guard_def one_record_def ret_def)
qed

theorem hide_preserves_body_witness:
  "\<exists>bd t r. post_hide sample_env owner_ctx hide_input ''2'' sample_engine = (Inr bd, t)
     \<and> jget (e_records t) (sample_uuid 104) = Some r \<and> b_state r = ''hidden'' \<and> oget (b_data r) ''body'' = JStr ''text''"
proof -
  obtain bd t where run: "post_hide sample_env owner_ctx hide_input ''2'' sample_engine = (Inr bd, t)"
    using hide_runs by blast
  from hide_preserves_body[OF sample_well_keyed run] obtain r r' where
    "jget (e_records sample_engine) (sample_uuid 104) = Some r" "jget (e_records t) (sample_uuid 104) = Some r'"
    "b_state r' = ''hidden''" "oget (b_data r') ''body'' = oget (b_data r) ''body''"
    by (auto simp: hide_input_def)
  with run show ?thesis by (auto simp: sample_lookups sample_data)
qed

theorem listing_exact_and_sorted_witness:
  "sample_records ! 1 \<in> set (list_records sample_env owner_ctx (Some ''meetings'') (Some ''meeting'') None sample_engine)"
proof -
  have "sample_records ! 1 \<in> set (jvals (e_records sample_engine))"
    by (simp add: jvals_def sample_engine_def sample_records_def)
  moreover have "b_workspace (sample_records ! 1) = ''w1''" by (simp add: sample_records_def)
  ultimately have "sample_records ! 1 \<in># mset (list_records sample_env owner_ctx (Some ''meetings'') (Some ''meeting'') None sample_engine)"
    using listing_exact_and_sorted[OF sample_collation, of owner_ctx "Some ''meetings''" "Some ''meeting''" None sample_engine]
      sample_data(4,5) by simp
  then show ?thesis by simp
qed

definition bare_input :: "string \<Rightarrow> obj" where
  "bare_input h = [(''baseId'', JStr (sample_uuid 100)), (''rows'', JArr [JObj []]), (''previewHash'', JStr h)]"

lemma import_runs: "\<exists>h bd t. import_apply sample_env owner_ctx (bare_input h) ''2'' sample_engine = (Inr bd, t)"
proof -
  let ?b = "sample_uuid 100"
  have nul: "\<not> has_nul ?b" by code_simp
  obtain h where h: "digest sample_env (JObj [(''version'', JStr ''schemadeck-import.v1''), (''baseId'', JStr ?b),
      (''rows'', JArr [JObj []])]) = Inr h"
    using sample_hash[of "JObj [(''version'', JStr ''schemadeck-import.v1''), (''baseId'', JStr ?b), (''rows'', JArr [JObj []])]"] nul
    by (auto simp: has_nul_def)
  have hash: "import_hash sample_env ?b [[]] sample_engine = (Inr h, sample_engine)"
    by (simp add: import_hash_def digest_act_run h)
  have own: "owned sample_env owner_ctx (JStr ?b) (Some ''tables'') (Some ''table-base'') sample_engine
      = (Inr (sample_records ! 0), sample_engine)"
    by (rule owned_at) (simp_all add: sample_lookup, simp_all add: sample_records_def)
  have fields: "list_records sample_env owner_ctx (Some ''tables'') (Some ''table-field'') None sample_engine = []"
    by (rule no_members) (simp add: sample_records_def)
  have valid: "validate_import sample_env owner_ctx ?b [[]] sample_engine = (Inr (), sample_engine)"
    by (simp add: validate_import_def validate_row_def table_fields_def bnd_def own fields guard_def first_such_def)
  have rows: "as_objects (oget (bare_input h) ''rows'') = Inr [[]]"
    by (simp add: bare_input_def as_objects_def as_object_def)
  let ?d = "[(''baseId'', JStr ?b), (''values'', JObj []), (''import'', JObj [(''previewHash'', JStr h),
     (''rowIndex'', jint 0), (''approvedBy'', JStr ''u1'')])]"
  have "\<not> has_nul (''Imported row '' @ nat_text 1)" by code_simp
  moreover have "\<not> has_nul h" by (rule digest_no_nul[OF h])
  ultimately obtain k where k: "record_digest sample_env (new_record sample_env owner_ctx ''tables'' ''table-row''
      (''Imported row '' @ nat_text 1) ''active'' ?d ''2'' 1000) = Inr k"
    using new_record_hash[of "''tables''" "''table-row''" "''Imported row '' @ nat_text 1" "''active''" ?d
      sample_env owner_ctx "''2''" 1000] nul by (auto simp: has_nul_def)
  then show ?thesis
    using rows valid hash
    by (intro exI[of _ h]) (simp add: import_apply_def Let_def bnd_def bare_input_def schema_act_def guard_def
        create_run ret_def)
qed

theorem import_exact_witness:
  "\<exists>h bd t r. import_apply sample_env owner_ctx (bare_input h) ''2'' sample_engine = (Inr bd, t)
     \<and> o_records bd = [r] \<and> b_type r = ''table-row'' \<and> oget (b_data r) ''values'' = JObj []"
proof -
  obtain h bd t where run: "import_apply sample_env owner_ctx (bare_input h) ''2'' sample_engine = (Inr bd, t)"
    using import_runs by blast
  have "as_objects (oget (bare_input h) ''rows'') = Inr [[]]" by (simp add: bare_input_def as_objects_def as_object_def)
  with import_exact[OF run] have "list_all2 (\<lambda>row r. b_type r = ''table-row'' \<and> oget (b_data r) ''values'' = JObj row)
     [[]] (o_records bd)" by (auto elim: list_all2_mono)
  with run show ?thesis by (auto simp: list_all2_Cons1)
qed

definition earn_input :: "string \<Rightarrow> obj" where
  "earn_input h = [(''enrollmentId'', JStr (sample_uuid 106)), (''attemptId'', JStr (sample_uuid 108)), (''previewHash'', JStr h)]"


lemma sample_learners:
  "active_membership_refs sample_env owner_ctx ''learning'' ''learning-enrollment'' ''courseId'' (sample_uuid 105) ''learnerRef''
     None False sample_engine = (Inr [''u1''], sample_engine)"
proof -
  have "list_records sample_env owner_ctx (Some ''learning'') (Some ''learning-enrollment'') (Some ''active'') sample_engine
     = sort_cmp (\<lambda>x y. created_order sample_env (b_created x, b_id x) (b_created y, b_id y)) [sample_records ! 6]"
    by (simp add: list_records_def sample_engine_def jvals_def sample_records_def)
  then have "list_records sample_env owner_ctx (Some ''learning'') (Some ''learning-enrollment'') (Some ''active'') sample_engine
     = [sample_records ! 6]" by (simp add: sort_cmp_def)
  moreover have "b_data (sample_records ! 6) = [(''courseId'', JStr (sample_uuid 105)), (''learnerRef'', JStr ''u1'')]"
    by (simp add: sample_records_def)
  ultimately show ?thesis
    by (simp add: active_membership_refs_def bnd_def member_ref_def workspace_member_def nullish_def
        uniq_def sort_cmp_def trim_def is_ws_def code_def)
qed

lemma eligible_sample: "\<exists>el. credential_eligibility sample_env owner_ctx (sample_uuid 106) (sample_uuid 108) sample_engine
    = (Inr el, sample_engine) \<and> el_eligible el \<and> el_enrollment el = sample_uuid 106 \<and> encodable (JObj (el_facts el))"
proof -
  let ?e = "sample_records ! 6" and ?c = "sample_records ! 5" and ?a = "sample_records ! 8" and ?r = "sample_records ! 7"
  let ?b = "[(''courseVisibility'', JStr ''workspace''), (''courseCreatedBy'', JStr ''u1''), (''courseLearnerRefs'', JArr [JStr ''u1''])]"
  have d: "b_data ?e = [(''courseId'', JStr (sample_uuid 105)), (''learnerRef'', JStr ''u1'')]"
    "b_data ?a = [(''enrollmentId'', JStr (sample_uuid 106)), (''rubricId'', JStr (sample_uuid 107)), (''score'', jint 90)]"
    "b_data ?r = [(''courseId'', JStr (sample_uuid 105)), (''passingScore'', jint 80)]"
    "b_id ?e = sample_uuid 106" "b_id ?c = sample_uuid 105" "b_id ?a = sample_uuid 108" "b_id ?r = sample_uuid 107"
    "b_data ?c = [(''visibility'', JStr ''workspace''), (''createdBy'', JStr ''u1'')]"
    "b_version ?e = 1" "b_version ?c = 1" "b_version ?a = 1" "b_version ?r = 1"
    by (simp_all add: sample_records_def)
  have own: "owned sample_env owner_ctx (JStr (sample_uuid 106)) (Some ''learning'') (Some ''learning-enrollment'') sample_engine = (Inr ?e, sample_engine)"
    "owned sample_env owner_ctx (JStr (sample_uuid 105)) (Some ''learning'') (Some ''learning-course'') sample_engine = (Inr ?c, sample_engine)"
    "owned sample_env owner_ctx (JStr (sample_uuid 108)) (Some ''learning'') (Some ''learning-attempt'') sample_engine = (Inr ?a, sample_engine)"
    "owned sample_env owner_ctx (JStr (sample_uuid 107)) (Some ''learning'') (Some ''learning-rubric'') sample_engine = (Inr ?r, sample_engine)"
    by (rule owned_at, simp add: sample_lookup, simp add: sample_records_def, simp add: sample_records_def)+
  have b: "course_boundary sample_env owner_ctx ?c True (JStr ''u1'') sample_engine = (Inr ?b, sample_engine)"
    by (simp add: course_boundary_def d bnd_def guard_def sample_learners truthy_def Let_def)
  have p: "reaches_passing_score sample_env ?a ?r" by (simp add: reaches_passing_score_def d jint_def num_of_int_def to_num_def)
  have nul: "\<not> has_nul (sample_uuid 105)" "\<not> has_nul (sample_uuid 106)" "\<not> has_nul (sample_uuid 107)" "\<not> has_nul (sample_uuid 108)"
    by code_simp+
  let ?f = "eligibility_facts ?c ?e ?a ?r ?b True"
  have f: "encodable (JObj ?f)" using nul by (simp add: eligibility_facts_def d has_nul_def)
  then obtain h where h: "digest sample_env (JObj ([(''version'', JStr ''learning-forge-credential.v1'')] @ ?f)) = Inr h"
    using sample_hash[of "JObj ([(''version'', JStr ''learning-forge-credential.v1'')] @ ?f)"] by (auto simp: has_nul_def)
  have "\<not> has_nul h" by (rule digest_no_nul[OF h])
  then show ?thesis
    using own b p h f d
    by (simp add: credential_eligibility_def owned_enrollment_def owned_course_def bnd_def guard_def Let_def digest_act_run has_nul_def)
qed

lemma issue_runs: "\<exists>h bd t. credential_issue sample_env owner_ctx (earn_input h) ''2'' sample_engine = (Inr bd, t)"
proof -
  obtain el where el: "credential_eligibility sample_env owner_ctx (sample_uuid 106) (sample_uuid 108) sample_engine
    = (Inr el, sample_engine)" "el_eligible el" "el_enrollment el = sample_uuid 106" "encodable (JObj (el_facts el))"
    using eligible_sample by blast
  have none: "list_records sample_env owner_ctx (Some ''learning'') (Some ''learning-credential'') None sample_engine = []"
    by (rule no_members) (simp add: sample_records_def)
  let ?d = "el_facts el @ [(''issuedBy'', JStr ''u1''), (''issuedAt'', JStr ''2''), (''revocable'', JBool True)]"
  have "\<not> has_nul (''Credential '' @ sample_uuid 106)" by code_simp
  moreover have "encodable (JObj ?d)" using el(4) by (auto simp: has_nul_def)
  ultimately obtain k where "record_digest sample_env (new_record sample_env owner_ctx ''learning'' ''learning-credential''
      (''Credential '' @ sample_uuid 106) ''issued'' ?d ''2'' 1000) = Inr k"
    using new_record_hash[of "''learning''" "''learning-credential''" "''Credential '' @ sample_uuid 106" "''issued''" ?d
      sample_env owner_ctx "''2''" 1000] by (auto simp: has_nul_def)
  then show ?thesis
    using el none by (intro exI[of _ "el_hash el"])
      (simp add: credential_issue_def Let_def bnd_def earn_input_def guard_def create_run one_record_def ret_def)
qed

theorem credential_earned_witness:
  "\<exists>h bd t r. credential_issue sample_env owner_ctx (earn_input h) ''2'' sample_engine = (Inr bd, t)
     \<and> o_records bd = [r] \<and> b_state r = ''issued'' \<and> oget (b_data r) ''learnerRef'' = JStr ''u1''"
proof -
  obtain h bd t where run: "credential_issue sample_env owner_ctx (earn_input h) ''2'' sample_engine = (Inr bd, t)"
    using issue_runs by blast
  have "b_data (sample_records ! 6) = [(''courseId'', JStr (sample_uuid 105)), (''learnerRef'', JStr ''u1'')]"
    by (simp add: sample_records_def)
  moreover have "to_str sample_env (oget (earn_input h) ''enrollmentId'') = sample_uuid 106" by (simp add: earn_input_def)
  ultimately show ?thesis using credential_earned[OF run] run by (fastforce simp: sample_lookup)
qed

theorem canonical_text_injective_witness:
  "\<exists>t. canonical_text exact_env (JObj [(''a'', JNum (Fin (1 / 2))), (''b'', JNull)]) = Inr t
     \<and> canonical_text exact_env (JObj [(''b'', JNull), (''x'', JUndef), (''a'', JNum (Fin (1 / 2)))]) = Inr t
     \<and> normal_form (JObj [(''a'', JNum (Fin (1 / 2))), (''b'', JNull)])
        = normal_form (JObj [(''b'', JNull), (''x'', JUndef), (''a'', JNum (Fin (1 / 2)))])"
proof -
  let ?v = "JObj [(''a'', JNum (Fin (1 / 2))), (''b'', JNull)]"
  let ?w = "JObj [(''b'', JNull), (''x'', JUndef), (''a'', JNum (Fin (1 / 2)))]"
  have order: "compare_utf8 ''b'' ''a'' = 1" "compare_utf8 ''a'' ''b'' = - 1" by code_simp+
  have "sort_cmp key_order (defined_entries [(''b'', JNull), (''x'', JUndef), (''a'', JNum (Fin (1 / 2)))])
      = sort_cmp key_order (defined_entries [(''a'', JNum (Fin (1 / 2))), (''b'', JNull)])"
    by (simp add: defined_entries_def sort_cmp_def key_order_def order)
  then have same: "canonical_text exact_env ?w = canonical_text exact_env ?v"
    by (simp add: canonical_text_def defined_entries_def has_nul_def)
  obtain t where t: "canonical_text exact_env ?v = Inr t"
    using encodable_total[OF exact_number_format, of ?v]
    by (auto simp: canonical_text_def bind_e_Inr_iff has_nul_def is_finite_def)
  have "round64 (1 / 2) = Fin (1 / 2)" by code_simp
  then have "doubles_only ?v" "doubles_only ?w" by (simp_all add: is_double_def)
  from canonical_text_injective[OF exact_number_text this t] same t show ?thesis by auto
qed

end
