(* ===== verification/Platform_Types.thy ===== *)
theory Platform_Types
  imports Js_Value
begin

text \<open>
  The data of the hosting platform (\<open>shared/types.ts\<close>): the catalog and its prices, accounts and
  installations, hostnames, provisioning jobs, workers and routes. An optional field is an option.
\<close>

datatype app_status = AppReady | AppIntegration

record catalog_app =
  ca_id :: string
  ca_name :: string
  ca_replaces :: string
  ca_category :: string
  ca_license :: string
  ca_source :: string
  ca_description :: string
  ca_version :: string
  ca_memory :: num
  ca_cpu :: num
  ca_storage :: num
  ca_bundle :: bool
  ca_status :: app_status
  ca_requirements :: "string list"
  ca_note :: string

record compute_plan =
  cp_id :: string
  cp_label :: string
  cp_memory :: num
  cp_cpu :: num
  cp_storage :: num
  cp_services :: num
  cp_infrastructure :: num
  cp_monthly :: num

record quote =
  qt_apps :: "catalog_app list"
  qt_memory :: num
  qt_cpu :: num
  qt_storage :: num
  qt_reserved :: num
  qt_compatible :: bool
  qt_plan :: "compute_plan option"
  qt_infrastructure :: num
  qt_fee :: num
  qt_total :: num
  qt_split :: bool
  qt_explanation :: string

record ownership =
  ow_claim :: string
  ow_txt_name :: string
  ow_txt_value :: string
  ow_cname_name :: string
  ow_cname_value :: string

datatype domain_status = DomAwaiting | DomVerified | DomActive | DomFailed

record custom_domain =
  cd_id :: string
  cd_instance :: string
  cd_domain :: string
  cd_status :: domain_status
  cd_ownership :: ownership
  cd_checked :: "string option"

datatype instance_state = InstQueued | InstProvisioning | InstLive | InstFailed | InstStopped

record instance_rec =
  ai_id :: string
  ai_installation :: string
  ai_app :: string
  ai_state :: instance_state
  ai_hostname :: string
  ai_project :: string
  ai_domains :: "custom_domain list"
  ai_health :: "string option"
  ai_worker :: "string option"
  ai_memory :: num
  ai_cpu :: num
  ai_storage :: num
  ai_created :: string
  ai_updated :: string

datatype node_status = NodeReady | NodeDraining | NodeOffline

record worker_node =
  wn_id :: string
  wn_name :: string
  wn_status :: node_status
  wn_address :: string
  wn_machine :: string
  wn_memory :: num
  wn_cpu :: num
  wn_storage :: num
  wn_reserve_memory :: num
  wn_reserved_memory :: num
  wn_reserved_cpu :: num
  wn_reserved_storage :: num
  wn_heartbeat :: string
  wn_created :: string
  wn_updated :: string

text \<open>Of a worker's activity, its node and the applications assigned to it.\<close>

record assigned_app =
  aa_id :: string
  aa_installation :: string
  aa_app :: string
  aa_state :: instance_state

record worker_activity =
  wa_node :: worker_node
  wa_assigned :: "assigned_app list"

record gateway_route =
  gr_hostname :: string
  gr_upstream :: string
  gr_ownership :: "ownership option"
  gr_worker :: string
  gr_node :: string
  gr_instance :: "string option"
  gr_app :: "string option"

end
