(* ===== verification/Hostnames.thy ===== *)
theory Hostnames
  imports Platform_Types Sample_Host
begin

text \<open>
  Custom hostnames: normalization, the refusal of platform hostnames, the in-memory claim registry
  and the proof of ownership by DNS (\<open>server/hostname-claims.ts\<close>, \<open>server/domain-verification.ts\<close>).
  The URL parser of the host is the parameter \<open>url_host\<close>; the \<open>n\<close>-th random challenge token is
  \<open>tok n\<close>, the \<open>n\<close>-th random identifier \<open>uuid_at E n\<close>. Timestamps are arguments.
\<close>

section \<open>Names\<close>

datatype host_err = InvalidHostname | PlatformOwned | DuplicateClaim | DuplicateToken

definition is_label_char :: "char \<Rightarrow> bool" where
  "is_label_char c \<longleftrightarrow> is_lower_alpha c \<or> is_digit c \<or> c = CHR ''-''"

text \<open>\<open>/^(?!-)(?:[a-z0-9-]+\.)+[a-z]{2,}$/\<close>: the dots cut the name into labels.\<close>

definition hostname_pattern :: "string \<Rightarrow> bool" where
  "hostname_pattern s \<longleftrightarrow>
     (let labels = split_on CHR ''.'' s
      in \<not> starts_with s ''-'' \<and> 2 \<le> length labels
         \<and> list_all (\<lambda>w. w \<noteq> [] \<and> list_all is_label_char w) (butlast labels)
         \<and> 2 \<le> length (last labels) \<and> list_all is_lower_alpha (last labels))"

definition normalize_hostname :: "string \<Rightarrow> host_err + string" where
  "normalize_hostname value =
     (let hostname = drop_dot (lower (trim value))
      in if 230 < length hostname \<or> \<not> hostname_pattern hostname
            \<or> (\<exists>w \<in> set (split_on CHR ''.'' hostname). 63 < length w \<or> ends_with w ''-'')
         then Inl InvalidHostname else Inr hostname)"

definition configured_hostname :: "(string \<Rightarrow> string option) \<Rightarrow> string option \<Rightarrow> host_err + string option" where
  "configured_hostname url_host value =
     (case value of
        None \<Rightarrow> Inr None
      | Some v \<Rightarrow>
          if v = [] then Inr None
          else (case url_host (if has_part ''://'' v then v else ''https://'' @ v) of
                  None \<Rightarrow> Inr None
                | Some h \<Rightarrow> if hostname_pattern (lower h)
                            then (case normalize_hostname h of Inl _ \<Rightarrow> Inr None | Inr n \<Rightarrow> Inr (Some n))
                            else Inr None))"

definition platform_owned_suffixes ::
  "(string \<Rightarrow> string option) \<Rightarrow> string \<Rightarrow> string option \<Rightarrow> string \<Rightarrow> host_err + string list" where
  "platform_owned_suffixes url_host target domain app_url =
     bind_e (normalize_hostname target) (\<lambda>t.
     bind_e (configured_hostname url_host domain) (\<lambda>d.
     bind_e (configured_hostname url_host (Some app_url)) (\<lambda>u.
     Inr (uniq (t # (case d of None \<Rightarrow> [] | Some x \<Rightarrow> [x]) @ (case u of None \<Rightarrow> [] | Some x \<Rightarrow> [x]))))))"

definition under_suffix :: "string \<Rightarrow> string \<Rightarrow> bool" where
  "under_suffix hostname suffix \<longleftrightarrow> hostname = suffix \<or> ends_with hostname (CHR ''.'' # suffix)"

definition assert_customer_hostname :: "string \<Rightarrow> string list \<Rightarrow> host_err + string" where
  "assert_customer_hostname hostname suffixes =
     bind_e (normalize_hostname hostname) (\<lambda>n.
     if \<exists>suffix \<in> set suffixes. under_suffix n suffix then Inl PlatformOwned else Inr n)"

section \<open>Claims\<close>

datatype claim_surface = SurfaceApplication | SurfaceSuite
datatype claim_status = ClaimPending | ClaimVerified | ClaimActive | ClaimTombstoned

record claim =
  hc_id :: string
  hc_hostname :: string
  hc_surface :: claim_surface
  hc_owner :: string
  hc_resource :: string
  hc_token :: string
  hc_status :: claim_status
  hc_created :: string
  hc_checked :: "string option"
  hc_verified :: "string option"
  hc_tombstoned :: "string option"

record claim_input =
  ci_hostname :: string
  ci_surface :: claim_surface
  ci_owner :: string
  ci_resource :: string

definition new_hostname_claim ::
  "js_env \<Rightarrow> (nat \<Rightarrow> string) \<Rightarrow> claim_input \<Rightarrow> string list \<Rightarrow> string \<Rightarrow> nat \<Rightarrow> host_err + claim" where
  "new_hostname_claim E tok i suffixes ts n =
     bind_e (assert_customer_hostname (ci_hostname i) suffixes) (\<lambda>hostname.
     Inr \<lparr>hc_id = uuid_at E n, hc_hostname = hostname, hc_surface = ci_surface i, hc_owner = ci_owner i,
       hc_resource = ci_resource i, hc_token = tok n, hc_status = ClaimPending, hc_created = ts,
       hc_checked = None, hc_verified = None, hc_tombstoned = None\<rparr>)"

definition ownership_instructions :: "claim \<Rightarrow> string \<Rightarrow> host_err + ownership" where
  "ownership_instructions c target =
     bind_e (normalize_hostname target) (\<lambda>t.
     Inr \<lparr>ow_claim = hc_id c, ow_txt_name = ''_managed-oss.'' @ hc_hostname c,
       ow_txt_value = ''managed-oss-domain-verification='' @ hc_token c,
       ow_cname_name = hc_hostname c, ow_cname_value = hc_token c @ ''.verify.'' @ t\<rparr>)"

section \<open>The registry\<close>

record registry =
  r_claims :: "(string, claim) jmap"
  r_draws :: nat

definition tokens :: "registry \<Rightarrow> string list" where
  "tokens s = map hc_token (jvals (r_claims s))"

text \<open>
  The loop that draws again while the token is taken. A random source that repeats itself forever
  would never leave it: the value is then \<open>None\<close>.
\<close>

partial_function (option) draw_fresh :: "(nat \<Rightarrow> string) \<Rightarrow> string list \<Rightarrow> nat \<Rightarrow> nat option" where
  [code]: "draw_fresh tok used n = (if tok n \<in> set used then draw_fresh tok used (Suc n) else Some n)"

definition claim_hostname ::
  "js_env \<Rightarrow> (nat \<Rightarrow> string) \<Rightarrow> claim_input \<Rightarrow> string list \<Rightarrow> string \<Rightarrow> registry
     \<Rightarrow> ((host_err + claim option) \<times> registry) option" where
  "claim_hostname E tok i suffixes ts s =
     (case new_hostname_claim E tok i suffixes ts (r_draws s) of
        Inl e \<Rightarrow> Some (Inl e, s\<lparr>r_draws := Suc (r_draws s)\<rparr>)
      | Inr c \<Rightarrow>
          if jget (r_claims s) (hc_hostname c) \<noteq> None then Some (Inr None, s\<lparr>r_draws := Suc (r_draws s)\<rparr>)
          else (case draw_fresh tok (tokens s) (r_draws s) of
                  None \<Rightarrow> None
                | Some k \<Rightarrow>
                    let c' = c\<lparr>hc_id := uuid_at E k, hc_token := tok k\<rparr>
                    in Some (Inr (Some c'),
                         s\<lparr>r_claims := jset (hc_hostname c') c' (r_claims s), r_draws := Suc k\<rparr>)))"

definition import_claim :: "claim \<Rightarrow> (registry, host_err, unit) act" where
  "import_claim c =
     bnd (reads (\<lambda>s. jget (r_claims s) (hc_hostname c))) (\<lambda>existing.
     bnd (case existing of
            Some x \<Rightarrow> if hc_id x \<noteq> hc_id c then throw DuplicateClaim else ret ()
          | None \<Rightarrow> ret ()) (\<lambda>_.
     bnd (reads (\<lambda>s. \<exists>x \<in> set (jvals (r_claims s)). hc_token x = hc_token c \<and> hc_id x \<noteq> hc_id c)) (\<lambda>dup.
     if dup then throw DuplicateToken
     else modifies (\<lambda>s. s\<lparr>r_claims := jset (hc_hostname c) c (r_claims s)\<rparr>))))"

text \<open>The copies a transaction takes of the claims and puts back when it fails; the random source goes on.\<close>

definition snapshot_claims :: "registry \<Rightarrow> (string, claim) jmap" where
  "snapshot_claims s = r_claims s"

definition restore_claims :: "(string, claim) jmap \<Rightarrow> registry \<Rightarrow> registry" where
  "restore_claims snapshot s = s\<lparr>r_claims := snapshot\<rparr>"

definition get_claim :: "string \<Rightarrow> (registry, host_err, claim option) act" where
  "get_claim hostname =
     bnd (lift_e (normalize_hostname hostname)) (\<lambda>n. reads (\<lambda>s. jget (r_claims s) n))"

definition owns :: "claim_input \<Rightarrow> claim \<Rightarrow> bool" where
  "owns i c \<longleftrightarrow> hc_surface c = ci_surface i \<and> hc_owner c = ci_owner i \<and> hc_resource c = ci_resource i"

definition checked_claim :: "claim \<Rightarrow> claim_status \<Rightarrow> string \<Rightarrow> claim" where
  "checked_claim c status ts = c\<lparr>hc_status := status, hc_checked := Some ts,
     hc_verified := (if status \<in> {ClaimVerified, ClaimActive} \<and> hc_verified c = None
                     then Some ts else hc_verified c)\<rparr>"

definition released_claim :: "claim \<Rightarrow> string \<Rightarrow> claim" where
  "released_claim c ts = c\<lparr>hc_status := ClaimTombstoned,
     hc_tombstoned := (if hc_tombstoned c = None then Some ts else hc_tombstoned c)\<rparr>"

definition set_claim_status ::
  "claim_input \<Rightarrow> claim_status \<Rightarrow> string \<Rightarrow> (registry, host_err, claim option) act" where
  "set_claim_status i status ts =
     bnd (get_claim (ci_hostname i)) (\<lambda>found.
     case found of
       None \<Rightarrow> ret None
     | Some c \<Rightarrow>
         if hc_status c = ClaimTombstoned \<or> \<not> owns i c then ret None
         else let c' = checked_claim c status ts
              in bnd (lift_e (normalize_hostname (ci_hostname i))) (\<lambda>n.
                 bnd (modifies (\<lambda>s. s\<lparr>r_claims := jset n c' (r_claims s)\<rparr>)) (\<lambda>_. ret (Some c'))))"

definition tombstone_claim :: "claim_input \<Rightarrow> string \<Rightarrow> (registry, host_err, bool) act" where
  "tombstone_claim i ts =
     bnd (get_claim (ci_hostname i)) (\<lambda>found.
     case found of
       None \<Rightarrow> ret False
     | Some c \<Rightarrow>
         if \<not> owns i c then ret False
         else let c' = released_claim c ts
              in bnd (lift_e (normalize_hostname (ci_hostname i))) (\<lambda>n.
                 bnd (modifies (\<lambda>s. s\<lparr>r_claims := jset n c' (r_claims s)\<rparr>)) (\<lambda>_. ret True)))"

section \<open>Domain verification\<close>

datatype verify_method = ByTxt | ByCname | NotVerified

record verification =
  ve_verified :: bool
  ve_method :: verify_method
  ve_txt :: "string list"
  ve_cname :: "string list"

definition normalize_cname :: "string \<Rightarrow> string" where
  "normalize_cname s = drop_dot (lower (trim s))"

text \<open>The DNS answers are arguments; \<open>None\<close> is a lookup that failed.\<close>

definition verify_domain :: "ownership \<Rightarrow> string list list option \<Rightarrow> string list option \<Rightarrow> verification" where
  "verify_domain w txt cname =
     (let observed_txt = map concat (case txt of None \<Rightarrow> [] | Some t \<Rightarrow> t);
          observed_cname = map normalize_cname (case cname of None \<Rightarrow> [] | Some c \<Rightarrow> c)
      in if ow_txt_value w \<in> set observed_txt
         then \<lparr>ve_verified = True, ve_method = ByTxt, ve_txt = observed_txt, ve_cname = observed_cname\<rparr>
         else if normalize_cname (ow_cname_value w) \<in> set observed_cname
         then \<lparr>ve_verified = True, ve_method = ByCname, ve_txt = observed_txt, ve_cname = observed_cname\<rparr>
         else \<lparr>ve_verified = False, ve_method = NotVerified, ve_txt = observed_txt, ve_cname = observed_cname\<rparr>)"

section \<open>Normal names\<close>

definition is_host_char :: "char \<Rightarrow> bool" where
  "is_host_char c \<longleftrightarrow> is_label_char c \<or> c = CHR ''.''"

lemma set_split_on: "x \<in> set s \<Longrightarrow> x = d \<or> (\<exists>w \<in> set (split_on d s). x \<in> set w)"
  by (induction s) (auto split: list.splits)

lemma split_on_snoc: "split_on d (xs @ [d]) = split_on d xs @ [[]]"
  by (induction xs) (auto split: list.splits)

lemma host_char_plain:
  assumes "is_host_char c"
  shows "\<not> is_ws c" "lower_char c = c"
proof -
  have "code c = 45 \<or> code c = 46 \<or> 48 \<le> code c \<and> code c \<le> 57 \<or> 97 \<le> code c \<and> code c \<le> 122"
    using assms by (auto simp: is_host_char_def is_label_char_def is_lower_alpha_def is_digit_def) (auto simp: code_def)
  then show "\<not> is_ws c" "lower_char c = c" by (auto simp: is_ws_def lower_char_def)
qed

lemma pattern_chars:
  assumes "hostname_pattern s"
  shows "\<forall>c \<in> set s. is_host_char c" and "s \<noteq> []" and "last s \<noteq> CHR ''.''"
proof -
  let ?l = "split_on CHR ''.'' s"
  have l: "list_all (\<lambda>w. w \<noteq> [] \<and> list_all is_label_char w) (butlast ?l)"
    "2 \<le> length (last ?l)" "list_all is_lower_alpha (last ?l)"
    using assms by (simp_all add: hostname_pattern_def Let_def)
  have "list_all is_label_char w" if w: "w \<in> set ?l" for w
  proof -
    have "?l = butlast ?l @ [last ?l]" by simp
    with w have "w \<in> set (butlast ?l) \<or> w = last ?l" by (metis Un_iff list.set(1) list.set(2) set_append singletonD)
    then show ?thesis using l by (auto simp: list_all_iff is_label_char_def)
  qed
  then show "\<forall>c \<in> set s. is_host_char c"
    using set_split_on[of _ s "CHR ''.''"] by (fastforce simp: list_all_iff is_host_char_def)
  show "s \<noteq> []" using assms by (auto simp: hostname_pattern_def Let_def)
  then obtain xs x where "s = xs @ [x]" by (metis append_butlast_last_id)
  then show "last s \<noteq> CHR ''.''" using l(2) split_on_snoc[of "CHR ''.''" xs] by auto
qed

lemma trim_id: "\<forall>c \<in> set s. \<not> is_ws c \<Longrightarrow> trim s = s"
proof -
  assume a: "\<forall>c \<in> set s. \<not> is_ws c"
  then have "dropWhile is_ws s = s" "dropWhile is_ws (rev s) = rev s"
    using last_in_set[of s] hd_in_set[of s] by (auto simp: dropWhile_eq_self_iff hd_rev)
  then show ?thesis by (simp add: trim_def)
qed

lemma normalize_normal: "normalize_hostname v = Inr n \<Longrightarrow> normalize_hostname n = Inr n"
proof -
  assume v: "normalize_hostname v = Inr n"
  then have p: "hostname_pattern n" "length n \<le> 230" "\<forall>w \<in> set (split_on CHR ''.'' n). length w \<le> 63 \<and> \<not> ends_with w ''-''"
    by (auto simp: normalize_hostname_def Let_def split: if_splits)
  have "trim n = n" using pattern_chars(1)[OF p(1)] host_char_plain(1) by (intro trim_id) blast
  moreover have "lower n = n"
    using pattern_chars(1)[OF p(1)] host_char_plain(2) by (simp add: lower_def map_idI)
  moreover have "drop_dot n = n" using pattern_chars(3)[OF p(1)] by (simp add: drop_dot_def)
  ultimately show ?thesis using p by (simp add: normalize_hostname_def Let_def not_less)
qed

lemma customer_normal:
  "assert_customer_hostname v suffixes = Inr n \<Longrightarrow>
     normalize_hostname n = Inr n \<and> (\<forall>x \<in> set suffixes. \<not> under_suffix n x)"
  by (auto simp: assert_customer_hostname_def bind_e_Inr_iff dest: normalize_normal split: if_splits)

section \<open>Granting a claim\<close>

lemma draw_fresh_Some:
  assumes "draw_fresh tok used n = Some k"
  shows "n \<le> k \<and> tok k \<notin> set used"
  by (rule draw_fresh.raw_induct[of "\<lambda>tok used n k. n \<le> k \<and> tok k \<notin> set used", OF _ assms])
    (fastforce split: if_splits)

lemma draw_fresh_returns: "tok m \<notin> set used \<Longrightarrow> n \<le> m \<Longrightarrow> \<exists>k. draw_fresh tok used n = Some k"
proof (induction "m - n" arbitrary: n)
  case 0
  then have "n = m" by simp
  with 0 show ?case by (subst draw_fresh.simps) simp
next
  case (Suc d)
  show ?case
  proof (cases "tok n \<in> set used")
    case True
    then have "n \<noteq> m" using Suc.prems by auto
    then have "Suc n \<le> m" "d = m - Suc n" using Suc by simp_all
    from Suc.hyps(1)[OF this(2) Suc.prems(1) this(1)] True show ?thesis by (subst draw_fresh.simps) simp
  qed (subst draw_fresh.simps, simp)
qed

lemma draw_fresh_bound: "draw_fresh tok used n = Some k \<Longrightarrow> n \<le> m \<Longrightarrow> tok m \<notin> set used \<Longrightarrow> k \<le> m"
proof (induction "m - n" arbitrary: n)
  case 0
  then have "n = m" by simp
  with 0 show ?case by (subst (asm) draw_fresh.simps) simp
next
  case (Suc d)
  show ?case
  proof (cases "tok n \<in> set used")
    case True
    then have "n \<noteq> m" using Suc.prems(3) by auto
    then have "Suc n \<le> m" "d = m - Suc n" using Suc.prems(2) Suc.hyps(2) by simp_all
    moreover have "draw_fresh tok used (Suc n) = Some k" using Suc.prems(1) True by (subst (asm) draw_fresh.simps) simp
    ultimately show ?thesis using Suc.hyps(1) Suc.prems(3) by blast
  next
    case False
    then show ?thesis using Suc.prems(1,2) by (subst (asm) draw_fresh.simps) simp
  qed
qed

text \<open>C28: A claim request returns. When some draw of the random source, now or later, is a challenge
  token that no claim holds, the loop that draws again while the token is taken ends at that draw at the
  latest, whatever the registry holds and whether the request is granted, refused or invalid.\<close>

theorem claim_returns:
  assumes "r_draws s \<le> m" and "tok m \<notin> set (tokens s)"
  shows "\<exists>r t. claim_hostname E tok i suffixes ts s = Some (r, t) \<and> r_draws s < r_draws t \<and> r_draws t \<le> Suc m"
proof -
  obtain k where k: "draw_fresh tok (tokens s) (r_draws s) = Some k"
    using draw_fresh_returns[of tok m "tokens s" "r_draws s"] assms by blast
  have "r_draws s \<le> k" "k \<le> m" using draw_fresh_Some[OF k] draw_fresh_bound[OF k assms(1)] assms(2) by auto
  with k assms(1) show ?thesis
    by (auto simp: claim_hostname_def Let_def split: sum.split)
qed

text \<open>C27: What a granted claim is. Its hostname is the normal form of the requested one, is no platform
  hostname and lies under none, was free, and gets a token no other claim has; the claim is pending,
  belongs to the requester, and is the only change to the registry.\<close>

theorem claim_granted:
  assumes "claim_hostname E tok i suffixes ts s = Some (Inr (Some c), t)"
  shows "normalize_hostname (ci_hostname i) = Inr (hc_hostname c)
     \<and> normalize_hostname (hc_hostname c) = Inr (hc_hostname c)
     \<and> (\<forall>x \<in> set suffixes. \<not> under_suffix (hc_hostname c) x)
     \<and> jget (r_claims s) (hc_hostname c) = None \<and> hc_token c \<notin> set (tokens s)
     \<and> hc_status c = ClaimPending \<and> owns i c
     \<and> r_claims t = jset (hc_hostname c) c (r_claims s)"
proof -
  from assms obtain c0 where n: "new_hostname_claim E tok i suffixes ts (r_draws s) = Inr c0"
    by (auto simp: claim_hostname_def split: sum.splits)
  with assms obtain k where free: "jget (r_claims s) (hc_hostname c0) = None"
    and k: "draw_fresh tok (tokens s) (r_draws s) = Some k"
    and c: "c = c0\<lparr>hc_id := uuid_at E k, hc_token := tok k\<rparr>"
    and t: "r_claims t = jset (hc_hostname c0) c (r_claims s)"
    by (auto simp: claim_hostname_def Let_def split: if_splits option.splits)
  from n obtain h where h: "assert_customer_hostname (ci_hostname i) suffixes = Inr h"
    and c0: "hc_hostname c0 = h" "hc_status c0 = ClaimPending" "owns i c0"
    by (auto simp: new_hostname_claim_def bind_e_Inr_iff owns_def)
  have "normalize_hostname (ci_hostname i) = Inr h"
    using h by (auto simp: assert_customer_hostname_def bind_e_Inr_iff split: if_splits)
  then show ?thesis
    using c c0 free t draw_fresh_Some[OF k] customer_normal[OF h] by (simp add: owns_def)
qed

section \<open>Histories\<close>

definition same_claim :: "claim \<Rightarrow> claim \<Rightarrow> bool" where
  "same_claim c d \<longleftrightarrow> hc_id d = hc_id c \<and> hc_hostname d = hc_hostname c \<and> hc_surface d = hc_surface c
     \<and> hc_owner d = hc_owner c \<and> hc_resource d = hc_resource c \<and> hc_token d = hc_token c
     \<and> hc_created d = hc_created c
     \<and> (hc_status c = ClaimTombstoned \<longrightarrow> hc_status d = ClaimTombstoned)"

text \<open>
  \<open>attachHostnameRegistry\<close> imports the claims another registry granted. Identifiers are random UUIDs:
  when the name is registered here under the identifier of the imported claim, both are that one claim,
  and the import brings its later state. (\<open>import\<close> itself compares identifiers only.)
\<close>

definition brings_own_claim :: "claim \<Rightarrow> registry \<Rightarrow> bool" where
  "brings_own_claim c s \<longleftrightarrow> (\<forall>x. jget (r_claims s) (hc_hostname c) = Some x \<longrightarrow> hc_id x = hc_id c \<longrightarrow> same_claim x c)"

text \<open>
  Everything that changes a registry, in any order: claiming, reporting a DNS check, releasing, importing
  the claims of another registry, and a workspace transaction that fails after any history of such
  operations and puts the snapshot taken at its start back.
\<close>

inductive registry_step :: "js_env \<Rightarrow> (nat \<Rightarrow> string) \<Rightarrow> registry \<Rightarrow> registry \<Rightarrow> bool"
  and registry_reaches :: "js_env \<Rightarrow> (nat \<Rightarrow> string) \<Rightarrow> registry \<Rightarrow> registry \<Rightarrow> bool" for E tok where
  claimed: "claim_hostname E tok i suffixes ts s = Some (r, t) \<Longrightarrow> registry_step E tok s t"
| checked: "status \<noteq> ClaimTombstoned \<Longrightarrow> set_claim_status i status ts s = (q, t) \<Longrightarrow> registry_step E tok s t"
| released: "tombstone_claim i ts s = (b, t) \<Longrightarrow> registry_step E tok s t"
| imported: "brings_own_claim c s \<Longrightarrow> import_claim c s = (u, t) \<Longrightarrow> registry_step E tok s t"
| rolled_back: "registry_reaches E tok s t \<Longrightarrow> registry_step E tok s (restore_claims (snapshot_claims s) t)"
| here: "registry_reaches E tok s s"
| later: "registry_reaches E tok s t \<Longrightarrow> registry_step E tok t v \<Longrightarrow> registry_reaches E tok s v"

lemma same_claim_refl [simp]: "same_claim c c"
  by (simp add: same_claim_def)

lemma same_claim_trans: "same_claim c d \<Longrightarrow> same_claim d e \<Longrightarrow> same_claim c e"
  by (auto simp: same_claim_def)

lemma get_claim_run: "get_claim h s = (case normalize_hostname h of Inl e \<Rightarrow> (Inl e, s)
     | Inr n \<Rightarrow> (Inr (jget (r_claims s) n), s))"
  by (auto simp: get_claim_def bnd_def split: sum.split)

lemma edited_same:
  "hc_status c \<noteq> ClaimTombstoned \<Longrightarrow> same_claim c (checked_claim c status ts)"
  "same_claim c (released_claim c ts)" "hc_status (released_claim c ts) = ClaimTombstoned"
  by (simp_all add: same_claim_def checked_claim_def released_claim_def)

definition edits :: "claim_input \<Rightarrow> registry \<Rightarrow> registry \<Rightarrow> bool" where
  "edits i s t \<longleftrightarrow> t = s \<or> (\<exists>n c d. normalize_hostname (ci_hostname i) = Inr n
     \<and> jget (r_claims s) n = Some c \<and> owns i c \<and> same_claim c d \<and> t = s\<lparr>r_claims := jset n d (r_claims s)\<rparr>)"

lemma edits_refl [simp]: "edits i s s"
  by (simp add: edits_def)

lemma edits_intro: "normalize_hostname (ci_hostname i) = Inr n \<Longrightarrow> jget (r_claims s) n = Some c \<Longrightarrow> owns i c
    \<Longrightarrow> same_claim c d \<Longrightarrow> edits i s (s\<lparr>r_claims := jset n d (r_claims s)\<rparr>)"
  by (auto simp: edits_def)

lemma edited_claim:
  "set_claim_status i status ts s = (r, t) \<Longrightarrow> edits i s t"
  "tombstone_claim i ts s = (q, t) \<Longrightarrow> edits i s t"
  unfolding set_claim_status_def tombstone_claim_def bnd_def get_claim_run
  by (auto simp: Let_def intro!: edits_intro edited_same
      split: sum.splits option.splits if_splits)

lemma edits_keeps:
  "edits i s t \<Longrightarrow> jget (r_claims s) n = Some c \<Longrightarrow> \<exists>d. jget (r_claims t) n = Some d \<and> same_claim c d"
  by (fastforce simp: edits_def jget_jset)

lemma claim_keeps_others:
  "claim_hostname E tok i suffixes ts s = Some (r, t) \<Longrightarrow> jget (r_claims s) n = Some c \<Longrightarrow> jget (r_claims t) n = Some c"
  by (auto simp: claim_hostname_def Let_def jget_jset new_hostname_claim_def bind_e_Inr_iff
      split: sum.splits if_splits option.splits)

lemma import_keeps:
  assumes "brings_own_claim c s" and "import_claim c s = (u, t)" and "jget (r_claims s) n = Some x"
  shows "\<exists>d. jget (r_claims t) n = Some d \<and> same_claim x d"
  using assms
  by (auto simp: import_claim_def brings_own_claim_def bnd_def jget_jset split: option.splits if_splits)

lemma history_same_claim:
  "registry_step E tok s t \<Longrightarrow> (\<And>n c. jget (r_claims s) n = Some c \<Longrightarrow> \<exists>d. jget (r_claims t) n = Some d \<and> same_claim c d)"
  "registry_reaches E tok s t \<Longrightarrow> (\<And>n c. jget (r_claims s) n = Some c \<Longrightarrow> \<exists>d. jget (r_claims t) n = Some d \<and> same_claim c d)"
proof (induction rule: registry_step_registry_reaches.inducts)
  case claimed
  from claim_keeps_others[OF claimed] show ?case by auto
next
  case checked
  from edits_keeps[OF edited_claim(1)[OF checked(2)] checked(3)] show ?case .
next
  case released
  from edits_keeps[OF edited_claim(2)[OF released(1)] released(2)] show ?case .
next
  case imported
  from import_keeps[OF imported] show ?case .
next
  case rolled_back
  then show ?case by (simp add: restore_claims_def snapshot_claims_def)
next
  case here
  then show ?case by simp
next
  case later
  then show ?case by (meson same_claim_trans)
qed


section \<open>Proof of ownership\<close>

lemma normalize_cname_append_lower: "normalize_cname s = normalize_cname t \<Longrightarrow> \<forall>c \<in> set s \<union> set t. is_host_char c
    \<Longrightarrow> s \<noteq> [] \<Longrightarrow> t \<noteq> [] \<Longrightarrow> last s \<noteq> CHR ''.'' \<Longrightarrow> last t \<noteq> CHR ''.'' \<Longrightarrow> s = t"
proof -
  have id: "normalize_cname s = s" if "\<forall>c \<in> set s. is_host_char c" "s \<noteq> []" "last s \<noteq> CHR ''.''" for s
  proof -
    have "trim s = s" using that(1) host_char_plain(1) by (intro trim_id) blast
    moreover have "lower s = s" using that(1) host_char_plain(2) by (simp add: lower_def map_idI)
    ultimately show ?thesis using that by (simp add: normalize_cname_def drop_dot_def)
  qed
  assume "normalize_cname s = normalize_cname t" "\<forall>c \<in> set s \<union> set t. is_host_char c"
    "s \<noteq> []" "t \<noteq> []" "last s \<noteq> CHR ''.''" "last t \<noteq> CHR ''.''"
  then show "s = t" by (simp add: id)
qed

lemma hex_host_char: "is_lower_hex c \<Longrightarrow> is_host_char c \<and> c \<noteq> CHR ''.''"
  by (auto simp: is_lower_hex_def is_host_char_def is_label_char_def is_lower_alpha_def is_digit_def code_def)

lemma verified_one:
  "ve_verified (verify_domain w (Some [chunks]) None) \<longleftrightarrow> ow_txt_value w = concat chunks"
  "ve_verified (verify_domain w None (Some [name])) \<longleftrightarrow> normalize_cname (ow_cname_value w) = normalize_cname name"
  "\<not> ve_verified (verify_domain w None None)"
  by (simp_all add: verify_domain_def Let_def)

lemma cname_value_token:
  assumes "hostname_pattern t" and "list_all is_lower_hex a" and "list_all is_lower_hex b"
    and "normalize_cname (a @ ''.verify.'' @ t) = normalize_cname (b @ ''.verify.'' @ t)"
  shows "a = b"
proof -
  note tp = pattern_chars[OF assms(1)]
  have "\<forall>x \<in> set ''.verify.''. is_host_char x"
    by (auto simp: is_host_char_def is_label_char_def is_lower_alpha_def code_def)
  then have h: "\<forall>x \<in> set (e @ ''.verify.'' @ t). is_host_char x" if "list_all is_lower_hex e" for e
    using that tp(1) hex_host_char unfolding list_all_iff set_append by blast
  have "a @ ''.verify.'' @ t = b @ ''.verify.'' @ t"
    using h[OF assms(2)] h[OF assms(3)] tp(2,3) by (intro normalize_cname_append_lower[OF assms(4)]) auto
  moreover have "takeWhile (\<lambda>x. x \<noteq> CHR ''.'') (e @ ''.verify.'' @ t) = e" if "list_all is_lower_hex e" for e
    using that hex_host_char by (auto simp: takeWhile_append list_all_iff)
  ultimately show ?thesis using assms(2,3) by metis
qed

text \<open>A DNS answer proves one claim only. A TXT or CNAME answer that is accepted as proof for a claim
  is not accepted for a claim with another challenge token, and a lookup that fails proves nothing.\<close>

theorem dns_proof_specific:
  assumes "ownership_instructions c target = Inr w" and "ownership_instructions d target = Inr v"
    and "list_all is_lower_hex (hc_token c)" and "list_all is_lower_hex (hc_token d)"
    and "hc_token c \<noteq> hc_token d"
  shows "\<not> (ve_verified (verify_domain w (Some [chunks]) None) \<and> ve_verified (verify_domain v (Some [chunks]) None))
     \<and> \<not> (ve_verified (verify_domain w None (Some [name])) \<and> ve_verified (verify_domain v None (Some [name])))
     \<and> \<not> ve_verified (verify_domain w None None)"
proof -
  from assms(1,2) obtain t where t: "normalize_hostname target = Inr t"
    and w: "ow_txt_value w = ''managed-oss-domain-verification='' @ hc_token c" "ow_cname_value w = hc_token c @ ''.verify.'' @ t"
    and v: "ow_txt_value v = ''managed-oss-domain-verification='' @ hc_token d" "ow_cname_value v = hc_token d @ ''.verify.'' @ t"
    by (auto simp: ownership_instructions_def bind_e_Inr_iff)
  then have "ow_txt_value w \<noteq> ow_txt_value v" using assms(5) by simp
  moreover have "hostname_pattern t" using t by (auto simp: normalize_hostname_def Let_def split: if_splits)
  then have "normalize_cname (ow_cname_value w) \<noteq> normalize_cname (ow_cname_value v)"
    unfolding w v using cname_value_token assms(3-5) by blast
  ultimately show ?thesis by (auto simp: verified_one)
qed

section \<open>Examples\<close>

definition shop_input :: claim_input where
  "shop_input = \<lparr>ci_hostname = '' Shop.Example.com.'', ci_surface = SurfaceSuite, ci_owner = ''u1'', ci_resource = ''r1''\<rparr>"

definition hex_token :: "nat \<Rightarrow> string" where
  "hex_token n = replicate n CHR ''a''"

definition empty_registry :: registry where
  "empty_registry = \<lparr>r_claims = [], r_draws = 0\<rparr>"

lemma shop_normal: "normalize_hostname '' Shop.Example.com.'' = Inr ''shop.example.com''"
  by code_simp

lemma shop_granted: "\<exists>c t. claim_hostname E hex_token shop_input [''cloud.test''] ts empty_registry = Some (Inr (Some c), t)
   \<and> hc_hostname c = ''shop.example.com'' \<and> r_claims t = [(''shop.example.com'', c)]"
proof -
  have "\<not> under_suffix ''shop.example.com'' ''cloud.test''" by code_simp
  then show ?thesis
    by (simp add: claim_hostname_def new_hostname_claim_def assert_customer_hostname_def shop_input_def shop_normal
        empty_registry_def tokens_def jvals_def jset_def draw_fresh.simps Let_def)
qed

definition taken_token :: string where
  "taken_token = replicate 36 CHR ''a''"

text \<open>A source of 18-byte tokens whose first draw is already taken and that repeats itself later.\<close>

definition short_source :: "nat \<Rightarrow> string" where
  "short_source n = (if n = 0 then taken_token else replicate 36 CHR ''b'')"

definition one_claim :: registry where
  "one_claim = \<lparr>r_claims = [(''old.example.com'', \<lparr>hc_id = ''c0'', hc_hostname = ''old.example.com'', hc_surface = SurfaceSuite,
     hc_owner = ''u0'', hc_resource = ''r0'', hc_token = taken_token, hc_status = ClaimPending, hc_created = [],
     hc_checked = None, hc_verified = None, hc_tombstoned = None\<rparr>)], r_draws = 0\<rparr>"

theorem claim_returns_witness:
  "\<exists>r t. claim_hostname sample_env short_source shop_input [] ''2026'' one_claim = Some (r, t) \<and> r_draws t \<le> 2"
  using claim_returns[of one_claim 1 short_source sample_env shop_input "[]" "''2026''"]
  by (auto simp: one_claim_def tokens_def jvals_def short_source_def taken_token_def numeral_eq_Suc)

theorem claim_granted_witness:
  "\<exists>c t. claim_hostname sample_env hex_token shop_input [''cloud.test''] ''2026'' empty_registry = Some (Inr (Some c), t)
     \<and> hc_hostname c = ''shop.example.com'' \<and> hc_status c = ClaimPending \<and> hc_owner c = ''u1''"
proof -
  obtain c t where run: "claim_hostname sample_env hex_token shop_input [''cloud.test''] ''2026'' empty_registry = Some (Inr (Some c), t)"
    "hc_hostname c = ''shop.example.com''" using shop_granted by blast
  from claim_granted[OF this(1)] run show ?thesis by (auto simp: owns_def shop_input_def)
qed


definition sample_claim :: "string \<Rightarrow> claim" where
  "sample_claim token = \<lparr>hc_id = ''c1'', hc_hostname = ''shop.example.com'', hc_surface = SurfaceSuite, hc_owner = ''u1'',
     hc_resource = ''r1'', hc_token = token, hc_status = ClaimPending, hc_created = [], hc_checked = None,
     hc_verified = None, hc_tombstoned = None\<rparr>"

theorem dns_proof_specific_witness:
  "\<exists>w v. ownership_instructions (sample_claim ''ab'') ''cloud.test'' = Inr w
     \<and> ownership_instructions (sample_claim ''cd'') ''cloud.test'' = Inr v
     \<and> ve_verified (verify_domain w None (Some [''AB.verify.cloud.test.'']))
     \<and> \<not> ve_verified (verify_domain v None (Some [''AB.verify.cloud.test.'']))"
proof -
  have t: "normalize_hostname ''cloud.test'' = Inr ''cloud.test''" by code_simp
  obtain w v where i: "ownership_instructions (sample_claim ''ab'') ''cloud.test'' = Inr w"
    "ownership_instructions (sample_claim ''cd'') ''cloud.test'' = Inr v"
    by (simp add: ownership_instructions_def t)
  then have "ow_cname_value w = ''ab.verify.cloud.test''"
    by (auto simp: ownership_instructions_def t sample_claim_def)
  moreover have "normalize_cname ''ab.verify.cloud.test'' = normalize_cname ''AB.verify.cloud.test.''" by code_simp
  ultimately have "ve_verified (verify_domain w None (Some [''AB.verify.cloud.test.'']))"
    by (simp add: verified_one)
  moreover have "list_all is_lower_hex (hc_token (sample_claim ''ab''))" "list_all is_lower_hex (hc_token (sample_claim ''cd''))"
    "hc_token (sample_claim ''ab'') \<noteq> hc_token (sample_claim ''cd'')"
    by code_simp+
  ultimately show ?thesis using dns_proof_specific[OF i] i by blast
qed

end
