(* ===== verification/App_Manifests.thy ===== *)
theory App_Manifests
  imports Json_Text Platform_Types
begin

text \<open>
  The container manifests of the catalog applications (\<open>server/app-manifests.ts\<close>): what one
  instance runs, on which networks, under which limits, and the reservation the platform charges
  for it. \<open>sec k n\<close> is the \<open>k\<close>-th secret the call draws, of \<open>n\<close> random bytes.
\<close>

section \<open>Reservations\<close>

record envelope =
  en_memory :: num
  en_cpu :: num
  en_storage :: num

definition reservation_of :: "int \<Rightarrow> int \<Rightarrow> int \<Rightarrow> envelope" where
  "reservation_of m c s = \<lparr>en_memory = num_of_int m, en_cpu = num_of_int c, en_storage = num_of_int s\<rparr>"

definition reservations :: "(string \<times> envelope) list" where
  "reservations =
     [(''cal-diy'', reservation_of 3104 1500 20), (''documenso'', reservation_of 2144 1000 20),
      (''heyform'', reservation_of 1344 750 20), (''uptime-kuma'', reservation_of 416 250 3),
      (''listmonk'', reservation_of 608 500 10), (''umami'', reservation_of 800 750 10)]"

datatype manifest_err = NoReservation | NoManifest | BadProject | BadMemoryLimit | BadCpuLimit | LimitMismatch

text \<open>
  The lookup \<open>reservations[appId]\<close> also finds the members every object inherits; such a value has no
  reservation fields, so arithmetic on it gives \<open>NaN\<close>.
\<close>

definition runtime_reservation :: "string \<Rightarrow> manifest_err + envelope" where
  "runtime_reservation app = (case map_of reservations app of Some r \<Rightarrow> Inr r
     | None \<Rightarrow> if app \<in> set proto_keys then Inr \<lparr>en_memory = NaN, en_cpu = NaN, en_storage = NaN\<rparr> else Inl NoReservation)"

section \<open>Manifests\<close>

record runtime_manifest =
  rm_app :: string
  rm_port :: int
  rm_health :: string
  rm_primary :: string
  rm_proxy :: string
  rm_readiness :: "obj option"
  rm_name :: string
  rm_networks :: obj
  rm_services :: "(string \<times> obj) list"

record manifest_options =
  mo_network :: "string option"
  mo_broker :: "(string \<times> string) option"

text \<open>\<open>/^mos-[0-9a-f]{12}$/i\<close>\<close>

definition project_pattern :: "string \<Rightarrow> bool" where
  "project_pattern s \<longleftrightarrow> length s = 16 \<and> lower (take 4 s) = ''mos-'' \<and> list_all is_hex (drop 4 s)"

definition runtime_ingress_network :: "instance_rec \<Rightarrow> manifest_err + string" where
  "runtime_ingress_network i =
     (if \<not> project_pattern (ai_project i) then Inl BadProject else Inr (ai_project i @ ''-ingress''))"

definition proxy_service :: "instance_rec \<Rightarrow> int \<Rightarrow> string \<Rightarrow> obj" where
  "proxy_service i port cpu =
     [(''image'', JStr ''caddy:2.10-alpine@sha256:4c6e91c6ed0e2fa03efd5b44747b625fec79bc9cd06ac5235a779726618e530d''),
      (''container_name'', JStr (ai_project i @ ''-proxy'')),
      (''restart'', JStr ''unless-stopped''),
      (''depends_on'', JObj [(''app'', JObj [(''condition'', JStr ''service_started'')])]),
      (''command'', JArr [JStr ''caddy'', JStr ''reverse-proxy'', JStr ''--from'', JStr '':8080'', JStr ''--to'',
         JStr (''app:'' @ nat_text (nat port))]),
      (''expose'', JArr [JStr ''8080'']),
      (''networks'', JArr [JStr ''ingress'', JStr ''platform'']),
      (''labels'', JObj [(''com.getsupers.managed'', JStr ''true''),
         (''com.getsupers.application-instance'', JStr (ai_id i)),
         (''com.getsupers.role'', JStr ''fixed-upstream-proxy'')]),
      (''mem_limit'', JStr ''32m''),
      (''cpus'', JStr cpu),
      (''deploy'', JObj [(''resources'', JObj [(''limits'', JObj [(''memory'', JStr ''32M''), (''cpus'', JStr cpu)])])]),
      (''read_only'', JBool True),
      (''tmpfs'', JArr [JStr ''/data'', JStr ''/config'']),
      (''security_opt'', JArr [JStr ''no-new-privileges:true''])]"

definition base_networks :: "instance_rec \<Rightarrow> manifest_options \<Rightarrow> obj" where
  "base_networks i options =
     [(''private'', JObj [(''internal'', JBool True)]),
      (''ingress'', JObj [(''external'', JBool True), (''name'', JStr (ai_project i @ ''-ingress''))]),
      (''platform'', JObj [(''external'', JBool True),
         (''name'', JStr (case mo_network options of None \<Rightarrow> ''managed-oss-worker-platform'' | Some n \<Rightarrow> n))])]"

definition runtime_manifest_of ::
  "instance_rec \<Rightarrow> manifest_options \<Rightarrow> int \<Rightarrow> string \<Rightarrow> obj option \<Rightarrow> (string \<times> obj) list \<Rightarrow> runtime_manifest" where
  "runtime_manifest_of i options port health readiness services =
     \<lparr>rm_app = ai_app i, rm_port = port, rm_health = health, rm_primary = ai_project i @ ''-app'',
      rm_proxy = ai_project i @ ''-proxy'', rm_readiness = readiness, rm_name = ai_project i,
      rm_networks = base_networks i options, rm_services = services\<rparr>"

definition cal_diy_app :: "instance_rec \<Rightarrow> (nat \<Rightarrow> nat \<Rightarrow> string) \<Rightarrow> obj" where
  "cal_diy_app i sec =
       [(''image'', JStr ''calcom/cal.com:v6.2.0@sha256:ace3bb1219fb7306585ab9f4d94d41af7ee064c343db0498173436bbe857bd49''),
        (''container_name'', JStr (ai_project i @ ''-app'')),
        (''restart'', JStr ''unless-stopped''),
        (''depends_on'', JObj ([(''db'', JObj [(''condition'', JStr ''service_healthy'')]),
        (''redis'', JObj [(''condition'', JStr ''service_healthy'')])])),
        (''environment'', JObj ([(''DATABASE_HOST'', JStr ''db:5432''),
        (''DATABASE_URL'', JStr (''postgresql://calcom:'' @ sec 0 24 @ ''@db:5432/calendso'')),
        (''DATABASE_DIRECT_URL'', JStr (''postgresql://calcom:'' @ sec 0 24 @ ''@db:5432/calendso'')),
        (''REDIS_URL'', JStr ''redis://redis:6379''),
        (''NEXT_PUBLIC_WEBAPP_URL'', JStr (''https://'' @ ai_hostname i)),
        (''NEXT_PUBLIC_WEBSITE_URL'', JStr (''https://'' @ ai_hostname i)),
        (''NEXT_PUBLIC_EMBED_LIB_URL'', JStr (''https://'' @ ai_hostname i @ ''/embed/embed.js'')),
        (''NEXTAUTH_URL'', JStr (''https://'' @ ai_hostname i)),
        (''NEXTAUTH_SECRET'', JStr (sec 1 32)),
        (''CALENDSO_ENCRYPTION_KEY'', JStr (sec 2 24)),
        (''NEXT_PUBLIC_LICENSE_CONSENT'', JStr ''agree''),
        (''CALCOM_TELEMETRY_DISABLED'', JStr ''1''),
        (''NODE_ENV'', JStr ''production'')])),
        (''expose'', JArr [JStr ''3000'']),
        (''networks'', JArr [JStr ''private'', JStr ''ingress'']),
        (''labels'', JObj ([(''com.getsupers.managed'', JStr ''true''),
        (''com.getsupers.application-instance'', JStr (ai_id i))])),
        (''mem_limit'', JStr ''2560m''),
        (''cpus'', JStr ''1.15''),
        (''healthcheck'', JObj ([(''test'', JArr [JStr ''CMD'', JStr ''wget'', JStr ''--spider'', JStr ''-q'', JStr ''http://127.0.0.1:3000'']),
        (''interval'', JStr ''20s''),
        (''timeout'', JStr ''10s''),
        (''retries'', jint 30),
        (''start_period'', JStr ''90s'')])),
        (''deploy'', JObj ([(''resources'', JObj ([(''limits'', JObj ([(''memory'', JStr ''2560M''),
        (''cpus'', JStr ''1.15'')]))]))])),
        (''security_opt'', JArr [JStr ''no-new-privileges:true''])]"

definition cal_diy_db :: "instance_rec \<Rightarrow> (nat \<Rightarrow> nat \<Rightarrow> string) \<Rightarrow> obj" where
  "cal_diy_db i sec =
       [(''image'', JStr ''postgres:15-alpine@sha256:fe0737ba566a2c5b2a28f34433c0a423261900ec17b9bf7ad115e1aae7e57f1b''),
        (''container_name'', JStr (ai_project i @ ''-db'')),
        (''restart'', JStr ''unless-stopped''),
        (''environment'', JObj ([(''POSTGRES_USER'', JStr ''calcom''),
        (''POSTGRES_PASSWORD'', JStr (sec 0 24)),
        (''POSTGRES_DB'', JStr ''calendso'')])),
        (''volumes'', JArr [JStr ''./database:/var/lib/postgresql/data'']),
        (''networks'', JArr [JStr ''private'']),
        (''labels'', JObj ([(''com.getsupers.managed'', JStr ''true''),
        (''com.getsupers.application-instance'', JStr (ai_id i))])),
        (''mem_limit'', JStr ''384m''),
        (''cpus'', JStr ''0.2''),
        (''healthcheck'', JObj ([(''test'', JArr [JStr ''CMD-SHELL'', JStr ''pg_isready -U calcom -d calendso'']),
        (''interval'', JStr ''10s''),
        (''timeout'', JStr ''5s''),
        (''retries'', jint 18)])),
        (''deploy'', JObj ([(''resources'', JObj ([(''limits'', JObj ([(''memory'', JStr ''384M''),
        (''cpus'', JStr ''0.2'')]))]))])),
        (''security_opt'', JArr [JStr ''no-new-privileges:true''])]"

definition cal_diy_redis :: "instance_rec \<Rightarrow> (nat \<Rightarrow> nat \<Rightarrow> string) \<Rightarrow> obj" where
  "cal_diy_redis i sec =
       [(''image'', JStr ''eqalpha/keydb:x86_64_v6.3.4@sha256:eceb1806730c7850395b8262300182c2e15a6e5dacbf0b72cbab110518caf43f''),
        (''container_name'', JStr (ai_project i @ ''-redis'')),
        (''restart'', JStr ''unless-stopped''),
        (''command'', JArr [JStr ''keydb-server'', JStr ''--appendonly'', JStr ''yes'', JStr ''--protected-mode'', JStr ''no'']),
        (''volumes'', JArr [JStr ''./redis:/data'']),
        (''networks'', JArr [JStr ''private'']),
        (''labels'', JObj ([(''com.getsupers.managed'', JStr ''true''),
        (''com.getsupers.application-instance'', JStr (ai_id i))])),
        (''mem_limit'', JStr ''128m''),
        (''cpus'', JStr ''0.1''),
        (''healthcheck'', JObj ([(''test'', JArr [JStr ''CMD'', JStr ''keydb-cli'', JStr ''ping'']),
        (''interval'', JStr ''10s''),
        (''timeout'', JStr ''5s''),
        (''retries'', jint 12)])),
        (''deploy'', JObj ([(''resources'', JObj ([(''limits'', JObj ([(''memory'', JStr ''128M''),
        (''cpus'', JStr ''0.1'')]))]))])),
        (''security_opt'', JArr [JStr ''no-new-privileges:true''])]"

definition cal_diy_manifest :: "instance_rec \<Rightarrow> manifest_options \<Rightarrow> (nat \<Rightarrow> nat \<Rightarrow> string) \<Rightarrow> runtime_manifest" where
  "cal_diy_manifest i options sec =
     runtime_manifest_of i options 3000 ''/'' (None)
       [(''proxy'', (proxy_service i 3000 ''0.05'')),
         (''app'', (cal_diy_app i sec)),
         (''db'', (cal_diy_db i sec)),
         (''redis'', (cal_diy_redis i sec))]"

definition documenso_certificate :: "instance_rec \<Rightarrow> (nat \<Rightarrow> nat \<Rightarrow> string) \<Rightarrow> obj" where
  "documenso_certificate i sec =
       [(''image'', JStr ''alpine/openssl:3.5.4@sha256:42c7389ef077aed0eb4e96d0abbd094083d701bbaff1313073b061c0c9cd8278''),
        (''container_name'', JStr (ai_project i @ ''-certificate'')),
        (''environment'', JObj [(''CERTIFICATE_PASSWORD'', JStr (sec 1 24))]),
        (''entrypoint'', JArr [JStr ''/bin/sh'', JStr ''-c'']),
        (''command'', JArr [JStr (''if [ ! -s /certificates/cert.p12 ]; then openssl req -x509 -newkey rsa:2048 -sha256 -nodes -keyout /tmp/key.pem -out /tmp/cert.pem -days 825 -subj '' @ [CHR 0x27] @ ''/CN=Managed Documenso Signing Certificate'' @ [CHR 0x27] @ '' && openssl pkcs12 -export -out /certificates/cert.p12 -inkey /tmp/key.pem -in /tmp/cert.pem -password env:CERTIFICATE_PASSWORD && chmod 0444 /certificates/cert.p12; fi'')]),
        (''volumes'', JArr [JStr ''./certificate:/certificates'']),
        (''networks'', JArr [JStr ''private'']),
        (''labels'', JObj ([(''com.getsupers.managed'', JStr ''true''),
        (''com.getsupers.application-instance'', JStr (ai_id i))])),
        (''mem_limit'', JStr ''64m''),
        (''cpus'', JStr ''0.05''),
        (''deploy'', JObj ([(''resources'', JObj ([(''limits'', JObj ([(''memory'', JStr ''64M''),
        (''cpus'', JStr ''0.05'')]))]))])),
        (''security_opt'', JArr [JStr ''no-new-privileges:true''])]"

definition documenso_app :: "instance_rec \<Rightarrow> (nat \<Rightarrow> nat \<Rightarrow> string) \<Rightarrow> obj" where
  "documenso_app i sec =
       [(''image'', JStr ''documenso/documenso:v2.17.0@sha256:1377ba20181d4d029e768b7b7615e4e49c39450a85588a525e78dc586dd2569c''),
        (''container_name'', JStr (ai_project i @ ''-app'')),
        (''restart'', JStr ''unless-stopped''),
        (''depends_on'', JObj ([(''db'', JObj [(''condition'', JStr ''service_healthy'')]),
        (''certificate'', JObj [(''condition'', JStr ''service_completed_successfully'')])])),
        (''environment'', JObj ([(''PORT'', JStr ''3000''),
        (''NEXTAUTH_SECRET'', JStr (sec 2 32)),
        (''NEXT_PRIVATE_ENCRYPTION_KEY'', JStr (sec 3 32)),
        (''NEXT_PRIVATE_ENCRYPTION_SECONDARY_KEY'', JStr (sec 4 32)),
        (''NEXT_PUBLIC_WEBAPP_URL'', JStr (''https://'' @ ai_hostname i)),
        (''NEXT_PRIVATE_INTERNAL_WEBAPP_URL'', JStr ''http://127.0.0.1:3000''),
        (''NEXT_PRIVATE_DATABASE_URL'', JStr (''postgresql://documenso:'' @ sec 0 24 @ ''@db:5432/documenso'')),
        (''NEXT_PRIVATE_DIRECT_DATABASE_URL'', JStr (''postgresql://documenso:'' @ sec 0 24 @ ''@db:5432/documenso'')),
        (''NEXT_PRIVATE_SIGNING_TRANSPORT'', JStr ''local''),
        (''NEXT_PRIVATE_SIGNING_LOCAL_FILE_PATH'', JStr ''/opt/documenso/certificates/cert.p12''),
        (''NEXT_PRIVATE_SIGNING_PASSPHRASE'', JStr (sec 1 24)),
        (''NEXT_PUBLIC_UPLOAD_TRANSPORT'', JStr ''database''),
        (''NEXT_PRIVATE_SMTP_TRANSPORT'', JStr ''smtp-auth''),
        (''NEXT_PRIVATE_SMTP_HOST'', JStr ''127.0.0.1''),
        (''NEXT_PRIVATE_SMTP_PORT'', JStr ''2525''),
        (''NEXT_PRIVATE_SMTP_FROM_NAME'', JStr ''Documenso''),
        (''NEXT_PRIVATE_SMTP_FROM_ADDRESS'', JStr (''noreply@'' @ ai_hostname i)),
        (''DOCUMENSO_DISABLE_TELEMETRY'', JStr ''true'')])),
        (''volumes'', JArr [JStr ''./certificate:/opt/documenso/certificates:ro'']),
        (''expose'', JArr [JStr ''3000'']),
        (''networks'', JArr [JStr ''private'', JStr ''ingress'']),
        (''labels'', JObj ([(''com.getsupers.managed'', JStr ''true''),
        (''com.getsupers.application-instance'', JStr (ai_id i))])),
        (''mem_limit'', JStr ''1792m''),
        (''cpus'', JStr ''0.7''),
        (''healthcheck'', JObj ([(''test'', JArr [JStr ''CMD'', JStr ''node'', JStr ''-e'', JStr (''fetch('' @ [CHR 0x27] @ ''http://127.0.0.1:3000/api/health'' @ [CHR 0x27] @ '').then(async r=>{const j=await r.json();process.exit(r.ok&&j.status==='' @ [CHR 0x27] @ ''ok'' @ [CHR 0x27] @ ''?0:1)}).catch(()=>process.exit(1))'')]),
        (''interval'', JStr ''20s''),
        (''timeout'', JStr ''10s''),
        (''retries'', jint 30),
        (''start_period'', JStr ''90s'')])),
        (''deploy'', JObj ([(''resources'', JObj ([(''limits'', JObj ([(''memory'', JStr ''1792M''),
        (''cpus'', JStr ''0.7'')]))]))])),
        (''security_opt'', JArr [JStr ''no-new-privileges:true''])]"

definition documenso_db :: "instance_rec \<Rightarrow> (nat \<Rightarrow> nat \<Rightarrow> string) \<Rightarrow> obj" where
  "documenso_db i sec =
       [(''image'', JStr ''postgres:15-alpine@sha256:fe0737ba566a2c5b2a28f34433c0a423261900ec17b9bf7ad115e1aae7e57f1b''),
        (''container_name'', JStr (ai_project i @ ''-db'')),
        (''restart'', JStr ''unless-stopped''),
        (''environment'', JObj ([(''POSTGRES_USER'', JStr ''documenso''),
        (''POSTGRES_PASSWORD'', JStr (sec 0 24)),
        (''POSTGRES_DB'', JStr ''documenso'')])),
        (''volumes'', JArr [JStr ''./database:/var/lib/postgresql/data'']),
        (''networks'', JArr [JStr ''private'']),
        (''labels'', JObj ([(''com.getsupers.managed'', JStr ''true''),
        (''com.getsupers.application-instance'', JStr (ai_id i))])),
        (''mem_limit'', JStr ''256m''),
        (''cpus'', JStr ''0.2''),
        (''healthcheck'', JObj ([(''test'', JArr [JStr ''CMD-SHELL'', JStr ''pg_isready -U documenso -d documenso'']),
        (''interval'', JStr ''10s''),
        (''timeout'', JStr ''5s''),
        (''retries'', jint 18)])),
        (''deploy'', JObj ([(''resources'', JObj ([(''limits'', JObj ([(''memory'', JStr ''256M''),
        (''cpus'', JStr ''0.2'')]))]))])),
        (''security_opt'', JArr [JStr ''no-new-privileges:true''])]"

definition documenso_manifest :: "instance_rec \<Rightarrow> manifest_options \<Rightarrow> (nat \<Rightarrow> nat \<Rightarrow> string) \<Rightarrow> runtime_manifest" where
  "documenso_manifest i options sec =
     runtime_manifest_of i options 3000 ''/api/health'' (None)
       [(''proxy'', (proxy_service i 3000 ''0.05'')),
         (''certificate'', (documenso_certificate i sec)),
         (''app'', (documenso_app i sec)),
         (''db'', (documenso_db i sec))]"

definition heyform_permissions :: "instance_rec \<Rightarrow> (nat \<Rightarrow> nat \<Rightarrow> string) \<Rightarrow> obj" where
  "heyform_permissions i sec =
       [(''image'', JStr ''alpine/openssl:3.5.4@sha256:42c7389ef077aed0eb4e96d0abbd094083d701bbaff1313073b061c0c9cd8278''),
        (''container_name'', JStr (ai_project i @ ''-permissions'')),
        (''entrypoint'', JArr [JStr ''/bin/sh'', JStr ''-c'']),
        (''command'', JArr [JStr ''mkdir -p /mongodb /uploads && chown -R 1001:1001 /mongodb && chmod 0770 /uploads'']),
        (''volumes'', JArr [JStr ''./mongodb:/mongodb'', JStr ''./uploads:/uploads'']),
        (''networks'', JArr [JStr ''private'']),
        (''labels'', JObj ([(''com.getsupers.managed'', JStr ''true''),
        (''com.getsupers.application-instance'', JStr (ai_id i))])),
        (''mem_limit'', JStr ''32m''),
        (''cpus'', JStr ''0.025''),
        (''deploy'', JObj ([(''resources'', JObj ([(''limits'', JObj ([(''memory'', JStr ''32M''),
        (''cpus'', JStr ''0.025'')]))]))])),
        (''security_opt'', JArr [JStr ''no-new-privileges:true''])]"

definition heyform_app :: "manifest_options \<Rightarrow> instance_rec \<Rightarrow> (nat \<Rightarrow> nat \<Rightarrow> string) \<Rightarrow> obj" where
  "heyform_app options i sec =
       [(''image'', JStr ''ghcr.io/rohanarun/managed-oss-cloud/heyform-managed:sha-e828254@sha256:e3759e25780ea1b8141182feff6d86b8184cc647bf35d23322c0c4f8785810bf''),
        (''container_name'', JStr (ai_project i @ ''-app'')),
        (''restart'', JStr ''unless-stopped''),
        (''depends_on'', JObj ([(''permissions'', JObj [(''condition'', JStr ''service_completed_successfully'')]),
        (''mongo'', JObj [(''condition'', JStr ''service_healthy'')]),
        (''redis'', JObj [(''condition'', JStr ''service_healthy'')])])),
        (''environment'', JObj ([(''NODE_ENV'', JStr ''production''),
        (''APP_HOMEPAGE_URL'', JStr (''https://'' @ ai_hostname i)),
        (''CORS_ALLOWED_ORIGINS'', JStr (''https://'' @ ai_hostname i)),
        (''TRUST_PROXY'', JStr ''1''),
        (''ENABLE_GOOGLE_FONTS'', JStr ''false''),
        (''VERIFY_USER_EMAIL'', JStr ''false''),
        (''SESSION_KEY'', JStr (sec 0 32)),
        (''FORM_ENCRYPTION_KEY'', JStr (sec 1 32)),
        (''MONGO_URI'', JStr ''mongodb://mongo:27017/heyform''),
        (''REDIS_HOST'', JStr ''redis''),
        (''REDIS_PORT'', JStr ''6379'')] @ (case mo_broker options of None \<Rightarrow> [] | Some b \<Rightarrow>
         [(''MANAGED_GOOGLE_BROKER_START_URL'', JStr (fst b)),
        (''MANAGED_OAUTH_ASSERTION_PUBLIC_KEY'', JStr (snd b)),
        (''MANAGED_OAUTH_APPLICATION_ID'', JStr (ai_id i))]))),
        (''volumes'', JArr [JStr ''./uploads:/app/packages/server/static/upload'', JStr ''./uploads:/app/packages/server/uploads'']),
        (''expose'', JArr [JStr ''9157'']),
        (''networks'', JArr [JStr ''private'', JStr ''ingress'']),
        (''labels'', JObj ([(''com.getsupers.managed'', JStr ''true''),
        (''com.getsupers.application-instance'', JStr (ai_id i))])),
        (''mem_limit'', JStr ''768m''),
        (''cpus'', JStr ''0.4''),
        (''healthcheck'', JObj ([(''test'', JArr [JStr ''CMD-SHELL'', JStr ''wget -qO- http://127.0.0.1:9157/health/ready >/dev/null || exit 1'']),
        (''interval'', JStr ''15s''),
        (''timeout'', JStr ''5s''),
        (''retries'', jint 24),
        (''start_period'', JStr ''45s'')])),
        (''deploy'', JObj ([(''resources'', JObj ([(''limits'', JObj ([(''memory'', JStr ''768M''),
        (''cpus'', JStr ''0.4'')]))]))])),
        (''security_opt'', JArr [JStr ''no-new-privileges:true''])]"

definition heyform_mongo :: "instance_rec \<Rightarrow> (nat \<Rightarrow> nat \<Rightarrow> string) \<Rightarrow> obj" where
  "heyform_mongo i sec =
       [(''image'', JStr ''percona/percona-server-mongodb:4.4@sha256:dedeba0237c639dc5319b1bfa38f2558b9c268653bd555a727ea8df0babc05bb''),
        (''container_name'', JStr (ai_project i @ ''-mongo'')),
        (''restart'', JStr ''unless-stopped''),
        (''depends_on'', JObj [(''permissions'', JObj [(''condition'', JStr ''service_completed_successfully'')])]),
        (''volumes'', JArr [JStr ''./mongodb:/data/db'']),
        (''networks'', JArr [JStr ''private'']),
        (''labels'', JObj ([(''com.getsupers.managed'', JStr ''true''),
        (''com.getsupers.application-instance'', JStr (ai_id i))])),
        (''mem_limit'', JStr ''384m''),
        (''cpus'', JStr ''0.2''),
        (''healthcheck'', JObj ([(''test'', JArr [JStr ''CMD-SHELL'', JStr (''mongo --quiet --eval '' @ [CHR 0x27] @ ''db.runCommand({ ping: 1 }).ok'' @ [CHR 0x27] @ '' | grep 1'')]),
        (''interval'', JStr ''10s''),
        (''timeout'', JStr ''5s''),
        (''retries'', jint 18)])),
        (''deploy'', JObj ([(''resources'', JObj ([(''limits'', JObj ([(''memory'', JStr ''384M''),
        (''cpus'', JStr ''0.2'')]))]))])),
        (''security_opt'', JArr [JStr ''no-new-privileges:true''])]"

definition heyform_redis :: "instance_rec \<Rightarrow> (nat \<Rightarrow> nat \<Rightarrow> string) \<Rightarrow> obj" where
  "heyform_redis i sec =
       [(''image'', JStr ''eqalpha/keydb:x86_64_v6.3.4@sha256:eceb1806730c7850395b8262300182c2e15a6e5dacbf0b72cbab110518caf43f''),
        (''container_name'', JStr (ai_project i @ ''-redis'')),
        (''restart'', JStr ''unless-stopped''),
        (''command'', JArr [JStr ''keydb-server'', JStr ''--appendonly'', JStr ''yes'', JStr ''--protected-mode'', JStr ''no'']),
        (''volumes'', JArr [JStr ''./redis:/data'']),
        (''networks'', JArr [JStr ''private'']),
        (''labels'', JObj ([(''com.getsupers.managed'', JStr ''true''),
        (''com.getsupers.application-instance'', JStr (ai_id i))])),
        (''mem_limit'', JStr ''128m''),
        (''cpus'', JStr ''0.075''),
        (''healthcheck'', JObj ([(''test'', JArr [JStr ''CMD'', JStr ''keydb-cli'', JStr ''ping'']),
        (''interval'', JStr ''10s''),
        (''timeout'', JStr ''5s''),
        (''retries'', jint 12)])),
        (''deploy'', JObj ([(''resources'', JObj ([(''limits'', JObj ([(''memory'', JStr ''128M''),
        (''cpus'', JStr ''0.075'')]))]))])),
        (''security_opt'', JArr [JStr ''no-new-privileges:true''])]"

definition heyform_manifest :: "instance_rec \<Rightarrow> manifest_options \<Rightarrow> (nat \<Rightarrow> nat \<Rightarrow> string) \<Rightarrow> runtime_manifest" where
  "heyform_manifest i options sec =
     runtime_manifest_of i options 9157 ''/health/ready'' (None)
       [(''proxy'', (proxy_service i 9157 ''0.05'')),
         (''permissions'', (heyform_permissions i sec)),
         (''app'', (heyform_app options i sec)),
         (''mongo'', (heyform_mongo i sec)),
         (''redis'', (heyform_redis i sec))]"

definition uptime_kuma_app :: "instance_rec \<Rightarrow> (nat \<Rightarrow> nat \<Rightarrow> string) \<Rightarrow> obj" where
  "uptime_kuma_app i sec =
       [(''image'', JStr ''louislam/uptime-kuma:2.3.2@sha256:9aeb4e51d038047f414309c77a1af553281ca535723cb88907d907269d0a908e''),
        (''container_name'', JStr (ai_project i @ ''-app'')),
        (''restart'', JStr ''unless-stopped''),
        (''environment'', JObj [(''UPTIME_KUMA_DB_TYPE'', JStr ''sqlite'')]),
        (''volumes'', JArr [JStr ''./data:/app/data'']),
        (''expose'', JArr [JStr ''3001'']),
        (''networks'', JArr [JStr ''ingress'']),
        (''labels'', JObj ([(''com.getsupers.managed'', JStr ''true''),
        (''com.getsupers.application-instance'', JStr (ai_id i))])),
        (''mem_limit'', JStr ''384m''),
        (''cpus'', JStr ''0.225''),
        (''healthcheck'', JObj ([(''test'', JArr [JStr ''CMD'', JStr ''extra/healthcheck'']),
        (''interval'', JStr ''15s''),
        (''timeout'', JStr ''5s''),
        (''retries'', jint 12)])),
        (''deploy'', JObj ([(''resources'', JObj ([(''limits'', JObj ([(''memory'', JStr ''384M''),
        (''cpus'', JStr ''0.225'')]))]))])),
        (''security_opt'', JArr [JStr ''no-new-privileges:true''])]"

definition uptime_kuma_manifest :: "instance_rec \<Rightarrow> manifest_options \<Rightarrow> (nat \<Rightarrow> nat \<Rightarrow> string) \<Rightarrow> runtime_manifest" where
  "uptime_kuma_manifest i options sec =
     runtime_manifest_of i options 3001 ''/'' (Some ([(''path'', JStr ''/api/entry-page''),
        (''acceptedEntryPageTypes'', JArr [JStr ''entryPage'']),
        (''rejectedEntryPageTypes'', JArr [JStr ''setup-database''])]))
       [(''proxy'', (proxy_service i 3001 ''0.025'')),
         (''app'', (uptime_kuma_app i sec))]"

definition listmonk_app :: "instance_rec \<Rightarrow> (nat \<Rightarrow> nat \<Rightarrow> string) \<Rightarrow> obj" where
  "listmonk_app i sec =
       [(''image'', JStr ''listmonk/listmonk:v6.2.0@sha256:f535d59e14991337a9f2d570273685378ae86b0d7698c3e00da444e3bc205286''),
        (''container_name'', JStr (ai_project i @ ''-app'')),
        (''restart'', JStr ''unless-stopped''),
        (''depends_on'', JObj [(''db'', JObj [(''condition'', JStr ''service_healthy'')])]),
        (''command'', JArr [JStr ''sh'', JStr ''-c'', JStr (''./listmonk --install --idempotent --yes --config '' @ [CHR 0x27] @ [CHR 0x27] @ '' && ./listmonk --upgrade --yes --config '' @ [CHR 0x27] @ [CHR 0x27] @ '' && ./listmonk --config '' @ [CHR 0x27] @ [CHR 0x27])]),
        (''environment'', JObj ([(''LISTMONK_app__address'', JStr ''0.0.0.0:9000''),
        (''LISTMONK_db__user'', JStr ''listmonk''),
        (''LISTMONK_db__password'', JStr (sec 0 24)),
        (''LISTMONK_db__database'', JStr ''listmonk''),
        (''LISTMONK_db__host'', JStr ''db''),
        (''LISTMONK_db__port'', JStr ''5432''),
        (''LISTMONK_db__ssl_mode'', JStr ''disable''),
        (''LISTMONK_db__max_open'', JStr ''10''),
        (''LISTMONK_db__max_idle'', JStr ''5'')])),
        (''volumes'', JArr [JStr ''./uploads:/listmonk/uploads:rw'']),
        (''expose'', JArr [JStr ''9000'']),
        (''networks'', JArr [JStr ''private'', JStr ''ingress'']),
        (''labels'', JObj ([(''com.getsupers.managed'', JStr ''true''),
        (''com.getsupers.application-instance'', JStr (ai_id i))])),
        (''mem_limit'', JStr ''320m''),
        (''cpus'', JStr ''0.275''),
        (''deploy'', JObj ([(''resources'', JObj ([(''limits'', JObj ([(''memory'', JStr ''320M''),
        (''cpus'', JStr ''0.275'')]))]))])),
        (''security_opt'', JArr [JStr ''no-new-privileges:true''])]"

definition listmonk_db :: "instance_rec \<Rightarrow> (nat \<Rightarrow> nat \<Rightarrow> string) \<Rightarrow> obj" where
  "listmonk_db i sec =
       [(''image'', JStr ''postgres:17-alpine@sha256:18cfe3ef5e6815560c98237d6216d1e5119702fb0f3894c8785dd58b8bbe5d73''),
        (''container_name'', JStr (ai_project i @ ''-db'')),
        (''restart'', JStr ''unless-stopped''),
        (''environment'', JObj ([(''POSTGRES_USER'', JStr ''listmonk''),
        (''POSTGRES_PASSWORD'', JStr (sec 0 24)),
        (''POSTGRES_DB'', JStr ''listmonk'')])),
        (''volumes'', JArr [JStr ''./database:/var/lib/postgresql/data'']),
        (''networks'', JArr [JStr ''private'']),
        (''labels'', JObj ([(''com.getsupers.managed'', JStr ''true''),
        (''com.getsupers.application-instance'', JStr (ai_id i))])),
        (''mem_limit'', JStr ''256m''),
        (''cpus'', JStr ''0.2''),
        (''healthcheck'', JObj ([(''test'', JArr [JStr ''CMD-SHELL'', JStr ''pg_isready -U listmonk -d listmonk'']),
        (''interval'', JStr ''10s''),
        (''timeout'', JStr ''5s''),
        (''retries'', jint 12)])),
        (''deploy'', JObj ([(''resources'', JObj ([(''limits'', JObj ([(''memory'', JStr ''256M''),
        (''cpus'', JStr ''0.2'')]))]))])),
        (''security_opt'', JArr [JStr ''no-new-privileges:true''])]"

definition listmonk_manifest :: "instance_rec \<Rightarrow> manifest_options \<Rightarrow> (nat \<Rightarrow> nat \<Rightarrow> string) \<Rightarrow> runtime_manifest" where
  "listmonk_manifest i options sec =
     runtime_manifest_of i options 9000 ''/health'' (None)
       [(''proxy'', (proxy_service i 9000 ''0.025'')),
         (''app'', (listmonk_app i sec)),
         (''db'', (listmonk_db i sec))]"

definition umami_app :: "instance_rec \<Rightarrow> (nat \<Rightarrow> nat \<Rightarrow> string) \<Rightarrow> obj" where
  "umami_app i sec =
       [(''image'', JStr ''ghcr.io/umami-software/umami:3.3.1@sha256:fa32d116cf20cad52cbc3fad9a63b46e7fa02299d8f967168eb453d49c476b4a''),
        (''container_name'', JStr (ai_project i @ ''-app'')),
        (''restart'', JStr ''unless-stopped''),
        (''init'', JBool True),
        (''depends_on'', JObj [(''db'', JObj [(''condition'', JStr ''service_healthy'')])]),
        (''environment'', JObj ([(''DATABASE_URL'', JStr (''postgresql://umami:'' @ sec 0 24 @ ''@db:5432/umami'')),
        (''APP_SECRET'', JStr (sec 1 32)),
        (''TWO_FACTOR_ENCRYPTION_KEY'', JStr (sec 2 32))])),
        (''expose'', JArr [JStr ''3000'']),
        (''networks'', JArr [JStr ''private'', JStr ''ingress'']),
        (''labels'', JObj ([(''com.getsupers.managed'', JStr ''true''),
        (''com.getsupers.application-instance'', JStr (ai_id i))])),
        (''mem_limit'', JStr ''512m''),
        (''cpus'', JStr ''0.525''),
        (''healthcheck'', JObj ([(''test'', JArr [JStr ''CMD-SHELL'', JStr ''curl -fsS http://localhost:3000/api/heartbeat || exit 1'']),
        (''interval'', JStr ''10s''),
        (''timeout'', JStr ''5s''),
        (''retries'', jint 18)])),
        (''deploy'', JObj ([(''resources'', JObj ([(''limits'', JObj ([(''memory'', JStr ''512M''),
        (''cpus'', JStr ''0.525'')]))]))])),
        (''security_opt'', JArr [JStr ''no-new-privileges:true''])]"

definition umami_db :: "instance_rec \<Rightarrow> (nat \<Rightarrow> nat \<Rightarrow> string) \<Rightarrow> obj" where
  "umami_db i sec =
       [(''image'', JStr ''postgres:15-alpine@sha256:fe0737ba566a2c5b2a28f34433c0a423261900ec17b9bf7ad115e1aae7e57f1b''),
        (''container_name'', JStr (ai_project i @ ''-db'')),
        (''restart'', JStr ''unless-stopped''),
        (''environment'', JObj ([(''POSTGRES_DB'', JStr ''umami''),
        (''POSTGRES_USER'', JStr ''umami''),
        (''POSTGRES_PASSWORD'', JStr (sec 0 24))])),
        (''volumes'', JArr [JStr ''./database:/var/lib/postgresql/data'']),
        (''networks'', JArr [JStr ''private'']),
        (''labels'', JObj ([(''com.getsupers.managed'', JStr ''true''),
        (''com.getsupers.application-instance'', JStr (ai_id i))])),
        (''mem_limit'', JStr ''256m''),
        (''cpus'', JStr ''0.2''),
        (''healthcheck'', JObj ([(''test'', JArr [JStr ''CMD-SHELL'', JStr ''pg_isready -U umami -d umami'']),
        (''interval'', JStr ''10s''),
        (''timeout'', JStr ''5s''),
        (''retries'', jint 12)])),
        (''deploy'', JObj ([(''resources'', JObj ([(''limits'', JObj ([(''memory'', JStr ''256M''),
        (''cpus'', JStr ''0.2'')]))]))])),
        (''security_opt'', JArr [JStr ''no-new-privileges:true''])]"

definition umami_manifest :: "instance_rec \<Rightarrow> manifest_options \<Rightarrow> (nat \<Rightarrow> nat \<Rightarrow> string) \<Rightarrow> runtime_manifest" where
  "umami_manifest i options sec =
     runtime_manifest_of i options 3000 ''/api/heartbeat'' (None)
       [(''proxy'', (proxy_service i 3000 ''0.025'')),
         (''app'', (umami_app i sec)),
         (''db'', (umami_db i sec))]"

definition manifest_table ::
  "(string \<times> (instance_rec \<Rightarrow> manifest_options \<Rightarrow> (nat \<Rightarrow> nat \<Rightarrow> string) \<Rightarrow> runtime_manifest)) list" where
  "manifest_table =
     [(''cal-diy'', cal_diy_manifest), (''documenso'', documenso_manifest), (''heyform'', heyform_manifest),
      (''uptime-kuma'', uptime_kuma_manifest), (''listmonk'', listmonk_manifest), (''umami'', umami_manifest)]"

definition build_runtime_manifest ::
  "instance_rec \<Rightarrow> manifest_options \<Rightarrow> (nat \<Rightarrow> nat \<Rightarrow> string) \<Rightarrow> manifest_err + runtime_manifest" where
  "build_runtime_manifest i options sec =
     (case map_of manifest_table (ai_app i) of
        None \<Rightarrow> Inl NoManifest
      | Some m \<Rightarrow> bind_e (runtime_ingress_network i) (\<lambda>_. Inr (m i options sec)))"

end
