(* ===== verification/Worker_Resources.thy ===== *)
theory Worker_Resources
  imports App_Manifests Additive_Schema
begin

text \<open>
  What a worker host checks before it launches or keeps applications
  (\<open>server/worker-resource-enforcement.ts\<close>): the limits a manifest adds up to, the complete
  reservation of the assigned applications, the capacity of the host, and the quarantine of
  applications over their storage. Measuring the host (files, \<open>/proc\<close>) is not modelled: its results
  are arguments.
\<close>

section \<open>Limits of a manifest\<close>

definition storage_bytes_per_gb :: num where
  "storage_bytes_per_gb = Fin 1000000000"

text \<open>\<open>/^(\d+)([kmg])(?:i?b)?$/i\<close> on \<open>String(value ?? "")\<close>\<close>

definition parse_memory_mb :: "js_env \<Rightarrow> json \<Rightarrow> manifest_err + num" where
  "parse_memory_mb E value =
     (let s = (if nullish value then [] else to_str E value);
          digits = takeWhile is_digit s; rest = lower (dropWhile is_digit s);
          amount = round64 (of_nat (digits_val digits))
      in if digits = [] \<or> rest = [] \<or> hd rest \<notin> set ''kmg'' \<or> tl rest \<notin> {[], ''b'', ''ib''} then Inl BadMemoryLimit
         else if \<not> is_safe_integer amount \<or> num_le amount (Fin 0) then Inl BadMemoryLimit
         else if hd rest = CHR ''g'' then Inr (num_mul amount (Fin 1024))
         else if hd rest = CHR ''k'' then Inr (num_ceil (case amount of Fin a \<Rightarrow> fin_div a 1024 | x \<Rightarrow> x))
         else Inr amount)"

definition parse_cpu_millis :: "js_env \<Rightarrow> json \<Rightarrow> manifest_err + num" where
  "parse_cpu_millis E value =
     (case value of
        JStr _ \<Rightarrow>
          let millis = num_mul (to_num E value) (Fin 1000)
          in if \<not> is_finite millis \<or> num_le millis (Fin 0) \<or> \<not> is_safe_integer millis then Inl BadCpuLimit else Inr millis
      | JNum _ \<Rightarrow>
          let millis = num_mul (to_num E value) (Fin 1000)
          in if \<not> is_finite millis \<or> num_le millis (Fin 0) \<or> \<not> is_safe_integer millis then Inl BadCpuLimit else Inr millis
      | _ \<Rightarrow> Inl BadCpuLimit)"

definition prop_of :: "json \<Rightarrow> string \<Rightarrow> json" where
  "prop_of v k = (case v of JObj d \<Rightarrow> oget d k | _ \<Rightarrow> JUndef)"

definition service_limits :: "js_env \<Rightarrow> obj \<Rightarrow> manifest_err + num \<times> num" where
  "service_limits E service =
     bind_e (parse_memory_mb E (oget service ''mem_limit'')) (\<lambda>m.
     bind_e (parse_cpu_millis E (oget service ''cpus'')) (\<lambda>c.
     let limits = prop_of (prop_of (oget service ''deploy'') ''resources'') ''limits''
     in bind_e (parse_memory_mb E (prop_of limits ''memory'')) (\<lambda>dm.
        bind_e (parse_cpu_millis E (prop_of limits ''cpus'')) (\<lambda>dc.
        if \<not> num_eq m dm \<or> \<not> num_eq c dc then Inl LimitMismatch else Inr (m, c)))))"

fun add_limits :: "js_env \<Rightarrow> (string \<times> obj) list \<Rightarrow> num \<Rightarrow> num \<Rightarrow> manifest_err + num \<times> num" where
  "add_limits E [] memory cpu = Inr (memory, cpu)"
| "add_limits E ((_, service) # services) memory cpu =
     bind_e (service_limits E service) (\<lambda>(m, c). add_limits E services (num_add memory m) (num_add cpu c))"

definition manifest_resource_envelope :: "js_env \<Rightarrow> runtime_manifest \<Rightarrow> manifest_err + envelope" where
  "manifest_resource_envelope E manifest =
     bind_e (add_limits E (rm_services manifest) (Fin 0) (Fin 0)) (\<lambda>(m, c).
     bind_e (runtime_reservation (rm_app manifest)) (\<lambda>r.
     Inr \<lparr>en_memory = m, en_cpu = c, en_storage = en_storage r\<rparr>))"

definition envelope_json :: "envelope \<Rightarrow> json" where
  "envelope_json e = JObj [(''memoryMb'', JNum (en_memory e)), (''cpuMillis'', JNum (en_cpu e)),
     (''storageGb'', JNum (en_storage e))]"

definition same_envelope :: "js_env \<Rightarrow> envelope \<Rightarrow> envelope \<Rightarrow> bool" where
  "same_envelope E a b \<longleftrightarrow> stringify E (envelope_json a) = stringify E (envelope_json b)"

datatype resource_err =
    ManifestErr manifest_err
  | ManifestDiffers | RegisteredDiffers
  | DuplicateApplication
  | WorkerIdentity | CapacityDiffers | ReservationsDiffer
  | MemoryOverReserved | CpuOverReserved | StorageOverReserved
  | HostMemory | HostCpu | HostStorage | LaunchMemory | FilesystemHeadroom
  | QuotaInput | QuotaProof

definition manifest_act :: "manifest_err + 'a \<Rightarrow> resource_err + 'a" where
  "manifest_act r = (case r of Inl e \<Rightarrow> Inl (ManifestErr e) | Inr x \<Rightarrow> Inr x)"

definition assert_manifest_matches_reservation ::
  "js_env \<Rightarrow> instance_rec \<Rightarrow> runtime_manifest \<Rightarrow> resource_err + envelope" where
  "assert_manifest_matches_reservation E i manifest =
     bind_e (manifest_act (runtime_reservation (ai_app i))) (\<lambda>expected.
     bind_e (manifest_act (manifest_resource_envelope E manifest)) (\<lambda>actual.
     let registered = \<lparr>en_memory = ai_memory i, en_cpu = ai_cpu i, en_storage = ai_storage i\<rparr>
     in if \<not> same_envelope E actual expected then Inl ManifestDiffers
        else if \<not> same_envelope E registered expected then Inl RegisteredDiffers
        else Inr actual))"

section \<open>Capacity of a worker\<close>

fun assigned_from :: "assigned_app list \<Rightarrow> string list \<Rightarrow> envelope \<Rightarrow> resource_err + envelope" where
  "assigned_from [] seen acc = Inr acc"
| "assigned_from (a # rest) seen acc =
     (if aa_id a \<in> set seen then Inl DuplicateApplication
      else bind_e (manifest_act (runtime_reservation (aa_app a))) (\<lambda>r.
           assigned_from rest (aa_id a # seen)
             \<lparr>en_memory = num_add (en_memory acc) (en_memory r), en_cpu = num_add (en_cpu acc) (en_cpu r),
              en_storage = num_add (en_storage acc) (en_storage r)\<rparr>))"

definition assigned_reservation :: "worker_activity \<Rightarrow> resource_err + envelope" where
  "assigned_reservation activity = assigned_from (wa_assigned activity) [] (reservation_of 0 0 0)"

datatype quota_backend = MeasurementOnly | OperatorProjectQuota

record worker_policy =
  wp_node :: string
  wp_apps_root :: string
  wp_memory :: num
  wp_cpu :: num
  wp_storage :: num
  wp_reserve_memory :: num
  wp_reserve_cpu :: num
  wp_reserve_storage :: num
  wp_launch_memory :: num
  wp_backend :: quota_backend

record host_snapshot =
  hs_total_memory :: num
  hs_available_memory :: num
  hs_cpu :: num
  hs_total_bytes :: num
  hs_available_bytes :: num
  hs_used_bytes :: num

definition assert_worker_resource_consistency ::
  "js_env \<Rightarrow> worker_activity \<Rightarrow> worker_policy \<Rightarrow> host_snapshot \<Rightarrow> num \<Rightarrow> resource_err + envelope \<times> num" where
  "assert_worker_resource_consistency E activity p host pending =
     (let node = wa_node activity;
          advertised = \<lparr>en_memory = wn_memory node, en_cpu = wn_cpu node, en_storage = wn_storage node\<rparr>;
          configured = \<lparr>en_memory = wp_memory p, en_cpu = wp_cpu p, en_storage = wp_storage p\<rparr>
      in bind_e (check_that (wn_id node = wp_node p) WorkerIdentity) (\<lambda>_.
         bind_e (check_that (same_envelope E advertised configured
             \<and> num_eq (wn_reserve_memory node) (wp_reserve_memory p)) CapacityDiffers) (\<lambda>_.
         bind_e (assigned_reservation activity) (\<lambda>expected.
         let recorded = \<lparr>en_memory = wn_reserved_memory node, en_cpu = wn_reserved_cpu node,
                         en_storage = wn_reserved_storage node\<rparr>;
             reserved_unused = num_max (Fin 0) (num_sub (num_mul (en_storage recorded) storage_bytes_per_gb) (hs_used_bytes host));
             headroom = num_add reserved_unused (num_mul (wp_reserve_storage p) storage_bytes_per_gb)
         in bind_e (check_that (same_envelope E recorded expected) ReservationsDiffer) (\<lambda>_.
            bind_e (check_that (\<not> num_lt (wp_memory p) (num_add (en_memory recorded) (wp_reserve_memory p))) MemoryOverReserved) (\<lambda>_.
            bind_e (check_that (\<not> num_lt (wp_cpu p) (en_cpu recorded)) CpuOverReserved) (\<lambda>_.
            bind_e (check_that (\<not> num_lt (wp_storage p) (en_storage recorded)) StorageOverReserved) (\<lambda>_.
            bind_e (check_that (\<not> num_lt (hs_total_memory host) (wp_memory p)) HostMemory) (\<lambda>_.
            bind_e (check_that (\<not> num_lt (hs_cpu host) (num_add (wp_cpu p) (wp_reserve_cpu p))) HostCpu) (\<lambda>_.
            bind_e (check_that (\<not> num_lt (hs_total_bytes host)
               (num_mul (num_add (wp_storage p) (wp_reserve_storage p)) storage_bytes_per_gb)) HostStorage) (\<lambda>_.
            bind_e (check_that (\<not> num_lt (hs_available_memory host) (num_add pending (wp_launch_memory p))) LaunchMemory) (\<lambda>_.
            bind_e (check_that (\<not> num_lt (hs_available_bytes host) headroom) FilesystemHeadroom) (\<lambda>_.
            Inr (expected, headroom))))))))))))))"

section \<open>Storage quotas and quarantine\<close>

text \<open>\<open>/^[0-9a-f-]{36}$/i\<close>\<close>

definition application_id_pattern :: "string \<Rightarrow> bool" where
  "application_id_pattern s \<longleftrightarrow> length s = 36 \<and> list_all (\<lambda>c. is_hex c \<or> c = CHR ''-'') s"

record app_usage =
  us_id :: string
  us_app :: string
  us_state :: instance_state
  us_used :: num
  us_limit :: num
  us_over :: bool

datatype usage_err = BadApplicationId | UsageManifest manifest_err

definition assigned_application_usage :: "(string \<Rightarrow> num) \<Rightarrow> worker_activity \<Rightarrow> usage_err + app_usage list" where
  "assigned_application_usage measured activity = each_e (\<lambda>a.
     if \<not> application_id_pattern (aa_id a) then Inl BadApplicationId
     else (case runtime_reservation (aa_app a) of
             Inl e \<Rightarrow> Inl (UsageManifest e)
           | Inr r \<Rightarrow>
               let limit = num_mul (en_storage r) storage_bytes_per_gb; used = measured (aa_id a)
               in Inr \<lparr>us_id = aa_id a, us_app = aa_app a, us_state = aa_state a, us_used = used, us_limit = limit, us_over = num_lt limit used\<rparr>))
     (wa_assigned activity)"

datatype quota_action = QuotaApply | QuotaVerify

definition quota_helper_arguments ::
  "js_env \<Rightarrow> quota_action \<Rightarrow> string \<Rightarrow> string \<Rightarrow> num \<Rightarrow> resource_err + string list" where
  "quota_helper_arguments E action path app limit =
     (if \<not> starts_with path ''/'' \<or> \<not> application_id_pattern app \<or> \<not> is_safe_integer limit \<or> num_le limit (Fin 0)
      then Inl QuotaInput
      else Inr [case action of QuotaApply \<Rightarrow> ''apply'' | QuotaVerify \<Rightarrow> ''verify'', ''--path'', path,
             ''--application-id'', app, ''--limit-bytes'', to_str E (JNum limit)])"

text \<open>The helper's output after \<open>JSON.parse\<close>; \<open>None\<close> when it is no JSON text.\<close>

definition parse_quota_helper_proof :: "json option \<Rightarrow> string \<Rightarrow> string \<Rightarrow> num \<Rightarrow> resource_err + json" where
  "parse_quota_helper_proof output path app limit =
     (case output of
        None \<Rightarrow> Inl QuotaProof
      | Some v \<Rightarrow>
          if prop_of v ''ok'' = JBool True \<and> prop_of v ''backend'' = JStr ''operator-project-quota''
             \<and> prop_of v ''path'' = JStr path \<and> prop_of v ''applicationId'' = JStr app
             \<and> strict_eq (prop_of v ''hardLimitBytes'') (JNum limit)
             \<and> (case prop_of v ''evidence'' of JStr e \<Rightarrow> 16 \<le> length e | _ \<Rightarrow> False)
          then Inr v else Inl QuotaProof)"

text \<open>
  The quarantine contract over the three operations of the host, each of which may fail. A failing
  quarantine aborts; route removal and stops are all attempted and their failures collected.
\<close>

definition attempt_as :: "('s, 'e, unit) act \<Rightarrow> ('s, 'f, 'e list) act" where
  "attempt_as m = (\<lambda>s. case m s of (Inl e, t) \<Rightarrow> (Inr [e], t) | (Inr _, t) \<Rightarrow> (Inr [], t))"

datatype 'e quarantine_err = QuarantineFailed 'e | AfterQuarantine "'e list"

definition enforce_storage_quarantine_contract ::
  "('a \<Rightarrow> ('s, 'e, unit) act) \<Rightarrow> ('s, 'e, unit) act \<Rightarrow> ('a \<Rightarrow> ('s, 'e, unit) act) \<Rightarrow> 'a list
     \<Rightarrow> ('s, 'e quarantine_err, unit) act" where
  "enforce_storage_quarantine_contract quarantine remove_routes stop apps =
     (if apps = [] then ret ()
      else bnd (\<lambda>s. case each quarantine apps s of (Inl e, t) \<Rightarrow> (Inl (QuarantineFailed e), t) | (Inr _, t) \<Rightarrow> (Inr (), t)) (\<lambda>_.
           bnd (attempt_as remove_routes) (\<lambda>f.
           bnd (each (\<lambda>a. attempt_as (stop a)) apps) (\<lambda>fs.
           if f @ concat fs = [] then ret () else throw (AfterQuarantine (f @ concat fs))))))"

end
