(* ===== verification/Manifest_Properties.thy ===== *)
theory Manifest_Properties
  imports Worker_Resources
begin

text \<open>
  Every manifest the platform builds stays inside the reservation it charges for, and isolates the
  services it starts.
\<close>

section \<open>Decimal limits\<close>

text \<open>\<open>Number(s)\<close> of a plain decimal literal is the nearest double of its value.\<close>

definition decimal_parts :: "string \<Rightarrow> string \<times> string" where
  "decimal_parts s = (takeWhile (\<lambda>c. c \<noteq> CHR ''.'') s, drop 1 (dropWhile (\<lambda>c. c \<noteq> CHR ''.'') s))"

definition plain_decimal_text :: "string \<Rightarrow> bool" where
  "plain_decimal_text s \<longleftrightarrow> (case decimal_parts s of (a, b) \<Rightarrow> a \<noteq> [] \<and> b \<noteq> [] \<and> list_all is_digit (a @ b))"

definition decimal_num :: "string \<Rightarrow> num" where
  "decimal_num s = (case decimal_parts s of (a, b) \<Rightarrow> round64 (of_nat (digits_val (a @ b)) / 10 ^ length b))"

definition decimal_text_ok :: "js_env \<Rightarrow> bool" where
  "decimal_text_ok E \<longleftrightarrow> (\<forall>s. plain_decimal_text s \<longrightarrow> text_num E s = decimal_num s)"

definition cpu_texts :: "(string \<times> int) list" where
  "cpu_texts = [(''1.15'', 1150), (''0.2'', 200), (''0.1'', 100), (''0.05'', 50), (''0.7'', 700), (''0.025'', 25),
     (''0.4'', 400), (''0.075'', 75), (''0.225'', 225), (''0.275'', 275), (''0.525'', 525)]"

definition memory_texts :: "(string \<times> int) list" where
  "memory_texts = [(''32m'', 32), (''32M'', 32), (''64m'', 64), (''64M'', 64), (''128m'', 128), (''128M'', 128),
     (''256m'', 256), (''256M'', 256), (''320m'', 320), (''320M'', 320), (''384m'', 384), (''384M'', 384),
     (''512m'', 512), (''512M'', 512), (''768m'', 768), (''768M'', 768), (''1792m'', 1792), (''1792M'', 1792),
     (''2560m'', 2560), (''2560M'', 2560)]"

lemma cpu_product_0: "num_mul (round64 (23 / 20)) (Fin 1000) = Fin 1150"
  using round_pos_value[of "0" "23 / 20" 5179139571476070] round_pos_value[of "10" "323696223217254375 / 281474976710656" 5057753487769600]
  by (simp add: round64_def pow2_def floor_fraction)

lemma cpu_product_1: "num_mul (round64 (1 / 5)) (Fin 1000) = Fin 200"
  using round_pos_value[of "-3" "1 / 5" 7205759403792794] round_pos_value[of "7" "450359962737049625 / 2251799813685248" 7036874417766400]
  by (simp add: round64_def pow2_def floor_fraction)

lemma cpu_product_2: "num_mul (round64 (1 / 10)) (Fin 1000) = Fin 100"
  using round_pos_value[of "-4" "1 / 10" 7205759403792794] round_pos_value[of "6" "450359962737049625 / 4503599627370496" 7036874417766400]
  by (simp add: round64_def pow2_def floor_fraction)

lemma cpu_product_3: "num_mul (round64 (1 / 20)) (Fin 1000) = Fin 50"
  using round_pos_value[of "-5" "1 / 20" 7205759403792794] round_pos_value[of "5" "450359962737049625 / 9007199254740992" 7036874417766400]
  by (simp add: round64_def pow2_def floor_fraction)

lemma cpu_product_4: "num_mul (round64 (7 / 10)) (Fin 1000) = Fin 700"
  using round_pos_value[of "-1" "7 / 10" 6305039478318694] round_pos_value[of "9" "394064967394918375 / 562949953421312" 6157265115545600]
  by (simp add: round64_def pow2_def floor_fraction)

lemma cpu_product_5: "num_mul (round64 (1 / 40)) (Fin 1000) = Fin 25"
  using round_pos_value[of "-6" "1 / 40" 7205759403792794] round_pos_value[of "4" "450359962737049625 / 18014398509481984" 7036874417766400]
  by (simp add: round64_def pow2_def floor_fraction)

lemma cpu_product_6: "num_mul (round64 (2 / 5)) (Fin 1000) = Fin 400"
  using round_pos_value[of "-2" "2 / 5" 7205759403792794] round_pos_value[of "8" "450359962737049625 / 1125899906842624" 7036874417766400]
  by (simp add: round64_def pow2_def floor_fraction)

lemma cpu_product_7: "num_mul (round64 (3 / 40)) (Fin 1000) = Fin 75"
  using round_pos_value[of "-4" "3 / 40" 5404319552844595] round_pos_value[of "6" "675539944105574375 / 9007199254740992" 5277655813324800]
  by (simp add: round64_def pow2_def floor_fraction)

lemma cpu_product_8: "num_mul (round64 (9 / 40)) (Fin 1000) = Fin 225"
  using round_pos_value[of "-3" "9 / 40" 8106479329266893] round_pos_value[of "7" "1013309916158361625 / 4503599627370496" 7916483719987200]
  by (simp add: round64_def pow2_def floor_fraction)

lemma cpu_product_9: "num_mul (round64 (11 / 40)) (Fin 1000) = Fin 275"
  using round_pos_value[of "-2" "11 / 40" 4953959590107546] round_pos_value[of "8" "309622474381721625 / 1125899906842624" 4837851162214400]
  by (simp add: round64_def pow2_def floor_fraction)

lemma cpu_product_10: "num_mul (round64 (21 / 40)) (Fin 1000) = Fin 525"
  using round_pos_value[of "-1" "21 / 40" 4728779608739021] round_pos_value[of "9" "591097451092377625 / 1125899906842624" 4617948836659200]
  by (simp add: round64_def pow2_def floor_fraction)


lemmas cpu_products = cpu_product_0 cpu_product_1 cpu_product_2 cpu_product_3 cpu_product_4 cpu_product_5
  cpu_product_6 cpu_product_7 cpu_product_8 cpu_product_9 cpu_product_10

lemma digit_code: "is_digit c \<Longrightarrow> code c - 48 < 10"
  by (auto simp: is_digit_def)

lemma cpu_texts_value:
  "list_all (\<lambda>(s, n). plain_decimal_text s \<and> num_mul (decimal_num s) (Fin 1000) = Fin (of_int n)
     \<and> 0 < n \<and> n \<le> 2000) cpu_texts"
  by (simp add: cpu_texts_def plain_decimal_text_def decimal_num_def decimal_parts_def digits_val_def
      is_digit_def code_def cpu_products del: num_mul.simps)

lemma parse_cpu_known:
  assumes "decimal_text_ok E" and "(s, n) \<in> set cpu_texts"
  shows "parse_cpu_millis E (JStr s) = Inr (num_of_int n)"
proof -
  have "plain_decimal_text s" "num_mul (decimal_num s) (Fin 1000) = num_of_int n" "0 < n" "n \<le> 2000"
    using cpu_texts_value assms(2) by (auto simp: list_all_iff num_of_int_def)
  with assms(1) show ?thesis
    using num_le_int[of n 0] is_safe_integer_int[of n]
    by (simp add: parse_cpu_millis_def to_num_def decimal_text_ok_def Let_def max_safe_def)
      (simp add: num_of_int_def is_finite_def)
qed

lemma lower_m: "lower ''m'' = ''m''" "lower ''M'' = ''m''"
  by code_simp+

lemma memory_texts_value:
  "list_all (\<lambda>(s, n). parse_memory_mb E (JStr s) = Inr (num_of_int n)) memory_texts"
  by (simp add: memory_texts_def parse_memory_mb_def nullish_def is_digit_def digits_val_def code_def lower_m
      round64_def is_safe_integer_def max_safe_def num_of_int_def Let_def)

lemma parse_memory_known: "(s, n) \<in> set memory_texts \<Longrightarrow> parse_memory_mb E (JStr s) = Inr (num_of_int n)"
  using memory_texts_value[of E] by (auto simp: list_all_iff)

section \<open>Services\<close>

text \<open>The names and the limits of the services of each manifest, in order.\<close>

definition service_shape :: "obj \<Rightarrow> json list" where
  "service_shape d = [oget d ''mem_limit'', oget d ''cpus'',
     prop_of (prop_of (prop_of (oget d ''deploy'') ''resources'') ''limits'') ''memory'',
     prop_of (prop_of (prop_of (oget d ''deploy'') ''resources'') ''limits'') ''cpus'',
     oget d ''security_opt'', oget d ''networks'', oget d ''image'',
     prop_of (oget d ''labels'') ''com.getsupers.application-instance'']"

definition shaped :: "string \<Rightarrow> string \<Rightarrow> string \<Rightarrow> json list \<Rightarrow> string \<Rightarrow> string \<Rightarrow> json list" where
  "shaped mem dmem cpu networks img app = [JStr mem, JStr cpu, JStr dmem, JStr cpu,
     JArr [JStr ''no-new-privileges:true''], JArr networks, JStr img, JStr app]"

lemmas service_defs = cal_diy_app_def cal_diy_db_def cal_diy_redis_def documenso_certificate_def documenso_app_def
  documenso_db_def heyform_permissions_def heyform_app_def heyform_mongo_def heyform_redis_def uptime_kuma_app_def
  listmonk_app_def listmonk_db_def umami_app_def umami_db_def proxy_service_def

lemmas manifest_defs = cal_diy_manifest_def documenso_manifest_def heyform_manifest_def uptime_kuma_manifest_def
  listmonk_manifest_def umami_manifest_def runtime_manifest_of_def

lemma service_limits_shape:
  assumes "service_shape d = shaped mem dmem cpu networks img app" and "decimal_text_ok E"
    and "(mem, m) \<in> set memory_texts" and "(dmem, m) \<in> set memory_texts" and "(cpu, c) \<in> set cpu_texts"
  shows "service_limits E d = Inr (num_of_int m, num_of_int c)"
  using assms(1) parse_memory_known[OF assms(3), of E] parse_memory_known[OF assms(4), of E] parse_cpu_known[OF assms(2,5)]
  by (simp add: service_shape_def shaped_def service_limits_def Let_def)

definition private_net :: "json list" where "private_net = [JStr ''private'']"
definition app_net :: "json list" where "app_net = [JStr ''private'', JStr ''ingress'']"
definition edge_net :: "json list" where "edge_net = [JStr ''ingress'', JStr ''platform'']"

definition ingress_net :: "json list" where "ingress_net = [JStr ''ingress'']"

lemma service_shapes:
  "service_shape (cal_diy_app i sec) = shaped ''2560m'' ''2560M'' ''1.15'' app_net
     ''calcom/cal.com:v6.2.0@sha256:ace3bb1219fb7306585ab9f4d94d41af7ee064c343db0498173436bbe857bd49'' (ai_id i)"
  "service_shape (cal_diy_db i sec) = shaped ''384m'' ''384M'' ''0.2'' private_net
     ''postgres:15-alpine@sha256:fe0737ba566a2c5b2a28f34433c0a423261900ec17b9bf7ad115e1aae7e57f1b'' (ai_id i)"
  "service_shape (cal_diy_redis i sec) = shaped ''128m'' ''128M'' ''0.1'' private_net
     ''eqalpha/keydb:x86_64_v6.3.4@sha256:eceb1806730c7850395b8262300182c2e15a6e5dacbf0b72cbab110518caf43f'' (ai_id i)"
  "service_shape (documenso_certificate i sec) = shaped ''64m'' ''64M'' ''0.05'' private_net
     ''alpine/openssl:3.5.4@sha256:42c7389ef077aed0eb4e96d0abbd094083d701bbaff1313073b061c0c9cd8278'' (ai_id i)"
  "service_shape (documenso_app i sec) = shaped ''1792m'' ''1792M'' ''0.7'' app_net
     ''documenso/documenso:v2.17.0@sha256:1377ba20181d4d029e768b7b7615e4e49c39450a85588a525e78dc586dd2569c'' (ai_id i)"
  "service_shape (documenso_db i sec) = shaped ''256m'' ''256M'' ''0.2'' private_net
     ''postgres:15-alpine@sha256:fe0737ba566a2c5b2a28f34433c0a423261900ec17b9bf7ad115e1aae7e57f1b'' (ai_id i)"
  "service_shape (heyform_permissions i sec) = shaped ''32m'' ''32M'' ''0.025'' private_net
     ''alpine/openssl:3.5.4@sha256:42c7389ef077aed0eb4e96d0abbd094083d701bbaff1313073b061c0c9cd8278'' (ai_id i)"
  "service_shape (heyform_app options i sec) = shaped ''768m'' ''768M'' ''0.4'' app_net
     ''ghcr.io/rohanarun/managed-oss-cloud/heyform-managed:sha-e828254@sha256:e3759e25780ea1b8141182feff6d86b8184cc647bf35d23322c0c4f8785810bf'' (ai_id i)"
  "service_shape (heyform_mongo i sec) = shaped ''384m'' ''384M'' ''0.2'' private_net
     ''percona/percona-server-mongodb:4.4@sha256:dedeba0237c639dc5319b1bfa38f2558b9c268653bd555a727ea8df0babc05bb'' (ai_id i)"
  "service_shape (heyform_redis i sec) = shaped ''128m'' ''128M'' ''0.075'' private_net
     ''eqalpha/keydb:x86_64_v6.3.4@sha256:eceb1806730c7850395b8262300182c2e15a6e5dacbf0b72cbab110518caf43f'' (ai_id i)"
  "service_shape (uptime_kuma_app i sec) = shaped ''384m'' ''384M'' ''0.225'' ingress_net
     ''louislam/uptime-kuma:2.3.2@sha256:9aeb4e51d038047f414309c77a1af553281ca535723cb88907d907269d0a908e'' (ai_id i)"
  "service_shape (listmonk_app i sec) = shaped ''320m'' ''320M'' ''0.275'' app_net
     ''listmonk/listmonk:v6.2.0@sha256:f535d59e14991337a9f2d570273685378ae86b0d7698c3e00da444e3bc205286'' (ai_id i)"
  "service_shape (listmonk_db i sec) = shaped ''256m'' ''256M'' ''0.2'' private_net
     ''postgres:17-alpine@sha256:18cfe3ef5e6815560c98237d6216d1e5119702fb0f3894c8785dd58b8bbe5d73'' (ai_id i)"
  "service_shape (umami_app i sec) = shaped ''512m'' ''512M'' ''0.525'' app_net
     ''ghcr.io/umami-software/umami:3.3.1@sha256:fa32d116cf20cad52cbc3fad9a63b46e7fa02299d8f967168eb453d49c476b4a'' (ai_id i)"
  "service_shape (umami_db i sec) = shaped ''256m'' ''256M'' ''0.2'' private_net
     ''postgres:15-alpine@sha256:fe0737ba566a2c5b2a28f34433c0a423261900ec17b9bf7ad115e1aae7e57f1b'' (ai_id i)"
  "service_shape (proxy_service i port cpu) = shaped ''32m'' ''32M'' cpu edge_net
     ''caddy:2.10-alpine@sha256:4c6e91c6ed0e2fa03efd5b44747b625fec79bc9cd06ac5235a779726618e530d'' (ai_id i)"
  by (simp_all add: service_defs service_shape_def shaped_def prop_of_def app_net_def private_net_def ingress_net_def edge_net_def)

definition service_images :: "string list" where
  "service_images = [''alpine/openssl:3.5.4@sha256:42c7389ef077aed0eb4e96d0abbd094083d701bbaff1313073b061c0c9cd8278'',
     ''caddy:2.10-alpine@sha256:4c6e91c6ed0e2fa03efd5b44747b625fec79bc9cd06ac5235a779726618e530d'',
     ''calcom/cal.com:v6.2.0@sha256:ace3bb1219fb7306585ab9f4d94d41af7ee064c343db0498173436bbe857bd49'',
     ''documenso/documenso:v2.17.0@sha256:1377ba20181d4d029e768b7b7615e4e49c39450a85588a525e78dc586dd2569c'',
     ''eqalpha/keydb:x86_64_v6.3.4@sha256:eceb1806730c7850395b8262300182c2e15a6e5dacbf0b72cbab110518caf43f'',
     ''ghcr.io/rohanarun/managed-oss-cloud/heyform-managed:sha-e828254@sha256:e3759e25780ea1b8141182feff6d86b8184cc647bf35d23322c0c4f8785810bf'',
     ''ghcr.io/umami-software/umami:3.3.1@sha256:fa32d116cf20cad52cbc3fad9a63b46e7fa02299d8f967168eb453d49c476b4a'',
     ''listmonk/listmonk:v6.2.0@sha256:f535d59e14991337a9f2d570273685378ae86b0d7698c3e00da444e3bc205286'',
     ''louislam/uptime-kuma:2.3.2@sha256:9aeb4e51d038047f414309c77a1af553281ca535723cb88907d907269d0a908e'',
     ''percona/percona-server-mongodb:4.4@sha256:dedeba0237c639dc5319b1bfa38f2558b9c268653bd555a727ea8df0babc05bb'',
     ''postgres:15-alpine@sha256:fe0737ba566a2c5b2a28f34433c0a423261900ec17b9bf7ad115e1aae7e57f1b'',
     ''postgres:17-alpine@sha256:18cfe3ef5e6815560c98237d6216d1e5119702fb0f3894c8785dd58b8bbe5d73'']"

text \<open>An image reference pinned to a digest: \<open>...@sha256:\<close> and 64 hexadecimal digits.\<close>

definition pinned :: "string \<Rightarrow> bool" where
  "pinned s \<longleftrightarrow> has_part ''@sha256:'' s \<and> sha_pattern (drop (length s - 64) s)
     \<and> ends_with (take (length s - 64) s) ''@sha256:''"

lemma images_pinned: "list_all pinned service_images"
  by code_simp

lemma service_limits_known:
  assumes "decimal_text_ok E"
  shows
  "service_limits E (cal_diy_app i sec) = Inr (num_of_int 2560, num_of_int 1150)"
  "service_limits E (cal_diy_db i sec) = Inr (num_of_int 384, num_of_int 200)"
  "service_limits E (cal_diy_redis i sec) = Inr (num_of_int 128, num_of_int 100)"
  "service_limits E (documenso_certificate i sec) = Inr (num_of_int 64, num_of_int 50)"
  "service_limits E (documenso_app i sec) = Inr (num_of_int 1792, num_of_int 700)"
  "service_limits E (documenso_db i sec) = Inr (num_of_int 256, num_of_int 200)"
  "service_limits E (heyform_permissions i sec) = Inr (num_of_int 32, num_of_int 25)"
  "service_limits E (heyform_app options i sec) = Inr (num_of_int 768, num_of_int 400)"
  "service_limits E (heyform_mongo i sec) = Inr (num_of_int 384, num_of_int 200)"
  "service_limits E (heyform_redis i sec) = Inr (num_of_int 128, num_of_int 75)"
  "service_limits E (uptime_kuma_app i sec) = Inr (num_of_int 384, num_of_int 225)"
  "service_limits E (listmonk_app i sec) = Inr (num_of_int 320, num_of_int 275)"
  "service_limits E (listmonk_db i sec) = Inr (num_of_int 256, num_of_int 200)"
  "service_limits E (umami_app i sec) = Inr (num_of_int 512, num_of_int 525)"
  "service_limits E (umami_db i sec) = Inr (num_of_int 256, num_of_int 200)"
  "(cpu, c) \<in> set cpu_texts \<Longrightarrow> service_limits E (proxy_service i port cpu) = Inr (num_of_int 32, num_of_int c)"
  apply (rule service_limits_shape[OF service_shapes(1) assms]; simp add: memory_texts_def cpu_texts_def)
  apply (rule service_limits_shape[OF service_shapes(2) assms]; simp add: memory_texts_def cpu_texts_def)
  apply (rule service_limits_shape[OF service_shapes(3) assms]; simp add: memory_texts_def cpu_texts_def)
  apply (rule service_limits_shape[OF service_shapes(4) assms]; simp add: memory_texts_def cpu_texts_def)
  apply (rule service_limits_shape[OF service_shapes(5) assms]; simp add: memory_texts_def cpu_texts_def)
  apply (rule service_limits_shape[OF service_shapes(6) assms]; simp add: memory_texts_def cpu_texts_def)
  apply (rule service_limits_shape[OF service_shapes(7) assms]; simp add: memory_texts_def cpu_texts_def)
  apply (rule service_limits_shape[OF service_shapes(8) assms]; simp add: memory_texts_def cpu_texts_def)
  apply (rule service_limits_shape[OF service_shapes(9) assms]; simp add: memory_texts_def cpu_texts_def)
  apply (rule service_limits_shape[OF service_shapes(10) assms]; simp add: memory_texts_def cpu_texts_def)
  apply (rule service_limits_shape[OF service_shapes(11) assms]; simp add: memory_texts_def cpu_texts_def)
  apply (rule service_limits_shape[OF service_shapes(12) assms]; simp add: memory_texts_def cpu_texts_def)
  apply (rule service_limits_shape[OF service_shapes(13) assms]; simp add: memory_texts_def cpu_texts_def)
  apply (rule service_limits_shape[OF service_shapes(14) assms]; simp add: memory_texts_def cpu_texts_def)
  apply (rule service_limits_shape[OF service_shapes(15) assms]; simp add: memory_texts_def cpu_texts_def)
  apply (rule service_limits_shape[OF service_shapes(16) assms]; simp add: memory_texts_def)
  done

lemma proxy_limits_known:
  assumes "decimal_text_ok E"
  shows "service_limits E (proxy_service i port ''0.05'') = Inr (num_of_int 32, num_of_int 50)"
    and "service_limits E (proxy_service i port ''0.025'') = Inr (num_of_int 32, num_of_int 25)"
  by (rule service_limits_known(16)[OF assms]; simp add: cpu_texts_def)+

lemma add_limits_known:
  assumes "service_limits E d = Inr (num_of_int m, num_of_int c)" and "0 \<le> a" "0 \<le> b" "0 \<le> m" "0 \<le> c"
    and "a + m \<le> 100000" "b + c \<le> 100000"
  shows "add_limits E ((n, d) # ds) (num_of_int a) (num_of_int b) = add_limits E ds (num_of_int (a + m)) (num_of_int (b + c))"
  using assms by (simp add: num_add_int)

lemma manifest_envelopes:
  assumes "decimal_text_ok E"
  shows "add_limits E (rm_services (cal_diy_manifest i options sec)) (num_of_int 0) (num_of_int 0) = Inr (num_of_int 3104, num_of_int 1500)"
    "add_limits E (rm_services (documenso_manifest i options sec)) (num_of_int 0) (num_of_int 0) = Inr (num_of_int 2144, num_of_int 1000)"
    "add_limits E (rm_services (heyform_manifest i options sec)) (num_of_int 0) (num_of_int 0) = Inr (num_of_int 1344, num_of_int 750)"
    "add_limits E (rm_services (uptime_kuma_manifest i options sec)) (num_of_int 0) (num_of_int 0) = Inr (num_of_int 416, num_of_int 250)"
    "add_limits E (rm_services (listmonk_manifest i options sec)) (num_of_int 0) (num_of_int 0) = Inr (num_of_int 608, num_of_int 500)"
    "add_limits E (rm_services (umami_manifest i options sec)) (num_of_int 0) (num_of_int 0) = Inr (num_of_int 800, num_of_int 750)"
  by (simp_all add: manifest_defs add_limits_known service_limits_known[OF assms] proxy_limits_known[OF assms] del: add_limits.simps(2))

text \<open>C30: No manifest exceeds what is reserved for it. For every catalog application the memory and CPU
  limits of the services that buildRuntimeManifest starts add up to exactly the reservation that
  runtimeReservation charges for the application, whatever the instance, the options and the secrets.\<close>

theorem manifests_match_reservations:
  assumes "decimal_text_ok E" and "build_runtime_manifest i options sec = Inr m"
  shows "\<exists>r. runtime_reservation (ai_app i) = Inr r \<and> manifest_resource_envelope E m = Inr r"
proof -
  note known = manifest_envelopes[OF assms(1), unfolded num_of_int_def, simplified]
  have "rm_app m = ai_app i" "\<exists>f. (ai_app i, f) \<in> set manifest_table \<and> m = f i options sec"
    using assms(2) by (auto simp: build_runtime_manifest_def bind_e_Inr_iff manifest_table_def manifest_defs
        split: option.splits if_splits dest!: map_of_SomeD)
  then show ?thesis
    by (auto simp: manifest_table_def manifest_resource_envelope_def known runtime_reservation_def reservations_def
        reservation_of_def num_of_int_def)
qed

section \<open>Isolation\<close>

definition hardened :: "instance_rec \<Rightarrow> string \<Rightarrow> obj \<Rightarrow> bool" where
  "hardened i name d \<longleftrightarrow> (\<exists>img nets. oget d ''image'' = JStr img \<and> pinned img
     \<and> oget d ''security_opt'' = JArr [JStr ''no-new-privileges:true'']
     \<and> prop_of (oget d ''labels'') ''com.getsupers.application-instance'' = JStr (ai_id i)
     \<and> oget d ''networks'' = JArr nets
     \<and> (JStr ''platform'' \<in> set nets \<longrightarrow> name = ''proxy'')
     \<and> (JStr ''ingress'' \<in> set nets \<longrightarrow> name = ''proxy'' \<or> name = ''app''))"

lemma hardened_shape:
  assumes "service_shape d = shaped mem dmem cpu nets img (ai_id i)" and "img \<in> set service_images"
    and "JStr ''platform'' \<in> set nets \<longrightarrow> name = ''proxy''"
    and "JStr ''ingress'' \<in> set nets \<longrightarrow> name = ''proxy'' \<or> name = ''app''"
  shows "hardened i name d"
  using assms images_pinned by (auto simp: hardened_def service_shape_def shaped_def list_all_iff)

lemma services_hardened:
  "hardened i ''app'' (cal_diy_app i sec)" "hardened i ''db'' (cal_diy_db i sec)" "hardened i ''redis'' (cal_diy_redis i sec)"
  "hardened i ''certificate'' (documenso_certificate i sec)" "hardened i ''app'' (documenso_app i sec)"
  "hardened i ''db'' (documenso_db i sec)" "hardened i ''permissions'' (heyform_permissions i sec)"
  "hardened i ''app'' (heyform_app options i sec)" "hardened i ''mongo'' (heyform_mongo i sec)"
  "hardened i ''redis'' (heyform_redis i sec)" "hardened i ''app'' (uptime_kuma_app i sec)"
  "hardened i ''app'' (listmonk_app i sec)" "hardened i ''db'' (listmonk_db i sec)" "hardened i ''app'' (umami_app i sec)"
  "hardened i ''db'' (umami_db i sec)" "hardened i ''proxy'' (proxy_service i port cpu)"
  by (rule hardened_shape, rule service_shapes; simp add: service_images_def app_net_def private_net_def ingress_net_def edge_net_def)+

text \<open>C31: Isolation of what an instance runs. Every service of every manifest runs an image pinned to a
  digest, without new privileges, labelled with its instance; only the proxy joins the shared platform
  network, and only the proxy and the application join the ingress network of the instance.\<close>

theorem manifests_isolate_services:
  assumes "build_runtime_manifest i options sec = Inr m" and "(name, d) \<in> set (rm_services m)"
  shows "hardened i name d"
proof -
  have "\<exists>f. (ai_app i, f) \<in> set manifest_table \<and> m = f i options sec"
    using assms(1) by (auto simp: build_runtime_manifest_def bind_e_Inr_iff split: option.splits dest!: map_of_SomeD)
  with assms(2) show ?thesis
    by (auto simp: manifest_table_def manifest_defs services_hardened)
qed

section \<open>Example\<close>

definition sample_instance :: instance_rec where
  "sample_instance = \<lparr>ai_id = ''i1'', ai_installation = ''n1'', ai_app = ''umami'', ai_state = InstQueued,
     ai_hostname = ''stats.example.com'', ai_project = ''mos-0123456789ab'', ai_domains = [], ai_health = None, ai_worker = None,
     ai_memory = num_of_int 800, ai_cpu = num_of_int 750, ai_storage = num_of_int 10,
     ai_created = ''2026'', ai_updated = ''2026''\<rparr>"

definition plain_options :: manifest_options where
  "plain_options = \<lparr>mo_network = None, mo_broker = None\<rparr>"

definition plain_env :: js_env where
  "plain_env = \<lparr>sha256_hex = (\<lambda>s. s), num_text = (\<lambda>r. []), text_num = decimal_num, parse_date = (\<lambda>s. None),
     iso_text = (\<lambda>n. []), collate = (\<lambda>a b. 0), uuid_at = (\<lambda>n. [])\<rparr>"

lemma sample_builds: "build_runtime_manifest sample_instance plain_options sec = Inr (umami_manifest sample_instance plain_options sec)"
proof -
  have "project_pattern ''mos-0123456789ab''" by code_simp
  then show ?thesis
    by (simp add: build_runtime_manifest_def manifest_table_def runtime_ingress_network_def sample_instance_def)
qed

definition sample_secret :: "nat \<Rightarrow> nat \<Rightarrow> string" where
  "sample_secret _ _ = ''00''"

theorem manifests_match_reservations_witness:
  "manifest_resource_envelope plain_env (umami_manifest sample_instance plain_options sample_secret) = Inr (reservation_of 800 750 10)"
proof -
  have "decimal_text_ok plain_env" by (simp add: decimal_text_ok_def plain_env_def)
  from manifests_match_reservations[OF this sample_builds] show ?thesis
    by (auto simp: sample_instance_def runtime_reservation_def reservations_def)
qed

theorem manifests_isolate_services_witness:
  "hardened sample_instance ''db'' (umami_db sample_instance sample_secret)"
proof -
  have "(''db'', umami_db sample_instance sample_secret) \<in> set (rm_services (umami_manifest sample_instance plain_options sample_secret))"
    by (simp add: manifest_defs)
  from manifests_isolate_services[OF sample_builds this] show ?thesis .
qed

end
