(* ===== verification/Worker_Properties.thy ===== *)
theory Worker_Properties
  imports Worker_Resources Sample_Host
begin

text \<open>A worker that passes its consistency check can honour everything it promised; the quarantine contract.\<close>

section \<open>Exact sums\<close>

definition num_val :: "num \<Rightarrow> rat" where
  "num_val n = (case n of Fin r \<Rightarrow> r | _ \<Rightarrow> 0)"

definition need :: "(envelope \<Rightarrow> num) \<Rightarrow> assigned_app \<Rightarrow> rat" where
  "need sel a = (case runtime_reservation (aa_app a) of Inl _ \<Rightarrow> 0 | Inr r \<Rightarrow> num_val (sel r))"

lemma num_val_int [simp]: "num_val (num_of_int n) = of_int n"
  by (simp add: num_val_def num_of_int_def)

lemma reservation_of_inject [simp]:
  "reservation_of m c s = reservation_of m' c' s' \<longleftrightarrow> m = m' \<and> c = c' \<and> s = s'"
  by (simp add: reservation_of_def)

lemma reservation_ints: "runtime_reservation x = Inr r \<Longrightarrow> x \<notin> set proto_keys \<Longrightarrow>
    \<exists>m c s. r = reservation_of m c s \<and> 0 \<le> m \<and> m \<le> 4000 \<and> 0 \<le> c \<and> c \<le> 4000 \<and> 0 \<le> s \<and> s \<le> 4000"
  by (auto simp: runtime_reservation_def reservations_def split: option.splits if_splits)

lemma manifest_act_Inr [simp]: "manifest_act r = Inr x \<longleftrightarrow> r = Inr x"
  by (simp add: manifest_act_def split: sum.split)

lemma assigned_exact:
  assumes "assigned_from as seen (reservation_of m c s) = Inr e"
    and "0 \<le> m" "0 \<le> c" "0 \<le> s" and "max m (max c s) + 4000 * int (length as) \<le> 2 ^ 52"
    and "\<forall>a \<in> set as. aa_app a \<notin> set proto_keys"
  shows "distinct (map aa_id as) \<and> (\<exists>m' c' s'. e = reservation_of m' c' s' \<and> 0 \<le> m' \<and> 0 \<le> c' \<and> 0 \<le> s'
     \<and> max m' (max c' s') \<le> 2 ^ 52
     \<and> of_int m' = of_int m + sum_list (map (need en_memory) as)
     \<and> of_int c' = of_int c + sum_list (map (need en_cpu) as)
     \<and> of_int s' = of_int s + sum_list (map (need en_storage) as))
     \<and> set (map aa_id as) \<inter> set seen = {}"
  using assms
proof (induction as arbitrary: seen m c s)
  case Nil
  then show ?case by auto
next
  case (Cons a as)
  from Cons.prems(1) obtain r where r: "runtime_reservation (aa_app a) = Inr r" and fresh: "aa_id a \<notin> set seen"
    and run: "assigned_from as (aa_id a # seen) \<lparr>en_memory = num_add (num_of_int m) (en_memory r),
      en_cpu = num_add (num_of_int c) (en_cpu r), en_storage = num_add (num_of_int s) (en_storage r)\<rparr> = Inr e"
    by (auto simp: bind_e_Inr_iff reservation_of_def split: if_splits)
  from Cons.prems(6) have "aa_app a \<notin> set proto_keys" by simp
  from reservation_ints[OF r this] obtain m1 c1 s1 where i: "r = reservation_of m1 c1 s1"
    "0 \<le> m1" "m1 \<le> 4000" "0 \<le> c1" "c1 \<le> 4000" "0 \<le> s1" "s1 \<le> 4000" by blast
  have acc: "\<lparr>en_memory = num_add (num_of_int m) (en_memory r), en_cpu = num_add (num_of_int c) (en_cpu r),
      en_storage = num_add (num_of_int s) (en_storage r)\<rparr> = reservation_of (m + m1) (c + c1) (s + s1)"
    using i Cons.prems(2-5) by (simp add: reservation_of_def num_add_int)
  have bound: "max (m + m1) (max (c + c1) (s + s1)) + 4000 * int (length as) \<le> 2 ^ 52"
    using Cons.prems(5) i by (simp add: max_def split: if_splits)
  from Cons.IH[OF run[unfolded acc] _ _ _ bound] Cons.prems(2-4,6) i fresh
  show ?case by (auto simp: need_def r i(1) reservation_of_def algebra_simps)
qed

lemma same_envelope_eq:
  assumes "json_number_ok E" and "same_envelope E a (reservation_of m c s)"
  shows "a = reservation_of m c s"
proof -
  have "wire (envelope_json a) = wire (envelope_json (reservation_of m c s))"
    using assms(2) by (intro stringify_injective[OF assms(1)]) (auto simp: same_envelope_def stringify_def envelope_json_def)
  then show ?thesis
    by (cases a) (auto simp: envelope_json_def reservation_of_def defined_entries_def num_of_int_def is_finite_def split: if_splits)
qed

text \<open>
  An application named like a member of the prototype of objects makes the sum \<open>NaN\<close>, which the recorded
  reservation of a worker cannot equal when it is a number.
\<close>

lemma num_add_NaN [simp]: "num_add x NaN = NaN" "num_add NaN x = NaN"
  by (cases x; simp)+

lemma reserved_names_plain: "x \<in> set proto_keys \<Longrightarrow> map_of reservations x = None"
  by (auto simp: proto_keys_def reservations_def)

lemma nan_stays: "assigned_from as seen acc = Inr e \<Longrightarrow> en_memory acc = NaN \<Longrightarrow> en_memory e = NaN"
  by (induction as arbitrary: seen acc) (fastforce simp: bind_e_Inr_iff split: if_splits)+

lemma prototype_name_nan:
  "assigned_from as seen acc = Inr e \<Longrightarrow> a \<in> set as \<Longrightarrow> aa_app a \<in> set proto_keys \<Longrightarrow> en_memory e = NaN"
proof (induction as arbitrary: seen acc)
  case (Cons b as)
  from Cons.prems(1) obtain r where r: "runtime_reservation (aa_app b) = Inr r"
    and run: "assigned_from as (aa_id b # seen) \<lparr>en_memory = num_add (en_memory acc) (en_memory r),
      en_cpu = num_add (en_cpu acc) (en_cpu r), en_storage = num_add (en_storage acc) (en_storage r)\<rparr> = Inr e"
    by (auto simp: bind_e_Inr_iff split: if_splits)
  show ?case
  proof (cases "a = b")
    case True
    with r Cons.prems(3) reserved_names_plain have "en_memory r = NaN" by (auto simp: runtime_reservation_def)
    with nan_stays[OF run] show ?thesis by simp
  next
    case False
    with Cons.IH[OF run] Cons.prems show ?thesis by simp
  qed
qed simp

lemma same_envelope_finite:
  assumes "json_number_ok E" and "same_envelope E a b" and "is_finite (en_memory a)"
  shows "is_finite (en_memory b)"
proof -
  have "wire (envelope_json a) = wire (envelope_json b)"
    using assms(2) by (intro stringify_injective[OF assms(1)]) (auto simp: same_envelope_def stringify_def envelope_json_def)
  then show ?thesis using assms(3) by (auto simp: envelope_json_def defined_entries_def split: if_splits)
qed

section \<open>The host\<close>

definition whole_up_to :: "int \<Rightarrow> num \<Rightarrow> bool" where
  "whole_up_to b n \<longleftrightarrow> (\<exists>i. n = num_of_int i \<and> 0 \<le> i \<and> i \<le> b)"

text \<open>
  What the configuration holds and the host measures: whole megabytes, millicores and gigabytes up to four
  million of each, and whole bytes up to \<open>2^52\<close>.
\<close>

definition whole_measures :: "worker_policy \<Rightarrow> host_snapshot \<Rightarrow> num \<Rightarrow> bool" where
  "whole_measures p host pending \<longleftrightarrow>
     (\<forall>n \<in> {wp_memory p, wp_cpu p, wp_storage p, wp_reserve_memory p, wp_reserve_cpu p, wp_reserve_storage p,
             wp_launch_memory p, pending}. whole_up_to 4000000 n)
     \<and> (\<forall>n \<in> {hs_total_memory host, hs_available_memory host, hs_cpu host, hs_total_bytes host,
             hs_available_bytes host, hs_used_bytes host}. whole_up_to (2 ^ 52) n)"

lemma consistency_cases:
  assumes "assert_worker_resource_consistency E activity p host pending = Inr (e, headroom)"
  shows "assigned_reservation activity = Inr e"
    and "same_envelope E \<lparr>en_memory = wn_reserved_memory (wa_node activity), en_cpu = wn_reserved_cpu (wa_node activity),
      en_storage = wn_reserved_storage (wa_node activity)\<rparr> e"
    and "\<not> num_lt (wp_memory p) (num_add (wn_reserved_memory (wa_node activity)) (wp_reserve_memory p))"
    and "\<not> num_lt (wp_cpu p) (wn_reserved_cpu (wa_node activity))"
    and "\<not> num_lt (wp_storage p) (wn_reserved_storage (wa_node activity))"
    and "\<not> num_lt (hs_total_memory host) (wp_memory p)"
    and "\<not> num_lt (hs_cpu host) (num_add (wp_cpu p) (wp_reserve_cpu p))"
    and "\<not> num_lt (hs_total_bytes host) (num_mul (num_add (wp_storage p) (wp_reserve_storage p)) storage_bytes_per_gb)"
    and "\<not> num_lt (hs_available_memory host) (num_add pending (wp_launch_memory p))"
    and "headroom = num_add (num_max (Fin 0) (num_sub (num_mul (wn_reserved_storage (wa_node activity)) storage_bytes_per_gb)
        (hs_used_bytes host))) (num_mul (wp_reserve_storage p) storage_bytes_per_gb)"
    and "\<not> num_lt (hs_available_bytes host) headroom"
  using assms unfolding assert_worker_resource_consistency_def Let_def
  by (auto simp: bind_e_Inr_iff check_that_def split: if_splits)

text \<open>The exact reservation of a list of assigned applications.\<close>

definition promised :: "(envelope \<Rightarrow> num) \<Rightarrow> worker_activity \<Rightarrow> rat" where
  "promised sel activity = sum_list (map (need sel) (wa_assigned activity))"

lemma promised_recorded:
  assumes "json_number_ok E" and "assert_worker_resource_consistency E activity p host pending = Inr (e, headroom)"
    and "is_finite (wn_reserved_memory (wa_node activity))" and "length (wa_assigned activity) \<le> 1000000"
  obtains m c s where "distinct (map aa_id (wa_assigned activity))"
    "wn_reserved_memory (wa_node activity) = num_of_int m" "wn_reserved_cpu (wa_node activity) = num_of_int c"
    "wn_reserved_storage (wa_node activity) = num_of_int s" "0 \<le> m" "0 \<le> s"  "m \<le> 2 ^ 52"
    "promised en_memory activity = of_int m" "promised en_cpu activity = of_int c" "promised en_storage activity = of_int s"
proof -
  note run = consistency_cases(1,2)[OF assms(2)]
  have plain: "\<forall>a \<in> set (wa_assigned activity). aa_app a \<notin> set proto_keys"
  proof (intro ballI notI)
    fix a assume "a \<in> set (wa_assigned activity)" "aa_app a \<in> set proto_keys"
    from prototype_name_nan[OF run(1)[unfolded assigned_reservation_def] this]
    show False using same_envelope_finite[OF assms(1) run(2)] assms(3) by (simp add: is_finite_def)
  qed
  have "4000 * int (length (wa_assigned activity)) \<le> 4000 * 1000000" using assms(4) by linarith
  then have "4000 * int (length (wa_assigned activity)) \<le> 2 ^ 52" by simp
  with plain assigned_exact[OF run(1)[unfolded assigned_reservation_def]] obtain m c s where
    e: "e = reservation_of m c s" and b: "0 \<le> m" "0 \<le> s" "m \<le> 2 ^ 52" "distinct (map aa_id (wa_assigned activity))"
      "of_int m = promised en_memory activity" "of_int c = promised en_cpu activity" "of_int s = promised en_storage activity"
    by (auto simp: promised_def)
  have "\<lparr>en_memory = wn_reserved_memory (wa_node activity), en_cpu = wn_reserved_cpu (wa_node activity),
      en_storage = wn_reserved_storage (wa_node activity)\<rparr> = reservation_of m c s"
    using same_envelope_eq[OF assms(1)] run(2) e by blast
  with b show thesis by (intro that[of m c s]) (simp_all add: reservation_of_def)
qed

text \<open>The disk headroom of whole numbers: what is promised and not yet used, with the reserve, in bytes.\<close>

lemma bytes_per_gb_int: "storage_bytes_per_gb = num_of_int (10 ^ 9)"
  by (simp add: storage_bytes_per_gb_def num_of_int_def)

lemma headroom_int:
  assumes "0 \<le> s" "s \<le> 4000000" "0 \<le> r" "r \<le> 4000000" "0 \<le> u" "u \<le> 2 ^ 52"
  shows "num_add (num_max (Fin 0) (num_sub (num_mul (num_of_int s) storage_bytes_per_gb) (num_of_int u)))
      (num_mul (num_of_int r) storage_bytes_per_gb) = num_of_int (max 0 (s * 10 ^ 9 - u) + r * 10 ^ 9)"
proof -
  have zero: "Fin 0 = num_of_int 0" by (simp add: num_of_int_def)
  have "num_mul (num_of_int s) storage_bytes_per_gb = num_of_int (s * 10 ^ 9)"
    "num_mul (num_of_int r) storage_bytes_per_gb = num_of_int (r * 10 ^ 9)"
    using assms by (simp_all add: bytes_per_gb_int num_mul_int)
  moreover have "num_sub (num_of_int (s * 10 ^ 9)) (num_of_int u) = num_of_int (s * 10 ^ 9 - u)"
    using assms by (intro num_sub_int) (simp add: abs_le_iff)
  moreover have "num_add (num_of_int (max 0 (s * 10 ^ 9 - u))) (num_of_int (r * 10 ^ 9)) = num_of_int (max 0 (s * 10 ^ 9 - u) + r * 10 ^ 9)"
    using assms by (intro num_add_int) (simp add: abs_le_iff max_def)
  ultimately show ?thesis by (simp only: zero num_max_int)
qed

text \<open>C32: A consistent worker can honour its promises. When the check passes, no application is assigned
  twice, and in exact arithmetic: the reservations of all assigned applications with the system reserve fit
  the advertised memory, which the host has; their CPU fits the advertised CPU, which with its reserve the
  host has; their storage fits the advertised storage, which with its reserve fits the file system; the
  memory of a pending launch is available; and the free disk covers every byte that is promised and not yet
  used, with the reserve, which is the returned headroom.\<close>

theorem worker_capacity_safe:
  assumes "json_number_ok E" and "assert_worker_resource_consistency E activity p host pending = Inr (e, headroom)"
    and "whole_measures p host pending" and "is_finite (wn_reserved_memory (wa_node activity))"
    and "length (wa_assigned activity) \<le> 1000000"
  shows "distinct (map aa_id (wa_assigned activity))
     \<and> promised en_memory activity + num_val (wp_reserve_memory p) \<le> num_val (wp_memory p)
     \<and> num_val (wp_memory p) \<le> num_val (hs_total_memory host)
     \<and> num_val pending + num_val (wp_launch_memory p) \<le> num_val (hs_available_memory host)
     \<and> promised en_cpu activity \<le> num_val (wp_cpu p)
     \<and> num_val (wp_cpu p) + num_val (wp_reserve_cpu p) \<le> num_val (hs_cpu host)
     \<and> promised en_storage activity \<le> num_val (wp_storage p)
     \<and> (num_val (wp_storage p) + num_val (wp_reserve_storage p)) * 10 ^ 9 \<le> num_val (hs_total_bytes host)
     \<and> headroom = Fin (max 0 (promised en_storage activity * 10 ^ 9 - num_val (hs_used_bytes host))
          + num_val (wp_reserve_storage p) * 10 ^ 9)
     \<and> num_val headroom \<le> num_val (hs_available_bytes host)"
proof -
  note check = consistency_cases[OF assms(2)]
  obtain m c s where rec: "distinct (map aa_id (wa_assigned activity))"
    "wn_reserved_memory (wa_node activity) = num_of_int m" "wn_reserved_cpu (wa_node activity) = num_of_int c"
    "wn_reserved_storage (wa_node activity) = num_of_int s" "0 \<le> m" "0 \<le> s" "m \<le> 2 ^ 52"
    "promised en_memory activity = of_int m" "promised en_cpu activity = of_int c" "promised en_storage activity = of_int s"
    using promised_recorded[OF assms(1,2,4,5)] .
  obtain M C S R RC RS L P where p: "wp_memory p = num_of_int M" "wp_cpu p = num_of_int C" "wp_storage p = num_of_int S"
    "wp_reserve_memory p = num_of_int R" "wp_reserve_cpu p = num_of_int RC" "wp_reserve_storage p = num_of_int RS"
    "wp_launch_memory p = num_of_int L" "pending = num_of_int P"
    and pb: "\<forall>i \<in> {M, C, S, R, RC, RS, L, P}. 0 \<le> i \<and> i \<le> 4000000"
    using assms(3) by (auto simp: whole_measures_def whole_up_to_def)
  obtain TM AM HC TB AB U where h: "hs_total_memory host = num_of_int TM" "hs_available_memory host = num_of_int AM"
    "hs_cpu host = num_of_int HC" "hs_total_bytes host = num_of_int TB" "hs_available_bytes host = num_of_int AB"
    "hs_used_bytes host = num_of_int U" and hb: "0 \<le> U" "U \<le> 2 ^ 52"
    using assms(3) by (auto simp: whole_measures_def whole_up_to_def)
  have memory: "m + R \<le> M" "M \<le> TM" "P + L \<le> AM" and cpu: "c \<le> C" "C + RC \<le> HC"
    using check(3,4,6,7,9) pb rec(5,7) by (simp_all add: rec(2,3) p h num_add_int not_less)
  have storage: "s \<le> S" using check(5) by (simp add: rec(4) p not_less)
  have total: "(S + RS) * 10 ^ 9 \<le> TB"
    using check(8) pb by (simp add: p h bytes_per_gb_int num_add_int num_mul_int not_less)
  have room: "headroom = num_of_int (max 0 (s * 10 ^ 9 - U) + RS * 10 ^ 9)"
    unfolding check(10) rec(4) p h using pb storage rec(6) hb by (intro headroom_int) simp_all
  have free: "max 0 (s * 10 ^ 9 - U) + RS * 10 ^ 9 \<le> AB" using check(11) by (simp add: room h not_less)
  have cast: "i \<le> j \<Longrightarrow> (of_int i :: rat) \<le> of_int j" for i j by simp
  have "(of_int (max 0 (s * 10 ^ 9 - U) + RS * 10 ^ 9) :: rat) = max 0 (of_int s * 10 ^ 9 - of_int U) + of_int RS * 10 ^ 9"
    by (simp add: of_int_max)
  then have exact: "headroom = Fin (max 0 (of_int s * 10 ^ 9 - of_int U) + of_int RS * 10 ^ 9)"
    by (simp only: room num_of_int_def)
  moreover have "num_val headroom \<le> of_int AB" using free[THEN cast] by (simp only: room num_val_int)
  ultimately show ?thesis
    using rec(1) memory[THEN cast] cpu[THEN cast] storage[THEN cast] total[THEN cast] by (simp add: rec p h)
qed

section \<open>Quarantine\<close>

datatype 'a host_event = Quarantined 'a | RoutesRemoved | StopTried 'a

definition logged :: "'a host_event \<Rightarrow> bool \<Rightarrow> ('a host_event list, string, unit) act" where
  "logged ev ok = bnd (modifies (\<lambda>evs. evs @ [ev])) (\<lambda>_. if ok then ret () else throw ''failed'')"

definition quarantine_run :: "('a \<Rightarrow> bool) \<Rightarrow> bool \<Rightarrow> ('a \<Rightarrow> bool) \<Rightarrow> 'a list
    \<Rightarrow> (string quarantine_err + unit) \<times> 'a host_event list" where
  "quarantine_run q r st apps = enforce_storage_quarantine_contract
     (\<lambda>a. logged (Quarantined a) (q a)) (logged RoutesRemoved r) (\<lambda>a. logged (StopTried a) (st a)) apps []"

lemma quarantines_run: "each (\<lambda>a. logged (Quarantined a) (q a)) apps evs =
    (case first_such (\<lambda>a. \<not> q a) apps of
       None \<Rightarrow> (Inr (map (\<lambda>_. ()) apps), evs @ map Quarantined apps)
     | Some a \<Rightarrow> (Inl ''failed'', evs @ map Quarantined (takeWhile q apps) @ [Quarantined a]))"
  by (induction apps arbitrary: evs) (auto simp: bnd_def logged_def first_such_def split: option.splits)

lemma attempt_logged: "attempt_as (logged ev ok) evs = (Inr (if ok then [] else [''failed'']), evs @ [ev])"
  by (simp add: attempt_as_def logged_def bnd_def)

lemma stops_run: "each (\<lambda>a. attempt_as (logged (StopTried a) (st a))) apps evs =
    (Inr (map (\<lambda>a. if st a then [] else [''failed'']) apps), evs @ map StopTried apps)"
  by (induction apps arbitrary: evs) (auto simp: bnd_def attempt_logged)

text \<open>C33: The quarantine contract. When every application could be marked as quarantined, each is marked
  before any route is removed and before any is stopped, and every stop is attempted although routes
  or other stops fail; the run succeeds exactly when nothing failed. When a mark fails, nothing is
  removed or stopped.\<close>

theorem quarantine_contract:
  assumes "apps \<noteq> []"
  shows "(case first_such (\<lambda>a. \<not> q a) apps of
       None \<Rightarrow> snd (quarantine_run q r st apps) = map Quarantined apps @ [RoutesRemoved] @ map StopTried apps
          \<and> (fst (quarantine_run q r st apps) = Inr () \<longleftrightarrow> r \<and> (\<forall>a \<in> set apps. st a))
     | Some a \<Rightarrow> quarantine_run q r st apps =
          (Inl (QuarantineFailed ''failed''), map Quarantined (takeWhile q apps) @ [Quarantined a]))"
proof (cases "first_such (\<lambda>a. \<not> q a) apps")
  case None
  let ?f = "(if r then [] else [''failed'']) @ concat (map (\<lambda>a. if st a then [] else [''failed'']) apps)"
  have "quarantine_run q r st apps = (if ?f = [] then Inr () else Inl (AfterQuarantine ?f),
      map Quarantined apps @ [RoutesRemoved] @ map StopTried apps)"
    using assms None
    by (simp add: quarantine_run_def enforce_storage_quarantine_contract_def bnd_def quarantines_run stops_run
        attempt_logged del: concat_eq_Nil_conv split del: if_split) (simp split: if_split)
  moreover have "?f = [] \<longleftrightarrow> r \<and> (\<forall>a \<in> set apps. st a)" by auto
  ultimately show ?thesis by (simp add: None)
next
  case (Some a)
  then show ?thesis using assms
    by (simp add: quarantine_run_def enforce_storage_quarantine_contract_def bnd_def quarantines_run)
qed

section \<open>Examples\<close>

definition sample_assigned :: assigned_app where
  "sample_assigned = \<lparr>aa_id = ''i1'', aa_installation = ''n1'', aa_app = ''umami'', aa_state = InstLive\<rparr>"

definition sample_activity :: worker_activity where
  "sample_activity = \<lparr>wa_node = \<lparr>wn_id = ''w'', wn_name = ''w'', wn_status = NodeReady, wn_address = ''10.0.0.2'', wn_machine = ''m'',
       wn_memory = num_of_int 8000, wn_cpu = num_of_int 4000, wn_storage = num_of_int 100,
       wn_reserve_memory = num_of_int 512, wn_reserved_memory = num_of_int 800, wn_reserved_cpu = num_of_int 750,
       wn_reserved_storage = num_of_int 10,
       wn_heartbeat = ''2026'', wn_created = ''2026'', wn_updated = ''2026''\<rparr>,
     wa_assigned = [sample_assigned]\<rparr>"

definition sample_policy :: worker_policy where
  "sample_policy = \<lparr>wp_node = ''w'', wp_apps_root = ''/srv'', wp_memory = num_of_int 8000, wp_cpu = num_of_int 4000, wp_storage = num_of_int 100,
     wp_reserve_memory = num_of_int 512, wp_reserve_cpu = num_of_int 500, wp_reserve_storage = num_of_int 10, wp_launch_memory = num_of_int 256,
     wp_backend = MeasurementOnly\<rparr>"

definition sample_snapshot :: host_snapshot where
  "sample_snapshot = \<lparr>hs_total_memory = num_of_int 16000, hs_available_memory = num_of_int 9000, hs_cpu = num_of_int 8000,
     hs_total_bytes = num_of_int 500000000000, hs_available_bytes = num_of_int 400000000000, hs_used_bytes = num_of_int 0\<rparr>"

theorem worker_capacity_safe_witness:
  "\<exists>e h. assert_worker_resource_consistency sample_env sample_activity sample_policy sample_snapshot (Fin 0) = Inr (e, h)
     \<and> need en_memory sample_assigned + 512 \<le> 8000 \<and> h = Fin (20 * 10 ^ 9)"
proof -
  obtain e h where run: "assert_worker_resource_consistency sample_env sample_activity sample_policy sample_snapshot (Fin 0) = Inr (e, h)"
    by (simp add: assert_worker_resource_consistency_def sample_activity_def sample_assigned_def sample_policy_def sample_snapshot_def
        assigned_reservation_def runtime_reservation_def reservations_def reservation_of_def Let_def num_of_int_def
        round64_def check_that_def manifest_act_def same_envelope_def num_sub_def neg_num_def num_max_def
        storage_bytes_per_gb_def num_eq_def)
  have "whole_up_to b (num_of_int i)" if "0 \<le> i" "i \<le> b" for b i using that by (auto simp: whole_up_to_def)
  moreover have "Fin 0 = num_of_int 0" by (simp add: num_of_int_def)
  ultimately have whole: "whole_measures sample_policy sample_snapshot (Fin 0)"
    by (simp add: whole_measures_def sample_policy_def sample_snapshot_def)
  have "is_finite (wn_reserved_memory (wa_node sample_activity))" "length (wa_assigned sample_activity) \<le> 1000000"
    by (simp_all add: sample_activity_def is_finite_def num_of_int_def)
  note safe = worker_capacity_safe[OF sample_json_numbers run whole this]
  have "promised en_storage sample_activity = 10" "promised en_memory sample_activity = need en_memory sample_assigned"
    by (simp_all add: promised_def sample_activity_def need_def)
      (simp add: sample_assigned_def runtime_reservation_def reservations_def reservation_of_def)
  with safe have "h = Fin (20 * 10 ^ 9)" "need en_memory sample_assigned + 512 \<le> 8000"
    by (simp_all add: sample_policy_def sample_snapshot_def)
  with run show ?thesis by blast
qed

theorem quarantine_contract_witness:
  "snd (quarantine_run (\<lambda>a. True) False (\<lambda>a. a = (2::nat)) [1, 2]) =
     [Quarantined 1, Quarantined 2, RoutesRemoved, StopTried 1, StopTried 2]"
  using quarantine_contract[of "[1, 2::nat]" "\<lambda>a. True" False "\<lambda>a. a = 2"] by (simp add: first_such_def)

end
