(* ===== verification/Compose_Upgrade.thy ===== *)
theory Compose_Upgrade
  imports Worker_Resources Sample_Host
begin

text \<open>
  Upgrades of a deployed compose file (\<open>server/compose-upgrade.ts\<close>). A definition takes the parsed
  file and answers whether it changed and what is written back; reading and writing are not
  modelled. \<open>JSON.parse(JSON.stringify(v))\<close> is \<open>wire v\<close>.
\<close>

datatype compose_err =
    BadIngressName | BadProxy | BadPlatformNetwork | BadAppNetworks | UnknownNetwork | LegacyNetwork string
  | NoServices | ServiceSetDiffers | BadService string | NoVerifiedLimits string
  | ImageNotPinned | NoApplicationImage | BadEnvironment | MissingEnvironment string

text \<open>\<open>/^mos-[0-9a-f]{12}-ingress$/i\<close>\<close>

definition ingress_name_pattern :: "string \<Rightarrow> bool" where
  "ingress_name_pattern s \<longleftrightarrow> project_pattern (take 16 s) \<and> lower (drop 16 s) = ''-ingress''"

definition arr_has :: "json \<Rightarrow> string \<Rightarrow> bool" where
  "arr_has v s = (case v of JArr xs \<Rightarrow> JStr s \<in> set xs | _ \<Rightarrow> False)"

definition ingress_json :: "string \<Rightarrow> json" where
  "ingress_json name = JObj [(''external'', JBool True), (''name'', JStr name)]"

definition legacy_service :: "string \<times> json \<Rightarrow> bool" where
  "legacy_service p = (case p of (n, v) \<Rightarrow> n \<noteq> ''app'' \<and> n \<noteq> ''proxy'' \<and> is_obj v \<and> arr_has (prop_of v ''networks'') ''platform'')"

definition obj_entries :: "json \<Rightarrow> obj" where
  "obj_entries v = (case v of JObj d \<Rightarrow> d | _ \<Rightarrow> [])"

definition app_networks :: "obj \<Rightarrow> compose_err + string list" where
  "app_networks compose =
     (case prop_of (prop_of (oget compose ''services'') ''app'') ''networks'' of
        JArr xs \<Rightarrow> each_e (\<lambda>x. case x of JStr s \<Rightarrow> Inr s | _ \<Rightarrow> Inl BadAppNetworks) xs
      | _ \<Rightarrow> Inl BadAppNetworks)"

definition already_isolated :: "js_env \<Rightarrow> string \<Rightarrow> obj \<Rightarrow> json \<Rightarrow> string list \<Rightarrow> obj \<Rightarrow> bool" where
  "already_isolated E name proxy platform nets compose \<longleftrightarrow>
     ''ingress'' \<in> set nets \<and> ''platform'' \<notin> set nets
     \<and> stringify E (prop_of (oget compose ''networks'') ''ingress'') = stringify E (ingress_json name)
     \<and> stringify E (prop_of (oget compose ''networks'') ''platform'') = stringify E platform
     \<and> stringify E (prop_of (oget compose ''services'') ''proxy'') = stringify E (JObj proxy)"

definition isolated_compose :: "string \<Rightarrow> obj \<Rightarrow> json \<Rightarrow> string list \<Rightarrow> obj \<Rightarrow> obj" where
  "isolated_compose name proxy platform nets compose =
     (let services = obj_entries (oget compose ''services''); app = obj_entries (oget services ''app'');
          nets' = uniq (map (\<lambda>n. if n = ''platform'' then ''ingress'' else n) nets @ [''ingress'']);
          services' = oset ''proxy'' (wire (JObj proxy)) (oset ''app'' (JObj (oset ''networks'' (JArr (map JStr nets')) app)) services);
          networks' = oset ''platform'' (wire platform) (oset ''ingress'' (ingress_json name) (obj_entries (oget compose ''networks'')))
      in oset ''networks'' (JObj networks') (oset ''services'' (JObj services') compose))"

definition migrate_ingress_network ::
  "js_env \<Rightarrow> string \<Rightarrow> obj \<Rightarrow> json \<Rightarrow> obj \<Rightarrow> compose_err + bool \<times> obj" where
  "migrate_ingress_network E name proxy platform compose =
     bind_e (check_that (ingress_name_pattern name) BadIngressName) (\<lambda>_.
     bind_e (check_that (arr_has (oget proxy ''networks'') ''ingress'' \<and> arr_has (oget proxy ''networks'') ''platform'') BadProxy) (\<lambda>_.
     bind_e (check_that (is_obj platform) BadPlatformNetwork) (\<lambda>_.
     bind_e (app_networks compose) (\<lambda>nets.
     bind_e (check_that (set nets \<subseteq> {''private'', ''platform'', ''ingress''}) UnknownNetwork) (\<lambda>_.
     bind_e (case first_such legacy_service (obj_entries (oget compose ''services'')) of
               None \<Rightarrow> Inr () | Some (n, _) \<Rightarrow> Inl (LegacyNetwork n)) (\<lambda>_.
     if already_isolated E name proxy platform nets compose then Inr (False, compose)
     else Inr (True, isolated_compose name proxy platform nets compose)))))))"

section \<open>Resource limits and images\<close>

definition limits_json :: "json \<Rightarrow> json" where
  "limits_json service =
     (let limits = prop_of (prop_of (prop_of service ''deploy'') ''resources'') ''limits''
      in JObj [(''mem_limit'', prop_of service ''mem_limit''), (''cpus'', prop_of service ''cpus''),
          (''deploy'', JObj [(''resources'', JObj [(''limits'', JObj [(''memory'', prop_of limits ''memory''),
             (''cpus'', prop_of limits ''cpus'')])])])])"

definition current_limits :: "json \<Rightarrow> json" where
  "current_limits service = JObj [(''mem_limit'', prop_of service ''mem_limit''), (''cpus'', prop_of service ''cpus''),
     (''deploy'', prop_of service ''deploy'')]"

definition has_limits :: "json \<Rightarrow> bool" where
  "has_limits service \<longleftrightarrow>
     (let limits = prop_of (prop_of (prop_of service ''deploy'') ''resources'') ''limits''
      in is_str (prop_of service ''mem_limit'') \<and> is_str (prop_of service ''cpus'')
         \<and> is_str (prop_of limits ''memory'') \<and> is_str (prop_of limits ''cpus''))"

fun migrate_limits :: "js_env \<Rightarrow> obj \<Rightarrow> string list \<Rightarrow> bool \<Rightarrow> obj \<Rightarrow> compose_err + bool \<times> obj" where
  "migrate_limits E targets [] changed services = Inr (changed, services)"
| "migrate_limits E targets (n # names) changed services =
     (case oget services n of
        JObj current \<Rightarrow>
          if \<not> has_limits (oget targets n) then Inl (NoVerifiedLimits n)
          else if stringify E (current_limits (JObj current)) = stringify E (limits_json (oget targets n))
          then migrate_limits E targets names changed services
          else migrate_limits E targets names True
                 (oset n (JObj (spread current (obj_entries (limits_json (oget targets n))))) services)
      | _ \<Rightarrow> Inl (BadService n))"

definition migrate_resource_limits :: "js_env \<Rightarrow> obj \<Rightarrow> obj \<Rightarrow> compose_err + bool \<times> obj" where
  "migrate_resource_limits E targets compose =
     (case oget compose ''services'' of
        JObj services \<Rightarrow>
          let names = sort_cmp compare_utf8 (map fst targets)
          in if sort_cmp compare_utf8 (map fst services) \<noteq> names then Inl ServiceSetDiffers
             else bind_e (migrate_limits E targets names False services) (\<lambda>(changed, services').
                  Inr (changed, oset ''services'' (JObj services') compose))
      | JArr xs \<Rightarrow> if xs = [] \<and> targets = [] then Inr (False, compose) else Inl ServiceSetDiffers
      | _ \<Rightarrow> Inl NoServices)"

record env_sync =
  sy_set :: obj
  sy_remove :: "string list"
  sy_required :: "string list"

definition update_application_image ::
  "string \<Rightarrow> env_sync option \<Rightarrow> obj \<Rightarrow> compose_err + string \<times> obj" where
  "update_application_image img sync compose =
     (if \<not> has_part ''@sha256:'' img then Inl ImageNotPinned
      else (case prop_of (prop_of (oget compose ''services'') ''app'') ''image'' of
         JStr previous \<Rightarrow>
           let services = obj_entries (oget compose ''services'');
               app = oset ''image'' (JStr img) (obj_entries (oget services ''app''))
           in bind_e (case sync of
                 None \<Rightarrow> Inr app
               | Some y \<Rightarrow>
                   (case oget app ''environment'' of
                      JObj env \<Rightarrow>
                        let env' = spread (filter (\<lambda>(k, _). k \<notin> set (sy_remove y)) env) (sy_set y)
                        in (case first_such (\<lambda>k. \<not> (case oget env' k of JStr v \<Rightarrow> trim v \<noteq> [] | _ \<Rightarrow> False)) (sy_required y) of
                              Some k \<Rightarrow> Inl (MissingEnvironment k)
                            | None \<Rightarrow> Inr (oset ''environment'' (JObj env') app))
                    | _ \<Rightarrow> Inl BadEnvironment)) (\<lambda>app'.
              Inr (previous, oset ''services'' (JObj (oset ''app'' (JObj app') services)) compose))
       | _ \<Rightarrow> Inl NoApplicationImage))"

section \<open>Migrating twice\<close>

lemma wire_defined [simp]: "wire v \<noteq> JUndef"
  by (cases v) auto

lemma json_text_wire: "json_text E (wire v) = json_text E v"
proof (induction v rule: wire.induct)
  case (2 kvs)
  have ok: "\<And>x. x \<in> set (defined_entries kvs) \<Longrightarrow> json_text E (wire (snd x)) = json_text E (snd x)"
    using 2 by auto
  have d: "defined_entries (map (\<lambda>(k, v). (k, wire v)) (defined_entries kvs))
      = map (\<lambda>(k, v). (k, wire v)) (defined_entries kvs)"
    unfolding defined_entries_def by (rule filter_True) auto
  have "map (\<lambda>(k, v). json_quote k @ '':'' @ json_text E v) (map (\<lambda>(k, v). (k, wire v)) (defined_entries kvs))
    = map (\<lambda>(k, v). json_quote k @ '':'' @ json_text E v) (defined_entries kvs)"
    using ok by (auto simp: case_prod_beta)
  with d have "json_text E (JObj (map (\<lambda>(k, v). (k, wire v)) (defined_entries kvs))) = json_text E (JObj kvs)"
    by (simp only: json_text.simps)
  then show ?case by simp
qed (auto simp: json_number_def is_finite_def comp_def split: num.splits intro!: arg_cong[where f = "join_with _"])

lemma stringify_wire: "v \<noteq> JUndef \<Longrightarrow> stringify E (wire v) = stringify E v"
  by (simp add: stringify_def json_text_wire)

lemma each_strings: "each_e (\<lambda>x. case x of JStr s \<Rightarrow> Inr s | _ \<Rightarrow> Inl e) (map JStr xs) = Inr xs"
  by (induction xs) auto

lemma strings_each: "each_e (\<lambda>x. case x of JStr s \<Rightarrow> Inr s | _ \<Rightarrow> Inl e) xs = Inr ys \<Longrightarrow> xs = map JStr ys"
  by (induction xs arbitrary: ys) (auto simp: bind_e_Inr_iff split: json.splits)

definition moved :: "string list \<Rightarrow> string list" where
  "moved nets = uniq (map (\<lambda>n. if n = ''platform'' then ''ingress'' else n) nets @ [''ingress''])"

lemma set_moved: "set (moved nets) = insert ''ingress'' (set nets - {''platform''})"
  by (auto simp: moved_def)

lemma isolated_services:
  "prop_of (oget (isolated_compose name proxy platform nets compose) ''services'') n =
     (if n = ''proxy'' then wire (JObj proxy)
      else if n = ''app'' then JObj (oset ''networks'' (JArr (map JStr (moved nets)))
        (obj_entries (prop_of (JObj (obj_entries (oget compose ''services''))) ''app'')))
      else prop_of (JObj (obj_entries (oget compose ''services''))) n)"
  by (simp add: isolated_compose_def Let_def oget_oset prop_of_def moved_def)

lemma isolated_networks:
  "prop_of (oget (isolated_compose name proxy platform nets compose) ''networks'') n =
     (if n = ''platform'' then wire platform else if n = ''ingress'' then ingress_json name
      else prop_of (JObj (obj_entries (oget compose ''networks''))) n)"
  by (simp add: isolated_compose_def Let_def oget_oset prop_of_def)

lemma isolated_app: "app_networks (isolated_compose name proxy platform nets compose) = Inr (moved nets)"
  by (simp add: app_networks_def isolated_services) (simp add: prop_of_def each_strings)

lemma isolated_already:
  "is_obj platform \<Longrightarrow>
    already_isolated E name proxy platform (moved nets) (isolated_compose name proxy platform nets compose)"
  by (cases platform)
    (auto simp: already_isolated_def set_moved isolated_services isolated_networks stringify_wire simp del: wire.simps)

lemma legacy_oset: "p \<in> set (oset k v d) \<Longrightarrow> legacy_service p \<Longrightarrow> k \<in> {''app'', ''proxy''} \<Longrightarrow> p \<in> set d"
  by (cases p) (auto simp: legacy_service_def dest!: oset_in)

lemma isolated_legacy:
  assumes "first_such legacy_service (obj_entries (oget compose ''services'')) = None"
  shows "first_such legacy_service (obj_entries (oget (isolated_compose name proxy platform nets compose) ''services'')) = None"
proof -
  obtain app where "obj_entries (oget (isolated_compose name proxy platform nets compose) ''services'')
      = oset ''proxy'' (wire (JObj proxy)) (oset ''app'' app (obj_entries (oget compose ''services'')))"
    by (simp add: isolated_compose_def Let_def oget_oset obj_entries_def)
  then show ?thesis using assms by (auto simp: first_such_None simp del: wire.simps dest: legacy_oset)
qed

lemma app_services: "app_networks compose = Inr nets \<Longrightarrow> \<exists>d. oget compose ''services'' = JObj d"
  by (auto simp: app_networks_def prop_of_def split: json.splits)

text \<open>C34: Moving a deployment to its own ingress network is idempotent: the file that was written takes
  the application off the shared platform network and onto the ingress one, keeps every other
  service, and migrating it again changes nothing.\<close>

theorem ingress_migration_idempotent:
  assumes "migrate_ingress_network E name proxy platform compose = Inr (changed, result)"
  shows "migrate_ingress_network E name proxy platform result = Inr (False, result)
    \<and> (\<exists>nets. app_networks result = Inr nets \<and> ''ingress'' \<in> set nets \<and> ''platform'' \<notin> set nets)
    \<and> (\<forall>n. n \<noteq> ''app'' \<and> n \<noteq> ''proxy'' \<longrightarrow>
      prop_of (oget result ''services'') n = prop_of (oget compose ''services'') n)"
proof -
  obtain nets where nets: "app_networks compose = Inr nets" and sub: "set nets \<subseteq> {''private'', ''platform'', ''ingress''}"
    and ok: "ingress_name_pattern name" "arr_has (oget proxy ''networks'') ''ingress''"
      "arr_has (oget proxy ''networks'') ''platform''" "is_obj platform"
    and legacy: "first_such legacy_service (obj_entries (oget compose ''services'')) = None"
    and res: "(if already_isolated E name proxy platform nets compose then (False, compose)
      else (True, isolated_compose name proxy platform nets compose)) = (changed, result)"
    using assms
    by (auto simp: migrate_ingress_network_def bind_e_Inr_iff check_that_def split: if_splits option.splits)
  show ?thesis
  proof (cases "already_isolated E name proxy platform nets compose")
    case True
    then have "result = compose" "''ingress'' \<in> set nets" "''platform'' \<notin> set nets"
      using res by (auto simp: already_isolated_def)
    then show ?thesis using True nets sub ok legacy
      by (simp add: migrate_ingress_network_def check_that_def)
  next
    case False
    then have r: "result = isolated_compose name proxy platform nets compose" using res by simp
    have "set (moved nets) \<subseteq> {''private'', ''platform'', ''ingress''}" using sub by (auto simp: set_moved)
    moreover have "prop_of (oget result ''services'') n = prop_of (oget compose ''services'') n"
      if "n \<noteq> ''app''" "n \<noteq> ''proxy''" for n
      using that app_services[OF nets] by (auto simp: r isolated_services obj_entries_def)
    ultimately show ?thesis using ok isolated_legacy[OF legacy]
      by (simp add: migrate_ingress_network_def check_that_def r isolated_app isolated_already set_moved)
  qed
qed

definition sample_compose :: obj where
  "sample_compose = [(''services'', JObj [
       (''app'', JObj [(''image'', JStr ''a''), (''networks'', JArr [JStr ''private'', JStr ''platform''])]),
       (''db'', JObj [(''networks'', JArr [JStr ''private''])])]),
     (''networks'', JObj [(''platform'', JObj [(''external'', JBool True)])])]"

definition sample_proxy :: obj where
  "sample_proxy = [(''image'', JStr ''p''), (''networks'', JArr [JStr ''ingress'', JStr ''platform''])]"

lemma sample_migration:
  "migrate_ingress_network sample_env ''mos-0123456789ab-ingress'' sample_proxy (JObj []) sample_compose =
     Inr (True, isolated_compose ''mos-0123456789ab-ingress'' sample_proxy (JObj []) [''private'', ''platform''] sample_compose)"
proof -
  have "ingress_name_pattern ''mos-0123456789ab-ingress''" by code_simp
  moreover have "arr_has (oget sample_proxy ''networks'') ''ingress'' \<and> arr_has (oget sample_proxy ''networks'') ''platform''"
    by (simp add: sample_proxy_def arr_has_def)
  moreover have "app_networks sample_compose = Inr [''private'', ''platform'']"
    by (simp add: app_networks_def sample_compose_def prop_of_def)
  moreover have "first_such legacy_service (obj_entries (oget sample_compose ''services'')) = None"
    by (simp add: sample_compose_def obj_entries_def first_such_def legacy_service_def arr_has_def prop_of_def)
  ultimately show ?thesis
    by (simp add: migrate_ingress_network_def check_that_def already_isolated_def)
qed

theorem ingress_migration_idempotent_witness:
  "\<exists>r. migrate_ingress_network sample_env ''mos-0123456789ab-ingress'' sample_proxy (JObj []) sample_compose = Inr (True, r)
     \<and> migrate_ingress_network sample_env ''mos-0123456789ab-ingress'' sample_proxy (JObj []) r = Inr (False, r)"
  using ingress_migration_idempotent[OF sample_migration] sample_migration by blast

end
