(* ===== verification/Gateway.thy ===== *)
theory Gateway
  imports Hostnames Manifest_Properties
begin

text \<open>
  The gateway's Caddy configuration (\<open>server/gateway-reconciler.ts\<close>): \<open>renderGatewayCaddyfile\<close> and
  its checks of hostnames and worker addresses. Fetching the routes and loading the file is not
  modelled; the polling loop around it only calls this function.
\<close>

datatype gateway_err = UnsafeHost string | UnsafeAddress string | NotPrivate string | DuplicateRoute string

definition caddy_host :: "string \<Rightarrow> gateway_err + string" where
  "caddy_host h = (if hostname_pattern (lower h) then Inr (lower h) else Inl (UnsafeHost h))"

definition octet_number :: "num \<Rightarrow> bool" where
  "octet_number n \<longleftrightarrow> is_integral n \<and> num_le (Fin 0) n \<and> num_le n (Fin 255)"

definition private_address :: "js_env \<Rightarrow> string \<Rightarrow> gateway_err + string" where
  "private_address E address =
     (let octs = map (text_num E) (split_on CHR ''.'' address)
      in if length octs \<noteq> 4 \<or> \<not> list_all octet_number octs then Inl (UnsafeAddress address)
         else if \<not> (octs ! 0 = Fin 10 \<or> (octs ! 0 = Fin 172 \<and> num_le (Fin 16) (octs ! 1) \<and> num_le (octs ! 1) (Fin 31))
                  \<or> (octs ! 0 = Fin 192 \<and> octs ! 1 = Fin 168)) then Inl (NotPrivate address)
         else Inr address)"

record gateway_options =
  go_domain :: string
  go_ipv4 :: string
  go_upstream :: string
  go_hosts :: "string list"

definition lines :: "string list \<Rightarrow> string" where
  "lines ls = join_with [CHR 0x0A] ls"

definition proxy_block :: "string \<Rightarrow> string \<Rightarrow> string" where
  "proxy_block site upstream = lines [site @ '' {'', ''  encode zstd gzip'', ''  reverse_proxy '' @ upstream, ''}'']"

definition route_block :: "string \<Rightarrow> string \<Rightarrow> string \<Rightarrow> string" where
  "route_block site worker upstream_host =
     lines [site @ '' {'', ''  encode zstd gzip'', ''  reverse_proxy http://'' @ worker @ '':8080 {'',
       ''    header_up Host '' @ upstream_host, ''  }'', ''}'']"

text \<open>The two loops; \<open>seen\<close> is the set of names that already have a block.\<close>

fun custom_blocks :: "gateway_options \<Rightarrow> string list \<Rightarrow> string list \<Rightarrow> gateway_err + string list \<times> string list" where
  "custom_blocks opts seen [] = Inr ([], seen)"
| "custom_blocks opts seen (h # hs) =
     bind_e (caddy_host h) (\<lambda>name.
     if name = go_domain opts \<or> name \<in> set seen then Inl (DuplicateRoute name)
     else bind_e (custom_blocks opts (name # seen) hs) (\<lambda>(bs, seen'). Inr (proxy_block name (go_upstream opts) # bs, seen')))"

fun route_blocks :: "js_env \<Rightarrow> string list \<Rightarrow> gateway_route list \<Rightarrow> gateway_err + string list" where
  "route_blocks E seen [] = Inr []"
| "route_blocks E seen (r # rs) =
     bind_e (caddy_host (gr_hostname r)) (\<lambda>name.
     if name \<in> set seen then Inl (DuplicateRoute name)
     else bind_e (private_address E (gr_worker r)) (\<lambda>worker.
          bind_e (caddy_host (gr_upstream r)) (\<lambda>up.
          bind_e (route_blocks E (name # seen) rs) (\<lambda>bs. Inr (route_block name worker up # bs)))))"

definition render_gateway_caddyfile :: "js_env \<Rightarrow> gateway_route list \<Rightarrow> gateway_options \<Rightarrow> gateway_err + string" where
  "render_gateway_caddyfile E routes opts =
     bind_e (if go_domain opts = [] then Inr []
             else bind_e (caddy_host (go_domain opts)) (\<lambda>d. Inr [proxy_block d (go_upstream opts)])) (\<lambda>control.
     bind_e (custom_blocks opts [] (sort_cmp compare_utf8 (go_hosts opts))) (\<lambda>(custom, seen).
     bind_e (route_blocks E seen (sort_cmp (\<lambda>a b. collate E (gr_hostname a) (gr_hostname b)) routes)) (\<lambda>routed.
     Inr (join_with [CHR 0x0A, CHR 0x0A]
           (lines [''{'', ''  admin 127.0.0.1:2019'', ''}'']
            # control @ (if go_ipv4 opts = [] then [] else [proxy_block (''http://'' @ go_ipv4 opts) (go_upstream opts)])
            @ custom @ routed) @ [CHR 0x0A]))))"

section \<open>Unique names, private upstreams\<close>

definition private_octets :: "js_env \<Rightarrow> string \<Rightarrow> bool" where
  "private_octets E address \<longleftrightarrow> (\<exists>a b c d :: int. map (text_num E) (split_on CHR ''.'' address) = map num_of_int [a, b, c, d]
     \<and> {a, b, c, d} \<subseteq> {0..255} \<and> (a = 10 \<or> (a = 172 \<and> 16 \<le> b \<and> b \<le> 31) \<or> (a = 192 \<and> b = 168)))"

lemma octet_numberD: "octet_number n \<Longrightarrow> \<exists>i. n = num_of_int i \<and> 0 \<le> i \<and> i \<le> 255"
proof -
  assume o: "octet_number n"
  then obtain i where i: "n = num_of_int i"
    by (cases n) (auto simp: octet_number_def is_integral_def num_of_int_def)
  then have "0 \<le> i" "i \<le> 255"
    using o num_le_int[of 0 i] num_le_int[of i 255] by (simp_all add: octet_number_def num_of_int_def)
  with i show ?thesis by blast
qed

lemma private_addressD:
  assumes "private_address E address = Inr x"
  shows "x = address \<and> private_octets E address"
proof -
  let ?o = "map (text_num E) (split_on CHR ''.'' address)"
  have l: "length ?o = 4" "list_all octet_number ?o" and x: "x = address"
    and p: "?o ! 0 = Fin 10 \<or> (?o ! 0 = Fin 172 \<and> num_le (Fin 16) (?o ! 1) \<and> num_le (?o ! 1) (Fin 31))
      \<or> (?o ! 0 = Fin 192 \<and> ?o ! 1 = Fin 168)"
    using assms unfolding private_address_def Let_def by (auto split: if_splits)
  from l(1) obtain u v w z where o: "?o = [u, v, w, z]" by (auto simp: numeral_eq_Suc length_Suc_conv)
  with l(2) obtain a b c d where i: "u = num_of_int a" "v = num_of_int b" "w = num_of_int c" "z = num_of_int d"
    "{a, b, c, d} \<subseteq> {0..255}" by (auto dest!: octet_numberD)
  have "Fin 10 = num_of_int 10" "Fin 172 = num_of_int 172" "Fin 192 = num_of_int 192" "Fin 168 = num_of_int 168"
    "Fin 16 = num_of_int 16" "Fin 31 = num_of_int 31" by (simp_all add: num_of_int_def)
  with p i(1,2) have "a = 10 \<or> (a = 172 \<and> 16 \<le> b \<and> b \<le> 31) \<or> (a = 192 \<and> b = 168)" by (simp add: o)
  then show ?thesis using x i o by (auto simp: private_octets_def)
qed

lemma private_address_Inr: "private_address E address = Inr x \<longleftrightarrow> x = address \<and> private_octets E address"
proof
  assume "x = address \<and> private_octets E address"
  then obtain a b c d :: int where o: "map (text_num E) (split_on CHR ''.'' address) = map num_of_int [a, b, c, d]"
    and r: "{a, b, c, d} \<subseteq> {0..255}" "a = 10 \<or> (a = 172 \<and> 16 \<le> b \<and> b \<le> 31) \<or> (a = 192 \<and> b = 168)"
    and x: "x = address" by (auto simp: private_octets_def)
  have n: "octet_number (num_of_int i)" if "0 \<le> i" "i \<le> 255" for i
    using that num_le_int[of 0 i] num_le_int[of i 255]
    by (simp add: octet_number_def is_integral_def) (simp add: num_of_int_def)
  have "Fin 10 = num_of_int 10" "Fin 172 = num_of_int 172" "Fin 192 = num_of_int 192" "Fin 168 = num_of_int 168"
    "Fin 16 = num_of_int 16" "Fin 31 = num_of_int 31" by (simp_all add: num_of_int_def)
  with r x show "private_address E address = Inr x" unfolding private_address_def Let_def o by (auto simp: n)
qed (use private_addressD in blast)

lemma caddy_host_Inr: "caddy_host h = Inr n \<longleftrightarrow> n = lower h \<and> hostname_pattern n"
  by (auto simp: caddy_host_def)

lemma custom_blocks_Inr:
  "custom_blocks opts seen hs = Inr (bs, seen') \<longleftrightarrow>
     bs = map (\<lambda>h. proxy_block (lower h) (go_upstream opts)) hs \<and> seen' = rev (map lower hs) @ seen
     \<and> distinct (map lower hs) \<and> set (map lower hs) \<inter> set seen = {}
     \<and> (\<forall>h \<in> set hs. hostname_pattern (lower h) \<and> lower h \<noteq> go_domain opts)"
  by (induction hs arbitrary: seen bs) (auto simp: bind_e_Inr_iff caddy_host_Inr)

lemma route_blocks_Inr:
  "route_blocks E seen rs = Inr bs \<longleftrightarrow>
     bs = map (\<lambda>r. route_block (lower (gr_hostname r)) (gr_worker r) (lower (gr_upstream r))) rs
     \<and> distinct (map (lower \<circ> gr_hostname) rs) \<and> set (map (lower \<circ> gr_hostname) rs) \<inter> set seen = {}
     \<and> (\<forall>r \<in> set rs. private_octets E (gr_worker r) \<and> hostname_pattern (lower (gr_hostname r)) \<and> hostname_pattern (lower (gr_upstream r)))"
  by (induction rs arbitrary: seen bs) (auto simp: bind_e_Inr_iff caddy_host_Inr private_address_Inr)

text \<open>C37: Rendering the gateway configuration succeeds exactly when the control-plane name, customer
  hosts, routes and upstream hosts are hostnames, customer hosts and routes have pairwise different names
  once lowered, no customer host has the control-plane name as configured, and the dotted parts of every
  worker address read as four numbers of a private range. The text is then the header, the control plane's
  blocks, one block per customer host in order and one per route in order, each to its own upstream. (A
  route is not compared with the control-plane name.)\<close>

theorem gateway_exact:
  "render_gateway_caddyfile E routes opts = Inr text \<longleftrightarrow>
     (go_domain opts = [] \<or> hostname_pattern (lower (go_domain opts)))
     \<and> (\<forall>h \<in> set (go_hosts opts). hostname_pattern (lower h) \<and> lower h \<noteq> go_domain opts)
     \<and> (\<forall>r \<in> set routes. hostname_pattern (lower (gr_hostname r)) \<and> hostname_pattern (lower (gr_upstream r))
          \<and> private_octets E (gr_worker r))
     \<and> distinct (map lower (go_hosts opts) @ map (lower \<circ> gr_hostname) routes)
     \<and> text = join_with [CHR 0x0A, CHR 0x0A]
          (lines [''{'', ''  admin 127.0.0.1:2019'', ''}'']
           # (if go_domain opts = [] then [] else [proxy_block (lower (go_domain opts)) (go_upstream opts)])
           @ (if go_ipv4 opts = [] then [] else [proxy_block (''http://'' @ go_ipv4 opts) (go_upstream opts)])
           @ map (\<lambda>h. proxy_block (lower h) (go_upstream opts)) (sort_cmp compare_utf8 (go_hosts opts))
           @ map (\<lambda>r. route_block (lower (gr_hostname r)) (gr_worker r) (lower (gr_upstream r)))
               (sort_cmp (\<lambda>a b. collate E (gr_hostname a) (gr_hostname b)) routes)) @ [CHR 0x0A]"
proof -
  have d: "distinct (map f (sort_cmp q xs)) \<longleftrightarrow> distinct (map f xs)" for f :: "'b \<Rightarrow> string" and q xs
    by (rule mset_eq_imp_distinct_iff) simp
  show ?thesis
    unfolding render_gateway_caddyfile_def
    by (cases "go_domain opts = []")
      (auto simp: bind_e_Inr_iff caddy_host_Inr custom_blocks_Inr route_blocks_Inr d)
qed

section \<open>Examples\<close>

definition digits_env :: js_env where
  "digits_env = sample_env \<lparr>text_num := (\<lambda>s. num_of_int (int (digits_val s)))\<rparr>"

definition sample_route :: "string \<Rightarrow> string \<Rightarrow> gateway_route" where
  "sample_route host worker = \<lparr>gr_hostname = host, gr_upstream = ''a.up'', gr_ownership = None, gr_worker = worker,
     gr_node = ''w'', gr_instance = None, gr_app = None\<rparr>"

definition sample_gateway :: gateway_options where
  "sample_gateway = \<lparr>go_domain = ''cloud.test'', go_ipv4 = [], go_upstream = ''app:80'', go_hosts = [''shop.test'']\<rparr>"

lemma names_valid:
  "caddy_host ''cloud.test'' = Inr ''cloud.test''" "caddy_host ''shop.test'' = Inr ''shop.test''"
  "caddy_host ''a.up'' = Inr ''a.up''" "caddy_host ''Blog.Test'' = Inr ''blog.test''"
  by code_simp+

lemma digits_private:
  assumes "list_all (\<lambda>w. digits_val w \<le> 255) (split_on CHR ''.'' a)" "length (split_on CHR ''.'' a) = 4"
    "digits_val (split_on CHR ''.'' a ! 0) = 10"
  shows "private_address digits_env a = Inr a"
proof -
  have "octet_number (num_of_int (int n))" if "n \<le> 255" for n
    using that num_le_int[of 0 "int n"] num_le_int[of "int n" 255]
    by (simp add: octet_number_def is_integral_def) (simp add: num_of_int_def)
  then show ?thesis using assms
    by (simp add: private_address_def Let_def digits_env_def list_all_iff) (simp add: num_of_int_def)
qed

theorem gateway_exact_witness:
  "\<exists>out. render_gateway_caddyfile digits_env [sample_route ''Blog.Test'' ''10.0.0.7''] sample_gateway = Inr out
     \<and> private_octets digits_env ''10.0.0.7''"
proof -
  have "private_address digits_env ''10.0.0.7'' = Inr ''10.0.0.7''" by (rule digits_private) code_simp+
  then obtain out where t: "render_gateway_caddyfile digits_env [sample_route ''Blog.Test'' ''10.0.0.7''] sample_gateway = Inr out"
    by (simp add: render_gateway_caddyfile_def sample_gateway_def sample_route_def sort_cmp_def names_valid)
  with gateway_exact[of digits_env "[sample_route ''Blog.Test'' ''10.0.0.7'']" sample_gateway out]
  show ?thesis by (auto simp: sample_route_def)
qed

text \<open>A route may take the name of the control plane, and an empty octet counts as zero.\<close>

lemma control_plane_name_taken:
  "\<exists>out. render_gateway_caddyfile digits_env [sample_route ''cloud.test'' ''10..0.7''] sample_gateway = Inr out"
proof -
  have "private_address digits_env ''10..0.7'' = Inr ''10..0.7''" by (rule digits_private) code_simp+
  then show ?thesis
    by (simp add: render_gateway_caddyfile_def sample_gateway_def sample_route_def sort_cmp_def names_valid)
qed

end
