(* ===== verification/Destinations.thy ===== *)
theory Destinations
  imports Sample_Host "HOL-Library.Word"
begin

unbundle bit_operations_syntax

text \<open>
  Which outbound HTTPS destinations the server may call (\<open>server/public-destination.ts\<close>): IPv4 and
  IPv6 address classification at the width of the code's integers, and the check of a URL against the
  answers of DNS. The URL parser and the resolver of the host are parameters.
\<close>

section \<open>IPv4\<close>

definition octet_text :: "string \<Rightarrow> bool" where
  "octet_text s \<longleftrightarrow> 1 \<le> length s \<and> length s \<le> 3 \<and> list_all is_digit s"

definition ipv4_number :: "string \<Rightarrow> 32 word option" where
  "ipv4_number address =
     (let parts = split_on CHR ''.'' address
      in if length parts \<noteq> 4 \<or> \<not> list_all (\<lambda>p. octet_text p \<and> digits_val p \<le> 255) parts then None
         else Some (foldl (\<lambda>v p. v * 256 + word_of_nat (digits_val p)) 0 parts))"

definition ipv4_in_cidr :: "32 word \<Rightarrow> 32 word \<Rightarrow> nat \<Rightarrow> bool" where
  "ipv4_in_cidr v base prefix \<longleftrightarrow>
     (let mask = (if prefix = 0 then 0 else push_bit ((32 - prefix) mod 32) (- 1))
      in v AND mask = base AND mask)"

definition blocked_ranges :: "(string \<times> nat) list" where
  "blocked_ranges =
     [(''0.0.0.0'', 8), (''10.0.0.0'', 8), (''100.64.0.0'', 10), (''127.0.0.0'', 8), (''169.254.0.0'', 16),
      (''172.16.0.0'', 12), (''192.0.0.0'', 24), (''192.0.2.0'', 24), (''192.88.99.0'', 24), (''192.168.0.0'', 16),
      (''198.18.0.0'', 15), (''198.51.100.0'', 24), (''203.0.113.0'', 24), (''224.0.0.0'', 4), (''240.0.0.0'', 4)]"

definition is_global_public_ipv4 :: "string \<Rightarrow> bool" where
  "is_global_public_ipv4 address =
     (case ipv4_number address of
        None \<Rightarrow> False
      | Some v \<Rightarrow> \<not> list_ex (\<lambda>(base, prefix). ipv4_in_cidr v (the (ipv4_number base)) prefix) blocked_ranges)"

section \<open>IPv6\<close>

text \<open>\<open>s.split("::")\<close>\<close>

fun split_colons :: "string \<Rightarrow> string list" where
  "split_colons [] = [[]]"
| "split_colons [c] = [[c]]"
| "split_colons (c # d # s) =
     (if c = CHR '':'' \<and> d = CHR '':'' then [] # split_colons s
      else (case split_colons (d # s) of [] \<Rightarrow> [[c]] | w # ws \<Rightarrow> (c # w) # ws))"

definition hex_val :: "char \<Rightarrow> nat" where
  "hex_val c = (if is_digit c then code c - 48 else code c - 87)"

definition parse_hex :: "string \<Rightarrow> nat" where
  "parse_hex s = foldl (\<lambda>n c. 16 * n + hex_val c) 0 s"

definition ipv6_word :: "string \<Rightarrow> nat option" where
  "ipv6_word w = (if 1 \<le> length w \<and> length w \<le> 4 \<and> list_all is_lower_hex w then Some (parse_hex w) else None)"

fun all_some :: "'a option list \<Rightarrow> 'a list option" where
  "all_some [] = Some []"
| "all_some (x # xs) = (case (x, all_some xs) of (Some y, Some ys) \<Rightarrow> Some (y # ys) | _ \<Rightarrow> None)"

definition ipv6_words :: "string \<Rightarrow> nat list option" where
  "ipv6_words address =
     (if CHR ''%'' \<in> set address \<or> CHR ''.'' \<in> set address then None
      else let halves = split_colons (lower address);
               pieces = (\<lambda>h. if h = [] then [] else split_on CHR '':'' h);
               left = pieces (halves ! 0);
               right = (if length halves = 2 then pieces (halves ! 1) else [])
           in if 2 < length halves then None
              else (case (all_some (map ipv6_word left), all_some (map ipv6_word right)) of
                 (Some l, Some r) \<Rightarrow>
                   let omitted = 8 - int (length left) - int (length right)
                   in if (length halves = 1 \<and> omitted \<noteq> 0) \<or> (length halves = 2 \<and> omitted < 1) then None
                      else Some (l @ replicate (nat (max 0 omitted)) 0 @ r)
               | _ \<Rightarrow> None))"

definition is_global_public_ipv6 :: "string \<Rightarrow> bool" where
  "is_global_public_ipv6 address =
     (case ipv6_words address of
        None \<Rightarrow> False
      | Some ws \<Rightarrow>
          if length ws \<noteq> 8 \<or> ws ! 0 < 0x2000 \<or> ws ! 0 > 0x3fff then False
          else if ws ! 0 = 0x2001 \<and> (ws ! 1 = 0 \<or> ws ! 1 = 2 \<or> ws ! 1 = 0x0db8) then False
          else if ws ! 0 = 0x2001 \<and> ((ws ! 1) AND 0xfff0 = 0x0010 \<or> (ws ! 1) AND 0xfff0 = 0x0020) then False
          else if ws ! 0 = 0x2002 \<or> (ws ! 0 = 0x3fff \<and> (ws ! 1) AND 0xf000 = 0) then False
          else True)"

section \<open>Destinations\<close>

record url_parts =
  ur_protocol :: string
  ur_username :: string
  ur_password :: string
  ur_hostname :: string
  ur_port :: string
  ur_text :: string

datatype dns_answer = Addresses "string list" | DnsError "string option" | DnsTimeout

definition resolve_address_family :: "dns_answer \<Rightarrow> string list option" where
  "resolve_address_family a =
     (case a of
        Addresses xs \<Rightarrow> Some xs
      | DnsError c \<Rightarrow> if c = Some ''ENODATA'' \<or> c = Some ''ENOTFOUND'' then Some [] else None
      | DnsTimeout \<Rightarrow> None)"

text \<open>\<open>/^\d+(?:\.\d+){3}$/\<close>\<close>

definition dotted_quad :: "string \<Rightarrow> bool" where
  "dotted_quad s \<longleftrightarrow> (let parts = split_on CHR ''.'' s in length parts = 4 \<and> list_all (\<lambda>p. p \<noteq> [] \<and> list_all is_digit p) parts)"

definition refused_name :: "string \<Rightarrow> bool" where
  "refused_name h \<longleftrightarrow> h = [] \<or> starts_with h ''['' \<or> dotted_quad h \<or> h = ''localhost'' \<or> ends_with h ''.localhost''
     \<or> ends_with h ''.local'' \<or> ends_with h ''.internal'' \<or> ends_with h ''.home.arpa''"

definition resolve_public_https_destination ::
  "js_env \<Rightarrow> (string \<Rightarrow> url_parts option) \<Rightarrow> (string \<Rightarrow> dns_answer) \<Rightarrow> (string \<Rightarrow> dns_answer) \<Rightarrow> json \<Rightarrow> string option" where
  "resolve_public_https_destination E parse_url resolve4 resolve6 value =
     (case parse_url (to_str E value) of
        None \<Rightarrow> None
      | Some u \<Rightarrow>
          let hostname = drop_dot (lower (ur_hostname u))
          in if ur_protocol u \<noteq> ''https:'' \<or> ur_username u \<noteq> [] \<or> ur_password u \<noteq> []
                \<or> (ur_port u \<noteq> [] \<and> ur_port u \<noteq> ''443'') \<or> refused_name hostname then None
             else (case (resolve_address_family (resolve4 hostname), resolve_address_family (resolve6 hostname)) of
                (Some ipv4, Some ipv6) \<Rightarrow>
                  if (ipv4 = [] \<and> ipv6 = []) \<or> \<not> list_all is_global_public_ipv4 ipv4 \<or> \<not> list_all is_global_public_ipv6 ipv6
                  then None else Some (ur_text u)
              | _ \<Rightarrow> None))"

section \<open>Ranges as octets\<close>

text \<open>The special-purpose IPv4 ranges, read off the octets.\<close>

fun special_octets :: "nat list \<Rightarrow> bool" where
  "special_octets [a, b, c, d] \<longleftrightarrow>
     a \<in> {0, 10, 127} \<or> 224 \<le> a \<or> (a = 100 \<and> 64 \<le> b \<and> b < 128) \<or> (a = 169 \<and> b = 254)
     \<or> (a = 172 \<and> 16 \<le> b \<and> b < 32) \<or> (a = 192 \<and> (b = 168 \<or> (b = 0 \<and> c \<in> {0, 2}) \<or> (b = 88 \<and> c = 99)))
     \<or> (a = 198 \<and> (b \<in> {18, 19} \<or> (b = 51 \<and> c = 100))) \<or> (a = 203 \<and> b = 0 \<and> c = 113)"
| "special_octets _ \<longleftrightarrow> False"

definition octets :: "string \<Rightarrow> nat list option" where
  "octets address = (let parts = split_on CHR ''.'' address
     in if length parts = 4 \<and> list_all (\<lambda>p. octet_text p \<and> digits_val p \<le> 255) parts then Some (map digits_val parts) else None)"

lemma and_high_bits:
  fixes v w :: "32 word"
  assumes "n < 32"
  shows "v AND NOT (mask n) = w AND NOT (mask n) \<longleftrightarrow> unat v div 2 ^ n = unat w div 2 ^ n"
proof -
  have "v AND NOT (mask n) = w AND NOT (mask n) \<longleftrightarrow> drop_bit n v = drop_bit n w"
  proof
    assume a: "v AND NOT (mask n) = w AND NOT (mask n)"
    show "drop_bit n v = drop_bit n w"
    proof (rule bit_word_eqI)
      fix k assume "k < LENGTH(32)"
      have "bit (v AND NOT (mask n)) (n + k) = bit (w AND NOT (mask n)) (n + k)" using a by simp
      then show "bit (drop_bit n v) k = bit (drop_bit n w) k"
        using bit_imp_le_length[of v "n + k"] bit_imp_le_length[of w "n + k"]
        by (auto simp: bit_and_iff bit_not_iff bit_mask_iff bit_drop_bit_eq)
    qed
  next
    assume a: "drop_bit n v = drop_bit n w"
    show "v AND NOT (mask n) = w AND NOT (mask n)"
    proof (rule bit_word_eqI)
      fix k assume "k < LENGTH(32)"
      have "bit (drop_bit n v) (k - n) = bit (drop_bit n w) (k - n)" using a by simp
      then show "bit (v AND NOT (mask n)) k = bit (w AND NOT (mask n)) k"
        by (auto simp: bit_and_iff bit_not_iff bit_mask_iff bit_drop_bit_eq)
    qed
  qed
  also have "\<dots> \<longleftrightarrow> unat v div 2 ^ n = unat w div 2 ^ n"
    by (metis drop_bit_eq_div unat_drop_bit_eq word_unat_eq_iff)
  finally show ?thesis .
qed

lemma in_cidr_div: "1 \<le> p \<Longrightarrow> p \<le> 32 \<Longrightarrow>
    ipv4_in_cidr v base p \<longleftrightarrow> unat v div 2 ^ (32 - p) = unat base div 2 ^ (32 - p)"
  by (simp add: ipv4_in_cidr_def Let_def and_high_bits)

lemma four_parts: "length xs = 4 \<Longrightarrow> \<exists>a b c d. xs = [a, b, c, d]"
  by (auto simp: numeral_eq_Suc length_Suc_conv)

lemma ipv4_number_octets:
  "ipv4_number s = map_option (\<lambda>os. word_of_nat (foldl (\<lambda>v p. v * 256 + p) 0 os)) (octets s)"
proof (cases "length (split_on CHR ''.'' s) = 4")
  case True
  then show ?thesis using four_parts[OF True]
    by (auto simp: ipv4_number_def octets_def Let_def)
qed (simp add: ipv4_number_def octets_def Let_def)

lemma octets_bound: "octets s = Some os \<Longrightarrow> \<exists>a b c d. os = [a, b, c, d] \<and> a \<le> 255 \<and> b \<le> 255 \<and> c \<le> 255 \<and> d \<le> 255"
  by (auto simp: octets_def Let_def dest!: four_parts split: if_splits)

lemma unat_octets:
  assumes "a \<le> 255" "b \<le> 255" "c \<le> 255" "d \<le> 255"
  shows "unat (word_of_nat (((a * 256 + b) * 256 + c) * 256 + d) :: 32 word) = ((a * 256 + b) * 256 + c) * 256 + d"
  by (simp only: unat_of_nat) (use assms in \<open>simp add: mod_less\<close>)

lemma range_prefixes:
  fixes a b c d :: nat
  assumes "a \<le> 255" "b \<le> 255" "c \<le> 255" "d \<le> 255" and n: "n = ((a * 256 + b) * 256 + c) * 256 + d"
  shows "n div 2 ^ 24 = a" "n div 2 ^ 16 = a * 256 + b" "n div 2 ^ 8 = (a * 256 + b) * 256 + c"
    "n div 2 ^ 28 = a div 16" "n div 2 ^ 22 = a * 4 + b div 64" "n div 2 ^ 20 = a * 16 + b div 16"
    "n div 2 ^ 17 = a * 128 + b div 2"
proof -
  show p8: "n div 2 ^ 8 = (a * 256 + b) * 256 + c" using assms by simp
  show p16: "n div 2 ^ 16 = a * 256 + b"
    using p8 assms(3) div_mult2_eq[of n "2 ^ 8" "2 ^ 8"] by simp
  have up: "n div 2 ^ (16 + k) = (a * 256 + b) div 2 ^ k" for k
    using p16 by (simp add: power_add div_mult2_eq)
  show p24: "n div 2 ^ 24 = a" using up[of 8] assms(2) by simp
  show "n div 2 ^ 28 = a div 16" using p24 div_mult2_eq[of n "2 ^ 24" "2 ^ 4"] by simp
  have m: "(a * (k * q) + b) div q = a * k + b div q" if "0 < q" for k q :: nat
    using that div_mult_self1[of q b "a * k"] by (simp add: algebra_simps)
  show "n div 2 ^ 22 = a * 4 + b div 64" using up[of 6] m[of 64 4] by simp
  show "n div 2 ^ 20 = a * 16 + b div 16" using up[of 4] m[of 16 16] by simp
  show "n div 2 ^ 17 = a * 128 + b div 2" using up[of 1] m[of 2 128] by simp
qed

lemma blocked_octets:
  "octets ''0.0.0.0'' = Some [0, 0, 0, 0]" "octets ''10.0.0.0'' = Some [10, 0, 0, 0]"
  "octets ''100.64.0.0'' = Some [100, 64, 0, 0]" "octets ''127.0.0.0'' = Some [127, 0, 0, 0]"
  "octets ''169.254.0.0'' = Some [169, 254, 0, 0]" "octets ''172.16.0.0'' = Some [172, 16, 0, 0]"
  "octets ''192.0.0.0'' = Some [192, 0, 0, 0]" "octets ''192.0.2.0'' = Some [192, 0, 2, 0]"
  "octets ''192.88.99.0'' = Some [192, 88, 99, 0]" "octets ''192.168.0.0'' = Some [192, 168, 0, 0]"
  "octets ''198.18.0.0'' = Some [198, 18, 0, 0]" "octets ''198.51.100.0'' = Some [198, 51, 100, 0]"
  "octets ''203.0.113.0'' = Some [203, 0, 113, 0]" "octets ''224.0.0.0'' = Some [224, 0, 0, 0]"
  "octets ''240.0.0.0'' = Some [240, 0, 0, 0]"
  by code_simp+

lemma in_cidr_octets:
  assumes "octets base = Some [e, f, g, h]" "1 \<le> p" "p \<le> 32"
    and "a \<le> 255" "b \<le> 255" "c \<le> 255" "d \<le> 255"
  shows "ipv4_in_cidr (word_of_nat (((a * 256 + b) * 256 + c) * 256 + d)) (the (ipv4_number base)) p \<longleftrightarrow>
     (((a * 256 + b) * 256 + c) * 256 + d) div 2 ^ (32 - p) = (((e * 256 + f) * 256 + g) * 256 + h) div 2 ^ (32 - p)"
proof -
  have "e \<le> 255" "f \<le> 255" "g \<le> 255" "h \<le> 255" using octets_bound[OF assms(1)] by auto
  note u = unat_octets[OF this] unat_octets[OF assms(4-7)]
  have "the (ipv4_number base) = word_of_nat (((e * 256 + f) * 256 + g) * 256 + h)"
    by (simp only: ipv4_number_octets assms(1) option.map option.sel foldl.simps mult_0 add_0)
  then show ?thesis by (simp only: in_cidr_div[OF assms(2,3)] u)
qed

lemma in_range:
  assumes base: "octets base = Some [e, f, g, h]" and v: "a \<le> 255" "b \<le> 255" "c \<le> 255" "d \<le> 255"
    and w: "w = word_of_nat (((a * 256 + b) * 256 + c) * 256 + d)"
  shows "ipv4_in_cidr w (the (ipv4_number base)) 4 \<longleftrightarrow> a div 16 = e div 16"
    "ipv4_in_cidr w (the (ipv4_number base)) 8 \<longleftrightarrow> a = e"
    "ipv4_in_cidr w (the (ipv4_number base)) 10 \<longleftrightarrow> a = e \<and> b div 64 = f div 64"
    "ipv4_in_cidr w (the (ipv4_number base)) 12 \<longleftrightarrow> a = e \<and> b div 16 = f div 16"
    "ipv4_in_cidr w (the (ipv4_number base)) 15 \<longleftrightarrow> a = e \<and> b div 2 = f div 2"
    "ipv4_in_cidr w (the (ipv4_number base)) 16 \<longleftrightarrow> a = e \<and> b = f"
    "ipv4_in_cidr w (the (ipv4_number base)) 24 \<longleftrightarrow> a = e \<and> b = f \<and> c = g"
proof -
  have e: "e \<le> 255" "f \<le> 255" "g \<le> 255" "h \<le> 255" using octets_bound[OF base] by auto
  define n m where nm: "n = ((a * 256 + b) * 256 + c) * 256 + d" "m = ((e * 256 + f) * 256 + g) * 256 + h"
  have in_div: "ipv4_in_cidr w (the (ipv4_number base)) p \<longleftrightarrow> n div 2 ^ (32 - p) = m div 2 ^ (32 - p)" if "1 \<le> p" "p \<le> 32" for p
    using in_cidr_octets[OF base that v] unfolding w nm .
  have mix: "x * k + y = x' * k + y' \<longleftrightarrow> x = x' \<and> y = y'" if "y < k" "y' < k" for x y x' y' k :: nat
  proof
    assume eq: "x * k + y = x' * k + y'"
    have "(x * k + y) div k = x" "(x' * k + y') div k = x'" using that by simp_all
    with eq show "x = x' \<and> y = y'" by auto
  qed simp
  have small: "b div 64 < 4" "f div 64 < 4" "b div 16 < 16" "f div 16 < 16" "b div 2 < 128" "f div 2 < 128"
    "b < 256" "f < 256" "c < 256" "g < 256" using v e by auto
  note p = range_prefixes[OF v nm(1)] range_prefixes[OF e nm(2)]
  have d: "n div 2 ^ (32 - p) = m div 2 ^ (32 - p) \<longleftrightarrow> n div 2 ^ q = m div 2 ^ q" if "q = 32 - p" for p q :: nat
    using that by simp
  show "ipv4_in_cidr w (the (ipv4_number base)) 4 \<longleftrightarrow> a div 16 = e div 16"
    using in_div[of 4] d[of 28 4] unfolding p by simp
  show "ipv4_in_cidr w (the (ipv4_number base)) 8 \<longleftrightarrow> a = e"
    using in_div[of 8] d[of 24 8] unfolding p by simp
  show "ipv4_in_cidr w (the (ipv4_number base)) 10 \<longleftrightarrow> a = e \<and> b div 64 = f div 64"
    using in_div[of 10] d[of 22 10] unfolding p mix[OF small(1,2)] by simp
  show "ipv4_in_cidr w (the (ipv4_number base)) 12 \<longleftrightarrow> a = e \<and> b div 16 = f div 16"
    using in_div[of 12] d[of 20 12] unfolding p mix[OF small(3,4)] by simp
  show "ipv4_in_cidr w (the (ipv4_number base)) 15 \<longleftrightarrow> a = e \<and> b div 2 = f div 2"
    using in_div[of 15] d[of 17 15] unfolding p mix[OF small(5,6)] by simp
  show "ipv4_in_cidr w (the (ipv4_number base)) 16 \<longleftrightarrow> a = e \<and> b = f"
    using in_div[of 16] d[of 16 16] unfolding p mix[OF small(7,8)] by simp
  show "ipv4_in_cidr w (the (ipv4_number base)) 24 \<longleftrightarrow> a = e \<and> b = f \<and> c = g"
    using in_div[of 24] d[of 8 24] unfolding p mix[OF small(9,10)] mix[OF small(7,8)] conj_assoc by simp
qed

lemma ranges_special:
  assumes v: "a \<le> 255" "b \<le> 255" "c \<le> 255" "d \<le> 255" and w: "w = word_of_nat (((a * 256 + b) * 256 + c) * 256 + d)"
  shows "list_ex (\<lambda>(base, prefix). ipv4_in_cidr w (the (ipv4_number base)) prefix) blocked_ranges
    \<longleftrightarrow> special_octets [a, b, c, d]"
proof -
  have r:
    "ipv4_in_cidr w (the (ipv4_number ''0.0.0.0'')) 8 \<longleftrightarrow> a = 0"
    "ipv4_in_cidr w (the (ipv4_number ''10.0.0.0'')) 8 \<longleftrightarrow> a = 10"
    "ipv4_in_cidr w (the (ipv4_number ''100.64.0.0'')) 10 \<longleftrightarrow> a = 100 \<and> 64 \<le> b \<and> b < 128"
    "ipv4_in_cidr w (the (ipv4_number ''127.0.0.0'')) 8 \<longleftrightarrow> a = 127"
    "ipv4_in_cidr w (the (ipv4_number ''169.254.0.0'')) 16 \<longleftrightarrow> a = 169 \<and> b = 254"
    "ipv4_in_cidr w (the (ipv4_number ''172.16.0.0'')) 12 \<longleftrightarrow> a = 172 \<and> 16 \<le> b \<and> b < 32"
    "ipv4_in_cidr w (the (ipv4_number ''192.0.0.0'')) 24 \<longleftrightarrow> a = 192 \<and> b = 0 \<and> c = 0"
    "ipv4_in_cidr w (the (ipv4_number ''192.0.2.0'')) 24 \<longleftrightarrow> a = 192 \<and> b = 0 \<and> c = 2"
    "ipv4_in_cidr w (the (ipv4_number ''192.88.99.0'')) 24 \<longleftrightarrow> a = 192 \<and> b = 88 \<and> c = 99"
    "ipv4_in_cidr w (the (ipv4_number ''192.168.0.0'')) 16 \<longleftrightarrow> a = 192 \<and> b = 168"
    "ipv4_in_cidr w (the (ipv4_number ''198.18.0.0'')) 15 \<longleftrightarrow> a = 198 \<and> b div 2 = 9"
    "ipv4_in_cidr w (the (ipv4_number ''198.51.100.0'')) 24 \<longleftrightarrow> a = 198 \<and> b = 51 \<and> c = 100"
    "ipv4_in_cidr w (the (ipv4_number ''203.0.113.0'')) 24 \<longleftrightarrow> a = 203 \<and> b = 0 \<and> c = 113"
    "ipv4_in_cidr w (the (ipv4_number ''224.0.0.0'')) 4 \<longleftrightarrow> a div 16 = 14"
    "ipv4_in_cidr w (the (ipv4_number ''240.0.0.0'')) 4 \<longleftrightarrow> a div 16 = 15"
    subgoal by (simp add: in_range(2)[OF blocked_octets(1) v w])
    subgoal by (simp add: in_range(2)[OF blocked_octets(2) v w])
    subgoal by (simp add: in_range(3)[OF blocked_octets(3) v w]) (use v in auto)
    subgoal by (simp add: in_range(2)[OF blocked_octets(4) v w])
    subgoal by (simp add: in_range(6)[OF blocked_octets(5) v w])
    subgoal by (simp add: in_range(4)[OF blocked_octets(6) v w]) (use v in auto)
    subgoal by (simp add: in_range(7)[OF blocked_octets(7) v w])
    subgoal by (simp add: in_range(7)[OF blocked_octets(8) v w])
    subgoal by (simp add: in_range(7)[OF blocked_octets(9) v w])
    subgoal by (simp add: in_range(6)[OF blocked_octets(10) v w])
    subgoal by (simp add: in_range(5)[OF blocked_octets(11) v w])
    subgoal by (simp add: in_range(7)[OF blocked_octets(12) v w])
    subgoal by (simp add: in_range(7)[OF blocked_octets(13) v w])
    subgoal by (simp add: in_range(1)[OF blocked_octets(14) v w])
    subgoal by (simp add: in_range(1)[OF blocked_octets(15) v w])
    done
  have q: "b div 2 = 9 \<longleftrightarrow> b = 18 \<or> b = 19" "224 \<le> a \<longleftrightarrow> a div 16 = 14 \<or> a div 16 = 15"
    using v by auto
  show ?thesis
    unfolding blocked_ranges_def list_ex_iff list.set bex_simps prod.case r special_octets.simps insert_iff empty_iff q
    by (rule iffI; elim disjE conjE; simp)
qed

lemma ipv4_public:
  "is_global_public_ipv4 s \<longleftrightarrow> (\<exists>a b c d. octets s = Some [a, b, c, d] \<and> \<not> special_octets [a, b, c, d])"
proof (cases "octets s")
  case None
  then show ?thesis by (simp add: is_global_public_ipv4_def ipv4_number_octets)
next
  case (Some os)
  then obtain a b c d where os: "os = [a, b, c, d]" and v: "a \<le> 255" "b \<le> 255" "c \<le> 255" "d \<le> 255"
    using octets_bound by blast
  have "ipv4_number s = Some (word_of_nat (((a * 256 + b) * 256 + c) * 256 + d))"
    by (simp only: ipv4_number_octets Some os option.map foldl.simps mult_0 add_0)
  then show ?thesis using ranges_special[OF v refl]
    by (simp add: is_global_public_ipv4_def Some os del: special_octets.simps of_nat_add of_nat_mult)
qed

text \<open>The global unicast space without its special-purpose prefixes.\<close>

fun global_unicast :: "nat list \<Rightarrow> bool" where
  "global_unicast (a # b # ws) \<longleftrightarrow> length ws = 6 \<and> 0x2000 \<le> a \<and> a \<le> 0x3fff \<and> a \<noteq> 0x2002
     \<and> \<not> (a = 0x2001 \<and> (b \<in> {0, 2, 0xdb8} \<or> (0x10 \<le> b \<and> b < 0x30))) \<and> \<not> (a = 0x3fff \<and> b < 0x1000)"
| "global_unicast _ \<longleftrightarrow> False"

lemma and_shifted_mask:
  fixes b :: nat
  assumes "b < 2 ^ (k + m)"
  shows "b AND push_bit k (mask m) = b div 2 ^ k * 2 ^ k"
proof -
  have "b AND push_bit k (mask m) = push_bit k (take_bit m (drop_bit k b))"
    by (rule bit_eqI) (auto simp: bit_and_iff bit_push_bit_iff bit_mask_iff bit_take_bit_iff bit_drop_bit_eq)
  moreover have "drop_bit k b < 2 ^ m"
    using assms by (simp add: drop_bit_eq_div power_add less_mult_imp_div_less mult.commute)
  ultimately show ?thesis by (simp add: take_bit_nat_eq_self push_bit_eq_mult drop_bit_eq_div)
qed

lemma word_prefixes:
  fixes b :: nat
  assumes "b < 65536"
  shows "b AND 0xfff0 = 0x10 \<longleftrightarrow> 0x10 \<le> b \<and> b < 0x20" "b AND 0xfff0 = 0x20 \<longleftrightarrow> 0x20 \<le> b \<and> b < 0x30"
    "b AND 0xf000 = 0 \<longleftrightarrow> b < 0x1000"
proof -
  have m: "push_bit 4 (mask 12) = (0xfff0 :: nat)" "push_bit 12 (mask 4) = (0xf000 :: nat)"
    by (simp_all add: push_bit_eq_mult mask_eq_exp_minus_1)
  have "b AND 0xfff0 = b div 16 * 16" "b AND 0xf000 = b div 4096 * 4096"
    using and_shifted_mask[of b 4 12] and_shifted_mask[of b 12 4] assms unfolding m by simp_all
  then show "b AND 0xfff0 = 0x10 \<longleftrightarrow> 0x10 \<le> b \<and> b < 0x20" "b AND 0xfff0 = 0x20 \<longleftrightarrow> 0x20 \<le> b \<and> b < 0x30"
    "b AND 0xf000 = 0 \<longleftrightarrow> b < 0x1000" by auto
qed

lemma hex_val_bound: "is_lower_hex c \<Longrightarrow> hex_val c < 16"
  by (auto simp: is_lower_hex_def hex_val_def is_digit_def)

lemma parse_hex_bound: "list_all is_lower_hex w \<Longrightarrow> parse_hex w < 16 ^ length w"
proof (induction w rule: rev_induct)
  case (snoc c w)
  then have "parse_hex w < 16 ^ length w" "hex_val c < 16" by (simp_all add: hex_val_bound)
  then show ?case by (simp add: parse_hex_def)
qed (simp add: parse_hex_def)

lemma ipv6_word_bound: "ipv6_word w = Some n \<Longrightarrow> n < 65536"
proof -
  assume w: "ipv6_word w = Some n"
  then have "parse_hex w < 16 ^ length w" "length w \<le> 4" "n = parse_hex w"
    by (auto simp: ipv6_word_def parse_hex_bound split: if_splits)
  moreover from this(2) have "(16 :: nat) ^ length w \<le> 16 ^ 4" by (intro power_increasing) auto
  ultimately show ?thesis by simp
qed

lemma all_some_bound: "all_some (map ipv6_word ws) = Some ns \<Longrightarrow> \<forall>n \<in> set ns. n < 65536"
  by (induction ws arbitrary: ns) (auto split: option.splits dest: ipv6_word_bound)

lemma ipv6_words_bound: "ipv6_words s = Some ws \<Longrightarrow> \<forall>n \<in> set ws. n < 65536"
  by (auto simp: ipv6_words_def Let_def split: if_splits option.splits dest!: all_some_bound)

lemma ipv6_public: "is_global_public_ipv6 s \<longleftrightarrow> (\<exists>ws. ipv6_words s = Some ws \<and> global_unicast ws)"
proof (cases "ipv6_words s")
  case (Some ws)
  show ?thesis
  proof (cases "\<exists>a b r. ws = a # b # r")
    case True
    then obtain a b r where ws: "ws = a # b # r" by blast
    have "b < 65536" using ipv6_words_bound[OF Some] ws by simp
    note p = word_prefixes[OF this]
    have "(0x10 \<le> b \<and> b < 0x30) \<longleftrightarrow> (0x10 \<le> b \<and> b < 0x20) \<or> (0x20 \<le> b \<and> b < 0x30)" by auto
    moreover have "ws ! 0 = a" "ws ! 1 = b" "length ws \<noteq> 8 \<longleftrightarrow> length r \<noteq> 6" by (simp_all add: ws)
    ultimately show ?thesis
      by (simp only: is_global_public_ipv6_def Some option.case p) (simp add: ws not_less not_le, blast)
  next
    case False
    then have "length ws \<noteq> 8" by (auto simp: length_Suc_conv numeral_eq_Suc)
    moreover have "\<not> global_unicast ws" using False by (cases ws rule: global_unicast.cases) auto
    ultimately show ?thesis by (simp add: is_global_public_ipv6_def Some)
  qed
qed (simp add: is_global_public_ipv6_def)

text \<open>C35: Public addresses, read off the text. An IPv4 text is accepted exactly when it is four decimal
  octets of at most three digits outside every special-purpose range (this network, private, shared
  carrier, loopback, link local, protocol assignments, documentation, relay, benchmarking, multicast,
  reserved): the bit masks over 32-bit words compute this. An IPv6 text is accepted exactly when its
  eight words lie in the global unicast space outside its special-purpose prefixes.\<close>

theorem public_addresses:
  "(is_global_public_ipv4 s \<longleftrightarrow> (\<exists>a b c d. octets s = Some [a, b, c, d] \<and> \<not> special_octets [a, b, c, d]))
   \<and> (is_global_public_ipv6 s \<longleftrightarrow> (\<exists>ws. ipv6_words s = Some ws \<and> global_unicast ws))"
  by (intro conjI ipv4_public ipv6_public)

lemma octets_quad: "octets s = Some os \<Longrightarrow> dotted_quad s"
  by (auto simp: octets_def dotted_quad_def octet_text_def Let_def list_all_iff split: if_splits)

text \<open>C36: No request leaves for a private destination. A value is accepted only as the URL it parses to,
  with the https scheme, no credentials, the default port and a name that is no address literal and no
  local name; the resolver answered for that name with at least one address, and every address it
  answered is a public one, so a name that also resolves inside the network is refused.\<close>

theorem destination_public:
  assumes "resolve_public_https_destination E parse_url resolve4 resolve6 value = Some text"
  shows "\<exists>u h xs ys. parse_url (to_str E value) = Some u \<and> text = ur_text u \<and> ur_protocol u = ''https:''
    \<and> ur_username u = [] \<and> ur_password u = [] \<and> ur_port u \<in> {[], ''443''}
    \<and> h = drop_dot (lower (ur_hostname u)) \<and> octets h = None \<and> \<not> ends_with h ''.internal'' \<and> h \<noteq> ''localhost''
    \<and> resolve_address_family (resolve4 h) = Some xs \<and> resolve_address_family (resolve6 h) = Some ys \<and> xs @ ys \<noteq> []
    \<and> (\<forall>x \<in> set xs. \<exists>a b c d. octets x = Some [a, b, c, d] \<and> \<not> special_octets [a, b, c, d])
    \<and> (\<forall>y \<in> set ys. \<exists>ws. ipv6_words y = Some ws \<and> global_unicast ws)"
proof -
  obtain u where u: "parse_url (to_str E value) = Some u" using assms
    by (auto simp: resolve_public_https_destination_def split: option.splits)
  let ?h = "drop_dot (lower (ur_hostname u))"
  have ok: "ur_protocol u = ''https:''" "ur_username u = []" "ur_password u = []" "ur_port u \<in> {[], ''443''}" "\<not> refused_name ?h"
    using assms by (auto simp: resolve_public_https_destination_def u Let_def split: if_splits)
  obtain xs ys where dns: "resolve_address_family (resolve4 ?h) = Some xs" "resolve_address_family (resolve6 ?h) = Some ys"
    and some: "xs @ ys \<noteq> []" "list_all is_global_public_ipv4 xs" "list_all is_global_public_ipv6 ys" "text = ur_text u"
    using assms by (auto simp: resolve_public_https_destination_def u Let_def split: if_splits option.splits)
  have "octets ?h = None"
    using ok(5) octets_quad[of ?h] by (cases "octets ?h") (auto simp: refused_name_def)
  moreover have "\<not> ends_with ?h ''.internal''" "?h \<noteq> ''localhost''" using ok(5) by (auto simp: refused_name_def)
  moreover have "\<forall>x \<in> set xs. \<exists>a b c d. octets x = Some [a, b, c, d] \<and> \<not> special_octets [a, b, c, d]"
    using some(2) by (simp add: list_all_iff ipv4_public)
  moreover have "\<forall>y \<in> set ys. \<exists>ws. ipv6_words y = Some ws \<and> global_unicast ws"
    using some(3) by (simp add: list_all_iff ipv6_public)
  ultimately show ?thesis using u ok dns some by blast
qed

section \<open>Example\<close>

definition example_url :: "string \<Rightarrow> url_parts option" where
  "example_url s = Some \<lparr>ur_protocol = ''https:'', ur_username = [], ur_password = [], ur_hostname = ''hooks.example.com'',
     ur_port = [], ur_text = s\<rparr>"

theorem destination_public_witness:
  "resolve_public_https_destination sample_env example_url (\<lambda>h. Addresses [''93.184.216.34'']) (\<lambda>h. DnsError (Some ''ENODATA''))
      (JStr ''u'') = Some ''u''
   \<and> octets ''93.184.216.34'' = Some [93, 184, 216, 34] \<and> \<not> special_octets [93, 184, 216, 34]"
proof -
  have o: "octets ''93.184.216.34'' = Some [93, 184, 216, 34]" by code_simp
  have r: "drop_dot (lower ''hooks.example.com'') = ''hooks.example.com''" "\<not> refused_name ''hooks.example.com''" by code_simp+
  have run: "resolve_public_https_destination sample_env example_url (\<lambda>h. Addresses [''93.184.216.34''])
      (\<lambda>h. DnsError (Some ''ENODATA'')) (JStr ''u'') = Some ''u''"
    by (simp add: resolve_public_https_destination_def example_url_def r resolve_address_family_def ipv4_public o)
  from destination_public[OF run] have "\<not> special_octets [93, 184, 216, 34]"
    by (auto simp: example_url_def r resolve_address_family_def o)
  with run o show ?thesis by blast
qed

end
