(* ===== verification/Capacity.thy ===== *)
theory Capacity
  imports Platform_Types
begin

text \<open>
  Quotes and plan capacity (\<open>shared/pricing.ts\<close>, \<open>shared/plan-capacity.ts\<close>): the plan recommended for a
  selection of applications, its fee in cents, and whether applications fit a plan. All arithmetic is
  binary64.
\<close>

section \<open>Pricing\<close>

record pricing_policy =
  pp_plans :: "compute_plan list"
  pp_percent :: num
  pp_minimum :: num
  pp_reserve :: num
  pp_utilization :: num

definition hundredth :: "num \<Rightarrow> num" where
  "hundredth n = (case n of Fin x \<Rightarrow> fin_div x 100 | _ \<Rightarrow> n)"

definition platform_fee_for :: "compute_plan \<Rightarrow> pricing_policy \<Rightarrow> num" where
  "platform_fee_for plan policy =
     num_max (num_ceil (num_mul (cp_infrastructure plan) (hundredth (pp_percent policy)))) (pp_minimum policy)"

definition plan_can_contain :: "num \<Rightarrow> num \<Rightarrow> num \<Rightarrow> nat \<Rightarrow> compute_plan \<Rightarrow> pricing_policy \<Rightarrow> bool" where
  "plan_can_contain memory cpu storage services plan policy \<longleftrightarrow>
     num_le memory (num_mul (cp_memory plan) (pp_utilization policy)) \<and> num_le cpu (num_mul (cp_cpu plan) (Fin 1000))
     \<and> num_le storage (cp_storage plan) \<and> num_le (num_of_int (int services)) (cp_services plan)"

definition num_sum :: "num list \<Rightarrow> num" where
  "num_sum xs = foldl num_add (Fin 0) xs"

definition num_sign :: "num \<Rightarrow> int" where
  "num_sign n = (case n of Fin r \<Rightarrow> if r < 0 then - 1 else if 0 < r then 1 else 0 | PInf \<Rightarrow> 1 | NInf \<Rightarrow> - 1 | NaN \<Rightarrow> 0)"

definition by_memory :: "compute_plan \<Rightarrow> compute_plan \<Rightarrow> int" where
  "by_memory a b = num_sign (num_sub (cp_memory a) (cp_memory b))"

definition build_quote :: "catalog_app list \<Rightarrow> pricing_policy \<Rightarrow> quote" where
  "build_quote apps policy =
     (let memory = num_add (num_sum (map ca_memory apps)) (pp_reserve policy);
          cpu = num_sum (map ca_cpu apps); storage = num_sum (map ca_storage apps);
          compatible = list_all ca_bundle apps;
          plan = first_such (\<lambda>p. plan_can_contain memory cpu storage (length apps) p policy) (sort_cmp by_memory (pp_plans policy));
          split_up = (\<not> compatible \<or> plan = None);
          infra = (case plan of None \<Rightarrow> Fin 0 | Some p \<Rightarrow> cp_infrastructure p);
          fee = (case plan of None \<Rightarrow> Fin 0 | Some p \<Rightarrow> platform_fee_for p policy)
      in \<lparr>qt_apps = apps, qt_memory = memory, qt_cpu = cpu, qt_storage = storage, qt_reserved = pp_reserve policy,
          qt_compatible = compatible, qt_plan = plan, qt_infrastructure = infra, qt_fee = fee,
          qt_total = num_add infra fee, qt_split = split_up,
          qt_explanation = (if split_up
            then ''This selection includes an isolated workload. It will be separated instead of overloading the shared server.''
            else ''All selected applications fit the '' @ (case plan of None \<Rightarrow> ''configured'' | Some p \<Rightarrow> cp_label p)
              @ '' server with a safety reserve.'')\<rparr>)"

definition build_quote_for_plan :: "catalog_app list \<Rightarrow> compute_plan \<Rightarrow> pricing_policy \<Rightarrow> quote option" where
  "build_quote_for_plan apps plan policy =
     (let q = build_quote apps policy; fee = platform_fee_for plan policy
      in if \<not> plan_can_contain (qt_memory q) (qt_cpu q) (qt_storage q) (length (qt_apps q)) plan policy then None
         else Some (q \<lparr>qt_plan := Some plan, qt_infrastructure := cp_infrastructure plan, qt_fee := fee,
            qt_total := num_add (cp_infrastructure plan) fee,
            qt_explanation := ''The selected applications fit the chosen '' @ cp_label plan
              @ '' allocation with its configured safety reserve.''\<rparr>))"

section \<open>Plan capacity\<close>

record capacity =
  kc_memory :: num
  kc_cpu :: num
  kc_storage :: num

record plan_snapshot = capacity +
  ks_plan :: string
  ks_services :: num

record usage = capacity +
  ku_services :: num

datatype capacity_dim = DimMemory | DimCpu | DimStorage | DimServices

record envelope_fit =
  ef_fits :: bool
  ef_remaining :: usage
  ef_exceeded :: "capacity_dim list"

datatype capacity_err = NotNonNegativeInteger string | NoPlanId

definition safe_non_negative_integer :: "string \<Rightarrow> num \<Rightarrow> capacity_err + num" where
  "safe_non_negative_integer name n = (if \<not> is_safe_integer n \<or> num_lt n (Fin 0) then Inl (NotNonNegativeInteger name) else Inr n)"

definition plan_capacity_snapshot :: "compute_plan \<Rightarrow> capacity_err + plan_snapshot" where
  "plan_capacity_snapshot plan =
     (if trim (cp_id plan) = [] then Inl NoPlanId
      else bind_e (safe_non_negative_integer ''Plan memory'' (cp_memory plan)) (\<lambda>m.
           bind_e (safe_non_negative_integer ''Plan CPU'' (num_mul (cp_cpu plan) (Fin 1000))) (\<lambda>c.
           bind_e (safe_non_negative_integer ''Plan storage'' (cp_storage plan)) (\<lambda>s.
           bind_e (safe_non_negative_integer ''Plan service limit'' (cp_services plan)) (\<lambda>n.
           Inr \<lparr>kc_memory = m, kc_cpu = c, kc_storage = s, ks_plan = cp_id plan, ks_services = n\<rparr>)))))"

definition positive_capacity_delta :: "capacity option \<Rightarrow> capacity \<Rightarrow> capacity" where
  "positive_capacity_delta current target =
     (let now = (\<lambda>f. case current of None \<Rightarrow> Fin 0 | Some c \<Rightarrow> f c); delta = (\<lambda>f. num_max (Fin 0) (num_sub (f target) (now f)))
      in \<lparr>kc_memory = delta kc_memory, kc_cpu = delta kc_cpu, kc_storage = delta kc_storage\<rparr>)"

fun add_usage :: "usage \<Rightarrow> instance_rec list \<Rightarrow> capacity_err + usage" where
  "add_usage u [] = Inr u"
| "add_usage u (i # js) =
     bind_e (safe_non_negative_integer ''Application memory reservation'' (ai_memory i)) (\<lambda>m.
     bind_e (safe_non_negative_integer ''Application CPU reservation'' (ai_cpu i)) (\<lambda>c.
     bind_e (safe_non_negative_integer ''Application storage reservation'' (ai_storage i)) (\<lambda>s.
     add_usage \<lparr>kc_memory = num_add (kc_memory u) m, kc_cpu = num_add (kc_cpu u) c, kc_storage = num_add (kc_storage u) s,
       ku_services = num_add (ku_services u) (Fin 1)\<rparr> js)))"

definition application_capacity_usage :: "instance_rec list \<Rightarrow> num \<Rightarrow> capacity_err + usage" where
  "application_capacity_usage apps reserve =
     bind_e (safe_non_negative_integer ''Application memory safety reserve'' reserve) (\<lambda>_.
     add_usage \<lparr>kc_memory = reserve, kc_cpu = Fin 0, kc_storage = Fin 0, ku_services = Fin 0\<rparr> apps)"

definition remaining_of :: "usage \<Rightarrow> capacity_dim \<Rightarrow> num" where
  "remaining_of r d = (case d of DimMemory \<Rightarrow> kc_memory r | DimCpu \<Rightarrow> kc_cpu r | DimStorage \<Rightarrow> kc_storage r | DimServices \<Rightarrow> ku_services r)"

definition capacity_envelope_fit :: "usage \<Rightarrow> plan_snapshot \<Rightarrow> envelope_fit" where
  "capacity_envelope_fit u a =
     (let r = \<lparr>kc_memory = num_sub (kc_memory a) (kc_memory u), kc_cpu = num_sub (kc_cpu a) (kc_cpu u),
               kc_storage = num_sub (kc_storage a) (kc_storage u), ku_services = num_sub (ks_services a) (ku_services u)\<rparr>;
          exceeded = filter (\<lambda>d. num_lt (remaining_of r d) (Fin 0)) [DimMemory, DimCpu, DimStorage, DimServices]
      in \<lparr>ef_fits = (exceeded = []), ef_remaining = r, ef_exceeded = exceeded\<rparr>)"

section \<open>The fee in cents\<close>

lemma round_pos_near:
  assumes "pow2 (- 1022) \<le> a" "a \<le> 2 ^ 100"
  shows "\<exists>y. round_pos a = Fin y \<and> \<bar>y - a\<bar> \<le> a / 2 ^ 53"
proof -
  have pos: "0 < a" using assms(1) pow2_pos[of "- 1022"] by linarith
  have normal: "- 1022 \<le> ilog2 a"
    using ilog2_upper[OF pos] pow2_mono[of "ilog2 a + 1" "- 1022"] assms(1) by linarith
  define q where "q = pow2 (ilog2 a - 52)"
  have q0: "0 < q" by (simp add: q_def)
  have q53: "pow2 (ilog2 a + 1) = q * 2 ^ 53" using pow2_add_nat[of "ilog2 a - 52" 53] by (simp add: q_def add.commute)
  have "a / q \<le> of_int (2 ^ 53)" using ilog2_upper[OF pos] q0 by (simp add: q53 divide_le_eq less_imp_le mult.commute)
  then have "round_even (a / q) \<le> 2 ^ 53" using round_even_mono by (metis round_even_int)
  then have "(of_int (round_even (a / q)) :: rat) \<le> of_int (2 ^ 53)" by (simp only: of_int_le_iff)
  then have "of_int (round_even (a / q)) * q \<le> 2 ^ 53 * q" using q0 by simp
  also have "\<dots> = 2 * pow2 (ilog2 a)" using pow2_Suc[of "ilog2 a"] q53 by (simp add: mult.commute)
  also have "\<dots> \<le> 2 * 2 ^ 100" using ilog2_lower[OF pos] assms(2) by linarith
  also have "\<dots> < pow2 1024" by (simp add: pow2_def)
  finally have "of_int (round_even (a / q)) * q < pow2 1024" .
  moreover have "max (ilog2 a - 52) (- 1074) = ilog2 a - 52" using normal by simp
  ultimately obtain y where "round_pos a = Fin y" by (simp add: round_pos_def Let_def q_def)
  with round_pos_error[OF pos normal this] show ?thesis by blast
qed

lemma round64_near:
  assumes "pow2 (- 1022) \<le> a" "a \<le> 2 ^ 100"
  shows "\<exists>y. round64 a = Fin y \<and> \<bar>y - a\<bar> \<le> a / 2 ^ 53"
proof -
  have "0 < a" using assms(1) pow2_pos[of "- 1022"] by linarith
  then show ?thesis using round_pos_near[OF assms] by (auto simp: round64_def)
qed

lemma rat_le: "a \<le> b \<Longrightarrow> (of_int a :: rat) \<le> of_int b"
  by simp

text \<open>The two roundings of \<open>n * (p / 100)\<close> move it by less than half a hundredth.\<close>

lemma product_near:
  assumes n: "1 \<le> n" "n \<le> 2 ^ 40" and p: "1 \<le> p" "p \<le> 1000"
  shows "\<exists>x. num_mul (num_of_int n) (hundredth (num_of_int p)) = Fin x \<and> \<bar>x - of_int n * of_int p / 100\<bar> < 1 / 200"
proof -
  let ?n = "of_int n :: rat" and ?p = "of_int p :: rat"
  have N: "1 \<le> ?n" "?n \<le> 2 ^ 40" using rat_le[OF n(1)] rat_le[OF n(2)] by simp_all
  have P: "1 \<le> ?p" "?p \<le> 1000" using rat_le[OF p(1)] rat_le[OF p(2)] by simp_all
  have low: "pow2 (- 1022) \<le> 1 / 200" using pow2_mono[of "- 1022" "- 8"] by (simp add: pow2_def)
  obtain x1 where x1: "round64 (?p / 100) = Fin x1" "\<bar>x1 - ?p / 100\<bar> \<le> ?p / 100 / 2 ^ 53"
    using round64_near[of "?p / 100"] P low by auto
  have x1b: "x1 \<le> 11" "1 / 200 \<le> x1" 
  proof -
    have "?p / 100 / 2 ^ 53 \<le> 1000 / 100 / 2 ^ 53" using P by (intro divide_right_mono) auto
    then have "\<bar>x1 - ?p / 100\<bar> \<le> 1 / 200" using x1(2) by simp
    then show "x1 \<le> 11" "1 / 200 \<le> x1" using P by linarith+
  qed
  have e1: "\<bar>?n * x1 - ?n * ?p / 100\<bar> \<le> ?n * ?p / 100 / 2 ^ 53"
  proof -
    have "?n * x1 - ?n * ?p / 100 = ?n * (x1 - ?p / 100)" by (simp add: right_diff_distrib)
    then have "\<bar>?n * x1 - ?n * ?p / 100\<bar> = ?n * \<bar>x1 - ?p / 100\<bar>"
      using N by (simp only: abs_mult)
    also have "\<dots> \<le> ?n * (?p / 100 / 2 ^ 53)" using x1(2) N by (intro mult_left_mono) auto
    finally show ?thesis by simp
  qed
  have prod: "?n * ?p / 100 \<le> 2 ^ 40 * 10" using mult_mono[OF N(2) P(2)] N P by simp
  have nx: "?n * x1 \<le> 2 ^ 40 * 11" "1 / 200 \<le> ?n * x1"
    using mult_mono[OF N(2) x1b(1)] mult_mono[OF N(1) x1b(2)] N x1b by auto
  obtain x2 where x2: "round64 (?n * x1) = Fin x2" "\<bar>x2 - ?n * x1\<bar> \<le> ?n * x1 / 2 ^ 53"
    using round64_near[of "?n * x1"] nx low by auto
  have "\<bar>x2 - ?n * ?p / 100\<bar> \<le> ?n * x1 / 2 ^ 53 + ?n * ?p / 100 / 2 ^ 53" using x2(2) e1 by linarith
  also have "\<dots> \<le> 2 ^ 40 * 11 / 2 ^ 53 + 2 ^ 40 * 10 / 2 ^ 53"
    by (intro add_mono divide_right_mono nx prod) auto
  also have "\<dots> < 1 / 200" by simp
  finally show ?thesis using x1(1) x2(1) by (simp add: hundredth_def num_of_int_def fin_div_def)
qed

lemma ceiling_near:
  fixes x :: rat
  assumes "\<bar>x - of_int k / 100\<bar> < 1 / 200"
  shows "\<lceil>x\<rceil> = \<lceil>of_int k / 100 :: rat\<rceil> \<or> (100 dvd k \<and> \<lceil>x\<rceil> = \<lceil>of_int k / 100 :: rat\<rceil> + 1)"
proof -
  obtain q r where k: "k = 100 * q + r" "0 \<le> r" "r < 100"
    by (metis div_mult_mod_eq mult.commute pos_mod_bound pos_mod_sign zero_less_numeral)
  have t: "(of_int k / 100 :: rat) = of_int q + of_int r / 100" by (simp add: k add_divide_distrib)
  show ?thesis
  proof (cases "r = 0")
    case True
    then have "\<bar>x - of_int q\<bar> < 1 / 200" "\<lceil>of_int k / 100 :: rat\<rceil> = q" using assms t by simp_all
    then have "\<lceil>x\<rceil> = q \<or> \<lceil>x\<rceil> = q + 1" by linarith
    with k True \<open>\<lceil>of_int k / 100 :: rat\<rceil> = q\<close> show ?thesis by auto
  next
    case False
    then have r: "(1 :: rat) \<le> of_int r" "of_int r \<le> (99 :: rat)" using k rat_le[of 1 r] rat_le[of r 99] by simp_all
    then have "\<lceil>of_int k / 100 :: rat\<rceil> = q + 1" unfolding t by (simp add: ceiling_eq_iff)
    moreover have "of_int q < x" "x \<le> of_int q + 1" using assms r unfolding t by linarith+
    then have "\<lceil>x\<rceil> = q + 1" by (simp add: ceiling_eq_iff)
    ultimately show ?thesis by simp
  qed
qed

text \<open>C38: The platform fee never undercharges and overcharges by at most one cent: it is the percentage of
  the infrastructure price rounded up to a cent, at least the minimum, or, only where that percentage is a
  whole number of cents, one cent more.\<close>

theorem platform_fee_cents:
  assumes "cp_infrastructure plan = num_of_int n" "0 \<le> n" "n \<le> 2 ^ 40"
    and "pp_percent policy = num_of_int p" "0 \<le> p" "p \<le> 1000" and "pp_minimum policy = num_of_int m"
  shows "platform_fee_for plan policy = num_of_int (max \<lceil>of_int (n * p) / 100 :: rat\<rceil> m)
     \<or> (100 dvd n * p \<and> platform_fee_for plan policy = num_of_int (max (\<lceil>of_int (n * p) / 100 :: rat\<rceil> + 1) m))"
proof (cases "n = 0 \<or> p = 0")
  case True
  have z: "round64 0 = Fin 0" by (simp add: round64_def)
  have "\<exists>x. hundredth (num_of_int p) = Fin x \<and> (p = 0 \<longrightarrow> x = 0)"
  proof (cases "p = 0")
    case False
    then have "1 \<le> (of_int p :: rat)" "of_int p \<le> (1000 :: rat)"
      using assms(5,6) rat_le[of 1 p] rat_le[of p 1000] by simp_all
    then show ?thesis using round64_near[of "of_int p / 100"] pow2_mono[of "- 1022" "- 8"] False
      by (auto simp: hundredth_def num_of_int_def fin_div_def pow2_def)
  qed (simp add: hundredth_def num_of_int_def fin_div_def z)
  then have "num_mul (num_of_int n) (hundredth (num_of_int p)) = Fin 0"
    using True z by (auto simp: num_of_int_def)
  then have "platform_fee_for plan policy = num_max (num_of_int 0) (num_of_int m)"
    by (simp add: platform_fee_for_def assms num_ceil_def num_of_int_def)
  with True show ?thesis by (auto simp: num_max_int)
next
  case False
  then have "1 \<le> n" "1 \<le> p" using assms by auto
  from product_near[OF this(1) assms(3) this(2) assms(6)] obtain x where
    x: "num_mul (num_of_int n) (hundredth (num_of_int p)) = Fin x" "\<bar>x - of_int (n * p) / 100\<bar> < 1 / 200" by auto
  have "platform_fee_for plan policy = num_of_int (max \<lceil>x\<rceil> m)"
    by (simp add: platform_fee_for_def assms x num_ceil_def flip: num_max_int) (simp add: num_of_int_def)
  with ceiling_near[OF x(2)] show ?thesis by auto
qed

section \<open>The recommended plan\<close>

lemma insert_cmp_cong: "(\<And>y. y \<in> set ys \<Longrightarrow> c x y = d x y) \<Longrightarrow> insert_cmp c x ys = insert_cmp d x ys"
  by (induction ys) auto

lemma sort_cmp_cong: "(\<And>x y. x \<in> set xs \<Longrightarrow> y \<in> set xs \<Longrightarrow> c x y = d x y) \<Longrightarrow> sort_cmp c xs = sort_cmp d xs"
proof (induction xs)
  case (Cons x xs)
  then have "sort_cmp c xs = sort_cmp d xs" by auto
  moreover have "insert_cmp c x (sort_cmp d xs) = insert_cmp d x (sort_cmp d xs)"
    using Cons.prems by (intro insert_cmp_cong) auto
  ultimately show ?case by (simp add: sort_cmp_def)
qed (simp add: sort_cmp_def)

lemma first_such_sorted:
  "first_such P xs = Some x \<Longrightarrow> sorted_wrt R xs \<Longrightarrow> y \<in> set xs \<Longrightarrow> P y \<Longrightarrow> y = x \<or> R x y"
  by (induction xs) (auto simp: first_such_def split: if_splits)

definition memory_key :: "compute_plan \<Rightarrow> int" where
  "memory_key p = (case cp_memory p of Fin r \<Rightarrow> \<lfloor>r\<rfloor> | _ \<Rightarrow> 0)"

definition plan_memory_ok :: "compute_plan \<Rightarrow> bool" where
  "plan_memory_ok p \<longleftrightarrow> (\<exists>m. cp_memory p = num_of_int m \<and> \<bar>m\<bar> \<le> 2 ^ 52)"

lemma by_memory_keys:
  assumes "plan_memory_ok a" "plan_memory_ok b"
  shows "by_memory a b = sgn (memory_key a - memory_key b)"
proof -
  obtain m n where m: "cp_memory a = num_of_int m" "cp_memory b = num_of_int n" and b: "\<bar>m\<bar> \<le> 2 ^ 52" "\<bar>n\<bar> \<le> 2 ^ 52"
    using assms by (auto simp: plan_memory_ok_def)
  have "num_sub (num_of_int m) (num_of_int n) = num_of_int (m - n)" using b by (intro num_sub_int) simp
  then show ?thesis by (simp add: by_memory_def m memory_key_def num_sign_def sgn_if) (simp add: num_of_int_def)
qed

lemma sorted_by_memory:
  assumes "\<forall>p \<in> set ps. plan_memory_ok p"
  shows "sorted_wrt (\<lambda>a b. memory_key a \<le> memory_key b) (sort_cmp by_memory ps)"
proof -
  have "sort_cmp by_memory ps = sort_cmp (\<lambda>a b. sgn (memory_key a - memory_key b)) ps"
    using assms by (intro sort_cmp_cong by_memory_keys) auto
  moreover have "sorted_wrt (\<lambda>a b. sgn (memory_key a - memory_key b) \<le> 0) (sort_cmp (\<lambda>a b. sgn (memory_key a - memory_key b)) ps)"
    by (rule sort_cmp_sorted) (auto simp: sgn_if split: if_splits)
  moreover have "sgn (memory_key a - memory_key b) \<le> 0 \<longleftrightarrow> memory_key a \<le> memory_key b" for a b
    by (simp add: sgn_if)
  ultimately show ?thesis by simp
qed

text \<open>A quote recommends the smallest plan that fits. When some plan can contain the selection, the
  recommended one can, no plan with less memory can, and the total is its price with its fee; when none
  can, the quote names no plan, costs nothing and asks to split the selection.\<close>

theorem quote_recommends_smallest:
  assumes "\<forall>p \<in> set (pp_plans policy). plan_memory_ok p"
    and "q = build_quote apps policy"
    and "fits = (\<lambda>p. plan_can_contain (qt_memory q) (qt_cpu q) (qt_storage q) (length apps) p policy)"
  shows "case qt_plan q of
      None \<Rightarrow> (\<forall>p \<in> set (pp_plans policy). \<not> fits p) \<and> qt_split q \<and> qt_total q = Fin 0
    | Some p \<Rightarrow> p \<in> set (pp_plans policy) \<and> fits p \<and> (\<forall>r \<in> set (pp_plans policy). fits r \<longrightarrow> memory_key p \<le> memory_key r)
        \<and> qt_total q = num_add (cp_infrastructure p) (platform_fee_for p policy) \<and> (qt_split q \<longleftrightarrow> \<not> list_all ca_bundle apps)"
proof -
  have plan: "qt_plan q = first_such fits (sort_cmp by_memory (pp_plans policy))"
    by (simp add: assms(2,3) build_quote_def Let_def)
  show ?thesis
  proof (cases "qt_plan q")
    case None
    then have "\<forall>p \<in> set (pp_plans policy). \<not> fits p" by (simp add: plan first_such_None)
    moreover have "qt_split q" "qt_total q = Fin 0"
      using None by (simp_all add: assms(2) build_quote_def Let_def round64_def)
    ultimately show ?thesis using None by simp
  next
    case (Some p)
    note f = Some[unfolded plan]
    have "p \<in> set (pp_plans policy)" "fits p" using first_such_Some[OF f] by simp_all
    moreover have "memory_key p \<le> memory_key r" if "r \<in> set (pp_plans policy)" "fits r" for r
      using first_such_sorted[OF f sorted_by_memory[OF assms(1)], of r] that by auto
    moreover have "qt_total q = num_add (cp_infrastructure p) (platform_fee_for p policy)" "qt_split q \<longleftrightarrow> \<not> list_all ca_bundle apps"
      using Some by (simp_all add: assms(2) build_quote_def Let_def)
    ultimately show ?thesis using Some by simp
  qed
qed

section \<open>Fitting a plan\<close>

lemma safe_non_negativeD: "safe_non_negative_integer n x = Inr y \<Longrightarrow> y = x \<and> (\<exists>k. x = num_of_int k \<and> 0 \<le> k \<and> k \<le> max_safe)"
proof -
  assume a: "safe_non_negative_integer n x = Inr y"
  then obtain k where k: "x = num_of_int k" "\<bar>k\<bar> \<le> max_safe" "y = x" "\<not> num_lt x (Fin 0)"
    by (auto simp: safe_non_negative_integer_def dest!: is_safe_integerD split: if_splits)
  then have "0 \<le> k" using num_lt_int[of k 0] by (simp add: num_of_int_def)
  with k show ?thesis by auto
qed

definition int_of :: "num \<Rightarrow> int" where
  "int_of n = (case n of Fin r \<Rightarrow> \<lfloor>r\<rfloor> | _ \<Rightarrow> 0)"

lemma int_of_num [simp]: "int_of (num_of_int n) = n"
  by (simp add: int_of_def num_of_int_def)

definition usage_of :: "int \<Rightarrow> int \<Rightarrow> int \<Rightarrow> int \<Rightarrow> usage" where
  "usage_of m c s n = \<lparr>kc_memory = num_of_int m, kc_cpu = num_of_int c, kc_storage = num_of_int s, ku_services = num_of_int n\<rparr>"

definition sum_of :: "(instance_rec \<Rightarrow> num) \<Rightarrow> instance_rec list \<Rightarrow> int" where
  "sum_of f apps = (\<Sum>i\<leftarrow>apps. int_of (f i))"

lemma sum_of_simps [simp]: "sum_of f [] = 0" "sum_of f (i # js) = int_of (f i) + sum_of f js"
  by (simp_all add: sum_of_def)

lemma add_usage_exact:
  assumes "add_usage (usage_of m c s n) apps = Inr u" "0 \<le> m" "0 \<le> c" "0 \<le> s" "0 \<le> n"
    and "m + sum_of ai_memory apps \<le> 2 ^ 52" "c + sum_of ai_cpu apps \<le> 2 ^ 52" "s + sum_of ai_storage apps \<le> 2 ^ 52"
    and "n + int (length apps) \<le> 2 ^ 52"
  shows "u = usage_of (m + sum_of ai_memory apps) (c + sum_of ai_cpu apps) (s + sum_of ai_storage apps) (n + int (length apps))
    \<and> 0 \<le> sum_of ai_memory apps \<and> 0 \<le> sum_of ai_cpu apps \<and> 0 \<le> sum_of ai_storage apps"
  using assms
proof (induction apps arbitrary: m c s n)
  case (Cons i js)
  then obtain a b d where i: "ai_memory i = num_of_int a" "ai_cpu i = num_of_int b" "ai_storage i = num_of_int d"
      "0 \<le> a" "0 \<le> b" "0 \<le> d"
    and run: "add_usage \<lparr>kc_memory = num_add (num_of_int m) (num_of_int a), kc_cpu = num_add (num_of_int c) (num_of_int b),
      kc_storage = num_add (num_of_int s) (num_of_int d), ku_services = num_add (num_of_int n) (Fin 1)\<rparr> js = Inr u"
    by (auto simp: bind_e_Inr_iff usage_of_def dest!: safe_non_negativeD)
  have nonneg: "0 \<le> sum_of f js" if "add_usage v js = Inr u" "f \<in> {ai_memory, ai_cpu, ai_storage}" for f v
    using that by (induction js arbitrary: v) (auto simp: bind_e_Inr_iff dest!: safe_non_negativeD)
  note nn = nonneg[OF run, of ai_memory] nonneg[OF run, of ai_cpu] nonneg[OF run, of ai_storage]
  have one: "Fin 1 = num_of_int 1" by (simp add: num_of_int_def)
  have "add_usage (usage_of (m + a) (c + b) (s + d) (n + 1)) js = Inr u"
    using run Cons.prems i nn by (simp add: usage_of_def one num_add_int)
  from Cons.IH[OF this] Cons.prems i show ?case by (simp add: algebra_simps)
qed (simp add: usage_of_def)

lemma num_neg_int [simp]: "num_lt (num_of_int a) (Fin 0) \<longleftrightarrow> a < 0"
  using num_lt_int[of a 0] by (simp add: num_of_int_def)

lemma snapshotD:
  assumes "plan_capacity_snapshot plan = Inr a"
  shows "\<exists>m c s n. a = \<lparr>kc_memory = num_of_int m, kc_cpu = num_of_int c, kc_storage = num_of_int s, ks_plan = cp_id plan,
      ks_services = num_of_int n\<rparr> \<and> cp_memory plan = num_of_int m \<and> num_mul (cp_cpu plan) (Fin 1000) = num_of_int c
      \<and> cp_storage plan = num_of_int s \<and> cp_services plan = num_of_int n \<and> {m, c, s, n} \<subseteq> {0..max_safe}"
  using assms by (auto simp: plan_capacity_snapshot_def bind_e_Inr_iff split: if_splits dest!: safe_non_negativeD)

text \<open>C39: Applications fit a plan exactly when the exact sums of their reservations, with the memory reserve,
  and their number stay within what the plan offers; what is reported as exceeded are exactly the
  dimensions that do not. The sums are those of integers as long as each stays below 2^52.\<close>

theorem capacity_fit_exact:
  assumes "plan_capacity_snapshot plan = Inr a" and "application_capacity_usage apps reserve = Inr u"
    and "int_of reserve + sum_of ai_memory apps \<le> 2 ^ 52" "sum_of ai_cpu apps \<le> 2 ^ 52" "sum_of ai_storage apps \<le> 2 ^ 52"
    and "int (length apps) \<le> 2 ^ 52"
    and "fit = capacity_envelope_fit u a"
  shows "(ef_fits fit \<longleftrightarrow> ef_exceeded fit = [])
    \<and> (DimMemory \<in> set (ef_exceeded fit) \<longleftrightarrow> int_of (cp_memory plan) < int_of reserve + sum_of ai_memory apps)
    \<and> (DimCpu \<in> set (ef_exceeded fit) \<longleftrightarrow> int_of (num_mul (cp_cpu plan) (Fin 1000)) < sum_of ai_cpu apps)
    \<and> (DimStorage \<in> set (ef_exceeded fit) \<longleftrightarrow> int_of (cp_storage plan) < sum_of ai_storage apps)
    \<and> (DimServices \<in> set (ef_exceeded fit) \<longleftrightarrow> int_of (cp_services plan) < int (length apps))"
proof -
  obtain m c s n where a: "a = \<lparr>kc_memory = num_of_int m, kc_cpu = num_of_int c, kc_storage = num_of_int s, ks_plan = cp_id plan,
      ks_services = num_of_int n\<rparr>" and plan: "cp_memory plan = num_of_int m" "num_mul (cp_cpu plan) (Fin 1000) = num_of_int c"
      "cp_storage plan = num_of_int s" "cp_services plan = num_of_int n" and b: "{m, c, s, n} \<subseteq> {0..max_safe}"
    using snapshotD[OF assms(1)] by blast
  obtain r where r: "reserve = num_of_int r" "0 \<le> r" and run: "add_usage (usage_of r 0 0 0) apps = Inr u"
    using assms(2) by (auto simp: application_capacity_usage_def bind_e_Inr_iff usage_of_def num_of_int_def dest!: safe_non_negativeD)
  note len = assms(6)
  from add_usage_exact[OF run r(2)] assms(3-5) len r(1) have
    u: "u = usage_of (r + sum_of ai_memory apps) (sum_of ai_cpu apps) (sum_of ai_storage apps) (int (length apps))"
    and nn: "0 \<le> sum_of ai_memory apps" "0 \<le> sum_of ai_cpu apps" "0 \<le> sum_of ai_storage apps" by simp_all
  have d: "num_sub (num_of_int x) (num_of_int y) = num_of_int (x - y)" if "x \<in> {0..max_safe}" "0 \<le> y" "y \<le> 2 ^ 52" for x y
    using that by (intro num_sub_int) (auto simp: max_safe_def)
  have "ef_remaining fit = usage_of (m - (r + sum_of ai_memory apps)) (c - sum_of ai_cpu apps) (s - sum_of ai_storage apps) (n - int (length apps))"
    using b nn r assms(3-5) len by (simp add: assms(7) capacity_envelope_fit_def Let_def a u usage_of_def d)
  moreover have "ef_exceeded fit = filter (\<lambda>d. num_lt (remaining_of (ef_remaining fit) d) (Fin 0)) [DimMemory, DimCpu, DimStorage, DimServices]"
    "ef_fits fit \<longleftrightarrow> ef_exceeded fit = []" by (simp_all add: assms(7) capacity_envelope_fit_def Let_def)
  ultimately show ?thesis using plan r by (auto simp: remaining_of_def usage_of_def)
qed

section \<open>Examples\<close>

definition small_plan :: compute_plan where
  "small_plan = \<lparr>cp_id = ''starter'', cp_label = ''Starter'', cp_memory = num_of_int 4096, cp_cpu = num_of_int 2, cp_storage = num_of_int 40,
     cp_services = num_of_int 4, cp_infrastructure = num_of_int 100, cp_monthly = num_of_int 108\<rparr>"

definition sample_pricing :: pricing_policy where
  "sample_pricing = \<lparr>pp_plans = [small_plan], pp_percent = num_of_int 7, pp_minimum = num_of_int 1, pp_reserve = num_of_int 512,
     pp_utilization = num_of_int 1\<rparr>"

definition sample_deployed :: instance_rec where
  "sample_deployed = \<lparr>ai_id = ''i1'', ai_installation = ''n1'', ai_app = ''umami'', ai_state = InstLive, ai_hostname = ''stats.example.com'',
     ai_project = ''mos-0123456789ab'', ai_domains = [], ai_health = None, ai_worker = None, ai_memory = num_of_int 5000,
     ai_cpu = num_of_int 750, ai_storage = num_of_int 10, ai_created = ''2026'', ai_updated = ''2026''\<rparr>"

theorem platform_fee_cents_witness:
  "platform_fee_for small_plan sample_pricing \<in> {num_of_int 7, num_of_int 8}"
  using platform_fee_cents[of small_plan 100 sample_pricing 7 1] by (auto simp: small_plan_def sample_pricing_def)

text \<open>Seven percent of one dollar: the product of the rounded factors is above seven cents.\<close>

lemma seven_percent_overcharges: "platform_fee_for small_plan sample_pricing = num_of_int 8"
proof -
  have "num_mul (Fin 100) (round64 (7 / 100)) = Fin (7881299347898369 / 1125899906842624)"
    using round_pos_value[of "- 4" "7 / 100" 5044031582654956] round_pos_value[of 2 "31525197391593475 / 4503599627370496" 7881299347898369]
    by (simp add: round64_def pow2_def floor_fraction)
  then show ?thesis
    by (simp add: platform_fee_for_def small_plan_def sample_pricing_def hundredth_def fin_div_def num_of_int_def num_ceil_def
        num_max_def ceiling_eq_iff)
qed

theorem quote_recommends_smallest_witness:
  "case qt_plan (build_quote [] sample_pricing) of
      None \<Rightarrow> qt_split (build_quote [] sample_pricing)
    | Some p \<Rightarrow> p = small_plan \<and> qt_total (build_quote [] sample_pricing) = num_add (num_of_int 100) (platform_fee_for p sample_pricing)"
proof -
  have "\<forall>p \<in> set (pp_plans sample_pricing). plan_memory_ok p"
    by (auto simp: sample_pricing_def small_plan_def plan_memory_ok_def)
  from quote_recommends_smallest[OF this refl refl, of "[]"] show ?thesis
    by (auto simp: sample_pricing_def small_plan_def split: option.splits)
qed

theorem capacity_fit_exact_witness:
  "\<exists>a u. plan_capacity_snapshot small_plan = Inr a \<and> application_capacity_usage [sample_deployed] (num_of_int 512) = Inr u
     \<and> DimMemory \<in> set (ef_exceeded (capacity_envelope_fit u a)) \<and> DimCpu \<notin> set (ef_exceeded (capacity_envelope_fit u a))"
proof -
  have k: "num_mul (num_of_int 2) (Fin 1000) = num_of_int 2000" by (simp add: num_of_int_def round64_def)
  obtain a where a: "plan_capacity_snapshot small_plan = Inr a"
    by (simp add: plan_capacity_snapshot_def small_plan_def safe_non_negative_integer_def k max_safe_def trim_def is_ws_def code_def)
  obtain u where u: "application_capacity_usage [sample_deployed] (num_of_int 512) = Inr u"
    by (simp add: application_capacity_usage_def sample_deployed_def safe_non_negative_integer_def max_safe_def)
  from capacity_fit_exact[OF a u _ _ _ _ refl] a u show ?thesis
    by (auto simp: small_plan_def sample_deployed_def k)
qed

end
