(* ===== verification/Storage_Accounting.thy ===== *)
theory Storage_Accounting
  imports Additive_Actions
begin

text \<open>
  Plan quotas and the accounting of retained objects (\<open>shared/suite-quotas.ts\<close>): what is registered for
  a stored object when its record is created, and the check that a later update of the record leaves the
  object's metadata as it was. In a model object keys keep their sorted place even where they look like
  array indices.
\<close>

datatype size_source = ClientRegistered | ObjectStoreHead | LegacyMetadata

datatype storage_err =
    BadRegisteredSize | BadObjectSize | NoStorageAccounting | BadAccountingVersion | BytesDiffer | BadSizeSource
  | NoVerifiedFlag | NeedsHeadEvidence | HeadMustBeVerified | BadField string | BadChecksum string | BadFileVersion
  | OnlyWithNewRecord | ImmutableObject

definition accounting_version :: string where
  "accounting_version = ''suite-storage-object.v1''"

record storage_accounting =
  sa_bytes :: num
  sa_source :: size_source
  sa_verified :: bool

record registration =
  sr_module :: string
  sr_type :: string
  sr_object :: string
  sr_version :: string
  sr_checksum :: string
  sr_bytes :: num
  sr_source :: json
  sr_verified :: bool

record plan_quota =
  pq_records :: num
  pq_ai_actions :: num
  pq_storage :: num

definition plan_quotas :: "plan \<Rightarrow> num \<times> num" where
  "plan_quotas p = (case p of PlanNone \<Rightarrow> (Fin 0, Fin 0) | PlanStarter \<Rightarrow> (num_of_int 50000, num_of_int 1000)
     | PlanScale \<Rightarrow> (num_of_int 500000, num_of_int 10000) | PlanFleet \<Rightarrow> (num_of_int 5000000, num_of_int 100000))"

definition record_payload_limit :: num where
  "record_payload_limit = num_of_int (256 * 1024)"

definition maximum_object_bytes :: int where
  "maximum_object_bytes = 10000000000"

definition suite_plan_quota :: "plan \<Rightarrow> num \<Rightarrow> plan_quota" where
  "suite_plan_quota plan storage_gb =
     \<lparr>pq_records = fst (plan_quotas plan), pq_ai_actions = snd (plan_quotas plan),
      pq_storage = num_mul storage_gb (num_of_int (1024 ^ 3))\<rparr>"

definition object_size_ok :: "num \<Rightarrow> bool" where
  "object_size_ok n \<longleftrightarrow> is_safe_integer n \<and> \<not> num_lt n (Fin 1) \<and> \<not> num_lt (num_of_int maximum_object_bytes) n"

definition suite_storage_accounting :: "num \<Rightarrow> bool option \<Rightarrow> size_source option \<Rightarrow> storage_err + storage_accounting" where
  "suite_storage_accounting bytes verified_opt source_opt =
     (let verified = (verified_opt = Some True);
          source = (case source_opt of Some s \<Rightarrow> s | None \<Rightarrow> if verified then ObjectStoreHead else ClientRegistered)
      in if \<not> object_size_ok bytes then Inl BadRegisteredSize
         else if verified \<and> source \<noteq> ObjectStoreHead then Inl NeedsHeadEvidence
         else if \<not> verified \<and> source = ObjectStoreHead then Inl HeadMustBeVerified
         else Inr \<lparr>sa_bytes = bytes, sa_source = source, sa_verified = verified\<rparr>)"

section \<open>Registration\<close>

definition exact_string :: "json \<Rightarrow> string \<Rightarrow> nat \<Rightarrow> storage_err + string" where
  "exact_string v label maximum =
     (case v of JStr s \<Rightarrow> if s = [] \<or> maximum < length s then Inl (BadField label) else Inr s | _ \<Rightarrow> Inl (BadField label))"

definition exact_checksum :: "json \<Rightarrow> string \<Rightarrow> storage_err + string" where
  "exact_checksum v label = (case v of JStr s \<Rightarrow> if sha_pattern s then Inr s else Inl (BadChecksum label) | _ \<Rightarrow> Inl (BadChecksum label))"

definition by_key :: "js_env \<Rightarrow> string \<times> 'a \<Rightarrow> string \<times> 'a \<Rightarrow> int" where
  "by_key E a b = collate E (fst a) (fst b)"

function canonical_keys :: "js_env \<Rightarrow> json \<Rightarrow> json" where
  "canonical_keys E (JArr xs) = JArr (map (canonical_keys E) xs)"
| "canonical_keys E (JObj kvs) = JObj (map (\<lambda>(k, v). (k, canonical_keys E v)) (sort_cmp (by_key E) kvs))"
| "canonical_keys E JUndef = JUndef"
| "canonical_keys E JNull = JNull"
| "canonical_keys E (JBool b) = JBool b"
| "canonical_keys E (JNum n) = JNum n"
| "canonical_keys E (JStr s) = JStr s"
  by pat_completeness auto
termination
  by (relation "measure (\<lambda>(E, v). size v)")
    (auto dest: size_entry size_list_estimation'[where f = size])

text \<open>The checked size, its source and whether the store confirmed it.\<close>

definition accounting :: "js_env \<Rightarrow> obj \<Rightarrow> json \<Rightarrow> storage_err + num \<times> json \<times> bool" where
  "accounting E data size_bytes =
     (case size_bytes of
        JNum n \<Rightarrow>
          if \<not> object_size_ok n then Inl BadObjectSize
          else (case oget data ''storageAccounting'' of
             JObj source \<Rightarrow>
               if oget source ''version'' \<noteq> JStr accounting_version \<or> oget source ''state'' \<noteq> JStr ''retained'' then Inl BadAccountingVersion
               else if \<not> strict_eq (oget source ''registeredBytes'') size_bytes then Inl BytesDiffer
               else if to_str E (oget source ''sizeSource'') \<notin> set [''client-registered'', ''object-store-head'', ''legacy-registered-metadata'']
               then Inl BadSizeSource
               else (case oget source ''objectStoreVerified'' of
                  JBool b \<Rightarrow>
                    if b \<and> oget source ''sizeSource'' \<noteq> JStr ''object-store-head'' then Inl NeedsHeadEvidence
                    else if \<not> b \<and> oget source ''sizeSource'' = JStr ''object-store-head'' then Inl HeadMustBeVerified
                    else Inr (n, oget source ''sizeSource'', b)
                | _ \<Rightarrow> Inl NoVerifiedFlag)
           | _ \<Rightarrow> Inl NoStorageAccounting)
      | _ \<Rightarrow> Inl BadObjectSize)"

definition positive_safe :: "json \<Rightarrow> bool" where
  "positive_safe v = (case v of JNum n \<Rightarrow> is_safe_integer n \<and> \<not> num_lt n (Fin 1) | _ \<Rightarrow> False)"

definition suite_storage_object_registration ::
  "js_env \<Rightarrow> string \<Rightarrow> string \<Rightarrow> obj \<Rightarrow> storage_err + registration option" where
  "suite_storage_object_registration E m t data =
     (if m = ''drive'' \<and> t = ''file-version'' then
        bind_e (accounting E data (oget data ''sizeBytes'')) (\<lambda>(bytes, source, verified).
        bind_e (exact_string (oget data ''fileId'') ''fileId'' 100) (\<lambda>file.
        if \<not> positive_safe (oget data ''fileVersionNumber'') then Inl BadFileVersion
        else bind_e (exact_string (oget data ''objectKey'') ''objectKey'' 1000) (\<lambda>key.
             bind_e (exact_checksum (oget data ''checksum'') ''checksum'') (\<lambda>sum.
             Inr (Some \<lparr>sr_module = m, sr_type = t, sr_object = key,
               sr_version = file @ '':'' @ to_str E (oget data ''fileVersionNumber''), sr_checksum = sum,
               sr_bytes = bytes, sr_source = source, sr_verified = verified\<rparr>)))))
      else if m = ''esign'' \<and> t = ''document'' then
        bind_e (accounting E data (oget data ''sizeBytes'')) (\<lambda>(bytes, source, verified).
        bind_e (exact_string (oget data ''objectRef'') ''objectRef'' 512) (\<lambda>ref.
        bind_e (exact_string (oget data ''objectVersion'') ''objectVersion'' 200) (\<lambda>ver.
        bind_e (exact_checksum (oget data ''sha256'') ''sha256'') (\<lambda>sum.
        Inr (Some \<lparr>sr_module = m, sr_type = t, sr_object = ref, sr_version = ver, sr_checksum = sum,
          sr_bytes = bytes, sr_source = source, sr_verified = verified\<rparr>)))))
      else Inr None)"

definition suite_registered_object_bytes :: "js_env \<Rightarrow> string \<Rightarrow> string \<Rightarrow> obj \<Rightarrow> storage_err + num" where
  "suite_registered_object_bytes E m t data =
     bind_e (suite_storage_object_registration E m t data) (\<lambda>r. Inr (case r of None \<Rightarrow> Fin 0 | Some x \<Rightarrow> sr_bytes x))"

definition registration_json :: "registration \<Rightarrow> obj" where
  "registration_json r = [(''accountingVersion'', JStr accounting_version), (''moduleId'', JStr (sr_module r)),
     (''recordType'', JStr (sr_type r)), (''objectRef'', JStr (sr_object r)), (''objectVersion'', JStr (sr_version r)),
     (''checksum'', JStr (sr_checksum r)), (''registeredBytes'', JNum (sr_bytes r)), (''sizeSource'', sr_source r),
     (''objectStoreVerified'', JBool (sr_verified r))]"

record object_version =
  ov_title :: string
  ov_state :: string
  ov_data :: obj

definition same_text :: "js_env \<Rightarrow> obj \<Rightarrow> obj \<Rightarrow> bool" where
  "same_text E a b \<longleftrightarrow> stringify E (canonical_keys E (JObj a)) = stringify E (canonical_keys E (JObj b))"

definition assert_suite_storage_object_update ::
  "js_env \<Rightarrow> string \<Rightarrow> string \<Rightarrow> object_version \<Rightarrow> object_version \<Rightarrow> storage_err + num \<times> num" where
  "assert_suite_storage_object_update E m t prior new =
     bind_e (suite_storage_object_registration E m t (ov_data prior)) (\<lambda>p.
     bind_e (suite_storage_object_registration E m t (ov_data new)) (\<lambda>n.
     case (p, n) of
       (None, None) \<Rightarrow> Inr (Fin 0, Fin 0)
     | (Some pr, Some nr) \<Rightarrow>
         if ov_title prior = ov_title new \<and> ov_state prior = ov_state new
            \<and> same_text E (ov_data prior) (ov_data new) \<and> same_text E (registration_json pr) (registration_json nr)
         then Inr (sr_bytes pr, sr_bytes nr) else Inl ImmutableObject
     | _ \<Rightarrow> Inl OnlyWithNewRecord))"

section \<open>Retained objects do not change\<close>

text \<open>Two values have the same text up to the order of keys.\<close>

definition same_value :: "js_env \<Rightarrow> json \<Rightarrow> json \<Rightarrow> bool" where
  "same_value E a b \<longleftrightarrow> (a = JUndef \<longleftrightarrow> b = JUndef) \<and> wire (canonical_keys E a) = wire (canonical_keys E b)"

lemma canonical_undef [simp]: "canonical_keys E v = JUndef \<longleftrightarrow> v = JUndef"
  by (cases v) auto

lemma map_of_wire:
  "distinct (map fst kvs) \<Longrightarrow> map_of (map (\<lambda>(k, v). (k, wire v)) (defined_entries (map (\<lambda>(k, v). (k, canonical_keys E v)) kvs))) k
     = (if oget kvs k = JUndef then None else Some (wire (canonical_keys E (oget kvs k))))"
proof (induction kvs)
  case (Cons e kvs)
  obtain j v where e: "e = (j, v)" by fastforce
  have "j \<notin> set (map fst kvs)" using Cons.prems e by simp
  then have "oget kvs j = JUndef" by (auto simp: oget_def split: option.splits dest: map_of_SomeD) (metis fst_conv image_eqI map_of_SomeD)
  with Cons e show ?case by (auto simp: defined_entries_def)
qed (simp add: defined_entries_def)

lemma oget_sort: "distinct (map fst kvs) \<Longrightarrow> oget (sort_cmp c kvs) k = oget kvs k"
proof -
  assume d: "distinct (map fst kvs)"
  have "mset (map fst (sort_cmp c kvs)) = mset (map fst kvs)" by (simp only: mset_map mset_sort_cmp)
  then have "distinct (map fst (sort_cmp c kvs))" using d mset_eq_imp_distinct_iff by blast
  then have "map_of (sort_cmp c kvs) = map_of kvs" using d by (intro map_of_eqI) (auto simp: map_of_eq_Some_iff)
  then show ?thesis by (simp add: oget_def)
qed

lemma same_text_values:
  assumes "json_number_ok E" "same_text E a b" "distinct (map fst a)" "distinct (map fst b)"
  shows "same_value E (oget a k) (oget b k)"
proof -
  have dist: "distinct (map fst (sort_cmp (by_key E) x))" if "distinct (map fst x)" for x :: obj
    using that mset_eq_imp_distinct_iff[of "map fst (sort_cmp (by_key E) x)" "map fst x"] by (simp only: mset_map mset_sort_cmp)
  have "wire (canonical_keys E (JObj a)) = wire (canonical_keys E (JObj b))"
    using assms(2) by (intro stringify_injective[OF assms(1)]) (auto simp: same_text_def stringify_def)
  then have "map (\<lambda>(k, v). (k, wire v)) (defined_entries (map (\<lambda>(k, v). (k, canonical_keys E v)) (sort_cmp (by_key E) a)))
      = map (\<lambda>(k, v). (k, wire v)) (defined_entries (map (\<lambda>(k, v). (k, canonical_keys E v)) (sort_cmp (by_key E) b)))" by simp
  from arg_cong[OF this, of "\<lambda>m. map_of m k"]
  show ?thesis
    by (simp only: map_of_wire[OF dist[OF assms(3)]] map_of_wire[OF dist[OF assms(4)]] oget_sort[OF assms(3)] oget_sort[OF assms(4)])
      (auto simp: same_value_def split: if_splits)
qed

lemma accounting_size: "accounting E data v = Inr (n, source, b) \<Longrightarrow> v = JNum n \<and> object_size_ok n"
  by (auto simp: accounting_def split: json.splits if_splits)

lemma registration_size: "suite_storage_object_registration E m t data = Inr (Some r) \<Longrightarrow> object_size_ok (sr_bytes r)"
  by (auto simp: suite_storage_object_registration_def bind_e_Inr_iff dest!: accounting_size split: if_splits)

lemma registration_of: "suite_storage_object_registration E m t data = Inr (Some r) \<Longrightarrow> sr_module r = m \<and> sr_type r = t"
  by (auto simp: suite_storage_object_registration_def bind_e_Inr_iff split: if_splits)

lemma object_size_finite: "object_size_ok n \<Longrightarrow> is_finite n"
  by (auto simp: object_size_ok_def is_safe_integer_def is_finite_def split: num.splits)

lemma same_registration:
  assumes "json_number_ok E" "same_text E (registration_json p) (registration_json n)"
    and "object_size_ok (sr_bytes p)" "object_size_ok (sr_bytes n)"
  shows "n = p\<lparr>sr_source := sr_source n\<rparr> \<and> same_value E (sr_source p) (sr_source n)"
proof -
  have d: "distinct (map fst (registration_json r))" for r by (simp add: registration_json_def)
  note v = same_text_values[OF assms(1,2) d d]
  have "sr_module n = sr_module p" "sr_type n = sr_type p" "sr_object n = sr_object p" "sr_version n = sr_version p"
    "sr_checksum n = sr_checksum p" "sr_bytes n = sr_bytes p" "sr_verified n = sr_verified p"
    using v[of "''moduleId''"] v[of "''recordType''"] v[of "''objectRef''"] v[of "''objectVersion''"] v[of "''checksum''"]
      v[of "''registeredBytes''"] v[of "''objectStoreVerified''"] object_size_finite[OF assms(3)] object_size_finite[OF assms(4)]
    by (simp_all add: registration_json_def same_value_def)
  moreover have "same_value E (sr_source p) (sr_source n)" using v[of "''sizeSource''"] by (simp add: registration_json_def)
  ultimately show ?thesis by (cases n) simp
qed

text \<open>C40: A retained object is immutable. An update of a record is allowed only if neither version registers
  an object, or both register the same one: the same size, checksum, identity and confirmation, with the
  same title, state and data, every field having the same value up to the order of keys inside it.\<close>

theorem retained_object_immutable:
  assumes "json_number_ok E" and "assert_suite_storage_object_update E m t prior new = Inr (before, after)"
    and "distinct (map fst (ov_data prior))" "distinct (map fst (ov_data new))"
  shows "before = after \<and>
     (suite_storage_object_registration E m t (ov_data prior) = Inr None \<and> suite_storage_object_registration E m t (ov_data new) = Inr None
        \<and> after = Fin 0
      \<or> (\<exists>p n. suite_storage_object_registration E m t (ov_data prior) = Inr (Some p)
          \<and> suite_storage_object_registration E m t (ov_data new) = Inr (Some n)
          \<and> n = p\<lparr>sr_source := sr_source n\<rparr> \<and> after = sr_bytes p \<and> ov_title new = ov_title prior \<and> ov_state new = ov_state prior
          \<and> (\<forall>k. same_value E (oget (ov_data prior) k) (oget (ov_data new) k))))"
proof -
  obtain p n where r: "suite_storage_object_registration E m t (ov_data prior) = Inr p"
    "suite_storage_object_registration E m t (ov_data new) = Inr n"
    using assms(2) by (auto simp: assert_suite_storage_object_update_def bind_e_Inr_iff)
  show ?thesis
  proof (cases p)
    case None
    then show ?thesis using assms(2) r by (cases n) (auto simp: assert_suite_storage_object_update_def)
  next
    case (Some pr)
    then obtain nr where n: "n = Some nr" using assms(2) r by (cases n) (auto simp: assert_suite_storage_object_update_def)
    have same: "same_text E (ov_data prior) (ov_data new)" "same_text E (registration_json pr) (registration_json nr)"
      "ov_title new = ov_title prior" "ov_state new = ov_state prior" "before = sr_bytes pr" "after = sr_bytes nr"
      using assms(2) by (auto simp: assert_suite_storage_object_update_def r Some n split: if_splits)
    have eq: "nr = pr\<lparr>sr_source := sr_source nr\<rparr>"
      using same_registration[OF assms(1) same(2)] registration_size r Some n by blast
    then have "sr_bytes nr = sr_bytes pr" by (metis registration.ext_inject registration.surjective registration.update_convs(7))
    then show ?thesis using same(3-) r Some n eq same_text_values[OF assms(1) same(1) assms(3,4)] by auto
  qed
qed

section \<open>Example\<close>

definition sample_document :: obj where
  "sample_document = [(''sizeBytes'', jint 5), (''objectRef'', JStr ''o''), (''objectVersion'', JStr ''v''),
     (''sha256'', JStr (replicate 64 CHR ''a'')),
     (''storageAccounting'', JObj [(''version'', JStr accounting_version), (''state'', JStr ''retained''), (''registeredBytes'', jint 5),
        (''sizeSource'', JStr ''client-registered''), (''objectStoreVerified'', JBool False)])]"

definition sample_version :: object_version where
  "sample_version = \<lparr>ov_title = ''t'', ov_state = ''s'', ov_data = sample_document\<rparr>"

lemma document_registered:
  "\<exists>r. suite_storage_object_registration sample_env ''esign'' ''document'' sample_document = Inr (Some r) \<and> sr_bytes r = num_of_int 5"
proof -
  have "object_size_ok (num_of_int 5)"
    using num_lt_int[of 5 1] by (simp add: object_size_ok_def max_safe_def maximum_object_bytes_def) (simp add: num_of_int_def)
  then have a: "accounting sample_env sample_document (jint 5) = Inr (num_of_int 5, JStr ''client-registered'', False)"
    by (simp add: accounting_def sample_document_def jint_def strict_eq_def)
  have "sha_pattern (replicate 64 CHR ''a'')" by (simp add: sha_pattern_def list_all_iff is_lower_hex_def code_def)
  then show ?thesis
    using a by (simp add: suite_storage_object_registration_def sample_document_def exact_string_def exact_checksum_def)
qed

theorem retained_object_immutable_witness:
  "\<exists>n. assert_suite_storage_object_update sample_env ''esign'' ''document'' sample_version sample_version = Inr (num_of_int 5, n)
     \<and> n = num_of_int 5"
proof -
  have run: "assert_suite_storage_object_update sample_env ''esign'' ''document'' sample_version sample_version = Inr (num_of_int 5, num_of_int 5)"
    using document_registered by (auto simp: assert_suite_storage_object_update_def sample_version_def same_text_def)
  have "distinct (map fst (ov_data sample_version))" by (simp add: sample_version_def sample_document_def)
  from retained_object_immutable[OF sample_json_numbers run this this] run show ?thesis by blast
qed

end
