(* ===== verification/Suite_Registry.thy ===== *)
theory Suite_Registry
  imports Additive_Actions
begin

text \<open>
  The registry of workspace modules (\<open>shared/suite.ts\<close>, with the modules of
  \<open>shared/extended-business-actions.ts\<close>): what each module is, the plan it needs, and which modules an AI
  action may read. Of an extended action only its record type matters here.
\<close>

section \<open>Modules of the extended engine\<close>

definition extended_modules :: "business_module list" where
  "extended_modules =
     [\<lparr>m_id = ''events'', m_name = ''GatherLedger'', m_category = ''Events and ticketing'',
        m_thesis = ''Treat releases, inventory, money receipts, tickets, access, and attendee proposals as one auditable event ledger.'',
        m_min_plan = PlanScale, m_monthly_usd = 50, m_class = ClassHigh, m_cpu = 500, m_memory = 768, m_storage = 12, m_concurrency = 3,
        m_qualities = [''Attendee updates remain cited proposals'', ''Commit-time inventory checks'', ''Payment and gate receipts never inferred by a model'']\<rparr>,
      \<lparr>m_id = ''people'', m_name = ''PeopleWeave'', m_category = ''People operations'',
        m_thesis = ''Connect policies, onboarding, leave, attendance, reviews, and offboarding without delegating employment decisions to a model.'',
        m_min_plan = PlanScale, m_monthly_usd = 50, m_class = ClassHigh, m_cpu = 500, m_memory = 768, m_storage = 10, m_concurrency = 2,
        m_qualities = [''Evidence-cited growth proposals'', ''Human employment decisions'', ''Immutable policy and attendance correction receipts'']\<rparr>,
      \<lparr>m_id = ''metering'', m_name = ''MeterProof'', m_category = ''Usage billing'',
        m_thesis = ''Make every usage event, aggregate, plan, charge preview, credit, invoice, and payment independently reproducible.'',
        m_min_plan = PlanFleet, m_monthly_usd = 200, m_class = ClassAccelerated, m_cpu = 1500, m_memory = 2048, m_storage = 50, m_concurrency = 8,
        m_qualities = [''Deterministic charge previews'', ''Invoice explanations cite frozen evidence'', ''No model-created charges or credits'']\<rparr>,
      \<lparr>m_id = ''assurance'', m_name = ''AssureGraph'', m_category = ''Risk and assurance'',
        m_thesis = ''Bind risks, controls, evidence, tests, remediations, exceptions, and audit packs to exact owners and clocks.'',
        m_min_plan = PlanFleet, m_monthly_usd = 200, m_class = ClassHigh, m_cpu = 900, m_memory = 1536, m_storage = 40, m_concurrency = 4,
        m_qualities = [''Gap analysis remains a cited proposal'', ''Human control-test outcomes'', ''Content-addressed audit packs'']\<rparr>,
      \<lparr>m_id = ''live'', m_name = ''LiveForum'', m_category = ''Live sessions'',
        m_thesis = ''Coordinate grants, consent, broadcasts, chat, prompts, responses, and replay proposals without silent access or moderation.'',
        m_min_plan = PlanFleet, m_monthly_usd = 200, m_class = ClassAccelerated, m_cpu = 2000, m_memory = 3072, m_storage = 100, m_concurrency = 12,
        m_qualities = [''Consent-pinned broadcast state'', ''Attributed moderation decisions'', ''Replay highlights remain unpublished proposals'']\<rparr>]"

definition extended_record_types :: "(string \<times> string) list" where
  "extended_record_types =
     [(''events'', ''event''),
      (''events'', ''event-release''),
      (''events'', ''ticket-type''),
      (''events'', ''ticket-reservation''),
      (''events'', ''checkout-command''),
      (''events'', ''payment-receipt''),
      (''events'', ''ticket''),
      (''events'', ''refund-request''),
      (''events'', ''refund-receipt''),
      (''events'', ''check-in-receipt''),
      (''events'', ''ai-proposal-request''),
      (''events'', ''ai-proposal-request''),
      (''people'', ''people-profile''),
      (''people'', ''onboarding''),
      (''people'', ''people-policy''),
      (''people'', ''policy-acknowledgement''),
      (''people'', ''leave-request''),
      (''people'', ''leave-decision''),
      (''people'', ''attendance''),
      (''people'', ''attendance-correction''),
      (''people'', ''people-review''),
      (''people'', ''review-submission''),
      (''people'', ''ai-proposal-request''),
      (''people'', ''access-revocation-receipt''),
      (''people'', ''offboarding-receipt''),
      (''metering'', ''usage-meter''),
      (''metering'', ''usage-event''),
      (''metering'', ''usage-aggregate''),
      (''metering'', ''ai-proposal-request''),
      (''metering'', ''billing-plan''),
      (''metering'', ''charge-preview''),
      (''metering'', ''billing-subscription''),
      (''metering'', ''credit-grant''),
      (''metering'', ''billing-invoice''),
      (''metering'', ''billing-invoice''),
      (''metering'', ''invoice-payment-receipt''),
      (''metering'', ''ai-proposal-request''),
      (''assurance'', ''assurance-program''),
      (''assurance'', ''assurance-subject''),
      (''assurance'', ''assurance-risk''),
      (''assurance'', ''assurance-control''),
      (''assurance'', ''control-risk-map''),
      (''assurance'', ''evidence-request''),
      (''assurance'', ''assurance-evidence''),
      (''assurance'', ''control-test''),
      (''assurance'', ''ai-proposal-request''),
      (''assurance'', ''assurance-remediation''),
      (''assurance'', ''control-exception''),
      (''assurance'', ''audit-pack''),
      (''live'', ''live-session''),
      (''live'', ''presenter-grant''),
      (''live'', ''attendee-access''),
      (''live'', ''media-consent-receipt''),
      (''live'', ''broadcast-receipt''),
      (''live'', ''broadcast-update''),
      (''live'', ''live-chat-message''),
      (''live'', ''chat-moderation-receipt''),
      (''live'', ''live-prompt''),
      (''live'', ''live-prompt-response''),
      (''live'', ''broadcast-receipt''),
      (''live'', ''ai-proposal-request'')]"

section \<open>Module definitions\<close>

record resource_requirements =
  rr_class :: resource_class
  rr_cpu :: nat
  rr_memory :: nat
  rr_storage :: nat
  rr_concurrency :: nat

record suite_module =
  sm_id :: string
  sm_name :: string
  sm_inspired :: string
  sm_category :: string
  sm_description :: string
  sm_plan :: plan
  sm_class :: resource_class
  sm_requirements :: "resource_requirements option"
  sm_types :: "string list"
  sm_ai :: "string list"
  sm_guidance :: "string option"
  sm_external :: "string list option"

definition requirements_of :: "business_module \<Rightarrow> resource_requirements" where
  "requirements_of m = \<lparr>rr_class = m_class m, rr_cpu = m_cpu m, rr_memory = m_memory m, rr_storage = m_storage m,
     rr_concurrency = m_concurrency m\<rparr>"

definition suite_module_of :: "(string \<times> string) list \<Rightarrow> string list \<Rightarrow> business_module \<Rightarrow> suite_module" where
  "suite_module_of inspirations types m =
     \<lparr>sm_id = m_id m, sm_name = m_name m, sm_inspired = the (map_of inspirations (m_id m)), sm_category = m_category m,
      sm_description = m_thesis m, sm_plan = m_min_plan m, sm_class = m_class m, sm_requirements = Some (requirements_of m),
      sm_types = uniq types, sm_ai = m_qualities m, sm_guidance = None, sm_external = None\<rparr>"

definition additive_category_references :: "(string \<times> string) list" where
  "additive_category_references =
     [(''tables'', ''Public relational-data and spreadsheet patterns''),
      (''meetings'', ''Public meeting transcript and action-ledger patterns''),
      (''insights'', ''Public business-intelligence and measurement patterns''),
      (''learning'', ''Public learning-management and credential patterns''),
      (''community'', ''Public forum and community-management patterns'')]"

definition extended_category_references :: "(string \<times> string) list" where
  "extended_category_references =
     [(''events'', ''Public event, ticketing, and access-control patterns''),
      (''people'', ''Public HRIS and employment-record patterns''),
      (''metering'', ''Public usage-metering and billing-ledger patterns''),
      (''assurance'', ''Public risk, control, and audit-evidence patterns''),
      (''live'', ''Public livestream, chat, and media-consent patterns'')]"

definition additive_suite_modules :: "suite_module list" where
  "additive_suite_modules = map (\<lambda>m. suite_module_of additive_category_references
     (map a_type (filter (\<lambda>a. a_module a = m_id m) additive_actions) @ [''additive-command-receipt'']) m) additive_modules"

definition extended_suite_modules :: "suite_module list" where
  "extended_suite_modules = map (\<lambda>m. suite_module_of extended_category_references
     (map snd (filter (\<lambda>(i, _). i = m_id m) extended_record_types)
       @ (if m_id m = ''metering'' then [''credit-application-receipt''] else []) @ [''extended-business-command-receipt'']) m) extended_modules"

definition automate_module :: suite_module where
  "automate_module = \<lparr>sm_id = ''automate'', sm_name = ''Automate'', sm_inspired = ''Activepieces'', sm_category = ''Automation'',
     sm_description = ''Agent-authored workflows with typed triggers, approvals, retries, and a shared event bus.'',
     sm_plan = PlanStarter, sm_class = ClassShared, sm_requirements = None,
     sm_types = [''flow'', ''trigger'', ''run'', ''connection''],
     sm_ai = [''draft workflow'', ''repair failed run'', ''explain automation''],
     sm_guidance = None,
     sm_external = None\<rparr>"

definition publish_module :: suite_module where
  "publish_module = \<lparr>sm_id = ''publish'', sm_name = ''Publish'', sm_inspired = ''Postiz'', sm_category = ''Social publishing'',
     sm_description = ''Plan, adapt, approve, schedule, and measure content across connected channels.'',
     sm_plan = PlanStarter, sm_class = ClassShared, sm_requirements = None,
     sm_types = [''post'', ''campaign'', ''channel'', ''media''],
     sm_ai = [''adapt by channel'', ''build campaign'', ''summarize performance''],
     sm_guidance = None,
     sm_external = None\<rparr>"

definition inbox_module :: suite_module where
  "inbox_module = \<lparr>sm_id = ''inbox'', sm_name = ''Inbox'', sm_inspired = ''Chatwoot'', sm_category = ''Customer support'',
     sm_description = ''A shared customer inbox with AI triage, suggested replies, SLAs, and human approval.'',
     sm_plan = PlanStarter, sm_class = ClassShared, sm_requirements = None,
     sm_types = [''conversation'', ''message'', ''inbox'', ''sla''],
     sm_ai = [''triage conversation'', ''draft reply'', ''detect escalation''],
     sm_guidance = None,
     sm_external = None\<rparr>"

definition crm_module :: suite_module where
  "crm_module = \<lparr>sm_id = ''crm'', sm_name = ''CRM'', sm_inspired = ''Frappe CRM'', sm_category = ''Customer relationships'',
     sm_description = ''Contacts, companies, pipelines, activities, and autonomous follow-up plans in one graph.'',
     sm_plan = PlanStarter, sm_class = ClassShared, sm_requirements = None,
     sm_types = [''contact'', ''company'', ''deal'', ''activity''],
     sm_ai = [''enrich record'', ''summarize relationship'', ''recommend next action''],
     sm_guidance = None,
     sm_external = None\<rparr>"

definition tasks_module :: suite_module where
  "tasks_module = \<lparr>sm_id = ''tasks'', sm_name = ''Tasks'', sm_inspired = ''Vikunja'', sm_category = ''Task management'',
     sm_description = ''Projects, tasks, dependencies, recurring work, and agent-generated execution plans.'',
     sm_plan = PlanStarter, sm_class = ClassShared, sm_requirements = None,
     sm_types = [''project'', ''task'', ''milestone'', ''label''],
     sm_ai = [''break down goal'', ''prioritize backlog'', ''write progress update''],
     sm_guidance = None,
     sm_external = None\<rparr>"

definition feedback_module :: suite_module where
  "feedback_module = \<lparr>sm_id = ''feedback'', sm_name = ''Feedback'', sm_inspired = ''Fider'', sm_category = ''Product feedback'',
     sm_description = ''Feedback boards connected to customers, revenue, releases, and evidence-backed roadmaps.'',
     sm_plan = PlanStarter, sm_class = ClassShared, sm_requirements = None,
     sm_types = [''suggestion'', ''vote'', ''roadmap-item'', ''release''],
     sm_ai = [''deduplicate feedback'', ''cluster themes'', ''draft release note''],
     sm_guidance = None,
     sm_external = None\<rparr>"

definition knowledge_module :: suite_module where
  "knowledge_module = \<lparr>sm_id = ''knowledge'', sm_name = ''Knowledge'', sm_inspired = ''BookStack'', sm_category = ''Knowledge base'',
     sm_description = ''Structured documentation with semantic retrieval, source citations, and answer generation.'',
     sm_plan = PlanStarter, sm_class = ClassShared, sm_requirements = None,
     sm_types = [''space'', ''page'', ''block'', ''attachment''],
     sm_ai = [''answer with citations'', ''draft page'', ''detect stale guidance''],
     sm_guidance = None,
     sm_external = None\<rparr>"

definition links_module :: suite_module where
  "links_module = \<lparr>sm_id = ''links'', sm_name = ''Links'', sm_inspired = ''Slash'', sm_category = ''Link management'',
     sm_description = ''Branded short links, routing rules, conversion events, and privacy-conscious analytics.'',
     sm_plan = PlanStarter, sm_class = ClassShared, sm_requirements = None,
     sm_types = [''link'', ''route'', ''event'', ''domain''],
     sm_ai = [''name link'', ''detect broken destination'', ''summarize traffic''],
     sm_guidance = None,
     sm_external = None\<rparr>"

definition giveaways_module :: suite_module where
  "giveaways_module = \<lparr>sm_id = ''giveaways'', sm_name = ''Giveaways'', sm_inspired = ''KingSumo'', sm_category = ''Growth'',
     sm_description = ''Referral contests with fraud signals, weighted entries, landing pages, and winner audits.'',
     sm_plan = PlanStarter, sm_class = ClassShared, sm_requirements = None,
     sm_types = [''contest'', ''entrant'', ''referral'', ''reward''],
     sm_ai = [''draft contest'', ''review fraud signals'', ''write winner announcement''],
     sm_guidance = None,
     sm_external = None\<rparr>"

definition testimonials_module :: suite_module where
  "testimonials_module = \<lparr>sm_id = ''testimonials'', sm_name = ''Testimonials'', sm_inspired = ''Testimonial collection tools'', sm_category = ''Social proof'',
     sm_description = ''Collect, approve, tag, and publish written or video testimonials through embeddable widgets.'',
     sm_plan = PlanStarter, sm_class = ClassShared, sm_requirements = None,
     sm_types = [''request'', ''testimonial'', ''widget'', ''consent''],
     sm_ai = [''draft request'', ''extract highlights'', ''flag sensitive claims''],
     sm_guidance = None,
     sm_external = None\<rparr>"

definition brand_pages_module :: suite_module where
  "brand_pages_module = \<lparr>sm_id = ''brand-pages'', sm_name = ''Brand Pages'', sm_inspired = ''QR and link-in-bio tools'', sm_category = ''Brand presence'',
     sm_description = ''Dynamic QR codes and fast link-in-bio pages with reusable brand systems and analytics.'',
     sm_plan = PlanStarter, sm_class = ClassShared, sm_requirements = None,
     sm_types = [''page'', ''qr-code'', ''theme'', ''event''],
     sm_ai = [''compose page'', ''generate campaign variants'', ''summarize conversions''],
     sm_guidance = None,
     sm_external = None\<rparr>"

definition consent_module :: suite_module where
  "consent_module = \<lparr>sm_id = ''consent'', sm_name = ''Consent & Privacy'', sm_inspired = ''Public consent and GPC standards'', sm_category = ''Privacy operations'',
     sm_description = ''Versioned consent policies, bounded resource scans, domain proof, append-only choice receipts, and evidence-first privacy operations.'',
     sm_plan = PlanStarter, sm_class = ClassShared, sm_requirements = None,
     sm_types = [''site'', ''scan-run'', ''resource-observation'', ''service'', ''purpose'', ''policy-revision'', ''consent-receipt'', ''alert''],
     sm_ai = [''suggest evidence-backed classification'', ''explain policy drift'', ''draft unreviewed descriptions''],
     sm_guidance = Some ''Use Scale for many domains, frequent scans, large bounded exports, or long receipt retention.'',
     sm_external = Some [''customer-selected CDN'', ''customer-selected geolocation'', ''customer-selected scanning proxy'']\<rparr>"

definition seo_module :: suite_module where
  "seo_module = \<lparr>sm_id = ''seo'', sm_name = ''SEO Rank & Content'', sm_inspired = ''Public search measurement standards'', sm_category = ''Search visibility'',
     sm_description = ''Authorized rank checks, first-party search evidence, safe content audits, and cited briefs without fabricated measurements.'',
     sm_plan = PlanStarter, sm_class = ClassShared, sm_requirements = None,
     sm_types = [''site'', ''connector'', ''keyword'', ''rank-check'', ''rank-observation'', ''search-metric'', ''audit-run'', ''page-snapshot'', ''content-issue'', ''content-brief'', ''report''],
     sm_ai = [''cluster exact queries'', ''explain cited changes'', ''draft evidence-linked briefs''],
     sm_guidance = Some ''Use Scale for many sites, locale and device matrices, frequent checks, broad crawls, or long measurement history.'',
     sm_external = Some [''customer-selected SERP provider'', ''customer proxy'', ''Search Console'', ''customer CMS'']\<rparr>"

definition finance_module :: suite_module where
  "finance_module = \<lparr>sm_id = ''finance'', sm_name = ''Freelancer Finance & Time'', sm_inspired = ''Public bookkeeping and time-tracking patterns'', sm_category = ''Finance operations'',
     sm_description = ''Integer-minor-unit time billing, immutable invoice issuance, manual payment facts, and cited bookkeeping assistance.'',
     sm_plan = PlanStarter, sm_class = ClassShared, sm_requirements = None,
     sm_types = [''business-profile'', ''client'', ''project'', ''time-entry'', ''expense'', ''receipt'', ''invoice'', ''payment'', ''reconciliation-match'', ''delivery'', ''financial-export''],
     sm_ai = [''extract unapproved receipt fields'', ''suggest reconciliation candidates'', ''summarize cited unbilled work''],
     sm_guidance = Some ''Use Scale for larger teams, high receipt volume, many currencies, or long document retention.'',
     sm_external = Some [''customer payment provider'', ''customer email provider'', ''customer OCR provider'', ''customer object storage'']\<rparr>"

definition notify_module :: suite_module where
  "notify_module = \<lparr>sm_id = ''notify'', sm_name = ''Notifications'', sm_inspired = ''CloudEvents and public notification patterns'', sm_category = ''Product notifications'',
     sm_description = ''Typed immutable events, preference-aware in-product delivery, exact workflow versions, and auditable suppression without shared sender credentials.'',
     sm_plan = PlanStarter, sm_class = ClassShared, sm_requirements = None,
     sm_types = [''subscriber'', ''topic'', ''preference'', ''event-schema'', ''event'', ''template'', ''workflow'', ''notification-run'', ''delivery-attempt'', ''digest-bucket'', ''inbox-item'', ''provider-receipt''],
     sm_ai = [''draft unapproved workflow content'', ''explain cited delivery failures'', ''suggest quiet-hour policy''],
     sm_guidance = Some ''Use Scale for high event volume, many customer providers, large digests, or extended delivery history.'',
     sm_external = Some [''customer email provider'', ''customer SMS provider'', ''customer push provider'', ''customer chat provider'']\<rparr>"

definition hire_module :: suite_module where
  "hire_module = \<lparr>sm_id = ''hire'', sm_name = ''Hiring'', sm_inspired = ''Public recruiting workflow standards'', sm_category = ''Recruiting'',
     sm_description = ''Versioned jobs and applications with structured human review, immutable evidence, candidate rights, and no automated terminal decisions.'',
     sm_plan = PlanStarter, sm_class = ClassShared, sm_requirements = None,
     sm_types = [''job'', ''pipeline'', ''candidate'', ''application'', ''resume-document'', ''application-event'', ''interview-plan'', ''interview'', ''scorecard'', ''decision'', ''offer'', ''communication'', ''consent-notice'', ''deletion-request'', ''export''],
     sm_ai = [''extract cited resume facts'', ''summarize selected candidate evidence'', ''draft review-only recruiting content''],
     sm_guidance = Some ''Use Scale for many recruiters, large private resume storage, high application volume, OCR, or long retention history.'',
     sm_external = Some [''customer object storage'', ''customer calendar'', ''customer email provider'', ''customer-selected OCR or model endpoint'']\<rparr>"

definition collab_module :: suite_module where
  "collab_module = \<lparr>sm_id = ''collab'', sm_name = ''Collaborative Docs'', sm_inspired = ''Open document and canvas collaboration standards'', sm_category = ''Collaboration'',
     sm_description = ''Durable structured documents and canvases with validated operations, immutable revisions, controlled sharing, exports, and approval-gated AI patches.'',
     sm_plan = PlanStarter, sm_class = ClassShared, sm_requirements = None,
     sm_types = [''space'', ''document'', ''canvas'', ''operation'', ''revision'', ''comment-thread'', ''asset'', ''share-link'', ''template'', ''export-job'', ''ai-patch''],
     sm_ai = [''propose a version-bound patch'', ''summarize an exact selected revision'', ''draft structured blocks for review''],
     sm_guidance = Some ''Use Scale for many concurrent editors, large canvases or media assets, high operation volume, or extended revision history.'',
     sm_external = Some [''customer object storage'', ''customer-selected export renderer'', ''customer-selected model endpoint'']\<rparr>"

definition schedule_module :: suite_module where
  "schedule_module = \<lparr>sm_id = ''schedule'', sm_name = ''Scheduling'', sm_inspired = ''Public scheduling and iCalendar standards'', sm_category = ''Scheduling'',
     sm_description = ''Conflict-aware availability, immutable event releases, deterministic routing, bookings, and evidence-backed calendar reconciliation.'',
     sm_plan = PlanStarter, sm_class = ClassShared, sm_requirements = None,
     sm_types = [''host'', ''schedule'', ''schedule-revision'', ''event-type'', ''event-release'', ''slot-snapshot'', ''booking'', ''booking-event'', ''connector''],
     sm_ai = [''draft review-only availability'', ''explain cited unavailability'', ''suggest routing changes for review''],
     sm_guidance = Some ''Use Scale for many hosts, calendar connections, routing rules, public domains, webhook volume, or long booking history.'',
     sm_external = Some [''customer calendar provider'', ''customer conferencing provider'', ''customer email provider'', ''customer anti-abuse provider'']\<rparr>"

definition forms_module :: suite_module where
  "forms_module = \<lparr>sm_id = ''forms'', sm_name = ''Forms'', sm_inspired = ''Public JSON Schema and accessibility standards'', sm_category = ''Data collection'',
     sm_description = ''Accessible versioned forms with deterministic logic, exact-release validation, corrections, privacy classes, and bounded exports.'',
     sm_plan = PlanStarter, sm_class = ClassShared, sm_requirements = None,
     sm_types = [''form'', ''form-release'', ''submission'', ''submission-version'', ''result-view'', ''export'', ''rights-request''],
     sm_ai = [''draft review-only forms'', ''summarize aggregate results'', ''suggest cited form improvements''],
     sm_guidance = Some ''Use Scale for high submission or upload volume, many public domains and locales, frequent exports, or long retention.'',
     sm_external = Some [''customer object storage'', ''customer malware scanner'', ''customer email provider'', ''customer webhook provider'']\<rparr>"

definition flags_module :: suite_module where
  "flags_module = \<lparr>sm_id = ''flags'', sm_name = ''Feature Flags'', sm_inspired = ''OpenFeature and public experimentation standards'', sm_category = ''Product delivery'',
     sm_description = ''Typed local evaluation, immutable signed manifests, approval-bound revisions, exposure evidence, and quality-gated experiments.'',
     sm_plan = PlanStarter, sm_class = ClassShared, sm_requirements = None,
     sm_types = [''flag-project'', ''environment'', ''flag'', ''config-revision'', ''approval'', ''manifest'', ''evaluation-receipt'', ''exposure'', ''experiment'', ''analysis-run'', ''rollback-event''],
     sm_ai = [''draft review-only rollout plans'', ''explain exact evaluation receipts'', ''suggest stale flags with evidence''],
     sm_guidance = Some ''Use Scale for many environments, high manifest fan-out, large exposure volume, long retention, or concurrent experiments.'',
     sm_external = Some [''customer analytics provider'', ''customer data warehouse'', ''customer CDN'']\<rparr>"

definition esign_module :: suite_module where
  "esign_module = \<lparr>sm_id = ''esign'', sm_name = ''E-Signature Workflow'', sm_inspired = ''Public electronic-signature workflow standards'', sm_category = ''Agreements'',
     sm_description = ''Content-addressed agreement templates, signer workflows, explicit approvals, private completion evidence, and cited AI proposals without autonomous consent or legal-compliance claims.'',
     sm_plan = PlanStarter, sm_class = ClassShared, sm_requirements = None,
     sm_types = [''template'', ''template-version'', ''document'', ''envelope'', ''dispatch-plan'', ''signer-session'', ''field-completion'', ''decline-event'', ''void-event'', ''reminder-plan'', ''certificate'', ''esign-ai-request-audit'', ''esign-command-receipt''],
     sm_ai = [''propose cited clauses for review'', ''propose cited field placement'', ''propose cited signer routing''],
     sm_guidance = Some ''Use Scale for large document collections, many concurrent envelopes, extended evidence retention, or customer-managed object rendering.'',
     sm_external = Some [''customer object storage'', ''customer delivery provider'', ''customer-selected identity provider'', ''customer-selected model endpoint'']\<rparr>"

definition email_module :: suite_module where
  "email_module = \<lparr>sm_id = ''email'', sm_name = ''Letterline'', sm_inspired = ''Public permission-based email marketing standards'', sm_category = ''Email marketing'',
     sm_description = ''Purpose-bound audiences, immutable consent and suppression evidence, reviewed campaign versions, cited AI proposals, and provider-neutral dispatch plans.'',
     sm_plan = PlanStarter, sm_class = ClassShared, sm_requirements = None,
     sm_types = [''audience'', ''subscriber'', ''consent-receipt'', ''suppression'', ''campaign'', ''campaign-version'', ''campaign-review'', ''campaign-approval'', ''campaign-schedule'', ''dispatch-plan'', ''provider-receipt'', ''audience-export'', ''email-ai-request-audit'', ''email-command-receipt''],
     sm_ai = [''propose cited subject lines'', ''propose cited newsletter bodies'', ''flag unsupported claims for review''],
     sm_guidance = Some ''Use Scale for large audiences, high provider-receipt volume, frequent campaigns, long retention, or large private exports.'',
     sm_external = Some [''customer email provider'', ''customer verification gateway'', ''customer-selected model endpoint'']\<rparr>"

definition projects_module :: suite_module where
  "projects_module = \<lparr>sm_id = ''projects'', sm_name = ''Projects'', sm_inspired = ''Plane'', sm_category = ''Product delivery'',
     sm_description = ''Outcome projects, scoped issues, acyclic dependencies, capacity-safe cycle snapshots, and cited planning proposals.'',
     sm_plan = PlanScale, sm_class = ClassHigh, sm_requirements = None,
     sm_types = [''project'', ''issue'', ''cycle'', ''premium-ai-request-audit'', ''premium-command-receipt''],
     sm_ai = [''propose cited plan'', ''explain project health with citations''],
     sm_guidance = None,
     sm_external = None\<rparr>"

definition drive_module :: suite_module where
  "drive_module = \<lparr>sm_id = ''drive'', sm_name = ''Drive'', sm_inspired = ''Nextcloud'', sm_category = ''Files'',
     sm_description = ''Private vaults, checksum-addressed file versions, approved expiring shares, retention controls, and cited document understanding.'',
     sm_plan = PlanScale, sm_class = ClassHigh, sm_requirements = None,
     sm_types = [''vault'', ''file'', ''file-version'', ''share'', ''premium-ai-request-audit'', ''premium-command-receipt''],
     sm_ai = [''understand checksum-pinned document with citations''],
     sm_guidance = None,
     sm_external = None\<rparr>"

definition channels_module :: suite_module where
  "channels_module = \<lparr>sm_id = ''channels'', sm_name = ''Channels'', sm_inspired = ''Zulip'', sm_category = ''Team communication'',
     sm_description = ''Topic-first streams with preview-approved messages, redaction receipts, human decisions, cited summaries, and non-sending digests.'',
     sm_plan = PlanScale, sm_class = ClassHigh, sm_requirements = None,
     sm_types = [''stream'', ''topic'', ''message'', ''premium-ai-request-audit'', ''premium-command-receipt''],
     sm_ai = [''summarize topic with citations'', ''draft non-sending digest''],
     sm_guidance = None,
     sm_external = None\<rparr>"

definition operations_module :: suite_module where
  "operations_module = \<lparr>sm_id = ''operations'', sm_name = ''Operations'', sm_inspired = ''ERPNext'', sm_category = ''Business operations'',
     sm_description = ''Parties, priced items, immutable order and invoice snapshots, balanced journals, payment receipts, and cited variance explanations.'',
     sm_plan = PlanFleet, sm_class = ClassAccelerated, sm_requirements = None,
     sm_types = [''party'', ''item'', ''order'', ''invoice'', ''journal'', ''payment'', ''premium-ai-request-audit'', ''premium-command-receipt''],
     sm_ai = [''explain operational variance without posting accounting facts''],
     sm_guidance = None,
     sm_external = None\<rparr>"

definition assistant_module :: suite_module where
  "assistant_module = \<lparr>sm_id = ''assistant'', sm_name = ''Assistant'', sm_inspired = ''LibreChat'', sm_category = ''AI workspace'',
     sm_description = ''A model-neutral workbench for attached evidence, immutable prompts, reviewed cited results, and allowlisted proposal-only agents.'',
     sm_plan = PlanFleet, sm_class = ClassAccelerated, sm_requirements = None,
     sm_types = [''collection'', ''source-attachment'', ''prompt-version'', ''premium-ai-request-audit'', ''ai-result'', ''agent'', ''premium-command-receipt''],
     sm_ai = [''run attached evidence-bound prompt'', ''review cited model result'', ''propose allowlisted agent actions''],
     sm_guidance = None,
     sm_external = None\<rparr>"

definition suite_modules :: "suite_module list" where
  "suite_modules = [automate_module, publish_module, inbox_module, crm_module, tasks_module, feedback_module, knowledge_module, links_module, giveaways_module, testimonials_module, brand_pages_module, consent_module, seo_module, finance_module, notify_module, hire_module, collab_module, schedule_module, forms_module, flags_module, esign_module, email_module] @ additive_suite_modules @ extended_suite_modules @ [projects_module, drive_module, channels_module, operations_module, assistant_module]"

definition suite_module_by_id :: "string \<Rightarrow> suite_module option" where
  "suite_module_by_id i = map_of (rev (map (\<lambda>m. (sm_id m, m)) suite_modules)) i"

section \<open>Plans and read scopes\<close>

text \<open>
  A plan is looked up by its name; a name outside the table ranks below every plan, and a name that the
  table inherits from \<open>Object.prototype\<close> compares false with every rank, which comes to the same for a
  module, whose plan is a paid one.
\<close>

definition suite_plan_rank :: "plan \<Rightarrow> int" where
  "suite_plan_rank p = (case p of PlanNone \<Rightarrow> - 1 | PlanStarter \<Rightarrow> 0 | PlanScale \<Rightarrow> 1 | PlanFleet \<Rightarrow> 2)"

definition suite_plan_allows :: "string \<Rightarrow> suite_module \<Rightarrow> bool" where
  "suite_plan_allows p m \<longleftrightarrow>
     (case plan_of p of Some q \<Rightarrow> suite_plan_rank q | None \<Rightarrow> - 1) \<ge> suite_plan_rank (sm_plan m)"

text \<open>No record type may be created or edited outside the commands of its module.\<close>

definition suite_generic_create_record_types :: "suite_module \<Rightarrow> string list" where
  "suite_generic_create_record_types m = []"

definition suite_record_allows_generic_mutation :: "string \<Rightarrow> string \<Rightarrow> bool" where
  "suite_record_allows_generic_mutation m t \<longleftrightarrow>
     (case suite_module_by_id m of None \<Rightarrow> False | Some d \<Rightarrow> t \<in> set (suite_generic_create_record_types d))"

datatype tool_operation = ToolList | ToolCreate | ToolAi

definition suite_tool_name :: "string \<Rightarrow> tool_operation \<Rightarrow> string" where
  "suite_tool_name m t = map (\<lambda>c. if c = CHR ''-'' then CHR ''_'' else c) m @ ''_''
     @ (case t of ToolList \<Rightarrow> ''list'' | ToolCreate \<Rightarrow> ''create'' | ToolAi \<Rightarrow> ''ai'')"

definition ai_read_scopes :: "(string \<times> string list) list" where
  "ai_read_scopes =
     [(''automate'', [''automate'']),
      (''publish'', [''publish'', ''drive'']),
      (''inbox'', [''inbox'', ''crm'', ''knowledge'']),
      (''crm'', [''crm'', ''inbox'']),
      (''tasks'', [''tasks'', ''projects'']),
      (''feedback'', [''feedback'', ''crm'']),
      (''knowledge'', [''knowledge'']),
      (''links'', [''links'', ''brand-pages'']),
      (''giveaways'', [''giveaways'']),
      (''testimonials'', [''testimonials'', ''crm'']),
      (''brand-pages'', [''brand-pages'', ''links'']),
      (''projects'', [''projects'', ''tasks'']),
      (''drive'', [''drive'']),
      (''channels'', [''channels'', ''tasks'']),
      (''operations'', [''operations'', ''crm'']),
      (''assistant'', [''assistant'']),
      (''consent'', [''consent'']),
      (''seo'', [''seo'']),
      (''finance'', [''finance'']),
      (''notify'', [''notify'']),
      (''hire'', [''hire'']),
      (''collab'', [''collab'']),
      (''schedule'', [''schedule'', ''notify'', ''crm'']),
      (''forms'', [''forms'', ''crm'']),
      (''flags'', [''flags'']),
      (''esign'', [''esign'', ''drive'', ''knowledge'']),
      (''email'', [''email'', ''knowledge'', ''crm'', ''feedback''])]"

definition cross_tool_modules :: "string list" where
  "cross_tool_modules = [''projects'', ''drive'', ''channels'', ''operations'', ''tables'', ''meetings'', ''insights'', ''learning'', ''community'', ''events'', ''people'', ''metering'', ''assurance'', ''live'']"

text \<open>
  The scopes are found by a property lookup: under a name of \<open>Object.prototype\<close> the code reads an
  inherited member that is no list of modules, \<open>None\<close> here.
\<close>

definition suite_ai_read_scopes :: "string \<Rightarrow> bool \<Rightarrow> string list option" where
  "suite_ai_read_scopes m explicit_selection =
     (if explicit_selection \<and> m \<in> set cross_tool_modules then Some (map sm_id suite_modules)
      else (case map_of ai_read_scopes m of Some ms \<Rightarrow> Some ms
            | None \<Rightarrow> if m \<in> set proto_keys then None else Some [m]))"

section \<open>Workspaces, records, actions and tokens\<close>

text \<open>An absent field is \<open>None\<close>; times are the texts of \<open>toISOString\<close>.\<close>

record suite_workspace =
  sw_id :: string
  sw_user :: string
  sw_name :: string
  sw_slug :: string
  sw_plan :: plan
  sw_modules :: "string list"
  sw_role :: "role option"
  sw_created :: string
  sw_updated :: string

record suite_member =
  sb_user :: string
  sb_role :: role
  sb_created :: string

record suite_record =
  sd_id :: string
  sd_workspace :: string
  sd_module :: string
  sd_type :: string
  sd_title :: string
  sd_state :: string
  sd_data :: obj
  sd_created :: string
  sd_updated :: string

datatype ai_status = AiQueued | AiRunning | AiCompleted | AiFailed

record ai_action =
  sx_id :: string
  sx_workspace :: string
  sx_module :: string
  sx_goal :: string
  sx_context :: obj
  sx_status :: ai_status
  sx_result :: "obj option"
  sx_attempts :: "nat option"
  sx_lease :: "string option"
  sx_error :: "string option"
  sx_created :: string
  sx_updated :: string

record api_token =
  sk_id :: string
  sk_user :: string
  sk_name :: string
  sk_scopes :: "scope list"
  sk_created :: string
  sk_expires :: string
  sk_used :: "string option"
  sk_revoked :: "string option"

record token_secret =
  ts_summary :: api_token
  ts_token :: string

record token_principal =
  tp_token :: string
  tp_user :: string
  tp_scopes :: "scope list"

section \<open>Lemmas\<close>

definition suite_module_ids :: "string list" where
  "suite_module_ids = map sm_id suite_modules"

lemmas suite_module_texts = automate_module_def publish_module_def inbox_module_def crm_module_def tasks_module_def
  feedback_module_def knowledge_module_def links_module_def giveaways_module_def testimonials_module_def
  brand_pages_module_def consent_module_def seo_module_def finance_module_def notify_module_def hire_module_def
  collab_module_def schedule_module_def forms_module_def flags_module_def esign_module_def email_module_def
  projects_module_def drive_module_def channels_module_def operations_module_def assistant_module_def

lemma additive_suite_module_ids:
  "map sm_id additive_suite_modules = [''tables'', ''meetings'', ''insights'', ''learning'', ''community'']"
  by (simp add: additive_suite_modules_def additive_modules_def suite_module_of_def)

lemma extended_suite_module_ids:
  "map sm_id extended_suite_modules = [''events'', ''people'', ''metering'', ''assurance'', ''live'']"
  by (simp add: extended_suite_modules_def extended_modules_def suite_module_of_def)

lemma suite_module_ids_eq:
  "suite_module_ids = [''automate'', ''publish'', ''inbox'', ''crm'', ''tasks'', ''feedback'', ''knowledge'', ''links'',
     ''giveaways'', ''testimonials'', ''brand-pages'', ''consent'', ''seo'', ''finance'', ''notify'', ''hire'', ''collab'',
     ''schedule'', ''forms'', ''flags'', ''esign'', ''email'', ''tables'', ''meetings'', ''insights'', ''learning'',
     ''community'', ''events'', ''people'', ''metering'', ''assurance'', ''live'', ''projects'', ''drive'', ''channels'',
     ''operations'', ''assistant'']"
  by (simp add: suite_module_ids_def suite_modules_def additive_suite_module_ids extended_suite_module_ids
      suite_module_texts)

lemma suite_module_ids_distinct: "distinct suite_module_ids"
  by (simp add: suite_module_ids_eq)

lemma suite_module_by_id_iff: "suite_module_by_id i = Some m \<longleftrightarrow> m \<in> set suite_modules \<and> sm_id m = i"
proof -
  have "map fst (map (\<lambda>m. (sm_id m, m)) suite_modules) = suite_module_ids"
    by (simp add: suite_module_ids_def comp_def)
  then have "distinct (map fst (rev (map (\<lambda>m. (sm_id m, m)) suite_modules)))"
    using suite_module_ids_distinct by (simp only: rev_map [symmetric] distinct_rev)
  then show ?thesis
    unfolding suite_module_by_id_def by (subst map_of_eq_Some_iff) auto
qed

lemma suite_module_by_id_known: "(suite_module_by_id i \<noteq> None) \<longleftrightarrow> i \<in> set suite_module_ids"
proof -
  have "i \<in> set suite_module_ids \<longleftrightarrow> (\<exists>m. suite_module_by_id i = Some m)"
    by (auto simp: suite_module_ids_def suite_module_by_id_iff)
  then show ?thesis by simp
qed

lemma suite_module_scopes_known:
  assumes "i \<in> set suite_module_ids" "suite_ai_read_scopes i e = Some ss" "s \<in> set ss"
  shows "s \<in> set suite_module_ids"
proof (cases "e \<and> i \<in> set cross_tool_modules")
  case True
  with assms show ?thesis by (simp add: suite_ai_read_scopes_def suite_module_ids_def)
next
  case False
  have scopes: "list_all (\<lambda>(_, ss). set ss \<subseteq> set suite_module_ids) ai_read_scopes"
    by (simp add: ai_read_scopes_def suite_module_ids_eq)
  show ?thesis
  proof (cases "map_of ai_read_scopes i")
    case None
    with False assms show ?thesis by (auto simp: suite_ai_read_scopes_def split: if_splits)
  next
    case (Some ts)
    with False assms(2) have "ts = ss" by (auto simp: suite_ai_read_scopes_def)
    with Some have "(i, ss) \<in> set ai_read_scopes" by (simp add: map_of_SomeD)
    with scopes assms(3) show ?thesis by (auto simp: list_all_iff)
  qed
qed

end
