(* ===== verification/Json_Parse.thy ===== *)
theory Json_Parse
  imports Json_Text
begin

text \<open>
  The library functions a page cursor passes through: \<open>JSON.parse\<close> and the base64url form of a byte
  string. A code unit above 255, which the model does not have, is read as \<open>CHR 0xFF\<close>; the parser is
  given fuel, and the fuel used is shown to be enough.
\<close>

section \<open>JSON.parse\<close>

definition json_ws :: "char \<Rightarrow> bool" where
  "json_ws c \<longleftrightarrow> code c = 32 \<or> code c = 9 \<or> code c = 10 \<or> code c = 13"

definition skip_ws :: "string \<Rightarrow> string" where
  "skip_ws s = dropWhile json_ws s"

definition hex_val :: "char \<Rightarrow> nat" where
  "hex_val c = (if is_digit c then code c - 48 else if is_lower_alpha c then code c - 87 else code c - 55)"

definition unit_char :: "nat \<Rightarrow> char" where
  "unit_char n = (if n < 256 then char_of n else CHR 0xFF)"

definition escapes :: "(char \<times> char) list" where
  "escapes = [(CHR 0x22, CHR 0x22), (CHR 0x5C, CHR 0x5C), (CHR ''/'', CHR ''/''), (CHR ''b'', CHR 0x08),
     (CHR ''f'', CHR 0x0C), (CHR ''n'', CHR 0x0A), (CHR ''r'', CHR 0x0D), (CHR ''t'', CHR 0x09)]"

text \<open>The rest of a string literal after its opening quote.\<close>

fun parse_chars :: "string \<Rightarrow> (string \<times> string) option" where
  "parse_chars [] = None"
| "parse_chars (c # s) =
     (if c = CHR 0x22 then Some ([], s)
      else if c = CHR 0x5C then
        (case s of
           [] \<Rightarrow> None
         | d # t \<Rightarrow>
             if d = CHR ''u'' then
               (case t of
                  h # i # j # k # u \<Rightarrow>
                    if list_all is_hex [h, i, j, k]
                    then map_option (\<lambda>(x, r). (unit_char (foldl (\<lambda>n y. 16 * n + hex_val y) 0 [h, i, j, k]) # x, r)) (parse_chars u)
                    else None
                | _ \<Rightarrow> None)
             else (case map_of escapes d of
                     None \<Rightarrow> None
                   | Some e \<Rightarrow> map_option (\<lambda>(x, r). (e # x, r)) (parse_chars t)))
      else if code c < 32 then None
      else map_option (\<lambda>(x, r). (c # x, r)) (parse_chars s))"

text \<open>The longest numeral at the front; what follows it is judged by the caller.\<close>

definition span_fraction :: "string \<Rightarrow> string \<times> string" where
  "span_fraction s =
     (case s of
        c # t \<Rightarrow> if c = CHR ''.'' \<and> takeWhile is_digit t \<noteq> [] then (c # takeWhile is_digit t, dropWhile is_digit t) else ([], s)
      | [] \<Rightarrow> ([], s))"

definition span_exponent :: "string \<Rightarrow> string \<times> string" where
  "span_exponent s =
     (case s of
        c # t \<Rightarrow>
          let sign = (case t of d # _ \<Rightarrow> if d = CHR ''+'' \<or> d = CHR ''-'' then [d] else [] | [] \<Rightarrow> []);
              u = drop (length sign) t
          in if (c = CHR ''e'' \<or> c = CHR ''E'') \<and> takeWhile is_digit u \<noteq> []
             then (c # sign @ takeWhile is_digit u, dropWhile is_digit u) else ([], s)
      | [] \<Rightarrow> ([], s))"

definition span_number :: "string \<Rightarrow> (string \<times> string) option" where
  "span_number s =
     (let sign = (case s of c # _ \<Rightarrow> if c = CHR ''-'' then [c] else [] | [] \<Rightarrow> []);
          a = drop (length sign) s;
          ds = takeWhile is_digit a;
          whole = (if ds \<noteq> [] \<and> hd ds = CHR ''0'' then [hd ds] else ds);
          (fraction, b) = span_fraction (drop (length whole) a);
          (exponent, r) = span_exponent b
      in if ds = [] then None else Some (sign @ whole @ fraction @ exponent, r))"

definition literals :: "(string \<times> json) list" where
  "literals = [(''true'', JBool True), (''false'', JBool False), (''null'', JNull)]"

definition parse_atom :: "js_env \<Rightarrow> string \<Rightarrow> (json \<times> string) option" where
  "parse_atom E s =
     (case first_such (\<lambda>(w, _). starts_with s w) literals of
        Some (w, v) \<Rightarrow> Some (v, drop (length w) s)
      | None \<Rightarrow> map_option (\<lambda>(t, r). (JNum (text_num E t), r)) (span_number s))"

text \<open>
  A value, the elements of an array up to its bracket, and the members of an object up to its brace. A
  repeated member replaces the value and keeps the first place.
\<close>

fun parse_value :: "js_env \<Rightarrow> nat \<Rightarrow> string \<Rightarrow> (json \<times> string) option"
  and parse_items :: "js_env \<Rightarrow> nat \<Rightarrow> string \<Rightarrow> (json list \<times> string) option"
  and parse_members :: "js_env \<Rightarrow> nat \<Rightarrow> obj \<Rightarrow> string \<Rightarrow> (obj \<times> string) option" where
  "parse_value E 0 s = None"
| "parse_value E (Suc n) s =
     (case skip_ws s of
        [] \<Rightarrow> None
      | c # t \<Rightarrow>
          if c = CHR 0x22 then map_option (\<lambda>(x, r). (JStr x, r)) (parse_chars t)
          else if c = CHR ''['' then
            (if take 1 (skip_ws t) = '']'' then Some (JArr [], tl (skip_ws t))
             else map_option (\<lambda>(xs, r). (JArr xs, r)) (parse_items E n t))
          else if c = CHR ''{'' then
            (if take 1 (skip_ws t) = ''}'' then Some (JObj [], tl (skip_ws t))
             else map_option (\<lambda>(kvs, r). (JObj kvs, r)) (parse_members E n [] t))
          else parse_atom E (c # t))"
| "parse_items E 0 s = None"
| "parse_items E (Suc n) s =
     (case parse_value E n s of
        None \<Rightarrow> None
      | Some (v, r) \<Rightarrow>
          (case skip_ws r of
             [] \<Rightarrow> None
           | c # t \<Rightarrow> if c = CHR '']'' then Some ([v], t)
                      else if c = CHR '','' then map_option (\<lambda>(vs, r'). (v # vs, r')) (parse_items E n t)
                      else None))"
| "parse_members E 0 ob s = None"
| "parse_members E (Suc n) ob s =
     (case skip_ws s of
        [] \<Rightarrow> None
      | q # t \<Rightarrow>
          if q \<noteq> CHR 0x22 then None
          else (case parse_chars t of
                  None \<Rightarrow> None
                | Some (k, r) \<Rightarrow>
                    (case skip_ws r of
                       [] \<Rightarrow> None
                     | c # u \<Rightarrow>
                         if c \<noteq> CHR '':'' then None
                         else (case parse_value E n u of
                                 None \<Rightarrow> None
                               | Some (v, r') \<Rightarrow>
                                   (case skip_ws r' of
                                      [] \<Rightarrow> None
                                    | d # w \<Rightarrow> if d = CHR ''}'' then Some (oset k v ob, w)
                                               else if d = CHR '','' then parse_members E n (oset k v ob) w
                                               else None)))))"

definition parse_json :: "js_env \<Rightarrow> string \<Rightarrow> json option" where
  "parse_json E s =
     (case parse_value E (2 * length s + 1) s of
        Some (v, r) \<Rightarrow> if skip_ws r = [] then Some v else None
      | None \<Rightarrow> None)"

section \<open>The fuel is enough\<close>

lemma length_skip_ws: "length (skip_ws s) \<le> length s"
  by (simp add: skip_ws_def length_dropWhile_le)

lemma skip_ws_Cons: "skip_ws s = c # t \<Longrightarrow> length t < length s"
  using length_skip_ws[of s] by simp

lemma parse_chars_shorter: "parse_chars s = Some (x, r) \<Longrightarrow> length r < length s"
proof (induction s arbitrary: x r rule: parse_chars.induct)
  case (2 c s)
  then show ?case
    by (fastforce split: if_splits list.splits option.splits)
qed simp

lemma span_fraction_shorter: "span_fraction s = (x, r) \<Longrightarrow> length r \<le> length s"
  by (auto simp: span_fraction_def length_dropWhile_le le_SucI split: list.splits if_splits)

lemma span_exponent_shorter:
  assumes "span_exponent s = (x, r)" shows "length r \<le> length s"
proof (cases s)
  case Nil
  with assms show ?thesis by (simp add: span_exponent_def)
next
  case (Cons c t)
  have "length (dropWhile is_digit (drop n t)) \<le> length s" for n
    using length_dropWhile_le[of is_digit "drop n t"] Cons by simp
  with assms Cons show ?thesis by (auto simp: span_exponent_def Let_def split: if_splits)
qed

lemma span_number_shorter:
  assumes "span_number s = Some (t, r)" shows "length r < length s"
proof -
  let ?sign = "case s of c # _ \<Rightarrow> if c = CHR ''-'' then [c] else [] | [] \<Rightarrow> []"
  let ?a = "drop (length ?sign) s"
  let ?ds = "takeWhile is_digit ?a"
  let ?whole = "if ?ds \<noteq> [] \<and> hd ?ds = CHR ''0'' then [hd ?ds] else ?ds"
  obtain f b where fb: "span_fraction (drop (length ?whole) ?a) = (f, b)" by fastforce
  obtain e r' where er: "span_exponent b = (e, r')" by fastforce
  have ds: "?ds \<noteq> []" and r: "r = r'"
    using assms fb er by (simp_all add: span_number_def Let_def split: if_splits)
  then have "length ?whole \<noteq> 0" by simp
  moreover have "length ?a \<noteq> 0" using ds by auto
  ultimately have "length (drop (length ?whole) ?a) < length ?a" by (simp only: length_drop diff_less)
  then show ?thesis
    using span_fraction_shorter[OF fb] span_exponent_shorter[OF er] r by simp
qed

lemma parse_atom_shorter:
  assumes "parse_atom E s = Some (v, r)" shows "length r < length s"
proof (cases "first_such (\<lambda>(w, _). starts_with s w) literals")
  case None
  with assms show ?thesis by (auto simp: parse_atom_def dest: span_number_shorter)
next
  case (Some p)
  obtain w x where p: "p = (w, x)" by fastforce
  from first_such_Some[OF Some] p have w: "w \<in> {''true'', ''false'', ''null''}" and st: "starts_with s w"
    by (auto simp: literals_def)
  have "length (take (length w) s) \<le> length s" by simp
  with st have "length w \<le> length s" unfolding starts_with_def by simp
  moreover have "length w > 0" using w by auto
  ultimately have "length (drop (length w) s) < length s" unfolding length_drop by linarith
  with assms Some p show ?thesis by (auto simp: parse_atom_def)
qed

lemma parse_shorter:
  "parse_value E n s = Some (v, r) \<Longrightarrow> length r < length s"
  "parse_items E n s = Some (vs, r) \<Longrightarrow> length r < length s"
  "parse_members E n ob s = Some (kvs, r) \<Longrightarrow> length r < length s"
proof (induction n arbitrary: s v r vs ob kvs)
  case 0
  {
    case 1 then show ?case by simp
  next
    case 2 then show ?case by simp
  next
    case 3 then show ?case by simp
  }
next
  case (Suc n)
  {
    case 1
    show ?case
    proof (cases "skip_ws s")
      case Nil
      with 1 show ?thesis by simp
    next
      case (Cons c t)
      have t: "length t < length s" by (rule skip_ws_Cons[OF Cons])
      consider (text_lit) "c = CHR 0x22" | (arr) "c = CHR ''[''" | (ob) "c = CHR ''{''"
        | (atom) "c \<noteq> CHR 0x22" "c \<noteq> CHR ''[''" "c \<noteq> CHR ''{''" by blast
      then show ?thesis
      proof cases
        case text_lit
        with 1 Cons t show ?thesis by (auto dest: parse_chars_shorter)
      next
        case arr
        with 1 Cons t length_skip_ws[of t] show ?thesis by (fastforce split: if_splits dest: Suc.IH(2))
      next
        case ob
        with 1 Cons t length_skip_ws[of t] show ?thesis by (fastforce split: if_splits dest: Suc.IH(3))
      next
        case atom
        with 1 Cons t have "length r < length (c # t)" by (intro parse_atom_shorter[of E "c # t" v r]) simp
        then show ?thesis using t by simp
      qed
    qed
  next
    case 2
    then show ?case
      by (auto split: list.splits if_splits option.splits dest!: Suc.IH(1,2) skip_ws_Cons)
  next
    case 3
    then show ?case
      by (auto split: list.splits if_splits option.splits dest!: Suc.IH(1,3) parse_chars_shorter skip_ws_Cons)
  }
qed

text \<open>More fuel changes nothing once it exceeds twice the length of the text.\<close>

lemma parse_fuel_step:
  "2 * length s < n \<Longrightarrow> parse_value E (Suc n) s = parse_value E n s"
  "2 * length s + 1 < n \<Longrightarrow> parse_items E (Suc n) s = parse_items E n s"
  "2 * length s + 1 < n \<Longrightarrow> parse_members E (Suc n) ob s = parse_members E n ob s"
proof (induction n arbitrary: s ob)
  case 0
  {
    case 1 then show ?case by simp
  next
    case 2 then show ?case by simp
  next
    case 3 then show ?case by simp
  }
next
  case (Suc n)
  {
    case 1
    show ?case
    proof (cases "skip_ws s")
      case (Cons c t)
      then have "2 * length t + 1 < n" using 1 skip_ws_Cons[OF Cons] by simp
      then show ?thesis using Cons Suc.IH(2,3)[of t] by simp
    qed simp
  next
    case 2
    then have "parse_value E (Suc n) s = parse_value E n s" by (intro Suc.IH(1)) simp
    moreover have "parse_items E (Suc n) t = parse_items E n t" if "parse_value E n s = Some (v, r)" "skip_ws r = c # t" for v r c t
      using 2 parse_shorter(1)[OF that(1)] skip_ws_Cons[OF that(2)] by (intro Suc.IH(2)) simp
    ultimately show ?case by (auto split: option.splits list.splits)
  next
    case 3
    have val: "parse_value E (Suc n) u = parse_value E n u"
      if "skip_ws s = q # t" "parse_chars t = Some (k, r)" "skip_ws r = c # u" for q t k r c u
      using 3 skip_ws_Cons[OF that(1)] parse_chars_shorter[OF that(2)] skip_ws_Cons[OF that(3)] by (intro Suc.IH(1)) simp
    have mem: "parse_members E (Suc n) ob' w = parse_members E n ob' w"
      if "skip_ws s = q # t" "parse_chars t = Some (k, r)" "skip_ws r = c # u"
        "parse_value E n u = Some (v, r')" "skip_ws r' = d # w" for q t k r c u v r' d w ob'
      using 3 skip_ws_Cons[OF that(1)] parse_chars_shorter[OF that(2)] skip_ws_Cons[OF that(3)]
        parse_shorter(1)[OF that(4)] skip_ws_Cons[OF that(5)] by (intro Suc.IH(3)) simp
    show ?case
    proof (cases "skip_ws s")
      case (Cons q t)
      show ?thesis
      proof (cases "parse_chars t")
        case (Some kr)
        obtain k r where kr: "kr = (k, r)" by fastforce
        show ?thesis
        proof (cases "skip_ws r")
          case ws: (Cons c u)
          note here = Cons Some[unfolded kr] ws
          have eq: "parse_value E (Suc n) u = parse_value E n u" by (rule val[OF here])
          show ?thesis
          proof (cases "parse_value E n u")
            case None
            with eq here show ?thesis by simp
          next
            case (Some vr)
            obtain v r' where "vr = (v, r')" by fastforce
            with Some eq here mem[OF here] show ?thesis
              by (cases "skip_ws r'") (simp_all del: parse_value.simps)
          qed
        qed (use Cons Some kr in simp)
      qed (use Cons in simp)
    qed simp
  }
qed

lemma parse_value_fuel: "2 * length s < n \<Longrightarrow> parse_value E n s = parse_value E (2 * length s + 1) s"
proof (induction n)
  case (Suc n)
  show ?case
  proof (cases "2 * length s < n")
    case True
    then show ?thesis using Suc parse_fuel_step(1) by metis
  next
    case False
    then have "n = 2 * length s" using Suc.prems by simp
    then show ?thesis by simp
  qed
qed simp

section \<open>Texts of plain strings\<close>

definition plain_char :: "char \<Rightarrow> bool" where
  "plain_char c \<longleftrightarrow> 32 \<le> code c \<and> c \<noteq> CHR 0x22 \<and> c \<noteq> CHR 0x5C"

lemma parse_chars_plain: "list_all plain_char s \<Longrightarrow> parse_chars (s @ CHR 0x22 # r) = Some (s, r)"
  by (induction s) (auto simp: plain_char_def)

lemma json_quote_plain: "list_all plain_char s \<Longrightarrow> json_quote s = CHR 0x22 # s @ [CHR 0x22]"
proof -
  have esc: "plain_char c \<Longrightarrow> json_escape c = [c]" for c
    by (auto simp: plain_char_def json_escape_def)
  have "list_all plain_char s \<Longrightarrow> concat (map json_escape s) = s"
    by (induction s) (simp_all add: esc)
  then show "list_all plain_char s \<Longrightarrow> json_quote s = CHR 0x22 # s @ [CHR 0x22]"
    by (simp add: json_quote_def)
qed

section \<open>base64url\<close>

definition b64_alphabet :: string where
  "b64_alphabet = ''ABCDEFGHIJKLMNOPQRSTUVWXYZabcdefghijklmnopqrstuvwxyz0123456789-_''"

definition b64_char :: "nat \<Rightarrow> char" where
  "b64_char n = b64_alphabet ! n"

fun base64url :: "nat list \<Rightarrow> string" where
  "base64url [] = []"
| "base64url [a] = [b64_char (a div 4), b64_char (a mod 4 * 16)]"
| "base64url [a, b] = [b64_char (a div 4), b64_char (a mod 4 * 16 + b div 16), b64_char (b mod 16 * 4)]"
| "base64url (a # b # d # r) =
     [b64_char (a div 4), b64_char (a mod 4 * 16 + b div 16), b64_char (b mod 16 * 4 + d div 64), b64_char (d mod 64)] @ base64url r"

definition b64_val :: "char \<Rightarrow> nat option" where
  "b64_val c = map_of (zip b64_alphabet [0..<64]) c"

text \<open>
  The bytes of a text over the alphabet. The library skips other characters; its callers accept a text
  only when encoding the bytes again gives it back, which no such text passes.
\<close>

fun unpack64 :: "nat list \<Rightarrow> nat list option" where
  "unpack64 [] = Some []"
| "unpack64 [w] = None"
| "unpack64 [w, x] = Some [w * 4 + x div 16]"
| "unpack64 [w, x, y] = Some [w * 4 + x div 16, x mod 16 * 16 + y div 4]"
| "unpack64 (w # x # y # z # r) =
     map_option (\<lambda>bs. [w * 4 + x div 16, x mod 16 * 16 + y div 4, y mod 4 * 64 + z] @ bs) (unpack64 r)"

definition base64url_bytes :: "string \<Rightarrow> nat list option" where
  "base64url_bytes s =
     (if \<exists>c \<in> set s. b64_val c = None then None else unpack64 (map (\<lambda>c. the (b64_val c)) s))"

lemma b64_val_char: "n < 64 \<Longrightarrow> b64_val (b64_char n) = Some n"
proof -
  assume n: "n < 64"
  have len: "length b64_alphabet = 64" by (simp add: b64_alphabet_def)
  have "distinct b64_alphabet" by (simp add: b64_alphabet_def)
  then have "map_of (zip b64_alphabet [0..<64]) (b64_alphabet ! n) = Some ([0..<64] ! n)"
    using n len by (intro map_of_zip_nth) simp_all
  then show ?thesis using n by (simp add: b64_val_def b64_char_def)
qed

lemma base64url_values:
  assumes "\<forall>b \<in> set bs. b < 256"
  shows "(\<forall>c \<in> set (base64url bs). b64_val c \<noteq> None) \<and> unpack64 (map (\<lambda>c. the (b64_val c)) (base64url bs)) = Some bs"
  using assms
proof (induction bs rule: base64url.induct)
  case (2 a)
  then have "a div 4 < 64" "a mod 4 * 16 < 64" by simp_all
  then show ?case by (simp add: b64_val_char)
next
  case (3 a b)
  then have "a div 4 < 64" "a mod 4 * 16 + b div 16 < 64" "b mod 16 * 4 < 64" "b div 16 < 16" by auto
  then show ?case by (simp add: b64_val_char mult.commute)
next
  case (4 a b d r)
  then have "a div 4 < 64" "a mod 4 * 16 + b div 16 < 64" "b mod 16 * 4 + d div 64 < 64" "d mod 64 < 64"
    "b div 16 < 16" "d div 64 < 4" by auto
  then show ?case using 4 by (simp add: b64_val_char mult.commute)
qed simp

lemma base64url_roundtrip: "\<forall>b \<in> set bs. b < 256 \<Longrightarrow> base64url_bytes (base64url bs) = Some bs"
  using base64url_values[of bs] by (auto simp: base64url_bytes_def)

lemma base64url_eq_Nil: "base64url bs = [] \<longleftrightarrow> bs = []"
  by (cases bs rule: base64url.cases) auto

lemma length_base64url_32: "length bs = 32 \<Longrightarrow> length (base64url bs) = 43"
proof -
  have "length (base64url bs) = (4 * length bs + 2) div 3" for bs
    by (induction bs rule: base64url.induct) auto
  then show "length bs = 32 \<Longrightarrow> length (base64url bs) = 43" by simp
qed

end
