(* ===== verification/Record_Pages.thy ===== *)
theory Record_Pages
  imports Suite_Registry Json_Parse
begin

text \<open>
  Pages of records (\<open>server/suite-record-page.ts\<close>) and the read model of a module
  (\<open>shared/module-read-model.ts\<close>, \<open>server/module-read-model.ts\<close>): the normalized query, the cursor that
  carries the key of the last record of a page under the fingerprint of its query, and the page itself.
\<close>

section \<open>Queries\<close>

datatype page_err =
    PageNotObject
  | PageLimit
  | PageFilterText string
  | PageFilterRequired string
  | PageFilterLong string
  | PageCursor

definition page_default_limit :: nat where
  "page_default_limit = 50"

definition page_max_limit :: nat where
  "page_max_limit = 100"

definition max_cursor_length :: nat where
  "max_cursor_length = 2048"

definition max_filter_length :: nat where
  "max_filter_length = 200"

record page_query =
  pg_module :: string
  pg_type :: "string option"
  pg_state :: "string option"
  pg_search :: "string option"
  pg_limit :: nat
  pg_cursor :: "string option"

record page_key =
  pk_updated :: string
  pk_id :: string

definition normalized_filter :: "string \<Rightarrow> json \<Rightarrow> bool \<Rightarrow> page_err + string option" where
  "normalized_filter name v required =
     (if v = JUndef \<and> \<not> required then Inr None
      else (case v of
        JStr s \<Rightarrow>
          if trim s = [] then (if required then Inl (PageFilterRequired name) else Inr None)
          else if max_filter_length < length (trim s) then Inl (PageFilterLong name)
          else Inr (Some (trim s))
      | _ \<Rightarrow> Inl (PageFilterText name)))"

definition page_limit_of :: "json \<Rightarrow> nat option" where
  "page_limit_of v =
     (case v of
        JNum (Fin r) \<Rightarrow>
          if is_safe_integer (Fin r) \<and> 1 \<le> r \<and> r \<le> of_nat page_max_limit then Some (nat \<lfloor>r\<rfloor>) else None
      | _ \<Rightarrow> None)"

definition normalize_page_input :: "json \<Rightarrow> page_err + page_query" where
  "normalize_page_input v =
     (case v of
        JObj input \<Rightarrow>
          (case page_limit_of (oget input ''limit'') of
             None \<Rightarrow> Inl PageLimit
           | Some limit \<Rightarrow>
               bind_e (case oget input ''cursor'' of
                         JUndef \<Rightarrow> Inr None
                       | JStr s \<Rightarrow> if s = [] \<or> max_cursor_length < length s then Inl PageCursor else Inr (Some s)
                       | _ \<Rightarrow> Inl PageCursor) (\<lambda>cursor.
               bind_e (normalized_filter ''search'' (oget input ''search'') False) (\<lambda>search.
               bind_e (normalized_filter ''moduleId'' (oget input ''moduleId'') True) (\<lambda>module.
               bind_e (normalized_filter ''recordType'' (oget input ''recordType'') False) (\<lambda>rtype.
               bind_e (normalized_filter ''state'' (oget input ''state'') False) (\<lambda>state.
               Inr \<lparr>pg_module = the module, pg_type = rtype, pg_state = state,
                 pg_search = map_option lower search, pg_limit = limit, pg_cursor = cursor\<rparr>))))))
      | _ \<Rightarrow> Inl PageNotObject)"

section \<open>Fingerprints and cursors\<close>

fun bytes_of_hex :: "string \<Rightarrow> nat list" where
  "bytes_of_hex (a # b # s) = (16 * hex_val a + hex_val b) # bytes_of_hex s"
| "bytes_of_hex _ = []"

definition optional_text :: "string option \<Rightarrow> json" where
  "optional_text t = (case t of None \<Rightarrow> JNull | Some s \<Rightarrow> JStr s)"

definition page_query_text :: "string \<Rightarrow> string \<Rightarrow> page_query \<Rightarrow> json" where
  "page_query_text user workspace q = JObj
     [(''version'', jint 1), (''userId'', JStr user), (''workspaceId'', JStr workspace), (''moduleId'', JStr (pg_module q)),
      (''recordType'', optional_text (pg_type q)), (''state'', optional_text (pg_state q)),
      (''search'', optional_text (pg_search q)), (''order'', JStr ''updatedAt-desc-id-desc'')]"

definition page_fingerprint :: "js_env \<Rightarrow> string \<Rightarrow> string \<Rightarrow> page_query \<Rightarrow> string" where
  "page_fingerprint E user workspace q =
     base64url (bytes_of_hex (sha256_hex E (json_text E (page_query_text user workspace q))))"

definition is_canonical_timestamp :: "js_env \<Rightarrow> json \<Rightarrow> bool" where
  "is_canonical_timestamp E v =
     (case v of JStr s \<Rightarrow> (case parse_date E s of None \<Rightarrow> False | Some t \<Rightarrow> iso_text E t = s) | _ \<Rightarrow> False)"

text \<open>\<open>/^[0-9a-f]{8}-[0-9a-f]{4}-[0-9a-f]{4}-[0-9a-f]{4}-[0-9a-f]{12}$/\<close>\<close>

definition page_uuid :: "string \<Rightarrow> bool" where
  "page_uuid s \<longleftrightarrow> length s = 36
     \<and> (\<forall>i \<in> set [0..<36]. if i \<in> {8, 13, 18, 23} then s ! i = CHR ''-'' else is_lower_hex (s ! i))"

definition cursor_claims :: "js_env \<Rightarrow> json \<Rightarrow> (string \<times> page_key) option" where
  "cursor_claims E v =
     (case v of
        JObj c \<Rightarrow>
          (case (oget c ''f'', oget c ''u'', oget c ''i'') of
             (JStr f, JStr u, JStr i) \<Rightarrow>
               if length c = 4 \<and> strict_eq (oget c ''v'') (jint 1) \<and> length f = 43
                  \<and> is_canonical_timestamp E (JStr u) \<and> page_uuid i
               then Some (f, \<lparr>pk_updated = u, pk_id = i\<rparr>) else None
           | _ \<Rightarrow> None)
      | _ \<Rightarrow> None)"

text \<open>Bytes are read as code units one by one: bytes above 127 can only make the claims differ.\<close>

definition decode_page_cursor :: "js_env \<Rightarrow> string option \<Rightarrow> string \<Rightarrow> page_err + page_key option" where
  "decode_page_cursor E cursor expected =
     (case cursor of
        None \<Rightarrow> Inr None
      | Some c \<Rightarrow>
          if c = [] then Inr None
          else (case base64url_bytes c of
                  None \<Rightarrow> Inl PageCursor
                | Some bytes \<Rightarrow>
                    if bytes = [] \<or> base64url bytes \<noteq> c then Inl PageCursor
                    else (case parse_json E (map char_of bytes) of
                            None \<Rightarrow> Inl PageCursor
                          | Some v \<Rightarrow>
                              (case cursor_claims E v of
                                 None \<Rightarrow> Inl PageCursor
                               | Some (f, key) \<Rightarrow> if f \<noteq> expected then Inl PageCursor else Inr (Some key)))))"

definition encode_page_cursor :: "js_env \<Rightarrow> page_key \<Rightarrow> string \<Rightarrow> page_err + string" where
  "encode_page_cursor E k fingerprint =
     (if \<not> is_canonical_timestamp E (JStr (pk_updated k)) \<or> \<not> page_uuid (pk_id k) \<or> length fingerprint \<noteq> 43
      then Inl PageCursor
      else Inr (base64url (utf8 (json_text E (JObj
        [(''v'', jint 1), (''f'', JStr fingerprint), (''u'', JStr (pk_updated k)), (''i'', JStr (pk_id k))])))))"

section \<open>Pages\<close>

text \<open>The order of \<open><\<close> on strings, by code units.\<close>

definition text_less :: "string \<Rightarrow> string \<Rightarrow> bool" where
  "text_less a b \<longleftrightarrow> cmp_bytes (map code a) (map code b) < 0"

definition key_of :: "suite_record \<Rightarrow> page_key" where
  "key_of r = \<lparr>pk_updated = sd_updated r, pk_id = sd_id r\<rparr>"

definition compare_page_keys :: "js_env \<Rightarrow> suite_record \<Rightarrow> suite_record \<Rightarrow> int" where
  "compare_page_keys E a b =
     (let c = collate E (sd_updated b) (sd_updated a) in if c \<noteq> 0 then c else collate E (sd_id b) (sd_id a))"

definition is_after_page_cursor :: "page_key option \<Rightarrow> suite_record \<Rightarrow> bool" where
  "is_after_page_cursor cursor r =
     (case cursor of
        None \<Rightarrow> True
      | Some k \<Rightarrow> text_less (sd_updated r) (pk_updated k)
                 \<or> (sd_updated r = pk_updated k \<and> text_less (sd_id r) (pk_id k)))"

definition matches_page_input :: "page_query \<Rightarrow> suite_record \<Rightarrow> bool" where
  "matches_page_input q r \<longleftrightarrow>
     sd_module r = pg_module q
     \<and> (case pg_type q of None \<Rightarrow> True | Some t \<Rightarrow> t = [] \<or> sd_type r = t)
     \<and> (case pg_state q of None \<Rightarrow> True | Some t \<Rightarrow> t = [] \<or> sd_state r = t)
     \<and> (case pg_search q of None \<Rightarrow> True
          | Some t \<Rightarrow> t = [] \<or> lower (sd_id r) = t \<or> starts_with (lower (sd_title r)) t)"

record record_summary =
  ru_id :: string
  ru_module :: string
  ru_type :: string
  ru_title :: string
  ru_state :: string
  ru_created :: string
  ru_updated :: string

definition record_summary_of :: "suite_record \<Rightarrow> record_summary" where
  "record_summary_of r = \<lparr>ru_id = sd_id r, ru_module = sd_module r, ru_type = sd_type r, ru_title = sd_title r,
     ru_state = sd_state r, ru_created = sd_created r, ru_updated = sd_updated r\<rparr>"

record record_page =
  rg_records :: "record_summary list"
  rg_next :: "string option"

definition record_page_of :: "js_env \<Rightarrow> suite_record list \<Rightarrow> nat \<Rightarrow> string \<Rightarrow> page_err + record_page" where
  "record_page_of E visible limit fingerprint =
     (let selected = take limit visible
      in if limit < length visible \<and> selected \<noteq> []
         then bind_e (encode_page_cursor E (key_of (last selected)) fingerprint) (\<lambda>c.
              Inr \<lparr>rg_records = map record_summary_of selected, rg_next = Some c\<rparr>)
         else Inr \<lparr>rg_records = map record_summary_of selected, rg_next = None\<rparr>)"

section \<open>The read model of a module\<close>

record read_capabilities =
  rc_version :: string
  rc_module :: string
  rc_name :: string
  rc_category :: string
  rc_types :: "string list"
  rc_ai :: "string list"
  rc_default_limit :: nat
  rc_max_limit :: nat
  rc_order :: string
  rc_filters :: "string list"
  rc_detail :: bool

record record_detail =
  rt_summary :: record_summary
  rt_data :: obj

definition project_read_capabilities :: "suite_module \<Rightarrow> read_capabilities" where
  "project_read_capabilities m =
     \<lparr>rc_version = ''module-read-model.v1'', rc_module = sm_id m, rc_name = sm_name m, rc_category = sm_category m,
      rc_types = sm_types m, rc_ai = sm_ai m, rc_default_limit = page_default_limit, rc_max_limit = page_max_limit,
      rc_order = ''updatedAt-desc-id-desc'', rc_filters = [''recordType'', ''state'', ''titlePrefixOrExactId''],
      rc_detail = True\<rparr>"

definition project_record_detail :: "suite_record \<Rightarrow> record_detail" where
  "project_record_detail r = \<lparr>rt_summary = record_summary_of r, rt_data = sd_data r\<rparr>"

section \<open>Cursors return their keys\<close>

text \<open>What the host guarantees of texts that go into a cursor.\<close>

definition ascii_plain :: "string \<Rightarrow> bool" where
  "ascii_plain s \<longleftrightarrow> list_all (\<lambda>c. plain_char c \<and> code c < 128) s"

definition page_host_ok :: "js_env \<Rightarrow> bool" where
  "page_host_ok E \<longleftrightarrow> num_text E 1 = ''1'' \<and> text_num E ''1'' = Fin 1
     \<and> (\<forall>t. ascii_plain (iso_text E t)) \<and> (\<forall>s. sha_pattern (sha256_hex E s))"

lemma ascii_plain_append [simp]: "ascii_plain (a @ b) \<longleftrightarrow> ascii_plain a \<and> ascii_plain b"
  by (simp add: ascii_plain_def)

lemma ascii_plain_parts: "ascii_plain s \<Longrightarrow> list_all plain_char s"
  by (simp add: ascii_plain_def list_all_iff)

lemma utf8_ascii: "list_all (\<lambda>c. code c < 128) s \<Longrightarrow> utf8 s = map code s"
  by (induction s) (simp_all add: utf8_def)

lemma map_char_of_code [simp]: "map (char_of \<circ> code) s = s"
  by (simp add: code_def comp_def)

lemma ascii_plain_base64url: "\<forall>b \<in> set bs. b < 256 \<Longrightarrow> ascii_plain (base64url bs)"
proof -
  have alphabet: "list_all (\<lambda>c. plain_char c \<and> code c < 128) b64_alphabet"
    by (simp add: b64_alphabet_def plain_char_def code_def)
  have ok: "plain_char (b64_char n) \<and> code (b64_char n) < 128" if "n < 64" for n
    using alphabet that by (simp add: list_all_length b64_char_def b64_alphabet_def)
  show "\<forall>b \<in> set bs. b < 256 \<Longrightarrow> ascii_plain (base64url bs)"
    unfolding ascii_plain_def
    by (induction bs rule: base64url.induct) (auto simp: ok)
qed

lemma bytes_of_hex_less: "list_all is_lower_hex s \<Longrightarrow> b \<in> set (bytes_of_hex s) \<Longrightarrow> b < 256"
proof (induction s rule: bytes_of_hex.induct)
  case (1 x y s)
  have "is_lower_hex c \<Longrightarrow> hex_val c < 16" for c
    by (auto simp: is_lower_hex_def hex_val_def is_lower_alpha_def is_digit_def)
  then have "hex_val x < 16" "hex_val y < 16" using 1(2) by simp_all
  then have "16 * hex_val x + hex_val y < 256" by linarith
  with 1 show ?case by auto
qed auto

lemma ascii_plain_fingerprint: "page_host_ok E \<Longrightarrow> ascii_plain (page_fingerprint E user w q)"
  unfolding page_fingerprint_def page_host_ok_def sha_pattern_def
  by (intro ascii_plain_base64url ballI) (auto intro: bytes_of_hex_less)

lemma ascii_plain_timestamp: "page_host_ok E \<Longrightarrow> is_canonical_timestamp E (JStr s) \<Longrightarrow> ascii_plain s"
  by (auto simp: page_host_ok_def is_canonical_timestamp_def split: option.splits)

lemma ascii_plain_uuid: "page_uuid s \<Longrightarrow> ascii_plain s"
proof -
  assume u: "page_uuid s"
  have hex: "is_lower_hex c \<Longrightarrow> plain_char c \<and> code c < 128" for c
    by (auto simp: is_lower_hex_def is_digit_def plain_char_def code_def)
  have dash: "plain_char (CHR ''-'') \<and> code (CHR ''-'') < 128" by (simp add: plain_char_def code_def)
  show ?thesis unfolding ascii_plain_def list_all_length
  proof (intro allI impI)
    fix i assume "i < length s"
    with u have "if i \<in> {8, 13, 18, 23} then s ! i = CHR ''-'' else is_lower_hex (s ! i)"
      unfolding page_uuid_def by (metis atLeastLessThan_iff set_upt zero_le)
    then show "plain_char (s ! i) \<and> code (s ! i) < 128" using hex dash by (metis (full_types))
  qed
qed

lemma json_ws_marks: "\<not> json_ws (CHR 0x22)" "\<not> json_ws (CHR '':'')" "\<not> json_ws (CHR '','')" "\<not> json_ws (CHR ''}'')"
  "\<not> json_ws (CHR ''{'')" "\<not> json_ws (CHR ''1'')"
  by (simp_all add: json_ws_def code_def)

lemma skip_ws_mark [simp]: "\<not> json_ws c \<Longrightarrow> skip_ws (c # s) = c # s" "skip_ws [] = []"
  by (simp_all add: skip_ws_def)

text \<open>The members of a claims object, one at a time.\<close>

lemma parse_string_member:
  assumes "list_all plain_char k" "list_all plain_char x" "\<not> json_ws d"
  shows "parse_members E (Suc (Suc n)) ob (CHR 0x22 # k @ CHR 0x22 # CHR '':'' # CHR 0x22 # x @ CHR 0x22 # d # w)
     = (if d = CHR ''}'' then Some (oset k (JStr x) ob, w)
        else if d = CHR '','' then parse_members E (Suc n) (oset k (JStr x) ob) w else None)"
  using parse_chars_plain[OF assms(1)] parse_chars_plain[OF assms(2)] assms(3)
  by (simp add: json_ws_marks)

lemma parse_one:
  assumes "text_num E ''1'' = Fin 1"
  shows "parse_value E (Suc n) (CHR ''1'' # CHR '','' # s) = Some (JNum (Fin 1), CHR '','' # s)"
proof -
  have digits: "is_digit (CHR ''1'')" "\<not> is_digit (CHR '','')" by (simp_all add: is_digit_def code_def)
  have "span_number (CHR ''1'' # CHR '','' # s) = Some (''1'', CHR '','' # s)"
    by (simp add: span_number_def span_fraction_def span_exponent_def digits Let_def)
  then have "parse_atom E (CHR ''1'' # CHR '','' # s) = Some (JNum (Fin 1), CHR '','' # s)"
    using assms by (simp add: parse_atom_def literals_def starts_with_def first_such_def)
  then show ?thesis by (simp add: json_ws_marks)
qed

lemma parse_claims:
  assumes host: "page_host_ok E" and plain: "list_all plain_char f" "list_all plain_char u" "list_all plain_char i"
  shows "parse_json E (json_text E (JObj [(''v'', jint 1), (''f'', JStr f), (''u'', JStr u), (''i'', JStr i)]))
     = Some (JObj [(''v'', jint 1), (''f'', JStr f), (''u'', JStr u), (''i'', JStr i)])"
proof -
  let ?q = "CHR 0x22"
  have names: "list_all plain_char ''v''" "list_all plain_char ''f''" "list_all plain_char ''u''" "list_all plain_char ''i''"
    by (simp_all add: plain_char_def code_def)
  have one: "jint 1 = JNum (Fin 1)" by (simp add: jint_def num_of_int_def)
  let ?i = "?q # ''i'' @ ?q # CHR '':'' # ?q # i @ ?q # CHR ''}'' # []"
  let ?u = "?q # ''u'' @ ?q # CHR '':'' # ?q # u @ ?q # CHR '','' # ?i"
  let ?f = "?q # ''f'' @ ?q # CHR '':'' # ?q # f @ ?q # CHR '','' # ?u"
  let ?v = "?q # ''v'' @ ?q # CHR '':'' # CHR ''1'' # CHR '','' # ?f"
  have written: "json_text E (JObj [(''v'', jint 1), (''f'', JStr f), (''u'', JStr u), (''i'', JStr i)]) = CHR ''{'' # ?v"
    using host plain names by (simp add: one page_host_ok_def json_quote_plain defined_entries_def json_number_def)
  define n where "n = length f + length u + length i"
  have fuel: "2 * length (CHR ''{'' # ?v) + 1 = Suc (Suc (Suc (Suc (Suc (Suc (2 * n + 51))))))" by (simp add: n_def)
  note member = parse_string_member json_ws_marks
  have pi: "parse_members E (Suc (Suc m)) ob ?i = Some (oset ''i'' (JStr i) ob, [])" for m ob
    by (subst member(1)[OF names(4) plain(3)]) (simp_all add: json_ws_marks)
  have pu: "parse_members E (Suc (Suc (Suc m))) ob ?u = Some (oset ''i'' (JStr i) (oset ''u'' (JStr u) ob), [])" for m ob
    using pi by (subst member(1)[OF names(3) plain(2)]) (simp_all add: json_ws_marks)
  have pf: "parse_members E (Suc (Suc (Suc (Suc m)))) ob ?f
      = Some (oset ''i'' (JStr i) (oset ''u'' (JStr u) (oset ''f'' (JStr f) ob)), [])" for m ob
    using pu by (subst member(1)[OF names(2) plain(1)]) (simp_all add: json_ws_marks)
  have num: "text_num E ''1'' = Fin 1" using host by (simp add: page_host_ok_def)
  have pv: "parse_members E (Suc (Suc (Suc (Suc (Suc m))))) [] ?v
      = Some (oset ''i'' (JStr i) (oset ''u'' (JStr u) (oset ''f'' (JStr f) (oset ''v'' (JNum (Fin 1)) []))), [])" for m
    using parse_chars_plain[OF names(1)] parse_one[OF num] pf
    by (subst parse_members.simps) (simp add: json_ws_marks del: parse_value.simps parse_members.simps)
  have "parse_value E (Suc (Suc (Suc (Suc (Suc (Suc m)))))) (CHR ''{'' # ?v)
      = Some (JObj (oset ''i'' (JStr i) (oset ''u'' (JStr u) (oset ''f'' (JStr f) (oset ''v'' (JNum (Fin 1)) [])))), [])" for m
    using pv by (subst parse_value.simps) (simp add: json_ws_marks del: parse_value.simps parse_members.simps)
  then show ?thesis
    unfolding written parse_json_def fuel by (simp only: option.case prod.case) (simp add: oset_def one)
qed

lemma encode_page_cursor_Inr:
  "encode_page_cursor E k f = Inr c \<longleftrightarrow>
     is_canonical_timestamp E (JStr (pk_updated k)) \<and> page_uuid (pk_id k) \<and> length f = 43
     \<and> c = base64url (utf8 (json_text E (JObj
         [(''v'', jint 1), (''f'', JStr f), (''u'', JStr (pk_updated k)), (''i'', JStr (pk_id k))])))"
  by (auto simp: encode_page_cursor_def)

lemma decode_encoded_cursor:
  assumes host: "page_host_ok E" and plain: "ascii_plain f" and enc: "encode_page_cursor E k f = Inr c"
  shows "decode_page_cursor E (Some c) f' = (if f' = f then Inr (Some k) else Inl PageCursor)"
proof -
  let ?claims = "JObj [(''v'', jint 1), (''f'', JStr f), (''u'', JStr (pk_updated k)), (''i'', JStr (pk_id k))]"
  let ?t = "json_text E ?claims"
  from enc have ok: "is_canonical_timestamp E (JStr (pk_updated k))" "page_uuid (pk_id k)" "length f = 43"
    and c: "c = base64url (utf8 ?t)" by (simp_all add: encode_page_cursor_Inr)
  note parts = plain ascii_plain_timestamp[OF host ok(1)] ascii_plain_uuid[OF ok(2)]
  have one: "jint 1 = JNum (Fin 1)" "num_text E 1 = ''1''"
    using host by (simp_all add: jint_def num_of_int_def page_host_ok_def)
  have low: "ascii_plain x \<Longrightarrow> list_all (\<lambda>c. code c < 128) x" for x by (simp add: ascii_plain_def list_all_iff)
  have keys: "list_all plain_char ''v''" "list_all plain_char ''f''" "list_all plain_char ''u''" "list_all plain_char ''i''"
    by (simp_all add: plain_char_def code_def)
  have ascii: "list_all (\<lambda>c. code c < 128) ?t"
    using parts[THEN low] parts[THEN ascii_plain_parts]
    by (simp add: one defined_entries_def json_number_def json_quote_plain keys [THEN json_quote_plain])
      (simp add: code_def)
  then have bytes: "utf8 ?t = map code ?t" by (rule utf8_ascii)
  have "base64url_bytes c = Some (utf8 ?t)" unfolding c by (rule base64url_roundtrip) (auto dest: utf8_bytes)
  moreover have ne: "utf8 ?t \<noteq> []" unfolding bytes by (simp del: list.map)
  moreover have "c \<noteq> []" unfolding c base64url_eq_Nil by (rule ne)
  moreover have "parse_json E (map char_of (utf8 ?t)) = Some ?claims"
    using parse_claims[OF host parts[THEN ascii_plain_parts]] by (simp only: bytes list.map_comp map_char_of_code)
  moreover have "cursor_claims E ?claims = Some (f, k)"
    using ok by (simp add: cursor_claims_def)
  ultimately show ?thesis unfolding decode_page_cursor_def using c by simp
qed

section \<open>The order of pages\<close>

text \<open>On the keys of pages \<open>localeCompare\<close> agrees with the order of code units.\<close>

definition page_collation :: "js_env \<Rightarrow> bool" where
  "page_collation E \<longleftrightarrow> collation_ok E
     \<and> (\<forall>a b. is_canonical_timestamp E (JStr a) \<and> is_canonical_timestamp E (JStr b) \<or> page_uuid a \<and> page_uuid b
          \<longrightarrow> sgn (collate E a b) = sgn (cmp_bytes (map code a) (map code b)))"

definition pageable :: "js_env \<Rightarrow> suite_record \<Rightarrow> bool" where
  "pageable E r \<longleftrightarrow> is_canonical_timestamp E (JStr (sd_updated r)) \<and> page_uuid (sd_id r)"

lemma cmp_bytes_zero: "cmp_bytes a b = 0 \<longleftrightarrow> a = b"
  by (induction a b rule: cmp_bytes.induct) auto

lemma compare_page_keys_order:
  assumes "collation_ok E"
  shows "compare_page_keys E a b \<le> 0 \<or> compare_page_keys E b a \<le> 0"
    and "compare_page_keys E a b \<le> 0 \<Longrightarrow> compare_page_keys E b d \<le> 0 \<Longrightarrow> compare_page_keys E a d \<le> 0"
  using collation_order[OF assms] unfolding compare_page_keys_def Let_def
  by (smt (verit))+

lemma after_iff_later:
  assumes "page_collation E" "pageable E a" "pageable E b"
  shows "is_after_page_cursor (Some (key_of a)) b \<longleftrightarrow> compare_page_keys E a b < 0"
proof -
  have u: "sgn (collate E (sd_updated b) (sd_updated a)) = sgn (cmp_bytes (map code (sd_updated b)) (map code (sd_updated a)))"
    and i: "sgn (collate E (sd_id b) (sd_id a)) = sgn (cmp_bytes (map code (sd_id b)) (map code (sd_id a)))"
    using assms by (auto simp: page_collation_def pageable_def)
  have lt: "sgn x = sgn y \<Longrightarrow> (x < 0 \<longleftrightarrow> y < 0) \<and> (x = 0 \<longleftrightarrow> y = 0)" for x y :: int
    by (auto simp: sgn_if split: if_splits)
  have eq: "map code x = map code y \<longleftrightarrow> x = y" for x y
    by (rule inj_map_eq_map) (simp add: inj_def)
  show ?thesis
    using lt[OF u] lt[OF i]
    by (auto simp: is_after_page_cursor_def text_less_def key_of_def compare_page_keys_def cmp_bytes_zero eq)
qed

lemma sorted_wrt_unique:
  assumes "\<And>a b. R a b \<Longrightarrow> \<not> R b a"
  shows "sorted_wrt R xs \<Longrightarrow> sorted_wrt R ys \<Longrightarrow> set xs = set ys \<Longrightarrow> xs = ys"
proof (induction xs arbitrary: ys)
  case (Cons x xs)
  then obtain y zs where ys: "ys = y # zs" by (cases ys) auto
  have "x = y"
  proof (rule ccontr)
    assume "x \<noteq> y"
    then have "y \<in> set xs" "x \<in> set zs" using Cons.prems(3) ys by auto
    then have "R x y" "R y x" using Cons.prems ys by auto
    then show False using assms by blast
  qed
  moreover have "\<not> R a a" for a using assms by blast
  then have "x \<notin> set xs" "y \<notin> set zs" using Cons.prems ys by auto
  ultimately have "set xs = set zs" using Cons.prems(3) ys by (simp add: insert_ident)
  then show ?case using Cons ys \<open>x = y\<close> by auto
qed simp

text \<open>A set of records as pages read it: every record in order, no two with the same identifier.\<close>

definition page_set :: "js_env \<Rightarrow> suite_record list \<Rightarrow> bool" where
  "page_set E rs \<longleftrightarrow> (\<forall>r \<in> set rs. pageable E r) \<and> distinct (map sd_id rs)"

lemma page_order_strict:
  assumes col: "page_collation E" and rs: "page_set E rs"
  shows "sorted_wrt (\<lambda>a b. compare_page_keys E a b < 0) (sort_cmp (compare_page_keys E) rs)"
proof -
  let ?S = "sort_cmp (compare_page_keys E) rs"
  have ok: "collation_ok E" using col by (simp add: page_collation_def)
  have le: "sorted_wrt (\<lambda>a b. compare_page_keys E a b \<le> 0) ?S"
    by (rule sort_cmp_sorted) (rule compare_page_keys_order[OF ok], erule (1) compare_page_keys_order(2)[OF ok])
  have apart: "compare_page_keys E a b \<noteq> 0" if "a \<in> set rs" "b \<in> set rs" "a \<noteq> b" for a b
  proof
    assume "compare_page_keys E a b = 0"
    then have "collate E (sd_id b) (sd_id a) = 0" by (simp add: compare_page_keys_def Let_def split: if_splits)
    moreover have "page_uuid (sd_id a)" "page_uuid (sd_id b)" using rs that by (simp_all add: page_set_def pageable_def)
    then have "sgn (collate E (sd_id b) (sd_id a)) = sgn (cmp_bytes (map code (sd_id b)) (map code (sd_id a)))"
      using col unfolding page_collation_def by blast
    ultimately have "cmp_bytes (map code (sd_id b)) (map code (sd_id a)) = 0" by (simp add: sgn_0_0)
    then have "map code (sd_id b) = map code (sd_id a)" by (simp only: cmp_bytes_zero)
    then have "sd_id b = sd_id a" by (rule inj_map_eq_map[THEN iffD1, rotated]) (simp add: inj_def)
    then show False using rs that by (auto simp: page_set_def distinct_map dest: inj_onD)
  qed
  have "distinct ?S" using rs by (simp add: page_set_def distinct_map)
  then show ?thesis using le apart
    by (auto simp: sorted_wrt_iff_nth_less nth_eq_iff_index_eq)
      (smt (verit) distinct_sort_cmp length_sort_cmp nth_eq_iff_index_eq nth_mem set_sort_cmp order_less_le less_trans not_less_iff_gr_or_eq)
qed

lemma page_continues:
  assumes col: "page_collation E" and rs: "page_set E rs"
    and n: "0 < n" "n \<le> length rs"
  shows "sort_cmp (compare_page_keys E)
           (filter (is_after_page_cursor (Some (key_of (last (take n (sort_cmp (compare_page_keys E) rs)))))) rs)
         = drop n (sort_cmp (compare_page_keys E) rs)"
proof -
  let ?c = "compare_page_keys E"
  let ?S = "sort_cmp ?c rs"
  let ?x = "last (take n ?S)"
  let ?F = "filter (is_after_page_cursor (Some (key_of ?x))) rs"
  have ok: "collation_ok E" using col by (simp add: page_collation_def)
  have asym: "\<not> ?c b a < 0" if "?c a b < 0" for a b
    using that collation_order[OF ok] unfolding compare_page_keys_def Let_def by (smt (verit))
  have S: "sorted_wrt (\<lambda>a b. ?c a b < 0) (take n ?S @ drop n ?S)"
    using page_order_strict[OF col rs] by simp
  have take_ne: "take n ?S \<noteq> []" using n by (metis length_greater_0_conv length_sort_cmp less_le_trans take_eq_Nil neq0_conv)
  then have parts: "take n ?S = butlast (take n ?S) @ [?x]" by simp
  have x: "?x \<in> set rs" using take_ne by (metis in_set_takeD last_in_set set_sort_cmp)
  have after: "is_after_page_cursor (Some (key_of ?x)) r \<longleftrightarrow> ?c ?x r < 0" if "r \<in> set rs" for r
    using that x col rs by (intro after_iff_later) (auto simp: page_set_def)
  have early: "\<not> ?c ?x r < 0" if "r \<in> set (take n ?S)" for r
  proof (cases "r = ?x")
    case True
    then show ?thesis using asym[of ?x ?x] by auto
  next
    case False
    then have "r \<in> set (butlast (take n ?S))" using that parts by (metis Un_iff empty_iff empty_set list.set(2) insert_iff set_append)
    then have "?c r ?x < 0" using S parts by (metis append_assoc append_Cons sorted_wrt_append list.set_intros(1))
    then show ?thesis by (rule asym)
  qed
  have late: "?c ?x r < 0" if "r \<in> set (drop n ?S)" for r
    using S that take_ne by (metis last_in_set sorted_wrt_append)
  have "set ?F = set (drop n ?S)"
  proof -
    have "set rs = set (take n ?S) \<union> set (drop n ?S)" by (metis append_take_drop_id set_append set_sort_cmp)
    then show ?thesis using after early late by auto
  qed
  moreover have "page_set E ?F" using rs by (auto simp: page_set_def distinct_map_filter)
  ultimately show ?thesis
    using S page_order_strict[OF col, of ?F]
    by (intro sorted_wrt_unique[of "\<lambda>a b. ?c a b < 0"]) (auto simp: asym sorted_wrt_append)
qed

end
