(* ===== verification/Ai_Results.thy ===== *)
theory Ai_Results
  imports Suite_Registry
begin

text \<open>
  The contract between queued AI actions and their results (\<open>server/ai-result.ts\<close>): what a model may
  return, which stored audit record a proposal is bound to, the check that the selected evidence is still
  the authorized one, and the transition of the audit record. The schema library is applied as its
  documentation says; its test for UUID texts is the parameter \<open>uuid\<close>. Parsing a parsed binding again
  changes nothing and is left out.
\<close>

datatype ai_err =
    AiSchema string
  | AiCitedOutside
  | AiNotObject string
  | AiDuplicateIds string
  | AiUnknownContract
  | AiContractMismatch
  | AiCitedTwice
  | AiCitedUnselected
  | AiBadContract
  | AiEnvelopeMismatch
  | AiEnvelopeHash
  | AiAuditIdentity
  | AiNotProposal
  | AiDuplicateRecords
  | AiAuditMissing
  | AiAuditMismatch
  | AiPromptMismatch
  | AiNotPending
  | AiBindings
  | AiTargetMismatch
  | AiTargetNeedsId
  | AiModelMismatch
  | AiBindingChanged
  | AiTargetChanged
  | AiSelectionIncomplete
  | AiTime
  | AiResultModel
  | AiCanon canon_error

section \<open>Schemas\<close>

text \<open>\<open>z.string().trim().min(1).max(n)\<close> gives the trimmed text.\<close>

definition z_text :: "string \<Rightarrow> nat \<Rightarrow> json \<Rightarrow> ai_err + string" where
  "z_text label n v =
     (case v of JStr s \<Rightarrow> if trim s = [] \<or> n < length (trim s) then Inl (AiSchema label) else Inr (trim s)
      | _ \<Rightarrow> Inl (AiSchema label))"

definition z_uuid :: "(string \<Rightarrow> bool) \<Rightarrow> string \<Rightarrow> json \<Rightarrow> ai_err + string" where
  "z_uuid uuid label v = (case v of JStr s \<Rightarrow> if uuid s then Inr s else Inl (AiSchema label) | _ \<Rightarrow> Inl (AiSchema label))"

definition z_hash :: "string \<Rightarrow> json \<Rightarrow> ai_err + string" where
  "z_hash label v = (case v of JStr s \<Rightarrow> if sha_pattern s then Inr s else Inl (AiSchema label) | _ \<Rightarrow> Inl (AiSchema label))"

text \<open>\<open>z.number().int().safe().min(1)\<close>.\<close>

definition z_version :: "string \<Rightarrow> json \<Rightarrow> ai_err + num" where
  "z_version label v =
     (case v of JNum n \<Rightarrow> if is_safe_integer n \<and> num_le (Fin 1) n then Inr n else Inl (AiSchema label)
      | _ \<Rightarrow> Inl (AiSchema label))"

definition z_array :: "string \<Rightarrow> nat \<Rightarrow> nat \<Rightarrow> (json \<Rightarrow> ai_err + 'a) \<Rightarrow> json \<Rightarrow> ai_err + 'a list" where
  "z_array label low high item v =
     (case v of JArr xs \<Rightarrow> if length xs < low \<or> high < length xs then Inl (AiSchema label) else each_e item xs
      | _ \<Rightarrow> Inl (AiSchema label))"

definition z_literal :: "string \<Rightarrow> json \<Rightarrow> json \<Rightarrow> ai_err + unit" where
  "z_literal label expected v = (if v = expected then Inr () else Inl (AiSchema label))"

definition z_strict :: "string \<Rightarrow> string list \<Rightarrow> json \<Rightarrow> ai_err + obj" where
  "z_strict label keys v =
     (case v of JObj ob \<Rightarrow> if list_all (\<lambda>(k, _). k \<in> set keys) ob then Inr ob else Inl (AiSchema label)
      | _ \<Rightarrow> Inl (AiSchema label))"

section \<open>Results of the generic contract\<close>

definition default_array :: "json \<Rightarrow> json" where
  "default_array v = (if v = JUndef then JArr [] else v)"

definition validate_ai_result :: "(string \<Rightarrow> bool) \<Rightarrow> json \<Rightarrow> string list \<Rightarrow> ai_err + obj" where
  "validate_ai_result uuid v allowed =
     (case v of
        JObj ob \<Rightarrow>
          bind_e (z_text ''proposal'' 20000 (oget ob ''proposal'')) (\<lambda>proposal.
          bind_e (z_array ''evidence'' 0 100 (z_uuid uuid ''evidence'') (default_array (oget ob ''evidence''))) (\<lambda>cited.
          bind_e (z_array ''assumptions'' 0 50 (z_text ''assumptions'' 1000) (default_array (oget ob ''assumptions''))) (\<lambda>assumptions.
          bind_e (z_literal ''approvalRequired'' (JBool True) (oget ob ''approvalRequired'')) (\<lambda>_.
          let evidence = uniq cited
          in if \<exists>i \<in> set evidence. i \<notin> set allowed then Inl AiCitedOutside
             else Inr (spread ob [(''proposal'', JStr proposal), (''assumptions'', JArr (map JStr assumptions)),
                         (''approvalRequired'', JBool True), (''evidence'', JArr (map JStr evidence))])))))
      | _ \<Rightarrow> Inl (AiSchema ''result''))"

section \<open>Proposal-only contracts\<close>

datatype proposal_contract = AdditiveProposal | ExtendedProposal

definition proposal_version :: "proposal_contract \<Rightarrow> string" where
  "proposal_version c =
     (case c of AdditiveProposal \<Rightarrow> ''additive-business-proposal.v1'' | ExtendedProposal \<Rightarrow> ''extended-business-proposal.v1'')"

definition proposal_contract_of :: "string \<Rightarrow> proposal_contract option" where
  "proposal_contract_of v = first_such (\<lambda>c. proposal_version c = v) [AdditiveProposal, ExtendedProposal]"

definition known_contract_versions :: "string list" where
  "known_contract_versions = [''core-business-ai-result.v1'', ''premium-business-ai-result.v1'',
     ''first-party-growth-ai-result.v1'', ''esign-ai-result.v1'', ''letterline-ai-result.v1'',
     proposal_version AdditiveProposal, proposal_version ExtendedProposal]"

record proposal_result =
  pr_version :: proposal_contract
  pr_proposal :: string
  pr_evidence :: "string list"
  pr_confidence :: num
  pr_assumptions :: "string list"
  pr_model :: string

definition parse_proposal_result :: "(string \<Rightarrow> bool) \<Rightarrow> json \<Rightarrow> ai_err + proposal_result" where
  "parse_proposal_result uuid v =
     bind_e (z_strict ''result'' [''version'', ''proposal'', ''evidence'', ''confidence'', ''assumptions'', ''model'',
       ''reviewStatus'', ''approvalRequired'', ''proposalOnly'', ''automaticMutationAllowed'', ''externalEffectAllowed''] v) (\<lambda>ob.
     bind_e (case oget ob ''version'' of
               JStr s \<Rightarrow> (case proposal_contract_of s of Some c \<Rightarrow> Inr c | None \<Rightarrow> Inl (AiSchema ''version''))
             | _ \<Rightarrow> Inl (AiSchema ''version'')) (\<lambda>version.
     bind_e (z_text ''proposal'' 20000 (oget ob ''proposal'')) (\<lambda>proposal.
     bind_e (z_array ''evidence'' 1 500 (z_uuid uuid ''evidence'') (oget ob ''evidence'')) (\<lambda>evidence.
     bind_e (case oget ob ''confidence'' of
               JNum n \<Rightarrow> if num_le (Fin 0) n \<and> num_le n (Fin 1) then Inr n else Inl (AiSchema ''confidence'')
             | _ \<Rightarrow> Inl (AiSchema ''confidence'')) (\<lambda>confidence.
     bind_e (z_array ''assumptions'' 0 50 (z_text ''assumptions'' 1000) (oget ob ''assumptions'')) (\<lambda>assumptions.
     bind_e (z_text ''model'' 200 (oget ob ''model'')) (\<lambda>model.
     bind_e (z_literal ''reviewStatus'' (JStr ''pending-human-review'') (oget ob ''reviewStatus'')) (\<lambda>_.
     bind_e (z_literal ''approvalRequired'' (JBool True) (oget ob ''approvalRequired'')) (\<lambda>_.
     bind_e (z_literal ''proposalOnly'' (JBool True) (oget ob ''proposalOnly'')) (\<lambda>_.
     bind_e (z_literal ''automaticMutationAllowed'' (JBool False) (oget ob ''automaticMutationAllowed'')) (\<lambda>_.
     bind_e (z_literal ''externalEffectAllowed'' (JBool False) (oget ob ''externalEffectAllowed'')) (\<lambda>_.
     Inr \<lparr>pr_version = version, pr_proposal = proposal, pr_evidence = evidence, pr_confidence = confidence,
       pr_assumptions = assumptions, pr_model = model\<rparr>))))))))))))"

definition validate_proposal_result ::
  "(string \<Rightarrow> bool) \<Rightarrow> json \<Rightarrow> proposal_contract \<Rightarrow> string list \<Rightarrow> ai_err + proposal_result" where
  "validate_proposal_result uuid v version allowed =
     bind_e (parse_proposal_result uuid v) (\<lambda>r.
     if pr_version r \<noteq> version then Inl AiContractMismatch
     else if \<not> distinct (pr_evidence r) then Inl AiCitedTwice
     else if \<exists>i \<in> set (pr_evidence r). i \<notin> set allowed then Inl AiCitedUnselected
     else Inr r)"

definition parse_model_failure :: "json \<Rightarrow> ai_err + string" where
  "parse_model_failure v =
     bind_e (z_strict ''failure'' [''error''] v) (\<lambda>ob. z_text ''error'' 2000 (oget ob ''error''))"

record evidence_binding =
  bd_record :: string
  bd_module :: string
  bd_type :: string
  bd_version :: num
  bd_hash :: string

definition binding_hash_key :: "proposal_contract \<Rightarrow> string" where
  "binding_hash_key c = (case c of AdditiveProposal \<Rightarrow> ''contentHash'' | ExtendedProposal \<Rightarrow> ''snapshotHash'')"

definition parse_binding :: "(string \<Rightarrow> bool) \<Rightarrow> proposal_contract \<Rightarrow> json \<Rightarrow> ai_err + evidence_binding" where
  "parse_binding uuid c v =
     bind_e (z_strict ''binding'' [''recordId'', ''moduleId'', ''recordType'', ''version'', binding_hash_key c] v) (\<lambda>ob.
     bind_e (z_uuid uuid ''recordId'' (oget ob ''recordId'')) (\<lambda>i.
     bind_e (z_text ''moduleId'' 100 (oget ob ''moduleId'')) (\<lambda>m.
     bind_e (z_text ''recordType'' 200 (oget ob ''recordType'')) (\<lambda>t.
     bind_e (z_version ''version'' (oget ob ''version'')) (\<lambda>n.
     bind_e (z_hash (binding_hash_key c) (oget ob (binding_hash_key c))) (\<lambda>h.
     Inr \<lparr>bd_record = i, bd_module = m, bd_type = t, bd_version = n, bd_hash = h\<rparr>))))))"

definition binding_json :: "proposal_contract \<Rightarrow> evidence_binding \<Rightarrow> json" where
  "binding_json c b = JObj [(''recordId'', JStr (bd_record b)), (''moduleId'', JStr (bd_module b)),
     (''recordType'', JStr (bd_type b)), (''version'', JNum (bd_version b)), (binding_hash_key c, JStr (bd_hash b))]"

section \<open>Digests and envelopes\<close>

definition snapshot_hash :: "js_env \<Rightarrow> json \<Rightarrow> ai_err + string" where
  "snapshot_hash E v = (case digest E v of Inl e \<Rightarrow> Inl (AiCanon e) | Inr h \<Rightarrow> Inr h)"

definition exact_json :: "js_env \<Rightarrow> json \<Rightarrow> json \<Rightarrow> ai_err + bool" where
  "exact_json E a b = bind_e (snapshot_hash E a) (\<lambda>x. bind_e (snapshot_hash E b) (\<lambda>y. Inr (x = y)))"

text \<open>\<open>if (!exactJson(a, b) || ...) throw e\<close>, for one pair after the other.\<close>

definition require_exact :: "js_env \<Rightarrow> ai_err \<Rightarrow> json \<Rightarrow> json \<Rightarrow> ai_err + unit" where
  "require_exact E e a b = bind_e (exact_json E a b) (\<lambda>same. if same then Inr () else Inl e)"

definition need_object :: "json \<Rightarrow> string \<Rightarrow> ai_err + obj" where
  "need_object v label = (case v of JObj ob \<Rightarrow> Inr ob | _ \<Rightarrow> Inl (AiNotObject label))"

definition unique_ids :: "(string \<Rightarrow> bool) \<Rightarrow> json \<Rightarrow> string \<Rightarrow> ai_err + string list" where
  "unique_ids uuid v label =
     bind_e (z_array label 1 500 (z_uuid uuid label) v) (\<lambda>ids. if distinct ids then Inr ids else Inl (AiDuplicateIds label))"

definition normalized_record_version :: "suite_record \<Rightarrow> num option" where
  "normalized_record_version r =
     (case oget (sd_data r) ''version'' of
        JUndef \<Rightarrow> Some (Fin 1)
      | JNum n \<Rightarrow> if is_safe_integer n \<and> num_le (Fin 1) n then Some n else None
      | _ \<Rightarrow> None)"

definition ai_result_contract_version :: "obj \<Rightarrow> ai_err + string option" where
  "ai_result_contract_version ctx =
     (if \<not> has_own ctx ''resultContract'' then Inr None
      else bind_e (need_object (oget ctx ''resultContract'') ''resultContract'') (\<lambda>c.
           case oget c ''version'' of
             JStr v \<Rightarrow> if v \<in> set known_contract_versions then Inr (Some v) else Inl AiUnknownContract
           | _ \<Rightarrow> Inl AiUnknownContract))"

definition additive_module_ids :: "string list" where
  "additive_module_ids = [''tables'', ''meetings'', ''insights'', ''learning'', ''community'']"

record envelope =
  en_stored :: obj
  en_data :: obj
  en_version :: num
  en_hash :: string

definition envelope_content_hash :: "js_env \<Rightarrow> obj \<Rightarrow> num \<Rightarrow> obj \<Rightarrow> ai_err + string" where
  "envelope_content_hash E stored version data = snapshot_hash E (JObj
     [(''moduleId'', oget stored ''moduleId''), (''recordType'', oget stored ''recordType''), (''title'', oget stored ''title''),
      (''state'', oget stored ''state''), (''version'', JNum version), (''data'', JObj data)])"

definition additive_envelope :: "js_env \<Rightarrow> suite_record \<Rightarrow> ai_err + envelope" where
  "additive_envelope E r =
     (if oget (sd_data r) ''additiveContract'' \<noteq> JStr ''additive-business-record.v1'' then Inl AiBadContract
      else bind_e (need_object (oget (sd_data r) ''record'') ''additive proposal audit record'') (\<lambda>stored.
           bind_e (z_version ''version'' (oget stored ''version'')) (\<lambda>version.
           bind_e (z_hash ''contentHash'' (oget stored ''contentHash'')) (\<lambda>h.
           bind_e (need_object (oget stored ''data'') ''additive proposal audit data'') (\<lambda>data.
           if oget stored ''id'' \<noteq> JStr (sd_id r) \<or> oget stored ''workspaceId'' \<noteq> JStr (sd_workspace r)
              \<or> oget stored ''moduleId'' \<noteq> JStr (sd_module r) \<or> oget stored ''recordType'' \<noteq> JStr (sd_type r)
              \<or> oget stored ''title'' \<noteq> JStr (sd_title r) \<or> oget stored ''state'' \<noteq> JStr (sd_state r)
           then Inl AiEnvelopeMismatch
           else bind_e (envelope_content_hash E stored version data) (\<lambda>expected.
                if h \<noteq> expected then Inl AiEnvelopeHash
                else Inr \<lparr>en_stored = stored, en_data = data, en_version = version, en_hash = h\<rparr>))))))"

definition assert_audit_identity :: "ai_action \<Rightarrow> suite_record \<Rightarrow> ai_err + unit" where
  "assert_audit_identity a r =
     (if sd_workspace r \<noteq> sx_workspace a \<or> sd_module r \<noteq> sx_module a \<or> sd_type r \<noteq> ''ai-proposal-request''
         \<or> sd_state r \<noteq> ''queued'' then Inl AiAuditIdentity else Inr ())"

section \<open>The audit boundary\<close>

record boundary =
  bo_version :: proposal_contract
  bo_audit :: suite_record
  bo_evidence :: "string list"
  bo_allowed :: "string list"
  bo_target :: "string option"
  bo_model :: string
  bo_policy :: "string option"
  bo_bindings :: "evidence_binding list"

definition record_map :: "suite_record list \<Rightarrow> (string, suite_record) jmap" where
  "record_map rs = fold (\<lambda>r. jset (sd_id r) r) rs []"

definition strings_json :: "string list \<Rightarrow> json" where
  "strings_json xs = JArr (map JStr xs)"

text \<open>The checks of an additive audit record against its queued action give the evidence bindings.\<close>

definition additive_bindings ::
  "js_env \<Rightarrow> (string \<Rightarrow> bool) \<Rightarrow> ai_action \<Rightarrow> string list \<Rightarrow> string \<Rightarrow> string \<Rightarrow> suite_record \<Rightarrow> ai_err + evidence_binding list" where
  "additive_bindings E uuid a evidence target model audit =
     (let ctx = sx_context a in
      bind_e (additive_envelope E audit) (\<lambda>env.
      bind_e (need_object (oget ctx ''prompt'') ''additive proposal prompt'') (\<lambda>prompt.
      let d = en_data env; kind = last (split_on CHR ''.'' (to_str E (oget prompt ''id'')))
      in if oget d ''queuedActionId'' \<noteq> JStr (sx_id a) \<or> oget d ''targetRecordId'' \<noteq> JStr target
            \<or> oget d ''requestedModelId'' \<noteq> JStr model \<or> oget d ''proposalKind'' \<noteq> JStr kind
         then Inl AiAuditMismatch
         else bind_e (require_exact E AiPromptMismatch (oget d ''prompt'') (oget ctx ''prompt'')) (\<lambda>_.
              bind_e (require_exact E AiPromptMismatch (oget d ''evidenceIds'') (strings_json evidence)) (\<lambda>_.
              bind_e (require_exact E AiPromptMismatch (oget d ''evidenceBindings'') (oget ctx ''evidenceBindings'')) (\<lambda>_.
              bind_e (need_object (oget d ''review'') ''additive proposal review'') (\<lambda>review.
              if oget review ''status'' \<noteq> JStr ''pending-model'' \<or> oget review ''required'' \<noteq> JBool True
                 \<or> oget d ''proposalOnly'' \<noteq> JBool True \<or> oget d ''automaticMutationAllowed'' \<noteq> JBool False
                 \<or> oget d ''applyActionId'' \<noteq> JNull \<or> oget d ''modelExecuted'' \<noteq> JBool False
              then Inl AiNotPending
              else bind_e (z_array ''evidenceBindings'' 1 500 (parse_binding uuid AdditiveProposal) (oget ctx ''evidenceBindings'')) (\<lambda>bindings.
                   let ids = map bd_record bindings
                   in if \<not> distinct ids then Inl AiBindings
                      else bind_e (require_exact E AiBindings (strings_json ids) (strings_json evidence)) (\<lambda>_.
                           if target \<notin> set ids then Inl AiBindings else Inr bindings)))))))))"

definition additive_boundary ::
  "js_env \<Rightarrow> (string \<Rightarrow> bool) \<Rightarrow> ai_action \<Rightarrow> suite_record list \<Rightarrow> string list \<Rightarrow> ai_err + boundary" where
  "additive_boundary E uuid a rs evidence =
     bind_e (z_uuid uuid ''requestRecordId'' (oget (sx_context a) ''requestRecordId'')) (\<lambda>request.
     bind_e (z_uuid uuid ''targetRecordId'' (oget (sx_context a) ''targetRecordId'')) (\<lambda>target.
     bind_e (z_text ''requestedModelId'' 200 (oget (sx_context a) ''requestedModelId'')) (\<lambda>model.
     case jget (record_map rs) request of
       None \<Rightarrow> Inl AiAuditMissing
     | Some audit \<Rightarrow>
         bind_e (assert_audit_identity a audit) (\<lambda>_.
         bind_e (additive_bindings E uuid a evidence target model audit) (\<lambda>bindings.
         Inr \<lparr>bo_version = AdditiveProposal, bo_audit = audit, bo_evidence = evidence, bo_allowed = evidence,
           bo_target = Some target, bo_model = model, bo_policy = None, bo_bindings = bindings\<rparr>)))))"

definition undefined_if_null :: "json \<Rightarrow> json" where
  "undefined_if_null v = (if nullish v then JUndef else v)"

definition text_or_undefined :: "string option \<Rightarrow> json" where
  "text_or_undefined t = (case t of None \<Rightarrow> JUndef | Some s \<Rightarrow> JStr s)"

definition extended_target :: "js_env \<Rightarrow> (string \<Rightarrow> bool) \<Rightarrow> obj \<Rightarrow> obj \<Rightarrow> ai_err + string option" where
  "extended_target E uuid ctx d =
     bind_e (if oget ctx ''targetRecordId'' = JUndef then Inr None
             else bind_e (z_uuid uuid ''targetRecordId'' (oget ctx ''targetRecordId'')) (\<lambda>t. Inr (Some t))) (\<lambda>target.
     if \<not> strict_eq (undefined_if_null (oget d ''targetRecordId'')) (text_or_undefined target)
        \<or> \<not> strict_eq (undefined_if_null (oget d ''targetVersion'')) (undefined_if_null (oget ctx ''targetVersion''))
        \<or> \<not> strict_eq (undefined_if_null (oget d ''targetSnapshotHash'')) (undefined_if_null (oget ctx ''targetSnapshotHash''))
     then Inl AiTargetMismatch
     else if truthy (text_or_undefined target)
     then bind_e (z_version ''targetVersion'' (oget ctx ''targetVersion'')) (\<lambda>_.
          bind_e (z_hash ''targetSnapshotHash'' (oget ctx ''targetSnapshotHash'')) (\<lambda>_. Inr target))
     else if oget ctx ''targetVersion'' \<noteq> JUndef \<or> oget ctx ''targetSnapshotHash'' \<noteq> JUndef
     then Inl AiTargetNeedsId else Inr target)"

definition extended_bindings ::
  "js_env \<Rightarrow> (string \<Rightarrow> bool) \<Rightarrow> ai_action \<Rightarrow> string list \<Rightarrow> string \<Rightarrow> string \<Rightarrow> suite_record
     \<Rightarrow> ai_err + evidence_binding list \<times> string option" where
  "extended_bindings E uuid a evidence model policy audit =
     (let ctx = sx_context a; d = sd_data audit in
      bind_e (z_array ''evidenceBindings'' 1 500 (parse_binding uuid ExtendedProposal) (oget ctx ''evidenceBindings'')) (\<lambda>bindings.
      let ids = map bd_record bindings
      in if \<not> distinct ids then Inl AiBindings
         else bind_e (require_exact E AiBindings (strings_json ids) (strings_json evidence)) (\<lambda>_.
              if \<not> strict_eq (oget d ''actionId'') (oget ctx ''actionId'') \<or> \<not> strict_eq (oget d ''promptId'') (oget ctx ''promptId'')
                 \<or> \<not> strict_eq (oget d ''promptVersion'') (oget ctx ''promptVersion'') \<or> oget d ''modelPolicyId'' \<noteq> JStr policy
                 \<or> oget d ''requestedModelId'' \<noteq> JStr model
              then Inl AiAuditMismatch
              else bind_e (require_exact E AiAuditMismatch (oget d ''evidenceIds'') (strings_json evidence)) (\<lambda>_.
                   bind_e (require_exact E AiAuditMismatch (oget d ''evidenceBindings'') (JArr (map (binding_json ExtendedProposal) bindings))) (\<lambda>_.
                   if oget d ''reviewStatus'' \<noteq> JStr ''pending-model'' \<or> oget d ''proposalOnly'' \<noteq> JBool True
                      \<or> oget d ''automaticMutationAllowed'' \<noteq> JBool False \<or> oget d ''externalEffectAllowed'' \<noteq> JBool False
                   then Inl AiNotPending
                   else bind_e (extended_target E uuid ctx d) (\<lambda>target. Inr (bindings, target)))))))"

definition extended_boundary ::
  "js_env \<Rightarrow> (string \<Rightarrow> bool) \<Rightarrow> ai_action \<Rightarrow> suite_record list \<Rightarrow> string list \<Rightarrow> ai_err + boundary" where
  "extended_boundary E uuid a rs evidence =
     bind_e (z_uuid uuid ''aiAuditRecordId'' (oget (sx_context a) ''aiAuditRecordId'')) (\<lambda>request.
     bind_e (z_text ''requestedModelId'' 200 (oget (sx_context a) ''requestedModelId'')) (\<lambda>model.
     bind_e (z_text ''modelPolicyId'' 200 (oget (sx_context a) ''modelPolicyId'')) (\<lambda>policy.
     case jget (record_map rs) request of
       None \<Rightarrow> Inl AiAuditMissing
     | Some audit \<Rightarrow>
         bind_e (assert_audit_identity a audit) (\<lambda>_.
         bind_e (extended_bindings E uuid a evidence model policy audit) (\<lambda>(bindings, target).
         Inr \<lparr>bo_version = ExtendedProposal, bo_audit = audit, bo_evidence = evidence,
           bo_allowed = uniq (evidence @ (case target of Some t \<Rightarrow> if t \<noteq> [] then [t] else [] | None \<Rightarrow> [])),
           bo_target = target, bo_model = model, bo_policy = Some policy, bo_bindings = bindings\<rparr>)))))"

definition proposal_audit_boundary ::
  "js_env \<Rightarrow> (string \<Rightarrow> bool) \<Rightarrow> ai_action \<Rightarrow> suite_record list \<Rightarrow> ai_err + boundary" where
  "proposal_audit_boundary E uuid a rs =
     bind_e (ai_result_contract_version (sx_context a)) (\<lambda>version.
     case (case version of None \<Rightarrow> None | Some v \<Rightarrow> proposal_contract_of v) of
       None \<Rightarrow> Inl AiNotProposal
     | Some c \<Rightarrow>
         if \<not> distinct (map sd_id rs) then Inl AiDuplicateRecords
         else bind_e (unique_ids uuid (oget (sx_context a) ''evidenceIds'') ''evidenceIds'') (\<lambda>evidence.
              case c of AdditiveProposal \<Rightarrow> additive_boundary E uuid a rs evidence
                      | ExtendedProposal \<Rightarrow> extended_boundary E uuid a rs evidence))"

section \<open>The selected evidence is the authorized one\<close>

definition suite_record_json :: "suite_record \<Rightarrow> json" where
  "suite_record_json r = JObj [(''id'', JStr (sd_id r)), (''workspaceId'', JStr (sd_workspace r)),
     (''moduleId'', JStr (sd_module r)), (''recordType'', JStr (sd_type r)), (''title'', JStr (sd_title r)),
     (''state'', JStr (sd_state r)), (''data'', JObj (sd_data r)), (''createdAt'', JStr (sd_created r)),
     (''updatedAt'', JStr (sd_updated r))]"

definition evidence_snapshot :: "suite_record \<Rightarrow> num option \<Rightarrow> json" where
  "evidence_snapshot r version = JObj [(''contract'', JStr ''suite-record-evidence-snapshot.v1''), (''id'', JStr (sd_id r)),
     (''workspaceId'', JStr (sd_workspace r)), (''moduleId'', JStr (sd_module r)), (''recordType'', JStr (sd_type r)),
     (''title'', JStr (sd_title r)), (''state'', JStr (sd_state r)),
     (''version'', case version of None \<Rightarrow> JUndef | Some n \<Rightarrow> JNum n), (''data'', JObj (sd_data r)),
     (''updatedAt'', JStr (sd_updated r))]"

definition check_additive_binding ::
  "js_env \<Rightarrow> ai_action \<Rightarrow> suite_record list \<Rightarrow> evidence_binding \<Rightarrow> ai_err + suite_record" where
  "check_additive_binding E a rs b =
     (case jget (record_map rs) (bd_record b) of
        None \<Rightarrow> Inl AiBindingChanged
      | Some r \<Rightarrow>
          if sd_workspace r \<noteq> sx_workspace a \<or> sd_module r \<noteq> bd_module b \<or> sd_type r \<noteq> bd_type b then Inl AiBindingChanged
          else bind_e (if sd_module r \<in> set additive_module_ids
                       then bind_e (additive_envelope E r) (\<lambda>env. Inr (Some (en_version env), en_hash env))
                       else bind_e (snapshot_hash E (evidence_snapshot r (normalized_record_version r))) (\<lambda>h.
                            Inr (normalized_record_version r, h))) (\<lambda>(version, h).
               if version \<noteq> Some (bd_version b) \<or> h \<noteq> bd_hash b then Inl AiBindingChanged else Inr r))"

definition check_extended_binding ::
  "js_env \<Rightarrow> ai_action \<Rightarrow> suite_record list \<Rightarrow> evidence_binding \<Rightarrow> ai_err + suite_record" where
  "check_extended_binding E a rs b =
     (case jget (record_map rs) (bd_record b) of
        None \<Rightarrow> Inl AiBindingChanged
      | Some r \<Rightarrow>
          if sd_workspace r \<noteq> sx_workspace a \<or> sd_module r \<noteq> bd_module b \<or> sd_type r \<noteq> bd_type b
             \<or> normalized_record_version r \<noteq> Some (bd_version b) then Inl AiBindingChanged
          else bind_e (snapshot_hash E (suite_record_json r)) (\<lambda>h.
               if h \<noteq> bd_hash b then Inl AiBindingChanged else Inr r))"

definition check_extended_target ::
  "js_env \<Rightarrow> ai_action \<Rightarrow> suite_record list \<Rightarrow> string \<Rightarrow> ai_err + suite_record" where
  "check_extended_target E a rs t =
     (case jget (record_map rs) t of
        None \<Rightarrow> Inl AiTargetChanged
      | Some r \<Rightarrow>
          if sd_workspace r \<noteq> sx_workspace a \<or> sd_module r \<noteq> sx_module a
             \<or> \<not> strict_eq (case normalized_record_version r of None \<Rightarrow> JUndef | Some n \<Rightarrow> JNum n) (oget (sx_context a) ''targetVersion'')
          then Inl AiTargetChanged
          else bind_e (snapshot_hash E (suite_record_json r)) (\<lambda>h.
               if oget (sx_context a) ''targetSnapshotHash'' \<noteq> JStr h then Inl AiTargetChanged else Inr r))"

definition model_records ::
  "js_env \<Rightarrow> ai_action \<Rightarrow> suite_record list \<Rightarrow> boundary \<Rightarrow> ai_err + suite_record list" where
  "model_records E a rs b =
     (case bo_version b of
        AdditiveProposal \<Rightarrow> each_e (check_additive_binding E a rs) (bo_bindings b)
      | ExtendedProposal \<Rightarrow>
          bind_e (each_e (check_extended_binding E a rs) (bo_bindings b)) (\<lambda>found.
          case bo_target b of
            None \<Rightarrow> Inr found
          | Some t \<Rightarrow> if t = [] then Inr found else bind_e (check_extended_target E a rs t) (\<lambda>r. Inr (r # found))))"

definition validate_proposal_job ::
  "js_env \<Rightarrow> (string \<Rightarrow> bool) \<Rightarrow> ai_action \<Rightarrow> suite_record list \<Rightarrow> string \<Rightarrow> ai_err + boundary \<times> suite_record list" where
  "validate_proposal_job E uuid a rs configured_model =
     bind_e (proposal_audit_boundary E uuid a rs) (\<lambda>b.
     if trim configured_model = [] \<or> bo_model b \<noteq> configured_model
        \<or> (case bo_policy b of None \<Rightarrow> False | Some p \<Rightarrow> p \<noteq> configured_model)
     then Inl AiModelMismatch
     else bind_e (model_records E a rs b) (\<lambda>found.
          let exact = jvals (record_map found)
          in if \<exists>i \<in> set (bo_allowed b). i \<notin> set (map sd_id exact) then Inl AiSelectionIncomplete
             else Inr (b, exact)))"

section \<open>The transition of the audit record\<close>

text \<open>The status and the result a worker reports for an action.\<close>

record completion =
  co_completed :: bool
  co_result :: obj

definition with_envelope_data :: "js_env \<Rightarrow> suite_record \<Rightarrow> envelope \<Rightarrow> string \<Rightarrow> obj \<Rightarrow> ai_err + suite_record" where
  "with_envelope_data E r env ts data =
     (let stored = oset ''updatedAt'' (JStr ts) (oset ''state'' (JStr (sd_state r)) (en_stored env));
          stored' = oset ''data'' (JObj data) stored
      in bind_e (envelope_content_hash E stored' (en_version env) data) (\<lambda>h.
         Inr (r\<lparr>sd_data := spread (sd_data r) [(''record'', JObj (oset ''contentHash'' (JStr h) stored'))]\<rparr>)))"

definition completed_review :: "string \<Rightarrow> obj \<Rightarrow> json" where
  "completed_review status review = JObj (spread review [(''status'', JStr status)])"

definition completed_data :: "proposal_result \<Rightarrow> obj" where
  "completed_data r =
     [(''executedModel'', JStr (pr_model r)), (''resultContractVersion'', JStr (proposal_version (pr_version r)))]"

definition proposal_guards :: obj where
  "proposal_guards = [(''proposalOnly'', JBool True), (''automaticMutationAllowed'', JBool False),
     (''externalEffectAllowed'', JBool False)]"

definition complete_audit ::
  "js_env \<Rightarrow> (string \<Rightarrow> bool) \<Rightarrow> ai_action \<Rightarrow> boundary \<Rightarrow> obj \<Rightarrow> string \<Rightarrow> ai_err + suite_record" where
  "complete_audit E uuid a b result ts =
     bind_e (validate_proposal_result uuid (JObj result) (bo_version b) (bo_allowed b)) (\<lambda>r.
     if pr_model r \<noteq> bo_model b \<or> (case bo_policy b of None \<Rightarrow> False | Some p \<Rightarrow> pr_model r \<noteq> p) then Inl AiResultModel
     else let next = (bo_audit b)\<lparr>sd_updated := ts, sd_state := ''pending-human-review''\<rparr>
          in case bo_version b of
               AdditiveProposal \<Rightarrow>
                 bind_e (additive_envelope E (bo_audit b)) (\<lambda>env.
                 bind_e (need_object (oget (en_data env) ''review'') ''additive proposal review'') (\<lambda>review.
                 with_envelope_data E next env ts (spread (en_data env)
                   ([(''output'', JStr (pr_proposal r)), (''confidence'', JNum (pr_confidence r)),
                     (''assumptions'', strings_json (pr_assumptions r)), (''citedEvidenceIds'', strings_json (pr_evidence r)),
                     (''review'', completed_review ''pending-human-review'' review)]
                    @ completed_data r @ [(''approvalRequired'', JBool True)] @ proposal_guards
                    @ [(''modelExecuted'', JBool True), (''completedAt'', JStr ts)]))))
             | ExtendedProposal \<Rightarrow>
                 Inr (next\<lparr>sd_data := spread (sd_data next)
                   ([(''aiActionId'', JStr (sx_id a)), (''proposal'', JStr (pr_proposal r)), (''evidence'', strings_json (pr_evidence r)),
                     (''confidence'', JNum (pr_confidence r)), (''assumptions'', strings_json (pr_assumptions r))]
                    @ completed_data r
                    @ [(''reviewStatus'', JStr ''pending-human-review''), (''approvalRequired'', JBool True)] @ proposal_guards
                    @ [(''modelExecuted'', JBool True), (''completedAt'', JStr ts)])\<rparr>))"

definition fail_audit ::
  "js_env \<Rightarrow> ai_action \<Rightarrow> boundary \<Rightarrow> obj \<Rightarrow> string \<Rightarrow> ai_err + suite_record" where
  "fail_audit E a b result ts =
     bind_e (parse_model_failure (JObj result)) (\<lambda>error.
     let next = (bo_audit b)\<lparr>sd_updated := ts, sd_state := ''model-failed''\<rparr>;
         marks = [(''modelError'', JStr error)] @ proposal_guards @ [(''modelCompleted'', JBool False), (''failedAt'', JStr ts)]
     in case bo_version b of
          AdditiveProposal \<Rightarrow>
            bind_e (additive_envelope E (bo_audit b)) (\<lambda>env.
            bind_e (need_object (oget (en_data env) ''review'') ''additive proposal review'') (\<lambda>review.
            with_envelope_data E next env ts
              (spread (en_data env) ([(''review'', completed_review ''model-failed'' review)] @ marks))))
        | ExtendedProposal \<Rightarrow>
            Inr (next\<lparr>sd_data := spread (sd_data next)
              ([(''aiActionId'', JStr (sx_id a)), (''reviewStatus'', JStr ''model-failed'')] @ marks)\<rparr>))"

definition transition_proposal_audit ::
  "js_env \<Rightarrow> (string \<Rightarrow> bool) \<Rightarrow> ai_action \<Rightarrow> suite_record list \<Rightarrow> completion \<Rightarrow> string \<Rightarrow> ai_err + suite_record" where
  "transition_proposal_audit E uuid a rs c ts =
     bind_e (proposal_audit_boundary E uuid a rs) (\<lambda>b.
     if parse_date E ts = None then Inl AiTime
     else if co_completed c then complete_audit E uuid a b (co_result c) ts
     else fail_audit E a b (co_result c) ts)"

section \<open>Lemmas\<close>

lemma additive_envelope_Inr:
  "additive_envelope E r = Inr env \<longleftrightarrow>
     oget (sd_data r) ''additiveContract'' = JStr ''additive-business-record.v1''
     \<and> oget (sd_data r) ''record'' = JObj (en_stored env)
     \<and> z_version ''version'' (oget (en_stored env) ''version'') = Inr (en_version env)
     \<and> z_hash ''contentHash'' (oget (en_stored env) ''contentHash'') = Inr (en_hash env)
     \<and> oget (en_stored env) ''data'' = JObj (en_data env)
     \<and> oget (en_stored env) ''id'' = JStr (sd_id r) \<and> oget (en_stored env) ''workspaceId'' = JStr (sd_workspace r)
     \<and> oget (en_stored env) ''moduleId'' = JStr (sd_module r) \<and> oget (en_stored env) ''recordType'' = JStr (sd_type r)
     \<and> oget (en_stored env) ''title'' = JStr (sd_title r) \<and> oget (en_stored env) ''state'' = JStr (sd_state r)
     \<and> envelope_content_hash E (en_stored env) (en_version env) (en_data env) = Inr (en_hash env)"
proof -
  have obj: "need_object v l = Inr ob \<longleftrightarrow> v = JObj ob" for v l ob
    by (cases v) (simp_all add: need_object_def)
  show ?thesis
    by (cases env) (auto simp: additive_envelope_def bind_e_Inr_iff obj)
qed

definition hash_format_ok :: "js_env \<Rightarrow> bool" where
  "hash_format_ok E \<longleftrightarrow> (\<forall>s. sha_pattern (sha256_hex E s))"

lemma envelope_hash_format: "hash_format_ok E \<Longrightarrow> envelope_content_hash E st n d = Inr h \<Longrightarrow> sha_pattern h"
  by (auto simp: envelope_content_hash_def snapshot_hash_def digest_def bind_e_Inr_iff hash_format_ok_def split: sum.splits)

lemma with_envelope_data_envelope:
  assumes host: "hash_format_ok E" and env: "additive_envelope E o' = Inr env"
    and r: "with_envelope_data E (o'\<lparr>sd_updated := ts, sd_state := st\<rparr>) env ts data = Inr r"
  shows "\<exists>env'. additive_envelope E r = Inr env' \<and> en_data env' = data \<and> en_version env' = en_version env"
    and "sd_id r = sd_id o' \<and> sd_workspace r = sd_workspace o' \<and> sd_module r = sd_module o' \<and> sd_type r = sd_type o'
      \<and> sd_title r = sd_title o' \<and> sd_created r = sd_created o' \<and> sd_updated r = ts \<and> sd_state r = st"
proof -
  let ?st = "oset ''data'' (JObj data) (oset ''updatedAt'' (JStr ts) (oset ''state'' (JStr st) (en_stored env)))"
  from r obtain h where h: "envelope_content_hash E ?st (en_version env) data = Inr h"
    and r': "r = o'\<lparr>sd_updated := ts, sd_state := st,
        sd_data := spread (sd_data o') [(''record'', JObj (oset ''contentHash'' (JStr h) ?st))]\<rparr>"
    by (auto simp: with_envelope_data_def Let_def bind_e_Inr_iff)
  define env' where "env' = \<lparr>en_stored = oset ''contentHash'' (JStr h) ?st, en_data = data, en_version = en_version env, en_hash = h\<rparr>"
  have "z_hash ''contentHash'' (JStr h) = Inr h"
    using envelope_hash_format[OF host h] by (simp add: z_hash_def)
  moreover have "envelope_content_hash E (oset ''contentHash'' (JStr h) ?st) (en_version env) data = Inr h"
    using h by (simp add: envelope_content_hash_def oget_oset)
  ultimately have "additive_envelope E r = Inr env'"
    using env unfolding additive_envelope_Inr r' env'_def by (simp add: oget_oset)
  then show "\<exists>env'. additive_envelope E r = Inr env' \<and> en_data env' = data \<and> en_version env' = en_version env"
    by (auto simp: env'_def)
  show "sd_id r = sd_id o' \<and> sd_workspace r = sd_workspace o' \<and> sd_module r = sd_module o' \<and> sd_type r = sd_type o'
      \<and> sd_title r = sd_title o' \<and> sd_created r = sd_created o' \<and> sd_updated r = ts \<and> sd_state r = st"
    by (simp add: r')
qed

lemma record_map_get: "jget (record_map rs) i = Some r \<Longrightarrow> r \<in> set rs \<and> sd_id r = i"
proof -
  have "jget (fold (\<lambda>r. jset (sd_id r) r) rs m) i = Some r \<Longrightarrow> r \<in> set rs \<and> sd_id r = i \<or> jget m i = Some r" for m
  proof (induction rs arbitrary: m)
    case (Cons x xs)
    then show ?case by (auto simp: jget_jset split: if_splits dest!: Cons.IH)
  qed simp
  then show "jget (record_map rs) i = Some r \<Longrightarrow> r \<in> set rs \<and> sd_id r = i"
    by (force simp: record_map_def)
qed

text \<open>What a boundary is bound to.\<close>

lemma bind_e_InrE: "bind_e m f = Inr y \<Longrightarrow> (\<And>x. m = Inr x \<Longrightarrow> f x = Inr y \<Longrightarrow> P) \<Longrightarrow> P"
  by (auto simp: bind_e_Inr_iff)

lemma boundary_cases:
  assumes "proposal_audit_boundary E uuid a rs = Inr b"
  shows "distinct (map sd_id rs) \<and> (\<exists>ev. unique_ids uuid (oget (sx_context a) ''evidenceIds'') ''evidenceIds'' = Inr ev
    \<and> (additive_boundary E uuid a rs ev = Inr b \<or> extended_boundary E uuid a rs ev = Inr b))"
proof -
  from assms obtain v c where v: "ai_result_contract_version (sx_context a) = Inr (Some v)" "proposal_contract_of v = Some c"
    by (auto simp: proposal_audit_boundary_def bind_e_Inr_iff split: option.splits)
  with assms show ?thesis
    by (cases c) (auto simp: proposal_audit_boundary_def bind_e_Inr_iff split: if_splits)
qed

lemma boundary_audit:
  assumes "proposal_audit_boundary E uuid a rs = Inr b"
  shows "bo_audit b \<in> set rs \<and> sd_workspace (bo_audit b) = sx_workspace a \<and> sd_module (bo_audit b) = sx_module a
    \<and> sd_type (bo_audit b) = ''ai-proposal-request'' \<and> sd_state (bo_audit b) = ''queued''"
    and "distinct (map sd_id rs)"
proof -
  have ident: "assert_audit_identity a r = Inr u \<Longrightarrow> sd_workspace r = sx_workspace a \<and> sd_module r = sx_module a
      \<and> sd_type r = ''ai-proposal-request'' \<and> sd_state r = ''queued''" for r u
    by (auto simp: assert_audit_identity_def split: if_splits)
  have add: "additive_boundary E uuid a rs ev = Inr b \<Longrightarrow>
      \<exists>i u. jget (record_map rs) i = Some (bo_audit b) \<and> assert_audit_identity a (bo_audit b) = Inr u" for ev
    unfolding additive_boundary_def by (elim bind_e_InrE) (auto simp: bind_e_Inr_iff split: option.splits)
  have ext: "extended_boundary E uuid a rs ev = Inr b \<Longrightarrow>
      \<exists>i u. jget (record_map rs) i = Some (bo_audit b) \<and> assert_audit_identity a (bo_audit b) = Inr u" for ev
    unfolding extended_boundary_def by (elim bind_e_InrE) (auto simp: bind_e_Inr_iff split: option.splits; blast)
  from boundary_cases[OF assms] obtain i u
    where "jget (record_map rs) i = Some (bo_audit b)" "assert_audit_identity a (bo_audit b) = Inr u"
    using add ext by blast
  then show "bo_audit b \<in> set rs \<and> sd_workspace (bo_audit b) = sx_workspace a \<and> sd_module (bo_audit b) = sx_module a
    \<and> sd_type (bo_audit b) = ''ai-proposal-request'' \<and> sd_state (bo_audit b) = ''queued''"
    using ident record_map_get by blast
  show "distinct (map sd_id rs)" using boundary_cases[OF assms] by blast
qed

section \<open>A result only proposes\<close>

text \<open>Where a proposal keeps its fields: in the envelope of an additive record, else in the record's data.\<close>

definition proposal_payload :: "proposal_contract \<Rightarrow> suite_record \<Rightarrow> obj" where
  "proposal_payload c r =
     (case c of
        AdditiveProposal \<Rightarrow> (case oget (sd_data r) ''record'' of
            JObj st \<Rightarrow> (case oget st ''data'' of JObj d \<Rightarrow> d | _ \<Rightarrow> []) | _ \<Rightarrow> [])
      | ExtendedProposal \<Rightarrow> sd_data r)"

definition proposal_marks :: "obj \<Rightarrow> bool" where
  "proposal_marks d \<longleftrightarrow> oget d ''proposalOnly'' = JBool True \<and> oget d ''automaticMutationAllowed'' = JBool False
     \<and> oget d ''externalEffectAllowed'' = JBool False"

definition same_identity :: "suite_record \<Rightarrow> suite_record \<Rightarrow> bool" where
  "same_identity r o' \<longleftrightarrow> sd_id r = sd_id o' \<and> sd_workspace r = sd_workspace o' \<and> sd_module r = sd_module o'
     \<and> sd_type r = sd_type o' \<and> sd_title r = sd_title o' \<and> sd_created r = sd_created o'"

lemma envelope_payload: "additive_envelope E r = Inr env \<Longrightarrow> proposal_payload AdditiveProposal r = en_data env"
  by (simp add: additive_envelope_Inr proposal_payload_def)

lemma complete_audit_proposes:
  assumes host: "hash_format_ok E" and r: "complete_audit E uuid a b result ts = Inr r"
  shows "same_identity r (bo_audit b) \<and> sd_updated r = ts \<and> sd_state r = ''pending-human-review''
    \<and> proposal_marks (proposal_payload (bo_version b) r)
    \<and> oget (proposal_payload (bo_version b) r) ''approvalRequired'' = JBool True
    \<and> (bo_version b = AdditiveProposal \<longrightarrow> (\<exists>env. additive_envelope E r = Inr env))"
proof -
  from r obtain p where p: "validate_proposal_result uuid (JObj result) (bo_version b) (bo_allowed b) = Inr p"
    unfolding complete_audit_def by (elim bind_e_InrE)
  show ?thesis
  proof (cases "bo_version b")
    case AdditiveProposal
    let ?next = "(bo_audit b)\<lparr>sd_updated := ts, sd_state := ''pending-human-review''\<rparr>"
    from r p AdditiveProposal obtain env review where env: "additive_envelope E (bo_audit b) = Inr env"
      and w: "with_envelope_data E ?next env ts (spread (en_data env)
                   ([(''output'', JStr (pr_proposal p)), (''confidence'', JNum (pr_confidence p)),
                     (''assumptions'', strings_json (pr_assumptions p)), (''citedEvidenceIds'', strings_json (pr_evidence p)),
                     (''review'', completed_review ''pending-human-review'' review)]
                    @ completed_data p @ [(''approvalRequired'', JBool True)] @ proposal_guards
                    @ [(''modelExecuted'', JBool True), (''completedAt'', JStr ts)])) = Inr r"
      by (auto simp: complete_audit_def bind_e_Inr_iff Let_def split: if_splits)
    from with_envelope_data_envelope[OF host env w] show ?thesis
      using AdditiveProposal
      by (auto simp: envelope_payload same_identity_def proposal_marks_def completed_data_def proposal_guards_def oget_oset)
  next
    case ExtendedProposal
    with r p show ?thesis
      by (auto simp: complete_audit_def Let_def same_identity_def proposal_marks_def proposal_payload_def
          completed_data_def proposal_guards_def oget_oset split: if_splits)
  qed
qed

lemma fail_audit_proposes:
  assumes host: "hash_format_ok E" and r: "fail_audit E a b result ts = Inr r"
  shows "same_identity r (bo_audit b) \<and> sd_updated r = ts \<and> sd_state r = ''model-failed''
    \<and> proposal_marks (proposal_payload (bo_version b) r)
    \<and> (bo_version b = AdditiveProposal \<longrightarrow> (\<exists>env. additive_envelope E r = Inr env))"
proof (cases "bo_version b")
  case AdditiveProposal
  let ?next = "(bo_audit b)\<lparr>sd_updated := ts, sd_state := ''model-failed''\<rparr>"
  from r AdditiveProposal obtain e env review where env: "additive_envelope E (bo_audit b) = Inr env"
    and w: "with_envelope_data E ?next env ts (spread (en_data env)
        ([(''review'', completed_review ''model-failed'' review)] @ [(''modelError'', JStr e)] @ proposal_guards
          @ [(''modelCompleted'', JBool False), (''failedAt'', JStr ts)])) = Inr r"
    by (auto simp: fail_audit_def bind_e_Inr_iff Let_def)
  from with_envelope_data_envelope[OF host env w] show ?thesis
    using AdditiveProposal
    by (auto simp: envelope_payload same_identity_def proposal_marks_def proposal_guards_def oget_oset)
next
  case ExtendedProposal
  with r show ?thesis
    by (auto simp: fail_audit_def bind_e_Inr_iff Let_def same_identity_def proposal_marks_def proposal_payload_def
        proposal_guards_def oget_oset)
qed

end
