(* ===== verification/Suite_Store.thy ===== *)
theory Suite_Store
  imports Record_Pages Visibility Hostnames Storage_Accounting Ai_Results
begin

text \<open>
  The in-memory workspace store (\<open>MemorySuiteStore\<close> of \<open>server/suite-store.ts\<close>): workspaces and their
  members, usage and quotas, custom domains, plans and modules, and records. The state is the maps of the class;
  values are copied where the code hands out references. An operation is one step: the store runs
  transactions one after the other, and the model runs every operation so.

  Clock readings and random draws are numbered: the state counts them, the host says what each gives. A
  transaction that fails puts back every map but not these counters.
\<close>

section \<open>Host and state\<close>

record suite_host =
  sh_env :: js_env
  sh_clock :: "nat \<Rightarrow> int"
  sh_uuid :: "nat \<Rightarrow> string"
  sh_random :: "nat \<Rightarrow> nat list"
  sh_challenge :: "nat \<Rightarrow> string"
  sh_is_uuid :: "string \<Rightarrow> bool"
  sh_url_host :: "string \<Rightarrow> string option"
  sh_unrestricted :: bool
  sh_plans :: "compute_plan list"
  sh_host_target :: string
  sh_control_domain :: "string option"
  sh_app_url :: string
  sh_model :: string
  sh_default_plan :: plan

datatype store_err =
    CrossTenant
  | PayloadTooLarge
  | RecordQuotaReached
  | StorageQuotaReached
  | AiQuotaReached
  | ClosedToSubmissions
  | DuplicateConsentKey
  | BadPublicId
  | DuplicateSession
  | DuplicateReceipts
  | BadReceiptLookup
  | BadDecisionLookup
  | DomainIntegrity string
  | ViewerScopes
  | ScopesNotIterable
  | ProposalWorkspaceMissing
  | ProposalAuditMissing
  | StoreStorage storage_err
  | StoreHost host_err
  | StorePage page_err
  | StoreAi ai_err
  | UnknownSuiteModule string

record membership =
  mb_owner :: string
  mb_role :: role
  mb_created :: string

datatype domain_status = AwaitingDns | DomainVerified | DomainActive

record custom_domain =
  cu_id :: string
  cu_workspace :: string
  cu_domain :: string
  cu_status :: domain_status
  cu_ownership :: ownership
  cu_checked :: "string option"
  cu_created :: string

record store =
  st_workspaces :: "(string, suite_workspace) jmap"
  st_members :: "(string, membership) jmap"
  st_records :: "(string, suite_record) jmap"
  st_actions :: "(string, ai_action) jmap"
  st_tokens :: "(string, api_token) jmap"
  st_domains :: "(string, custom_domain) jmap"
  st_registry :: registry
  st_active :: "string option"
  st_ticks :: nat
  st_draws :: nat

type_synonym 'a suite = "(store, store_err, 'a) act"

definition now :: "suite_host \<Rightarrow> string suite" where
  "now H = bnd (reads st_ticks) (\<lambda>n.
     bnd (modifies (\<lambda>s. s\<lparr>st_ticks := Suc n\<rparr>)) (\<lambda>_. ret (iso_text (sh_env H) (sh_clock H n))))"

definition date_now :: "suite_host \<Rightarrow> int suite" where
  "date_now H = bnd (reads st_ticks) (\<lambda>n. bnd (modifies (\<lambda>s. s\<lparr>st_ticks := Suc n\<rparr>)) (\<lambda>_. ret (sh_clock H n)))"

definition random_uuid :: "suite_host \<Rightarrow> string suite" where
  "random_uuid H = bnd (reads st_draws) (\<lambda>n. bnd (modifies (\<lambda>s. s\<lparr>st_draws := Suc n\<rparr>)) (\<lambda>_. ret (sh_uuid H n)))"

definition random_bytes :: "suite_host \<Rightarrow> nat list suite" where
  "random_bytes H = bnd (reads st_draws) (\<lambda>n. bnd (modifies (\<lambda>s. s\<lparr>st_draws := Suc n\<rparr>)) (\<lambda>_. ret (sh_random H n)))"

section \<open>Rules\<close>

definition role_name :: "role \<Rightarrow> string" where
  "role_name r = (case r of Viewer \<Rightarrow> ''viewer'' | Member \<Rightarrow> ''member'' | Admin \<Rightarrow> ''admin'' | Owner \<Rightarrow> ''owner'')"

definition plan_name :: "plan \<Rightarrow> string" where
  "plan_name p = (case p of PlanNone \<Rightarrow> ''none'' | PlanStarter \<Rightarrow> ''starter'' | PlanScale \<Rightarrow> ''scale'' | PlanFleet \<Rightarrow> ''fleet'')"

definition plan_allows :: "suite_host \<Rightarrow> plan \<Rightarrow> string \<Rightarrow> bool" where
  "plan_allows H p m \<longleftrightarrow>
     (case suite_module_by_id m of None \<Rightarrow> False | Some d \<Rightarrow> sh_unrestricted H \<or> suite_plan_allows (plan_name p) d)"

definition storage_gb_for_plan :: "suite_host \<Rightarrow> plan \<Rightarrow> num" where
  "storage_gb_for_plan H p =
     (case first_such (\<lambda>c. cp_id c = plan_name p) (sh_plans H) of None \<Rightarrow> Fin 0 | Some c \<Rightarrow> cp_storage c)"

definition quota_for_plan :: "suite_host \<Rightarrow> plan \<Rightarrow> plan_quota" where
  "quota_for_plan H p = suite_plan_quota p (storage_gb_for_plan H p)"

definition platform_suffixes :: "suite_host \<Rightarrow> host_err + string list" where
  "platform_suffixes H = platform_owned_suffixes (sh_url_host H) (sh_host_target H) (sh_control_domain H) (sh_app_url H)"

definition record_payload_bytes :: "js_env \<Rightarrow> obj \<Rightarrow> store_err + nat" where
  "record_payload_bytes E data =
     (let n = length (utf8 (json_text E (JObj data)))
      in if num_lt record_payload_limit (num_of_int (int n)) then Inl PayloadTooLarge else Inr n)"

definition durable_record_version :: "js_env \<Rightarrow> suite_record \<Rightarrow> num option" where
  "durable_record_version E r =
     (let n = to_num E (or_else (oget (sd_data r) ''version'') (jint 1))
      in if is_safe_integer n \<and> num_le (Fin 1) n then Some n else None)"

definition base_workspace :: "string \<Rightarrow> store \<Rightarrow> suite_workspace option" where
  "base_workspace user s =
     (case jget (st_members s) user of None \<Rightarrow> None | Some m \<Rightarrow> jget (st_workspaces s) (mb_owner m))"

definition role_in :: "string \<Rightarrow> store \<Rightarrow> role option" where
  "role_in user s = map_option mb_role (jget (st_members s) user)"

definition role_can_write :: "string \<Rightarrow> store \<Rightarrow> bool" where
  "role_can_write user s \<longleftrightarrow> role_in user s \<in> {Some Owner, Some Admin, Some Member}"

definition role_can_manage :: "string \<Rightarrow> store \<Rightarrow> bool" where
  "role_can_manage user s \<longleftrightarrow> role_in user s \<in> {Some Owner, Some Admin}"

definition workspace_for :: "string \<Rightarrow> suite_workspace \<Rightarrow> store \<Rightarrow> suite_workspace" where
  "workspace_for user w s = w\<lparr>sw_role := role_in user s\<rparr>"

definition no_paid_plan :: "suite_host \<Rightarrow> suite_workspace \<Rightarrow> bool" where
  "no_paid_plan H w \<longleftrightarrow> \<not> sh_unrestricted H \<and> sw_plan w = PlanNone"

section \<open>Workspaces and transactions\<close>

definition get_or_create_workspace :: "suite_host \<Rightarrow> string \<Rightarrow> suite_workspace suite" where
  "get_or_create_workspace H user =
     bnd (reads (base_workspace user)) (\<lambda>existing.
     case existing of
       Some w \<Rightarrow> reads (workspace_for user w)
     | None \<Rightarrow>
         bnd (now H) (\<lambda>ts.
         bnd (random_uuid H) (\<lambda>i.
         let w = \<lparr>sw_id = i, sw_user = user, sw_name = ''My workspace'', sw_slug = ''workspace-'' @ take 8 user,
                  sw_plan = sh_default_plan H, sw_modules = [], sw_role = None, sw_created = ts, sw_updated = ts\<rparr>
         in bnd (modifies (\<lambda>s. s\<lparr>st_workspaces := jset user w (st_workspaces s),
                   st_members := jset user \<lparr>mb_owner = user, mb_role = Owner, mb_created = ts\<rparr> (st_members s)\<rparr>)) (\<lambda>_.
            reads (workspace_for user w)))))"

text \<open>What a failed transaction leaves: the maps of before, the counters of now.\<close>

definition restore :: "store \<Rightarrow> store \<Rightarrow> store" where
  "restore s t = s\<lparr>st_registry := (st_registry t)\<lparr>r_claims := r_claims (st_registry s)\<rparr>, st_active := None,
     st_ticks := st_ticks t, st_draws := st_draws t\<rparr>"

definition run_in_transaction :: "suite_host \<Rightarrow> string \<Rightarrow> (suite_workspace \<Rightarrow> 'a suite) \<Rightarrow> 'a suite" where
  "run_in_transaction H user body = (\<lambda>s.
     case st_active s of
       Some active \<Rightarrow>
         (case base_workspace user s of
            None \<Rightarrow> (Inl CrossTenant, s)
          | Some w \<Rightarrow> if sw_id w \<noteq> active then (Inl CrossTenant, s) else body (workspace_for user w s) s)
     | None \<Rightarrow>
         (case bnd (get_or_create_workspace H user) (\<lambda>w.
                 bnd (modifies (\<lambda>s. s\<lparr>st_active := Some (sw_id w)\<rparr>)) (\<lambda>_. body w)) s of
            (Inl e, t) \<Rightarrow> (Inl e, restore s t)
          | (Inr x, t) \<Rightarrow> (Inr x, t\<lparr>st_active := None\<rparr>)))"

definition get_workspace_by_slug :: "string \<Rightarrow> suite_workspace option suite" where
  "get_workspace_by_slug slug = reads (\<lambda>s. first_such (\<lambda>w. sw_slug w = slug) (jvals (st_workspaces s)))"

definition get_workspace_by_public_id :: "suite_host \<Rightarrow> string \<Rightarrow> suite_workspace option suite" where
  "get_workspace_by_public_id H i = reads (\<lambda>s.
     case first_such (\<lambda>w. sw_id w = i) (jvals (st_workspaces s)) of
       None \<Rightarrow> None
     | Some w \<Rightarrow> if no_paid_plan H w then None else Some (workspace_for (sw_user w) w s))"

definition by_created :: "js_env \<Rightarrow> ('a \<Rightarrow> string) \<Rightarrow> 'a \<Rightarrow> 'a \<Rightarrow> int" where
  "by_created E f a b = collate E (f a) (f b)"

definition list_workspace_members :: "suite_host \<Rightarrow> string \<Rightarrow> suite_member list suite" where
  "list_workspace_members H user =
     bnd (get_or_create_workspace H user) (\<lambda>w.
     reads (\<lambda>s. sort_cmp (by_created (sh_env H) sb_created)
       (map (\<lambda>(u, m). \<lparr>sb_user = u, sb_role = mb_role m, sb_created = mb_created m\<rparr>)
         (filter (\<lambda>(_, m). map_option sw_id (jget (st_workspaces s) (mb_owner m)) = Some (sw_id w)) (st_members s)))))"

definition add_workspace_member :: "suite_host \<Rightarrow> string \<Rightarrow> string \<Rightarrow> role \<Rightarrow> suite_member option suite" where
  "add_workspace_member H user new role =
     bnd (get_or_create_workspace H user) (\<lambda>w.
     bnd (reads (\<lambda>s. \<not> role_can_manage user s \<or> jget (st_members s) new \<noteq> None)) (\<lambda>refused.
     if refused then ret None
     else bnd (now H) (\<lambda>ts.
          bnd (modifies (\<lambda>s. s\<lparr>st_members := jset new \<lparr>mb_owner = sw_user w, mb_role = role, mb_created = ts\<rparr> (st_members s)\<rparr>)) (\<lambda>_.
          ret (Some \<lparr>sb_user = new, sb_role = role, sb_created = ts\<rparr>)))))"

definition jdelete :: "'k \<Rightarrow> ('k, 'v) jmap \<Rightarrow> ('k, 'v) jmap" where
  "jdelete k m = AList.delete k m"

definition remove_workspace_member :: "suite_host \<Rightarrow> string \<Rightarrow> string \<Rightarrow> bool suite" where
  "remove_workspace_member H user member =
     bnd (get_or_create_workspace H user) (\<lambda>w.
     bnd (reads (\<lambda>s. case jget (st_members s) member of
            None \<Rightarrow> False
          | Some m \<Rightarrow> role_can_manage user s \<and> mb_role m \<noteq> Owner
                     \<and> map_option sw_id (jget (st_workspaces s) (mb_owner m)) = Some (sw_id w))) (\<lambda>ok.
     if ok then bnd (modifies (\<lambda>s. s\<lparr>st_members := jdelete member (st_members s)\<rparr>)) (\<lambda>_. ret True)
     else ret False))"

section \<open>Usage\<close>

record suite_usage =
  us_records :: nat
  us_record_limit :: num
  us_actions :: nat
  us_action_limit :: num
  us_registered :: num
  us_verified :: num
  us_unverified :: num
  us_objects :: nat
  us_storage_limit :: num
  us_version :: string
  us_as_of :: string

definition records_of :: "store \<Rightarrow> string \<Rightarrow> suite_record list" where
  "records_of s w = filter (\<lambda>r. sd_workspace r = w) (jvals (st_records s))"

definition registrations :: "js_env \<Rightarrow> suite_record list \<Rightarrow> storage_err + registration list" where
  "registrations E rs =
     bind_e (each_e (\<lambda>r. suite_storage_object_registration E (sd_module r) (sd_type r) (sd_data r)) rs) (\<lambda>found.
     Inr (concat (map (\<lambda>x. case x of None \<Rightarrow> [] | Some g \<Rightarrow> [g]) found)))"

definition sum_bytes :: "registration list \<Rightarrow> num" where
  "sum_bytes rs = foldl (\<lambda>n r. num_add n (sr_bytes r)) (Fin 0) rs"

definition lift_storage :: "storage_err + 'a \<Rightarrow> 'a suite" where
  "lift_storage r = lift_e (case r of Inl e \<Rightarrow> Inl (StoreStorage e) | Inr x \<Rightarrow> Inr x)"

definition get_usage :: "suite_host \<Rightarrow> string \<Rightarrow> suite_usage suite" where
  "get_usage H user =
     bnd (get_or_create_workspace H user) (\<lambda>w.
     bnd (now H) (\<lambda>ts.
     bnd (reads (\<lambda>s. records_of s (sw_id w))) (\<lambda>rs.
     bnd (lift_storage (registrations (sh_env H) rs)) (\<lambda>regs.
     bnd (reads (\<lambda>s. length (filter (\<lambda>a. sx_workspace a = sw_id w \<and> starts_with (sx_created a) (take 7 ts))
                              (jvals (st_actions s))))) (\<lambda>actions.
     bnd (now H) (\<lambda>as_of.
     let quota = quota_for_plan H (sw_plan w);
         registered = sum_bytes regs;
         verified = sum_bytes (filter sr_verified regs)
     in ret \<lparr>us_records = length rs, us_record_limit = pq_records quota, us_actions = actions,
          us_action_limit = pq_ai_actions quota, us_registered = registered, us_verified = verified,
          us_unverified = num_sub registered verified, us_objects = length regs, us_storage_limit = pq_storage quota,
          us_version = accounting_version, us_as_of = as_of\<rparr>))))))"

section \<open>Custom domains\<close>

definition on_registry :: "(registry, host_err, 'a) act \<Rightarrow> 'a suite" where
  "on_registry m = (\<lambda>s. case m (st_registry s) of
     (Inl e, g) \<Rightarrow> (Inl (StoreHost e), s\<lparr>st_registry := g\<rparr>)
   | (Inr x, g) \<Rightarrow> (Inr x, s\<lparr>st_registry := g\<rparr>))"

definition lift_host :: "host_err + 'a \<Rightarrow> 'a suite" where
  "lift_host r = lift_e (case r of Inl e \<Rightarrow> Inl (StoreHost e) | Inr x \<Rightarrow> Inr x)"

definition list_custom_domains :: "suite_host \<Rightarrow> string \<Rightarrow> custom_domain list suite" where
  "list_custom_domains H user =
     bnd (get_or_create_workspace H user) (\<lambda>w.
     reads (\<lambda>s. sort_cmp (by_created (sh_env H) cu_created)
       (filter (\<lambda>d. cu_workspace d = sw_id w) (jvals (st_domains s)))))"

text \<open>
  Claiming draws challenge tokens until one is unused; the value is \<open>None\<close> when that never happens.
\<close>

definition add_custom_domain :: "suite_host \<Rightarrow> string \<Rightarrow> string \<Rightarrow> store \<Rightarrow> ((store_err + custom_domain option) \<times> store) option" where
  "add_custom_domain H user domain s =
     (case bnd (get_or_create_workspace H user) (\<lambda>w.
             bnd (reads (\<lambda>s. \<not> role_can_manage user s \<or> no_paid_plan H w)) (\<lambda>refused.
             bnd (if refused then ret [] else lift_host (platform_suffixes H)) (\<lambda>suffixes.
             if refused then ret None
             else bnd (now H) (\<lambda>ts. ret (Some (w, suffixes, ts)))))) s of
        (Inl e, t) \<Rightarrow> Some (Inl e, t)
      | (Inr None, t) \<Rightarrow> Some (Inr None, t)
      | (Inr (Some (w, suffixes, ts)), t) \<Rightarrow>
          (case claim_hostname (sh_env H) (sh_challenge H)
                  \<lparr>ci_hostname = domain, ci_surface = SurfaceSuite, ci_owner = sw_user w, ci_resource = sw_id w\<rparr>
                  suffixes ts (st_registry t) of
             None \<Rightarrow> None
           | Some (Inl e, g) \<Rightarrow> Some (Inl (StoreHost e), t\<lparr>st_registry := g\<rparr>)
           | Some (Inr None, g) \<Rightarrow> Some (Inr None, t\<lparr>st_registry := g\<rparr>)
           | Some (Inr (Some claim), g) \<Rightarrow>
               Some (bnd (random_uuid H) (\<lambda>i.
                     bnd (lift_host (ownership_instructions claim (sh_host_target H))) (\<lambda>ownership.
                     bnd (now H) (\<lambda>created.
                     let item = \<lparr>cu_id = i, cu_workspace = sw_id w, cu_domain = hc_hostname claim, cu_status = AwaitingDns,
                           cu_ownership = ownership, cu_checked = None, cu_created = created\<rparr>
                     in bnd (modifies (\<lambda>s. s\<lparr>st_domains := jset (hc_hostname claim) item (st_domains s)\<rparr>)) (\<lambda>_.
                        ret (Some item))))) (t\<lparr>st_registry := g\<rparr>))))"

definition claim_status_of :: "domain_status \<Rightarrow> claim_status" where
  "claim_status_of d = (case d of AwaitingDns \<Rightarrow> ClaimPending | DomainVerified \<Rightarrow> ClaimVerified | DomainActive \<Rightarrow> ClaimActive)"

definition set_custom_domain_status :: "suite_host \<Rightarrow> string \<Rightarrow> string \<Rightarrow> domain_status \<Rightarrow> custom_domain option suite" where
  "set_custom_domain_status H user domain status =
     bnd (get_or_create_workspace H user) (\<lambda>w.
     bnd (reads (\<lambda>s. if \<not> role_can_manage user s \<or> no_paid_plan H w then None
            else (case jget (st_domains s) domain of None \<Rightarrow> None | Some d \<Rightarrow> if cu_workspace d = sw_id w then Some d else None))) (\<lambda>found.
     case found of
       None \<Rightarrow> ret None
     | Some d \<Rightarrow>
         bnd (now H) (\<lambda>ts.
         bnd (on_registry (set_claim_status
                \<lparr>ci_hostname = domain, ci_surface = SurfaceSuite, ci_owner = sw_user w, ci_resource = sw_id w\<rparr>
                (claim_status_of status) ts)) (\<lambda>claim.
         case claim of
           None \<Rightarrow> ret None
         | Some c \<Rightarrow>
             let d' = d\<lparr>cu_status := status, cu_checked := hc_checked c\<rparr>
             in bnd (modifies (\<lambda>s. s\<lparr>st_domains := jset domain d' (st_domains s)\<rparr>)) (\<lambda>_. ret (Some d'))))))"

definition domain_claimed :: "claim option \<Rightarrow> custom_domain \<Rightarrow> bool" where
  "domain_claimed c d \<longleftrightarrow>
     (case c of None \<Rightarrow> False
      | Some c \<Rightarrow> hc_id c = ow_claim (cu_ownership d) \<and> hc_surface c = SurfaceSuite \<and> hc_resource c = cu_workspace d)"

definition domain_serves :: "claim option \<Rightarrow> custom_domain \<Rightarrow> bool" where
  "domain_serves c d \<longleftrightarrow> domain_claimed c d \<and> cu_status d \<in> {DomainVerified, DomainActive}
     \<and> (\<exists>x. c = Some x \<and> hc_status x \<in> {ClaimVerified, ClaimActive})"

definition get_workspace_by_custom_domain :: "suite_host \<Rightarrow> string \<Rightarrow> suite_workspace option suite" where
  "get_workspace_by_custom_domain H domain =
     bnd (reads (\<lambda>s. jget (st_domains s) domain)) (\<lambda>item.
     case item of
       None \<Rightarrow> ret None
     | Some d \<Rightarrow>
         bnd (on_registry (get_claim (cu_domain d))) (\<lambda>claim.
         if \<not> domain_serves claim d then ret None
         else reads (\<lambda>s. first_such (\<lambda>w. sw_id w = cu_workspace d \<and> \<not> no_paid_plan H w) (jvals (st_workspaces s)))))"

definition list_active_custom_domains :: "suite_host \<Rightarrow> string list suite" where
  "list_active_custom_domains H =
     bnd (reads (\<lambda>s. filter (\<lambda>d. cu_status d \<in> {DomainVerified, DomainActive}
            \<and> (\<exists>w \<in> set (jvals (st_workspaces s)). sw_id w = cu_workspace d \<and> \<not> no_paid_plan H w)) (jvals (st_domains s)))) (\<lambda>ds.
     bnd (each (\<lambda>d. bnd (on_registry (get_claim (cu_domain d))) (\<lambda>c. ret (d, c))) ds) (\<lambda>dcs.
     ret (sort_cmp (\<lambda>a b. cmp_bytes (map code a) (map code b))
       (map (\<lambda>(d, _). cu_domain d) (filter (\<lambda>(d, c). domain_serves c d) dcs)))))"

text \<open>
  Another registry takes over the claims of the stored domains; it is the first component of the result, also
  when an integrity check fails half way.
\<close>

definition attach_claim :: "registry \<Rightarrow> custom_domain \<Rightarrow> (registry, store_err, unit) act" where
  "attach_claim old d = (\<lambda>g.
     case fst (get_claim (cu_domain d) old) of
       Inl e \<Rightarrow> (Inl (StoreHost e), g)
     | Inr c \<Rightarrow>
         if \<not> domain_claimed c d then (Inl (DomainIntegrity (cu_domain d)), g)
         else (case import_claim (the c) g of (Inl e, g') \<Rightarrow> (Inl (StoreHost e), g') | (Inr u, g') \<Rightarrow> (Inr u, g')))"

definition attach_hostname_registry :: "registry \<Rightarrow> store \<Rightarrow> (store_err + unit) \<times> registry \<times> store" where
  "attach_hostname_registry g s =
     (case each (attach_claim (st_registry s)) (jvals (st_domains s)) g of
        (Inl e, g') \<Rightarrow> (Inl e, g', s)
      | (Inr _, g') \<Rightarrow> (Inr (), g', s\<lparr>st_registry := g'\<rparr>))"

section \<open>Plans and modules\<close>

definition revoked_result :: obj where
  "revoked_result = [(''error'', JStr ''The workspace plan changed before this AI action ran.''), (''retryable'', JBool False)]"

definition failed_action :: "string \<Rightarrow> obj \<Rightarrow> string \<Rightarrow> ai_action \<Rightarrow> ai_action" where
  "failed_action error result ts a =
     a\<lparr>sx_status := AiFailed, sx_result := Some result, sx_error := Some error, sx_lease := None, sx_updated := ts\<rparr>"

text \<open>Plan changes revoke the open actions of modules the plan does not allow, even in unrestricted mode.\<close>

definition revoke_action :: "suite_host \<Rightarrow> plan \<Rightarrow> string \<Rightarrow> ai_action \<Rightarrow> ai_action suite" where
  "revoke_action H p w a =
     (case suite_module_by_id (sx_module a) of
        None \<Rightarrow> ret a
      | Some m \<Rightarrow>
          if sx_workspace a \<noteq> w \<or> sx_status a \<notin> {AiQueued, AiRunning} \<or> suite_plan_allows (plan_name p) m then ret a
          else bnd (now H) (\<lambda>ts. ret (failed_action ''Workspace entitlement revoked.'' revoked_result ts a)))"

definition set_workspace_plan :: "suite_host \<Rightarrow> string \<Rightarrow> plan \<Rightarrow> suite_workspace option suite" where
  "set_workspace_plan H user p =
     bnd (get_or_create_workspace H user) (\<lambda>w.
     bnd (reads (\<lambda>s. role_in user s = Some Owner)) (\<lambda>owner.
     if \<not> owner then ret None
     else bnd (now H) (\<lambda>ts.
          bnd (modifies (\<lambda>s. s\<lparr>st_workspaces := jset (sw_user w) (w\<lparr>sw_plan := p, sw_role := None, sw_updated := ts\<rparr>) (st_workspaces s)\<rparr>)) (\<lambda>_.
          bnd (reads st_actions) (\<lambda>actions.
          bnd (each (\<lambda>(k, a). bnd (revoke_action H p (sw_id w) a) (\<lambda>a'. ret (k, a'))) actions) (\<lambda>actions'.
          bnd (modifies (\<lambda>s. s\<lparr>st_actions := actions'\<rparr>)) (\<lambda>_.
          reads (\<lambda>s. map_option (\<lambda>x. workspace_for user x s) (base_workspace user s)))))))))"

definition enable_module :: "suite_host \<Rightarrow> string \<Rightarrow> string \<Rightarrow> suite_workspace option suite" where
  "enable_module H user m =
     bnd (get_or_create_workspace H user) (\<lambda>w.
     bnd (reads (role_can_manage user)) (\<lambda>manager.
     if \<not> manager \<or> \<not> plan_allows H (sw_plan w) m then ret None
     else bnd (now H) (\<lambda>ts.
          let w' = w\<lparr>sw_modules := (if m \<in> set (sw_modules w) then sw_modules w else sw_modules w @ [m]),
                     sw_role := None, sw_updated := ts\<rparr>
          in bnd (modifies (\<lambda>s. s\<lparr>st_workspaces := jset (sw_user w) w' (st_workspaces s)\<rparr>)) (\<lambda>_.
             reads (\<lambda>s. Some (workspace_for user w' s))))))"

section \<open>Reading records\<close>

definition record_target :: "suite_record \<Rightarrow> vis_target" where
  "record_target r = \<lparr>t_workspace = sd_workspace r, t_module = sd_module r, t_type = sd_type r, t_state = sd_state r,
     t_data = JObj (sd_data r)\<rparr>"

definition may_read :: "js_env \<Rightarrow> string \<Rightarrow> string \<Rightarrow> role option \<Rightarrow> suite_record \<Rightarrow> bool" where
  "may_read E user w role r \<longleftrightarrow>
     (case role of None \<Rightarrow> False
      | Some x \<Rightarrow> can_read_suite_record E \<lparr>p_user = user, p_workspace = w, p_role = role_name x\<rparr> (record_target r))"

text \<open>Inside a transaction of the workspace the engines read every record.\<close>

definition sees :: "js_env \<Rightarrow> string \<Rightarrow> suite_workspace \<Rightarrow> store \<Rightarrow> suite_record \<Rightarrow> bool" where
  "sees E user w s r \<longleftrightarrow> st_active s = Some (sw_id w) \<or> may_read E user (sw_id w) (role_in user s) r"

definition absent_or :: "string option \<Rightarrow> string \<Rightarrow> bool" where
  "absent_or wanted x \<longleftrightarrow> (case wanted of None \<Rightarrow> True | Some v \<Rightarrow> v = [] \<or> x = v)"

definition newest_first :: "js_env \<Rightarrow> suite_record \<Rightarrow> suite_record \<Rightarrow> int" where
  "newest_first E a b = collate E (sd_updated b) (sd_updated a)"

definition list_store_records ::
  "suite_host \<Rightarrow> string \<Rightarrow> string option \<Rightarrow> string option \<Rightarrow> nat \<Rightarrow> suite_record list suite" where
  "list_store_records H user m t limit =
     bnd (get_or_create_workspace H user) (\<lambda>w.
     reads (\<lambda>s. take limit (sort_cmp (compare_page_keys (sh_env H))
       (filter (\<lambda>r. absent_or m (sd_module r) \<and> absent_or t (sd_type r) \<and> sees (sh_env H) user w s r) (records_of s (sw_id w))))))"

definition lift_page :: "page_err + 'a \<Rightarrow> 'a suite" where
  "lift_page r = lift_e (case r of Inl e \<Rightarrow> Inl (StorePage e) | Inr x \<Rightarrow> Inr x)"

definition page_candidates :: "js_env \<Rightarrow> string \<Rightarrow> page_query \<Rightarrow> suite_workspace \<Rightarrow> store \<Rightarrow> suite_record list" where
  "page_candidates E user q w s = filter (\<lambda>r. matches_page_input q r \<and> sees E user w s r) (records_of s (sw_id w))"

definition list_record_page :: "suite_host \<Rightarrow> string \<Rightarrow> json \<Rightarrow> record_page suite" where
  "list_record_page H user input =
     bnd (lift_page (normalize_page_input input)) (\<lambda>q.
     bnd (get_or_create_workspace H user) (\<lambda>w.
     let fingerprint = page_fingerprint (sh_env H) user (sw_id w) q
     in bnd (lift_page (decode_page_cursor (sh_env H) (pg_cursor q) fingerprint)) (\<lambda>cursor.
        bnd (reads (\<lambda>s. take (Suc (pg_limit q)) (sort_cmp (compare_page_keys (sh_env H))
               (filter (is_after_page_cursor cursor) (page_candidates (sh_env H) user q w s))))) (\<lambda>visible.
        lift_page (record_page_of (sh_env H) visible (pg_limit q) fingerprint)))))"

definition find_signer_session :: "suite_host \<Rightarrow> string \<Rightarrow> string \<Rightarrow> suite_record option suite" where
  "find_signer_session H user token_hash =
     bnd (get_or_create_workspace H user) (\<lambda>w.
     bnd (reads (\<lambda>s. filter (\<lambda>r. sd_module r = ''esign'' \<and> sd_type r = ''signer-session''
            \<and> oget (sd_data r) ''tokenHash'' = JStr token_hash) (records_of s (sw_id w)))) (\<lambda>found.
     case found of [] \<Rightarrow> ret None | [r] \<Rightarrow> ret (Some r) | _ \<Rightarrow> throw DuplicateSession))"

definition get_record :: "suite_host \<Rightarrow> string \<Rightarrow> string \<Rightarrow> suite_record option suite" where
  "get_record H user i =
     bnd (get_or_create_workspace H user) (\<lambda>w.
     reads (\<lambda>s. case jget (st_records s) i of
              None \<Rightarrow> None
            | Some r \<Rightarrow> if sd_workspace r \<noteq> sw_id w then None else if sees (sh_env H) user w s r then Some r else None))"

definition command_receipt_types :: "string list" where
  "command_receipt_types = [''command-receipt'', ''premium-command-receipt'', ''growth-command-receipt'', ''esign-command-receipt'',
     ''email-command-receipt'', ''additive-command-receipt'', ''extended-business-command-receipt'']"

definition command_receipt_lookup_ok :: "string \<Rightarrow> string \<Rightarrow> string \<Rightarrow> string \<Rightarrow> bool" where
  "command_receipt_lookup_ok t m action key \<longleftrightarrow>
     t \<in> set command_receipt_types \<and> trim m \<noteq> [] \<and> trim action \<noteq> [] \<and> trim key \<noteq> []"

definition find_command_receipt ::
  "suite_host \<Rightarrow> string \<Rightarrow> string \<Rightarrow> string \<Rightarrow> string \<Rightarrow> string \<Rightarrow> suite_record option suite" where
  "find_command_receipt H user t m action key =
     (if \<not> command_receipt_lookup_ok t m action key then throw BadReceiptLookup
      else bnd (get_or_create_workspace H user) (\<lambda>w.
           bnd (reads (\<lambda>s. filter (\<lambda>r. sd_type r = t \<and> sd_module r = m \<and> oget (sd_data r) ''actionId'' = JStr action
                  \<and> oget (sd_data r) ''idempotencyKey'' = JStr key) (records_of s (sw_id w)))) (\<lambda>found.
           case found of [] \<Rightarrow> ret None | [r] \<Rightarrow> ret (Some r) | _ \<Rightarrow> throw DuplicateReceipts)))"

definition find_approval_decision_receipt :: "suite_host \<Rightarrow> string \<Rightarrow> string \<Rightarrow> suite_record option suite" where
  "find_approval_decision_receipt H user decision =
     (if \<not> key_pattern decision then throw BadDecisionLookup
      else bnd (get_or_create_workspace H user) (\<lambda>w.
           reads (\<lambda>s. first_such (\<lambda>r. sd_type r \<in> set command_receipt_types
             \<and> oget (sd_data r) ''approvalDecisionId'' = JStr decision) (records_of s (sw_id w)))))"

section \<open>Writing records\<close>

record record_input =
  ri_id :: "string option"
  ri_module :: string
  ri_type :: string
  ri_title :: string
  ri_state :: "string option"
  ri_data :: "obj option"

definition input_data :: "record_input \<Rightarrow> obj" where
  "input_data i = (case ri_data i of None \<Rightarrow> [] | Some d \<Rightarrow> d)"

definition record_from_input :: "record_input \<Rightarrow> string \<Rightarrow> string \<Rightarrow> string \<Rightarrow> suite_record" where
  "record_from_input i rid w ts = \<lparr>sd_id = rid, sd_workspace = w, sd_module = ri_module i, sd_type = ri_type i, sd_title = ri_title i,
     sd_state = (case ri_state i of None \<Rightarrow> ''active'' | Some x \<Rightarrow> x), sd_data = input_data i, sd_created = ts, sd_updated = ts\<rparr>"

definition put_record :: "suite_record \<Rightarrow> suite_record suite" where
  "put_record r = bnd (modifies (\<lambda>s. s\<lparr>st_records := jset (sd_id r) r (st_records s)\<rparr>)) (\<lambda>_. ret r)"

text \<open>The quota checks shared by the two ways to add a record.\<close>

definition check_new_record :: "suite_host \<Rightarrow> string \<Rightarrow> record_input \<Rightarrow> store_err \<Rightarrow> store_err \<Rightarrow> bool \<Rightarrow> unit suite" where
  "check_new_record H user i full_records full_storage bytes_first =
     bnd (get_usage H user) (\<lambda>u.
     let bytes = lift_storage (suite_registered_object_bytes (sh_env H) (ri_module i) (ri_type i) (input_data i));
         records_ok = (if num_le (us_record_limit u) (num_of_int (int (us_records u))) then throw full_records else ret ());
         storage_ok = (\<lambda>n. if num_lt (us_storage_limit u) (num_add (us_registered u) n) then throw full_storage else ret ())
     in if bytes_first then bnd bytes (\<lambda>n. bnd records_ok (\<lambda>_. storage_ok n))
        else bnd records_ok (\<lambda>_. bnd bytes storage_ok))"

definition create_record :: "suite_host \<Rightarrow> string \<Rightarrow> record_input \<Rightarrow> suite_record option suite" where
  "create_record H user i =
     bnd (lift_e (record_payload_bytes (sh_env H) (input_data i))) (\<lambda>_.
     run_in_transaction H user (\<lambda>w.
       bnd (reads (role_can_write user)) (\<lambda>writer.
       if \<not> writer \<or> ri_module i \<notin> set (sw_modules w) \<or> \<not> plan_allows H (sw_plan w) (ri_module i) then ret None
       else bnd (check_new_record H user i RecordQuotaReached StorageQuotaReached True) (\<lambda>_.
            bnd (now H) (\<lambda>ts.
            bnd (random_uuid H) (\<lambda>rid.
            bnd (put_record (record_from_input i rid (sw_id w) ts)) (\<lambda>r. ret (Some r))))))))"

text \<open>\<open>/^[0-9a-f-]{36}$/i\<close>\<close>

definition public_id_pattern :: "string \<Rightarrow> bool" where
  "public_id_pattern s \<longleftrightarrow> length s = 36 \<and> list_all (\<lambda>c. is_hex c \<or> c = CHR ''-'') s"

definition is_consent_receipt :: "string \<Rightarrow> string \<Rightarrow> bool" where
  "is_consent_receipt m t \<longleftrightarrow> m = ''consent'' \<and> t = ''consent-receipt''"

definition consent_key_taken :: "record_input \<Rightarrow> suite_record list \<Rightarrow> bool" where
  "consent_key_taken i rs \<longleftrightarrow>
     is_consent_receipt (ri_module i) (ri_type i)
     \<and> (case oget (input_data i) ''publicIdempotencyHash'' of
          JStr h \<Rightarrow> \<exists>r \<in> set rs. is_consent_receipt (sd_module r) (sd_type r) \<and> oget (sd_data r) ''publicIdempotencyHash'' = JStr h
        | _ \<Rightarrow> False)"

definition create_public_record :: "suite_host \<Rightarrow> string \<Rightarrow> record_input \<Rightarrow> suite_record option suite" where
  "create_public_record H slug i =
     bnd (get_workspace_by_slug slug) (\<lambda>found.
     case found of
       None \<Rightarrow> ret None
     | Some p \<Rightarrow>
         if ri_module i \<notin> set (sw_modules p) \<or> \<not> plan_allows H (sw_plan p) (ri_module i) then ret None
         else bnd (lift_e (record_payload_bytes (sh_env H) (input_data i))) (\<lambda>_.
              run_in_transaction H (sw_user p) (\<lambda>w.
                bnd (reads (\<lambda>s. consent_key_taken i (records_of s (sw_id w)))) (\<lambda>taken.
                if taken then throw DuplicateConsentKey
                else bnd (check_new_record H (sw_user p) i ClosedToSubmissions ClosedToSubmissions False) (\<lambda>_.
                     bnd (now H) (\<lambda>ts.
                     bnd (case ri_id i of Some x \<Rightarrow> ret x | None \<Rightarrow> random_uuid H) (\<lambda>rid.
                     bnd (reads (\<lambda>s. jget (st_records s) rid \<noteq> None)) (\<lambda>exists_already.
                     if \<not> public_id_pattern rid \<or> exists_already then throw BadPublicId
                     else bnd (put_record (record_from_input i rid (sw_id w) ts)) (\<lambda>r. ret (Some r))))))))))"

definition list_public_records :: "suite_host \<Rightarrow> string \<Rightarrow> string \<Rightarrow> string option \<Rightarrow> nat \<Rightarrow> suite_record list suite" where
  "list_public_records H slug m t limit =
     bnd (get_workspace_by_slug slug) (\<lambda>found.
     case found of
       None \<Rightarrow> ret []
     | Some w \<Rightarrow>
         if \<not> plan_allows H (sw_plan w) m then ret []
         else reads (\<lambda>s. take limit (sort_cmp (newest_first (sh_env H))
                (filter (\<lambda>r. sd_module r = m \<and> absent_or t (sd_type r) \<and> oget (sd_data r) ''public'' = JBool True)
                  (records_of s (sw_id w))))))"

definition record_public_event :: "suite_host \<Rightarrow> string \<Rightarrow> string \<Rightarrow> bool suite" where
  "record_public_event H slug m =
     bnd (get_workspace_by_slug slug) (\<lambda>found.
     ret (case found of None \<Rightarrow> False | Some w \<Rightarrow> m \<in> set (sw_modules w) \<and> plan_allows H (sw_plan w) m))"

definition list_public_workflow_records :: "suite_host \<Rightarrow> string \<Rightarrow> string \<Rightarrow> string \<Rightarrow> nat \<Rightarrow> suite_record list suite" where
  "list_public_workflow_records H slug m t limit =
     bnd (get_workspace_by_slug slug) (\<lambda>found.
     case found of
       None \<Rightarrow> ret []
     | Some w \<Rightarrow>
         if m \<notin> set (sw_modules w) \<or> \<not> plan_allows H (sw_plan w) m then ret []
         else reads (\<lambda>s. take limit (sort_cmp (newest_first (sh_env H))
                (filter (\<lambda>r. sd_module r = m \<and> sd_type r = t) (records_of s (sw_id w))))))"

record record_patch =
  rp_title :: "string option"
  rp_state :: "string option"
  rp_data :: "obj option"

definition patch_record :: "record_patch \<Rightarrow> suite_record \<Rightarrow> suite_record" where
  "patch_record p r = r\<lparr>sd_title := (case rp_title p of None \<Rightarrow> sd_title r | Some x \<Rightarrow> x),
     sd_state := (case rp_state p of None \<Rightarrow> sd_state r | Some x \<Rightarrow> x),
     sd_data := (case rp_data p of None \<Rightarrow> sd_data r | Some d \<Rightarrow> spread (sd_data r) d)\<rparr>"

definition version_of :: "suite_record \<Rightarrow> object_version" where
  "version_of r = \<lparr>ov_title = sd_title r, ov_state = sd_state r, ov_data = sd_data r\<rparr>"

text \<open>The part of an update after its guards: payload, retained object, quota, write.\<close>

definition write_patch :: "suite_host \<Rightarrow> string \<Rightarrow> suite_record \<Rightarrow> suite_record \<Rightarrow> store_err \<Rightarrow> suite_record option suite" where
  "write_patch H user r r' full =
     bnd (lift_e (record_payload_bytes (sh_env H) (sd_data r'))) (\<lambda>_.
     bnd (lift_storage (assert_suite_storage_object_update (sh_env H) (sd_module r) (sd_type r) (version_of r) (version_of r'))) (\<lambda>(prior, new).
     bnd (get_usage H user) (\<lambda>u.
     if num_lt (us_storage_limit u) (num_add (num_sub (us_registered u) prior) new) then throw full
     else bnd (now H) (\<lambda>ts. bnd (put_record (r'\<lparr>sd_updated := ts\<rparr>)) (\<lambda>x. ret (Some x))))))"

definition update_public_workflow_record ::
  "suite_host \<Rightarrow> string \<Rightarrow> string \<Rightarrow> string option \<Rightarrow> obj option \<Rightarrow> suite_record option suite" where
  "update_public_workflow_record H slug i state data =
     bnd (get_workspace_by_slug slug) (\<lambda>found.
     case found of
       None \<Rightarrow> ret None
     | Some p \<Rightarrow>
         run_in_transaction H (sw_user p) (\<lambda>w.
           bnd (reads (\<lambda>s. jget (st_records s) i)) (\<lambda>r.
           case r of
             None \<Rightarrow> ret None
           | Some r \<Rightarrow>
               if sd_workspace r \<noteq> sw_id w \<or> sd_module r \<notin> set (sw_modules w) \<or> \<not> plan_allows H (sw_plan w) (sd_module r) then ret None
               else write_patch H (sw_user p) r (patch_record \<lparr>rp_title = None, rp_state = state, rp_data = data\<rparr> r) ClosedToSubmissions)))"

definition update_record :: "suite_host \<Rightarrow> string \<Rightarrow> string \<Rightarrow> record_patch \<Rightarrow> suite_record option suite" where
  "update_record H user i p =
     run_in_transaction H user (\<lambda>w.
       bnd (reads (\<lambda>s. (role_can_write user s, jget (st_records s) i))) (\<lambda>(writer, r).
       case r of
         None \<Rightarrow> ret None
       | Some r \<Rightarrow>
           if \<not> writer \<or> sd_workspace r \<noteq> sw_id w \<or> \<not> plan_allows H (sw_plan w) (sd_module r) then ret None
           else write_patch H user r (patch_record p r) StorageQuotaReached))"

end
