(* ===== verification/Suite_Actions.thy ===== *)
theory Suite_Actions
  imports Suite_Store
begin

text \<open>
  The queue of AI actions, the API tokens of the workspace store (\<open>MemorySuiteStore\<close>) and the read model
  service of a module (\<open>server/module-read-model.ts\<close>). A worker claims an action together with the records it may
  show the model, under a lease, at most three times.
\<close>

section \<open>What an action selects\<close>

definition json_strings :: "json \<Rightarrow> string list" where
  "json_strings v = (case v of JArr xs \<Rightarrow> concat (map (\<lambda>x. case x of JStr s \<Rightarrow> [s] | _ \<Rightarrow> []) xs) | _ \<Rightarrow> [])"

definition text_at :: "obj \<Rightarrow> string \<Rightarrow> string list" where
  "text_at ob k = (case oget ob k of JStr s \<Rightarrow> [s] | _ \<Rightarrow> [])"

definition legacy_selection_key :: "obj \<Rightarrow> string option" where
  "legacy_selection_key ctx =
     (if oget ctx ''actionId'' = JStr ''finding-suggest'' then Some ''observationId''
      else if oget ctx ''actionId'' = JStr ''reconciliation-suggest'' then Some ''invoiceId''
      else if oget ctx ''actionId'' = JStr ''workflow-suggest'' then Some ''workflowId'' else None)"

definition contract_version :: "obj \<Rightarrow> json" where
  "contract_version ctx = (case oget ctx ''resultContract'' of JObj c \<Rightarrow> oget c ''version'' | _ \<Rightarrow> JUndef)"

definition ai_selected_record_ids :: "obj \<Rightarrow> string list" where
  "ai_selected_record_ids ctx = take 1000 (uniq
     (json_strings (oget ctx ''evidenceIds'') @ text_at ctx ''targetRecordId''
      @ (case legacy_selection_key ctx of None \<Rightarrow> [] | Some k \<Rightarrow> text_at ctx k)
      @ (if contract_version ctx = JStr (proposal_version AdditiveProposal) then text_at ctx ''requestRecordId'' else [])
      @ (if contract_version ctx = JStr (proposal_version ExtendedProposal) then text_at ctx ''aiAuditRecordId'' else [])))"

definition binding_text_fields :: "string list" where
  "binding_text_fields = [''attachmentRecordId'', ''attachmentSnapshotHash'', ''collectionId'', ''sourceRecordId'', ''sourceModuleId'',
     ''sourceRecordType'', ''sourceSnapshotHash'', ''contentHash'']"

definition safe_positive :: "json \<Rightarrow> bool" where
  "safe_positive v = (case v of JNum n \<Rightarrow> is_safe_integer n \<and> num_le (Fin 1) n | _ \<Rightarrow> False)"

definition is_assistant_binding :: "obj \<Rightarrow> bool" where
  "is_assistant_binding b \<longleftrightarrow>
     (\<forall>k \<in> set binding_text_fields. \<exists>t \<in> set (text_at b k). trim t \<noteq> [])
     \<and> safe_positive (oget b ''attachmentVersion'') \<and> safe_positive (oget b ''sourceVersion'')"

definition assistant_evidence_bindings :: "ai_action \<Rightarrow> obj list" where
  "assistant_evidence_bindings a =
     (if sx_module a \<noteq> ''assistant'' \<or> contract_version (sx_context a) \<noteq> JStr ''premium-business-ai-result.v1'' then []
      else (case oget (sx_context a) ''assistantEvidenceBindings'' of
              JArr xs \<Rightarrow> concat (map (\<lambda>x. case x of JObj b \<Rightarrow> if is_assistant_binding b then [b] else [] | _ \<Rightarrow> []) xs)
            | _ \<Rightarrow> []))"

definition version_json :: "js_env \<Rightarrow> suite_record \<Rightarrow> json" where
  "version_json E r = (case durable_record_version E r of None \<Rightarrow> JUndef | Some n \<Rightarrow> JNum n)"

definition assistant_attachment_matches :: "js_env \<Rightarrow> obj \<Rightarrow> suite_record \<Rightarrow> bool" where
  "assistant_attachment_matches E b r \<longleftrightarrow>
     oget b ''attachmentRecordId'' = JStr (sd_id r) \<and> sd_module r = ''assistant'' \<and> sd_type r = ''source-attachment''
     \<and> strict_eq (version_json E r) (oget b ''attachmentVersion'')
     \<and> strict_eq (oget (sd_data r) ''collectionId'') (oget b ''collectionId'')
     \<and> strict_eq (oget (sd_data r) ''recordId'') (oget b ''sourceRecordId'')
     \<and> strict_eq (oget (sd_data r) ''sourceModuleId'') (oget b ''sourceModuleId'')
     \<and> strict_eq (oget (sd_data r) ''sourceRecordType'') (oget b ''sourceRecordType'')
     \<and> strict_eq (oget (sd_data r) ''sourceVersion'') (oget b ''sourceVersion'')
     \<and> strict_eq (oget (sd_data r) ''sourceSnapshotHash'') (oget b ''sourceSnapshotHash'')
     \<and> strict_eq (oget (sd_data r) ''contentHash'') (oget b ''contentHash'')"

definition assistant_source_matches :: "js_env \<Rightarrow> obj \<Rightarrow> suite_record \<Rightarrow> string list \<Rightarrow> bool" where
  "assistant_source_matches E b r evidence \<longleftrightarrow>
     sd_id r \<in> set evidence \<and> oget b ''sourceRecordId'' = JStr (sd_id r) \<and> oget b ''sourceModuleId'' = JStr (sd_module r)
     \<and> oget b ''sourceRecordType'' = JStr (sd_type r) \<and> strict_eq (version_json E r) (oget b ''sourceVersion'')"

section \<open>Queueing and reading\<close>

definition queue_ai_action :: "suite_host \<Rightarrow> string \<Rightarrow> string \<Rightarrow> string \<Rightarrow> obj option \<Rightarrow> ai_action option suite" where
  "queue_ai_action H user m goal context =
     bnd (get_or_create_workspace H user) (\<lambda>w.
     bnd (reads (role_can_write user)) (\<lambda>writer.
     if \<not> writer \<or> m \<notin> set (sw_modules w) \<or> \<not> plan_allows H (sw_plan w) m then ret None
     else
       let ctx = spread (case context of None \<Rightarrow> [] | Some c \<Rightarrow> c) [(''requestedByUserId'', JStr user)]
       in bnd (lift_e (record_payload_bytes (sh_env H) ctx)) (\<lambda>_.
          bnd (get_usage H user) (\<lambda>u.
          if num_le (us_action_limit u) (num_of_int (int (us_actions u))) then throw AiQuotaReached
          else bnd (now H) (\<lambda>ts.
               bnd (random_uuid H) (\<lambda>i.
               let a = \<lparr>sx_id = i, sx_workspace = sw_id w, sx_module = m, sx_goal = goal, sx_context = ctx, sx_status = AiQueued,
                     sx_result = None, sx_attempts = None, sx_lease = None, sx_error = None, sx_created = ts, sx_updated = ts\<rparr>
               in bnd (modifies (\<lambda>s. s\<lparr>st_actions := jset i a (st_actions s)\<rparr>)) (\<lambda>_. ret (Some a))))))))"

definition get_ai_action :: "suite_host \<Rightarrow> string \<Rightarrow> string \<Rightarrow> ai_action option suite" where
  "get_ai_action H user i =
     bnd (get_or_create_workspace H user) (\<lambda>w.
     reads (\<lambda>s. case jget (st_actions s) i of
              None \<Rightarrow> None
            | Some a \<Rightarrow>
                if sx_workspace a \<noteq> sw_id w then None
                else if st_active s = Some (sw_id w) \<or> role_in user s \<in> {Some Owner, Some Admin}
                        \<or> oget (sx_context a) ''requestedByUserId'' = JStr user
                then Some a else None))"

section \<open>Claiming\<close>

definition attempts_of :: "ai_action \<Rightarrow> nat" where
  "attempts_of a = (case sx_attempts a of None \<Rightarrow> 0 | Some n \<Rightarrow> n)"

definition lease_expired :: "string \<Rightarrow> ai_action \<Rightarrow> bool" where
  "lease_expired current a \<longleftrightarrow> sx_status a = AiRunning \<and> (\<exists>l. sx_lease a = Some l \<and> l \<noteq> [] \<and> text_less l current)"

definition exhausted_text :: string where
  "exhausted_text = ''The AI action exhausted its retry limit after its worker lease expired.''"

definition workspace_by_id :: "store \<Rightarrow> string \<Rightarrow> suite_workspace option" where
  "workspace_by_id s i = first_such (\<lambda>w. sw_id w = i) (jvals (st_workspaces s))"

definition expire_action :: "suite_host \<Rightarrow> store \<Rightarrow> string \<Rightarrow> ai_action \<Rightarrow> ai_action" where
  "expire_action H s current a =
     (if sx_status a \<in> {AiQueued, AiRunning}
         \<and> (\<exists>w. workspace_by_id s (sx_workspace a) = Some w \<and> \<not> plan_allows H (sw_plan w) (sx_module a))
      then failed_action ''Workspace entitlement revoked.'' revoked_result current a
      else if lease_expired current a \<and> 3 \<le> attempts_of a
      then failed_action exhausted_text [(''error'', JStr exhausted_text), (''retryable'', JBool False)] current a
      else a)"

definition claimable :: "string \<Rightarrow> ai_action \<Rightarrow> bool" where
  "claimable current a \<longleftrightarrow> (sx_status a = AiQueued \<or> lease_expired current a) \<and> attempts_of a < 3"

definition next_action :: "js_env \<Rightarrow> string \<Rightarrow> store \<Rightarrow> ai_action option" where
  "next_action E current s =
     (case sort_cmp (by_created E sx_created) (filter (claimable current) (jvals (st_actions s))) of
        [] \<Rightarrow> None | a # _ \<Rightarrow> Some a)"

definition selected_records :: "js_env \<Rightarrow> ai_action \<Rightarrow> string list \<Rightarrow> store \<Rightarrow> suite_record list" where
  "selected_records E a allowed s =
     (let ids = ai_selected_record_ids (sx_context a)
      in take (if ids = [] then 100 else 1000) (sort_cmp (newest_first E)
           (filter (\<lambda>r. sd_module r \<in> set allowed \<and> (ids = [] \<or> sd_id r \<in> set ids)) (records_of s (sx_workspace a)))))"

definition bound_records :: "js_env \<Rightarrow> ai_action \<Rightarrow> store \<Rightarrow> obj \<Rightarrow> suite_record list" where
  "bound_records E a s b =
     (case (oget b ''attachmentRecordId'', oget b ''sourceRecordId'') of
        (JStr i, JStr j) \<Rightarrow>
          (case (jget (st_records s) i, jget (st_records s) j) of
             (Some att, Some src) \<Rightarrow>
               if sd_workspace att = sx_workspace a \<and> assistant_attachment_matches E b att
                  \<and> sd_workspace src = sx_workspace a
                  \<and> (\<exists>w. workspace_by_id s (sx_workspace a) = Some w \<and> sd_module src \<in> set (sw_modules w))
                  \<and> assistant_source_matches E b src (json_strings (oget (sx_context a) ''evidenceIds''))
               then [att, src] else []
           | _ \<Rightarrow> [])
      | _ \<Rightarrow> [])"

text \<open>Only records the requester may still read, and only of a requester who still belongs to the workspace.\<close>

definition requester_reads :: "js_env \<Rightarrow> ai_action \<Rightarrow> store \<Rightarrow> suite_record \<Rightarrow> bool" where
  "requester_reads E a s r \<longleftrightarrow>
     (case oget (sx_context a) ''requestedByUserId'' of
        JStr user \<Rightarrow> user \<noteq> [] \<and> map_option sw_id (base_workspace user s) = Some (sx_workspace a)
                    \<and> may_read E user (sx_workspace a) (role_in user s) r
      | _ \<Rightarrow> False)"

definition action_records :: "js_env \<Rightarrow> ai_action \<Rightarrow> string list \<Rightarrow> store \<Rightarrow> suite_record list" where
  "action_records E a allowed s =
     (let rs = selected_records E a allowed s @ concat (map (bound_records E a s) (assistant_evidence_bindings a))
      in take 1000 (sort_cmp (newest_first E) (filter (requester_reads E a s) (jvals (record_map rs)))))"

definition map_actions :: "(ai_action \<Rightarrow> ai_action) \<Rightarrow> store \<Rightarrow> store" where
  "map_actions f s = s\<lparr>st_actions := map (\<lambda>(k, a). (k, f a)) (st_actions s)\<rparr>"

definition put_action :: "ai_action \<Rightarrow> unit suite" where
  "put_action a = modifies (\<lambda>s. s\<lparr>st_actions := jset (sx_id a) a (st_actions s)\<rparr>)"

definition claim_ai_action :: "suite_host \<Rightarrow> (ai_action \<times> suite_record list) option suite" where
  "claim_ai_action H =
     bnd (now H) (\<lambda>current.
     bnd (modifies (\<lambda>s. map_actions (expire_action H s current) s)) (\<lambda>_.
     bnd (reads (next_action (sh_env H) current)) (\<lambda>found.
     case found of
       None \<Rightarrow> ret None
     | Some a \<Rightarrow>
         bnd (date_now H) (\<lambda>t.
         bnd (now H) (\<lambda>ts.
         let a' = a\<lparr>sx_status := AiRunning, sx_attempts := Some (Suc (attempts_of a)),
                    sx_lease := Some (iso_text (sh_env H) (t + 5 * 60000)), sx_updated := ts\<rparr>
         in bnd (put_action a') (\<lambda>_.
            case suite_ai_read_scopes (sx_module a) (ai_selected_record_ids (sx_context a) \<noteq> []) of
              None \<Rightarrow> throw ScopesNotIterable
            | Some allowed \<Rightarrow> reads (\<lambda>s. Some (a', action_records (sh_env H) a' allowed s))))))))"

section \<open>Completing\<close>

definition lift_ai :: "ai_err + 'a \<Rightarrow> 'a suite" where
  "lift_ai r = lift_e (case r of Inl e \<Rightarrow> Inl (StoreAi e) | Inr x \<Rightarrow> Inr x)"

definition completed_action :: "completion \<Rightarrow> string \<Rightarrow> ai_action \<Rightarrow> ai_action" where
  "completed_action c ts a = a\<lparr>sx_status := (if co_completed c then AiCompleted else AiFailed), sx_result := Some (co_result c),
     sx_error := (if co_completed c then None else (case oget (co_result c) ''error'' of JStr e \<Rightarrow> Some e | _ \<Rightarrow> None)),
     sx_lease := None, sx_updated := ts\<rparr>"

definition complete_proposal :: "suite_host \<Rightarrow> proposal_contract \<Rightarrow> string \<Rightarrow> completion \<Rightarrow> bool suite" where
  "complete_proposal H contract i c =
     bnd (reads (\<lambda>s. jget (st_actions s) i)) (\<lambda>found.
     case found of
       None \<Rightarrow> ret False
     | Some a \<Rightarrow>
         if sx_status a \<noteq> AiRunning then ret False
         else bnd (reads (\<lambda>s. case oget (sx_context a) (case contract of AdditiveProposal \<Rightarrow> ''requestRecordId'' | ExtendedProposal \<Rightarrow> ''aiAuditRecordId'') of
                       JStr k \<Rightarrow> jget (st_records s) k | _ \<Rightarrow> None)) (\<lambda>audit.
              case audit of
                None \<Rightarrow> throw ProposalAuditMissing
              | Some _ \<Rightarrow>
                  bnd (reads (\<lambda>s. concat (map (\<lambda>k. case jget (st_records s) k of None \<Rightarrow> [] | Some r \<Rightarrow> [r])
                                     (ai_selected_record_ids (sx_context a))))) (\<lambda>rs.
                  bnd (if co_completed c then bnd (lift_ai (validate_proposal_job (sh_env H) (sh_is_uuid H) a rs (sh_model H))) (\<lambda>_. ret ())
                       else ret ()) (\<lambda>_.
                  bnd (now H) (\<lambda>ts.
                  bnd (lift_ai (transition_proposal_audit (sh_env H) (sh_is_uuid H) a rs c ts)) (\<lambda>r.
                  bnd (lift_e (record_payload_bytes (sh_env H) (sd_data r))) (\<lambda>_.
                  bnd (put_action (completed_action c ts a)) (\<lambda>_.
                  bnd (put_record r) (\<lambda>_. ret True)))))))))"

definition complete_ai_action :: "suite_host \<Rightarrow> string \<Rightarrow> completion \<Rightarrow> bool suite" where
  "complete_ai_action H i c =
     bnd (reads (\<lambda>s. jget (st_actions s) i)) (\<lambda>found.
     case found of
       None \<Rightarrow> ret False
     | Some a \<Rightarrow>
         if sx_status a \<noteq> AiRunning then ret False
         else (case (case contract_version (sx_context a) of JStr v \<Rightarrow> proposal_contract_of v | _ \<Rightarrow> None) of
                 Some contract \<Rightarrow>
                   bnd (reads (\<lambda>s. workspace_by_id s (sx_workspace a))) (\<lambda>w.
                   case w of
                     None \<Rightarrow> throw ProposalWorkspaceMissing
                   | Some w \<Rightarrow> run_in_transaction H (sw_user w) (\<lambda>_. complete_proposal H contract i c))
               | None \<Rightarrow>
                   bnd (now H) (\<lambda>ts. bnd (put_action (completed_action c ts a)) (\<lambda>_. ret True))))"

section \<open>API tokens\<close>

definition token_hash :: "suite_host \<Rightarrow> string \<Rightarrow> string" where
  "token_hash H token = sha256_hex (sh_env H) token"

definition create_api_token :: "suite_host \<Rightarrow> string \<Rightarrow> string \<Rightarrow> scope list \<Rightarrow> string \<Rightarrow> token_secret suite" where
  "create_api_token H user name scopes expires =
     bnd (get_or_create_workspace H user) (\<lambda>_.
     bnd (reads (role_can_write user)) (\<lambda>writer.
     if \<not> writer \<and> (\<exists>x \<in> set scopes. x \<noteq> ScopeRead) then throw ViewerScopes
     else bnd (random_bytes H) (\<lambda>bytes.
          bnd (now H) (\<lambda>ts.
          bnd (random_uuid H) (\<lambda>i.
          let token = ''sup_'' @ base64url bytes;
              item = \<lparr>sk_id = i, sk_user = user, sk_name = name, sk_scopes = scopes, sk_created = ts, sk_expires = expires,
                      sk_used = None, sk_revoked = None\<rparr>
          in bnd (modifies (\<lambda>s. s\<lparr>st_tokens := jset (token_hash H token) item (st_tokens s)\<rparr>)) (\<lambda>_.
             ret \<lparr>ts_summary = item, ts_token = token\<rparr>))))))"

definition list_api_tokens :: "suite_host \<Rightarrow> string \<Rightarrow> api_token list suite" where
  "list_api_tokens H user = reads (\<lambda>s.
     sort_cmp (\<lambda>a b. collate (sh_env H) (sk_created b) (sk_created a)) (filter (\<lambda>k. sk_user k = user) (jvals (st_tokens s))))"

definition map_token :: "string \<Rightarrow> (api_token \<Rightarrow> api_token) \<Rightarrow> (string, api_token) jmap \<Rightarrow> (string, api_token) jmap" where
  "map_token h f m = map (\<lambda>(k, x). (k, if k = h then f x else x)) m"

definition revoke_api_token :: "suite_host \<Rightarrow> string \<Rightarrow> string \<Rightarrow> bool suite" where
  "revoke_api_token H user i =
     bnd (reads (\<lambda>s. first_such (\<lambda>(_, k). sk_id k = i \<and> sk_user k = user) (st_tokens s))) (\<lambda>found.
     case found of
       None \<Rightarrow> ret False
     | Some (h, k) \<Rightarrow>
         if sk_revoked k \<noteq> None then ret True
         else bnd (now H) (\<lambda>ts.
              bnd (modifies (\<lambda>s. s\<lparr>st_tokens := map_token h (\<lambda>k. k\<lparr>sk_revoked := Some ts\<rparr>) (st_tokens s)\<rparr>)) (\<lambda>_. ret True)))"

text \<open>An expiry that is no date gives \<open>NaN\<close>, which is not at most the time: such a token does not expire.\<close>

definition token_expired :: "js_env \<Rightarrow> api_token \<Rightarrow> int \<Rightarrow> bool" where
  "token_expired E k t \<longleftrightarrow> (case parse_date E (sk_expires k) of None \<Rightarrow> False | Some e \<Rightarrow> e \<le> t)"

definition find_api_token_principal :: "suite_host \<Rightarrow> string \<Rightarrow> token_principal option suite" where
  "find_api_token_principal H token =
     bnd (reads (\<lambda>s. jget (st_tokens s) (token_hash H token))) (\<lambda>found.
     case found of
       None \<Rightarrow> ret None
     | Some k \<Rightarrow>
         if sk_revoked k \<noteq> None then ret None
         else bnd (date_now H) (\<lambda>t.
              if token_expired (sh_env H) k t then ret None
              else bnd (now H) (\<lambda>ts.
                   bnd (modifies (\<lambda>s. s\<lparr>st_tokens := map_token (token_hash H token) (\<lambda>k. k\<lparr>sk_used := Some ts\<rparr>) (st_tokens s)\<rparr>)) (\<lambda>_.
                   ret (Some \<lparr>tp_token = sk_id k, tp_user = sk_user k, tp_scopes = sk_scopes k\<rparr>)))))"

section \<open>The read model service\<close>

definition module_definition :: "string \<Rightarrow> suite_module suite" where
  "module_definition m = lift_e (case suite_module_by_id m of None \<Rightarrow> Inl (UnknownSuiteModule m) | Some d \<Rightarrow> Inr d)"

definition module_capabilities :: "string \<Rightarrow> read_capabilities suite" where
  "module_capabilities m = bnd (module_definition m) (\<lambda>d. ret (project_read_capabilities d))"

definition module_record_page :: "suite_host \<Rightarrow> string \<Rightarrow> string \<Rightarrow> obj \<Rightarrow> (read_capabilities \<times> record_page) suite" where
  "module_record_page H user m input =
     bnd (module_capabilities m) (\<lambda>c.
     bnd (list_record_page H user (JObj (spread input [(''moduleId'', JStr m)]))) (\<lambda>p. ret (c, p)))"

definition module_record_detail :: "suite_host \<Rightarrow> string \<Rightarrow> string \<Rightarrow> string \<Rightarrow> record_detail option suite" where
  "module_record_detail H user m i =
     bnd (module_definition m) (\<lambda>_.
     bnd (get_record H user i) (\<lambda>r.
     ret (case r of None \<Rightarrow> None | Some r \<Rightarrow> if sd_module r = m then Some (project_record_detail r) else None)))"

end
