(* ===== verification/Act_Logic.thy ===== *)
theory Act_Logic
  imports Prelude
begin

text \<open>
  Weakest preconditions of computations with state and exceptions: \<open>wp m Q X s\<close> says that the run of
  \<open>m\<close> from \<open>s\<close> ends with \<open>Q\<close> of its value and state, or with \<open>X\<close> of its error and state. The
  collection \<open>wp_rules\<close> runs a computation symbolically.
\<close>

named_theorems wp_rules "equations of weakest preconditions"

definition wp :: "('s, 'e, 'a) act \<Rightarrow> ('a \<Rightarrow> 's \<Rightarrow> bool) \<Rightarrow> ('e \<Rightarrow> 's \<Rightarrow> bool) \<Rightarrow> 's \<Rightarrow> bool" where
  "wp m Q X s = (case m s of (Inr x, t) \<Rightarrow> Q x t | (Inl e, t) \<Rightarrow> X e t)"

lemma wp_ret [wp_rules]: "wp (ret x) Q X s = Q x s"
  and wp_throw [wp_rules]: "wp (throw e) Q' X' s = X' e s"
  and wp_reads [wp_rules]: "wp (reads f) Q2 X2 s = Q2 (f s) s"
  and wp_modifies [wp_rules]: "wp (modifies h) Q3 X3 s = Q3 () (h s)"
  by (simp_all add: wp_def)

lemma wp_bnd [wp_rules]: "wp (bnd m f) Q X s = wp m (\<lambda>x. wp (f x) Q X) X s"
  by (auto simp: wp_def bnd_def split: prod.splits sum.splits)

lemma wp_if [wp_rules]: "wp (if b then m else n) Q X s = (if b then wp m Q X s else wp n Q X s)"
  by simp

lemma wp_option [wp_rules]:
  "wp (case v of None \<Rightarrow> m | Some x \<Rightarrow> f x) Q X s = (case v of None \<Rightarrow> wp m Q X s | Some x \<Rightarrow> wp (f x) Q X s)"
  by (cases v) simp_all

lemma wp_pair [wp_rules]: "wp (case p of (x, y) \<Rightarrow> f x y) Q X s = (case p of (x, y) \<Rightarrow> wp (f x y) Q X s)"
  by (cases p) simp

lemma wp_lift_e: "wp (lift_e r) Q X s = (case r of Inl e \<Rightarrow> X e s | Inr x \<Rightarrow> Q x s)"
  by (cases r) (simp_all add: wp_def)

lemma wp_mono:
  assumes "wp m Q X s" and "\<And>x t. Q x t \<Longrightarrow> Q' x t" and "\<And>e t. X e t \<Longrightarrow> X' e t"
  shows "wp m Q' X' s"
  using assms by (auto simp: wp_def split: prod.splits sum.splits)

lemma wpD: "wp m Q X s \<Longrightarrow> m s = (Inr x, t) \<Longrightarrow> Q x t"
  and wpD_err: "wp m Q X s \<Longrightarrow> m s = (Inl e, t) \<Longrightarrow> X e t"
  by (simp_all add: wp_def)

lemma wpI: "(\<And>x t. m s = (Inr x, t) \<Longrightarrow> Q x t) \<Longrightarrow> (\<And>e t. m s = (Inl e, t) \<Longrightarrow> X e t) \<Longrightarrow> wp m Q X s"
  by (auto simp: wp_def split: prod.splits sum.splits)

text \<open>Whatever a run ends with, its final state satisfies \<open>I\<close>.\<close>

abbreviation ends :: "('s \<Rightarrow> bool) \<Rightarrow> ('s, 'e, 'a) act \<Rightarrow> 's \<Rightarrow> bool" where
  "ends I m s \<equiv> wp m (\<lambda>_. I) (\<lambda>_. I) s"

lemma endsD: "ends I m s \<Longrightarrow> m s = (r, t) \<Longrightarrow> I t"
  by (cases r) (simp_all add: wp_def)

lemma ends_each:
  assumes "\<And>x s. x \<in> set xs \<Longrightarrow> I s \<Longrightarrow> ends I (f x) s"
  shows "I s \<Longrightarrow> ends I (each f xs) s"
  using assms
proof (induction xs arbitrary: s)
  case (Cons x xs)
  have "ends I (f x) s" using Cons.prems by simp
  then have "wp (f x) (\<lambda>y. wp (bnd (each f xs) (\<lambda>ys. ret (y # ys))) (\<lambda>_. I) (\<lambda>_. I)) (\<lambda>_. I) s"
  proof (rule wp_mono)
    fix y t assume "I t"
    then have "ends I (each f xs) t" using Cons by simp
    then show "wp (bnd (each f xs) (\<lambda>ys. ret (y # ys))) (\<lambda>_. I) (\<lambda>_. I) t"
      unfolding wp_bnd by (rule wp_mono) (simp_all add: wp_rules)
  qed
  then show ?case by (simp only: each.simps wp_bnd)
qed (simp add: wp_rules)

end
