(* ===== verification/Suite_Invariant.thy ===== *)
theory Suite_Invariant
  imports Suite_Actions Act_Logic
begin

text \<open>
  The well-formedness of the workspace store and its preservation: every map is keyed by what its values
  say, every member belongs to an existing workspace whose owner is its owner member, workspace identifiers are
  unique, every record and action lies in a workspace, and an action holds a lease exactly while it runs and
  is attempted at most three times. Every operation, also inside a transaction and also when it fails, keeps it.
\<close>

section \<open>The invariant\<close>

definition workspace_ids :: "store \<Rightarrow> string set" where
  "workspace_ids s = {sw_id w | u w. jget (st_workspaces s) u = Some w}"

definition maps_ok :: "store \<Rightarrow> bool" where
  "maps_ok s \<longleftrightarrow> distinct (jkeys (st_workspaces s)) \<and> distinct (jkeys (st_members s)) \<and> distinct (jkeys (st_records s))
     \<and> distinct (jkeys (st_actions s)) \<and> distinct (jkeys (st_tokens s)) \<and> distinct (jkeys (st_domains s))"

definition drawn :: "suite_host \<Rightarrow> store \<Rightarrow> string set" where
  "drawn H s = sh_uuid H ` {..<st_draws s}"

definition workspaces_ok :: "suite_host \<Rightarrow> store \<Rightarrow> bool" where
  "workspaces_ok H s \<longleftrightarrow>
     (\<forall>u w. jget (st_workspaces s) u = Some w \<longrightarrow> sw_user w = u \<and> sw_role w = None \<and> sw_id w \<in> drawn H s \<and> distinct (sw_modules w)
        \<and> (\<exists>m. jget (st_members s) u = Some m \<and> mb_owner m = u \<and> mb_role m = Owner))
     \<and> (\<forall>u v w x. jget (st_workspaces s) u = Some w \<longrightarrow> jget (st_workspaces s) v = Some x \<longrightarrow> sw_id w = sw_id x \<longrightarrow> u = v)"

definition members_ok :: "store \<Rightarrow> bool" where
  "members_ok s \<longleftrightarrow> (\<forall>u m. jget (st_members s) u = Some m \<longrightarrow>
     jget (st_workspaces s) (mb_owner m) \<noteq> None \<and> (mb_role m = Owner \<longleftrightarrow> mb_owner m = u))"

definition records_ok :: "store \<Rightarrow> bool" where
  "records_ok s \<longleftrightarrow> (\<forall>i r. jget (st_records s) i = Some r \<longrightarrow> sd_id r = i \<and> sd_workspace r \<in> workspace_ids s)"

definition action_ok :: "store \<Rightarrow> string \<Rightarrow> ai_action \<Rightarrow> bool" where
  "action_ok s i a \<longleftrightarrow> sx_id a = i \<and> sx_workspace a \<in> workspace_ids s \<and> attempts_of a \<le> 3
     \<and> (sx_status a = AiRunning \<longleftrightarrow> sx_lease a \<noteq> None) \<and> (sx_status a = AiRunning \<longrightarrow> 1 \<le> attempts_of a)
     \<and> (sx_status a = AiQueued \<longrightarrow> sx_result a = None)"

definition actions_ok :: "store \<Rightarrow> bool" where
  "actions_ok s \<longleftrightarrow> (\<forall>i a. jget (st_actions s) i = Some a \<longrightarrow> action_ok s i a)"

definition domains_ok :: "store \<Rightarrow> bool" where
  "domains_ok s \<longleftrightarrow> (\<forall>n d. jget (st_domains s) n = Some d \<longrightarrow> cu_domain d = n \<and> cu_workspace d \<in> workspace_ids s)"

text \<open>A record identifier was drawn by the store or came with a public submission.\<close>

definition record_ids_ok :: "suite_host \<Rightarrow> store \<Rightarrow> bool" where
  "record_ids_ok H s \<longleftrightarrow> (\<forall>i. jget (st_records s) i \<noteq> None \<longrightarrow> i \<in> drawn H s \<or> i \<notin> range (sh_uuid H))"

definition store_ok :: "suite_host \<Rightarrow> store \<Rightarrow> bool" where
  "store_ok H s \<longleftrightarrow> maps_ok s \<and> workspaces_ok H s \<and> members_ok s \<and> records_ok s \<and> actions_ok s \<and> domains_ok s \<and> record_ids_ok H s"

text \<open>What each part does not depend on.\<close>

lemma workspace_ids_frame [simp]:
  "workspace_ids (s\<lparr>st_members := x0\<rparr>) = workspace_ids s"
  "workspace_ids (s\<lparr>st_records := x1\<rparr>) = workspace_ids s"
  "workspace_ids (s\<lparr>st_actions := x2\<rparr>) = workspace_ids s"
  "workspace_ids (s\<lparr>st_tokens := x3\<rparr>) = workspace_ids s"
  "workspace_ids (s\<lparr>st_domains := x4\<rparr>) = workspace_ids s"
  "workspace_ids (s\<lparr>st_registry := x5\<rparr>) = workspace_ids s"
  "workspace_ids (s\<lparr>st_active := x6\<rparr>) = workspace_ids s"
  "workspace_ids (s\<lparr>st_ticks := x7\<rparr>) = workspace_ids s"
  "workspace_ids (s\<lparr>st_draws := x8\<rparr>) = workspace_ids s"
  by (simp_all add: workspace_ids_def)

lemma drawn_frame [simp]:
  "drawn H (s\<lparr>st_workspaces := x0\<rparr>) = drawn H s"
  "drawn H (s\<lparr>st_members := x1\<rparr>) = drawn H s"
  "drawn H (s\<lparr>st_records := x2\<rparr>) = drawn H s"
  "drawn H (s\<lparr>st_actions := x3\<rparr>) = drawn H s"
  "drawn H (s\<lparr>st_tokens := x4\<rparr>) = drawn H s"
  "drawn H (s\<lparr>st_domains := x5\<rparr>) = drawn H s"
  "drawn H (s\<lparr>st_registry := x6\<rparr>) = drawn H s"
  "drawn H (s\<lparr>st_active := x7\<rparr>) = drawn H s"
  "drawn H (s\<lparr>st_ticks := x8\<rparr>) = drawn H s"
  by (simp_all add: drawn_def)

lemma maps_ok_frame [simp]:
  "maps_ok (s\<lparr>st_registry := x0\<rparr>) = maps_ok s"
  "maps_ok (s\<lparr>st_active := x1\<rparr>) = maps_ok s"
  "maps_ok (s\<lparr>st_ticks := x2\<rparr>) = maps_ok s"
  "maps_ok (s\<lparr>st_draws := x3\<rparr>) = maps_ok s"
  by (simp_all add: maps_ok_def)

lemma workspaces_ok_frame [simp]:
  "workspaces_ok H (s\<lparr>st_records := x0\<rparr>) = workspaces_ok H s"
  "workspaces_ok H (s\<lparr>st_actions := x1\<rparr>) = workspaces_ok H s"
  "workspaces_ok H (s\<lparr>st_tokens := x2\<rparr>) = workspaces_ok H s"
  "workspaces_ok H (s\<lparr>st_domains := x3\<rparr>) = workspaces_ok H s"
  "workspaces_ok H (s\<lparr>st_registry := x4\<rparr>) = workspaces_ok H s"
  "workspaces_ok H (s\<lparr>st_active := x5\<rparr>) = workspaces_ok H s"
  "workspaces_ok H (s\<lparr>st_ticks := x6\<rparr>) = workspaces_ok H s"
  by (simp_all add: workspaces_ok_def)

lemma members_ok_frame [simp]:
  "members_ok (s\<lparr>st_records := x0\<rparr>) = members_ok s"
  "members_ok (s\<lparr>st_actions := x1\<rparr>) = members_ok s"
  "members_ok (s\<lparr>st_tokens := x2\<rparr>) = members_ok s"
  "members_ok (s\<lparr>st_domains := x3\<rparr>) = members_ok s"
  "members_ok (s\<lparr>st_registry := x4\<rparr>) = members_ok s"
  "members_ok (s\<lparr>st_active := x5\<rparr>) = members_ok s"
  "members_ok (s\<lparr>st_ticks := x6\<rparr>) = members_ok s"
  "members_ok (s\<lparr>st_draws := x7\<rparr>) = members_ok s"
  by (simp_all add: members_ok_def)

lemma records_ok_frame [simp]:
  "records_ok (s\<lparr>st_members := x0\<rparr>) = records_ok s"
  "records_ok (s\<lparr>st_actions := x1\<rparr>) = records_ok s"
  "records_ok (s\<lparr>st_tokens := x2\<rparr>) = records_ok s"
  "records_ok (s\<lparr>st_domains := x3\<rparr>) = records_ok s"
  "records_ok (s\<lparr>st_registry := x4\<rparr>) = records_ok s"
  "records_ok (s\<lparr>st_active := x5\<rparr>) = records_ok s"
  "records_ok (s\<lparr>st_ticks := x6\<rparr>) = records_ok s"
  "records_ok (s\<lparr>st_draws := x7\<rparr>) = records_ok s"
  by (simp_all add: records_ok_def)

lemma action_ok_frame [simp]:
  "action_ok (s\<lparr>st_members := x0\<rparr>) i a = action_ok s i a"
  "action_ok (s\<lparr>st_records := x1\<rparr>) i a = action_ok s i a"
  "action_ok (s\<lparr>st_actions := x2\<rparr>) i a = action_ok s i a"
  "action_ok (s\<lparr>st_tokens := x3\<rparr>) i a = action_ok s i a"
  "action_ok (s\<lparr>st_domains := x4\<rparr>) i a = action_ok s i a"
  "action_ok (s\<lparr>st_registry := x5\<rparr>) i a = action_ok s i a"
  "action_ok (s\<lparr>st_active := x6\<rparr>) i a = action_ok s i a"
  "action_ok (s\<lparr>st_ticks := x7\<rparr>) i a = action_ok s i a"
  "action_ok (s\<lparr>st_draws := x8\<rparr>) i a = action_ok s i a"
  by (simp_all add: action_ok_def)

lemma actions_ok_frame [simp]:
  "actions_ok (s\<lparr>st_members := x0\<rparr>) = actions_ok s"
  "actions_ok (s\<lparr>st_records := x1\<rparr>) = actions_ok s"
  "actions_ok (s\<lparr>st_tokens := x2\<rparr>) = actions_ok s"
  "actions_ok (s\<lparr>st_domains := x3\<rparr>) = actions_ok s"
  "actions_ok (s\<lparr>st_registry := x4\<rparr>) = actions_ok s"
  "actions_ok (s\<lparr>st_active := x5\<rparr>) = actions_ok s"
  "actions_ok (s\<lparr>st_ticks := x6\<rparr>) = actions_ok s"
  "actions_ok (s\<lparr>st_draws := x7\<rparr>) = actions_ok s"
  by (simp_all add: actions_ok_def)

lemma domains_ok_frame [simp]:
  "domains_ok (s\<lparr>st_members := x0\<rparr>) = domains_ok s"
  "domains_ok (s\<lparr>st_records := x1\<rparr>) = domains_ok s"
  "domains_ok (s\<lparr>st_actions := x2\<rparr>) = domains_ok s"
  "domains_ok (s\<lparr>st_tokens := x3\<rparr>) = domains_ok s"
  "domains_ok (s\<lparr>st_registry := x4\<rparr>) = domains_ok s"
  "domains_ok (s\<lparr>st_active := x5\<rparr>) = domains_ok s"
  "domains_ok (s\<lparr>st_ticks := x6\<rparr>) = domains_ok s"
  "domains_ok (s\<lparr>st_draws := x7\<rparr>) = domains_ok s"
  by (simp_all add: domains_ok_def)

lemma record_ids_ok_frame [simp]:
  "record_ids_ok H (s\<lparr>st_workspaces := x0\<rparr>) = record_ids_ok H s"
  "record_ids_ok H (s\<lparr>st_members := x1\<rparr>) = record_ids_ok H s"
  "record_ids_ok H (s\<lparr>st_actions := x2\<rparr>) = record_ids_ok H s"
  "record_ids_ok H (s\<lparr>st_tokens := x3\<rparr>) = record_ids_ok H s"
  "record_ids_ok H (s\<lparr>st_domains := x4\<rparr>) = record_ids_ok H s"
  "record_ids_ok H (s\<lparr>st_registry := x5\<rparr>) = record_ids_ok H s"
  "record_ids_ok H (s\<lparr>st_active := x6\<rparr>) = record_ids_ok H s"
  "record_ids_ok H (s\<lparr>st_ticks := x7\<rparr>) = record_ids_ok H s"
  by (simp_all add: record_ids_ok_def)

lemma store_ok_ticks [simp]:
  "store_ok H (s\<lparr>st_ticks := n\<rparr>) = store_ok H s"
  "store_ok H (s\<lparr>st_active := a\<rparr>) = store_ok H s"
  "store_ok H (s\<lparr>st_registry := g\<rparr>) = store_ok H s"
  by (simp_all add: store_ok_def)

lemma store_ok_draw: "store_ok H s \<Longrightarrow> st_draws s \<le> n \<Longrightarrow> store_ok H (s\<lparr>st_draws := n\<rparr>)"
proof -
  assume ok: "store_ok H s" and n: "st_draws s \<le> n"
  have "drawn H s \<subseteq> drawn H (s\<lparr>st_draws := n\<rparr>)" using n by (auto simp: drawn_def)
  then have "workspaces_ok H (s\<lparr>st_draws := n\<rparr>)"
    using ok unfolding store_ok_def workspaces_ok_def by (simp add: subset_iff)
  moreover have "record_ids_ok H (s\<lparr>st_draws := n\<rparr>)"
    using ok \<open>drawn H s \<subseteq> drawn H (s\<lparr>st_draws := n\<rparr>)\<close> unfolding store_ok_def record_ids_ok_def by auto
  ultimately show "store_ok H (s\<lparr>st_draws := n\<rparr>)" using ok by (simp add: store_ok_def)
qed

text \<open>Selectors under the updates that are not theirs.\<close>

definition base_of :: "string \<Rightarrow> store \<Rightarrow> suite_workspace" where
  "base_of u s = the (base_workspace u s)"

lemma base_workspace_frame [simp]:
  "base_workspace u (s\<lparr>st_ticks := n\<rparr>) = base_workspace u s"
  "base_workspace u (s\<lparr>st_draws := n\<rparr>) = base_workspace u s"
  "base_workspace u (s\<lparr>st_active := a\<rparr>) = base_workspace u s"
  "base_workspace u (s\<lparr>st_records := r\<rparr>) = base_workspace u s"
  "base_workspace u (s\<lparr>st_actions := x\<rparr>) = base_workspace u s"
  "base_workspace u (s\<lparr>st_registry := g\<rparr>) = base_workspace u s"
  by (simp_all add: base_workspace_def cong: option.case_cong)

lemma role_in_frame [simp]:
  "role_in u (s\<lparr>st_ticks := n\<rparr>) = role_in u s"
  "role_in u (s\<lparr>st_draws := n\<rparr>) = role_in u s"
  "role_in u (s\<lparr>st_active := a\<rparr>) = role_in u s"
  "role_in u (s\<lparr>st_records := r\<rparr>) = role_in u s"
  "role_in u (s\<lparr>st_workspaces := ws\<rparr>) = role_in u s"
  "role_in u (s\<lparr>st_actions := x\<rparr>) = role_in u s"
  "role_in u (s\<lparr>st_registry := g\<rparr>) = role_in u s"
  by (simp_all add: role_in_def)

lemma wp_clock [wp_rules]:
  "wp (now H) Q X s = Q (iso_text (sh_env H) (sh_clock H (st_ticks s))) (s\<lparr>st_ticks := Suc (st_ticks s)\<rparr>)"
  "wp (date_now H) Q2 X2 s = Q2 (sh_clock H (st_ticks s)) (s\<lparr>st_ticks := Suc (st_ticks s)\<rparr>)"
  "wp (random_uuid H) Q X s = Q (sh_uuid H (st_draws s)) (s\<lparr>st_draws := Suc (st_draws s)\<rparr>)"
  "wp (random_bytes H) Q3 X3 s = Q3 (sh_random H (st_draws s)) (s\<lparr>st_draws := Suc (st_draws s)\<rparr>)"
  by (simp_all add: now_def date_now_def random_uuid_def random_bytes_def wp_rules)

section \<open>Entering a workspace\<close>

text \<open>The state in which an operation of a user runs: that of before, or with a new workspace.\<close>

definition enter :: "suite_host \<Rightarrow> string \<Rightarrow> store \<Rightarrow> store" where
  "enter H u s = (if base_workspace u s \<noteq> None then s
     else let ts = iso_text (sh_env H) (sh_clock H (st_ticks s));
              w = \<lparr>sw_id = sh_uuid H (st_draws s), sw_user = u, sw_name = ''My workspace'', sw_slug = ''workspace-'' @ take 8 u,
                   sw_plan = sh_default_plan H, sw_modules = [], sw_role = None, sw_created = ts, sw_updated = ts\<rparr>
          in s\<lparr>st_ticks := Suc (st_ticks s), st_draws := Suc (st_draws s), st_workspaces := jset u w (st_workspaces s),
               st_members := jset u \<lparr>mb_owner = u, mb_role = Owner, mb_created = ts\<rparr> (st_members s)\<rparr>)"

lemma enter_base: "base_workspace u (enter H u s) = Some (base_of u (enter H u s))"
  by (cases "base_workspace u s") (auto simp: enter_def base_of_def Let_def base_workspace_def jget_jset split: option.splits)

lemma enter_frame [simp]:
  "st_records (enter H u s) = st_records s" "st_actions (enter H u s) = st_actions s" "st_active (enter H u s) = st_active s"
  "st_tokens (enter H u s) = st_tokens s" "st_domains (enter H u s) = st_domains s" "st_registry (enter H u s) = st_registry s"
  "st_draws s \<le> st_draws (enter H u s)"
  by (simp_all add: enter_def Let_def)

lemma enter_inside: "base_workspace u s \<noteq> None \<Longrightarrow> enter H u s = s"
  by (simp add: enter_def)

lemma get_or_create_run:
  "get_or_create_workspace H u s = (Inr (workspace_for u (base_of u (enter H u s)) (enter H u s)), enter H u s)"
proof (cases "base_workspace u s")
  case None
  then have e: "enter H u s = snd (get_or_create_workspace H u s)"
    and w: "fst (get_or_create_workspace H u s) = Inr (workspace_for u (base_of u (enter H u s)) (enter H u s))"
    using enter_base[of u H s]
    by (simp_all add: get_or_create_workspace_def bnd_def now_def random_uuid_def Let_def enter_def base_of_def
        base_workspace_def jget_jset workspace_for_def role_in_def)
  then show ?thesis by (metis prod.collapse)
next
  case (Some w)
  then show ?thesis by (simp add: get_or_create_workspace_def bnd_def enter_def base_of_def)
qed

lemma wp_enter:
  "wp (get_or_create_workspace H u) Q X s = Q (workspace_for u (base_of u (enter H u s)) (enter H u s)) (enter H u s)"
  by (simp add: wp_def get_or_create_run)

lemma workspace_for_sel [simp]:
  "sw_id (workspace_for u w s) = sw_id w" "sw_user (workspace_for u w s) = sw_user w" "sw_plan (workspace_for u w s) = sw_plan w"
  "sw_modules (workspace_for u w s) = sw_modules w" "sw_slug (workspace_for u w s) = sw_slug w"
  by (simp_all add: workspace_for_def)

section \<open>Steps that keep the invariant\<close>

lemma jget_jset_same [simp]: "jget (jset k v m) k = Some v"
  by (simp add: jget_jset)

lemma jget_vals: "distinct (jkeys m) \<Longrightarrow> v \<in> set (jvals m) \<longleftrightarrow> (\<exists>k. jget m k = Some v)"
  by (rule jm.vals_get)

lemma first_such_get: "distinct (jkeys m) \<Longrightarrow> first_such P (jvals m) = Some v \<Longrightarrow> \<exists>k. jget m k = Some v \<and> P v"
  using first_such_Some[of P "jvals m" v] jget_vals[of m v] by blast

lemma base_workspace_ok:
  assumes "store_ok H s" "base_workspace u s = Some w"
  shows "jget (st_workspaces s) (sw_user w) = Some w" "sw_id w \<in> workspace_ids s" "sw_role w = None"
  using assms by (auto simp: store_ok_def workspaces_ok_def workspace_ids_def base_workspace_def split: option.splits)

lemma base_of_ok:
  assumes "store_ok H (enter H u s)"
  shows "jget (st_workspaces (enter H u s)) (sw_user (base_of u (enter H u s))) = Some (base_of u (enter H u s))"
    "sw_id (base_of u (enter H u s)) \<in> workspace_ids (enter H u s)" "sw_role (base_of u (enter H u s)) = None"
  using base_workspace_ok[OF assms enter_base] by simp_all

lemma store_ok_record:
  assumes "store_ok H s" "sd_workspace r \<in> workspace_ids s"
    and "jget (st_records s) (sd_id r) \<noteq> None \<or> sd_id r \<in> drawn H s \<or> sd_id r \<notin> range (sh_uuid H)"
  shows "store_ok H (s\<lparr>st_records := jset (sd_id r) r (st_records s)\<rparr>)"
proof -
  have "records_ok (s\<lparr>st_records := jset (sd_id r) r (st_records s)\<rparr>)"
    using assms by (simp add: store_ok_def records_ok_def jget_jset)
  moreover have "record_ids_ok H (s\<lparr>st_records := jset (sd_id r) r (st_records s)\<rparr>)"
    using assms by (auto simp: store_ok_def record_ids_ok_def jget_jset)
  ultimately show ?thesis
    using assms jm.wf_put[of "st_records s" "sd_id r" r] by (simp add: store_ok_def maps_ok_def)
qed

lemma store_ok_action:
  assumes "store_ok H s" "action_ok s (sx_id a) a"
  shows "store_ok H (s\<lparr>st_actions := jset (sx_id a) a (st_actions s)\<rparr>)"
proof -
  have "actions_ok (s\<lparr>st_actions := jset (sx_id a) a (st_actions s)\<rparr>)"
    using assms by (simp add: store_ok_def actions_ok_def jget_jset)
  then show ?thesis
    using assms jm.wf_put[of "st_actions s" "sx_id a" a] by (simp add: store_ok_def maps_ok_def)
qed

lemma store_ok_workspace:
  assumes ok: "store_ok H s" and w: "jget (st_workspaces s) u = Some w"
    and same: "sw_id w' = sw_id w" "sw_user w' = sw_user w" "sw_role w' = None" "distinct (sw_modules w')"
  shows "store_ok H (s\<lparr>st_workspaces := jset u w' (st_workspaces s)\<rparr>)"
proof -
  have ids: "workspace_ids (s\<lparr>st_workspaces := jset u w' (st_workspaces s)\<rparr>) = workspace_ids s"
  proof -
    have "(\<exists>v x. i = sw_id x \<and> (if v = u then Some w' else jget (st_workspaces s) v) = Some x)
        \<longleftrightarrow> (\<exists>v x. i = sw_id x \<and> jget (st_workspaces s) v = Some x)" for i
      using w same(1) by (metis option.inject)
    then show ?thesis by (simp add: workspace_ids_def jget_jset)
  qed
  have get: "\<exists>y. jget (st_workspaces s) v = Some y \<and> sw_id x = sw_id y \<and> sw_user x = sw_user y \<and> sw_role x = None \<and> distinct (sw_modules x)"
    if "jget (jset u w' (st_workspaces s)) v = Some x" for v x
  proof (cases "v = u")
    case True
    with that w same show ?thesis by (simp add: jget_jset)
  next
    case False
    with that ok show ?thesis by (simp add: jget_jset store_ok_def workspaces_ok_def)
  qed
  have old: "sw_user w = u \<and> sw_role w = None \<and> sw_id w \<in> drawn H s \<and> distinct (sw_modules w)
      \<and> (\<exists>m. jget (st_members s) u = Some m \<and> mb_owner m = u \<and> mb_role m = Owner)"
    if "jget (st_workspaces s) u = Some w" for u w using ok that by (simp add: store_ok_def workspaces_ok_def)
  have one: "u = v" if "jget (st_workspaces s) u = Some w" "jget (st_workspaces s) v = Some x" "sw_id w = sw_id x" for u v w x
    using ok that unfolding store_ok_def workspaces_ok_def by blast
  have "workspaces_ok H (s\<lparr>st_workspaces := jset u w' (st_workspaces s)\<rparr>)"
    unfolding workspaces_ok_def
  proof (intro conjI allI impI)
    fix v x assume "jget (st_workspaces (s\<lparr>st_workspaces := jset u w' (st_workspaces s)\<rparr>)) v = Some x"
    then obtain y where y: "jget (st_workspaces s) v = Some y" "sw_id x = sw_id y" "sw_user x = sw_user y"
      "sw_role x = None" "distinct (sw_modules x)" using get by auto
    from old[OF y(1)] y
    show "sw_user x = v" "sw_role x = None" "sw_id x \<in> drawn H (s\<lparr>st_workspaces := jset u w' (st_workspaces s)\<rparr>)"
      "distinct (sw_modules x)"
      "\<exists>m. jget (st_members (s\<lparr>st_workspaces := jset u w' (st_workspaces s)\<rparr>)) v = Some m \<and> mb_owner m = v \<and> mb_role m = Owner"
      by simp_all
  next
    fix v v' x x'
    assume "jget (st_workspaces (s\<lparr>st_workspaces := jset u w' (st_workspaces s)\<rparr>)) v = Some x"
      and "jget (st_workspaces (s\<lparr>st_workspaces := jset u w' (st_workspaces s)\<rparr>)) v' = Some x'" and "sw_id x = sw_id x'"
    then obtain y y' where "jget (st_workspaces s) v = Some y" "sw_id x = sw_id y"
      "jget (st_workspaces s) v' = Some y'" "sw_id x' = sw_id y'" "sw_id x = sw_id x'"
      using get[of v x] get[of v' x'] by auto
    then show "v = v'" using one[of v y v' y'] by simp
  qed
  moreover have "members_ok (s\<lparr>st_workspaces := jset u w' (st_workspaces s)\<rparr>)"
    using ok by (simp add: store_ok_def members_ok_def jget_jset)
  moreover have "action_ok (s\<lparr>st_workspaces := jset u w' (st_workspaces s)\<rparr>) = action_ok s"
    by (simp add: action_ok_def ids fun_eq_iff)
  ultimately show ?thesis
    using ok jm.wf_put[of "st_workspaces s" u w']
    by (simp add: store_ok_def maps_ok_def records_ok_def actions_ok_def domains_ok_def ids)
qed

text \<open>New workspaces.\<close>

lemma store_ok_new_workspace:
  assumes ok: "store_ok H s" and new: "jget (st_members s) u = None" and fresh: "sw_id w \<notin> workspace_ids s"
    and w: "sw_user w = u" "sw_role w = None" "sw_id w \<in> drawn H s" "distinct (sw_modules w)"
    and m: "mb_owner m = u" "mb_role m = Owner"
  shows "store_ok H (s\<lparr>st_workspaces := jset u w (st_workspaces s), st_members := jset u m (st_members s)\<rparr>)"
    (is "store_ok H ?t")
proof -
  have ws: "jget (st_workspaces s) v = Some x \<Longrightarrow> sw_user x = v \<and> sw_role x = None \<and> sw_id x \<in> drawn H s \<and> distinct (sw_modules x)
      \<and> (\<exists>m. jget (st_members s) v = Some m \<and> mb_owner m = v \<and> mb_role m = Owner)" for v x
    using ok by (simp add: store_ok_def workspaces_ok_def)
  have one: "v = v'" if "jget (st_workspaces s) v = Some x" "jget (st_workspaces s) v' = Some x'" "sw_id x = sw_id x'" for v v' x x'
    using ok that unfolding store_ok_def workspaces_ok_def by blast
  have none: "jget (st_workspaces s) u = None" using ws[of u] new by (cases "jget (st_workspaces s) u") auto
  have ids: "workspace_ids ?t = insert (sw_id w) (workspace_ids s)"
    using none by (auto simp: workspace_ids_def jget_jset) (metis option.distinct(1))
  have "workspaces_ok H ?t"
    unfolding workspaces_ok_def
  proof (intro conjI allI impI)
    fix v x assume x: "jget (st_workspaces ?t) v = Some x"
    have "sw_user x = v \<and> sw_role x = None \<and> sw_id x \<in> drawn H s \<and> distinct (sw_modules x)
      \<and> (\<exists>k. jget (st_members ?t) v = Some k \<and> mb_owner k = v \<and> mb_role k = Owner)"
    proof (cases "v = u")
      case True
      with x w m show ?thesis by (simp add: jget_jset)
    next
      case False
      with x have "jget (st_workspaces s) v = Some x" by (simp add: jget_jset)
      from ws[OF this] False show ?thesis by (simp add: jget_jset)
    qed
    then show "sw_user x = v" "sw_role x = None" "sw_id x \<in> drawn H ?t" "distinct (sw_modules x)"
      "\<exists>k. jget (st_members ?t) v = Some k \<and> mb_owner k = v \<and> mb_role k = Owner" by simp_all
  next
    fix v v' x x'
    assume x: "jget (st_workspaces ?t) v = Some x" "jget (st_workspaces ?t) v' = Some x'" and eq: "sw_id x = sw_id x'"
    have apart: "jget (st_workspaces s) z = Some y \<Longrightarrow> sw_id y \<noteq> sw_id w" for y z
      using fresh by (auto simp: workspace_ids_def)
    have "(v = u \<and> x = w) \<or> jget (st_workspaces s) v = Some x" "(v' = u \<and> x' = w) \<or> jget (st_workspaces s) v' = Some x'"
      using x by (simp_all add: jget_jset split: if_splits)
    then show "v = v'" using eq one[of v x v' x'] apart[of v x] apart[of v' x'] by metis
  qed
  moreover have "members_ok ?t"
    using ok m by (auto simp: store_ok_def members_ok_def jget_jset)
  moreover have "records_ok ?t" "actions_ok ?t" "domains_ok ?t"
    using ok by (auto simp: store_ok_def records_ok_def actions_ok_def action_ok_def domains_ok_def ids[simplified])
  ultimately show ?thesis
    using ok jm.wf_put[of "st_workspaces s" u w] jm.wf_put[of "st_members s" u m] by (simp add: store_ok_def maps_ok_def)
qed

lemma workspace_ids_drawn: "store_ok H s \<Longrightarrow> workspace_ids s \<subseteq> drawn H s"
  by (auto simp: store_ok_def workspaces_ok_def workspace_ids_def)

lemma store_ok_enter:
  assumes inj: "inj (sh_uuid H)" and ok: "store_ok H s"
  shows "store_ok H (enter H u s)"
proof (cases "base_workspace u s")
  case None
  let ?ts = "iso_text (sh_env H) (sh_clock H (st_ticks s))"
  let ?s = "s\<lparr>st_ticks := Suc (st_ticks s), st_draws := Suc (st_draws s)\<rparr>"
  let ?w = "\<lparr>sw_id = sh_uuid H (st_draws s), sw_user = u, sw_name = ''My workspace'', sw_slug = ''workspace-'' @ take 8 u,
     sw_plan = sh_default_plan H, sw_modules = [], sw_role = None, sw_created = ?ts, sw_updated = ?ts\<rparr>"
  have e: "enter H u s = ?s\<lparr>st_workspaces := jset u ?w (st_workspaces ?s),
      st_members := jset u \<lparr>mb_owner = u, mb_role = Owner, mb_created = ?ts\<rparr> (st_members ?s)\<rparr>"
    using None by (simp add: enter_def Let_def)
  have "store_ok H (s\<lparr>st_ticks := Suc (st_ticks s)\<rparr>)" using ok by simp
  then have ok': "store_ok H ?s" by (rule store_ok_draw) simp
  have "jget (st_members s) u = None"
    using None ok by (cases "jget (st_members s) u") (fastforce simp: base_workspace_def store_ok_def members_ok_def)+
  moreover have "sh_uuid H (st_draws s) \<notin> drawn H s" using inj by (auto simp: drawn_def inj_def)
  then have "sw_id ?w \<notin> workspace_ids ?s" using workspace_ids_drawn[OF ok] by auto
  moreover have "sw_id ?w \<in> drawn H ?s" by (auto simp: drawn_def)
  ultimately show ?thesis
    unfolding e using store_ok_new_workspace[OF ok', of u ?w "\<lparr>mb_owner = u, mb_role = Owner, mb_created = ?ts\<rparr>"] by simp
next
  case (Some w)
  with ok show ?thesis by (simp add: enter_def)
qed

section \<open>Runs between well-formed states\<close>

text \<open>
  The abstract store: a map from identifiers to records. Records are added under unused identifiers and edited
  in place; none is removed and none moves to another workspace, module or type.
\<close>

definition same_place :: "suite_record \<Rightarrow> suite_record \<Rightarrow> bool" where
  "same_place r r' \<longleftrightarrow> sd_id r' = sd_id r \<and> sd_workspace r' = sd_workspace r \<and> sd_module r' = sd_module r
     \<and> sd_type r' = sd_type r \<and> sd_created r' = sd_created r"

inductive record_change :: "(string \<Rightarrow> suite_record option) \<Rightarrow> (string \<Rightarrow> suite_record option) \<Rightarrow> bool" where
  added: "m (sd_id r) = None \<Longrightarrow> record_change m (m(sd_id r \<mapsto> r))"
| edited: "m (sd_id r') = Some r \<Longrightarrow> same_place r r' \<Longrightarrow> record_change m (m(sd_id r' \<mapsto> r'))"

inductive_cases record_changeE: "record_change m n"

text \<open>What every run keeps: from a well-formed \<open>s0\<close> to \<open>t\<close>.\<close>

definition good :: "suite_host \<Rightarrow> store \<Rightarrow> store \<Rightarrow> bool" where
  "good H s0 t \<longleftrightarrow> inj (sh_uuid H) \<and> store_ok H t \<and> st_draws s0 \<le> st_draws t \<and> st_active t = st_active s0
     \<and> record_change\<^sup>*\<^sup>* (jget (st_records s0)) (jget (st_records t))"

lemma good_refl: "inj (sh_uuid H) \<Longrightarrow> store_ok H s \<Longrightarrow> good H s s"
  by (simp add: good_def)

lemma goodD: "good H s0 s \<Longrightarrow> store_ok H s" "good H s0 s \<Longrightarrow> st_active s = st_active s0"
  by (simp_all add: good_def)

lemma good_tick: "good H s0 s \<Longrightarrow> good H s0 (s\<lparr>st_ticks := n\<rparr>)"
  and good_registry: "good H s0 s \<Longrightarrow> good H s0 (s\<lparr>st_registry := g\<rparr>)"
  by (simp_all add: good_def)

lemma good_draw: "good H s0 s \<Longrightarrow> st_draws s \<le> n \<Longrightarrow> good H s0 (s\<lparr>st_draws := n\<rparr>)"
  using store_ok_draw[of H s n] by (simp add: good_def)

lemma good_enter: "good H s0 s \<Longrightarrow> good H s0 (enter H u s)"
  using store_ok_enter[of H s u] enter_frame(7)[of s H u] unfolding good_def by (simp del: enter_frame(7))

lemma fun_upd_jset: "jget (jset k v m) = (jget m)(k \<mapsto> v)"
  by (auto simp: jget_jset)

lemma good_new_record:
  assumes "good H s0 s" "jget (st_records s) (sd_id r) = None" "sd_workspace r \<in> workspace_ids s"
    and "sd_id r \<in> drawn H s \<or> sd_id r \<notin> range (sh_uuid H)"
  shows "good H s0 (s\<lparr>st_records := jset (sd_id r) r (st_records s)\<rparr>)"
proof -
  have "record_change (jget (st_records s)) (jget (jset (sd_id r) r (st_records s)))"
    unfolding fun_upd_jset using assms(2) by (rule record_change.added)
  then show ?thesis
    using assms store_ok_record[of H s r] by (simp add: good_def) (metis rtranclp.rtrancl_into_rtrancl)
qed

lemma good_edit_record:
  assumes "good H s0 s" "jget (st_records s) (sd_id r') = Some r" "same_place r r'"
  shows "good H s0 (s\<lparr>st_records := jset (sd_id r') r' (st_records s)\<rparr>)"
proof -
  have "record_change (jget (st_records s)) (jget (jset (sd_id r') r' (st_records s)))"
    unfolding fun_upd_jset using assms(2,3) by (rule record_change.edited)
  moreover have "sd_workspace r' \<in> workspace_ids s"
    using assms by (auto simp: good_def store_ok_def records_ok_def same_place_def)
  ultimately show ?thesis
    using assms store_ok_record[of H s r'] by (simp add: good_def) (metis rtranclp.rtrancl_into_rtrancl)
qed

lemma good_action:
  "good H s0 s \<Longrightarrow> action_ok s (sx_id a) a \<Longrightarrow> good H s0 (s\<lparr>st_actions := jset (sx_id a) a (st_actions s)\<rparr>)"
  using store_ok_action[of H s a] by (simp add: good_def)

lemma good_workspace:
  "good H s0 s \<Longrightarrow> jget (st_workspaces s) u = Some w \<Longrightarrow> sw_id w' = sw_id w \<Longrightarrow> sw_user w' = sw_user w \<Longrightarrow> sw_role w' = None
     \<Longrightarrow> distinct (sw_modules w') \<Longrightarrow> good H s0 (s\<lparr>st_workspaces := jset u w' (st_workspaces s)\<rparr>)"
  using store_ok_workspace[of H s u w w'] by (simp add: good_def)

text \<open>How an operation begins: in its user's workspace.\<close>

lemma wp_enterI:
  assumes "good H s0 s"
    and "\<And>e w. good H s0 e \<Longrightarrow> base_workspace u e = Some w \<Longrightarrow> jget (st_workspaces e) (sw_user w) = Some w
           \<Longrightarrow> sw_id w \<in> workspace_ids e \<Longrightarrow> sw_role w = None \<Longrightarrow> Q (workspace_for u w e) e"
  shows "wp (get_or_create_workspace H u) Q X s"
proof -
  have g: "good H s0 (enter H u s)" using assms(1) by (rule good_enter)
  from base_workspace_ok[OF goodD(1)[OF g] enter_base] assms(2)[OF g enter_base]
  show ?thesis by (simp add: wp_enter)
qed

lemma wp_inside: "base_workspace u s = Some w \<Longrightarrow> wp (get_or_create_workspace H u) Q X s = Q (workspace_for u w s) s"
  by (simp add: wp_enter enter_inside base_of_def)

section \<open>Operations\<close>

text \<open>What usage reports of the state it is asked in.\<close>

definition usage_of :: "suite_host \<Rightarrow> suite_workspace \<Rightarrow> store \<Rightarrow> suite_usage \<Rightarrow> bool" where
  "usage_of H w s u \<longleftrightarrow> us_records u = length (records_of s (sw_id w)) \<and> us_record_limit u = pq_records (quota_for_plan H (sw_plan w))
     \<and> us_action_limit u = pq_ai_actions (quota_for_plan H (sw_plan w)) \<and> us_storage_limit u = pq_storage (quota_for_plan H (sw_plan w))
     \<and> (\<exists>regs. registrations (sh_env H) (records_of s (sw_id w)) = Inr regs \<and> us_registered u = sum_bytes regs)"

lemma records_of_ticks [simp]: "records_of (s\<lparr>st_ticks := n\<rparr>) w = records_of s w" "records_of (s\<lparr>st_draws := n\<rparr>) w = records_of s w"
  by (simp_all add: records_of_def)

lemma wp_usage_inside:
  assumes "base_workspace u s = Some w" and "\<And>us n. usage_of H w s us \<Longrightarrow> Q us (s\<lparr>st_ticks := n\<rparr>)"
    and "\<And>e n. X e (s\<lparr>st_ticks := n\<rparr>)"
  shows "wp (get_usage H u) Q X s"
proof (cases "registrations (sh_env H) (records_of s (sw_id w))")
  case (Inl e)
  then show ?thesis using assms(3)
    by (simp add: get_usage_def wp_rules wp_inside[OF assms(1)] lift_storage_def wp_lift_e)
next
  case (Inr regs)
  then show ?thesis using assms(2)
    by (simp add: get_usage_def wp_rules wp_inside[OF assms(1)] lift_storage_def wp_lift_e Let_def usage_of_def)
qed

lemma bnd_enter: "bnd (get_or_create_workspace H u) f s = bnd (get_or_create_workspace H u) f (enter H u s)"
  using enter_base[of u H s] by (simp add: bnd_def get_or_create_run enter_inside)

lemma ends_usage: "good H s0 s \<Longrightarrow> ends (good H s0) (get_usage H u) s"
proof -
  assume g: "good H s0 s"
  have "get_usage H u s = get_usage H u (enter H u s)" unfolding get_usage_def by (rule bnd_enter)
  moreover have "ends (good H s0) (get_usage H u) (enter H u s)"
    using good_enter[OF g] by (intro wp_usage_inside[OF enter_base] good_tick)
  ultimately show ?thesis by (simp add: wp_def)
qed

lemma ends_check_new_record:
  assumes g: "good H s0 s" and b: "base_workspace u s = Some w" and Q: "\<And>n. Q () (s\<lparr>st_ticks := n\<rparr>)" and X: "\<And>e n. X e (s\<lparr>st_ticks := n\<rparr>)"
  shows "wp (check_new_record H u i x y bf) Q X s"
  unfolding check_new_record_def Let_def wp_bnd
  by (rule wp_usage_inside[OF b])
    (cases bf; cases "suite_registered_object_bytes (sh_env H) (ri_module i) (ri_type i) (input_data i)";
      simp add: wp_rules lift_storage_def wp_lift_e Q X)+

lemma good_put_new:
  assumes "good H s0 s" "sd_workspace r \<in> workspace_ids s" "jget (st_records s) (sd_id r) = None"
    and "sd_id r \<in> drawn H s \<or> sd_id r \<notin> range (sh_uuid H)"
  shows "ends (good H s0) (bnd (put_record r) f) s \<longleftrightarrow> ends (good H s0) (f r) (s\<lparr>st_records := jset (sd_id r) r (st_records s)\<rparr>)"
  by (simp add: put_record_def wp_rules)

lemma fresh_record: "good H s0 s \<Longrightarrow> jget (st_records s) (sh_uuid H (st_draws s)) = None"
proof (rule ccontr)
  assume g: "good H s0 s" and old: "jget (st_records s) (sh_uuid H (st_draws s)) \<noteq> None"
  then have "sh_uuid H (st_draws s) \<in> drawn H s" unfolding good_def store_ok_def record_ids_ok_def by blast
  then show False using g by (auto simp: good_def drawn_def inj_def)
qed

text \<open>
  A transaction keeps the invariant when its body does: entered afresh it marks its workspace, and a failure
  puts the maps back; inside another transaction it is its body.
\<close>

lemma good_restore: "good H s0 s \<Longrightarrow> st_active s0 = None \<Longrightarrow> st_draws s \<le> st_draws t \<Longrightarrow> good H s0 (restore s t)"
  using store_ok_draw[of H "s\<lparr>st_registry := (st_registry t)\<lparr>r_claims := r_claims (st_registry s)\<rparr>, st_active := None,
      st_ticks := st_ticks t\<rparr>" "st_draws t"]
  by (simp add: good_def restore_def)

definition body_ok :: "suite_host \<Rightarrow> string \<Rightarrow> (suite_workspace \<Rightarrow> 'a suite) \<Rightarrow> bool" where
  "body_ok H u body \<longleftrightarrow> (\<forall>s0 e w. good H s0 e \<longrightarrow> base_workspace u e = Some w \<longrightarrow> jget (st_workspaces e) (sw_user w) = Some w
     \<longrightarrow> sw_id w \<in> workspace_ids e \<longrightarrow> sw_role w = None \<longrightarrow> ends (good H s0) (body (workspace_for u w e)) e)"

lemma ends_transaction:
  assumes body: "body_ok H u body" and g: "good H s0 s"
  shows "ends (good H s0) (run_in_transaction H u body) s"
proof (cases "st_active s")
  case None
  let ?run = "bnd (get_or_create_workspace H u) (\<lambda>w. bnd (modifies (\<lambda>s. s\<lparr>st_active := Some (sw_id w)\<rparr>)) (\<lambda>_. body w))"
  obtain r t where run: "?run s = (r, t)" by fastforce
  define e where "e = enter H u s"
  define e' where "e' = e\<lparr>st_active := Some (sw_id (base_of u e))\<rparr>"
  have ge: "good H s e" unfolding e_def by (rule good_enter) (use g in \<open>simp add: good_refl good_def\<close>)
  then have ok: "store_ok H e'" "inj (sh_uuid H)" by (simp_all add: good_def e'_def)
  have be: "base_workspace u e' = Some (base_of u e)" unfolding e'_def e_def by (simp add: enter_base)
  have wf: "workspace_for u (base_of u e) e = workspace_for u (base_of u e) e'" by (simp add: workspace_for_def e'_def)
  have "ends (good H e') (body (workspace_for u (base_of u e) e')) e'"
    using body base_workspace_ok[OF ok(1) be] be good_refl[OF ok(2,1)] unfolding body_ok_def by blast
  then have "ends (good H e') ?run s"
    by (simp add: wp_rules wp_enter e_def[symmetric] e'_def[symmetric] wf)
  then have t: "good H e' t" using run by (rule endsD)
  have draws: "st_draws s \<le> st_draws t" using t by (simp add: good_def e'_def e_def) (metis enter_frame(7) order_trans)
  have records: "st_records e' = st_records s" by (simp add: e'_def e_def)
  show ?thesis
  proof (cases r)
    case (Inl er)
    then show ?thesis
      using g None run draws good_restore[OF g, of t] goodD(2)[OF g] by (simp add: wp_def run_in_transaction_def)
  next
    case (Inr x)
    have "good H s0 (t\<lparr>st_active := None\<rparr>)"
      using g t draws None records by (auto simp: good_def intro: rtranclp_trans)
    then show ?thesis using Inr None run by (simp add: wp_def run_in_transaction_def)
  qed
next
  case (Some a)
  show ?thesis
  proof (cases "base_workspace u s")
    case None
    with Some g show ?thesis by (simp add: wp_def run_in_transaction_def)
  next
    case (Some w)
    have "ends (good H s0) (body (workspace_for u w s)) s"
      using body g Some base_workspace_ok[OF goodD(1)[OF g] Some] unfolding body_ok_def by blast
    then show ?thesis
      using \<open>st_active s = Some a\<close> Some g by (simp add: wp_def run_in_transaction_def)
  qed
qed

end
