(* ===== verification/Suite_Runs.thy ===== *)
theory Suite_Runs
  imports Suite_Invariant
begin

text \<open>
  Every operation of the workspace store runs from well-formed states to well-formed states, and changes
  records only as the abstract store allows. The collection \<open>runs\<close> holds one rule per operation.
\<close>

named_theorems runs "operations keep the store well formed"

lemma good_simps [simp]: "good H s0 s \<Longrightarrow> good H s0 (s\<lparr>st_ticks := n\<rparr>)"
  by (rule good_tick)

section \<open>Workspaces and members\<close>

lemma runs_enter [runs]: "good H s0 s \<Longrightarrow> ends (good H s0) (get_or_create_workspace H u) s"
  by (erule wp_enterI) simp

lemma runs_reads [runs]: "good H s0 s \<Longrightarrow> ends (good H s0) (reads f) s"
  by (simp add: wp_rules)

lemma runs_by_slug [runs]: "good H s0 s \<Longrightarrow> ends (good H s0) (get_workspace_by_slug slug) s"
  by (simp add: get_workspace_by_slug_def wp_rules)

lemma runs_by_public_id [runs]: "good H s0 s \<Longrightarrow> ends (good H s0) (get_workspace_by_public_id H i) s"
  by (simp add: get_workspace_by_public_id_def wp_rules)

lemma runs_list_members [runs]: "good H s0 s \<Longrightarrow> ends (good H s0) (list_workspace_members H u) s"
  unfolding list_workspace_members_def wp_bnd by (erule wp_enterI) (simp add: wp_rules)

lemma owner_member:
  assumes "store_ok H s" "jget (st_workspaces s) v = Some w"
  shows "\<exists>m. jget (st_members s) v = Some m \<and> mb_owner m = v \<and> mb_role m = Owner"
  using assms unfolding store_ok_def workspaces_ok_def by blast

lemma good_new_member:
  assumes g: "good H s0 s" and new: "jget (st_members s) v = None" and m: "jget (st_workspaces s) (mb_owner m) \<noteq> None" "mb_role m \<noteq> Owner"
  shows "good H s0 (s\<lparr>st_members := jset v m (st_members s)\<rparr>)"
proof -
  have ok: "store_ok H s" using g by (simp add: good_def)
  have "mb_owner m \<noteq> v"
  proof
    assume "mb_owner m = v"
    then obtain w where "jget (st_workspaces s) v = Some w" using m by auto
    then show False using owner_member[OF ok] new by fastforce
  qed
  then have "members_ok (s\<lparr>st_members := jset v m (st_members s)\<rparr>)"
    using ok m by (simp add: store_ok_def members_ok_def jget_jset)
  moreover have "\<exists>k. jget (jset v m (st_members s)) x = Some k \<and> mb_owner k = x \<and> mb_role k = Owner"
    if "jget (st_workspaces s) x = Some w" for x w
    using owner_member[OF ok that] new by (auto simp: jget_jset)
  then have "workspaces_ok H (s\<lparr>st_members := jset v m (st_members s)\<rparr>)"
    using ok unfolding store_ok_def workspaces_ok_def by simp
  ultimately show ?thesis
    using g jm.wf_put[of "st_members s" v m] by (simp add: good_def store_ok_def maps_ok_def)
qed

text \<open>
  The rules about one update, with the updated map named: the state they apply to may have other updates inside.
\<close>

lemma good_new_member': "good H s0 s \<Longrightarrow> st_members s = ms \<Longrightarrow> jget ms v = None \<Longrightarrow> jget (st_workspaces s) (mb_owner m) \<noteq> None
    \<Longrightarrow> mb_role m \<noteq> Owner \<Longrightarrow> good H s0 (s\<lparr>st_members := jset v m ms\<rparr>)"
  using good_new_member by blast

lemma good_workspace': "good H s0 s \<Longrightarrow> st_workspaces s = ws \<Longrightarrow> jget ws u = Some w \<Longrightarrow> sw_id w' = sw_id w \<Longrightarrow> sw_user w' = sw_user w
    \<Longrightarrow> sw_role w' = None \<Longrightarrow> distinct (sw_modules w') \<Longrightarrow> good H s0 (s\<lparr>st_workspaces := jset u w' ws\<rparr>)"
  using good_workspace by blast

lemma good_action': "good H s0 s \<Longrightarrow> st_actions s = as \<Longrightarrow> sx_id a = i \<Longrightarrow> action_ok s i a \<Longrightarrow> good H s0 (s\<lparr>st_actions := jset i a as\<rparr>)"
  using good_action by blast

lemma good_new_record': "good H s0 s \<Longrightarrow> st_records s = rs \<Longrightarrow> sd_id r = i \<Longrightarrow> jget rs i = None \<Longrightarrow> sd_workspace r \<in> workspace_ids s
    \<Longrightarrow> i \<in> drawn H s \<or> i \<notin> range (sh_uuid H) \<Longrightarrow> good H s0 (s\<lparr>st_records := jset i r rs\<rparr>)"
  using good_new_record by blast

lemma good_edit_record': "good H s0 s \<Longrightarrow> st_records s = rs \<Longrightarrow> sd_id r' = i \<Longrightarrow> jget rs i = Some r \<Longrightarrow> same_place r r'
    \<Longrightarrow> good H s0 (s\<lparr>st_records := jset i r' rs\<rparr>)"
  using good_edit_record by blast

lemma runs_add_member [runs]:
  "good H s0 s \<Longrightarrow> role \<noteq> Owner \<Longrightarrow> ends (good H s0) (add_workspace_member H u v role) s"
  unfolding add_workspace_member_def wp_bnd
  by (erule wp_enterI) (auto simp: wp_rules intro!: good_new_member')

lemma jget_jdelete: "jget (jdelete k m) j = (if j = k then None else jget m j)"
  by (simp add: jget_def jdelete_def delete_conv')

lemma jkeys_jdelete: "distinct (jkeys m) \<Longrightarrow> distinct (jkeys (jdelete k m))"
  by (simp add: jkeys_def jdelete_def distinct_delete)

lemma good_drop_member:
  assumes g: "good H s0 s" and m: "jget (st_members s) v = Some m" "mb_role m \<noteq> Owner"
  shows "good H s0 (s\<lparr>st_members := jdelete v (st_members s)\<rparr>)"
proof -
  have ok: "store_ok H s" using g by (simp add: good_def)
  have "members_ok (s\<lparr>st_members := jdelete v (st_members s)\<rparr>)"
    using ok by (simp add: store_ok_def members_ok_def jget_jdelete)
  moreover have "\<exists>k. jget (jdelete v (st_members s)) x = Some k \<and> mb_owner k = x \<and> mb_role k = Owner"
    if "jget (st_workspaces s) x = Some w" for x w
    using owner_member[OF ok that] m by (auto simp: jget_jdelete)
  then have "workspaces_ok H (s\<lparr>st_members := jdelete v (st_members s)\<rparr>)"
    using ok unfolding store_ok_def workspaces_ok_def by simp
  ultimately show ?thesis
    using g jkeys_jdelete[of "st_members s" v] by (simp add: good_def store_ok_def maps_ok_def)
qed

lemma runs_remove_member [runs]: "good H s0 s \<Longrightarrow> ends (good H s0) (remove_workspace_member H u v) s"
  unfolding remove_workspace_member_def wp_bnd
  by (erule wp_enterI) (auto simp: wp_rules intro!: good_drop_member split: option.splits)

lemma runs_usage [runs]: "good H s0 s \<Longrightarrow> ends (good H s0) (get_usage H u) s"
  by (rule ends_usage)

section \<open>Plans, modules and domains\<close>

lemma runs_enable_module [runs]: "good H s0 s \<Longrightarrow> ends (good H s0) (enable_module H u m) s"
proof -
  assume g: "good H s0 s"
  have mods: "distinct (sw_modules w)" if "good H s0 e" "jget (st_workspaces e) v = Some w" for e v w
    using that by (simp add: good_def store_ok_def workspaces_ok_def)
  show ?thesis
    unfolding enable_module_def wp_bnd
    by (rule wp_enterI[OF g]) (auto simp: wp_rules Let_def mods intro!: good_workspace')
qed

lemma runs_list_domains [runs]: "good H s0 s \<Longrightarrow> ends (good H s0) (list_custom_domains H u) s"
  unfolding list_custom_domains_def wp_bnd by (erule wp_enterI) (simp add: wp_rules)

lemma good_domain:
  assumes "good H s0 s" "cu_domain d = n" "cu_workspace d \<in> workspace_ids s"
  shows "good H s0 (s\<lparr>st_domains := jset n d (st_domains s)\<rparr>)"
proof -
  have "domains_ok (s\<lparr>st_domains := jset n d (st_domains s)\<rparr>)"
    using assms by (simp add: good_def store_ok_def domains_ok_def jget_jset)
  then show ?thesis using assms jm.wf_put[of "st_domains s" n d] by (simp add: good_def store_ok_def maps_ok_def)
qed

lemma good_domain': "good H s0 s \<Longrightarrow> st_domains s = ds \<Longrightarrow> cu_domain d = n \<Longrightarrow> cu_workspace d \<in> workspace_ids s
    \<Longrightarrow> good H s0 (s\<lparr>st_domains := jset n d ds\<rparr>)"
  using good_domain by blast

lemma stored_keys:
  "good H s0 s \<Longrightarrow> jget (st_domains s) n = Some d \<Longrightarrow> cu_domain d = n"
  "good H s0 s \<Longrightarrow> jget (st_records s) i = Some r \<Longrightarrow> sd_id r = i \<and> sd_workspace r \<in> workspace_ids s"
  "good H s0 s \<Longrightarrow> jget (st_actions s) i = Some a \<Longrightarrow> action_ok s i a"
  by (simp_all add: good_def store_ok_def domains_ok_def records_ok_def actions_ok_def)

lemma wp_on_registry: "(\<And>x g. Q x (s\<lparr>st_registry := g\<rparr>)) \<Longrightarrow> (\<And>e g. X e (s\<lparr>st_registry := g\<rparr>)) \<Longrightarrow> wp (on_registry m) Q X s"
  by (auto simp: wp_def on_registry_def split: prod.splits sum.splits)

lemma runs_set_domain_status [runs]: "good H s0 s \<Longrightarrow> ends (good H s0) (set_custom_domain_status H u n st) s"
  unfolding set_custom_domain_status_def wp_bnd
  by (erule wp_enterI) (auto simp: wp_rules Let_def good_registry
      intro!: wp_on_registry good_domain' split: option.splits; rule stored_keys(1); assumption)

lemma runs_by_custom_domain [runs]: "good H s0 s \<Longrightarrow> ends (good H s0) (get_workspace_by_custom_domain H n) s"
  unfolding get_workspace_by_custom_domain_def
  by (auto simp: wp_rules good_registry intro!: wp_on_registry split: option.splits)

lemma runs_active_domains [runs]: "good H s0 s \<Longrightarrow> ends (good H s0) (list_active_custom_domains H) s"
proof -
  assume g: "good H s0 s"
  have "ends (good H s0) (each (\<lambda>d. bnd (on_registry (get_claim (cu_domain d))) (\<lambda>c. ret (d, c))) ds) s" for ds
    using g by (intro ends_each) (auto simp: wp_rules good_registry intro!: wp_on_registry)
  then show ?thesis
    unfolding list_active_custom_domains_def wp_bnd wp_reads
    by (rule wp_mono) (simp_all add: wp_rules)
qed

lemma runs_add_domain: "good H s0 s \<Longrightarrow> add_custom_domain H u n s = Some (r, t) \<Longrightarrow> good H s0 t"
proof -
  assume g: "good H s0 s" and run: "add_custom_domain H u n s = Some (r, t)"
  let ?m = "bnd (get_or_create_workspace H u) (\<lambda>w.
             bnd (reads (\<lambda>s. \<not> role_can_manage u s \<or> no_paid_plan H w)) (\<lambda>refused.
             bnd (if refused then ret [] else lift_host (platform_suffixes H)) (\<lambda>suffixes.
             if refused then ret None
             else bnd (now H) (\<lambda>ts. ret (Some (w, suffixes, ts))))))"
  have "wp ?m (\<lambda>x t. good H s0 t \<and> (\<forall>w sf ts. x = Some (w, sf, ts) \<longrightarrow> sw_id w \<in> workspace_ids t)) (\<lambda>_. good H s0) s"
    unfolding wp_bnd
    by (rule wp_enterI[OF g]) (auto simp: wp_rules lift_host_def wp_lift_e split: sum.splits)
  then obtain x v where m: "?m s = (x, v)" and v: "good H s0 v"
    and ws: "\<And>w sf ts. x = Inr (Some (w, sf, ts)) \<Longrightarrow> sw_id w \<in> workspace_ids v"
    by (cases "?m s") (auto simp: wp_def split: sum.splits)
  have "good H s0 t" if "x = Inr (Some (w, sf, ts))" for w sf ts
  proof -
    let ?i = "\<lparr>ci_hostname = n, ci_surface = SurfaceSuite, ci_owner = sw_user w, ci_resource = sw_id w\<rparr>"
    from run that m obtain q g where c: "claim_hostname (sh_env H) (sh_challenge H) ?i sf ts (st_registry v) = Some (q, g)"
      by (auto simp: add_custom_domain_def split: option.splits)
    let ?v = "v\<lparr>st_registry := g\<rparr>"
    have gv: "good H s0 ?v" using v by (rule good_registry)
    show ?thesis
    proof (cases "\<exists>cl. q = Inr (Some cl)")
      case False
      with run that m c gv show ?thesis
        by (auto simp: add_custom_domain_def split: sum.splits option.splits)
    next
      case True
      then obtain cl where q: "q = Inr (Some cl)" by blast
      let ?put = "bnd (random_uuid H) (\<lambda>i.
                     bnd (lift_host (ownership_instructions cl (sh_host_target H))) (\<lambda>ownership.
                     bnd (now H) (\<lambda>created.
                     let item = \<lparr>cu_id = i, cu_workspace = sw_id w, cu_domain = hc_hostname cl, cu_status = AwaitingDns,
                           cu_ownership = ownership, cu_checked = None, cu_created = created\<rparr>
                     in bnd (modifies (\<lambda>s. s\<lparr>st_domains := jset (hc_hostname cl) item (st_domains s)\<rparr>)) (\<lambda>_.
                        ret (Some item)))))"
      have put: "?put ?v = (r, t)" using run that m c q by (simp add: add_custom_domain_def)
      have ends: "ends (good H s0) ?put ?v"
        using gv ws[OF that]
        by (auto simp: wp_rules lift_host_def wp_lift_e Let_def good_draw intro!: good_domain' split: sum.splits)
      show ?thesis by (rule endsD[OF ends put])
    qed
  qed
  moreover have "t = v" if "\<nexists>w sf ts. x = Inr (Some (w, sf, ts))"
    using run that unfolding add_custom_domain_def m by (cases x) (auto split: option.splits)
  ultimately show "good H s0 t" using v by blast
qed

lemma workspace_ids_same: "st_workspaces t = st_workspaces s \<Longrightarrow> action_ok t = action_ok s"
  by (simp add: action_ok_def workspace_ids_def fun_eq_iff)

lemma good_failed_action: "action_ok s i a \<Longrightarrow> action_ok s i (failed_action e r ts a)"
  by (simp add: action_ok_def failed_action_def attempts_of_def)

text \<open>A run over the entries of the action map that recasts each value and keeps its key.\<close>

definition recasts :: "(ai_action \<Rightarrow> ai_action \<Rightarrow> bool) \<Rightarrow> (string, ai_action) jmap \<Rightarrow> (string, ai_action) jmap \<Rightarrow> bool" where
  "recasts R xs ys \<longleftrightarrow> list_all2 (\<lambda>(i, a) (j, b). i = j \<and> R a b) xs ys"

lemma recasts_keys: "recasts R xs ys \<Longrightarrow> jkeys ys = jkeys xs"
  unfolding recasts_def jkeys_def by (induction xs ys rule: list_all2_induct) auto

lemma recasts_get: "recasts R xs ys \<Longrightarrow> jget ys i = Some b \<Longrightarrow> \<exists>a. jget xs i = Some a \<and> R a b"
  unfolding recasts_def by (induction xs ys rule: list_all2_induct) (auto simp: jget_Cons split: if_splits)

lemma good_rewrite:
  assumes g: "good H s0 s" and xs: "recasts R (st_actions s) as"
    and R: "\<And>i a b. action_ok s i a \<Longrightarrow> R a b \<Longrightarrow> action_ok s i b"
  shows "good H s0 (s\<lparr>st_actions := as\<rparr>)"
proof -
  have "actions_ok (s\<lparr>st_actions := as\<rparr>)"
    using g recasts_get[OF xs] R by (fastforce simp: good_def store_ok_def actions_ok_def)
  then show ?thesis using g recasts_keys[OF xs] by (simp add: good_def store_ok_def maps_ok_def)
qed

definition revoked_or_same :: "ai_action \<Rightarrow> ai_action \<Rightarrow> bool" where
  "revoked_or_same a b \<longleftrightarrow> b = a \<or> (\<exists>e r ts. b = failed_action e r ts a)"

lemma each_revoke:
  "\<exists>ys n. each (\<lambda>(k, a). bnd (revoke_action H p w a) (\<lambda>a'. ret (k, a'))) xs s = (Inr ys, s\<lparr>st_ticks := n\<rparr>) \<and> recasts revoked_or_same xs ys"
proof (induction xs arbitrary: s)
  case Nil
  show ?case by (intro exI[of _ "[]"] exI[of _ "st_ticks s"]) (simp add: recasts_def)
next
  case (Cons x xs)
  obtain k a where x: "x = (k, a)" by fastforce
  have "\<exists>b n. revoke_action H p w a s = (Inr b, s\<lparr>st_ticks := n\<rparr>) \<and> revoked_or_same a b"
  proof -
    have "revoke_action H p w a s = (Inr a, s\<lparr>st_ticks := st_ticks s\<rparr>)
        \<or> (\<exists>e r ts. revoke_action H p w a s = (Inr (failed_action e r ts a), s\<lparr>st_ticks := Suc (st_ticks s)\<rparr>))"
      by (auto simp: revoke_action_def now_def bnd_def split: option.splits)
    then show ?thesis unfolding revoked_or_same_def by blast
  qed
  then obtain b n where b: "revoke_action H p w a s = (Inr b, s\<lparr>st_ticks := n\<rparr>)" "revoked_or_same a b" by blast
  obtain ys m where ys: "each (\<lambda>(k, a). bnd (revoke_action H p w a) (\<lambda>a'. ret (k, a'))) xs (s\<lparr>st_ticks := n\<rparr>)
      = (Inr ys, (s\<lparr>st_ticks := n\<rparr>)\<lparr>st_ticks := m\<rparr>)" "recasts revoked_or_same xs ys"
    using Cons.IH by blast
  have "each (\<lambda>(k, a). bnd (revoke_action H p w a) (\<lambda>a'. ret (k, a'))) (x # xs) s = (Inr ((k, b) # ys), s\<lparr>st_ticks := m\<rparr>)"
    unfolding each.simps x prod.case using b(1) ys(1) by (simp add: bnd_def)
  moreover have "recasts revoked_or_same (x # xs) ((k, b) # ys)" using b(2) ys(2) by (simp add: x recasts_def)
  ultimately show ?case by blast
qed

lemma runs_set_plan [runs]: "good H s0 s \<Longrightarrow> ends (good H s0) (set_workspace_plan H u p) s"
proof -
  assume g: "good H s0 s"
  have mods: "distinct (sw_modules w)" if "good H s0 e" "jget (st_workspaces e) v = Some w" for e v w
    using that by (simp add: good_def store_ok_def workspaces_ok_def)
  have each: "wp (each (\<lambda>(k, a). bnd (revoke_action H p w a) (\<lambda>a'. ret (k, a'))) (st_actions e)) (\<lambda>ys t.
        good H s0 (t\<lparr>st_actions := ys\<rparr>)) (\<lambda>_. good H s0) e" if "good H s0 e" for e w
  proof -
    obtain ys n where "each (\<lambda>(k, a). bnd (revoke_action H p w a) (\<lambda>a'. ret (k, a'))) (st_actions e) e = (Inr ys, e\<lparr>st_ticks := n\<rparr>)"
      "recasts revoked_or_same (st_actions e) ys" using each_revoke by blast
    moreover have "action_ok (e\<lparr>st_ticks := n\<rparr>) i a \<Longrightarrow> revoked_or_same a b \<Longrightarrow> action_ok (e\<lparr>st_ticks := n\<rparr>) i b" for i a b
      by (auto simp: revoked_or_same_def good_failed_action)
    ultimately have "good H s0 (e\<lparr>st_ticks := n\<rparr>\<lparr>st_actions := ys\<rparr>)"
      by (intro good_rewrite[OF good_tick[OF that], of revoked_or_same]) simp_all
    with \<open>each _ _ e = _\<close> show ?thesis by (simp add: wp_def)
  qed
  show ?thesis
    unfolding set_workspace_plan_def wp_bnd
  proof (rule wp_enterI[OF g], goal_cases)
    case (1 e w)
    let ?ts = "iso_text (sh_env H) (sh_clock H (st_ticks e))"
    let ?e = "e\<lparr>st_ticks := Suc (st_ticks e),
      st_workspaces := jset (sw_user w) (workspace_for u w e\<lparr>sw_plan := p, sw_role := None, sw_updated := ?ts\<rparr>) (st_workspaces e)\<rparr>"
    have "good H s0 ?e" using 1 mods by (intro good_workspace') auto
    from each[OF this, of "sw_id w"] 1(1) show ?case
      by (auto simp: wp_rules elim!: wp_mono)
  qed
qed

section \<open>Records\<close>

lemma runs_list_records [runs]: "good H s0 s \<Longrightarrow> ends (good H s0) (list_store_records H u m t k) s"
  unfolding list_store_records_def wp_bnd by (erule wp_enterI) (simp add: wp_rules)

lemma runs_list_page [runs]: "good H s0 s \<Longrightarrow> ends (good H s0) (list_record_page H u v) s"
proof -
  assume g: "good H s0 s"
  have page: "good H s0 e \<Longrightarrow> ends (good H s0) (lift_page r) e" for e and r :: "page_err + 'a"
    by (auto simp: lift_page_def wp_lift_e split: sum.splits)
  show ?thesis
    unfolding list_record_page_def wp_bnd
    by (auto simp: lift_page_def wp_lift_e wp_bnd Let_def g intro!: wp_enterI[OF g] split: sum.splits)
      (auto simp: wp_rules wp_lift_e split: sum.splits)
qed

lemma runs_find_signer [runs]: "good H s0 s \<Longrightarrow> ends (good H s0) (find_signer_session H u h) s"
  unfolding find_signer_session_def wp_bnd
  by (erule wp_enterI) (auto simp: wp_rules split: list.splits)

lemma runs_get_record [runs]: "good H s0 s \<Longrightarrow> ends (good H s0) (get_record H u i) s"
  unfolding get_record_def wp_bnd by (erule wp_enterI) (simp add: wp_rules)

lemma runs_find_receipt [runs]: "good H s0 s \<Longrightarrow> ends (good H s0) (find_command_receipt H u t m a k) s"
  unfolding find_command_receipt_def wp_if wp_bnd
  by (auto simp: wp_rules intro!: wp_enterI split: list.splits)

lemma runs_find_decision [runs]: "good H s0 s \<Longrightarrow> ends (good H s0) (find_approval_decision_receipt H u d) s"
  unfolding find_approval_decision_receipt_def wp_if wp_bnd
  by (auto simp: wp_rules intro!: wp_enterI)

lemma runs_public_reads [runs]:
  "good H s0 s \<Longrightarrow> ends (good H s0) (list_public_records H slug m t k) s"
  "good H s0 s \<Longrightarrow> ends (good H s0) (record_public_event H slug m) s"
  "good H s0 s \<Longrightarrow> ends (good H s0) (list_public_workflow_records H slug m x k) s"
  by (auto simp: list_public_records_def record_public_event_def list_public_workflow_records_def get_workspace_by_slug_def
      wp_rules split: option.splits)

lemma record_from_input_sel [simp]:
  "sd_id (record_from_input i rid w ts) = rid" "sd_workspace (record_from_input i rid w ts) = w"
  "sd_module (record_from_input i rid w ts) = ri_module i" "sd_type (record_from_input i rid w ts) = ri_type i"
  "sd_data (record_from_input i rid w ts) = input_data i"
  by (simp_all add: record_from_input_def)

lemma drawn_now [simp]: "sh_uuid H n \<in> drawn H (s\<lparr>st_draws := Suc n\<rparr>)"
  by (auto simp: drawn_def)

lemma good_drawn_record: "good H s0 s \<Longrightarrow> st_records s = rs \<Longrightarrow> sd_id r = i \<Longrightarrow> jget rs i = None \<Longrightarrow> sd_workspace r \<in> workspace_ids s
    \<Longrightarrow> i \<in> drawn H s \<Longrightarrow> good H s0 (s\<lparr>st_records := jset i r rs\<rparr>)"
  by (rule good_new_record') simp_all

lemma good_given_record: "good H s0 s \<Longrightarrow> st_records s = rs \<Longrightarrow> sd_id r = i \<Longrightarrow> jget rs i = None \<Longrightarrow> sd_workspace r \<in> workspace_ids s
    \<Longrightarrow> i \<notin> range (sh_uuid H) \<Longrightarrow> good H s0 (s\<lparr>st_records := jset i r rs\<rparr>)"
  by (rule good_new_record') simp_all

lemma create_body: "body_ok H u (\<lambda>w.
    bnd (reads (role_can_write u)) (\<lambda>writer.
       if \<not> writer \<or> ri_module i \<notin> set (sw_modules w) \<or> \<not> plan_allows H (sw_plan w) (ri_module i) then ret None
       else bnd (check_new_record H u i RecordQuotaReached StorageQuotaReached True) (\<lambda>_.
            bnd (now H) (\<lambda>ts. bnd (random_uuid H) (\<lambda>rid.
            bnd (put_record (record_from_input i rid (sw_id w) ts)) (\<lambda>r. ret (Some r)))))))"
  unfolding body_ok_def
proof (intro allI impI, goal_cases)
  case (1 s0 e w)
  have "good H s0 (e\<lparr>st_ticks := n, st_draws := Suc (st_draws e)\<rparr>)" for n
    using good_draw[OF good_tick[OF 1(1)]] by simp
  then show ?case
    using 1 fresh_record[OF 1(1)]
    by (auto simp: wp_rules put_record_def intro!: ends_check_new_record[OF 1(1,2)] good_drawn_record)
qed

lemma runs_create_record [runs]: "good H s0 s \<Longrightarrow> ends (good H s0) (create_record H u i) s"
  unfolding create_record_def wp_bnd wp_lift_e
  by (cases "record_payload_bytes (sh_env H) (input_data i)"; simp only: sum.case; rule ends_transaction[OF create_body] | assumption)

lemma create_public_body:
  assumes "\<And>x. ri_id i = Some x \<Longrightarrow> x \<notin> range (sh_uuid H)"
  shows "body_ok H u (\<lambda>w.
    bnd (reads (\<lambda>s. consent_key_taken i (records_of s (sw_id w)))) (\<lambda>taken.
      if taken then throw DuplicateConsentKey
      else bnd (check_new_record H u i ClosedToSubmissions ClosedToSubmissions False) (\<lambda>_.
           bnd (now H) (\<lambda>ts.
           bnd (case ri_id i of Some x \<Rightarrow> ret x | None \<Rightarrow> random_uuid H) (\<lambda>rid.
           bnd (reads (\<lambda>s. jget (st_records s) rid \<noteq> None)) (\<lambda>exists_already.
           if \<not> public_id_pattern rid \<or> exists_already then throw BadPublicId
           else bnd (put_record (record_from_input i rid (sw_id w) ts)) (\<lambda>r. ret (Some r))))))))"
  unfolding body_ok_def
proof (intro allI impI, goal_cases)
  case (1 s0 e w)
  have "good H s0 (e\<lparr>st_ticks := n, st_draws := Suc (st_draws e)\<rparr>)" for n
    using good_draw[OF good_tick[OF 1(1)]] by simp
  then have *: "good H s0 (e\<lparr>st_ticks := n, st_draws := Suc (st_draws e)\<rparr>)" for n .
  show ?case
  proof (cases "ri_id i")
    case None
    show ?thesis
      using 1 fresh_record[OF 1(1)] *
      by (auto simp: None wp_rules put_record_def intro!: ends_check_new_record[OF 1(1,2)] good_drawn_record)
  next
    case (Some x)
    have "\<forall>n. x \<noteq> sh_uuid H n" using assms[OF Some] by auto
    then show ?thesis
      using 1
      by (auto simp: Some wp_rules put_record_def intro!: ends_check_new_record[OF 1(1,2)] good_given_record)
  qed
qed

lemma runs_create_public [runs]:
  "good H s0 s \<Longrightarrow> ri_id i = None \<or> the (ri_id i) \<notin> range (sh_uuid H) \<Longrightarrow> ends (good H s0) (create_public_record H slug i) s"
proof -
  assume g: "good H s0 s" and i: "ri_id i = None \<or> the (ri_id i) \<notin> range (sh_uuid H)"
  have body: "ri_id i = Some x \<Longrightarrow> x \<notin> range (sh_uuid H)" for x using i by auto
  show ?thesis
  proof (cases "first_such (\<lambda>w. sw_slug w = slug) (jvals (st_workspaces s))")
    case (Some w)
    show ?thesis
      unfolding create_public_record_def get_workspace_by_slug_def wp_bnd wp_reads Some option.case wp_if wp_lift_e
      using g by (cases "record_payload_bytes (sh_env H) (input_data i)"; simp only: sum.case split: if_split)
        (simp_all add: wp_rules ends_transaction[OF create_public_body[OF body]])
  qed (use g in \<open>simp add: create_public_record_def get_workspace_by_slug_def wp_rules\<close>)
qed

lemma patch_record_place [simp]:
  "sd_id (patch_record p r) = sd_id r" "sd_workspace (patch_record p r) = sd_workspace r"
  "sd_module (patch_record p r) = sd_module r" "sd_type (patch_record p r) = sd_type r"
  "sd_created (patch_record p r) = sd_created r"
  by (simp_all add: patch_record_def)

lemma wp_write_patch:
  assumes g: "good H s0 e" and b: "base_workspace u e = Some w" and r: "jget (st_records e) (sd_id r) = Some r"
  shows "ends (good H s0) (write_patch H u r (patch_record p r) x) e"
  unfolding write_patch_def wp_bnd wp_lift_e
  using g r
  by (auto simp: wp_lift_e lift_storage_def wp_rules put_record_def same_place_def split: sum.splits
      intro!: wp_usage_inside[OF b] good_edit_record')

lemma update_body: "body_ok H u (\<lambda>w.
    bnd (reads (\<lambda>s. (role_can_write u s, jget (st_records s) i))) (\<lambda>(writer, r).
       case r of
         None \<Rightarrow> ret None
       | Some r \<Rightarrow>
           if \<not> writer \<or> sd_workspace r \<noteq> sw_id w \<or> \<not> plan_allows H (sw_plan w) (sd_module r) then ret None
           else write_patch H u r (patch_record p r) StorageQuotaReached))"
  unfolding body_ok_def
proof (intro allI impI, goal_cases)
  case (1 s0 e w)
  show ?case
    using 1 stored_keys(2)[OF 1(1)]
    by (auto simp: wp_rules intro!: wp_write_patch[OF 1(1,2)] split: option.splits)
qed

lemma runs_update_record [runs]: "good H s0 s \<Longrightarrow> ends (good H s0) (update_record H u i p) s"
  unfolding update_record_def by (rule ends_transaction[OF update_body])

lemma update_public_body: "body_ok H u (\<lambda>w.
    bnd (reads (\<lambda>s. jget (st_records s) i)) (\<lambda>r.
       case r of
         None \<Rightarrow> ret None
       | Some r \<Rightarrow>
           if sd_workspace r \<noteq> sw_id w \<or> sd_module r \<notin> set (sw_modules w) \<or> \<not> plan_allows H (sw_plan w) (sd_module r) then ret None
           else write_patch H u r (patch_record p r) ClosedToSubmissions))"
  unfolding body_ok_def
proof (intro allI impI, goal_cases)
  case (1 s0 e w)
  show ?case
    using 1 stored_keys(2)[OF 1(1)]
    by (auto simp: wp_rules intro!: wp_write_patch[OF 1(1,2)] split: option.splits)
qed

lemma runs_update_public [runs]: "good H s0 s \<Longrightarrow> ends (good H s0) (update_public_workflow_record H slug i st d) s"
proof -
  assume g: "good H s0 s"
  show ?thesis
  proof (cases "first_such (\<lambda>w. sw_slug w = slug) (jvals (st_workspaces s))")
    case (Some w)
    show ?thesis
      unfolding update_public_workflow_record_def get_workspace_by_slug_def wp_bnd wp_reads Some option.case
      using g by (rule ends_transaction[OF update_public_body])
  qed (use g in \<open>simp add: update_public_workflow_record_def get_workspace_by_slug_def wp_rules\<close>)
qed

end
