(* ===== verification/Suite_Action_Runs.thy ===== *)
theory Suite_Action_Runs
  imports Suite_Runs
begin

text \<open>
  The runs of the AI action queue, of the API tokens and of the read model service: they too keep the
  workspace store well formed and change records only as the abstract store allows.
\<close>

section \<open>AI actions\<close>

lemma runs_queue_action [runs]: "good H s0 s \<Longrightarrow> ends (good H s0) (queue_ai_action H u m g c) s"
proof -
  assume g: "good H s0 s"
  show ?thesis
    unfolding queue_ai_action_def wp_bnd
  proof (rule wp_enterI[OF g], goal_cases)
    case (1 e w)
    have new: "action_ok t i \<lparr>sx_id = i, sx_workspace = sw_id w, sx_module = m, sx_goal = goal, sx_context = ctx, sx_status = AiQueued,
        sx_result = None, sx_attempts = None, sx_lease = None, sx_error = None, sx_created = ts, sx_updated = ts\<rparr>"
      if "workspace_ids t = workspace_ids e" for t i goal ctx ts
      using that 1(4) by (simp add: action_ok_def attempts_of_def)
    have drawn: "good H s0 (e\<lparr>st_ticks := n, st_draws := Suc (st_draws e)\<rparr>)" for n
      using good_draw[OF good_tick[OF 1(1)]] by simp
    show ?case
      using 1(1) drawn
      by (auto simp: wp_rules wp_lift_e Let_def split: sum.splits
          intro!: wp_usage_inside[OF 1(2)] good_action' new)
  qed
qed

lemma runs_get_action [runs]: "good H s0 s \<Longrightarrow> ends (good H s0) (get_ai_action H u i) s"
  unfolding get_ai_action_def wp_bnd by (erule wp_enterI) (simp add: wp_rules)

lemma stored_action_ok:
  assumes "good H s0 s"
  shows "a \<in> set (jvals (st_actions s)) \<Longrightarrow> action_ok s (sx_id a) a" "jget (st_actions s) i = Some a \<Longrightarrow> action_ok s i a"
proof -
  have ok: "actions_ok s" and wf: "distinct (jkeys (st_actions s))"
    using assms by (simp_all add: good_def store_ok_def maps_ok_def)
  show one: "jget (st_actions s) i = Some a \<Longrightarrow> action_ok s i a" for i using ok by (simp add: actions_ok_def)
  assume "a \<in> set (jvals (st_actions s))"
  then obtain k where k: "jget (st_actions s) k = Some a" using jm.vals_get[OF wf] by auto
  from one[OF this] have "sx_id a = k" by (simp add: action_ok_def)
  with one[OF k] show "action_ok s (sx_id a) a" by simp
qed

lemma claimable_action:
  assumes "next_action E current s = Some a"
  shows "a \<in> set (jvals (st_actions s))" "claimable current a"
proof -
  let ?xs = "filter (claimable current) (jvals (st_actions s))"
  from assms obtain rest where "sort_cmp (by_created E sx_created) ?xs = a # rest"
    unfolding next_action_def by (cases "sort_cmp (by_created E sx_created) ?xs") auto
  then have "a \<in> set (sort_cmp (by_created E sx_created) ?xs)" by simp
  then have "a \<in> set ?xs" by simp
  then show "a \<in> set (jvals (st_actions s))" "claimable current a" by auto
qed

lemma expire_revokes: "revoked_or_same a (expire_action H s current a)"
  unfolding expire_action_def revoked_or_same_def by (simp split: if_split) blast

lemma expire_recasts: "recasts revoked_or_same xs (map (\<lambda>(k, a). (k, expire_action H s current a)) xs)"
  unfolding recasts_def by (induction xs) (auto simp: expire_revokes)

lemma good_expired: "good H s0 s \<Longrightarrow> good H s0 (map_actions (expire_action H e current) s)"
  unfolding map_actions_def
  by (rule good_rewrite[of _ _ _ revoked_or_same]) (auto simp: expire_recasts revoked_or_same_def good_failed_action)

lemma runs_claim_action [runs]: "good H s0 s \<Longrightarrow> ends (good H s0) (claim_ai_action H) s"
proof -
  assume g: "good H s0 s"
  define t where "t = (\<lambda>c. map_actions (expire_action H (s\<lparr>st_ticks := Suc (st_ticks s)\<rparr>) c) (s\<lparr>st_ticks := Suc (st_ticks s)\<rparr>))"
  have fold: "map_actions (expire_action H (s\<lparr>st_ticks := Suc (st_ticks s)\<rparr>) c) (s\<lparr>st_ticks := Suc (st_ticks s)\<rparr>) = t c" for c
    by (simp add: t_def)
  have t: "good H s0 (t c)" for c using g unfolding t_def by (intro good_expired) simp
  have running: "action_ok x i (a\<lparr>sx_status := AiRunning, sx_attempts := Some (Suc (attempts_of a)), sx_lease := Some l, sx_updated := ts\<rparr>)"
    if "action_ok x i a" "claimable c a" for x i a l ts c
    using that by (simp add: action_ok_def claimable_def attempts_of_def)
  have step: "good H s0 (t c\<lparr>st_ticks := n, st_actions := jset (sx_id a) (a\<lparr>sx_status := AiRunning, sx_attempts := Some (Suc (attempts_of a)),
      sx_lease := Some l, sx_updated := ts\<rparr>) (st_actions (t c))\<rparr>)"
    if "next_action E d (t c) = Some a" for n a l ts c d E
    using stored_action_ok(1)[OF t claimable_action(1)[OF that]] t
    by (intro good_action') (auto intro: running claimable_action(2)[OF that])
  show ?thesis
    using t step unfolding claim_ai_action_def put_action_def Let_def
    by (auto simp: wp_rules wp_lift_e now_def date_now_def fold split: option.splits)
qed

lemma good_completed_action: "action_ok s i a \<Longrightarrow> action_ok s i (completed_action c ts a)"
  by (simp add: action_ok_def completed_action_def attempts_of_def)

lemma audit_place:
  assumes "transition_proposal_audit E uuid a rs c ts = Inr r"
  shows "\<exists>x \<in> set rs. same_place x r"
proof -
  from assms obtain b where b: "proposal_audit_boundary E uuid a rs = Inr b"
    by (auto simp: transition_proposal_audit_def bind_e_Inr_iff)
  have envelope: "with_envelope_data E x env t d = Inr r \<Longrightarrow> same_place x r" for x env t d
    by (auto simp: with_envelope_data_def Let_def bind_e_Inr_iff same_place_def)
  have next': "same_place ((bo_audit b)\<lparr>sd_updated := ts, sd_state := st\<rparr>) r \<Longrightarrow> same_place (bo_audit b) r" for st
    by (simp add: same_place_def)
  have done1: "complete_audit E uuid a b (co_result c) ts = Inr r \<Longrightarrow> same_place (bo_audit b) r"
    unfolding complete_audit_def
    by (elim bind_e_InrE) (auto simp: bind_e_Inr_iff Let_def same_place_def split: if_splits proposal_contract.splits
        dest!: envelope)
  have done2: "fail_audit E a b (co_result c) ts = Inr r \<Longrightarrow> same_place (bo_audit b) r"
    unfolding fail_audit_def
    by (elim bind_e_InrE) (auto simp: bind_e_Inr_iff Let_def same_place_def split: proposal_contract.splits dest!: envelope)
  from assms b done1 done2 have "same_place (bo_audit b) r"
    by (auto simp: transition_proposal_audit_def split: if_splits)
  then show ?thesis using boundary_audit(1)[OF b] by blast
qed

lemma found_records: "r \<in> set (concat (map (\<lambda>k. case jget m k of None \<Rightarrow> [] | Some r \<Rightarrow> [r]) ks)) \<Longrightarrow> \<exists>k. jget m k = Some r"
  by (auto split: option.splits)

lemma runs_complete_proposal:
  assumes g: "good H s0 s"
  shows "ends (good H s0) (complete_proposal H contract i c) s"
proof -
  let ?rs = "\<lambda>a. concat (map (\<lambda>k. case jget (st_records s) k of None \<Rightarrow> [] | Some r \<Rightarrow> [r]) (ai_selected_record_ids (sx_context a)))"
  have stored: "good H s0 (s\<lparr>st_ticks := n, st_actions := jset (sx_id a) (completed_action c ts a) (st_actions s),
      st_records := jset (sd_id r) r (st_records s)\<rparr>)"
    if a: "jget (st_actions s) i = Some a" and r: "transition_proposal_audit E uuid a (?rs a) c ts = Inr r" for n a ts r E uuid
  proof -
    from audit_place[OF r] obtain x where x: "x \<in> set (?rs a)" "same_place x r" ..
    from found_records[OF x(1)] x(2) obtain k where x: "jget (st_records s) k = Some x" "same_place x r" by blast
    with g have "k = sd_id r" by (simp add: good_def store_ok_def records_ok_def same_place_def)
    have act: "action_ok s (sx_id a) a" using stored_action_ok(2)[OF g a] by (simp add: action_ok_def)
    then have "good H s0 (s\<lparr>st_ticks := n, st_actions := jset (sx_id a) (completed_action c ts a) (st_actions s)\<rparr>)"
      using g good_completed_action[OF act] by (intro good_action') (simp_all add: action_ok_def completed_action_def)
    then show ?thesis using x \<open>k = sd_id r\<close> by (intro good_edit_record') simp_all
  qed
  show ?thesis
    unfolding complete_proposal_def put_action_def put_record_def lift_ai_def
    using g stored by (auto simp: wp_rules wp_lift_e completed_action_def split: option.splits sum.splits)
qed

lemma runs_complete_action [runs]: "good H s0 s \<Longrightarrow> ends (good H s0) (complete_ai_action H i c) s"
proof -
  assume g: "good H s0 s"
  have body: "body_ok H u (\<lambda>_. complete_proposal H contract i c)" for u contract
    by (simp add: body_ok_def runs_complete_proposal)
  have "good H s0 (s\<lparr>st_ticks := n, st_actions := jset (sx_id a) (completed_action c ts a) (st_actions s)\<rparr>)"
    if a: "jget (st_actions s) i = Some a" for a ts n
  proof -
    have act: "action_ok s (sx_id a) a" using stored_action_ok(2)[OF g a] by (simp add: action_ok_def)
    then show ?thesis
      using g good_completed_action[OF act] by (intro good_action') (simp_all add: action_ok_def completed_action_def)
  qed
  then show ?thesis
    unfolding complete_ai_action_def put_action_def
    using g ends_transaction[OF body g]
    by (auto simp: wp_rules completed_action_def split: option.splits)
qed

section \<open>API tokens\<close>

lemma good_tokens: "good H s0 s \<Longrightarrow> distinct (jkeys k) \<Longrightarrow> good H s0 (s\<lparr>st_tokens := k\<rparr>)"
  by (simp add: good_def store_ok_def maps_ok_def)

lemma good_token_keys: "good H s0 s \<Longrightarrow> distinct (jkeys (st_tokens s))"
  by (simp add: good_def store_ok_def maps_ok_def)

lemma map_token_keys [simp]: "jkeys (map_token h f m) = jkeys m"
  by (auto simp: map_token_def jkeys_def)

lemma runs_create_token [runs]: "good H s0 s \<Longrightarrow> ends (good H s0) (create_api_token H u n sc x) s"
proof -
  assume g: "good H s0 s"
  show ?thesis
    unfolding create_api_token_def wp_bnd
  proof (rule wp_enterI[OF g], goal_cases)
    case (1 e w)
    have draw: "good H s0 (e\<lparr>st_ticks := n, st_draws := m\<rparr>)" if "st_draws e \<le> m" for m n
      using good_draw[OF good_tick[OF 1(1)]] that by simp
    have "good H s0 (e\<lparr>st_ticks := n, st_draws := m, st_tokens := jset k t (st_tokens e)\<rparr>)" if "st_draws e \<le> m" for k t m n
      using good_tokens[OF draw[OF that] jm.wf_put[OF good_token_keys[OF 1(1)], of k t]] by simp
    then show ?case
      using 1(1) by (auto simp: wp_rules Let_def random_bytes_def)
  qed
qed

lemma runs_token_reads [runs]:
  "good H s0 s \<Longrightarrow> ends (good H s0) (list_api_tokens H u) s"
  "good H s0 s \<Longrightarrow> ends (good H s0) (revoke_api_token H u i) s"
  "good H s0 s \<Longrightarrow> ends (good H s0) (find_api_token_principal H t) s"
  using good_token_keys[of H s0 s]
  by (auto simp: list_api_tokens_def revoke_api_token_def find_api_token_principal_def date_now_def wp_rules
      split: option.splits intro!: good_tokens)

section \<open>The read model service\<close>

lemma wp_module_definition: "wp (module_definition m) Q X s =
    (case suite_module_by_id m of None \<Rightarrow> X (UnknownSuiteModule m) s | Some d \<Rightarrow> Q d s)"
  by (simp add: module_definition_def wp_lift_e split: option.split)

lemma runs_module_service [runs]:
  assumes g: "good H s0 s"
  shows "ends (good H s0) (module_capabilities m) s" "ends (good H s0) (module_record_page H u m v) s"
    "ends (good H s0) (module_record_detail H u m i) s"
proof -
  show "ends (good H s0) (module_capabilities m) s"
    using g by (simp add: module_capabilities_def wp_rules wp_module_definition split: option.split)
  show "ends (good H s0) (module_record_page H u m v) s"
    using g wp_mono[OF runs_list_page[OF g]]
    by (auto simp: module_record_page_def module_capabilities_def wp_rules wp_module_definition split: option.split)
  show "ends (good H s0) (module_record_detail H u m i) s"
    using g wp_mono[OF runs_get_record[OF g, of u i]]
    by (auto simp: module_record_detail_def wp_rules wp_module_definition split: option.split)
qed

end
