(* ===== verification/Suite_Steps.thy ===== *)
theory Suite_Steps
  imports Suite_Action_Runs
begin

text \<open>
  The workspace store as a state machine: a step is one operation called from outside, with any arguments and
  whatever its outcome, or a transaction whose body is itself made of steps. Reading operations are steps too:
  the first one of a user creates the user's workspace.
\<close>

section \<open>Steps\<close>

inductive store_step :: "suite_host \<Rightarrow> store \<Rightarrow> store \<Rightarrow> bool" for H where
  workspace: "store_step H s (snd (get_or_create_workspace H u s))"
| members: "store_step H s (snd (list_workspace_members H u s))"
| add_member: "role \<noteq> Owner \<Longrightarrow> store_step H s (snd (add_workspace_member H u v role s))"
| remove_member: "store_step H s (snd (remove_workspace_member H u v s))"
| usage: "store_step H s (snd (get_usage H u s))"
| set_plan: "store_step H s (snd (set_workspace_plan H u p s))"
| enable: "store_step H s (snd (enable_module H u m s))"
| domains: "store_step H s (snd (list_custom_domains H u s))"
| add_domain: "add_custom_domain H u n s = Some (r, t) \<Longrightarrow> store_step H s t"
| domain_status: "store_step H s (snd (set_custom_domain_status H u n st s))"
| by_domain: "store_step H s (snd (get_workspace_by_custom_domain H n s))"
| active_domains: "store_step H s (snd (list_active_custom_domains H s))"
| attach: "attach_hostname_registry g s = (r, g', t) \<Longrightarrow> store_step H s t"
| list_records: "store_step H s (snd (list_store_records H u om ot k s))"
| list_page: "store_step H s (snd (list_record_page H u v s))"
| signer: "store_step H s (snd (find_signer_session H u h s))"
| get_rec: "store_step H s (snd (get_record H u i s))"
| find_receipt: "store_step H s (snd (find_command_receipt H u ty m a k' s))"
| find_decision: "store_step H s (snd (find_approval_decision_receipt H u d s))"
| create: "store_step H s (snd (create_record H u i' s))"
| create_public: "ri_id i' = None \<or> the (ri_id i') \<notin> range (sh_uuid H) \<Longrightarrow> store_step H s (snd (create_public_record H slug i' s))"
| public_records: "store_step H s (snd (list_public_records H slug m ot k s))"
| public_event: "store_step H s (snd (record_public_event H slug m s))"
| public_workflow: "store_step H s (snd (list_public_workflow_records H slug m ty k s))"
| update_public: "store_step H s (snd (update_public_workflow_record H slug i st' od s))"
| update: "store_step H s (snd (update_record H u i p' s))"
| queue: "store_step H s (snd (queue_ai_action H u m goal od s))"
| get_action: "store_step H s (snd (get_ai_action H u i s))"
| claim: "store_step H s (snd (claim_ai_action H s))"
| complete: "store_step H s (snd (complete_ai_action H i c s))"
| create_token: "store_step H s (snd (create_api_token H u n' sc x s))"
| revoke_token: "store_step H s (snd (revoke_api_token H u i s))"
| find_token: "store_step H s (snd (find_api_token_principal H tk s))"
| service_page: "store_step H s (snd (module_record_page H u m ob s))"
| service_detail: "store_step H s (snd (module_record_detail H u m i s))"
| transaction: "(\<And>w e. (store_step H)\<^sup>*\<^sup>* e (snd (body w e))) \<Longrightarrow>
    store_step H s (snd (run_in_transaction H u (body :: suite_workspace \<Rightarrow> json suite) s))"

definition empty_store :: "registry \<Rightarrow> store" where
  "empty_store g = \<lparr>st_workspaces = [], st_members = [], st_records = [], st_actions = [], st_tokens = [], st_domains = [],
     st_registry = g, st_active = None, st_ticks = 0, st_draws = 0\<rparr>"

section \<open>Every step is good\<close>

lemma ends_iff: "ends I m s \<longleftrightarrow> I (snd (m s))"
  by (auto simp: wp_def split: prod.split sum.split)

lemmas ends_snd = ends_iff[THEN iffD1]

lemma steps_good:
  "(\<lambda>a b. store_step H a b \<and> (\<forall>s0. good H s0 a \<longrightarrow> good H s0 b))\<^sup>*\<^sup>* s t \<Longrightarrow> good H s0 s \<Longrightarrow> good H s0 t"
  by (induction rule: rtranclp_induct) auto

lemma step_good: "store_step H s t \<Longrightarrow> good H s0 s \<Longrightarrow> good H s0 t"
proof (induction arbitrary: s0 rule: store_step.induct)
  case (transaction body s u)
  have "ends (good H s1) (body (workspace_for u w e) ) e" if "good H s1 e" for s1 e w
    unfolding ends_iff using transaction.IH that by (rule steps_good)
  then have "body_ok H u body" by (simp add: body_ok_def)
  from ends_transaction[OF this transaction.prems] show ?case by (simp only: ends_iff)
next
  case (attach g s r g' t)
  then show ?case by (auto simp: attach_hostname_registry_def good_registry split: prod.splits sum.splits)
next
  case (add_domain u n s r t)
  then show ?case by (rule runs_add_domain[rotated])
qed (rule ends_snd, rule runs, assumption+)+

lemma run_good: "(store_step H)\<^sup>*\<^sup>* s t \<Longrightarrow> good H s0 s \<Longrightarrow> good H s0 t"
  by (induction rule: rtranclp_induct) (auto intro: step_good)

lemma store_ok_empty: "store_ok H (empty_store g)"
  by (simp add: store_ok_def maps_ok_def workspaces_ok_def members_ok_def records_ok_def actions_ok_def domains_ok_def
      record_ids_ok_def empty_store_def jkeys_def)

end
