(* ===== verification/Suite_Writes.thy ===== *)
theory Suite_Writes
  imports Suite_Steps
begin

text \<open>
  What a write of the workspace store does when it succeeds, and that it does nothing to the records when
  it does not: the runs of a transaction, of the quota checks and of the operations that write records.
\<close>

section \<open>Transactions and quotas\<close>

lemma wp_transaction:
  assumes outer: "\<And>e w. st_active s = None \<Longrightarrow> e = enter H u s \<Longrightarrow> base_workspace u e = Some w
      \<Longrightarrow> wp (body (workspace_for u w e)) (\<lambda>x t. Q x (t\<lparr>st_active := None\<rparr>)) (\<lambda>er t. X er (restore s t)) (e\<lparr>st_active := Some (sw_id w)\<rparr>)"
    and inner: "\<And>w. st_active s = Some (sw_id w) \<Longrightarrow> base_workspace u s = Some w \<Longrightarrow> wp (body (workspace_for u w s)) Q X s"
    and tenant: "st_active s \<noteq> None \<Longrightarrow> X CrossTenant s"
  shows "wp (run_in_transaction H u body) Q X s"
proof (cases "st_active s")
  case None
  let ?e = "enter H u s"
  let ?run = "bnd (get_or_create_workspace H u) (\<lambda>w. bnd (modifies (\<lambda>s. s\<lparr>st_active := Some (sw_id w)\<rparr>)) (\<lambda>_. body w))"
  have "wp ?run (\<lambda>x t. Q x (t\<lparr>st_active := None\<rparr>)) (\<lambda>er t. X er (restore s t)) s"
    using outer[OF None refl enter_base] by (simp add: wp_rules wp_enter)
  then show ?thesis by (simp add: wp_def run_in_transaction_def None split: prod.splits sum.splits)
next
  case (Some a)
  then show ?thesis
    using inner tenant by (auto simp: wp_def run_in_transaction_def split: option.split)
qed

text \<open>There is room under the plan for one more record, and for the object it registers.\<close>

definition quota_left :: "suite_host \<Rightarrow> suite_workspace \<Rightarrow> record_input \<Rightarrow> store \<Rightarrow> bool" where
  "quota_left H w i s \<longleftrightarrow>
     \<not> num_le (pq_records (quota_for_plan H (sw_plan w))) (num_of_int (int (length (records_of s (sw_id w)))))
     \<and> (\<exists>regs n. registrations (sh_env H) (records_of s (sw_id w)) = Inr regs
          \<and> suite_registered_object_bytes (sh_env H) (ri_module i) (ri_type i) (input_data i) = Inr n
          \<and> \<not> num_lt (pq_storage (quota_for_plan H (sw_plan w))) (num_add (sum_bytes regs) n))"

lemma wp_check_new_record:
  assumes b: "base_workspace u s = Some w" and Q: "\<And>n. quota_left H w i s \<Longrightarrow> Q () (s\<lparr>st_ticks := n\<rparr>)" and X: "\<And>e n. X e (s\<lparr>st_ticks := n\<rparr>)"
  shows "wp (check_new_record H u i x y bf) Q X s"
  unfolding check_new_record_def Let_def wp_bnd
proof (rule wp_usage_inside[OF b])
  fix us n assume us: "usage_of H w s us"
  have q: "quota_left H w i s" if "suite_registered_object_bytes (sh_env H) (ri_module i) (ri_type i) (input_data i) = Inr k"
    "\<not> num_le (us_record_limit us) (num_of_int (int (us_records us)))" "\<not> num_lt (us_storage_limit us) (num_add (us_registered us) k)" for k
    using us that by (auto simp: usage_of_def quota_left_def)
  show "wp (if bf then bnd (lift_storage (suite_registered_object_bytes (sh_env H) (ri_module i) (ri_type i) (input_data i)))
        (\<lambda>n. bnd (if num_le (us_record_limit us) (num_of_int (int (us_records us))) then throw x else ret ())
          (\<lambda>_. if num_lt (us_storage_limit us) (num_add (us_registered us) n) then throw y else ret ()))
      else bnd (if num_le (us_record_limit us) (num_of_int (int (us_records us))) then throw x else ret ())
        (\<lambda>_. bnd (lift_storage (suite_registered_object_bytes (sh_env H) (ri_module i) (ri_type i) (input_data i)))
          (\<lambda>n. if num_lt (us_storage_limit us) (num_add (us_registered us) n) then throw y else ret ()))) Q X (s\<lparr>st_ticks := n\<rparr>)"
    by (cases "suite_registered_object_bytes (sh_env H) (ri_module i) (ri_type i) (input_data i)")
      (auto simp: wp_rules lift_storage_def wp_lift_e X intro!: Q q)
qed (rule X)

section \<open>Creating a record\<close>

definition record_added :: "store \<Rightarrow> store \<Rightarrow> suite_record \<Rightarrow> bool" where
  "record_added s t r \<longleftrightarrow> jget (st_records s) (sd_id r) = None \<and> jget (st_records t) = (jget (st_records s))(sd_id r \<mapsto> r)"

definition created_by :: "suite_host \<Rightarrow> string \<Rightarrow> record_input \<Rightarrow> store \<Rightarrow> store \<Rightarrow> suite_record \<Rightarrow> bool" where
  "created_by H u i s t r \<longleftrightarrow> (\<exists>w. base_workspace u t = Some w \<and> role_can_write u t \<and> ri_module i \<in> set (sw_modules w)
     \<and> plan_allows H (sw_plan w) (ri_module i) \<and> quota_left H w i s
     \<and> r = record_from_input i (sd_id r) (sw_id w) (sd_created r) \<and> record_added s t r)"

lemma role_can_write_frame [simp]:
  "role_can_write u (s\<lparr>st_ticks := n\<rparr>) = role_can_write u s" "role_can_write u (s\<lparr>st_draws := n\<rparr>) = role_can_write u s"
  "role_can_write u (s\<lparr>st_active := a\<rparr>) = role_can_write u s" "role_can_write u (s\<lparr>st_records := r\<rparr>) = role_can_write u s"
  by (simp_all add: role_can_write_def role_in_def)

lemma quota_left_same:
  "st_records s = st_records t \<Longrightarrow> quota_left H w i s = quota_left H w i t"
  by (simp add: quota_left_def records_of_def)

lemma create_inside:
  assumes b: "base_workspace u e = Some w" and v: "sw_id v = sw_id w" "sw_modules v = sw_modules w" "sw_plan v = sw_plan w"
    and new: "jget (st_records e) (sh_uuid H (st_draws e)) = None"
    and Q1: "\<And>n. Q None (e\<lparr>st_ticks := n\<rparr>)" and X: "\<And>er n. X er (e\<lparr>st_ticks := n\<rparr>)"
    and Q2: "\<And>r t. created_by H u i e t r \<Longrightarrow> st_active t = st_active e \<Longrightarrow> Q (Some r) t"
  shows "wp (bnd (reads (role_can_write u)) (\<lambda>writer.
       if \<not> writer \<or> ri_module i \<notin> set (sw_modules v) \<or> \<not> plan_allows H (sw_plan v) (ri_module i) then ret None
       else bnd (check_new_record H u i RecordQuotaReached StorageQuotaReached True) (\<lambda>_.
            bnd (now H) (\<lambda>ts. bnd (random_uuid H) (\<lambda>rid.
            bnd (put_record (record_from_input i rid (sw_id v) ts)) (\<lambda>r. ret (Some r))))))) Q X e"
proof (cases "role_can_write u e \<and> ri_module i \<in> set (sw_modules w) \<and> plan_allows H (sw_plan w) (ri_module i)")
  case True
  have "Q (Some (record_from_input i (sh_uuid H (st_draws e)) (sw_id w) ts))
      (e\<lparr>st_ticks := n, st_draws := Suc (st_draws e), st_records := jset (sh_uuid H (st_draws e))
        (record_from_input i (sh_uuid H (st_draws e)) (sw_id w) ts) (st_records e)\<rparr>)" if "quota_left H w i e" for n ts
    using True that b new
    by (intro Q2) (auto simp: created_by_def record_added_def record_from_input_def jget_jset fun_eq_iff)
  then show ?thesis
    using True by (auto simp: v wp_rules put_record_def intro!: wp_check_new_record[OF b] X)
qed (use Q1[of "st_ticks e"] in \<open>auto simp: v wp_rules\<close>)

lemma create_record_run:
  assumes fresh: "\<And>n. st_draws s \<le> n \<Longrightarrow> jget (st_records s) (sh_uuid H n) = None"
  shows "wp (create_record H u i) (\<lambda>x t. case x of None \<Rightarrow> st_records t = st_records s | Some r \<Rightarrow> created_by H u i s t r)
     (\<lambda>_ t. st_records t = st_records s) s"
proof (cases "record_payload_bytes (sh_env H) (input_data i)")
  case (Inl er)
  then show ?thesis by (simp add: create_record_def wp_rules wp_lift_e)
next
  case (Inr k)
  have same: "created_by H u i e t r \<Longrightarrow> st_records e = st_records s \<Longrightarrow> created_by H u i s (t\<lparr>st_active := a\<rparr>) r" for e t r a
    using quota_left_same[of e s] by (auto simp: created_by_def record_added_def)
  have stay: "created_by H u i e t r \<Longrightarrow> st_records e = st_records s \<Longrightarrow> created_by H u i s t r" for e t r
    using quota_left_same[of e s] by (auto simp: created_by_def record_added_def)
  show ?thesis
    unfolding create_record_def Inr wp_bnd wp_lift_e sum.case
  proof (rule wp_transaction, goal_cases)
    case (1 e w)
    then show ?case
      using fresh[of "st_draws e"] by (intro create_inside[where w=w]) (auto simp: restore_def intro: same)
  next
    case (2 w)
    then show ?case using fresh[of "st_draws s"] by (intro create_inside[where w=w]) (auto intro: stay)
  qed simp
qed

section \<open>Editing a record\<close>

definition edited_by :: "suite_host \<Rightarrow> string \<Rightarrow> string \<Rightarrow> record_patch \<Rightarrow> store \<Rightarrow> store \<Rightarrow> suite_record \<Rightarrow> bool" where
  "edited_by H u i p s t r' \<longleftrightarrow> (\<exists>w r. base_workspace u t = Some w \<and> jget (st_records s) i = Some r \<and> sd_workspace r = sw_id w
     \<and> role_can_write u t \<and> plan_allows H (sw_plan w) (sd_module r)
     \<and> (\<exists>x. assert_suite_storage_object_update (sh_env H) (sd_module r) (sd_type r) (version_of r) (version_of r') = Inr x)
     \<and> r' = (patch_record p r)\<lparr>sd_updated := sd_updated r'\<rparr> \<and> jget (st_records t) = (jget (st_records s))(sd_id r \<mapsto> r'))"

lemma wp_write_patch_exact:
  assumes b: "base_workspace u e = Some w" and X: "\<And>er n. X er (e\<lparr>st_ticks := n\<rparr>)"
    and Q: "\<And>ts n x. assert_suite_storage_object_update (sh_env H) (sd_module r) (sd_type r) (version_of r) (version_of r') = Inr x \<Longrightarrow>
       Q (Some (r'\<lparr>sd_updated := ts\<rparr>)) (e\<lparr>st_ticks := n, st_records := jset (sd_id r') (r'\<lparr>sd_updated := ts\<rparr>) (st_records e)\<rparr>)"
  shows "wp (write_patch H u r r' full) Q X e"
proof -
  have X0: "X er e" for er using X[of er "st_ticks e"] by simp
  show ?thesis
    unfolding write_patch_def wp_bnd wp_lift_e lift_storage_def
    using X X0 Q
    by (auto simp: wp_rules wp_lift_e put_record_def split: sum.splits intro!: wp_usage_inside[OF b])
qed

lemma update_inside:
  assumes b: "base_workspace u e = Some w" and v: "sw_id v = sw_id w" "sw_plan v = sw_plan w" and Q1: "Q None e" and X: "\<And>er n. X er (e\<lparr>st_ticks := n\<rparr>)"
    and Q2: "\<And>r t. edited_by H u i p e t r \<Longrightarrow> Q (Some r) t"
  shows "wp (bnd (reads (\<lambda>s. (role_can_write u s, jget (st_records s) i))) (\<lambda>(writer, r).
       case r of
         None \<Rightarrow> ret None
       | Some r \<Rightarrow>
           if \<not> writer \<or> sd_workspace r \<noteq> sw_id v \<or> \<not> plan_allows H (sw_plan v) (sd_module r) then ret None
           else write_patch H u r (patch_record p r) StorageQuotaReached)) Q X e"
proof -
  have "Q (Some ((patch_record p r)\<lparr>sd_updated := ts\<rparr>))
      (e\<lparr>st_ticks := n, st_records := jset (sd_id r) ((patch_record p r)\<lparr>sd_updated := ts\<rparr>) (st_records e)\<rparr>)"
    if "jget (st_records e) i = Some r" "role_can_write u e" "sd_workspace r = sw_id w" "plan_allows H (sw_plan w) (sd_module r)"
      "assert_suite_storage_object_update (sh_env H) (sd_module r) (sd_type r) (version_of r) (version_of (patch_record p r)) = Inr x"
    for r ts n x
    using that b by (intro Q2) (auto simp: edited_by_def jget_jset fun_eq_iff version_of_def)
  then show ?thesis
    using Q1 by (auto simp: v wp_rules split: option.splits intro!: wp_write_patch_exact[OF b] X)
qed

lemma update_record_run:
  "wp (update_record H u i p) (\<lambda>x t. case x of None \<Rightarrow> st_records t = st_records s
       | Some r \<Rightarrow> edited_by H u i p s t r) (\<lambda>_ t. st_records t = st_records s) s"
proof -
  have same: "edited_by H u i p e t r \<Longrightarrow> st_records e = st_records s \<Longrightarrow> edited_by H u i p s (t\<lparr>st_active := a\<rparr>) r" for e t r a
    by (auto simp: edited_by_def)
  show ?thesis
    unfolding update_record_def
  proof (rule wp_transaction, goal_cases)
    case (1 e w)
    then show ?case by (intro update_inside[where w=w]) (auto simp: restore_def intro: same)
  next
    case (2 w)
    then show ?case by (intro update_inside[where w=w]) auto
  qed simp
qed

end
