(* ===== verification/Suite_Queue.thy ===== *)
theory Suite_Queue
  imports Suite_Writes
begin

text \<open>
  What claiming and completing an AI action do: a claim hands out only records the requester may read, and a
  completion changes the action and its audit record together or not at all.
\<close>

section \<open>Claiming\<close>

lemma record_map_sub: "set (jvals (record_map rs)) \<subseteq> set rs"
proof -
  have "distinct (jkeys (record_map rs)) \<and> (\<forall>k r. jget (record_map rs) k = Some r \<longrightarrow> r \<in> set rs)"
  proof (induction rs rule: rev_induct)
    case Nil
    show ?case by (simp add: record_map_def jkeys_def)
  next
    case (snoc r rs)
    then show ?case
      using jm.wf_put[of "record_map rs" "sd_id r" r] by (auto simp: record_map_def jget_jset split: if_splits)
  qed
  then show ?thesis using jm.vals_get[of "record_map rs"] by auto
qed

text \<open>The record is stored, of the action's workspace, and its requester may read it.\<close>

definition releasable :: "suite_host \<Rightarrow> ai_action \<Rightarrow> store \<Rightarrow> suite_record \<Rightarrow> bool" where
  "releasable H a s r \<longleftrightarrow> jget (st_records s) (sd_id r) = Some r \<and> sd_workspace r = sx_workspace a
     \<and> (\<exists>user w. oget (sx_context a) ''requestedByUserId'' = JStr user \<and> base_workspace user s = Some w
          \<and> sw_id w = sx_workspace a \<and> may_read (sh_env H) user (sx_workspace a) (role_in user s) r)"

lemma action_records_releasable:
  assumes ok: "store_ok H s" and r: "r \<in> set (action_records (sh_env H) a allowed s)"
  shows "releasable H a s r"
proof -
  let ?rs = "selected_records (sh_env H) a allowed s @ concat (map (bound_records (sh_env H) a s) (assistant_evidence_bindings a))"
  from r have "r \<in> set (sort_cmp (newest_first (sh_env H)) (filter (requester_reads (sh_env H) a s) (jvals (record_map ?rs))))"
    unfolding action_records_def Let_def by (rule in_set_takeD)
  then have reads: "requester_reads (sh_env H) a s r" and mem: "r \<in> set ?rs"
    using record_map_sub[of ?rs] by auto
  have keys: "distinct (jkeys (st_records s))" "\<And>i x. jget (st_records s) i = Some x \<Longrightarrow> sd_id x = i"
    using ok by (auto simp: store_ok_def maps_ok_def records_ok_def)
  have "r \<in> set (selected_records (sh_env H) a allowed s) \<Longrightarrow> r \<in> set (records_of s (sx_workspace a))"
    by (auto simp: selected_records_def Let_def dest!: in_set_takeD)
  moreover have "r \<in> set (bound_records (sh_env H) a s b) \<Longrightarrow> (\<exists>i. jget (st_records s) i = Some r) \<and> sd_workspace r = sx_workspace a" for b
    by (auto simp: bound_records_def split: json.splits option.splits if_splits)
  ultimately have "(\<exists>i. jget (st_records s) i = Some r) \<and> sd_workspace r = sx_workspace a"
    using mem jget_vals[OF keys(1)] by (auto simp: records_of_def)
  then show ?thesis
    using keys(2) reads by (auto simp: releasable_def requester_reads_def split: json.splits)
qed

text \<open>The claim of an action: what it was before and what it is now.\<close>

definition claimed_from :: "suite_host \<Rightarrow> store \<Rightarrow> store \<Rightarrow> ai_action \<Rightarrow> ai_action \<Rightarrow> bool" where
  "claimed_from H s t b a \<longleftrightarrow> jget (st_actions s) (sx_id a) = Some b \<and> jget (st_actions t) (sx_id a) = Some a
     \<and> claimable (iso_text (sh_env H) (sh_clock H (st_ticks s))) b
     \<and> sx_status a = AiRunning \<and> sx_lease a \<noteq> None \<and> attempts_of a = Suc (attempts_of b) \<and> sx_context a = sx_context b
     \<and> sx_workspace a = sx_workspace b \<and> sx_module a = sx_module b
     \<and> (\<forall>w. workspace_by_id s (sx_workspace a) = Some w \<longrightarrow> plan_allows H (sw_plan w) (sx_module a))"

lemma jget_map_actions: "jget (map (\<lambda>(k, a). (k, f a)) m) i = map_option f (jget m i)"
  by (induction m) (auto simp: jget_Cons)

lemma expire_open: "claimable c (expire_action H s d a) \<Longrightarrow> expire_action H s d a = a"
  by (auto simp: expire_action_def failed_action_def claimable_def lease_expired_def split: if_splits)

lemma expire_kept:
  assumes "claimable c (expire_action H s d a)" "workspace_by_id s (sx_workspace a) = Some w"
  shows "plan_allows H (sw_plan w) (sx_module a)"
proof (rule ccontr)
  assume no: "\<not> plan_allows H (sw_plan w) (sx_module a)"
  have "expire_action H s d a = a" using assms(1) by (rule expire_open)
  with assms(1) have "sx_status a \<in> {AiQueued, AiRunning}" by (auto simp: claimable_def lease_expired_def)
  then have "expire_action H s d a = failed_action ''Workspace entitlement revoked.'' revoked_result d a"
    using no assms(2) by (auto simp: expire_action_def)
  with assms(1) show False by (simp add: claimable_def failed_action_def lease_expired_def)
qed

lemma action_records_same:
  assumes "st_records t = st_records s" "st_members t = st_members s" "st_workspaces t = st_workspaces s"
  shows "action_records E a al t = action_records E a al s"
proof -
  have "bound_records E a t = bound_records E a s"
    by (rule ext) (unfold bound_records_def workspace_by_id_def assms, rule refl)
  moreover have "selected_records E a al t = selected_records E a al s"
    unfolding selected_records_def records_of_def assms ..
  moreover have "requester_reads E a t = requester_reads E a s"
    by (rule ext) (unfold requester_reads_def base_workspace_def role_in_def assms, rule refl)
  ultimately show ?thesis unfolding action_records_def by simp
qed

lemma length_action_records [simp]: "length (action_records E a al s) \<le> 1000"
  by (simp add: action_records_def Let_def)

lemma claim_run:
  assumes ok: "store_ok H s"
  shows "wp (claim_ai_action H) (\<lambda>x t. case x of None \<Rightarrow> True
       | Some (a, rs) \<Rightarrow> (\<exists>b. claimed_from H s t b a) \<and> length rs \<le> 1000 \<and> (\<forall>r \<in> set rs. releasable H a s r)) (\<lambda>_ _. True) s"
proof -
  let ?c = "iso_text (sh_env H) (sh_clock H (st_ticks s))"
  let ?s = "s\<lparr>st_ticks := Suc (st_ticks s)\<rparr>"
  define t where "t = map_actions (expire_action H ?s ?c) ?s"
  have frame: "st_records t = st_records s" "st_members t = st_members s" "st_workspaces t = st_workspaces s"
    by (simp_all add: t_def map_actions_def)
  have "actions_ok s" using ok by (simp add: store_ok_def)
  have found: "jget (st_actions s) (sx_id a) = Some a \<and> claimable ?c a
      \<and> (\<forall>w. workspace_by_id s (sx_workspace a) = Some w \<longrightarrow> plan_allows H (sw_plan w) (sx_module a))"
    if a: "next_action (sh_env H) ?c t = Some a" for a
  proof -
    have keys: "distinct (jkeys (st_actions t))"
      using ok by (simp add: t_def map_actions_def store_ok_def maps_ok_def jkeys_def comp_def case_prod_beta)
    from claimable_action[OF a] jget_vals[OF keys] obtain i where i: "jget (st_actions t) i = Some a" "claimable ?c a" by auto
    then obtain b where b: "jget (st_actions s) i = Some b" "a = expire_action H ?s ?c b"
      by (auto simp: t_def map_actions_def jget_map_actions)
    with i have "a = b" using expire_open by metis
    moreover have "sx_id b = i" using b \<open>actions_ok s\<close> by (simp add: actions_ok_def action_ok_def)
    moreover have "plan_allows H (sw_plan w) (sx_module b)" if "workspace_by_id s (sx_workspace b) = Some w" for w
      using expire_kept[of ?c H ?s ?c b w] i(2) b(2) that by (simp add: workspace_by_id_def)
    ultimately show ?thesis using b i by auto
  qed
  have released: "releasable H a s r" if "r \<in> set (action_records (sh_env H) a al (t\<lparr>st_ticks := n, st_actions := as\<rparr>))" for a al n as r
  proof -
    have "action_records (sh_env H) a al (t\<lparr>st_ticks := n, st_actions := as\<rparr>) = action_records (sh_env H) a al s"
      by (rule action_records_same) (simp_all add: frame)
    with that show ?thesis using action_records_releasable[OF ok] by simp
  qed
  show ?thesis
    unfolding claim_ai_action_def put_action_def Let_def
    by (auto simp: wp_rules wp_lift_e now_def date_now_def t_def[symmetric] claimed_from_def attempts_of_def
        split: option.splits dest!: found intro!: exI released)
qed

section \<open>Completing\<close>

definition contract_of :: "ai_action \<Rightarrow> proposal_contract option" where
  "contract_of a = (case contract_version (sx_context a) of JStr v \<Rightarrow> proposal_contract_of v | _ \<Rightarrow> None)"

text \<open>The action is finished, and the audit record of a proposal makes its transition with it.\<close>

definition completed_by :: "suite_host \<Rightarrow> string \<Rightarrow> completion \<Rightarrow> store \<Rightarrow> store \<Rightarrow> bool" where
  "completed_by H i c s t \<longleftrightarrow> (\<exists>a ts. jget (st_actions s) i = Some a \<and> sx_status a = AiRunning
     \<and> jget (st_actions t) = (jget (st_actions s))(i \<mapsto> completed_action c ts a)
     \<and> (case contract_of a of
          None \<Rightarrow> st_records t = st_records s
        | Some _ \<Rightarrow> \<exists>r rs. set rs \<subseteq> {x. \<exists>k. jget (st_records s) k = Some x}
            \<and> transition_proposal_audit (sh_env H) (sh_is_uuid H) a rs c ts = Inr r
            \<and> (co_completed c \<longrightarrow> (\<exists>job. validate_proposal_job (sh_env H) (sh_is_uuid H) a rs (sh_model H) = Inr job))
            \<and> jget (st_records t) = (jget (st_records s))(sd_id r \<mapsto> r)))"

lemma completed_proposalI:
  assumes "jget (st_actions s) i = Some a" "sx_status a = AiRunning" "contract_of a = Some k"
    and "jget (st_actions t) = (jget (st_actions s))(i \<mapsto> completed_action c ts a)"
    and "set rs \<subseteq> {x. \<exists>k. jget (st_records s) k = Some x}"
    and "transition_proposal_audit (sh_env H) (sh_is_uuid H) a rs c ts = Inr r"
    and "co_completed c \<longrightarrow> (\<exists>job. validate_proposal_job (sh_env H) (sh_is_uuid H) a rs (sh_model H) = Inr job)"
    and "jget (st_records t) = (jget (st_records s))(sd_id r \<mapsto> r)"
  shows "completed_by H i c s t"
  unfolding completed_by_def using assms by (intro exI[of _ a] exI[of _ ts]) (simp, blast)

definition unchanged :: "store \<Rightarrow> store \<Rightarrow> bool" where
  "unchanged s t \<longleftrightarrow> st_actions t = st_actions s \<and> st_records t = st_records s"

lemma unchanged_frame [simp]:
  "unchanged s s" "unchanged s (t\<lparr>st_ticks := n\<rparr>) = unchanged s t" "unchanged s (t\<lparr>st_active := z\<rparr>) = unchanged s t"
  "unchanged s (enter H u t) = unchanged s t" "unchanged s (restore s t)"
  by (simp_all add: unchanged_def restore_def)

lemma complete_proposal_run:
  assumes a: "jget (st_actions s) i = Some a" and id: "sx_id a = i" and contract: "contract_of a = Some k"
    and same: "unchanged s e"
    and Q1: "\<And>t. completed_by H i c s t \<Longrightarrow> Q True t" and Q2: "\<And>n. Q False (e\<lparr>st_ticks := n\<rparr>)"
    and X: "\<And>er n. X er (e\<lparr>st_ticks := n\<rparr>)"
  shows "wp (complete_proposal H k i c) Q X e"
proof -
  have X0: "X er e" "Q False e" for er using X[of er "st_ticks e"] Q2[of "st_ticks e"] by simp_all
  let ?rs = "concat (map (\<lambda>j. case jget (st_records e) j of None \<Rightarrow> [] | Some r \<Rightarrow> [r]) (ai_selected_record_ids (sx_context a)))"
  have rs: "set ?rs \<subseteq> {x. \<exists>j. jget (st_records s) j = Some x}"
    using same found_records by (auto simp: unchanged_def split: option.splits)
  have fin: "Q True (e\<lparr>st_ticks := n, st_actions := jset (sx_id a) (completed_action c ts a) (st_actions e),
      st_records := jset (sd_id r) r (st_records e)\<rparr>)"
    if "transition_proposal_audit (sh_env H) (sh_is_uuid H) a ?rs c ts = Inr r" "sx_status a = AiRunning"
      "co_completed c \<longrightarrow> (\<exists>job. validate_proposal_job (sh_env H) (sh_is_uuid H) a ?rs (sh_model H) = Inr job)" for n ts r
    using that id same
    by (intro Q1 completed_proposalI[where ts = ts and r = r, OF a _ contract _ rs]) (simp_all add: unchanged_def fun_upd_jset)
  have act: "jget (st_actions e) i = Some a" using a same by (simp add: unchanged_def)
  show ?thesis
    unfolding complete_proposal_def put_action_def put_record_def lift_ai_def wp_bnd wp_reads act option.case
    using X X0 fin
    by (auto simp: wp_rules wp_lift_e completed_action_def split: option.splits sum.splits)
qed

lemma complete_run:
  assumes ok: "store_ok H s"
  shows "wp (complete_ai_action H i c) (\<lambda>x t. if x then completed_by H i c s t else unchanged s t) (\<lambda>_ t. unchanged s t) s"
proof (cases "jget (st_actions s) i")
  case None
  then show ?thesis by (simp add: complete_ai_action_def wp_rules)
next
  case (Some a)
  have id: "sx_id a = i" using ok Some by (simp add: store_ok_def actions_ok_def action_ok_def)
  have plain: "completed_by H i c s (s\<lparr>st_ticks := n, st_actions := jset i (completed_action c ts a) (st_actions s)\<rparr>)"
    if "contract_of a = None" "sx_status a = AiRunning" for n ts
    using Some that by (auto simp: completed_by_def fun_upd_jset)
  show ?thesis
  proof (cases "contract_of a")
    case None
    then show ?thesis
      using Some plain id
      by (auto simp: complete_ai_action_def contract_of_def[symmetric] wp_rules put_action_def now_def completed_action_def)
  next
    case (Some k)
    have stay: "completed_by H i c s t \<Longrightarrow> completed_by H i c s (t\<lparr>st_active := z\<rparr>)" for t z
      by (simp add: completed_by_def cong: option.case_cong)
    define Q where "Q = (\<lambda>x t. if x then completed_by H i c s t else unchanged s t)"
    have "wp (run_in_transaction H u (\<lambda>_. complete_proposal H k i c)) Q (\<lambda>_ t. unchanged s t) s" for u
      unfolding Q_def
    proof (rule wp_transaction, goal_cases)
      case (1 e w)
      then show ?case
        by (intro complete_proposal_run[OF \<open>jget (st_actions s) i = Some a\<close> id Some]) (auto intro: stay)
    next
      case (2 w)
      then show ?case
        by (intro complete_proposal_run[OF \<open>jget (st_actions s) i = Some a\<close> id Some]) auto
    qed simp
    moreover have "Q False s" by (simp add: Q_def)
    ultimately have "wp (complete_ai_action H i c) Q (\<lambda>_ t. unchanged s t) s"
      using Some \<open>jget (st_actions s) i = Some a\<close>
      by (auto simp: complete_ai_action_def contract_of_def[symmetric] wp_rules split: option.split)
    then show ?thesis by (simp only: Q_def)
  qed
qed

end
