(* ===== verification/Suite_Paging.thy ===== *)
theory Suite_Paging
  imports Suite_Writes
begin

text \<open>
  Reading all pages of a query: a client that follows the cursors from the first page reads every
  record it may see exactly once, in the order of the pages.
\<close>

section \<open>One request\<close>

lemma list_page_inside:
  assumes "base_workspace u s = Some w" and "normalize_page_input v = Inr q"
    and "decode_page_cursor (sh_env H) (pg_cursor q) (page_fingerprint (sh_env H) u (sw_id w) q) = Inr k"
  shows "list_record_page H u v s =
    (case record_page_of (sh_env H) (take (Suc (pg_limit q)) (sort_cmp (compare_page_keys (sh_env H))
         (filter (is_after_page_cursor k) (page_candidates (sh_env H) u q w s)))) (pg_limit q) (page_fingerprint (sh_env H) u (sw_id w) q) of
       Inl e \<Rightarrow> (Inl (StorePage e), s) | Inr p \<Rightarrow> (Inr p, s))"
proof -
  have "page_candidates (sh_env H) u q (workspace_for u w s) s = page_candidates (sh_env H) u q w s"
    by (simp add: page_candidates_def sees_def)
  moreover have "get_or_create_workspace H u s = (Inr (workspace_for u w s), s)"
    using assms(1) by (simp add: get_or_create_run enter_inside base_of_def)
  ultimately show ?thesis
    using assms(2,3) by (simp add: list_record_page_def bnd_def lift_page_def Let_def split: sum.split)
qed

lemma fingerprint_cursor [simp]: "page_fingerprint E u w (q\<lparr>pg_cursor := c\<rparr>) = page_fingerprint E u w q"
  by (simp add: page_fingerprint_def page_query_text_def)

lemma candidates_cursor [simp]: "page_candidates E u (q\<lparr>pg_cursor := c\<rparr>) w s = page_candidates E u q w s"
  by (simp add: page_candidates_def matches_page_input_def)

lemma normalize_next:
  assumes "normalize_page_input (JObj input) = Inr q" "c \<noteq> []" "length c \<le> max_cursor_length"
  shows "normalize_page_input (JObj (oset ''cursor'' (JStr c) input)) = Inr (q\<lparr>pg_cursor := Some c\<rparr>)"
  using assms
  by (auto simp: normalize_page_input_def oget_oset bind_e_Inr_iff split: option.splits)

section \<open>Cursors fit\<close>

text \<open>An ISO timestamp has at most 27 characters; any bound that leaves room for the other claims will do.\<close>

definition short_timestamps :: "js_env \<Rightarrow> bool" where
  "short_timestamps E \<longleftrightarrow> (\<forall>t. length (iso_text E t) \<le> 64)"

lemma length_base64url: "length (base64url bs) = (4 * length bs + 2) div 3"
  by (induction bs rule: base64url.induct) auto

lemma length_bytes_of_hex: "length (bytes_of_hex s) = length s div 2"
  by (induction s rule: bytes_of_hex.induct) auto

lemma length_fingerprint: "page_host_ok E \<Longrightarrow> length (page_fingerprint E u w q) = 43"
  by (simp add: page_fingerprint_def page_host_ok_def sha_pattern_def length_base64url_32 length_bytes_of_hex)

lemma cursor_length:
  assumes host: "page_host_ok E" "short_timestamps E" and c: "encode_page_cursor E k (page_fingerprint E u w q) = Inr c"
  shows "c \<noteq> []" "length c \<le> max_cursor_length"
proof -
  let ?f = "page_fingerprint E u w q"
  let ?t = "json_text E (JObj [(''v'', jint 1), (''f'', JStr ?f), (''u'', JStr (pk_updated k)), (''i'', JStr (pk_id k))])"
  from c have ok: "is_canonical_timestamp E (JStr (pk_updated k))" "page_uuid (pk_id k)" and c: "c = base64url (utf8 ?t)"
    by (simp_all add: encode_page_cursor_Inr)
  note parts = ascii_plain_fingerprint[OF host(1), of u w q] ascii_plain_timestamp[OF host(1) ok(1)] ascii_plain_uuid[OF ok(2)]
  have one: "jint 1 = JNum (Fin 1)" "num_text E 1 = ''1''"
    using host by (simp_all add: jint_def num_of_int_def page_host_ok_def)
  have keys: "list_all plain_char ''v''" "list_all plain_char ''f''" "list_all plain_char ''u''" "list_all plain_char ''i''"
    by (simp_all add: plain_char_def code_def)
  have t: "?t = ''{\"v\":1,\"f\":\"'' @ ?f @ ''\",\"u\":\"'' @ pk_updated k @ ''\",\"i\":\"'' @ pk_id k @ ''\"}''"
    using parts[THEN ascii_plain_parts]
    by (simp add: one defined_entries_def json_number_def json_quote_plain keys[THEN json_quote_plain])
  have low: "ascii_plain x \<Longrightarrow> list_all (\<lambda>c. code c < 128) x" for x by (simp add: ascii_plain_def list_all_iff)
  have "list_all (\<lambda>c. code c < 128) ?t" unfolding t using parts[THEN low] by (simp add: code_def)
  then have bytes: "utf8 ?t = map code ?t" by (rule utf8_ascii)
  have "length (pk_updated k) \<le> 64"
    using ok(1) host(2) by (auto simp: is_canonical_timestamp_def short_timestamps_def split: option.splits) metis
  moreover have "length (pk_id k) = 36" using ok(2) by (simp add: page_uuid_def)
  ultimately have "length ?t \<le> 200"
    unfolding t by (simp add: length_fingerprint[OF host(1)])
  then have "length (utf8 ?t) \<le> 200" by (simp only: bytes length_map)
  then show "length c \<le> max_cursor_length" unfolding c length_base64url max_cursor_length_def by simp
  have "?t \<noteq> []" unfolding t by simp
  then show "c \<noteq> []" unfolding c base64url_eq_Nil bytes by (simp only: map_is_Nil_conv not_False_eq_True)
qed

section \<open>All pages\<close>

text \<open>The client: it asks for a page, and for the next one with the cursor it got, at most \<open>n\<close> times.\<close>

primrec read_pages :: "suite_host \<Rightarrow> string \<Rightarrow> nat \<Rightarrow> obj \<Rightarrow> record_summary list suite" where
  "read_pages H u 0 input = ret []"
| "read_pages H u (Suc n) input =
     bnd (list_record_page H u (JObj input)) (\<lambda>p.
     case rg_next p of
       None \<Rightarrow> ret (rg_records p)
     | Some c \<Rightarrow> bnd (read_pages H u n (oset ''cursor'' (JStr c) input)) (\<lambda>xs. ret (rg_records p @ xs)))"

lemma text_less_trans: "text_less a b \<Longrightarrow> text_less b c \<Longrightarrow> text_less a c"
  unfolding text_less_def
proof -
  have neg: "cmp_bytes x y < 0 \<Longrightarrow> cmp_bytes y x > 0" for x y using cmp_bytes_flip[of y x] by (simp add: sgn_if split: if_splits)
  assume "cmp_bytes (map code a) (map code b) < 0" "cmp_bytes (map code b) (map code c) < 0"
  moreover have "cmp_bytes (map code a) (map code c) \<noteq> 0"
    if "cmp_bytes (map code a) (map code b) < 0" "cmp_bytes (map code b) (map code c) < 0"
    using that neg[of "map code a" "map code b"] by (auto simp: cmp_bytes_zero)
  ultimately show "cmp_bytes (map code a) (map code c) < 0"
    using cmp_bytes_trans[of "map code a" "map code b" "map code c"] by auto
qed

lemma after_trans:
  assumes "is_after_page_cursor k r" "is_after_page_cursor (Some (key_of r)) r'"
  shows "is_after_page_cursor k r'"
  using assms by (cases k) (auto simp: is_after_page_cursor_def key_of_def intro: text_less_trans)

lemma read_pages_from:
  assumes host: "page_host_ok (sh_env H)" "short_timestamps (sh_env H)" "page_collation (sh_env H)"
    and w: "base_workspace u s = Some w"
    and rs: "page_set (sh_env H) (page_candidates (sh_env H) u q w s)" and limit: "0 < pg_limit q"
  shows "normalize_page_input (JObj input) = Inr (q\<lparr>pg_cursor := c\<rparr>)
    \<Longrightarrow> decode_page_cursor (sh_env H) c (page_fingerprint (sh_env H) u (sw_id w) q) = Inr k
    \<Longrightarrow> length (filter (is_after_page_cursor k) (page_candidates (sh_env H) u q w s)) < n * pg_limit q \<or> 0 < n
        \<and> length (filter (is_after_page_cursor k) (page_candidates (sh_env H) u q w s)) \<le> n * pg_limit q
    \<Longrightarrow> read_pages H u n input s = (Inr (map record_summary_of (sort_cmp (compare_page_keys (sh_env H))
          (filter (is_after_page_cursor k) (page_candidates (sh_env H) u q w s)))), s)"
proof (induction n arbitrary: input c k)
  case (Suc n)
  let ?E = "sh_env H"
  let ?C = "page_candidates ?E u q w s"
  let ?R = "filter (is_after_page_cursor k) ?C"
  let ?S = "sort_cmp (compare_page_keys ?E) ?R"
  let ?f = "page_fingerprint ?E u (sw_id w) q"
  note run = list_page_inside[OF w Suc.prems(1), of H k, simplified, OF Suc.prems(2)]
  show ?case
  proof (cases "pg_limit q < length ?R")
    case False
    then have "record_page_of ?E (take (Suc (pg_limit q)) ?S) (pg_limit q) ?f = Inr \<lparr>rg_records = map record_summary_of ?S, rg_next = None\<rparr>"
      by (simp add: record_page_of_def)
    then show ?thesis by (simp add: bnd_def run)
  next
    case True
    define x where "x = last (take (pg_limit q) ?S)"
    have "length ?S = length ?R" by simp
    then have take_ne: "take (pg_limit q) ?S \<noteq> []" using limit True by (metis less_zeroE list.size(3) neq0_conv take_eq_Nil)
    have x: "x \<in> set ?R" unfolding x_def using take_ne by (metis in_set_takeD last_in_set set_sort_cmp)
    then have "pageable ?E x" using rs by (simp add: page_set_def)
    then obtain c' where c': "encode_page_cursor ?E (key_of x) ?f = Inr c'"
      using length_fingerprint[OF host(1), of u "sw_id w" q] by (auto simp: encode_page_cursor_def pageable_def key_of_def)
    have page: "record_page_of ?E (take (Suc (pg_limit q)) ?S) (pg_limit q) ?f
        = Inr \<lparr>rg_records = map record_summary_of (take (pg_limit q) ?S), rg_next = Some c'\<rparr>"
      using True take_ne c' by (simp add: record_page_of_def Let_def x_def)
    note cursor = cursor_length[OF host(1,2) c']
    let ?R' = "filter (is_after_page_cursor (Some (key_of x))) ?C"
    have "is_after_page_cursor k x" using x by simp
    then have split: "?R' = filter (is_after_page_cursor (Some (key_of x))) ?R"
      by (auto intro!: filter_cong dest: after_trans)
    have rs': "page_set ?E ?R" using rs by (auto simp: page_set_def distinct_map_filter)
    have sorted: "sort_cmp (compare_page_keys ?E) ?R' = drop (pg_limit q) ?S"
      unfolding split using page_continues[OF host(3) rs' limit less_imp_le[OF True], folded x_def] .
    have "length ?R' = length ?R - pg_limit q"
      using arg_cong[OF sorted, of length] by simp
    then have "length ?R' < n * pg_limit q \<or> 0 < n \<and> length ?R' \<le> n * pg_limit q"
      using Suc.prems(3) True limit by (cases n) auto
    moreover have "normalize_page_input (JObj (oset ''cursor'' (JStr c') input)) = Inr (q\<lparr>pg_cursor := Some c'\<rparr>)"
      using normalize_next[OF Suc.prems(1) cursor] by simp
    moreover have "decode_page_cursor ?E (Some c') ?f = Inr (Some (key_of x))"
      using decode_encoded_cursor[OF host(1) ascii_plain_fingerprint[OF host(1)] c', of ?f] by simp
    ultimately have "read_pages H u n (oset ''cursor'' (JStr c') input) s
        = (Inr (map record_summary_of (drop (pg_limit q) ?S)), s)"
      using Suc.IH sorted by metis
    then show ?thesis
      by (simp add: bnd_def run page) (metis append_take_drop_id map_append)
  qed
qed simp

end
