(* ===== verification/Suite_Samples.thy ===== *)
theory Suite_Samples
  imports Suite_Queue Suite_Paging
begin

text \<open>
  A concrete host of the workspace store and a small store: they meet the guarantees the theorems ask of
  them, and the witnesses run the operations there.
\<close>

section \<open>Host\<close>

definition suite_env :: js_env where
  "suite_env = sample_env\<lparr>text_num := (\<lambda>s. if s = ''1'' then Fin 1 else NaN), iso_text := (\<lambda>n. nat_text (nat n mod 10 ^ 15))\<rparr>"

definition suite_sample :: suite_host where
  "suite_sample = \<lparr>sh_env = suite_env, sh_clock = int, sh_uuid = sample_uuid, sh_random = (\<lambda>n. [n]), sh_challenge = nat_text,
     sh_is_uuid = (\<lambda>s. s \<noteq> []), sh_url_host = (\<lambda>s. None), sh_unrestricted = True, sh_plans = [], sh_host_target = ''host'',
     sh_control_domain = None, sh_app_url = [], sh_model = ''m'', sh_default_plan = PlanScale\<rparr>"

lemma suite_env_sel [simp]:
  "sha256_hex suite_env = sample_sha" "num_text suite_env = sample_num_text" "collate suite_env = compare_utf8"
  "parse_date suite_env s = (if s = [] then None else Some (int (digits_val s)))"
  "iso_text suite_env n = nat_text (nat n mod 10 ^ 15)" "text_num suite_env ''1'' = Fin 1"
  by (simp_all add: suite_env_def)

lemma suite_sample_sel [simp]:
  "sh_env suite_sample = suite_env" "sh_clock suite_sample n = int n" "sh_uuid suite_sample = sample_uuid"
  "sh_unrestricted suite_sample" "sh_default_plan suite_sample = PlanScale" "sh_plans suite_sample = []" "sh_model suite_sample = ''m''"
  "sh_is_uuid suite_sample s \<longleftrightarrow> s \<noteq> []"
  by (simp_all add: suite_sample_def)

lemma suite_sample_uuid: "inj (sh_uuid suite_sample)"
  by (simp add: inj_def sample_uuid_inj)

lemma length_nat_text: "n < 10 ^ k \<Longrightarrow> 0 < k \<Longrightarrow> length (nat_text n) \<le> k"
proof (induction k arbitrary: n)
  case (Suc k)
  show ?case
  proof (cases "n < 10")
    case True
    then show ?thesis by (simp add: nat_text.simps[of n])
  next
    case False
    then have "0 < k" using Suc.prems by (cases k) auto
    then have "length (nat_text (n div 10)) \<le> k" using Suc by simp
    then show ?thesis using False by (simp add: nat_text.simps[of n])
  qed
qed simp

lemma suite_timestamps: "short_timestamps suite_env"
proof -
  have "length (nat_text (nat t mod 10 ^ 15)) \<le> 15" for t by (rule length_nat_text) simp_all
  then show ?thesis unfolding short_timestamps_def suite_env_sel by (meson le_trans numeral_le_iff semiring_norm)
qed

lemma ascii_nat_text: "ascii_plain (nat_text n)"
proof -
  have "is_digit c \<Longrightarrow> plain_char c \<and> code c < 128" for c by (auto simp: is_digit_def plain_char_def code_def)
  then show ?thesis using nat_text_digits[of _ n] by (auto simp: ascii_plain_def list_all_iff)
qed

lemma suite_page_host: "page_host_ok suite_env"
proof -
  have "code (char_of (49::nat)) = code (CHR ''1'')"
    by (subst code_char_of) (simp, simp add: code_def)
  then have "char_of (49::nat) = CHR ''1''" by (simp only: code_inject)
  then have "sample_num_text 1 = ''1''"
    by (simp add: sample_num_text_def nat_text.simps digit_char_def)
  then show ?thesis by (simp add: page_host_ok_def ascii_nat_text sample_sha_pattern)
qed

lemma ascii_compare:
  assumes "ascii_plain a" "ascii_plain b"
  shows "compare_utf8 a b = cmp_bytes (map code a) (map code b)"
proof -
  have "utf8 s = map code s" if "ascii_plain s" for s
    using that by (intro utf8_ascii) (simp add: ascii_plain_def list_all_iff)
  then show ?thesis using assms by (simp only: compare_utf8_def)
qed

lemma suite_page_collation: "page_collation suite_env"
  unfolding page_collation_def suite_env_sel
proof (intro conjI allI impI)
  show "collation_ok suite_env" using sample_collation unfolding collation_ok_def suite_env_sel sample_env_sel .
next
  fix a b
  assume "is_canonical_timestamp suite_env (JStr a) \<and> is_canonical_timestamp suite_env (JStr b) \<or> page_uuid a \<and> page_uuid b"
  then have "ascii_plain a" "ascii_plain b"
    using ascii_plain_timestamp[OF suite_page_host] ascii_plain_uuid by blast+
  then show "sgn (compare_utf8 a b) = sgn (cmp_bytes (map code a) (map code b))" by (simp only: ascii_compare)
qed

lemma suite_number_format: "number_format_ok suite_env"
  using sample_number_format by (simp add: number_format_ok_def)

section \<open>A workspace with two records\<close>

definition sample_workspace :: suite_workspace where
  "sample_workspace = \<lparr>sw_id = sample_uuid 0, sw_user = ''ann'', sw_name = ''My workspace'', sw_slug = ''workspace-ann'',
     sw_plan = PlanScale, sw_modules = [''crm''], sw_role = None, sw_created = ''0'', sw_updated = ''0''\<rparr>"

definition sample_contact :: "nat \<Rightarrow> suite_record" where
  "sample_contact n = \<lparr>sd_id = sample_uuid n, sd_workspace = sample_uuid 0, sd_module = ''crm'', sd_type = ''contact'',
     sd_title = ''Contact'', sd_state = ''active'', sd_data = [], sd_created = nat_text n, sd_updated = nat_text n\<rparr>"

definition sample_store :: store where
  "sample_store = (empty_store empty_registry)\<lparr>st_workspaces := [(''ann'', sample_workspace)],
     st_members := [(''ann'', \<lparr>mb_owner = ''ann'', mb_role = Owner, mb_created = ''0''\<rparr>)],
     st_records := [(sample_uuid 1, sample_contact 1), (sample_uuid 2, sample_contact 2)], st_ticks := 3, st_draws := 3\<rparr>"

lemma sample_store_sel [simp]:
  "st_workspaces sample_store = [(''ann'', sample_workspace)]"
  "st_members sample_store = [(''ann'', \<lparr>mb_owner = ''ann'', mb_role = Owner, mb_created = ''0''\<rparr>)]"
  "st_records sample_store = [(sample_uuid 1, sample_contact 1), (sample_uuid 2, sample_contact 2)]"
  "st_actions sample_store = []" "st_tokens sample_store = []" "st_domains sample_store = []" "st_active sample_store = None"
  "st_ticks sample_store = 3" "st_draws sample_store = 3"
  by (simp_all add: sample_store_def empty_store_def)

lemma sample_base [simp]: "base_workspace ''ann'' sample_store = Some sample_workspace"
  by (simp add: base_workspace_def jget_Cons)

lemma sample_store_ok: "store_ok suite_sample sample_store"
proof -
  have ids: "workspace_ids sample_store = {sample_uuid 0}"
    by (auto simp: workspace_ids_def jget_Cons sample_workspace_def)
  have "drawn suite_sample sample_store = {sample_uuid 0, sample_uuid 1, sample_uuid 2}"
    by (auto simp: drawn_def lessThan_def numeral_3_eq_3 less_Suc_eq numeral_2_eq_2)
  then show ?thesis
    by (simp add: store_ok_def maps_ok_def workspaces_ok_def members_ok_def records_ok_def actions_ok_def domains_ok_def
        record_ids_ok_def ids jkeys_def jget_Cons sample_workspace_def sample_contact_def sample_uuid_inj)
qed

end
