(* ===== verification/Suite_Properties.thy ===== *)
theory Suite_Properties
  imports Suite_Samples
begin

text \<open>
  The theorems about the workspace store: its invariant along every history, its refinement of an abstract
  map of records, what writes, claims and completions do, and that reading page by page is complete.
\<close>

section \<open>Histories\<close>

text \<open>C8: Whatever sequence of operations and transactions runs from the empty store, and however each of them
  ends, the store stays well formed: its maps are keyed by what their values say, every user belongs to one
  workspace that exists and whose owner is its owner member, workspace and record identifiers are never reused,
  every record, action and domain lies in an existing workspace, and an AI action holds a lease exactly while it
  runs and is attempted at most three times.
\<close>

theorem store_well_formed:
  assumes "inj (sh_uuid H)" and "(store_step H)\<^sup>*\<^sup>* (empty_store g) t"
  shows "store_ok H t"
  using run_good[OF assms(2) good_refl[OF assms(1) store_ok_empty]] by (rule goodD)

theorem store_well_formed_witness:
  "\<exists>t. (store_step suite_sample)\<^sup>*\<^sup>* (empty_store empty_registry) t \<and> role_in ''ann'' t = Some Owner \<and> store_ok suite_sample t"
proof -
  let ?t = "snd (get_or_create_workspace suite_sample ''ann'' (empty_store empty_registry))"
  have run: "(store_step suite_sample)\<^sup>*\<^sup>* (empty_store empty_registry) ?t"
    using store_step.workspace by (rule r_into_rtranclp)
  have "role_in ''ann'' ?t = Some Owner"
    by (simp add: get_or_create_run enter_def Let_def role_in_def base_workspace_def empty_store_def jget_jset)
  then show ?thesis using run store_well_formed[OF suite_sample_uuid run] by blast
qed

text \<open>C9: To an abstract store that only knows records by their identifier, every operation of the store looks like a
  sequence of additions of a record under an unused identifier and of edits that keep identifier, workspace,
  module, type and creation time. No operation, failed or not, removes, replaces or moves a record.
\<close>

theorem records_refine_abstract_store:
  assumes "inj (sh_uuid H)" and "store_ok H s" and "store_step H s t"
  shows "record_change\<^sup>*\<^sup>* (jget (st_records s)) (jget (st_records t))"
  using step_good[OF assms(3) good_refl[OF assms(1,2)]] by (simp add: good_def)

section \<open>Writes\<close>

text \<open>C11: Creating a record either returns a record and stores exactly that one more, under an unused identifier,
  with the given content, in the workspace of a user who may write there, in an enabled module the plan allows,
  with room left for it and its object under the plan's quotas; or it leaves every record as it was, whether it is
  refused, fails or is rolled back.
\<close>

theorem create_record_exact:
  assumes "inj (sh_uuid H)" and "store_ok H s" and "create_record H u i s = (out, t)"
  shows "case out of Inr (Some r) \<Rightarrow> created_by H u i s t r | _ \<Rightarrow> st_records t = st_records s"
proof -
  have "jget (st_records s) (sh_uuid H n) = None" if "st_draws s \<le> n" for n
    using fresh_record[OF good_refl[OF assms(1) store_ok_draw[OF assms(2) that]]] by simp
  from create_record_run[OF this, where u = u and i = i] assms(3) show ?thesis
    by (auto simp: wp_def split: sum.splits option.splits)
qed

definition sample_input :: record_input where
  "sample_input = \<lparr>ri_id = None, ri_module = ''crm'', ri_type = ''contact'', ri_title = ''New'', ri_state = None, ri_data = None\<rparr>"

lemma sample_module: "suite_module_by_id ''crm'' = Some crm_module"
  unfolding suite_module_by_id_iff by (simp add: suite_modules_def crm_module_def)

lemma sample_usage_free:
  "registrations suite_env (records_of sample_store (sample_uuid 0)) = Inr []"
  "suite_registered_object_bytes suite_env ''crm'' ''contact'' [] = Inr (Fin 0)"
  "record_payload_bytes suite_env [] = Inr 2"
  by (simp_all add: registrations_def records_of_def jvals_def sample_contact_def each_e.simps bind_e_def
      suite_storage_object_registration_def suite_registered_object_bytes_def record_payload_bytes_def Let_def
      defined_entries_def utf8_def record_payload_limit_def num_of_int_def code_def)

definition sample_inside :: store where
  "sample_inside = sample_store\<lparr>st_active := Some (sample_uuid 0)\<rparr>"

lemma sample_inside_base: "base_workspace ''ann'' sample_inside = Some sample_workspace"
  by (simp add: sample_inside_def)

lemma sample_inside_records: "records_of sample_inside i = records_of sample_store i"
  by (simp add: sample_inside_def records_of_def)

lemma sample_enter: "get_or_create_workspace suite_sample ''ann'' sample_store
    = (Inr (workspace_for ''ann'' sample_workspace sample_store), sample_store)"
  by (simp add: get_or_create_run enter_inside base_of_def)

lemma sample_allowed: "plan_allows suite_sample p ''crm''" "role_can_write ''ann'' sample_store" "role_can_write ''ann'' sample_inside"
  by (simp_all add: plan_allows_def sample_module role_can_write_def role_in_def sample_inside_def jget_Cons)

lemma sample_used:
  "\<exists>us. get_usage suite_sample ''ann'' sample_inside = (Inr us, sample_inside\<lparr>st_ticks := 5\<rparr>) \<and> us_record_limit us = num_of_int 500000
      \<and> us_records us = 2 \<and> us_storage_limit us = Fin 0 \<and> us_registered us = Fin 0"
proof -
  have quota: "quota_for_plan suite_sample PlanScale = \<lparr>pq_records = num_of_int 500000, pq_ai_actions = num_of_int 10000, pq_storage = Fin 0\<rparr>"
    by (simp add: quota_for_plan_def storage_gb_for_plan_def suite_plan_quota_def plan_quotas_def num_of_int_def first_such_def round64_def)
  show ?thesis
    by (simp add: get_usage_def bnd_def get_or_create_run enter_inside sample_inside_base base_of_def now_def lift_storage_def
        lift_e_def sample_usage_free sample_inside_records sample_workspace_def quota Let_def sum_bytes_def)
      (simp add: sample_inside_def records_of_def sample_contact_def jvals_def)
qed

lemma sample_checked: "check_new_record suite_sample ''ann'' sample_input x y True sample_inside = (Inr (), sample_inside\<lparr>st_ticks := 5\<rparr>)"
  using sample_used
  by (auto simp: check_new_record_def bnd_def sample_input_def input_data_def sample_usage_free lift_storage_def lift_e_def
      num_of_int_def round64_def Let_def)

lemma sample_ids_free: "st_draws sample_store \<le> n \<Longrightarrow> jget (st_records sample_store) (sh_uuid suite_sample n) = None"
  by (auto simp: jget_Cons sample_uuid_inj)

lemma sample_created:
  "\<exists>r t. create_record suite_sample ''ann'' sample_input sample_store = (Inr (Some r), t) \<and> sd_title r = ''New''"
proof -
  have fields: "sw_id sample_workspace = sample_uuid 0" "sw_modules sample_workspace = [''crm'']" "ri_module sample_input = ''crm''"
    by (simp_all add: sample_workspace_def sample_input_def)
  have data: "record_payload_bytes suite_env (input_data sample_input) = Inr 2"
    by (simp add: sample_input_def input_data_def sample_usage_free)
  show ?thesis
    by (simp add: create_record_def run_in_transaction_def bnd_def sample_enter fields data lift_e_def sample_allowed sample_inside_def[symmetric]
        sample_checked now_def random_uuid_def put_record_def record_from_input_def)
      (simp add: sample_input_def)
qed

theorem create_record_exact_witness:
  "\<exists>r t. create_record suite_sample ''ann'' sample_input sample_store = (Inr (Some r), t)
     \<and> sd_title r = ''New'' \<and> created_by suite_sample ''ann'' sample_input sample_store t r"
  using sample_created create_record_exact[OF suite_sample_uuid sample_store_ok] by fastforce

theorem records_refine_abstract_store_witness:
  "\<exists>t. store_step suite_sample sample_store t \<and> st_records t \<noteq> st_records sample_store
     \<and> record_change\<^sup>*\<^sup>* (jget (st_records sample_store)) (jget (st_records t))"
proof -
  obtain r t where t: "create_record suite_sample ''ann'' sample_input sample_store = (Inr (Some r), t)"
    using sample_created by blast
  have step: "store_step suite_sample sample_store t"
    using store_step.create[of suite_sample sample_store "''ann''" sample_input] t by simp
  have "created_by suite_sample ''ann'' sample_input sample_store t r"
    using create_record_run[OF sample_ids_free, of "''ann''" sample_input] t by (simp add: wp_def del: sample_store_sel)
  then have "jget (st_records t) (sd_id r) \<noteq> None" "jget (st_records sample_store) (sd_id r) = None"
    by (auto simp: created_by_def record_added_def simp del: sample_store_sel)
  then have "st_records t \<noteq> st_records sample_store" by metis
  then show ?thesis using step records_refine_abstract_store[OF suite_sample_uuid sample_store_ok step] by blast
qed

text \<open>C12: Editing a record either returns it and stores exactly that one in place of the old: the patch applied to the
  old record of the user's own workspace, of a module the plan allows, by a user who may write, its retained
  object and its identity kept; or it leaves every record as it was.
\<close>

theorem update_record_exact:
  assumes "update_record H u i p s = (out, t)"
  shows "case out of Inr (Some r) \<Rightarrow> edited_by H u i p s t r | _ \<Rightarrow> st_records t = st_records s"
  using update_record_run[of H u i p s] assms by (auto simp: wp_def split: sum.splits option.splits)

definition sample_patch :: record_patch where
  "sample_patch = \<lparr>rp_title = Some ''Renamed'', rp_state = None, rp_data = None\<rparr>"

theorem update_record_exact_witness:
  "\<exists>r t. update_record suite_sample ''ann'' (sample_uuid 1) sample_patch sample_store = (Inr (Some r), t)
     \<and> sd_title r = ''Renamed'' \<and> edited_by suite_sample ''ann'' (sample_uuid 1) sample_patch sample_store t r"
proof -
  have fields: "sw_id sample_workspace = sample_uuid 0" "sd_workspace (sample_contact n) = sample_uuid 0" "sd_module (sample_contact n) = ''crm''"
    "sd_type (sample_contact n) = ''contact''" "sd_data (patch_record sample_patch (sample_contact n)) = []"
    "sd_title (patch_record sample_patch (sample_contact n)) = ''Renamed''" for n
    by (simp_all add: sample_workspace_def sample_contact_def patch_record_def sample_patch_def)
  have stored: "jget (st_records sample_inside) (sample_uuid 1) = Some (sample_contact 1)"
    "jget (st_records sample_store) (sample_uuid 1) = Some (sample_contact 1)"
    by (simp_all add: sample_inside_def jget_Cons)
  have object: "assert_suite_storage_object_update suite_env ''crm'' ''contact'' (version_of r) (version_of r') = Inr (Fin 0, Fin 0)" for r r'
    by (simp add: assert_suite_storage_object_update_def suite_storage_object_registration_def)
  have "\<exists>r t. update_record suite_sample ''ann'' (sample_uuid 1) sample_patch sample_store = (Inr (Some r), t) \<and> sd_title r = ''Renamed''"
    using sample_used
    by (auto simp: update_record_def run_in_transaction_def bnd_def sample_enter fields sample_inside_def[symmetric] sample_allowed stored
        write_patch_def sample_usage_free lift_e_def lift_storage_def object now_def put_record_def round64_def num_sub_def neg_num_def simp del: One_nat_def sample_store_sel(3))
  then show ?thesis using update_record_exact by fastforce
qed

section \<open>AI actions\<close>

text \<open>C10: An AI action is handed to a worker only out of the queue or after its lease ran out, at most three times,
  running under a new lease, while the plan of its workspace still allows its module; with it come at most a
  thousand records, each of them stored in the action's own workspace and readable, by the rules of record
  visibility, by the user who asked for the action and who still belongs to that workspace.
\<close>

theorem claimed_records_authorized:
  assumes "store_ok H s" and "claim_ai_action H s = (Inr (Some (a, rs)), t)"
  shows "(\<exists>b. claimed_from H s t b a) \<and> attempts_of a \<le> 3 \<and> length rs \<le> 1000 \<and> (\<forall>r \<in> set rs. releasable H a s r)"
proof -
  from claim_run[OF assms(1)] assms(2) have *: "\<exists>b. claimed_from H s t b a" "length rs \<le> 1000" "\<forall>r \<in> set rs. releasable H a s r"
    by (simp_all add: wp_def)
  moreover from *(1) have "attempts_of a \<le> 3" by (auto simp: claimed_from_def claimable_def)
  ultimately show ?thesis by blast
qed

definition sample_action :: "ai_status \<Rightarrow> ai_action" where
  "sample_action st = \<lparr>sx_id = ''act'', sx_workspace = sample_uuid 0, sx_module = ''crm'', sx_goal = ''Summarize'',
     sx_context = [(''requestedByUserId'', JStr ''ann''), (''evidenceIds'', JArr [JStr (sample_uuid 1)])], sx_status = st,
     sx_result = None, sx_attempts = (if st = AiRunning then Some 1 else None), sx_lease = (if st = AiRunning then Some ''9'' else None),
     sx_error = None, sx_created = ''2'', sx_updated = ''2''\<rparr>"

definition sample_queue :: "ai_status \<Rightarrow> store" where
  "sample_queue st = sample_store\<lparr>st_actions := jset (sx_id (sample_action st)) (sample_action st) (st_actions sample_store)\<rparr>"

lemma sample_queue_ok: "st \<in> {AiQueued, AiRunning} \<Longrightarrow> store_ok suite_sample (sample_queue st)"
  unfolding sample_queue_def
  by (rule store_ok_action[OF sample_store_ok])
    (auto simp: action_ok_def sample_action_def attempts_of_def workspace_ids_def jget_Cons sample_workspace_def)

lemma sample_queue_actions: "st_actions (sample_queue st) = [(''act'', sample_action st)]"
  by (simp add: sample_queue_def jset_def sample_action_def)

lemma sample_kept: "expire_action suite_sample (sample_queue AiQueued\<lparr>st_ticks := n\<rparr>) c (sample_action AiQueued) = sample_action AiQueued"
proof -
  have "workspace_by_id (sample_queue AiQueued\<lparr>st_ticks := n\<rparr>) (sample_uuid 0) = Some sample_workspace"
    by (simp add: workspace_by_id_def sample_queue_def jvals_def first_such_def sample_workspace_def)
  then show ?thesis
    by (simp add: expire_action_def sample_action_def sample_workspace_def plan_allows_def sample_module lease_expired_def)
qed

lemma sample_next: "next_action E c (sample_queue AiQueued\<lparr>st_ticks := n, st_actions := [(''act'', sample_action AiQueued)]\<rparr>)
    = Some (sample_action AiQueued)"
  by (simp add: next_action_def jvals_def claimable_def sample_action_def attempts_of_def sort_cmp_def)

lemma sample_scopes: "suite_ai_read_scopes (sx_module (sample_action st)) b = Some [''crm'', ''inbox'']"
  by (simp add: suite_ai_read_scopes_def sample_action_def ai_read_scopes_def cross_tool_modules_def)

lemma sample_owner_reads: "may_read suite_env ''ann'' (sample_uuid 0) (Some Owner) (sample_contact n)"
proof -
  have "trim ''ann'' \<noteq> []" "trim (sample_uuid 0) \<noteq> []" by code_simp+
  then show ?thesis
    by (simp add: may_read_def can_read_suite_record_def record_target_def sample_contact_def role_name_def privileged_roles_def
        is_non_empty_string_def)
qed

lemma sample_released:
  assumes "sx_context a = sx_context (sample_action st)" "sx_workspace a = sample_uuid 0" "sx_module a = ''crm''"
    and "st_records s = st_records sample_store" "st_members s = st_members sample_store" "st_workspaces s = st_workspaces sample_store"
  shows "action_records suite_env a [''crm'', ''inbox''] s = [sample_contact 1]"
proof -
  have ids: "ai_selected_record_ids (sx_context a) = [sample_uuid 1]" "ai_selected_record_ids (sx_context (sample_action st)) = [sample_uuid 1]"
    by (simp_all add: assms sample_action_def ai_selected_record_ids_def json_strings_def text_at_def legacy_selection_key_def
        contract_version_def uniq_def)
  have "selected_records suite_env a [''crm'', ''inbox''] s = [sample_contact 1]"
    by (simp add: selected_records_def ids records_of_def assms jvals_def Let_def)
      (simp add: sample_contact_def sort_cmp_def sample_uuid_inj)
  moreover have "assistant_evidence_bindings a = []" by (simp add: assistant_evidence_bindings_def assms)
  moreover have "requester_reads suite_env a s (sample_contact n)" for n
    using sample_owner_reads
    by (simp add: requester_reads_def assms(1))
      (simp add: sample_action_def sample_workspace_def assms base_workspace_def role_in_def jget_Cons)
  ultimately show ?thesis
    by (simp add: action_records_def record_map_def jset_def jvals_def sort_cmp_def)
qed

theorem claimed_records_authorized_witness:
  "\<exists>a t. claim_ai_action suite_sample (sample_queue AiQueued) = (Inr (Some (a, [sample_contact 1])), t)
     \<and> sx_id a = ''act'' \<and> attempts_of a = 1 \<and> releasable suite_sample a (sample_queue AiQueued) (sample_contact 1)"
proof -
  have "\<exists>a t. claim_ai_action suite_sample (sample_queue AiQueued) = (Inr (Some (a, [sample_contact 1])), t) \<and> sx_id a = ''act''
      \<and> attempts_of a = 1"
    by (simp add: claim_ai_action_def bnd_def now_def date_now_def map_actions_def sample_queue_actions sample_kept sample_next put_action_def
        sample_scopes Let_def)
      (simp add: sample_released[of _ AiQueued] sample_action_def sample_queue_def attempts_of_def)
  then show ?thesis
    using claimed_records_authorized[OF sample_queue_ok] by fastforce
qed

text \<open>C13: Reporting the result of an AI action either finishes the running action with that result and, when the action
  is a proposal, moves its audit record in the same step, after the authorized evidence was checked again; or, when
  it is refused, fails or is rolled back, it changes neither any action nor any record.
\<close>

theorem completion_all_or_nothing:
  assumes "store_ok H s" and "complete_ai_action H i c s = (out, t)"
  shows "if out = Inr True then completed_by H i c s t else unchanged s t"
  using complete_run[OF assms(1), of i c] assms(2) by (auto simp: wp_def split: sum.splits)

theorem completion_all_or_nothing_witness:
  "\<exists>t. complete_ai_action suite_sample ''act'' \<lparr>co_completed = True, co_result = []\<rparr> (sample_queue AiRunning) = (Inr True, t)
     \<and> completed_by suite_sample ''act'' \<lparr>co_completed = True, co_result = []\<rparr> (sample_queue AiRunning) t"
proof -
  have found: "jget (st_actions (sample_queue AiRunning)) ''act'' = Some (sample_action AiRunning)"
    by (simp add: sample_queue_actions jget_Cons)
  have plain: "contract_version (sx_context (sample_action AiRunning)) = JUndef" "sx_status (sample_action AiRunning) = AiRunning"
    by (simp_all add: contract_version_def sample_action_def)
  have "\<exists>t. complete_ai_action suite_sample ''act'' \<lparr>co_completed = True, co_result = []\<rparr> (sample_queue AiRunning) = (Inr True, t)"
    by (simp add: complete_ai_action_def bnd_def found plain now_def put_action_def)
  then show ?thesis using completion_all_or_nothing[OF sample_queue_ok] by fastforce
qed

section \<open>Pages\<close>

text \<open>C14: A client that reads page after page, following each page's cursor, gets every record that matches its
  query and that it may see exactly once, newest first and without a gap, within as many requests as the
  number of records and the page size ask for; reading changes nothing.
\<close>

theorem read_pages_complete:
  assumes "page_host_ok (sh_env H)" and "short_timestamps (sh_env H)" and "page_collation (sh_env H)"
    and "base_workspace u s = Some w" and "normalize_page_input (JObj input) = Inr q" and "pg_cursor q = None"
    and "page_set (sh_env H) (page_candidates (sh_env H) u q w s)"
    and "0 < n" and "length (page_candidates (sh_env H) u q w s) \<le> n * pg_limit q"
  shows "\<exists>rs. read_pages H u n input s = (Inr (map record_summary_of rs), s) \<and> mset rs = mset (page_candidates (sh_env H) u q w s)
    \<and> sorted_wrt (\<lambda>a b. compare_page_keys (sh_env H) a b < 0) rs"
proof -
  have "0 < pg_limit q"
    using assms(5) by (auto simp: normalize_page_input_def bind_e_Inr_iff page_limit_of_def split: option.splits json.splits num.splits if_splits)
  moreover have "q = q\<lparr>pg_cursor := None\<rparr>" using assms(6) by simp
  ultimately have "read_pages H u n input s = (Inr (map record_summary_of (sort_cmp (compare_page_keys (sh_env H))
      (filter (is_after_page_cursor None) (page_candidates (sh_env H) u q w s)))), s)"
    using assms by (intro read_pages_from[where c = None]) (simp_all add: decode_page_cursor_def is_after_page_cursor_def)
  moreover have "filter (is_after_page_cursor None) rs = rs" for rs by (simp add: is_after_page_cursor_def)
  ultimately show ?thesis
    using page_order_strict[OF assms(3,7)] by (intro exI conjI) simp_all
qed

definition sample_page_input :: obj where
  "sample_page_input = [(''moduleId'', JStr ''crm''), (''limit'', jint 1)]"

definition sample_query :: page_query where
  "sample_query = \<lparr>pg_module = ''crm'', pg_type = None, pg_state = None, pg_search = None, pg_limit = 1, pg_cursor = None\<rparr>"

lemma sample_normalized: "normalize_page_input (JObj sample_page_input) = Inr sample_query"
proof -
  have "trim ''crm'' = ''crm''" by (simp add: trim_def is_ws_def code_def)
  moreover have "is_safe_integer (Fin 1)" using is_safe_integer_int[of 1] by (simp add: num_of_int_def max_safe_def)
  ultimately show ?thesis
    by (simp add: normalize_page_input_def sample_page_input_def page_limit_of_def jint_def num_of_int_def page_max_limit_def
        normalized_filter_def max_filter_length_def sample_query_def)
qed

lemma sample_candidates: "page_candidates suite_env ''ann'' sample_query sample_workspace sample_store = [sample_contact 1, sample_contact 2]"
proof -
  have "records_of sample_store (sample_uuid 0) = [sample_contact 1, sample_contact 2]"
    by (simp add: records_of_def jvals_def) (simp add: sample_contact_def)
  moreover have "sees suite_env ''ann'' sample_workspace sample_store (sample_contact n)" for n
    using sample_owner_reads by (simp add: sees_def role_in_def jget_Cons sample_workspace_def)
  moreover have "matches_page_input sample_query (sample_contact n)" for n
    by (simp add: matches_page_input_def sample_query_def sample_contact_def)
  ultimately show ?thesis by (simp add: page_candidates_def sample_workspace_def)
qed

lemma sample_page_set: "page_set suite_env [sample_contact 1, sample_contact 2]"
proof -
  have "sample_uuid 1 = ''00000000-0000-4000-8000-000000000001''" "sample_uuid 2 = ''00000000-0000-4000-8000-000000000002''"
    by code_simp+
  then have "page_uuid (sample_uuid 1)" "page_uuid (sample_uuid 2)"
    by (simp_all add: page_uuid_def upt_rec is_lower_hex_def is_digit_def code_def)
  moreover have "nat_text 1 \<noteq> []" "nat_text 2 \<noteq> []" by simp_all
  ultimately show ?thesis
    by (simp add: page_set_def pageable_def sample_contact_def is_canonical_timestamp_def sample_uuid_inj)
qed

theorem read_pages_complete_witness:
  "\<exists>rs. read_pages suite_sample ''ann'' 2 sample_page_input sample_store = (Inr (map record_summary_of rs), sample_store)
     \<and> mset rs = {#sample_contact 1, sample_contact 2#}"
proof -
  note run = read_pages_complete[of suite_sample "''ann''" sample_store sample_workspace sample_page_input sample_query 2,
      unfolded suite_sample_sel sample_candidates, OF suite_page_host suite_timestamps suite_page_collation sample_base
        sample_normalized _ sample_page_set]
  have "pg_cursor sample_query = None" "(0::nat) < 2" "length [sample_contact 1, sample_contact 2] \<le> 2 * pg_limit sample_query"
    by (simp_all add: sample_query_def)
  from run[OF this] show ?thesis by (auto simp del: One_nat_def)
qed

end
