(* ===== verification/Ai_Result_Properties.thy ===== *)
theory Ai_Result_Properties
  imports Ai_Results
begin

text \<open>
  What the result contract promises: a result changes nothing but the audit record it belongs to, which
  stays a proposal, and a job runs only on the evidence that was authorized, unchanged. The witnesses run
  the contract on a concrete action of the extended contract.
\<close>

section \<open>Evidence\<close>

text \<open>A stored record is still what a binding of the given contract names.\<close>

definition evidence_current :: "js_env \<Rightarrow> proposal_contract \<Rightarrow> evidence_binding \<Rightarrow> suite_record \<Rightarrow> bool" where
  "evidence_current E c b r \<longleftrightarrow> sd_id r = bd_record b \<and> sd_module r = bd_module b \<and> sd_type r = bd_type b
     \<and> (case c of
          ExtendedProposal \<Rightarrow> normalized_record_version r = Some (bd_version b) \<and> digest E (suite_record_json r) = Inr (bd_hash b)
        | AdditiveProposal \<Rightarrow>
            if sd_module r \<in> set additive_module_ids
            then (\<exists>env. additive_envelope E r = Inr env \<and> en_version env = bd_version b \<and> en_hash env = bd_hash b)
            else normalized_record_version r = Some (bd_version b)
                 \<and> digest E (evidence_snapshot r (Some (bd_version b))) = Inr (bd_hash b))"

lemma snapshot_hash_Inr: "snapshot_hash E v = Inr h \<longleftrightarrow> digest E v = Inr h"
  by (auto simp: snapshot_hash_def split: sum.splits)

lemma check_additive_binding_current:
  assumes "check_additive_binding E a rs b = Inr r"
  shows "r \<in> set rs \<and> sd_workspace r = sx_workspace a \<and> evidence_current E AdditiveProposal b r"
proof -
  from assms obtain q where q: "jget (record_map rs) (bd_record b) = Some q"
    by (auto simp: check_additive_binding_def split: option.splits)
  note found = record_map_get[OF q]
  show ?thesis
  proof (cases "sd_module q \<in> set additive_module_ids")
    case True
    with assms q found show ?thesis
      by (auto simp: check_additive_binding_def evidence_current_def bind_e_Inr_iff split: if_splits)
  next
    case False
    with assms q found show ?thesis
      by (auto simp: check_additive_binding_def evidence_current_def bind_e_Inr_iff snapshot_hash_Inr split: if_splits)
  qed
qed

lemma check_extended_binding_current:
  assumes "check_extended_binding E a rs b = Inr r"
  shows "r \<in> set rs \<and> sd_workspace r = sx_workspace a \<and> evidence_current E ExtendedProposal b r"
proof -
  from assms obtain q where q: "jget (record_map rs) (bd_record b) = Some q"
    by (auto simp: check_extended_binding_def split: option.splits)
  from assms q record_map_get[OF q] show ?thesis
    by (auto simp: check_extended_binding_def evidence_current_def bind_e_Inr_iff snapshot_hash_Inr split: if_splits)
qed

text \<open>A stored record is still the target an extended action was authorized for.\<close>

definition target_current :: "js_env \<Rightarrow> ai_action \<Rightarrow> boundary \<Rightarrow> suite_record \<Rightarrow> bool" where
  "target_current E a b r \<longleftrightarrow> bo_version b = ExtendedProposal \<and> bo_target b = Some (sd_id r) \<and> sd_module r = sx_module a
     \<and> strict_eq (case normalized_record_version r of None \<Rightarrow> JUndef | Some n \<Rightarrow> JNum n) (oget (sx_context a) ''targetVersion'')
     \<and> (\<exists>h. digest E (suite_record_json r) = Inr h \<and> oget (sx_context a) ''targetSnapshotHash'' = JStr h)"

lemma check_extended_target_current:
  assumes "check_extended_target E a rs t = Inr r" and "bo_version b = ExtendedProposal" and "bo_target b = Some t"
  shows "r \<in> set rs \<and> sd_workspace r = sx_workspace a \<and> target_current E a b r"
proof -
  from assms(1) obtain q where q: "jget (record_map rs) t = Some q"
    by (auto simp: check_extended_target_def split: option.splits)
  from assms q record_map_get[OF q] show ?thesis
    by (auto simp: check_extended_target_def target_current_def bind_e_Inr_iff snapshot_hash_Inr split: if_splits)
qed

text \<open>Each record that is found is bound, and each binding finds a record.\<close>

lemma each_current:
  assumes "each_e f bs = Inr ms" and "\<And>bd r. f bd = Inr r \<Longrightarrow> r \<in> set rs \<and> sd_workspace r = sx_workspace a \<and> evidence_current E c bd r"
  shows "set ms \<subseteq> set rs \<and> (\<forall>m \<in> set ms. sd_workspace m = sx_workspace a \<and> (\<exists>bd \<in> set bs. evidence_current E c bd m))
    \<and> (\<forall>bd \<in> set bs. \<exists>m \<in> set ms. evidence_current E c bd m)"
  using each_e_set_back[OF assms(1)] each_e_Inr_set[OF assms(1)] assms(2) by (metis subsetI)

lemma model_records_current:
  assumes "model_records E a rs b = Inr ms"
  shows "set ms \<subseteq> set rs \<and> (\<forall>m \<in> set ms. sd_workspace m = sx_workspace a
        \<and> ((\<exists>bd \<in> set (bo_bindings b). evidence_current E (bo_version b) bd m) \<or> target_current E a b m))
    \<and> (\<forall>bd \<in> set (bo_bindings b). \<exists>m \<in> set ms. evidence_current E (bo_version b) bd m)
    \<and> (\<forall>t. bo_version b = ExtendedProposal \<longrightarrow> bo_target b = Some t \<longrightarrow> t \<noteq> [] \<longrightarrow> (\<exists>m \<in> set ms. target_current E a b m))"
proof (cases "bo_version b")
  case AdditiveProposal
  with assms have each: "each_e (check_additive_binding E a rs) (bo_bindings b) = Inr ms"
    by (simp add: model_records_def)
  from each_current[OF each check_additive_binding_current] AdditiveProposal show ?thesis by simp
next
  case ExtendedProposal
  with assms obtain found where each: "each_e (check_extended_binding E a rs) (bo_bindings b) = Inr found"
    and rest: "(case bo_target b of None \<Rightarrow> Inr found
       | Some t \<Rightarrow> if t = [] then Inr found else bind_e (check_extended_target E a rs t) (\<lambda>r. Inr (r # found))) = Inr ms"
    by (auto simp: model_records_def elim: bind_e_InrE)
  note found = each_current[OF each check_extended_binding_current]
  show ?thesis
  proof (cases "bo_target b = None \<or> bo_target b = Some []")
    case True
    with rest have "ms = found" by auto
    with found True ExtendedProposal show ?thesis by auto
  next
    case False
    with rest obtain t r where t: "bo_target b = Some t" "check_extended_target E a rs t = Inr r" "ms = r # found"
      by (auto simp: bind_e_Inr_iff split: option.splits if_splits)
    with check_extended_target_current[OF t(2) ExtendedProposal t(1)] found ExtendedProposal show ?thesis by auto
  qed
qed

text \<open>De-duplication by identifier keeps every record of a list of records with unique identifiers.\<close>

lemma record_map_keys: "set (jkeys (record_map rs)) = sd_id ` set rs"
proof -
  have "set (jkeys (fold (\<lambda>r. jset (sd_id r) r) rs m)) = set (jkeys m) \<union> sd_id ` set rs" for m
  proof (induction rs arbitrary: m)
    case (Cons x xs)
    then show ?case by (auto simp: jkeys_def jset_def dom_update)
  qed simp
  then show ?thesis by (simp add: record_map_def jkeys_def)
qed

lemma record_map_values:
  assumes "set ms \<subseteq> set rs" "distinct (map sd_id rs)"
  shows "set (jvals (record_map ms)) = set ms"
proof -
  have wf: "distinct (jkeys (fold (\<lambda>r. jset (sd_id r) r) rs m))" if "distinct (jkeys m)" for rs m
    using that by (induction rs arbitrary: m) (simp_all add: jm.wf_put)
  have wf_ms: "distinct (jkeys (record_map ms))"
    unfolding record_map_def by (rule wf) (simp add: jkeys_def)
  have sub: "set (jvals (record_map ms)) \<subseteq> set ms"
    using jm.vals_get[OF wf_ms] record_map_get by blast
  moreover have "m \<in> set (jvals (record_map ms))" if m: "m \<in> set ms" for m
  proof -
    have "sd_id m \<in> set (jkeys (record_map ms))" using m by (simp add: record_map_keys)
    then obtain r where r: "jget (record_map ms) (sd_id m) = Some r"
      unfolding jkeys_def jget_def by (metis map_of_eq_None_iff not_None_eq set_map)
    from record_map_get[OF r] have "r \<in> set ms" "sd_id r = sd_id m" by auto
    then have "r = m" using assms m by (auto simp: distinct_map dest: inj_onD)
    with r show ?thesis by (auto dest: jget_in_vals)
  qed
  ultimately show ?thesis by blast
qed

section \<open>A concrete proposal\<close>

definition sample_source_record :: suite_record where
  "sample_source_record = \<lparr>sd_id = ''source-1'', sd_workspace = ''w'', sd_module = ''events'', sd_type = ''event'',
     sd_title = ''Launch'', sd_state = ''active'', sd_data = [(''seats'', jint 40)], sd_created = ''1'', sd_updated = ''2''\<rparr>"

definition sample_source_binding :: evidence_binding where
  "sample_source_binding = \<lparr>bd_record = ''source-1'', bd_module = ''events'', bd_type = ''event'', bd_version = Fin 1,
     bd_hash = (case digest sample_env (suite_record_json sample_source_record) of Inr h \<Rightarrow> h | Inl _ \<Rightarrow> [])\<rparr>"

definition sample_proposal_action :: ai_action where
  "sample_proposal_action = \<lparr>sx_id = ''action-1'', sx_workspace = ''w'', sx_module = ''events'', sx_goal = ''Plan'',
     sx_context = [(''resultContract'', JObj [(''version'', JStr (proposal_version ExtendedProposal))]),
       (''evidenceIds'', JArr [JStr ''source-1'']), (''aiAuditRecordId'', JStr ''audit-1''), (''requestedModelId'', JStr ''m''),
       (''modelPolicyId'', JStr ''m''), (''evidenceBindings'', JArr [binding_json ExtendedProposal sample_source_binding]),
       (''actionId'', JStr ''plan''), (''promptId'', JStr ''p''), (''promptVersion'', JStr ''1'')],
     sx_status = AiRunning, sx_result = None, sx_attempts = Some 1, sx_lease = Some ''9'', sx_error = None,
     sx_created = ''3'', sx_updated = ''4''\<rparr>"

definition sample_proposal_audit :: suite_record where
  "sample_proposal_audit = \<lparr>sd_id = ''audit-1'', sd_workspace = ''w'', sd_module = ''events'', sd_type = ''ai-proposal-request'',
     sd_title = ''Plan'', sd_state = ''queued'',
     sd_data = [(''actionId'', JStr ''plan''), (''promptId'', JStr ''p''), (''promptVersion'', JStr ''1''),
       (''modelPolicyId'', JStr ''m''), (''requestedModelId'', JStr ''m''), (''evidenceIds'', JArr [JStr ''source-1'']),
       (''evidenceBindings'', JArr [binding_json ExtendedProposal sample_source_binding]),
       (''reviewStatus'', JStr ''pending-model''), (''proposalOnly'', JBool True), (''automaticMutationAllowed'', JBool False),
       (''externalEffectAllowed'', JBool False)],
     sd_created = ''3'', sd_updated = ''3''\<rparr>"

definition sample_proposal_boundary :: boundary where
  "sample_proposal_boundary = \<lparr>bo_version = ExtendedProposal, bo_audit = sample_proposal_audit, bo_evidence = [''source-1''],
     bo_allowed = [''source-1''], bo_target = None, bo_model = ''m'', bo_policy = Some ''m'',
     bo_bindings = [sample_source_binding]\<rparr>"

lemma sample_source_digest:
  "digest sample_env (suite_record_json sample_source_record) = Inr (bd_hash sample_source_binding)"
proof -
  have "encodable (suite_record_json sample_source_record)"
    by (simp add: suite_record_json_def sample_source_record_def has_nul_def jint_def num_of_int_def is_finite_def)
  from digest_total[OF sample_number_format this] show ?thesis by (auto simp: sample_source_binding_def)
qed

lemma sample_hash_format: "hash_format_ok sample_env"
  by (simp add: hash_format_ok_def sample_sha_pattern)

lemma sample_source_hash: "sha_pattern (bd_hash sample_source_binding)" "\<not> has_nul (bd_hash sample_source_binding)"
proof -
  show p: "sha_pattern (bd_hash sample_source_binding)"
    using sample_source_digest sample_sha_pattern by (auto simp: digest_def bind_e_Inr_iff dest: sym)
  show "\<not> has_nul (bd_hash sample_source_binding)"
    using p unfolding sha_pattern_def has_nul_def list_all_iff
    by (auto simp: is_lower_hex_def is_digit_def code_def dest!: bspec)
qed

lemma exact_json_same: "encodable v \<Longrightarrow> require_exact sample_env e v v = Inr ()"
  using digest_total[OF sample_number_format, of v]
  by (auto simp: require_exact_def exact_json_def snapshot_hash_def)

lemma sample_binding_parsed:
  "parse_binding (\<lambda>s. s \<noteq> []) ExtendedProposal (binding_json ExtendedProposal sample_source_binding) = Inr sample_source_binding"
proof -
  have "trim ''events'' = ''events''" "trim ''event'' = ''event''" by (simp_all add: trim_def is_ws_def code_def)
  moreover have "is_safe_integer (Fin 1)" using is_safe_integer_int[of 1] by (simp add: num_of_int_def max_safe_def)
  ultimately show ?thesis
    using sample_source_hash(1)
    by (simp add: parse_binding_def binding_json_def z_strict_def z_uuid_def z_text_def z_version_def z_hash_def
        binding_hash_key_def) (simp add: sample_source_binding_def)
qed

lemma sample_binding_encodable: "encodable (binding_json ExtendedProposal sample_source_binding)"
  using sample_source_hash(2)
  by (simp add: binding_json_def binding_hash_key_def) (simp add: sample_source_binding_def has_nul_def is_finite_def)

lemma job_boundary:
  "proposal_audit_boundary sample_env (\<lambda>s. s \<noteq> []) sample_proposal_action [sample_proposal_audit, sample_source_record]
     = Inr sample_proposal_boundary"
proof -
  let ?uuid = "\<lambda>s :: string. s \<noteq> []"
  let ?B = "JArr [binding_json ExtendedProposal sample_source_binding]"
  let ?I = "JArr [JStr ''source-1'']"
  have trims: "trim ''m'' = ''m''" by (simp add: trim_def is_ws_def code_def)
  have ids: "encodable ?I" by (simp add: has_nul_def)
  have bindings: "encodable ?B" using sample_binding_encodable by simp
  have name: "bd_record sample_source_binding = ''source-1''" by (simp add: sample_source_binding_def)
  have audit: "extended_bindings sample_env ?uuid sample_proposal_action [''source-1''] ''m'' ''m'' sample_proposal_audit
      = Inr ([sample_source_binding], None)"
    by (simp add: extended_bindings_def sample_proposal_action_def sample_proposal_audit_def z_array_def
        sample_binding_parsed name strings_json_def exact_json_same[OF ids] exact_json_same[OF bindings] strict_eq_def
        extended_target_def undefined_if_null_def nullish_def text_or_undefined_def truthy_def)
  have "ai_result_contract_version (sx_context sample_proposal_action) = Inr (Some (proposal_version ExtendedProposal))"
    by (simp add: ai_result_contract_version_def sample_proposal_action_def has_own_def need_object_def known_contract_versions_def)
  moreover have "proposal_contract_of (proposal_version ExtendedProposal) = Some ExtendedProposal"
    by (simp add: proposal_contract_of_def first_such_def proposal_version_def)
  moreover have "unique_ids ?uuid (oget (sx_context sample_proposal_action) ''evidenceIds'') ''evidenceIds'' = Inr [''source-1'']"
    by (simp add: unique_ids_def sample_proposal_action_def z_array_def z_uuid_def)
  moreover have "extended_boundary sample_env ?uuid sample_proposal_action [sample_proposal_audit, sample_source_record] [''source-1'']
      = Inr sample_proposal_boundary"
  proof -
    have "jget (record_map [sample_proposal_audit, sample_source_record]) ''audit-1'' = Some sample_proposal_audit"
      by (simp add: record_map_def jget_jset sample_proposal_audit_def sample_source_record_def)
    moreover have "assert_audit_identity sample_proposal_action sample_proposal_audit = Inr ()"
      by (simp add: assert_audit_identity_def sample_proposal_action_def sample_proposal_audit_def)
    moreover have "oget (sx_context sample_proposal_action) ''aiAuditRecordId'' = JStr ''audit-1''"
      "oget (sx_context sample_proposal_action) ''requestedModelId'' = JStr ''m''"
      "oget (sx_context sample_proposal_action) ''modelPolicyId'' = JStr ''m''"
      by (simp_all add: sample_proposal_action_def)
    ultimately show ?thesis
      using audit trims by (simp add: extended_boundary_def z_uuid_def z_text_def sample_proposal_boundary_def uniq_def)
  qed
  moreover have "distinct (map sd_id [sample_proposal_audit, sample_source_record])"
    by (simp add: sample_proposal_audit_def sample_source_record_def)
  ultimately show ?thesis by (simp add: proposal_audit_boundary_def)
qed

section \<open>Properties\<close>



text \<open>C16: A proposal job is released to the model only with the configured model, and only with records of
  the action's workspace that were handed over and that are authorized as they are now: each either is named by
  an evidence binding, with the type, version and content digest of that binding, or is the target of the action,
  with the version and digest the action was created for. No binding and no target is missing, and everything the
  result may cite is among them.
\<close>

theorem proposal_job_pinned:
  assumes "validate_proposal_job E uuid a rs model = Inr (b, ms)"
  shows "trim model \<noteq> [] \<and> bo_model b = model \<and> (\<forall>p. bo_policy b = Some p \<longrightarrow> p = model)
    \<and> bo_audit b \<in> set rs \<and> set ms \<subseteq> set rs
    \<and> (\<forall>m \<in> set ms. sd_workspace m = sx_workspace a
         \<and> ((\<exists>bd \<in> set (bo_bindings b). evidence_current E (bo_version b) bd m) \<or> target_current E a b m))
    \<and> (\<forall>bd \<in> set (bo_bindings b). \<exists>m \<in> set ms. evidence_current E (bo_version b) bd m)
    \<and> (\<forall>t. bo_version b = ExtendedProposal \<longrightarrow> bo_target b = Some t \<longrightarrow> t \<noteq> [] \<longrightarrow> (\<exists>m \<in> set ms. target_current E a b m))
    \<and> set (bo_allowed b) \<subseteq> sd_id ` set ms"
proof -
  from assms obtain found where b: "proposal_audit_boundary E uuid a rs = Inr b"
    and model: "trim model \<noteq> []" "bo_model b = model" "\<not> (case bo_policy b of None \<Rightarrow> False | Some p \<Rightarrow> p \<noteq> model)"
    and found: "model_records E a rs b = Inr found" and ms: "ms = jvals (record_map found)"
    and allowed: "set (bo_allowed b) \<subseteq> sd_id ` set ms"
    by (auto simp: validate_proposal_job_def bind_e_Inr_iff Let_def split: if_splits)
  note current = model_records_current[OF found]
  have "set ms = set found" using record_map_values[of found rs] current boundary_audit[OF b] by (simp add: ms)
  moreover have "\<forall>p. bo_policy b = Some p \<longrightarrow> p = model" using model(3) by auto
  ultimately show ?thesis using current boundary_audit[OF b] model(1,2) allowed by simp
qed

theorem proposal_job_pinned_witness:
  "\<exists>ms. validate_proposal_job sample_env (\<lambda>s. s \<noteq> []) sample_proposal_action
        [sample_proposal_audit, sample_source_record] ''m'' = Inr (sample_proposal_boundary, ms)
     \<and> ms = [sample_source_record]
     \<and> (\<forall>m \<in> set ms. evidence_current sample_env ExtendedProposal sample_source_binding m)"
proof -
  let ?rs = "[sample_proposal_audit, sample_source_record]"
  have find: "jget (record_map ?rs) ''source-1'' = Some sample_source_record"
    by (simp add: record_map_def jget_jset sample_source_record_def)
  have names: "bd_record sample_source_binding = ''source-1''" "bd_module sample_source_binding = ''events''"
    "bd_type sample_source_binding = ''event''" "bd_version sample_source_binding = Fin 1"
    "sd_workspace sample_source_record = sx_workspace sample_proposal_action" "sd_module sample_source_record = ''events''"
    "sd_type sample_source_record = ''event''" "normalized_record_version sample_source_record = Some (Fin 1)"
    by (simp_all add: sample_source_binding_def sample_source_record_def sample_proposal_action_def normalized_record_version_def)
  have "check_extended_binding sample_env sample_proposal_action ?rs sample_source_binding = Inr sample_source_record"
    using sample_source_digest find by (simp add: check_extended_binding_def snapshot_hash_def names)
  then have records: "model_records sample_env sample_proposal_action ?rs sample_proposal_boundary = Inr [sample_source_record]"
    by (simp add: model_records_def sample_proposal_boundary_def)
  have job: "validate_proposal_job sample_env (\<lambda>s. s \<noteq> []) sample_proposal_action ?rs ''m''
      = Inr (sample_proposal_boundary, [sample_source_record])"
    using records
    by (simp add: validate_proposal_job_def job_boundary)
      (simp add: sample_proposal_boundary_def record_map_def jvals_def jset_def sample_source_record_def trim_def is_ws_def code_def)
  from proposal_job_pinned[OF job] job show ?thesis
    by (auto simp: sample_proposal_boundary_def target_current_def)
qed

end
