(* ===== verification/Additive_Adapter.thy ===== *)
theory Additive_Adapter
  imports Additive_Engine Suite_Actions
begin

text \<open>
  The path on which the server runs an additive action
  (\<open>executeAdditiveBusinessActionWithStore\<close> of \<open>server/additive-business-engine.ts\<close>): inside one transaction of
  the workspace store it loads what the actor may read, lets the engine evaluate the action on that, writes the
  changed records and the AI action back under identifiers of the store, and keeps an immutable receipt
  under the idempotency key.
\<close>

section \<open>Errors and stored shapes\<close>

datatype adapter_err =
    StoreFailed store_err
  | EngineFailed err
  | WorkspaceMismatch
  | RoleMismatch
  | ModuleNotEnabled string
  | ActionUnknown
  | RoleRequired role
  | PlanLacksModule string
  | ScopeRequired scope
  | NotAMember
  | KeyRequired
  | KeyBoundToOther
  | KeyInputDiffers
  | DecisionBound
  | TooManyRecords
  | StoredRecordMalformed string
  | InputTooDeep
  | TooManyReferences
  | RowLacksBase
  | TooManyRelations
  | RelationInvalid string
  | ReceiptTooLarge
  | ReceiptRecordMalformed
  | ReceiptHashDiffers
  | ReceiptMalformed
  | ReceiptResultMalformed
  | ReceiptAuditDiffers
  | ReceiptDecisionMalformed
  | ReceiptDecisionDiffers
  | ReceiptTooLargeStored
  | ReceiptSnapshotsIncomplete
  | UnmarkedRecord
  | CreateRefused
  | UpdateRefused
  | TargetLost
  | ResponseLost
  | NoProposal
  | QueueRefused
  | BindRefused
  | ReceiptRefused
  | ReceiptNotFinal

definition record_contract :: string where
  "record_contract = ''additive-business-record.v1''"

definition receipt_contract :: string where
  "receipt_contract = ''additive-business-receipt.v1''"

definition module_snapshot_limit :: nat where
  "module_snapshot_limit = 100000"

definition input_reference_limit :: nat where
  "input_reference_limit = 1000"

definition relation_reference_limit :: nat where
  "relation_reference_limit = 1000"

definition receipt_snapshot_limit :: nat where
  "receipt_snapshot_limit = 64 * 1024"

record authorization =
  az_user :: string
  az_workspace :: string
  az_role :: role
  az_scopes :: "string list"

text \<open>The injected clock, when there is one, with the reading it gives; the configured model policy.\<close>

record store_deps =
  dp_now :: "int option option"
  dp_model :: "string option"

text \<open>A response as the caller and the receipt see it; \<open>JUndef\<close> is the absent preview.\<close>

record response =
  re_kind :: string
  re_records :: "obj list"
  re_preview :: json
  re_audit :: obj

definition brecord_json :: "brecord \<Rightarrow> obj" where
  "brecord_json r = [(''id'', JStr (b_id r)), (''workspaceId'', JStr (b_workspace r)), (''moduleId'', JStr (b_module r)),
     (''recordType'', JStr (b_type r)), (''title'', JStr (b_title r)), (''state'', JStr (b_state r)),
     (''version'', jint (b_version r)), (''contentHash'', JStr (b_hash r)), (''data'', JObj (b_data r)),
     (''createdAt'', JStr (b_created r)), (''updatedAt'', JStr (b_updated r))]"

definition decision_name :: "decision \<Rightarrow> string" where
  "decision_name d = (case d of DecRead \<Rightarrow> ''read'' | DecPreviewed \<Rightarrow> ''previewed'' | DecApplied \<Rightarrow> ''applied''
     | DecQueued \<Rightarrow> ''queued'' | DecReplayed \<Rightarrow> ''replayed'')"

definition kind_name :: "result_kind \<Rightarrow> string" where
  "kind_name k = (case k of KRead \<Rightarrow> ''read'' | KCommand \<Rightarrow> ''command'' | KProposal \<Rightarrow> ''ai-proposal'')"

definition or_null :: "string option \<Rightarrow> json" where
  "or_null x = (case x of None \<Rightarrow> JNull | Some s \<Rightarrow> JStr s)"

definition audit_json :: "audit \<Rightarrow> obj" where
  "audit_json a = [(''receiptId'', JStr (au_receipt a)),
     (''requestId'', case au_request a of None \<Rightarrow> JUndef | Some s \<Rightarrow> JStr s),
     (''workspaceId'', JStr (au_workspace a)), (''actorId'', JStr (au_actor a)), (''moduleId'', JStr (au_module a)),
     (''actionId'', JStr (au_action a)), (''inputDigest'', JStr (au_digest a)), (''dryRun'', JBool (au_dry_run a)),
     (''replayed'', JBool (au_replayed a)), (''decision'', JStr (decision_name (au_decision a))),
     (''approvedBy'', or_null (au_approved_by a)), (''approvalDecisionId'', or_null (au_decision_id a)),
     (''approvedAt'', or_null (au_approved_at a)), (''approvalReason'', or_null (au_reason a)),
     (''modelExecuted'', JBool (au_model_executed a)), (''automaticMutationAllowed'', JBool (au_automatic_mutation a)),
     (''externalEffectExecuted'', JBool (au_external_effect a)), (''createdAt'', JStr (au_created a))]"

definition preview_json :: "obj option \<Rightarrow> json" where
  "preview_json p = (case p of None \<Rightarrow> JUndef | Some d \<Rightarrow> JObj d)"

definition response_of :: "exec_result \<Rightarrow> response" where
  "response_of x = \<lparr>re_kind = kind_name (o_kind (x_body x)), re_records = map brecord_json (o_records (x_body x)),
     re_preview = preview_json (o_preview (x_body x)), re_audit = audit_json (x_audit x)\<rparr>"

section \<open>Records of the store as the engine sees them\<close>

definition num_int :: "num \<Rightarrow> int" where
  "num_int n = (case n of Fin r \<Rightarrow> \<lfloor>r\<rfloor> | _ \<Rightarrow> 0)"

definition identity_matches :: "suite_record \<Rightarrow> obj \<Rightarrow> bool" where
  "identity_matches r d \<longleftrightarrow> oget d ''id'' = JStr (sd_id r) \<and> oget d ''workspaceId'' = JStr (sd_workspace r)
     \<and> oget d ''moduleId'' = JStr (sd_module r) \<and> oget d ''recordType'' = JStr (sd_type r)
     \<and> oget d ''title'' = JStr (sd_title r) \<and> oget d ''state'' = JStr (sd_state r)"

definition record_from_suite :: "suite_record \<Rightarrow> adapter_err + brecord option" where
  "record_from_suite r =
     (if oget (sd_data r) ''additiveContract'' \<noteq> JStr record_contract then Inr None
      else (case oget (sd_data r) ''record'' of
              JObj d \<Rightarrow>
                if module_by_id (sd_module r) = None then Inr None
                else (case (oget d ''version'', oget d ''contentHash'', oget d ''data'', oget d ''createdAt'', oget d ''updatedAt'') of
                        (JNum n, JStr h, JObj x, JStr ca, JStr ua) \<Rightarrow>
                          if \<not> identity_matches r d \<or> \<not> is_safe_integer n \<or> \<not> num_le (Fin 1) n \<or> \<not> sha_pattern h
                          then Inl (StoredRecordMalformed (sd_id r))
                          else Inr (Some \<lparr>b_id = sd_id r, b_workspace = sd_workspace r, b_module = sd_module r, b_type = sd_type r,
                                 b_title = sd_title r, b_state = sd_state r, b_version = num_int n, b_hash = h, b_data = x,
                                 b_created = ca, b_updated = ua\<rparr>)
                      | _ \<Rightarrow> Inl (StoredRecordMalformed (sd_id r)))
            | _ \<Rightarrow> Inr None))"

definition explicit_version :: "json \<Rightarrow> int" where
  "explicit_version v = (case v of JNum n \<Rightarrow> if is_safe_integer n \<and> num_le (Fin 1) n then num_int n else 1 | _ \<Rightarrow> 1)"

definition adapter_digest :: "js_env \<Rightarrow> json \<Rightarrow> adapter_err + string" where
  "adapter_digest E v = (case digest E v of Inl e \<Rightarrow> Inl (EngineFailed (CanonErr e)) | Inr h \<Rightarrow> Inr h)"

definition external_evidence_from_suite :: "js_env \<Rightarrow> suite_record \<Rightarrow> adapter_err + brecord option" where
  "external_evidence_from_suite E r =
     (if module_by_id (sd_module r) \<noteq> None then Inr None
      else (let v = explicit_version (oget (sd_data r) ''version'')
            in bind_e (adapter_digest E (evidence_snapshot r (Some (num_of_int v)))) (\<lambda>h.
               Inr (Some \<lparr>b_id = sd_id r, b_workspace = sd_workspace r, b_module = sd_module r, b_type = sd_type r,
                 b_title = sd_title r, b_state = sd_state r, b_version = v, b_hash = h, b_data = sd_data r,
                 b_created = sd_created r, b_updated = sd_updated r\<rparr>))))"

definition kept :: "'a option list \<Rightarrow> 'a list" where
  "kept xs = concat (map (\<lambda>x. case x of None \<Rightarrow> [] | Some y \<Rightarrow> [y]) xs)"

definition record_envelope :: "brecord \<Rightarrow> obj" where
  "record_envelope r = [(''additiveContract'', JStr record_contract), (''record'', JObj (brecord_json r))]"

fun remap_ids :: "(string, string) jmap \<Rightarrow> json \<Rightarrow> json" where
  "remap_ids ids (JStr s) = JStr (case jget ids s of None \<Rightarrow> s | Some t \<Rightarrow> t)"
| "remap_ids ids (JArr xs) = JArr (map (remap_ids ids) xs)"
| "remap_ids ids (JObj d) = JObj (map (\<lambda>(k, v). (k, remap_ids ids v)) d)"
| "remap_ids ids v = v"

section \<open>Records the input refers to\<close>

definition note_id :: "string \<Rightarrow> string list \<Rightarrow> adapter_err + string list" where
  "note_id s ids =
     (let more = (if uuid_pattern s \<and> s \<notin> set ids then ids @ [s] else ids)
      in if input_reference_limit < length more then Inl TooManyReferences else Inr more)"

fun visit_input :: "nat \<Rightarrow> json \<Rightarrow> string list \<Rightarrow> adapter_err + string list"
and visit_items :: "nat \<Rightarrow> json list \<Rightarrow> string list \<Rightarrow> adapter_err + string list"
and visit_fields :: "nat \<Rightarrow> obj \<Rightarrow> string list \<Rightarrow> adapter_err + string list" where
  "visit_input depth v ids =
     (if 24 < depth then Inl InputTooDeep
      else (case v of
              JStr s \<Rightarrow> note_id s ids
            | JArr xs \<Rightarrow> visit_items (Suc depth) xs ids
            | JObj d \<Rightarrow> visit_fields (Suc depth) d ids
            | _ \<Rightarrow> Inr ids))"
| "visit_items depth [] ids = Inr ids"
| "visit_items depth (x # xs) ids = bind_e (visit_input depth x ids) (visit_items depth xs)"
| "visit_fields depth [] ids = Inr ids"
| "visit_fields depth ((k, x) # d) ids = bind_e (visit_input depth x ids) (visit_fields depth d)"

definition input_record_ids :: "obj \<Rightarrow> adapter_err + string list" where
  "input_record_ids input = visit_input 0 (JObj input) []"

fun relation_ids :: "obj \<Rightarrow> string list \<Rightarrow> string list \<Rightarrow> adapter_err + string list" where
  "relation_ids vs [] ids = Inr ids"
| "relation_ids vs (k # ks) ids =
     (if lookup_undefined vs k then relation_ids vs ks ids
      else (case oget vs k of
              JStr s \<Rightarrow>
                if \<not> uuid_pattern s then Inl (RelationInvalid k)
                else (let more = (if s \<in> set ids then ids else ids @ [s])
                      in if relation_reference_limit < length more then Inl TooManyRelations else relation_ids vs ks more)
            | _ \<Rightarrow> Inl (RelationInvalid k)))"

definition adapter_object :: "json \<Rightarrow> adapter_err + obj" where
  "adapter_object v = (case as_object v of Inl e \<Rightarrow> Inl (EngineFailed (SchemaErr e)) | Inr d \<Rightarrow> Inr d)"

definition relation_keys :: "js_env \<Rightarrow> brecord list \<Rightarrow> string \<Rightarrow> string list" where
  "relation_keys E rs base = uniq (map (\<lambda>r. to_str E (oget (b_data r) ''key''))
     (filter (\<lambda>r. b_module r = ''tables'' \<and> b_type r = ''table-field'' \<and> oget (b_data r) ''baseId'' = JStr base
        \<and> oget (b_data r) ''fieldType'' = JStr ''relation'') rs))"

definition stored_relation_ids :: "js_env \<Rightarrow> brecord list \<Rightarrow> string \<Rightarrow> string \<Rightarrow> obj \<Rightarrow> adapter_err + string list" where
  "stored_relation_ids E rs m aid input =
     (if m \<noteq> ''tables'' \<or> aid \<noteq> ''row-update'' then Inr []
      else (case oget input ''rowId'' of
              JStr i \<Rightarrow>
                (case first_such (\<lambda>r. b_id r = i \<and> b_module r = ''tables'' \<and> b_type r = ''table-row'') rs of
                   None \<Rightarrow> Inr []
                 | Some row \<Rightarrow>
                     (case oget (b_data row) ''baseId'' of
                        JStr base \<Rightarrow>
                          bind_e (adapter_object (oget (b_data row) ''values'')) (\<lambda>stored.
                          bind_e (adapter_object (oget input ''patch'')) (\<lambda>patch.
                          relation_ids (spread stored patch) (relation_keys E rs base) []))
                      | _ \<Rightarrow> Inl RowLacksBase))
            | _ \<Rightarrow> Inr []))"

section \<open>Receipts\<close>

definition receipt_snapshot :: "js_env \<Rightarrow> response \<Rightarrow> adapter_err + obj" where
  "receipt_snapshot E x =
     (let d = [(''kind'', JStr (re_kind x))] @ (if truthy (re_preview x) then [(''preview'', re_preview x)] else [])
            @ [(''audit'', JObj (re_audit x)), (''recordIds'', JArr (map (\<lambda>r. oget r ''id'') (re_records x))),
               (''recordSnapshots'', JArr (map JObj (re_records x)))]
      in if receipt_snapshot_limit < length (utf8 (json_text E (JObj d))) then Inl ReceiptTooLarge else Inr d)"

definition snapshot_complete :: "js_env \<Rightarrow> suite_record \<Rightarrow> string \<Rightarrow> obj \<Rightarrow> bool" where
  "snapshot_complete E receipt i r \<longleftrightarrow> oget r ''id'' = JStr i \<and> oget r ''workspaceId'' = JStr (sd_workspace receipt)
     \<and> oget r ''moduleId'' = JStr (sd_module receipt) \<and> module_by_id (sd_module receipt) \<noteq> None
     \<and> (\<exists>t \<in> set (text_at r ''recordType''). t \<noteq> []) \<and> is_str (oget r ''title'') \<and> is_str (oget r ''state'')
     \<and> safe_positive (oget r ''version'') \<and> is_obj (oget r ''data'')
     \<and> valid_date_time E (oget r ''createdAt'') \<and> valid_date_time E (oget r ''updatedAt'')"

definition snapshot_content :: "obj \<Rightarrow> json" where
  "snapshot_content r = JObj (map (\<lambda>k. (k, oget r k))
     [''moduleId'', ''recordType'', ''title'', ''state'', ''version'', ''data''])"

definition stored_receipt_record :: "js_env \<Rightarrow> suite_record \<Rightarrow> json \<times> string \<Rightarrow> adapter_err + obj" where
  "stored_receipt_record E receipt p =
     (case fst p of
        JObj r \<Rightarrow>
          if \<not> snapshot_complete E receipt (snd p) r then Inl ReceiptRecordMalformed
          else bind_e (adapter_digest E (snapshot_content r)) (\<lambda>h.
               if oget r ''contentHash'' \<noteq> JStr h then Inl ReceiptHashDiffers else Inr r)
      | _ \<Rightarrow> Inl ReceiptRecordMalformed)"

definition audit_bound :: "suite_record \<Rightarrow> obj \<Rightarrow> bool" where
  "audit_bound receipt a \<longleftrightarrow> oget a ''workspaceId'' = JStr (sd_workspace receipt) \<and> oget a ''moduleId'' = JStr (sd_module receipt)
     \<and> strict_eq (oget a ''actionId'') (oget (sd_data receipt) ''actionId'')
     \<and> strict_eq (oget a ''inputDigest'') (oget (sd_data receipt) ''inputDigest'') \<and> oget a ''receiptId'' = JStr (sd_id receipt)"

definition receipt_result :: "suite_record \<Rightarrow> adapter_err + obj" where
  "receipt_result receipt =
     (if oget (sd_data receipt) ''additiveContract'' \<noteq> JStr receipt_contract then Inl ReceiptMalformed
      else (case oget (sd_data receipt) ''result'' of JObj d \<Rightarrow> Inr d | _ \<Rightarrow> Inl ReceiptMalformed))"

definition stored_receipt_decision :: "suite_record \<Rightarrow> adapter_err + json" where
  "stored_receipt_decision receipt =
     bind_e (receipt_result receipt) (\<lambda>d.
     case (oget d ''audit'', oget (sd_data receipt) ''actorUserId'') of
       (JObj a, JStr user) \<Rightarrow>
         (let decision = oget a ''approvalDecisionId''; bound = oget (sd_data receipt) ''approvalDecisionId''
          in if oget a ''actorId'' \<noteq> JStr user \<or> \<not> audit_bound receipt a then Inl ReceiptAuditDiffers
             else if decision \<noteq> JNull \<and> \<not> (\<exists>x \<in> set (text_at a ''approvalDecisionId''). key_pattern x)
             then Inl ReceiptDecisionMalformed
             else if bound \<noteq> JUndef \<and> \<not> strict_eq bound decision then Inl ReceiptDecisionDiffers
             else Inr decision)
     | _ \<Rightarrow> Inl ReceiptAuditDiffers)"

definition kind_names :: "string list" where
  "kind_names = [''read'', ''command'', ''ai-proposal'']"

definition all_strings :: "json list \<Rightarrow> string list option" where
  "all_strings vs = (if list_all is_str vs then Some (json_strings (JArr vs)) else None)"

definition replay_audit :: "string \<Rightarrow> obj \<Rightarrow> obj" where
  "replay_audit i a = spread a [(''receiptId'', JStr i), (''replayed'', JBool True), (''decision'', JStr ''replayed'')]"

definition stored_records :: "js_env \<Rightarrow> suite_record \<Rightarrow> json list \<Rightarrow> json list \<Rightarrow> adapter_err + obj list" where
  "stored_records E receipt ids snapshots =
     (case all_strings ids of
        None \<Rightarrow> Inl ReceiptSnapshotsIncomplete
      | Some names \<Rightarrow>
          if length snapshots \<noteq> length names \<or> length (uniq names) \<noteq> length names then Inl ReceiptSnapshotsIncomplete
          else each_e (stored_receipt_record E receipt) (zip snapshots names))"

definition stored_receipt_result :: "js_env \<Rightarrow> suite_record \<Rightarrow> string \<Rightarrow> adapter_err + response" where
  "stored_receipt_result E receipt user =
     bind_e (receipt_result receipt) (\<lambda>d.
     if oget (sd_data receipt) ''actorUserId'' \<noteq> JStr user then Inl KeyBoundToOther
     else (case (oget d ''recordIds'', oget d ''recordSnapshots'', oget d ''kind'') of
             (JArr ids, JArr snapshots, JStr kind) \<Rightarrow>
               if \<not> truthy (oget d ''audit'') \<or> kind \<notin> set kind_names then Inl ReceiptResultMalformed
               else bind_e (stored_receipt_decision receipt) (\<lambda>_.
                 if receipt_snapshot_limit < length (utf8 (json_text E (JObj d))) then Inl ReceiptTooLargeStored
                 else bind_e (stored_records E receipt ids snapshots) (\<lambda>rs.
                   case oget d ''audit'' of
                     JObj a \<Rightarrow>
                       if oget a ''actorId'' \<noteq> JStr user \<or> \<not> audit_bound receipt a then Inl ReceiptAuditDiffers
                       else Inr \<lparr>re_kind = kind, re_records = rs,
                              re_preview = (if truthy (oget d ''preview'') then oget d ''preview'' else JUndef),
                              re_audit = replay_audit (sd_id receipt) a\<rparr>
                   | _ \<Rightarrow> Inl ReceiptAuditDiffers))
           | _ \<Rightarrow> Inl ReceiptResultMalformed))"

section \<open>Computations over the store\<close>

type_synonym 'a adapter = "(store, adapter_err, 'a) act"

definition on_store :: "'a suite \<Rightarrow> 'a adapter" where
  "on_store m = (\<lambda>s. case m s of (Inl e, t) \<Rightarrow> (Inl (StoreFailed e), t) | (Inr x, t) \<Rightarrow> (Inr x, t))"

text \<open>An engine of its own, drawing from the identifiers of the store's host; its final state is returned.\<close>

definition on_engine :: "'a eng \<Rightarrow> ('a \<times> engine) adapter" where
  "on_engine m = (\<lambda>s. case m (empty_engine\<lparr>e_draws := st_draws s\<rparr>) of
     (Inl e, g) \<Rightarrow> (Inl (EngineFailed e), s\<lparr>st_draws := e_draws g\<rparr>)
   | (Inr x, g) \<Rightarrow> (Inr (x, g), s\<lparr>st_draws := e_draws g\<rparr>))"

definition engine_env :: "suite_host \<Rightarrow> js_env" where
  "engine_env H = (sh_env H)\<lparr>uuid_at := sh_uuid H\<rparr>"

text \<open>\<open>runInWorkspaceTransaction\<close> for a body with errors of its own.\<close>

definition transact :: "suite_host \<Rightarrow> string \<Rightarrow> (suite_workspace \<Rightarrow> 'a adapter) \<Rightarrow> 'a adapter" where
  "transact H user body = (\<lambda>s.
     case st_active s of
       Some active \<Rightarrow>
         (case base_workspace user s of
            None \<Rightarrow> (Inl (StoreFailed CrossTenant), s)
          | Some w \<Rightarrow> if sw_id w \<noteq> active then (Inl (StoreFailed CrossTenant), s) else body (workspace_for user w s) s)
     | None \<Rightarrow>
         (case bnd (on_store (get_or_create_workspace H user)) (\<lambda>w.
                 bnd (modifies (\<lambda>s. s\<lparr>st_active := Some (sw_id w)\<rparr>)) (\<lambda>_. body w)) s of
            (Inl e, t) \<Rightarrow> (Inl e, restore s t)
          | (Inr x, t) \<Rightarrow> (Inr x, t\<lparr>st_active := None\<rparr>)))"

lemma transact_store: "transact H user (\<lambda>w. on_store (body w)) = on_store (run_in_transaction H user body)"
  by (rule ext) (auto simp: transact_def run_in_transaction_def on_store_def bnd_def split: option.splits sum.splits prod.splits)

definition must :: "adapter_err \<Rightarrow> 'a option \<Rightarrow> 'a adapter" where
  "must e x = (case x of None \<Rightarrow> throw e | Some y \<Rightarrow> ret y)"

definition demand :: "bool \<Rightarrow> adapter_err \<Rightarrow> unit adapter" where
  "demand ok e = (if ok then ret () else throw e)"

section \<open>Guards\<close>

definition admit :: "authorization \<Rightarrow> string \<Rightarrow> string \<Rightarrow> obj \<Rightarrow> store_deps \<Rightarrow> suite_workspace
    \<Rightarrow> adapter_err + action \<times> string option" where
  "admit auth m aid input deps w =
     bind_e (check_that (sw_id w = az_workspace auth) WorkspaceMismatch) (\<lambda>_.
     bind_e (check_that (sw_role w = Some (az_role auth)) RoleMismatch) (\<lambda>_.
     bind_e (check_that (m \<in> set (sw_modules w)) (ModuleNotEnabled m)) (\<lambda>_.
     case (action_by_key m aid, module_by_id m) of
       (Some a, Some b) \<Rightarrow>
         bind_e (if a_operation a \<noteq> OpAi then Inr None
                 else (case expected_model_policy (oget input ''modelId'') (dp_model deps) of
                         Inl e \<Rightarrow> Inl (EngineFailed e) | Inr p \<Rightarrow> Inr (Some p))) (\<lambda>model.
         bind_e (check_that (a_role a \<le> az_role auth) (RoleRequired (a_role a))) (\<lambda>_.
         bind_e (check_that (m_min_plan b \<le> sw_plan w) (PlanLacksModule (m_name b))) (\<lambda>_.
         bind_e (check_that (''*'' \<in> set (az_scopes auth) \<or> (m @ '':*'') \<in> set (az_scopes auth)
                   \<or> (m @ '':'' @ scope_text (a_scope a)) \<in> set (az_scopes auth)) (ScopeRequired (a_scope a))) (\<lambda>_.
         Inr (a, model)))))
     | _ \<Rightarrow> Inl ActionUnknown)))"

definition command_digest :: "js_env \<Rightarrow> authorization \<Rightarrow> suite_workspace \<Rightarrow> obj \<Rightarrow> adapter_err + string" where
  "command_digest E auth w input = adapter_digest E (JObj [(''workspaceId'', JStr (sw_id w)),
     (''actorUserId'', JStr (az_user auth)), (''input'', JObj input)])"

definition command_key :: "js_env \<Rightarrow> action \<Rightarrow> obj \<Rightarrow> adapter_err + string option" where
  "command_key E a input =
     (if \<not> a_idempotent a then Inr None
      else (let k = to_str E (or_else (oget input ''idempotencyKey'') (JStr []))
            in if k = [] then Inl KeyRequired else Inr (Some k)))"

definition replay_stored ::
  "suite_host \<Rightarrow> authorization \<Rightarrow> string \<Rightarrow> string \<Rightarrow> string option \<Rightarrow> string \<Rightarrow> response option adapter" where
  "replay_stored H auth m aid key h =
     (case key of
        None \<Rightarrow> ret None
      | Some k \<Rightarrow>
          bnd (on_store (find_command_receipt H (az_user auth) ''additive-command-receipt'' m aid k)) (\<lambda>found.
          case found of
            None \<Rightarrow> ret None
          | Some r \<Rightarrow>
              if oget (sd_data r) ''actorUserId'' \<noteq> JStr (az_user auth) then throw KeyBoundToOther
              else if oget (sd_data r) ''inputDigest'' \<noteq> JStr h then throw KeyInputDiffers
              else bnd (lift_e (stored_receipt_result (sh_env H) r (az_user auth))) (\<lambda>x. ret (Some x))))"

definition decision_of :: "obj \<Rightarrow> string option" where
  "decision_of input =
     (case oget input ''approval'' of
        JObj ap \<Rightarrow> (case oget ap ''decisionId'' of JStr d \<Rightarrow> if key_pattern d then Some d else None | _ \<Rightarrow> None)
      | _ \<Rightarrow> None)"

definition check_decision :: "suite_host \<Rightarrow> authorization \<Rightarrow> action \<Rightarrow> obj \<Rightarrow> unit adapter" where
  "check_decision H auth a input =
     (if \<not> a_requires_approval a \<or> oget input ''dryRun'' = JBool True then ret ()
      else (case decision_of input of
              None \<Rightarrow> ret ()
            | Some d \<Rightarrow>
                bnd (on_store (find_approval_decision_receipt H (az_user auth) d)) (\<lambda>bound.
                demand (bound = None) DecisionBound)))"

section \<open>Loading\<close>

definition readable :: "suite_host \<Rightarrow> authorization \<Rightarrow> suite_workspace \<Rightarrow> suite_record \<Rightarrow> bool" where
  "readable H auth w r \<longleftrightarrow> may_read (sh_env H) (az_user auth) (sw_id w) (Some (az_role auth)) r"

definition load_module :: "suite_host \<Rightarrow> authorization \<Rightarrow> string \<Rightarrow> suite_workspace \<Rightarrow> suite_record list adapter" where
  "load_module H auth m w =
     bnd (on_store (list_store_records H (az_user auth) (Some m) None (module_snapshot_limit + 1))) (\<lambda>rs.
     bnd (demand (length rs \<le> module_snapshot_limit) TooManyRecords) (\<lambda>_.
     ret (filter (readable H auth w) rs)))"

definition load_targets :: "suite_host \<Rightarrow> authorization \<Rightarrow> suite_workspace \<Rightarrow> string list \<Rightarrow> suite_record list adapter" where
  "load_targets H auth w ids =
     bnd (each (\<lambda>i. bnd (on_store (Suite_Store.get_record H (az_user auth) i)) (\<lambda>r.
       ret (case r of None \<Rightarrow> [] | Some r \<Rightarrow> if readable H auth w r then [r] else []))) ids) (\<lambda>found.
     ret (concat found))"

definition domain_records :: "suite_record list \<Rightarrow> adapter_err + brecord list" where
  "domain_records rs = bind_e (each_e record_from_suite rs) (\<lambda>found. Inr (kept found))"

definition load_records :: "suite_host \<Rightarrow> authorization \<Rightarrow> string \<Rightarrow> string \<Rightarrow> obj \<Rightarrow> suite_workspace \<Rightarrow> suite_record list adapter" where
  "load_records H auth m aid input w =
     bnd (load_module H auth m w) (\<lambda>visible.
     bnd (lift_e (input_record_ids input)) (\<lambda>ids.
     bnd (load_targets H auth w ids) (\<lambda>targets.
     let loaded = jvals (record_map (visible @ targets))
     in bnd (lift_e (domain_records loaded)) (\<lambda>rs.
        bnd (lift_e (stored_relation_ids (sh_env H) rs m aid input)) (\<lambda>relations.
        bnd (load_targets H auth w (filter (\<lambda>i. i \<notin> set (map sd_id loaded)) relations)) (\<lambda>more.
        ret (jvals (record_map (visible @ targets @ more)))))))))"

section \<open>Evaluation\<close>

definition engine_ctx :: "authorization \<Rightarrow> suite_workspace \<Rightarrow> suite_member list \<Rightarrow> string option \<Rightarrow> int option \<Rightarrow> ctx" where
  "engine_ctx auth w members model clock = \<lparr>c_workspace = sw_id w, c_actor = az_user auth, c_plan = plan_name (sw_plan w),
     c_role = role_name (az_role auth), c_members = map (\<lambda>b. (sb_user b, role_name (sb_role b))) members,
     c_model_policy = model, c_scopes = Some (az_scopes auth), c_request_id = None, c_now = clock\<rparr>"

text \<open>The clock of the server is read as the evaluation starts, unless another one is injected.\<close>

definition adapter_clock :: "suite_host \<Rightarrow> store_deps \<Rightarrow> int option adapter" where
  "adapter_clock H deps = (case dp_now deps of
     Some t \<Rightarrow> ret t
   | None \<Rightarrow> bnd (on_store (date_now H)) (\<lambda>t. ret (Some t)))"

definition evaluate_loaded :: "suite_host \<Rightarrow> ctx \<Rightarrow> string \<Rightarrow> string \<Rightarrow> obj \<Rightarrow> brecord list \<Rightarrow> brecord list
    \<Rightarrow> (exec_result \<times> engine) adapter" where
  "evaluate_loaded H c m aid input rs evidence =
     on_engine (bnd (hydrate_records rs) (\<lambda>_.
                bnd (hydrate_external evidence) (\<lambda>_. execute (engine_env H) c m aid input)))"

definition external_evidence :: "js_env \<Rightarrow> suite_record list \<Rightarrow> adapter_err + brecord list" where
  "external_evidence E rs = bind_e (each_e (external_evidence_from_suite E) rs) (\<lambda>found. Inr (kept found))"

definition evaluate_in_store ::
  "suite_host \<Rightarrow> authorization \<Rightarrow> string \<Rightarrow> string \<Rightarrow> obj \<Rightarrow> store_deps \<Rightarrow> suite_workspace \<Rightarrow> suite_member list \<Rightarrow> string option
    \<Rightarrow> suite_record list \<Rightarrow> (exec_result \<times> engine) adapter" where
  "evaluate_in_store H auth m aid input deps w members model loaded =
     bnd (lift_e (domain_records loaded)) (\<lambda>rs.
     bnd (lift_e (external_evidence (sh_env H) loaded)) (\<lambda>evidence.
     bnd (adapter_clock H deps) (\<lambda>clock.
     evaluate_loaded H (engine_ctx auth w members model clock) m aid input rs evidence)))"

section \<open>Writing back\<close>

definition persist_target :: "suite_host \<Rightarrow> string \<Rightarrow> (string, suite_record) jmap \<Rightarrow> brecord \<Rightarrow> (string \<times> suite_record) adapter" where
  "persist_target H user loaded r =
     bnd (lift_e (case jget loaded (b_id r) of
            None \<Rightarrow> Inr None
          | Some x \<Rightarrow> bind_e (record_from_suite x) (\<lambda>known. Inr (if known = None then None else Some x)))) (\<lambda>existing.
     case existing of
       Some x \<Rightarrow> ret (b_id r, x)
     | None \<Rightarrow>
         bnd (on_store (create_record H user \<lparr>ri_id = None, ri_module = b_module r, ri_type = b_type r, ri_title = b_title r,
                ri_state = Some (b_state r), ri_data = Some (record_envelope r)\<rparr>)) (\<lambda>created.
         bnd (must CreateRefused created) (\<lambda>x. ret (b_id r, x))))"

definition target_map :: "(string \<times> suite_record) list \<Rightarrow> (string, suite_record) jmap" where
  "target_map ps = fold (\<lambda>(i, x). jset i x) ps []"

definition id_map :: "(string \<times> suite_record) list \<Rightarrow> (string, string) jmap" where
  "id_map ps = fold (\<lambda>(i, x). jset i (sd_id x)) ps []"

definition rehash :: "js_env \<Rightarrow> brecord \<Rightarrow> adapter_err + brecord" where
  "rehash E r = bind_e (adapter_digest E (content_of (b_module r) (b_type r) (b_title r) (b_state r) (b_version r) (b_data r)))
     (\<lambda>h. Inr (r\<lparr>b_hash := h\<rparr>))"

definition persisted_record :: "js_env \<Rightarrow> suite_workspace \<Rightarrow> (string, string) jmap \<Rightarrow> brecord \<Rightarrow> adapter_err + brecord" where
  "persisted_record E w ids r =
     rehash E (r\<lparr>b_id := (case jget ids (b_id r) of None \<Rightarrow> b_id r | Some i \<Rightarrow> i), b_workspace := sw_id w,
       b_data := map (\<lambda>(k, v). (k, remap_ids ids v)) (b_data r)\<rparr>)"

definition write_envelope :: "suite_host \<Rightarrow> string \<Rightarrow> string \<Rightarrow> string option \<Rightarrow> string option \<Rightarrow> brecord \<Rightarrow> adapter_err \<Rightarrow> unit adapter" where
  "write_envelope H user i title st r refused =
     bnd (on_store (update_record H user i \<lparr>rp_title = title, rp_state = st, rp_data = Some (record_envelope r)\<rparr>)) (\<lambda>updated.
     demand (updated \<noteq> None) refused)"

definition persist_record ::
  "suite_host \<Rightarrow> string \<Rightarrow> suite_workspace \<Rightarrow> (string \<times> suite_record) list \<Rightarrow> brecord \<Rightarrow> (string \<times> brecord) adapter" where
  "persist_record H user w targets r =
     bnd (lift_e (persisted_record (sh_env H) w (id_map targets) r)) (\<lambda>p.
     bnd (must TargetLost (jget (target_map targets) (b_id r))) (\<lambda>x.
     bnd (write_envelope H user (sd_id x) (Some (b_title p)) (Some (b_state p)) p UpdateRefused) (\<lambda>_.
     ret (b_id r, p))))"

definition persist_changes ::
  "suite_host \<Rightarrow> string \<Rightarrow> suite_workspace \<Rightarrow> suite_record list \<Rightarrow> brecord list \<Rightarrow> brecord list
    \<Rightarrow> ((string, string) jmap \<times> brecord list) adapter" where
  "persist_changes H user w loaded changed shown =
     bnd (each (persist_target H user (record_map loaded)) changed) (\<lambda>targets.
     bnd (each (persist_record H user w targets) changed) (\<lambda>stored.
     bnd (each (\<lambda>r. must ResponseLost (jget (fold (\<lambda>(i, p). jset i p) stored []) (b_id r))) shown) (\<lambda>out.
     ret (id_map targets, out))))"

section \<open>Queueing the AI action\<close>

definition proposal_context :: "string option \<Rightarrow> brecord \<Rightarrow> obj" where
  "proposal_context model p = [(''requestRecordId'', JStr (b_id p)), (''targetRecordId'', oget (b_data p) ''targetRecordId''),
     (''evidenceIds'', JArr (map JStr (json_strings (oget (b_data p) ''evidenceIds'')))),
     (''evidenceBindings'', oget (b_data p) ''evidenceBindings''), (''prompt'', oget (b_data p) ''prompt''),
     (''modelPolicyId'', case model of None \<Rightarrow> JUndef | Some s \<Rightarrow> JStr s),
     (''requestedModelId'', case model of None \<Rightarrow> JUndef | Some s \<Rightarrow> JStr s),
     (''proposalOnly'', JBool True), (''automaticMutationAllowed'', JBool False), (''applyActionId'', JNull),
     (''resultContract'', JObj [(''version'', JStr ''additive-business-proposal.v1''), (''citationsRequired'', JBool True),
        (''consequentialMutationsForbidden'', JBool True)])]"

definition queue_proposal ::
  "suite_host \<Rightarrow> string \<Rightarrow> string \<Rightarrow> string option \<Rightarrow> brecord list \<Rightarrow> (brecord \<times> string) adapter" where
  "queue_proposal H user m model out =
     bnd (must NoProposal (first_such (\<lambda>r. b_type r = ''ai-proposal-request'') out)) (\<lambda>p.
     bnd (on_store (queue_ai_action H user m (to_str (sh_env H) (oget (b_data p) ''goal'')) (Some (proposal_context model p)))) (\<lambda>queued.
     bnd (must QueueRefused queued) (\<lambda>a.
     bnd (lift_e (rehash (sh_env H) (p\<lparr>b_data := spread (b_data p) [(''queuedActionId'', JStr (sx_id a))]\<rparr>))) (\<lambda>q.
     bnd (write_envelope H user (b_id q) None None q BindRefused) (\<lambda>_.
     ret (q, sx_id a))))))"

definition queued_preview :: "json \<Rightarrow> string \<Rightarrow> string \<Rightarrow> json" where
  "queued_preview preview i action = JObj (spread (case preview of JObj d \<Rightarrow> d | _ \<Rightarrow> [])
     [(''requestId'', JStr i), (''queuedActionId'', JStr action), (''modelExecuted'', JBool False), (''output'', JNull),
      (''automaticMutationAllowed'', JBool False)])"

section \<open>The receipt\<close>

definition receipt_data :: "authorization \<Rightarrow> string \<Rightarrow> string \<Rightarrow> string \<Rightarrow> response \<Rightarrow> obj \<Rightarrow> obj" where
  "receipt_data auth aid key h x snapshot = [(''additiveContract'', JStr receipt_contract), (''actionId'', JStr aid),
     (''idempotencyKey'', JStr key), (''actorUserId'', JStr (az_user auth)), (''inputDigest'', JStr h),
     (''approvalDecisionId'', oget (re_audit x) ''approvalDecisionId''), (''result'', JObj snapshot)]"

definition receipt_input :: "string \<Rightarrow> action \<Rightarrow> response \<Rightarrow> obj \<Rightarrow> record_input" where
  "receipt_input m a x d = \<lparr>ri_id = None, ri_module = m, ri_type = ''additive-command-receipt'', ri_title = a_title a @ '' receipt'',
     ri_state = Some (if truthy (oget (re_audit x) ''dryRun'') then ''previewed'' else ''committed''), ri_data = Some d\<rparr>"

definition keep_receipt ::
  "suite_host \<Rightarrow> authorization \<Rightarrow> string \<Rightarrow> action \<Rightarrow> string \<Rightarrow> string \<Rightarrow> string \<Rightarrow> response \<Rightarrow> response adapter" where
  "keep_receipt H auth m a aid key h x =
     bnd (lift_e (receipt_snapshot (sh_env H) x)) (\<lambda>d.
     bnd (on_store (create_record H (az_user auth) (receipt_input m a x (receipt_data auth aid key h x d)))) (\<lambda>created.
     bnd (must ReceiptRefused created) (\<lambda>r.
     let y = x\<lparr>re_audit := spread (re_audit x) [(''receiptId'', JStr (sd_id r))]\<rparr>
     in bnd (lift_e (receipt_snapshot (sh_env H) y)) (\<lambda>d'.
        bnd (on_store (update_record H (az_user auth) (sd_id r) \<lparr>rp_title = None, rp_state = None,
               rp_data = Some (spread (receipt_data auth aid key h x d) [(''result'', JObj d')])\<rparr>)) (\<lambda>updated.
        bnd (demand (updated \<noteq> None) ReceiptNotFinal) (\<lambda>_. ret y))))))"

section \<open>The whole command\<close>

definition commit_evaluated ::
  "suite_host \<Rightarrow> authorization \<Rightarrow> string \<Rightarrow> action \<Rightarrow> obj \<Rightarrow> suite_workspace \<Rightarrow> string option \<Rightarrow> suite_record list
    \<Rightarrow> exec_result \<times> engine \<Rightarrow> response adapter" where
  "commit_evaluated H auth m a input w model loaded = (\<lambda>(x, g).
     bnd (demand (\<forall>r \<in> set (o_records (x_body x)). b_id r \<in> set (map b_id (changed_records g))) UnmarkedRecord) (\<lambda>_.
     bnd (persist_changes H (az_user auth) w loaded (changed_records g) (o_records (x_body x))) (\<lambda>(ids, out).
     let preview = remap_ids ids (preview_json (o_preview (x_body x)));
         base = response_of x
     in if a_operation a = OpAi \<and> oget input ''dryRun'' \<noteq> JBool True then
          bnd (queue_proposal H (az_user auth) m model out) (\<lambda>(q, action).
          ret (base\<lparr>re_records := map (\<lambda>r. brecord_json (if b_id r = b_id q then q else r)) out,
                 re_preview := queued_preview preview (b_id q) action\<rparr>))
        else ret (base\<lparr>re_records := map brecord_json out, re_preview := preview\<rparr>))))"

definition run_fresh ::
  "suite_host \<Rightarrow> authorization \<Rightarrow> string \<Rightarrow> string \<Rightarrow> obj \<Rightarrow> store_deps \<Rightarrow> suite_workspace \<Rightarrow> action \<Rightarrow> string option
    \<Rightarrow> suite_member list \<Rightarrow> string option \<Rightarrow> string \<Rightarrow> response adapter" where
  "run_fresh H auth m aid input deps w a model members key h =
     bnd (check_decision H auth a input) (\<lambda>_.
     bnd (load_records H auth m aid input w) (\<lambda>loaded.
     bnd (evaluate_in_store H auth m aid input deps w members model loaded) (\<lambda>evaluated.
     bnd (case key of None \<Rightarrow> ret [] | Some _ \<Rightarrow> lift_e (receipt_snapshot (sh_env H) (response_of (fst evaluated)))) (\<lambda>_.
     bnd (commit_evaluated H auth m a input w model loaded evaluated) (\<lambda>x.
     case key of None \<Rightarrow> ret x | Some k \<Rightarrow> keep_receipt H auth m a aid k h x)))))"

definition execute_in_workspace ::
  "suite_host \<Rightarrow> authorization \<Rightarrow> string \<Rightarrow> string \<Rightarrow> obj \<Rightarrow> store_deps \<Rightarrow> suite_workspace \<Rightarrow> response adapter" where
  "execute_in_workspace H auth m aid input deps w =
     bnd (lift_e (admit auth m aid input deps w)) (\<lambda>(a, model).
     bnd (on_store (list_workspace_members H (az_user auth))) (\<lambda>members.
     bnd (demand (\<exists>b \<in> set members. sb_user b = az_user auth \<and> sb_role b = az_role auth) NotAMember) (\<lambda>_.
     bnd (lift_e (command_digest (sh_env H) auth w input)) (\<lambda>h.
     bnd (lift_e (command_key (sh_env H) a input)) (\<lambda>key.
     bnd (replay_stored H auth m aid key h) (\<lambda>replay.
     case replay of
       Some x \<Rightarrow> ret x
     | None \<Rightarrow> run_fresh H auth m aid input deps w a model members key h))))))"

definition execute_with_store ::
  "suite_host \<Rightarrow> authorization \<Rightarrow> string \<Rightarrow> string \<Rightarrow> obj \<Rightarrow> store_deps \<Rightarrow> response adapter" where
  "execute_with_store H auth m aid input deps =
     transact H (az_user auth) (execute_in_workspace H auth m aid input deps)"

end
