(* ===== verification/Adapter_Runs.thy ===== *)
theory Adapter_Runs
  imports Additive_Adapter Suite_Writes Additive_Properties
begin

text \<open>
  Runs of the store adapter: what the operations of the store do inside its transaction, what the engine
  hands over, and the relation between the records before and after a command.
\<close>

section \<open>Lifted computations\<close>

lemma wp_on_store [wp_rules]: "wp (on_store m) Q X s = wp m Q (\<lambda>e. X (StoreFailed e)) s"
  by (auto simp: wp_def on_store_def split: prod.splits sum.splits)

lemma wp_on_engine: "wp (on_engine m) Q X s = wp m (\<lambda>x g. Q (x, g) (s\<lparr>st_draws := e_draws g\<rparr>))
    (\<lambda>e g. X (EngineFailed e) (s\<lparr>st_draws := e_draws g\<rparr>)) (empty_engine\<lparr>e_draws := st_draws s\<rparr>)"
  by (auto simp: wp_def on_engine_def split: prod.splits sum.splits)

lemma wp_must [wp_rules]: "wp (must e x) Q X s = (case x of None \<Rightarrow> X e s | Some y \<Rightarrow> Q y s)"
  by (simp add: must_def wp_rules split: option.split)

lemma wp_demand [wp_rules]: "wp (demand ok e) Q X s = (if ok then Q () s else X e s)"
  by (simp add: demand_def wp_rules)

lemma wp_transact:
  assumes "st_active s = None"
    and "\<And>e w. e = enter H u s \<Longrightarrow> base_workspace u e = Some w
      \<Longrightarrow> wp (body (workspace_for u w e)) (\<lambda>x t. Q x (t\<lparr>st_active := None\<rparr>)) (\<lambda>er t. X er (restore s t)) (e\<lparr>st_active := Some (sw_id w)\<rparr>)"
  shows "wp (transact H u body) Q X s"
proof -
  let ?e = "enter H u s"
  let ?run = "bnd (on_store (get_or_create_workspace H u)) (\<lambda>w. bnd (modifies (\<lambda>s. s\<lparr>st_active := Some (sw_id w)\<rparr>)) (\<lambda>_. body w))"
  have "wp ?run (\<lambda>x t. Q x (t\<lparr>st_active := None\<rparr>)) (\<lambda>er t. X er (restore s t)) s"
    using assms(2)[OF refl enter_base] by (simp add: wp_rules wp_enter)
  then show ?thesis by (simp add: wp_def transact_def assms(1) split: prod.splits sum.splits)
qed

section \<open>Store operations inside the transaction\<close>

definition inside :: "string \<Rightarrow> suite_workspace \<Rightarrow> store \<Rightarrow> bool" where
  "inside u w s \<longleftrightarrow> base_workspace u s = Some w \<and> st_active s = Some (sw_id w)"

lemma insideD: "inside u w s \<Longrightarrow> base_workspace u s = Some w" "inside u w s \<Longrightarrow> st_active s = Some (sw_id w)"
  by (simp_all add: inside_def)

lemma inside_frame [simp]:
  "inside u w (s\<lparr>st_ticks := n\<rparr>) = inside u w s" "inside u w (s\<lparr>st_draws := n\<rparr>) = inside u w s"
  "inside u w (s\<lparr>st_records := r\<rparr>) = inside u w s" "inside u w (s\<lparr>st_actions := a\<rparr>) = inside u w s"
  by (simp_all add: inside_def)

lemma wp_transaction_inside: "inside u w s \<Longrightarrow> wp (run_in_transaction H u body) Q X s = wp (body (workspace_for u w s)) Q X s"
  by (simp add: inside_def wp_def run_in_transaction_def)

lemma create_within:
  assumes i: "inside u w s" and X: "\<And>e n. X e (s\<lparr>st_ticks := n\<rparr>)" and Q1: "\<And>n. Q None (s\<lparr>st_ticks := n\<rparr>)"
    and Q2: "\<And>r n ts. r = record_from_input inp (sh_uuid H (st_draws s)) (sw_id w) ts
      \<Longrightarrow> Q (Some r) (s\<lparr>st_ticks := n, st_draws := Suc (st_draws s), st_records := jset (sd_id r) r (st_records s)\<rparr>)"
  shows "wp (create_record H u inp) Q X s"
proof (cases "record_payload_bytes (sh_env H) (input_data inp)")
  case (Inl er)
  then show ?thesis using X[of er "st_ticks s"] by (simp add: create_record_def wp_rules wp_lift_e)
next
  case (Inr k)
  have "Q None s" using Q1[of "st_ticks s"] by simp
  then show ?thesis
    unfolding create_record_def Inr wp_bnd wp_lift_e sum.case wp_transaction_inside[OF i]
    using X Q1 Q2 by (auto simp: wp_rules put_record_def intro!: wp_check_new_record[OF insideD(1)[OF i]])
qed

lemma update_within:
  assumes i: "inside u w s" and X: "\<And>e n. X e (s\<lparr>st_ticks := n\<rparr>)" and Q1: "Q None s"
    and Q2: "\<And>r n ts. jget (st_records s) k = Some r \<Longrightarrow> sd_workspace r = sw_id w
      \<Longrightarrow> Q (Some ((patch_record p r)\<lparr>sd_updated := ts\<rparr>))
            (s\<lparr>st_ticks := n, st_records := jset (sd_id r) ((patch_record p r)\<lparr>sd_updated := ts\<rparr>) (st_records s)\<rparr>)"
  shows "wp (update_record H u k p) Q X s"
  unfolding update_record_def wp_transaction_inside[OF i]
  using X Q1 Q2
  by (auto simp: wp_rules split: option.splits intro!: wp_write_patch_exact[OF insideD(1)[OF i]])

lemma queue_within:
  assumes i: "inside u w s" and X: "\<And>e n. X e (s\<lparr>st_ticks := n\<rparr>)" and Q1: "Q None s"
    and Q2: "\<And>a n. sx_workspace a = sw_id w \<Longrightarrow> sx_id a = sh_uuid H (st_draws s)
      \<Longrightarrow> Q (Some a) (s\<lparr>st_ticks := n, st_draws := Suc (st_draws s), st_actions := jset (sx_id a) a (st_actions s)\<rparr>)"
  shows "wp (queue_ai_action H u m goal ctx) Q X s"
  unfolding queue_ai_action_def wp_bnd wp_inside[OF insideD(1)[OF i]]
  using X[of _ "st_ticks s"] X Q1 Q2
  by (auto simp: wp_rules wp_lift_e Let_def split: sum.splits intro!: wp_usage_inside[OF insideD(1)[OF i]])

lemma reads_within:
  assumes i: "inside u w s"
  shows "wp (list_store_records H u m t k) Q X s \<longleftrightarrow> Q (take k (sort_cmp (compare_page_keys (sh_env H))
       (filter (\<lambda>r. absent_or m (sd_module r) \<and> absent_or t (sd_type r) \<and> sees (sh_env H) u (workspace_for u w s) s r)
         (records_of s (sw_id w))))) s"
    and "wp (Suite_Store.get_record H u j) Q' X' s \<longleftrightarrow> Q' (case jget (st_records s) j of
              None \<Rightarrow> None
            | Some r \<Rightarrow> if sd_workspace r \<noteq> sw_id w then None else if sees (sh_env H) u (workspace_for u w s) s r then Some r else None) s"
  by (simp_all add: list_store_records_def Suite_Store.get_record_def wp_rules wp_inside[OF insideD(1)[OF i]] cong: option.case_cong)

lemma reads_keep:
  assumes i: "inside u w s"
  shows "ends (\<lambda>t. t = s) (list_store_records H u m t k) s" "ends (\<lambda>t. t = s) (Suite_Store.get_record H u j) s"
    "ends (\<lambda>t. t = s) (find_command_receipt H u ty m' a k') s" "ends (\<lambda>t. t = s) (find_approval_decision_receipt H u d) s"
    "ends (\<lambda>t. t = s) (list_workspace_members H u) s"
  using i
  by (auto simp: reads_within find_command_receipt_def find_approval_decision_receipt_def list_workspace_members_def
      wp_rules wp_inside[OF insideD(1)[OF i]] split: list.split)

section \<open>What a command may do to the records\<close>

text \<open>
  Records of the workspace are added with an additive envelope as their content, or get a new envelope laid over
  the content they have.
\<close>

inductive domain_change :: "string \<Rightarrow> (string \<Rightarrow> suite_record option) \<Rightarrow> (string \<Rightarrow> suite_record option) \<Rightarrow> bool" for i where
  added: "m (sd_id r) = None \<Longrightarrow> sd_workspace r = i \<Longrightarrow> sd_data r = record_envelope b \<Longrightarrow> domain_change i m (m(sd_id r \<mapsto> r))"
| edited: "m k = Some r \<Longrightarrow> sd_workspace r = i \<Longrightarrow> same_place r r' \<Longrightarrow> sd_data r' = spread (sd_data r) (record_envelope b)
    \<Longrightarrow> domain_change i m (m(k \<mapsto> r'))"

abbreviation domain_changes :: "string \<Rightarrow> (string \<Rightarrow> suite_record option) \<Rightarrow> (string \<Rightarrow> suite_record option) \<Rightarrow> bool" where
  "domain_changes i \<equiv> (domain_change i)\<^sup>*\<^sup>*"

definition quiet :: "suite_host \<Rightarrow> string \<Rightarrow> suite_workspace \<Rightarrow> store \<Rightarrow> store \<Rightarrow> bool" where
  "quiet H u w s0 s \<longleftrightarrow> good H s0 s \<and> inside u w s \<and> st_workspaces s = st_workspaces s0 \<and> st_members s = st_members s0
     \<and> domain_changes (sw_id w) (jget (st_records s0)) (jget (st_records s))"

lemma quietD: "quiet H u w s0 s \<Longrightarrow> good H s0 s" "quiet H u w s0 s \<Longrightarrow> inside u w s"
  by (simp_all add: quiet_def)

lemma quiet_start: "inj (sh_uuid H) \<Longrightarrow> store_ok H s \<Longrightarrow> inside u w s \<Longrightarrow> quiet H u w s s"
  by (simp add: quiet_def good_refl)

lemma quiet_frame: "quiet H u w s0 s \<Longrightarrow> quiet H u w s0 (s\<lparr>st_ticks := n\<rparr>)"
  "quiet H u w s0 s \<Longrightarrow> st_draws s \<le> n \<Longrightarrow> quiet H u w s0 (s\<lparr>st_draws := n\<rparr>)"
  by (simp_all add: quiet_def good_tick good_draw)

lemma wp_and: "wp m Q X s \<Longrightarrow> wp m Q' X' s \<Longrightarrow> wp m (\<lambda>x t. Q x t \<and> Q' x t) (\<lambda>e t. X e t \<and> X' e t) s"
  by (auto simp: wp_def split: prod.splits sum.splits)

text \<open>Of a run that is known to keep the store good, the rest is to be shown.\<close>

lemma wp_good:
  assumes "ends (good H s0) m s" and "wp m (\<lambda>x t. good H s0 t \<longrightarrow> Q x t) (\<lambda>e t. good H s0 t \<longrightarrow> X e t) s"
  shows "wp m Q X s"
  using wp_and[OF assms] by (rule wp_mono) auto

lemma create_domain:
  assumes q: "quiet H u w s0 s" and d: "input_data inp = record_envelope b"
  shows "ends (quiet H u w s0) (create_record H u inp) s"
proof (rule wp_good[OF runs_create_record[OF quietD(1)[OF q]]], rule create_within[OF quietD(2)[OF q]])
  fix r n ts
  assume r: "r = record_from_input inp (sh_uuid H (st_draws s)) (sw_id w) ts"
  have "domain_change (sw_id w) (jget (st_records s)) ((jget (st_records s))(sd_id r \<mapsto> r))"
    using fresh_record[OF quietD(1)[OF q]] d by (intro domain_change.added) (auto simp: r)
  then show "good H s0 (s\<lparr>st_ticks := n, st_draws := Suc (st_draws s), st_records := jset (sd_id r) r (st_records s)\<rparr>)
      \<longrightarrow> quiet H u w s0 (s\<lparr>st_ticks := n, st_draws := Suc (st_draws s), st_records := jset (sd_id r) r (st_records s)\<rparr>)"
    using q by (auto simp: quiet_def fun_upd_jset)
qed (use q in \<open>simp_all add: quiet_frame\<close>)

lemma update_domain:
  assumes q: "quiet H u w s0 s" and d: "rp_data p = Some (record_envelope b)"
  shows "ends (quiet H u w s0) (update_record H u k p) s"
proof (rule wp_good[OF runs_update_record[OF quietD(1)[OF q]]], rule update_within[OF quietD(2)[OF q]])
  fix r n ts
  let ?r = "(patch_record p r)\<lparr>sd_updated := ts\<rparr>"
  assume r: "jget (st_records s) k = Some r" "sd_workspace r = sw_id w"
  then have "sd_id r = k" using stored_keys(2)[OF quietD(1)[OF q]] by blast
  then have "domain_change (sw_id w) (jget (st_records s)) ((jget (st_records s))(sd_id r \<mapsto> ?r))"
    using r d by (intro domain_change.edited[of _ _ r _ _ b]) (auto simp: same_place_def patch_record_def)
  then show "good H s0 (s\<lparr>st_ticks := n, st_records := jset (sd_id r) ?r (st_records s)\<rparr>)
      \<longrightarrow> quiet H u w s0 (s\<lparr>st_ticks := n, st_records := jset (sd_id r) ?r (st_records s)\<rparr>)"
    using q by (auto simp: quiet_def fun_upd_jset)
qed (use q in \<open>simp_all add: quiet_frame\<close>)

lemma queue_quiet:
  assumes q: "quiet H u w s0 s"
  shows "ends (quiet H u w s0) (queue_ai_action H u m goal ctx) s"
proof (rule wp_good[OF runs_queue_action[OF quietD(1)[OF q]]], rule queue_within[OF quietD(2)[OF q]])
  fix a n
  show "good H s0 (s\<lparr>st_ticks := n, st_draws := Suc (st_draws s), st_actions := jset (sx_id a) a (st_actions s)\<rparr>)
      \<longrightarrow> quiet H u w s0 (s\<lparr>st_ticks := n, st_draws := Suc (st_draws s), st_actions := jset (sx_id a) a (st_actions s)\<rparr>)"
    using q by (simp add: quiet_def)
qed (use q in \<open>simp_all add: quiet_frame\<close>)

section \<open>The engine inside the adapter\<close>

definition drawing :: "bool \<Rightarrow> engine \<Rightarrow> engine \<Rightarrow> bool" where
  "drawing ok s t \<longleftrightarrow> e_draws s \<le> e_draws t"

interpretation dw: write_respecting drawing E c for E c
  by unfold_locales (auto simp: drawing_def keeps_def create_run update_run Let_def assign_at_def mark_dirty_def split: sum.split option.split)

lemma drawing_execute: "keeps drawing (execute E c m aid input)"
proof -
  have "keeps drawing (modifies clear_dirty)" "keeps drawing (draw_uuid E)" "keeps drawing (modifies (store_receipt c m a k h key x))"
    for m a k h key x by (simp_all add: keeps_def drawing_def)
  then show ?thesis
    unfolding execute_def run_action_def Let_def
    by (intro dw.rules dw.keeps_evaluate dw.keeps_unchanged[OF same_approve])
qed

definition hydrating :: "bool \<Rightarrow> engine \<Rightarrow> engine \<Rightarrow> bool" where
  "hydrating ok s t \<longleftrightarrow> e_receipts t = e_receipts s \<and> e_draws t = e_draws s"

interpretation hy: step_preorder hydrating
  by unfold_locales (auto simp: hydrating_def)

lemma hydrating_steps: "keeps hydrating (hydrate_records rs)" "keeps hydrating (hydrate_external rs)"
proof -
  have steps: "keeps hydrating (modifies (Additive_State.put_record r))"
    "keeps hydrating (modifies (\<lambda>s. s\<lparr>e_external := jset (b_id r) r (e_external s)\<rparr>))" "keeps hydrating (guard b e)" for r b e
    by (simp_all add: keeps_def hydrating_def guard_def)
  show "keeps hydrating (hydrate_records rs)" "keeps hydrating (hydrate_external rs)"
    unfolding hydrate_records_def hydrate_external_def
    by (intro hy.keeps_bnd hy.keeps_each hy.keeps_reads hy.keeps_ret steps)+
qed

lemma canonical_uuid_at: "canonical_value (E\<lparr>uuid_at := f\<rparr>) v = canonical_value E v"
proof (induction E v rule: canonical_value.induct)
  case (5 E n)
  show ?case by (cases n) (simp_all add: canonical_number_def)
next
  case (6 E xs)
  have "each_e (\<lambda>x. if x = JUndef then Inl Undefined_element else canonical_value (E\<lparr>uuid_at := f\<rparr>) x) xs
      = each_e (\<lambda>x. if x = JUndef then Inl Undefined_element else canonical_value E x) xs"
    by (rule each_e_cong[OF refl]) (use 6 in auto)
  then show ?case by simp
next
  case (7 E kvs)
  show ?case
  proof (cases "\<exists>(k, v) \<in> set (defined_entries kvs). has_nul k")
    case False
    have same: "canonical_value (E\<lparr>uuid_at := f\<rparr>) v = canonical_value E v" if "(k, v) \<in> set (defined_entries kvs)" for k v
      using 7[OF False, of "(k, v)" k v] that by simp
    have "each_e (\<lambda>(k, v). bind_e (canonical_string k) (\<lambda>kt. bind_e (canonical_value (E\<lparr>uuid_at := f\<rparr>) v) (\<lambda>vt. Inr (kt @ vt))))
          (sort_cmp key_order (defined_entries kvs))
      = each_e (\<lambda>(k, v). bind_e (canonical_string k) (\<lambda>kt. bind_e (canonical_value E v) (\<lambda>vt. Inr (kt @ vt))))
          (sort_cmp key_order (defined_entries kvs))"
      by (rule each_e_cong[OF refl]) (auto simp: same)
    then show ?thesis by simp
  qed simp
qed simp_all

lemma digest_uuid_at [simp]: "digest (E\<lparr>uuid_at := f\<rparr>) v = digest E v"
  by (simp add: digest_def canonical_text_def canonical_uuid_at)

text \<open>What the audit receipt of a fresh evaluation says.\<close>

definition audit_fits :: "string \<Rightarrow> string \<Rightarrow> string \<Rightarrow> string \<Rightarrow> obj \<Rightarrow> string \<Rightarrow> audit \<Rightarrow> bool" where
  "audit_fits i user m aid input h x \<longleftrightarrow> au_workspace x = i \<and> au_actor x = user \<and> au_module x = m \<and> au_action x = aid
     \<and> au_digest x = h \<and> (\<forall>d. au_decision_id x = Some d \<longrightarrow> key_pattern d
          \<and> (\<exists>a. action_by_key m aid = Some a \<and> a_requires_approval a \<and> oget input ''dryRun'' \<noteq> JBool True) \<and> decision_of input = Some d)"

lemma audit_of_sel:
  "au_workspace (audit_of c m a input h ap rid ts) = c_workspace c" "au_actor (audit_of c m a input h ap rid ts) = c_actor c"
  "au_module (audit_of c m a input h ap rid ts) = m" "au_action (audit_of c m a input h ap rid ts) = a_id a"
  "au_digest (audit_of c m a input h ap rid ts) = h" "au_decision_id (audit_of c m a input h ap rid ts) = map_option ap_decision ap"
  by (simp_all add: audit_of_def)

lemma approved_decision:
  assumes "approve E c a input tm g = (Inr (Some p), g')" and "well_gated a"
  shows "a_requires_approval a \<and> oget input ''dryRun'' \<noteq> JBool True \<and> key_pattern (ap_decision p) \<and> decision_of input = Some (ap_decision p)"
proof -
  from assms(1) have dry: "\<not> is_dry_run a input" and ap: "assert_approval_if_required E c a input tm = Inr (Some p)"
    by (auto simp: approve_ok split: if_splits)
  from ap have "a_requires_approval a" by (auto simp: assert_approval_if_required_def split: if_splits)
  from approval_checked[OF ap this] obtain given q where "oget input ''approval'' = JObj given" "Some p = Some q"
    "oget given ''decisionId'' = JStr (ap_decision q)" "key_pattern (ap_decision q)" by metis
  moreover have "oget input ''dryRun'' \<noteq> JBool True"
    using dry assms(2) \<open>a_requires_approval a\<close> by (auto simp: is_dry_run_def well_gated_def)
  ultimately show ?thesis using \<open>a_requires_approval a\<close> by (simp add: decision_of_def)
qed

lemma execute_audit:
  assumes "execute E c m aid input g = (Inr x, g')" and "e_receipts g = []"
  shows "\<exists>h. input_digest E c input = Inr h \<and> audit_fits (c_workspace c) (c_actor c) m aid input h (x_audit x)"
  using assms(1)
proof (cases rule: execute_cases)
  case (Replayed a h model)
  then show ?thesis using assms(2) by (auto simp: find_replay_def split: option.splits)
next
  case (Ran a h model)
  note act = authorize_action[OF Ran(1)] authorize_cases(2)[OF Ran(1)]
  obtain tm ap bd and u :: engine where ap: "approve E c a input tm (clear_dirty g) = (Inr ap, clear_dirty g)"
    and x: "x = \<lparr>x_body = bd, x_audit = audit_of c m a input h ap (uuid_at E (e_draws u)) (iso_text E tm)\<rparr>"
    by (rule run_action_cases[OF Ran(5)]) blast
  have "key_pattern (ap_decision p) \<and> a_requires_approval a \<and> oget input ''dryRun'' \<noteq> JBool True \<and> decision_of input = Some (ap_decision p)"
    if "ap = Some p" for p using approved_decision[of E c a input tm _ p] ap act that by blast
  then show ?thesis using Ran(2) act x by (auto simp: audit_fits_def audit_of_sel)
qed

lemma hydrated_execute:
  "wp (bnd (hydrate_records rs) (\<lambda>_. bnd (hydrate_external ev) (\<lambda>_. execute E c m aid input)))
     (\<lambda>x g. e_draws s \<le> e_draws g \<and> (\<exists>h. input_digest E c input = Inr h \<and> audit_fits (c_workspace c) (c_actor c) m aid input h (x_audit x)))
     (\<lambda>_ g. e_draws s \<le> e_draws g) s" if "e_receipts s = []"
proof -
  have hyd: "wp m (\<lambda>_ t. hydrating True s0 t) (\<lambda>_ t. e_draws s0 \<le> e_draws t) s0" if "keeps hydrating m" for m :: "unit eng" and s0
    using keepsD[OF that] by (auto simp: wp_def hydrating_def split: prod.splits sum.splits)
  have exec: "wp (execute E c m aid input) (\<lambda>x g. e_draws s \<le> e_draws g \<and> (\<exists>h. input_digest E c input = Inr h
      \<and> audit_fits (c_workspace c) (c_actor c) m aid input h (x_audit x))) (\<lambda>_ g. e_draws s \<le> e_draws g) t" if "e_receipts t = []" "e_draws t = e_draws s" for t
  proof (rule wpI)
    fix x g assume run: "execute E c m aid input t = (Inr x, g)"
    from keepsD[OF drawing_execute this] execute_audit[OF this] that
    show "e_draws s \<le> e_draws g \<and> (\<exists>h. input_digest E c input = Inr h \<and> audit_fits (c_workspace c) (c_actor c) m aid input h (x_audit x))"
      by (simp add: drawing_def)
  next
    fix e g assume "execute E c m aid input t = (Inl e, g)"
    from keepsD[OF drawing_execute this] that show "e_draws s \<le> e_draws g" by (simp add: drawing_def)
  qed
  show ?thesis
    unfolding wp_bnd
  proof (rule wp_mono[OF hyd[OF hydrating_steps(1), of rs s]])
    fix x t assume "hydrating True s t"
    then show "wp (hydrate_external ev) (\<lambda>x. wp (execute E c m aid input) (\<lambda>x g. e_draws s \<le> e_draws g \<and> (\<exists>h. input_digest E c input = Inr h
      \<and> audit_fits (c_workspace c) (c_actor c) m aid input h (x_audit x))) (\<lambda>_ g. e_draws s \<le> e_draws g)) (\<lambda>_ g. e_draws s \<le> e_draws g) t"
      using that by (intro wp_mono[OF hyd[OF hydrating_steps(2)]] exec) (auto simp: hydrating_def)
  qed
qed

section \<open>From loading to the response\<close>

lemma wp_each_inv:
  assumes "\<And>x s. x \<in> set xs \<Longrightarrow> I s \<Longrightarrow> wp (f x) (\<lambda>y t. I t \<and> P y) (\<lambda>_. I) s"
  shows "I s \<Longrightarrow> wp (each f xs) (\<lambda>ys t. I t \<and> (\<forall>y \<in> set ys. P y)) (\<lambda>_. I) s"
  using assms
proof (induction xs arbitrary: s)
  case (Cons x xs)
  have "wp (f x) (\<lambda>y t. I t \<and> P y) (\<lambda>_. I) s" using Cons.prems by simp
  then have "wp (f x) (\<lambda>y. wp (bnd (each f xs) (\<lambda>ys. ret (y # ys))) (\<lambda>ys t. I t \<and> (\<forall>y \<in> set ys. P y)) (\<lambda>_. I)) (\<lambda>_. I) s"
  proof (rule wp_mono)
    fix y t assume y: "I t \<and> P y"
    then have "wp (each f xs) (\<lambda>ys t. I t \<and> (\<forall>y \<in> set ys. P y)) (\<lambda>_. I) t" using Cons by simp
    then show "wp (bnd (each f xs) (\<lambda>ys. ret (y # ys))) (\<lambda>ys t. I t \<and> (\<forall>y \<in> set ys. P y)) (\<lambda>_. I) t"
      unfolding wp_bnd using y by (elim wp_mono) (simp_all add: wp_rules)
  qed
  then show ?case by (simp only: each.simps wp_bnd)
qed (simp add: wp_rules)

lemma load_targets_keep:
  assumes "inside (az_user auth) w s"
  shows "ends (\<lambda>t. t = s) (load_targets H auth v ids) s"
proof -
  have "wp (bnd (on_store (Suite_Store.get_record H (az_user auth) i)) (\<lambda>r. ret (case r of None \<Rightarrow> [] | Some r \<Rightarrow> if readable H auth v r then [r] else [])))
      (\<lambda>x t. t = s \<and> True) (\<lambda>_ t. t = s) t" if "t = s" for i t
    using assms that by (simp add: wp_rules reads_within(2))
  then have "wp (each (\<lambda>i. bnd (on_store (Suite_Store.get_record H (az_user auth) i)) (\<lambda>r. ret (case r of None \<Rightarrow> [] | Some r \<Rightarrow> if readable H auth v r then [r] else []))) ids)
      (\<lambda>ys t. t = s \<and> (\<forall>y \<in> set ys. True)) (\<lambda>_ t. t = s) s"
    by (intro wp_each_inv) auto
  then show ?thesis unfolding load_targets_def wp_bnd by (elim wp_mono) (simp_all add: wp_rules)
qed

lemma load_keeps:
  assumes i: "inside (az_user auth) w s"
  shows "ends (\<lambda>t. t = s) (load_records H auth m aid input v) s"
proof -
  note targets = load_targets_keep[OF i]
  have mod: "ends (\<lambda>t. t = s) (load_module H auth m v) s"
    by (simp add: load_module_def wp_rules reads_within(1)[OF i])
  show ?thesis
    unfolding load_records_def wp_bnd Let_def wp_lift_e
    by (rule wp_mono[OF mod])
      (auto simp: wp_rules wp_lift_e intro!: wp_mono[OF targets] split: sum.split)
qed

lemma command_digest_eq: "input_digest (engine_env H) c input = Inr h \<Longrightarrow> c_workspace c = sw_id v \<Longrightarrow> c_actor c = az_user auth
    \<Longrightarrow> command_digest (sh_env H) auth v input = Inr h"
  by (auto simp: input_digest_def command_digest_def adapter_digest_def engine_env_def split: sum.splits)

lemma evaluate_quiet:
  assumes q: "quiet H u w s0 s" and h: "command_digest (sh_env H) auth v input = Inr h"
  shows "wp (evaluate_in_store H auth m aid input deps v members model loaded)
     (\<lambda>p t. quiet H u w s0 t \<and> audit_fits (sw_id v) (az_user auth) m aid input h (x_audit (fst p))) (\<lambda>_. quiet H u w s0) s"
proof -
  have fit: "wp (evaluate_loaded H (engine_ctx auth v members model clock) m aid input rs ev)
     (\<lambda>p t. quiet H u w s0 t \<and> audit_fits (sw_id v) (az_user auth) m aid input h (x_audit (fst p))) (\<lambda>_. quiet H u w s0) t"
    if "quiet H u w s0 t" for clock rs ev t
    unfolding evaluate_loaded_def wp_on_engine
    using that h by (intro wp_mono[OF hydrated_execute])
      (auto simp: empty_engine_def quiet_frame engine_ctx_def dest!: command_digest_eq[where auth = auth and v = v])
  show ?thesis
    unfolding evaluate_in_store_def
    using q by (auto simp: wp_rules wp_lift_e adapter_clock_def date_now_def quiet_frame intro!: fit split: sum.splits option.splits)
qed

end
