(* ===== verification/Adapter_Commits.thy ===== *)
theory Adapter_Commits
  imports Adapter_Runs
begin

text \<open>
  What a command of the store adapter commits: the changed records, the response they are shown in, and the
  receipt that keeps the response under the idempotency key.
\<close>

section \<open>Writing back\<close>

lemma fold_jset_get: "jget (fold (\<lambda>(i, p). jset i (f p)) ps m) k = Some v \<Longrightarrow> jget m k = Some v \<or> (\<exists>p \<in> snd ` set ps. v = f p)"
proof (induction ps arbitrary: m)
  case (Cons q ps)
  obtain j p where q: "q = (j, p)" by fastforce
  from Cons.prems have "jget (fold (\<lambda>(i, p). jset i (f p)) ps (jset j (f p) m)) k = Some v" by (simp add: q)
  from Cons.IH[OF this] show ?case by (auto simp: q jget_jset split: if_splits)
qed simp

lemma rehash_ok: "rehash E r = Inr r' \<Longrightarrow> record_digest E r' = Inr (b_hash r') \<and> b_workspace r' = b_workspace r"
  by (auto simp: rehash_def bind_e_Inr_iff adapter_digest_def record_digest_def split: sum.splits)

definition sound :: "suite_host \<Rightarrow> suite_workspace \<Rightarrow> brecord \<Rightarrow> bool" where
  "sound H w r \<longleftrightarrow> b_workspace r = sw_id w \<and> record_digest (sh_env H) r = Inr (b_hash r)"

lemma persisted_sound: "persisted_record (sh_env H) v ids r = Inr p \<Longrightarrow> sw_id v = sw_id w \<Longrightarrow> sound H w p"
  unfolding persisted_record_def sound_def by (drule rehash_ok) simp

lemma write_envelope_quiet:
  assumes q: "quiet H u w s0 s"
  shows "ends (quiet H u w s0) (write_envelope H u i title st r e) s"
  unfolding write_envelope_def wp_bnd wp_on_store
  by (rule wp_mono[OF update_domain[OF q, of _ r]]) (simp_all add: wp_rules)

lemma persist_target_quiet:
  assumes q: "quiet H u w s0 s"
  shows "wp (persist_target H u loaded r) (\<lambda>_ t. quiet H u w s0 t \<and> True) (\<lambda>_. quiet H u w s0) s"
proof -
  have "ends (quiet H u w s0) (create_record H u \<lparr>ri_id = None, ri_module = b_module r, ri_type = b_type r, ri_title = b_title r,
      ri_state = Some (b_state r), ri_data = Some (record_envelope r)\<rparr>) s"
    by (rule create_domain[OF q, of _ r]) (simp add: input_data_def)
  then show ?thesis
    unfolding persist_target_def wp_bnd wp_lift_e
    using q by (auto simp: wp_rules wp_lift_e split: sum.splits option.splits elim!: wp_mono)
qed

lemma persist_record_quiet:
  assumes q: "quiet H u w s0 s" and v: "sw_id v = sw_id w"
  shows "wp (persist_record H u v targets r) (\<lambda>p t. quiet H u w s0 t \<and> sound H w (snd p)) (\<lambda>_. quiet H u w s0) s"
  unfolding persist_record_def
  using q persisted_sound[OF _ v]
  by (auto simp: wp_rules wp_lift_e split: sum.splits option.splits intro!: wp_mono[OF write_envelope_quiet[OF q]])

lemma persist_changes_quiet:
  assumes q: "quiet H u w s0 s" and v: "sw_id v = sw_id w"
  shows "wp (persist_changes H u v loaded changed shown) (\<lambda>p t. quiet H u w s0 t \<and> (\<forall>r \<in> set (snd p). sound H w r)) (\<lambda>_. quiet H u w s0) s"
proof -
  have targets: "wp (each (persist_target H u (record_map loaded)) changed) (\<lambda>ys t. quiet H u w s0 t \<and> (\<forall>y \<in> set ys. True)) (\<lambda>_. quiet H u w s0) s"
    by (rule wp_each_inv) (use q persist_target_quiet in auto)
  have records: "wp (each (persist_record H u v ts) changed) (\<lambda>ys t. quiet H u w s0 t \<and> (\<forall>y \<in> set ys. sound H w (snd y))) (\<lambda>_. quiet H u w s0) t"
    if "quiet H u w s0 t" for ts t
    by (rule wp_each_inv) (use that persist_record_quiet[OF _ v] in auto)
  have out: "wp (each (\<lambda>r. must ResponseLost (jget (fold (\<lambda>(i, p). jset i p) ps []) (b_id r))) shown)
      (\<lambda>ys t. quiet H u w s0 t \<and> (\<forall>y \<in> set ys. sound H w y)) (\<lambda>_. quiet H u w s0) t"
    if "quiet H u w s0 t" "\<forall>y \<in> set ps. sound H w (snd y)" for ps t
    by (rule wp_each_inv)
      (use that in \<open>auto simp: wp_rules split: option.split dest!: fold_jset_get[where f = "\<lambda>x. x"]\<close>)
  show ?thesis
    unfolding persist_changes_def wp_bnd
    by (rule wp_mono[OF targets]) (auto simp: wp_rules intro!: wp_mono[OF records] wp_mono[OF out])
qed

lemma queue_proposal_quiet:
  assumes q: "quiet H u w s0 s" and out: "\<forall>r \<in> set out. sound H w r"
  shows "wp (queue_proposal H u m model out) (\<lambda>p t. quiet H u w s0 t \<and> sound H w (fst p)) (\<lambda>_. quiet H u w s0) s"
proof (cases "first_such (\<lambda>r. b_type r = ''ai-proposal-request'') out")
  case (Some p)
  have p: "b_workspace p = sw_id w" using first_such_Some[OF Some] out by (auto simp: sound_def)
  have rehashed: "rehash (sh_env H) (p\<lparr>b_data := d\<rparr>) = Inr r \<Longrightarrow> sound H w r" for d r
    using p by (auto simp: sound_def dest!: rehash_ok)
  show ?thesis
    unfolding queue_proposal_def Some
    by (auto simp: wp_rules wp_lift_e split: option.splits sum.splits
        intro!: wp_mono[OF queue_quiet[OF q]] wp_mono[OF write_envelope_quiet] rehashed)
qed (use q in \<open>simp add: queue_proposal_def wp_rules\<close>)

text \<open>A response shows records of the workspace that carry the digest of their content, and the audit of the evaluation.\<close>

definition response_fits :: "suite_host \<Rightarrow> suite_workspace \<Rightarrow> exec_result \<Rightarrow> response \<Rightarrow> bool" where
  "response_fits H w x y \<longleftrightarrow> re_kind y = kind_name (o_kind (x_body x)) \<and> re_audit y = audit_json (x_audit x)
     \<and> (\<exists>p. re_preview y = preview_json p) \<and> (\<exists>rs. re_records y = map brecord_json rs \<and> (\<forall>r \<in> set rs. sound H w r))"

lemma remap_preview: "\<exists>q. remap_ids ids (preview_json p) = preview_json q"
proof (cases p)
  case (Some d)
  then have "remap_ids ids (preview_json p) = preview_json (Some (map (\<lambda>(k, v). (k, remap_ids ids v)) d))"
    by (simp add: preview_json_def)
  then show ?thesis by blast
qed (auto simp: preview_json_def intro: exI[of _ None])

lemma commit_quiet:
  assumes q: "quiet H (az_user auth) w s0 s" and v: "sw_id v = sw_id w"
  shows "wp (commit_evaluated H auth m a input v model loaded p) (\<lambda>y t. quiet H (az_user auth) w s0 t \<and> response_fits H w (fst p) y)
     (\<lambda>_. quiet H (az_user auth) w s0) s"
proof -
  obtain x g where p: "p = (x, g)" by fastforce
  have plain: "response_fits H w x (response_of x\<lparr>re_records := map brecord_json out, re_preview := remap_ids ids (preview_json o')\<rparr>)"
    if "\<forall>r \<in> set out. sound H w r" for out ids o'
    using that remap_preview unfolding response_fits_def response_of_def by auto
  have queued: "response_fits H w x (response_of x\<lparr>re_records := map (\<lambda>r. brecord_json (if b_id r = b_id q then q else r)) out,
      re_preview := queued_preview pv i j\<rparr>)" if "\<forall>r \<in> set out. sound H w r" "sound H w q" for out q pv i j
  proof -
    have "map (\<lambda>r. brecord_json (if b_id r = b_id q then q else r)) out = map brecord_json (map (\<lambda>r. if b_id r = b_id q then q else r) out)"
      by simp
    moreover have "\<exists>d. queued_preview pv i j = preview_json d"
      unfolding queued_preview_def preview_json_def by (rule exI[of _ "Some _"]) simp
    ultimately show ?thesis
      using that unfolding response_fits_def response_of_def
      by (auto intro!: exI[of _ "map (\<lambda>r. if b_id r = b_id q then q else r) out"])
  qed
  show ?thesis
    unfolding commit_evaluated_def p prod.case wp_bnd Let_def
    using q by (auto simp: wp_rules Let_def plain queued
        intro!: wp_mono[OF persist_changes_quiet[OF q v]] wp_mono[OF queue_proposal_quiet])
qed

section \<open>The receipt\<close>

text \<open>A finished receipt of a response, as it lies in the store.\<close>

definition receipt_of :: "suite_host \<Rightarrow> authorization \<Rightarrow> suite_workspace \<Rightarrow> string \<Rightarrow> string \<Rightarrow> string \<Rightarrow> string \<Rightarrow> response \<Rightarrow> suite_record \<Rightarrow> bool" where
  "receipt_of H auth w m aid k h y r \<longleftrightarrow> sd_workspace r = sw_id w \<and> sd_module r = m \<and> sd_type r = ''additive-command-receipt''
     \<and> oget (sd_data r) ''additiveContract'' = JStr receipt_contract \<and> oget (sd_data r) ''actionId'' = JStr aid
     \<and> oget (sd_data r) ''idempotencyKey'' = JStr k \<and> oget (sd_data r) ''actorUserId'' = JStr (az_user auth)
     \<and> oget (sd_data r) ''inputDigest'' = JStr h
     \<and> oget (sd_data r) ''approvalDecisionId'' = oget (re_audit y) ''approvalDecisionId''
     \<and> oget (re_audit y) ''receiptId'' = JStr (sd_id r)
     \<and> (\<exists>d. receipt_snapshot (sh_env H) y = Inr d \<and> oget (sd_data r) ''result'' = JObj d)"

definition filed :: "response \<Rightarrow> string \<Rightarrow> response" where
  "filed x i = x\<lparr>re_audit := spread (re_audit x) [(''receiptId'', JStr i)]\<rparr>"

text \<open>The records after a receipt was kept: those before and the finished receipt under an unused identifier.\<close>

definition receipt_kept :: "suite_host \<Rightarrow> authorization \<Rightarrow> suite_workspace \<Rightarrow> string \<Rightarrow> string \<Rightarrow> string \<Rightarrow> string \<Rightarrow> store \<Rightarrow> response \<Rightarrow> store \<Rightarrow> bool" where
  "receipt_kept H auth w m aid k h s y t \<longleftrightarrow> (\<exists>r. receipt_of H auth w m aid k h y r \<and> jget (st_records s) (sd_id r) = None
     \<and> jget (st_records t) = (jget (st_records s))(sd_id r \<mapsto> r))"

lemma same_maps: "good H s0 t \<Longrightarrow> inside u w s \<Longrightarrow> st_workspaces t = st_workspaces s \<Longrightarrow> st_members t = st_members s
    \<Longrightarrow> st_active t = st_active s \<Longrightarrow> inside u w t"
proof -
  assume *: "inside u w s" "st_workspaces t = st_workspaces s" "st_members t = st_members s" "st_active t = st_active s"
  then have "base_workspace u t = base_workspace u s" by (simp add: base_workspace_def cong: option.case_cong)
  with * show ?thesis by (simp add: inside_def)
qed

lemma filed_sel [simp]:
  "oget (re_audit (filed x i)) k = (if k = ''receiptId'' then JStr i else oget (re_audit x) k)"
  "re_kind (filed x i) = re_kind x" "re_records (filed x i) = re_records x" "re_preview (filed x i) = re_preview x"
  by (simp_all add: filed_def oget_oset)

text \<open>The content of a finished receipt.\<close>

definition final_data :: "authorization \<Rightarrow> string \<Rightarrow> string \<Rightarrow> string \<Rightarrow> response \<Rightarrow> obj \<Rightarrow> obj" where
  "final_data auth aid k h x d = [(''additiveContract'', JStr receipt_contract), (''actionId'', JStr aid),
     (''idempotencyKey'', JStr k), (''actorUserId'', JStr (az_user auth)), (''inputDigest'', JStr h),
     (''approvalDecisionId'', oget (re_audit x) ''approvalDecisionId''), (''result'', JObj d)]"

lemma finished_data:
  "oset ''result'' (JObj d') (receipt_data auth aid k h x d) = final_data auth aid k h x d'"
  "spread (receipt_data auth aid k h x d) (final_data auth aid k h x d') = final_data auth aid k h x d'"
  by (simp_all add: receipt_data_def final_data_def oset_def)

lemma keep_receipt_run:
  assumes q: "quiet H (az_user auth) w s0 s"
  shows "wp (keep_receipt H auth m a aid k h x)
     (\<lambda>y t. good H s0 t \<and> st_workspaces t = st_workspaces s0 \<and> st_members t = st_members s0
        \<and> (\<exists>i. y = filed x i) \<and> receipt_kept H auth w m aid k h s y t)
     (\<lambda>_. good H s0) s"
proof (cases "receipt_snapshot (sh_env H) x")
  case (Inl e)
  then show ?thesis using q by (simp add: keep_receipt_def wp_rules wp_lift_e quiet_def)
next
  case (Inr d)
  let ?u = "az_user auth" and ?D = "receipt_data auth aid k h x d"
  let ?p = "\<lambda>d'. \<lparr>rp_title = None, rp_state = None, rp_data = Some (spread ?D [(''result'', JObj d')])\<rparr>"
  let ?done = "\<lambda>r. bnd (lift_e (receipt_snapshot (sh_env H) (filed x (sd_id r)))) (\<lambda>d'.
        bnd (on_store (update_record H ?u (sd_id r) (?p d'))) (\<lambda>updated. bnd (demand (updated \<noteq> None) ReceiptNotFinal) (\<lambda>_. ret (filed x (sd_id r)))))"
  let ?Q = "\<lambda>y t. good H s0 t \<and> st_workspaces t = st_workspaces s0 \<and> st_members t = st_members s0
        \<and> (\<exists>i. y = filed x i) \<and> receipt_kept H auth w m aid k h s y t"
  have finish: "wp (?done r) ?Q (\<lambda>_. good H s0) t"
    if r: "r = record_from_input (receipt_input m a x ?D) i (sw_id w) ts" and new: "jget (st_records s) i = None"
      and t: "good H s0 t" "st_workspaces t = st_workspaces s" "st_members t = st_members s" "st_active t = st_active s"
        "st_records t = jset i r (st_records s)" for r i ts t
  proof -
    have ins: "inside ?u w t" using same_maps[OF t(1) quietD(2)[OF q] t(2-4)] .
    have upd: "wp (update_record H ?u (sd_id r) (?p d')) (\<lambda>o' v. o' \<noteq> None \<longrightarrow> ?Q (filed x (sd_id r)) v) (\<lambda>_ _. True) t"
      if d': "receipt_snapshot (sh_env H) (filed x (sd_id r)) = Inr d'" for d'
    proof (rule wp_good[OF runs_update_record[OF t(1)]], rule update_within[OF ins])
      fix r0 n ts'
      let ?r = "(patch_record (?p d') r0)\<lparr>sd_updated := ts'\<rparr>"
      assume "jget (st_records t) (sd_id r) = Some r0"
      then have r0: "r0 = r" using r t(5) by (simp add: jget_jset)
      have data: "sd_data ?r = final_data auth aid k h x d'"
        by (simp add: r0 r patch_record_def receipt_input_def input_data_def finished_data)
      have "receipt_of H auth w m aid k h (filed x (sd_id r)) ?r"
        using d' data by (simp add: receipt_of_def final_data_def) (simp add: r0 r receipt_input_def)
      moreover have "(jget (jset i r (st_records s)))(i \<mapsto> ?r) = (jget (st_records s))(i \<mapsto> ?r)" by (auto simp: jget_jset fun_eq_iff)
      ultimately show "good H s0 (t\<lparr>st_ticks := n, st_records := jset (sd_id r0) ?r (st_records t)\<rparr>) \<longrightarrow> Some ?r \<noteq> None
          \<longrightarrow> ?Q (filed x (sd_id r)) (t\<lparr>st_ticks := n, st_records := jset (sd_id r0) ?r (st_records t)\<rparr>)"
        using t q new by (auto simp: quiet_def receipt_kept_def fun_upd_jset r0 r intro!: exI[of _ ?r])
    qed simp_all
    show ?thesis
    proof (cases "receipt_snapshot (sh_env H) (filed x (sd_id r))")
      case (Inr d')
      show ?thesis
        unfolding wp_bnd wp_lift_e wp_on_store Inr sum.case
        by (rule wp_mono[OF wp_and[OF runs_update_record[OF t(1)] upd[OF Inr]]]) (auto simp: wp_rules)
    qed (use t(1) in \<open>simp add: wp_rules wp_lift_e\<close>)
  qed
  have "wp (create_record H ?u (receipt_input m a x ?D)) (\<lambda>o' t. case o' of None \<Rightarrow> good H s0 t | Some r \<Rightarrow> wp (?done r) ?Q (\<lambda>_. good H s0) t)
      (\<lambda>_. good H s0) s"
  proof (rule wp_good[OF runs_create_record[OF quietD(1)[OF q]]], rule create_within[OF quietD(2)[OF q]])
    fix r n ts
    let ?t = "s\<lparr>st_ticks := n, st_draws := Suc (st_draws s), st_records := jset (sd_id r) r (st_records s)\<rparr>"
    assume r: "r = record_from_input (receipt_input m a x ?D) (sh_uuid H (st_draws s)) (sw_id w) ts"
    have "wp (?done r) ?Q (\<lambda>_. good H s0) ?t" if "good H s0 ?t"
      by (rule finish[OF r fresh_record[OF quietD(1)[OF q]] that]) (simp_all add: r)
    then show "good H s0 ?t \<longrightarrow> (case Some r of None \<Rightarrow> good H s0 ?t | Some r \<Rightarrow> wp (?done r) ?Q (\<lambda>_. good H s0) ?t)"
      by (simp only: option.case) (rule impI)
  qed simp_all
  then show ?thesis
    unfolding keep_receipt_def Inr Let_def wp_bnd wp_lift_e sum.case wp_on_store filed_def[symmetric]
  proof (rule wp_mono, goal_cases)
    case (1 o' t)
    then show ?case by (cases o') (simp_all only: wp_must option.case)
  qed
qed

section \<open>The whole command\<close>

definition decision_taken :: "store \<Rightarrow> string \<Rightarrow> string \<Rightarrow> bool" where
  "decision_taken s i d \<longleftrightarrow> (\<exists>r \<in> set (records_of s i). sd_type r \<in> set command_receipt_types
     \<and> oget (sd_data r) ''approvalDecisionId'' = JStr d)"

lemma check_decision_run:
  assumes i: "inside (az_user auth) w s"
  shows "wp (check_decision H auth a input) (\<lambda>_ t. t = s \<and> (\<forall>d. decision_of input = Some d \<longrightarrow> a_requires_approval a
      \<longrightarrow> oget input ''dryRun'' \<noteq> JBool True \<longrightarrow> \<not> decision_taken s (sw_id w) d)) (\<lambda>_ t. t = s) s"
  by (auto simp: check_decision_def find_approval_decision_receipt_def wp_rules wp_inside[OF insideD(1)[OF i]]
      first_such_None decision_taken_def split: option.split)

text \<open>What a command that ran leaves: a response, and under its key the receipt of that response.\<close>

definition response_kept ::
  "suite_host \<Rightarrow> authorization \<Rightarrow> suite_workspace \<Rightarrow> string \<Rightarrow> string \<Rightarrow> obj \<Rightarrow> string \<Rightarrow> string \<Rightarrow> store \<Rightarrow> response \<Rightarrow> store \<Rightarrow> bool" where
  "response_kept H auth w m aid input k h s y t \<longleftrightarrow> (\<exists>s1 x y0 i. quiet H (az_user auth) w s s1 \<and> response_fits H w x y0 \<and> y = filed y0 i
     \<and> audit_fits (sw_id w) (az_user auth) m aid input h (x_audit x) \<and> receipt_kept H auth w m aid k h s1 y t)"

lemma run_fresh_run:
  assumes ok: "inj (sh_uuid H)" "store_ok H s" and i: "inside (az_user auth) w s" and v: "sw_id v = sw_id w"
    and h: "command_digest (sh_env H) auth v input = Inr h"
  shows "wp (run_fresh H auth m aid input deps v a model members key h)
     (\<lambda>y t. good H s t \<and> st_workspaces t = st_workspaces s \<and> st_members t = st_members s
        \<and> (\<forall>d. decision_of input = Some d \<longrightarrow> a_requires_approval a \<longrightarrow> oget input ''dryRun'' \<noteq> JBool True \<longrightarrow> \<not> decision_taken s (sw_id w) d)
        \<and> (case key of None \<Rightarrow> quiet H (az_user auth) w s t | Some k \<Rightarrow> response_kept H auth w m aid input k h s y t))
     (\<lambda>_. good H s) s"
proof -
  note start = quiet_start[OF ok i]
  have commit: "wp (bnd (commit_evaluated H auth m a input v model loaded p) (\<lambda>x. case key of None \<Rightarrow> ret x | Some k \<Rightarrow> keep_receipt H auth m a aid k h x))
     (\<lambda>y t. good H s t \<and> st_workspaces t = st_workspaces s \<and> st_members t = st_members s
        \<and> (case key of None \<Rightarrow> quiet H (az_user auth) w s t | Some k \<Rightarrow> response_kept H auth w m aid input k h s y t))
     (\<lambda>_. good H s) t"
    if q: "quiet H (az_user auth) w s t" and fits: "audit_fits (sw_id w) (az_user auth) m aid input h (x_audit (fst p))" for loaded p t
    unfolding wp_bnd
  proof (rule wp_mono[OF commit_quiet[OF q v]], goal_cases)
    case (1 y t1)
    then show ?case
    proof (cases key)
      case (Some k)
      then show ?thesis
        using 1 fits by (auto simp: response_kept_def intro!: wp_mono[OF keep_receipt_run])
    qed (auto simp: wp_rules quiet_def)
  qed (simp add: quiet_def)
  have rest: "wp (bnd (load_records H auth m aid input v) (\<lambda>loaded.
     bnd (evaluate_in_store H auth m aid input deps v members model loaded) (\<lambda>evaluated.
     bnd (case key of None \<Rightarrow> ret [] | Some _ \<Rightarrow> lift_e (receipt_snapshot (sh_env H) (response_of (fst evaluated)))) (\<lambda>_.
     bnd (commit_evaluated H auth m a input v model loaded evaluated) (\<lambda>x.
     case key of None \<Rightarrow> ret x | Some k \<Rightarrow> keep_receipt H auth m a aid k h x)))))
     (\<lambda>y t. good H s t \<and> st_workspaces t = st_workspaces s \<and> st_members t = st_members s
        \<and> (case key of None \<Rightarrow> quiet H (az_user auth) w s t | Some k \<Rightarrow> response_kept H auth w m aid input k h s y t))
     (\<lambda>_. good H s) s"
    unfolding wp_bnd[of "load_records H auth m aid input v"]
  proof (rule wp_mono[OF load_keeps[OF i]], goal_cases)
    case (1 loaded t)
    then have q: "quiet H (az_user auth) w s t" using start by simp
    show ?case
      unfolding wp_bnd[of "evaluate_in_store H auth m aid input deps v members model loaded"]
    proof (rule wp_mono[OF evaluate_quiet[OF q h]], goal_cases)
      case (1 p t1)
      then have "good H s t1" by (simp add: quiet_def)
      moreover from 1 have "quiet H (az_user auth) w s t1" "audit_fits (sw_id w) (az_user auth) m aid input h (x_audit (fst p))"
        by (simp_all add: v)
      note commit[OF this, of loaded]
      ultimately show ?case
        unfolding wp_bnd[of "case key of None \<Rightarrow> _ | Some _ \<Rightarrow> _"]
        by (cases key) (auto simp: wp_ret wp_lift_e split: sum.split)
    qed (simp add: quiet_def)
  qed (use start in \<open>auto simp: quiet_def\<close>)
  show ?thesis
    unfolding run_fresh_def wp_bnd[of "check_decision H auth a input"]
    by (rule wp_mono[OF check_decision_run[OF i]]) (use rest start in \<open>auto simp: quiet_def elim: wp_mono\<close>)
qed

definition receipts_under :: "store \<Rightarrow> string \<Rightarrow> string \<Rightarrow> string \<Rightarrow> string \<Rightarrow> suite_record list" where
  "receipts_under s i m aid k = filter (\<lambda>r. sd_type r = ''additive-command-receipt'' \<and> sd_module r = m
     \<and> oget (sd_data r) ''actionId'' = JStr aid \<and> oget (sd_data r) ''idempotencyKey'' = JStr k) (records_of s i)"

definition acting_here :: "authorization \<Rightarrow> suite_workspace \<Rightarrow> store \<Rightarrow> bool" where
  "acting_here auth w s \<longleftrightarrow> (\<exists>p \<in> set (st_members s). fst p = az_user auth \<and> mb_role (snd p) = az_role auth
     \<and> map_option sw_id (jget (st_workspaces s) (mb_owner (snd p))) = Some (sw_id w))"

text \<open>The guards before the idempotency key is looked up.\<close>

definition admitted :: "suite_host \<Rightarrow> authorization \<Rightarrow> string \<Rightarrow> string \<Rightarrow> obj \<Rightarrow> store_deps \<Rightarrow> suite_workspace \<Rightarrow> store
    \<Rightarrow> action \<Rightarrow> string option \<Rightarrow> string \<Rightarrow> string option \<Rightarrow> bool" where
  "admitted H auth m aid input deps w s a model h key \<longleftrightarrow> admit auth m aid input deps (workspace_for (az_user auth) w s) = Inr (a, model)
     \<and> acting_here auth w s \<and> command_digest (sh_env H) auth w input = Inr h \<and> command_key (sh_env H) a input = Inr key
     \<and> (\<forall>k. key = Some k \<longrightarrow> command_receipt_lookup_ok ''additive-command-receipt'' m aid k)"

definition replays :: "suite_host \<Rightarrow> authorization \<Rightarrow> suite_workspace \<Rightarrow> string \<Rightarrow> string \<Rightarrow> string option \<Rightarrow> string \<Rightarrow> store \<Rightarrow> response \<Rightarrow> bool" where
  "replays H auth w m aid key h s y \<longleftrightarrow> (\<exists>k r. key = Some k \<and> receipts_under s (sw_id w) m aid k = [r]
     \<and> oget (sd_data r) ''actorUserId'' = JStr (az_user auth) \<and> oget (sd_data r) ''inputDigest'' = JStr h
     \<and> stored_receipt_result (sh_env H) r (az_user auth) = Inr y)"

definition ran_fresh :: "suite_host \<Rightarrow> authorization \<Rightarrow> suite_workspace \<Rightarrow> string \<Rightarrow> string \<Rightarrow> obj \<Rightarrow> string option \<Rightarrow> string \<Rightarrow> action \<Rightarrow> store
    \<Rightarrow> response \<Rightarrow> store \<Rightarrow> bool" where
  "ran_fresh H auth w m aid input key h a s y t \<longleftrightarrow> good H s t \<and> st_workspaces t = st_workspaces s \<and> st_members t = st_members s
     \<and> (\<forall>d. decision_of input = Some d \<longrightarrow> a_requires_approval a \<longrightarrow> oget input ''dryRun'' \<noteq> JBool True \<longrightarrow> \<not> decision_taken s (sw_id w) d)
     \<and> (case key of None \<Rightarrow> quiet H (az_user auth) w s t
        | Some k \<Rightarrow> receipts_under s (sw_id w) m aid k = [] \<and> response_kept H auth w m aid input k h s y t)"

definition members_in :: "suite_host \<Rightarrow> suite_workspace \<Rightarrow> store \<Rightarrow> suite_member list" where
  "members_in H w s = sort_cmp (by_created (sh_env H) sb_created) (map (\<lambda>(u, m). \<lparr>sb_user = u, sb_role = mb_role m, sb_created = mb_created m\<rparr>)
     (filter (\<lambda>(_, m). map_option sw_id (jget (st_workspaces s) (mb_owner m)) = Some (sw_id w)) (st_members s)))"

lemma members_run:
  assumes "inside u w s"
  shows "wp (list_workspace_members H u) Q X s = Q (members_in H w s) s"
  by (simp add: list_workspace_members_def wp_rules wp_inside[OF insideD(1)[OF assms]] members_in_def)

lemma members_acting: "(\<exists>b \<in> set (members_in H w s). sb_user b = az_user auth \<and> sb_role b = az_role auth) \<longleftrightarrow> acting_here auth w s"
  by (force simp: members_in_def acting_here_def)

lemma find_receipt_run:
  assumes i: "inside (az_user auth) w s"
  shows "wp (replay_stored H auth m aid key h) Q X s \<longleftrightarrow> (case key of None \<Rightarrow> Q None s
     | Some k \<Rightarrow> if \<not> command_receipt_lookup_ok ''additive-command-receipt'' m aid k then X (StoreFailed BadReceiptLookup) s
        else (case receipts_under s (sw_id w) m aid k of
                [] \<Rightarrow> Q None s
              | [r] \<Rightarrow> if oget (sd_data r) ''actorUserId'' \<noteq> JStr (az_user auth) then X KeyBoundToOther s
                       else if oget (sd_data r) ''inputDigest'' \<noteq> JStr h then X KeyInputDiffers s
                       else (case stored_receipt_result (sh_env H) r (az_user auth) of Inl e \<Rightarrow> X e s | Inr x \<Rightarrow> Q (Some x) s)
              | _ \<Rightarrow> X (StoreFailed DuplicateReceipts) s))"
  by (auto simp: replay_stored_def find_command_receipt_def receipts_under_def wp_rules wp_lift_e wp_inside[OF insideD(1)[OF i]]
      split: option.split list.split sum.split)

lemma digest_for: "command_digest E auth (workspace_for u w s) input = command_digest E auth w input"
  by (simp add: command_digest_def)

lemma body_run:
  assumes ok: "inj (sh_uuid H)" "store_ok H s" and i: "inside (az_user auth) w s"
  shows "wp (execute_in_workspace H auth m aid input deps (workspace_for (az_user auth) w s))
     (\<lambda>y t. \<exists>a model h key. admitted H auth m aid input deps w s a model h key
        \<and> (t = s \<and> replays H auth w m aid key h s y \<or> ran_fresh H auth w m aid input key h a s y t))
     (\<lambda>_. good H s) s"
proof -
  have g: "good H s s" using ok by (simp add: good_refl)
  have fresh: "wp (run_fresh H auth m aid input deps (workspace_for (az_user auth) w s) a model members key h)
     (\<lambda>y t. \<exists>a model h key. admitted H auth m aid input deps w s a model h key
        \<and> (t = s \<and> replays H auth w m aid key h s y \<or> ran_fresh H auth w m aid input key h a s y t)) (\<lambda>_. good H s) s"
    if "admitted H auth m aid input deps w s a model h key" "\<forall>k. key = Some k \<longrightarrow> receipts_under s (sw_id w) m aid k = []"
    for a model members key h
  proof (rule wp_mono[OF run_fresh_run[OF ok i]], goal_cases)
    case (3 y t)
    then have "ran_fresh H auth w m aid input key h a s y t" using that by (auto simp: ran_fresh_def split: option.splits)
    then show ?case using that by blast
  qed (use that in \<open>auto simp: admitted_def digest_for\<close>)
  let ?v = "workspace_for (az_user auth) w s"
  show ?thesis
  proof (cases "\<exists>a model h key. admit auth m aid input deps ?v = Inr (a, model) \<and> acting_here auth w s
      \<and> command_digest (sh_env H) auth w input = Inr h \<and> command_key (sh_env H) a input = Inr key")
    case False
    then show ?thesis
      using g unfolding execute_in_workspace_def
      by (auto simp: wp_rules wp_lift_e members_run[OF i] members_acting digest_for Let_def split: sum.split)
  next
    case True
    then obtain a model h key where *: "admit auth m aid input deps ?v = Inr (a, model)" "acting_here auth w s"
      "command_digest (sh_env H) auth w input = Inr h" "command_key (sh_env H) a input = Inr key" by blast
    have adm: "admitted H auth m aid input deps w s a model h key"
      if "\<forall>k. key = Some k \<longrightarrow> command_receipt_lookup_ok ''additive-command-receipt'' m aid k"
      using * that by (simp add: admitted_def)
    have rep: "\<exists>a model h key. admitted H auth m aid input deps w s a model h key
        \<and> (s = s \<and> replays H auth w m aid key h s y \<or> ran_fresh H auth w m aid input key h a s y s)"
      if "key = Some k" "command_receipt_lookup_ok ''additive-command-receipt'' m aid k" "receipts_under s (sw_id w) m aid k = [r]"
        "oget (sd_data r) ''actorUserId'' = JStr (az_user auth)" "oget (sd_data r) ''inputDigest'' = JStr h"
        "stored_receipt_result (sh_env H) r (az_user auth) = Inr y" for k r y
      using adm that by (intro exI[of _ a] exI[of _ model] exI[of _ h] exI[of _ key]) (auto simp: replays_def)
    show ?thesis
      unfolding execute_in_workspace_def
      using * g fresh[OF adm] rep
      by (auto simp: wp_rules wp_lift_e members_run[OF i] members_acting find_receipt_run[OF i] digest_for Let_def
          split: sum.split option.split list.split)
  qed
qed

end
