(* ===== verification/Adapter_Properties.thy ===== *)
theory Adapter_Properties
  imports Adapter_Commits
begin

text \<open>
  The theorems about additive commands run through the workspace store: they are authorized and confined to the
  workspace of the actor, a retry returns the stored response and changes nothing, and an approval decision
  is spent once.
\<close>

section \<open>Where changes come from\<close>

lemma domain_change_step:
  assumes "domain_change i m n"
  shows "(m k = Some r \<longrightarrow> sd_workspace r \<noteq> i \<longrightarrow> n k = Some r) \<and> (n k = Some r \<longrightarrow> m k = Some r \<or> sd_workspace r = i)
     \<and> (m k \<noteq> None \<longrightarrow> n k \<noteq> None)"
  using assms by cases (auto simp: same_place_def)

lemma domain_changes_confined:
  assumes "domain_changes i m n"
  shows "(m k = Some r \<longrightarrow> sd_workspace r \<noteq> i \<longrightarrow> n k = Some r) \<and> (n k = Some r \<longrightarrow> m k = Some r \<or> sd_workspace r = i)
     \<and> (m k \<noteq> None \<longrightarrow> n k \<noteq> None)"
  using assms
proof (induction arbitrary: r)
  case (step n p)
  show ?case using step.IH domain_change_step[OF step.hyps(2), of k] by metis
qed simp

definition outside_envelope :: "obj \<Rightarrow> obj \<Rightarrow> bool" where
  "outside_envelope d d' \<longleftrightarrow> (\<forall>f. f \<noteq> ''additiveContract'' \<longrightarrow> f \<noteq> ''record'' \<longrightarrow> oget d' f = oget d f)"

text \<open>A record after a command was there before, with the same content outside the envelope, or is nothing but an envelope.\<close>

definition descends :: "(string \<Rightarrow> suite_record option) \<Rightarrow> string \<Rightarrow> suite_record \<Rightarrow> bool" where
  "descends m k r \<longleftrightarrow> (\<exists>q. m k = Some q \<and> same_place q r \<and> outside_envelope (sd_data q) (sd_data r))
     \<or> outside_envelope [] (sd_data r)"

lemma domain_changes_descend: "domain_changes i m n \<Longrightarrow> n k = Some r \<Longrightarrow> descends m k r"
proof (induction arbitrary: r rule: rtranclp_induct)
  case base
  then show ?case by (auto simp: descends_def same_place_def outside_envelope_def)
next
  case (step n p)
  from step.hyps(2) step.prems show ?case
  proof cases
    case (added q b)
    then show ?thesis
      using step by (auto simp: descends_def outside_envelope_def record_envelope_def split: if_splits)
  next
    case (edited j q q' b)
    show ?thesis
    proof (cases "k = j")
      case True
      then have "r = q'" using edited step.prems by simp
      moreover have "outside_envelope (sd_data q) (sd_data q')"
        by (simp add: edited outside_envelope_def record_envelope_def oget_oset)
      moreover have "descends m k q" using step.IH True edited by simp
      ultimately show ?thesis using edited(4) by (auto simp: descends_def same_place_def outside_envelope_def)
    qed (use edited step in simp)
  qed
qed

section \<open>The run of a command on the store\<close>

text \<open>A returned command: entered in workspace \<open>w\<close>, admitted there, and replayed or run.\<close>

definition returned_in :: "suite_host \<Rightarrow> authorization \<Rightarrow> string \<Rightarrow> string \<Rightarrow> obj \<Rightarrow> store_deps \<Rightarrow> store \<Rightarrow> suite_workspace \<Rightarrow> store
    \<Rightarrow> response \<Rightarrow> store \<Rightarrow> bool" where
  "returned_in H auth m aid input deps s w e y t \<longleftrightarrow> e = (enter H (az_user auth) s)\<lparr>st_active := Some (sw_id w)\<rparr>
     \<and> inside (az_user auth) w e \<and> store_ok H e
     \<and> (\<exists>a model h key t1. admitted H auth m aid input deps w e a model h key \<and> t = t1\<lparr>st_active := None\<rparr>
          \<and> (t1 = e \<and> replays H auth w m aid key h e y \<or> ran_fresh H auth w m aid input key h a e y t1))"

lemma command_run:
  assumes ok: "inj (sh_uuid H)" "store_ok H s" "st_active s = None"
  shows "wp (execute_with_store H auth m aid input deps) (\<lambda>y t. \<exists>w e. returned_in H auth m aid input deps s w e y t)
     (\<lambda>_ t. \<exists>t1. t = restore s t1 \<and> st_draws s \<le> st_draws t1) s"
  unfolding execute_with_store_def
proof (rule wp_transact[OF ok(3)], goal_cases)
  case (1 e w)
  let ?e = "e\<lparr>st_active := Some (sw_id w)\<rparr>"
  have e: "store_ok H e" "st_draws s \<le> st_draws e"
    using good_enter[OF good_refl[OF ok(1,2)], of "az_user auth"] 1(1) by (simp_all add: good_def)
  have ins: "inside (az_user auth) w ?e" using 1 by (simp add: inside_def)
  have v: "workspace_for (az_user auth) w e = workspace_for (az_user auth) w ?e" by (simp add: workspace_for_def)
  have ok_e: "store_ok H ?e" using e by simp
  show ?case
    unfolding v
  proof (rule wp_mono[OF body_run[OF ok(1) ok_e ins, of m aid input deps]], goal_cases)
    case (1 y t1)
    then have "returned_in H auth m aid input deps s w ?e y (t1\<lparr>st_active := None\<rparr>)"
      unfolding returned_in_def using ins ok_e \<open>e = enter H (az_user auth) s\<close> by blast
    then show ?case by blast
  next
    case (2 er t1)
    then have "st_draws s \<le> st_draws t1" using e by (simp add: good_def)
    then show ?case by blast
  qed
qed

lemma restore_sel [simp]:
  "st_records (restore s t) = st_records s" "st_actions (restore s t) = st_actions s" "st_members (restore s t) = st_members s"
  "st_workspaces (restore s t) = st_workspaces s" "st_domains (restore s t) = st_domains s" "st_tokens (restore s t) = st_tokens s"
  "st_active (restore s t) = None"
  by (simp_all add: restore_def)

lemma restore_ok: "inj (sh_uuid H) \<Longrightarrow> store_ok H s \<Longrightarrow> st_active s = None \<Longrightarrow> st_draws s \<le> st_draws t \<Longrightarrow> store_ok H (restore s t)"
  using good_restore[of H s s t] by (simp add: good_refl good_def)

section \<open>Authorized and confined\<close>

definition stays_in :: "string \<Rightarrow> (string \<Rightarrow> suite_record option) \<Rightarrow> (string \<Rightarrow> suite_record option) \<Rightarrow> bool" where
  "stays_in i m n \<longleftrightarrow> (\<forall>k r. (m k = Some r \<longrightarrow> sd_workspace r \<noteq> i \<longrightarrow> n k = Some r) \<and> (n k = Some r \<longrightarrow> m k = Some r \<or> sd_workspace r = i)
     \<and> (m k \<noteq> None \<longrightarrow> n k \<noteq> None))"

lemma ran_fresh_stays:
  assumes "ran_fresh H auth w m aid input key h a e y t"
  shows "stays_in (sw_id w) (jget (st_records e)) (jget (st_records t))"
proof (cases key)
  case None
  with assms show ?thesis
    by (auto simp: ran_fresh_def quiet_def stays_in_def dest: domain_changes_confined)
next
  case (Some k)
  with assms obtain s1 :: store and r where q: "domain_changes (sw_id w) (jget (st_records e)) (jget (st_records s1))"
    and r: "sd_workspace r = sw_id w" "jget (st_records t) = (jget (st_records s1))(sd_id r \<mapsto> r)" "jget (st_records s1) (sd_id r) = None"
    by (auto simp: ran_fresh_def response_kept_def receipt_kept_def receipt_of_def quiet_def)
  show ?thesis
    using domain_changes_confined[OF q] r unfolding stays_in_def by (auto split: if_splits)
qed

definition granted :: "authorization \<Rightarrow> string \<Rightarrow> string \<Rightarrow> suite_workspace \<Rightarrow> bool" where
  "granted auth m aid w \<longleftrightarrow> sw_id w = az_workspace auth \<and> m \<in> set (sw_modules w)
     \<and> (\<exists>a b. action_by_key m aid = Some a \<and> module_by_id m = Some b \<and> a_role a \<le> az_role auth \<and> m_min_plan b \<le> sw_plan w
          \<and> (\<exists>g \<in> set (az_scopes auth). g \<in> {''*'', m @ '':*'', m @ '':'' @ scope_text (a_scope a)}))"

lemma admit_granted: "admit auth m aid input deps (workspace_for u w s) = Inr (a, model) \<Longrightarrow> granted auth m aid w \<and> role_in u s = Some (az_role auth)"
  by (auto simp: admit_def granted_def bind_e_Inr_iff check_that_def workspace_for_def split: if_splits option.splits)

lemma returned_maps:
  assumes "returned_in H auth m aid input deps s w e y t"
  shows "st_workspaces t = st_workspaces e" "st_members t = st_members e" "st_records e = st_records s"
    "base_workspace (az_user auth) t = Some w" "role_in (az_user auth) t = role_in (az_user auth) e"
proof -
  show same: "st_workspaces t = st_workspaces e" "st_members t = st_members e" "st_records e = st_records s"
    using assms by (auto simp: returned_in_def ran_fresh_def)
  then show "base_workspace (az_user auth) t = Some w" "role_in (az_user auth) t = role_in (az_user auth) e"
    using assms by (auto simp: returned_in_def inside_def base_workspace_def role_in_def cong: option.case_cong)
qed

lemma command_confined_of:
  assumes "inj (sh_uuid H)" and "store_ok H s" and "st_active s = None"
    and "execute_with_store H auth m aid input deps s = (out, t)"
  shows "store_ok H t \<and> st_active t = None \<and> (case out of
       Inr y \<Rightarrow> (\<exists>w. base_workspace (az_user auth) t = Some w \<and> role_in (az_user auth) t = Some (az_role auth) \<and> granted auth m aid w)
         \<and> stays_in (az_workspace auth) (jget (st_records s)) (jget (st_records t))
     | Inl _ \<Rightarrow> st_records t = st_records s \<and> st_actions t = st_actions s \<and> st_members t = st_members s
         \<and> st_workspaces t = st_workspaces s \<and> st_domains t = st_domains s \<and> st_tokens t = st_tokens s)"
proof (cases out)
  case (Inl er)
  with assms(4) wpD_err[OF command_run[OF assms(1-3)]] restore_ok[OF assms(1-3)] show ?thesis by fastforce
next
  case (Inr y)
  from wpD[OF command_run[OF assms(1-3)], of auth m aid input deps] assms(4) Inr
  obtain w e where ret: "returned_in H auth m aid input deps s w e y t" by blast
  note maps = returned_maps[OF ret]
  from ret obtain a model h key t1 where adm: "admitted H auth m aid input deps w e a model h key" and t: "t = t1\<lparr>st_active := None\<rparr>"
    and run: "t1 = e \<or> ran_fresh H auth w m aid input key h a e y t1" and e: "store_ok H e"
    unfolding returned_in_def by blast
  have g: "granted auth m aid w" "role_in (az_user auth) e = Some (az_role auth)"
    using adm admit_granted by (auto simp: admitted_def)
  have "store_ok H t" "stays_in (sw_id w) (jget (st_records e)) (jget (st_records t))"
    using run e t ran_fresh_stays[of H auth w m aid input key h a e y t1] by (auto simp: ran_fresh_def good_def stays_in_def)
  then show ?thesis using Inr maps g t by (auto simp: granted_def)
qed

section \<open>An approval decision is spent once\<close>

definition command_decision :: "suite_record \<Rightarrow> string option" where
  "command_decision r = (if sd_type r \<in> set command_receipt_types
     then (case oget (sd_data r) ''approvalDecisionId'' of JStr d \<Rightarrow> Some d | _ \<Rightarrow> None) else None)"

definition spent_once :: "(string \<Rightarrow> suite_record option) \<Rightarrow> bool" where
  "spent_once m \<longleftrightarrow> (\<forall>i j r q d. m i = Some r \<longrightarrow> m j = Some q \<longrightarrow> sd_workspace r = sd_workspace q
     \<longrightarrow> command_decision r = Some d \<longrightarrow> command_decision q = Some d \<longrightarrow> i = j)"

lemma decision_iff: "command_decision r = Some d \<longleftrightarrow> sd_type r \<in> set command_receipt_types \<and> oget (sd_data r) ''approvalDecisionId'' = JStr d"
  by (auto simp: command_decision_def split: json.splits if_splits)

lemma decision_origin:
  assumes "domain_changes i m n" "n k = Some r" "command_decision r = Some d"
  shows "\<exists>q. m k = Some q \<and> sd_workspace q = sd_workspace r \<and> command_decision q = Some d"
proof -
  have keep: "oget d' ''approvalDecisionId'' = oget d ''approvalDecisionId''" if "outside_envelope d d'" for d d'
    using that by (simp add: outside_envelope_def)
  from domain_changes_descend[OF assms(1,2)] consider
    q where "m k = Some q" "same_place q r" "outside_envelope (sd_data q) (sd_data r)" | "outside_envelope [] (sd_data r)"
    unfolding descends_def by blast
  then show ?thesis
  proof cases
    case (1 q)
    then show ?thesis using assms(3) keep[OF 1(3)] by (simp add: decision_iff same_place_def)
  next
    case 2
    then show ?thesis using assms(3) keep[OF 2] by (simp add: decision_iff)
  qed
qed

lemma spent_once_changes:
  assumes "domain_changes i m n" "spent_once m"
  shows "spent_once n"
  unfolding spent_once_def
proof (intro allI impI)
  fix j k r q d
  assume *: "n j = Some r" "n k = Some q" "sd_workspace r = sd_workspace q" "command_decision r = Some d" "command_decision q = Some d"
  from decision_origin[OF assms(1) *(1,4)] decision_origin[OF assms(1) *(2,5)] obtain r' q' where
    "m j = Some r'" "sd_workspace r' = sd_workspace r" "command_decision r' = Some d"
    "m k = Some q'" "sd_workspace q' = sd_workspace q" "command_decision q' = Some d" by blast
  with assms(2) *(3) show "j = k" unfolding spent_once_def by metis
qed

lemma or_null_str: "or_null x = JStr d \<longleftrightarrow> x = Some d"
  by (auto simp: or_null_def split: option.split)

lemma ran_fresh_spent:
  assumes run: "ran_fresh H auth w m aid input key h a e y t" and a: "action_by_key m aid = Some a"
    and once: "spent_once (jget (st_records e))"
  shows "spent_once (jget (st_records t))"
proof (cases key)
  case None
  with assms show ?thesis by (auto simp: ran_fresh_def quiet_def intro: spent_once_changes)
next
  case (Some k)
  with run obtain s1 :: store and x :: exec_result and y0 i r where q: "domain_changes (sw_id w) (jget (st_records e)) (jget (st_records s1))"
    and fits: "re_audit y0 = audit_json (x_audit x)" "y = filed y0 i" "audit_fits (sw_id w) (az_user auth) m aid input h (x_audit x)"
    and r: "receipt_of H auth w m aid k h y r" "jget (st_records t) = (jget (st_records s1))(sd_id r \<mapsto> r)"
    unfolding ran_fresh_def response_kept_def receipt_kept_def quiet_def response_fits_def by auto
  have free: "\<not> (\<exists>j p. jget (st_records s1) j = Some p \<and> sd_workspace p = sw_id w \<and> command_decision p = Some d)"
    if "command_decision r = Some d" for d
  proof
    assume "\<exists>j p. jget (st_records s1) j = Some p \<and> sd_workspace p = sw_id w \<and> command_decision p = Some d"
    with decision_origin[OF q] obtain j p where "jget (st_records e) j = Some p" "sd_workspace p = sw_id w" "command_decision p = Some d"
      by metis
    then have "decision_taken e (sw_id w) d" by (auto simp: decision_taken_def records_of_def decision_iff dest: jget_in_vals)
    moreover have "or_null (au_decision_id (x_audit x)) = JStr d"
      using that r(1) fits(1,2) by (simp add: decision_iff receipt_of_def audit_json_def)
    then have "decision_of input = Some d" "a_requires_approval a" "oget input ''dryRun'' \<noteq> JBool True"
      using fits(3) a by (auto simp: audit_fits_def or_null_str)
    ultimately show False using run by (auto simp: ran_fresh_def)
  qed
  have "sd_workspace r = sw_id w" using r(1) by (simp add: receipt_of_def)
  then show ?thesis
    using spent_once_changes[OF q once] free unfolding r(2) spent_once_def by (metis fun_upd_apply option.inject)
qed

text \<open>
  Commands through the store, whatever their outcome, and any operations of the store that themselves add or
  change no receipt with a decision.
\<close>

inductive command_history :: "suite_host \<Rightarrow> store \<Rightarrow> store \<Rightarrow> bool" for H s where
  start: "command_history H s s"
| command: "command_history H s t \<Longrightarrow> execute_with_store H auth m aid input deps t = (out, u) \<Longrightarrow> command_history H s u"
| other: "command_history H s t \<Longrightarrow> store_step H t u \<Longrightarrow>
    (\<And>k r. jget (st_records u) k = Some r \<Longrightarrow> command_decision r \<noteq> None \<Longrightarrow> jget (st_records t) k = Some r) \<Longrightarrow> command_history H s u"

lemma command_spent:
  assumes ok: "inj (sh_uuid H)" "store_ok H s" "st_active s = None" and run: "execute_with_store H auth m aid input deps s = (out, t)"
    and once: "spent_once (jget (st_records s))"
  shows "spent_once (jget (st_records t))"
proof (cases out)
  case (Inl er)
  with command_confined_of[OF ok run] once show ?thesis by simp
next
  case (Inr y)
  with wpD[OF command_run[OF ok], of auth m aid input deps] run
  obtain w e where ret: "returned_in H auth m aid input deps s w e y t" by blast
  then obtain a model h key t1 where "admitted H auth m aid input deps w e a model h key" and t: "t = t1\<lparr>st_active := None\<rparr>"
    and t1: "t1 = e \<or> ran_fresh H auth w m aid input key h a e y t1"
    unfolding returned_in_def by blast
  then have "action_by_key m aid = Some a"
    by (auto simp: admitted_def admit_def bind_e_Inr_iff split: option.splits if_splits)
  from t1 ran_fresh_spent[OF _ this] once show ?thesis by (auto simp: t returned_maps(3)[OF ret, symmetric])
qed

lemma spent_once_fewer:
  assumes "spent_once m" and "\<And>k r. n k = Some r \<Longrightarrow> command_decision r \<noteq> None \<Longrightarrow> m k = Some r"
  shows "spent_once n"
  using assms unfolding spent_once_def by (metis option.distinct(1))

lemma history_keeps:
  assumes "command_history H s t" and "inj (sh_uuid H)" and "store_ok H s \<and> st_active s = None \<and> spent_once (jget (st_records s))"
  shows "store_ok H t \<and> st_active t = None \<and> spent_once (jget (st_records t))"
  using assms
proof induction
  case (command t auth m aid input deps out u)
  then show ?case using command_spent[of H t] command_confined_of[of H t] by blast
next
  case (other t u)
  have "good H t u" using step_good[OF other.hyps(2) good_refl] other by blast
  then show ?case using spent_once_fewer[of "jget (st_records t)" "jget (st_records u)"] other goodD by metis
qed

text \<open>C6: An approval decision is spent once. Over any history of commands through the store, failing ones and retries included,
  among operations that bind no decision themselves, no two receipts of a workspace carry the same approval
  decision: a decision never authorizes two commands.
\<close>

theorem store_decision_spent_once:
  assumes "inj (sh_uuid H)" and "store_ok H s" and "st_active s = None" and "spent_once (jget (st_records s))"
    and "command_history H s t" and "jget (st_records t) i = Some r" and "jget (st_records t) j = Some q"
    and "sd_workspace r = sd_workspace q" and "command_decision r = Some d" and "command_decision q = Some d"
  shows "i = j"
  using history_keeps[OF assms(5,1)] assms(2-4,6-10) unfolding spent_once_def by blast

text \<open>C4: A command that returns was registered, of a module the workspace enabled and its plan includes, and the actor holds
  there the claimed role, a sufficient one, and a scope that grants it; it changed records of that workspace only
  and removed none. A command that fails, at whatever point, leaves every record, AI action, member, workspace,
  domain and token of the store as it was.
\<close>

theorem command_confined:
  assumes "inj (sh_uuid H)" and "store_ok H s" and "st_active s = None"
    and "execute_with_store H auth m aid input deps s = (out, t)"
  shows "store_ok H t \<and> st_active t = None \<and> (case out of
       Inr y \<Rightarrow> (\<exists>w. base_workspace (az_user auth) t = Some w \<and> role_in (az_user auth) t = Some (az_role auth) \<and> granted auth m aid w)
         \<and> stays_in (az_workspace auth) (jget (st_records s)) (jget (st_records t))
     | Inl _ \<Rightarrow> st_records t = st_records s \<and> st_actions t = st_actions s \<and> st_members t = st_members s
         \<and> st_workspaces t = st_workspaces s \<and> st_domains t = st_domains s \<and> st_tokens t = st_tokens s)"
  using assms by (rule command_confined_of)

end
