(* ===== verification/Adapter_Replay.thy ===== *)
theory Adapter_Replay
  imports Adapter_Properties
begin

text \<open>
  A retry under the same idempotency key reads the receipt back: the stored response, marked as a replay.
\<close>

section \<open>Reading a receipt back\<close>

definition response_ok :: "js_env \<Rightarrow> string \<Rightarrow> response \<Rightarrow> bool" where
  "response_ok E m y \<longleftrightarrow> distinct (map (\<lambda>r. oget r ''id'') (re_records y))
     \<and> (\<forall>r \<in> set (re_records y). oget r ''moduleId'' = JStr m \<and> oget r ''recordType'' \<noteq> JStr [] \<and> safe_positive (oget r ''version'')
          \<and> valid_date_time E (oget r ''createdAt'') \<and> valid_date_time E (oget r ''updatedAt''))"

definition replayed :: "response \<Rightarrow> response" where
  "replayed y = y\<lparr>re_audit := spread (re_audit y) [(''replayed'', JBool True), (''decision'', JStr ''replayed'')]\<rparr>"

lemma oset_same: "oget ob k = v \<Longrightarrow> v \<noteq> JUndef \<Longrightarrow> oset k v ob = ob"
proof -
  have "map_of ob k = Some v \<Longrightarrow> AList.update k v ob = ob" by (induction ob) auto
  then show "oget ob k = v \<Longrightarrow> v \<noteq> JUndef \<Longrightarrow> oset k v ob = ob" by (auto simp: oget_def oset_def split: option.splits)
qed

lemma replay_audit_filed: "oget a ''receiptId'' = JStr i \<Longrightarrow> replay_audit i a = spread a [(''replayed'', JBool True), (''decision'', JStr ''replayed'')]"
  by (simp add: replay_audit_def oset_same)

lemma replay_of_replay: "stored_receipt_result E r u = Inr y \<Longrightarrow> replayed y = y"
proof -
  assume st: "stored_receipt_result E r u = Inr y"
  then obtain d where d: "receipt_result r = Inr d" unfolding stored_receipt_result_def bind_e_Inr_iff by blast
  obtain i a where "re_audit y = replay_audit i a"
    using st by (cases "oget d ''audit''") (auto simp: stored_receipt_result_def d bind_e_Inr_iff split: json.splits if_splits)
  moreover have "spread (replay_audit i a) [(''replayed'', JBool True), (''decision'', JStr ''replayed'')] = replay_audit i a"
    by (simp add: replay_audit_def oset_same oget_oset)
  ultimately show ?thesis by (simp add: replayed_def)
qed

lemma snapshot_fields:
  assumes "receipt_snapshot E y = Inr d"
  shows "oget d ''kind'' = JStr (re_kind y)" "oget d ''audit'' = JObj (re_audit y)"
    "oget d ''recordIds'' = JArr (map (\<lambda>r. oget r ''id'') (re_records y))" "oget d ''recordSnapshots'' = JArr (map JObj (re_records y))"
    "truthy (re_preview y) \<Longrightarrow> oget d ''preview'' = re_preview y" "\<not> truthy (re_preview y) \<Longrightarrow> oget d ''preview'' = JUndef"
    "\<not> receipt_snapshot_limit < length (utf8 (json_text E (JObj d)))"
  using assms by (auto simp: receipt_snapshot_def Let_def split: if_splits)

lemma brecord_fields:
  "oget (brecord_json b) ''id'' = JStr (b_id b)" "oget (brecord_json b) ''workspaceId'' = JStr (b_workspace b)"
  "oget (brecord_json b) ''moduleId'' = JStr (b_module b)" "oget (brecord_json b) ''recordType'' = JStr (b_type b)"
  "oget (brecord_json b) ''title'' = JStr (b_title b)" "oget (brecord_json b) ''state'' = JStr (b_state b)"
  "oget (brecord_json b) ''version'' = jint (b_version b)" "oget (brecord_json b) ''contentHash'' = JStr (b_hash b)"
  "oget (brecord_json b) ''data'' = JObj (b_data b)"
  by (simp_all add: brecord_json_def)

lemma snapshot_content_digest: "snapshot_content (brecord_json b) = content_of (b_module b) (b_type b) (b_title b) (b_state b) (b_version b) (b_data b)"
  by (simp add: snapshot_content_def content_of_def brecord_fields)

lemma stored_record_back:
  assumes "sound H w b" "sd_workspace r = sw_id w" "sd_module r = b_module b" "module_by_id (b_module b) \<noteq> None"
    and "oget (brecord_json b) ''recordType'' \<noteq> JStr []" "safe_positive (oget (brecord_json b) ''version'')"
    and "valid_date_time E (oget (brecord_json b) ''createdAt'')" "valid_date_time E (oget (brecord_json b) ''updatedAt'')"
    and "E = sh_env H"
  shows "stored_receipt_record E r (JObj (brecord_json b), b_id b) = Inr (brecord_json b)"
proof -
  have "text_at (brecord_json b) ''recordType'' = [b_type b]" by (simp add: text_at_def brecord_fields)
  then have "snapshot_complete E r (b_id b) (brecord_json b)"
    using assms by (auto simp: snapshot_complete_def sound_def brecord_fields)
  moreover have "adapter_digest E (snapshot_content (brecord_json b)) = Inr (b_hash b)"
    using assms(1,9) by (simp add: snapshot_content_digest adapter_digest_def sound_def record_digest_def)
  ultimately show ?thesis by (simp add: stored_receipt_record_def brecord_fields)
qed

lemma stored_records_back:
  assumes "\<forall>b \<in> set bs. stored_receipt_record E r (JObj (brecord_json b), b_id b) = Inr (brecord_json b)" and "distinct (map b_id bs)"
  shows "stored_records E r (map (\<lambda>x. oget x ''id'') (map brecord_json bs)) (map JObj (map brecord_json bs)) = Inr (map brecord_json bs)"
proof -
  have "map (\<lambda>x. oget x ''id'') (map brecord_json bs) = map JStr (map b_id bs)" by (simp add: brecord_fields)
  moreover have "all_strings (map JStr ss) = Some ss" for ss
    by (induction ss) (auto simp: all_strings_def json_strings_def split: if_splits)
  moreover have "each_e (stored_receipt_record E r) (zip (map JObj (map brecord_json bs)) (map b_id bs)) = Inr (map brecord_json bs)"
    using assms(1) by (induction bs) auto
  moreover have "length (uniq (map b_id bs)) = length (map b_id bs)" using assms(2) by (simp only: length_uniq_eq)
  ultimately show ?thesis by (simp add: stored_records_def del: map_map)
qed

lemma receipt_back:
  assumes r: "receipt_of H auth w m aid k h y r" and y: "y = filed y0 i" and fits: "response_fits H w x y0"
    and audit: "audit_fits (sw_id w) (az_user auth) m aid input h (x_audit x)" and ok: "response_ok (sh_env H) m y"
    and m: "module_by_id m \<noteq> None"
  shows "stored_receipt_result (sh_env H) r (az_user auth) = Inr (replayed y)"
proof -
  let ?E = "sh_env H"
  from r obtain d where d: "receipt_snapshot ?E y = Inr d" "oget (sd_data r) ''result'' = JObj d" by (auto simp: receipt_of_def)
  note f = snapshot_fields[OF d(1)]
  from fits y obtain bs where bs: "re_records y = map brecord_json bs" "\<forall>b \<in> set bs. sound H w b" by (auto simp: response_fits_def)
  have a: "oget (re_audit y) ''workspaceId'' = JStr (sw_id w)" "oget (re_audit y) ''actorId'' = JStr (az_user auth)"
    "oget (re_audit y) ''moduleId'' = JStr m" "oget (re_audit y) ''actionId'' = JStr aid" "oget (re_audit y) ''inputDigest'' = JStr h"
    "oget (re_audit y) ''approvalDecisionId'' = or_null (au_decision_id (x_audit x))"
    using fits audit by (simp_all add: y response_fits_def audit_json_def audit_fits_def)
  have bound: "audit_bound r (re_audit y)" using r a by (simp add: audit_bound_def receipt_of_def)
  have res: "receipt_result r = Inr d" using r d by (simp add: receipt_result_def receipt_of_def)
  have dec: "stored_receipt_decision r = Inr (or_null (au_decision_id (x_audit x)))"
    using r bound a f audit
    by (auto simp: stored_receipt_decision_def res receipt_of_def or_null_def text_at_def audit_fits_def split: option.split)
  have kind: "re_kind y \<in> set kind_names"
    using fits y by (auto simp: response_fits_def kind_name_def kind_names_def split: result_kind.splits)
  have "stored_receipt_record ?E r (JObj (brecord_json b), b_id b) = Inr (brecord_json b)" if b: "b \<in> set bs" for b
    using b bs r m ok by (intro stored_record_back[of H w]) (auto simp: receipt_of_def response_ok_def brecord_fields)
  moreover have "distinct (map b_id bs)"
    using ok by (simp add: response_ok_def bs o_def brecord_fields distinct_map inj_on_def)
  ultimately have recs: "stored_records ?E r (map (\<lambda>x. oget x ''id'') (re_records y)) (map JObj (re_records y)) = Inr (re_records y)"
    unfolding bs(1) by (intro stored_records_back) auto
  have preview: "(if truthy (oget d ''preview'') then oget d ''preview'' else JUndef) = re_preview y"
  proof -
    obtain p where "re_preview y = preview_json p" using fits y by (auto simp: response_fits_def)
    then show ?thesis using f(5,6) by (cases p) (auto simp: preview_json_def truthy_def)
  qed
  have "replay_audit (sd_id r) (re_audit y) = spread (re_audit y) [(''replayed'', JBool True), (''decision'', JStr ''replayed'')]"
    using r by (intro replay_audit_filed) (simp add: receipt_of_def)
  moreover have "truthy (oget d ''audit'')" by (simp add: f truthy_def)
  ultimately show ?thesis
    using r f(1-4,7) bound a(2) kind recs preview
    by (simp add: stored_receipt_result_def res dec receipt_of_def replayed_def)
qed

section \<open>The retry\<close>

lemma filter_single:
  assumes "distinct (jkeys m)" "jget m k = Some r" "P r" "\<And>j q. jget m j = Some q \<Longrightarrow> P q \<Longrightarrow> j = k"
  shows "filter P (jvals m) = [r]"
  using assms
proof (induction m)
  case (Cons e m)
  obtain j v where e: "e = (j, v)" by fastforce
  have fresh: "jget m j = None" using Cons.prems(1) by (auto simp: e jkeys_def jget_def map_of_eq_None_iff)
  show ?case
  proof (cases "j = k")
    case True
    have dist: "distinct (jkeys m)" using Cons.prems(1) by (simp add: e jkeys_def)
    have "\<not> P q" if q: "q \<in> set (jvals m)" for q
    proof
      assume P: "P q"
      obtain i where i: "jget m i = Some q" using q jm.vals_get[OF dist] by blast
      then have "i \<noteq> j" using fresh by auto
      moreover from this i have "jget (e # m) i = Some q" by (simp add: e jget_Cons)
      then have "i = k" using Cons.prems(4) P by blast
      ultimately show False using True by simp
    qed
    then have "filter P (jvals m) = []" by (simp add: filter_empty_conv)
    then show ?thesis using True Cons.prems(2,3) by (simp add: e jvals_def jget_Cons)
  next
    case False
    then have "\<not> P v" using Cons.prems(4)[of j v] by (auto simp: e jget_Cons)
    moreover have "filter P (jvals m) = [r]"
    proof (rule Cons.IH)
      show "i = k" if "jget m i = Some q" "P q" for i q
        using that Cons.prems(4)[of i q] fresh by (cases "i = j") (auto simp: e jget_Cons)
    qed (use Cons.prems False in \<open>auto simp: e jkeys_def jget_Cons\<close>)
    ultimately show ?thesis by (simp add: e jvals_def)
  qed
qed simp

definition under_key :: "string \<Rightarrow> string \<Rightarrow> string \<Rightarrow> string \<Rightarrow> suite_record \<Rightarrow> bool" where
  "under_key i m aid k r \<longleftrightarrow> sd_workspace r = i \<and> sd_type r = ''additive-command-receipt'' \<and> sd_module r = m
     \<and> oget (sd_data r) ''actionId'' = JStr aid \<and> oget (sd_data r) ''idempotencyKey'' = JStr k"

lemma receipts_under_keys: "receipts_under s i m aid k = filter (under_key i m aid k) (jvals (st_records s))"
  unfolding receipts_under_def records_of_def filter_filter by (rule filter_cong) (auto simp: under_key_def)

lemma under_key_origin:
  assumes "domain_changes j m n" "n q = Some r" "under_key i mo aid k r"
  shows "\<exists>p. m q = Some p \<and> under_key i mo aid k p"
proof -
  have keep: "oget d' ''actionId'' = oget d ''actionId''" "oget d' ''idempotencyKey'' = oget d ''idempotencyKey''"
    if "outside_envelope d d'" for d d'
    using that by (simp_all add: outside_envelope_def)
  from domain_changes_descend[OF assms(1,2)] consider
    p where "m q = Some p" "same_place p r" "outside_envelope (sd_data p) (sd_data r)" | "outside_envelope [] (sd_data r)"
    unfolding descends_def by blast
  then show ?thesis
  proof cases
    case (1 p)
    then show ?thesis using assms(3) keep[OF 1(3)] by (simp add: under_key_def same_place_def)
  next
    case 2
    then show ?thesis using assms(3) keep[OF 2] by (simp add: under_key_def)
  qed
qed

lemma kept_receipt_only:
  assumes fresh: "receipts_under e (sw_id w) m aid k = []" and q: "domain_changes (sw_id w) (jget (st_records e)) (jget (st_records s1))"
    and r: "receipt_of H auth w m aid k h y r" and t: "jget (st_records t) = (jget (st_records s1))(sd_id r \<mapsto> r)" and ok: "store_ok H t"
  shows "receipts_under t (sw_id w) m aid k = [r]"
  unfolding receipts_under_keys
proof (rule filter_single)
  show "distinct (jkeys (st_records t))" using ok by (simp add: store_ok_def maps_ok_def)
  show "jget (st_records t) (sd_id r) = Some r" by (simp add: t)
  show "under_key (sw_id w) m aid k r" using r by (simp add: receipt_of_def under_key_def)
  fix j p assume p: "jget (st_records t) j = Some p" "under_key (sw_id w) m aid k p"
  show "j = sd_id r"
  proof (rule ccontr)
    assume "j \<noteq> sd_id r"
    then have "jget (st_records s1) j = Some p" using p(1) by (simp add: t)
    from under_key_origin[OF q this p(2)] obtain p' where "p' \<in> set (jvals (st_records e))" "under_key (sw_id w) m aid k p'"
      by (auto dest: jget_in_vals)
    then show False using fresh by (auto simp: receipts_under_keys filter_empty_conv)
  qed
qed

lemma replay_run:
  assumes i: "inside (az_user auth) w s" and adm: "admitted H auth m aid input deps w s a model h key"
    and rep: "replays H auth w m aid key h s y"
  shows "execute_in_workspace H auth m aid input deps (workspace_for (az_user auth) w s) s = (Inr y, s)"
proof -
  from rep obtain k r where k: "key = Some k" "receipts_under s (sw_id w) m aid k = [r]" "oget (sd_data r) ''actorUserId'' = JStr (az_user auth)"
    "oget (sd_data r) ''inputDigest'' = JStr h" "stored_receipt_result (sh_env H) r (az_user auth) = Inr y" by (auto simp: replays_def)
  have "wp (execute_in_workspace H auth m aid input deps (workspace_for (az_user auth) w s)) (\<lambda>x t. x = y \<and> t = s) (\<lambda>_ _. False) s"
    using adm k unfolding execute_in_workspace_def admitted_def
    by (simp add: wp_rules wp_lift_e members_run[OF i] members_acting find_receipt_run[OF i] digest_for)
  then show ?thesis by (auto simp: wp_def split: prod.splits sum.splits)
qed

lemma returned_replays:
  assumes "inj (sh_uuid H)" and "store_ok H s" and "st_active s = None"
    and ret: "returned_in H auth m aid input deps s w e x t"
    and a: "action_by_key m aid = Some a" "a_idempotent a" and ok: "response_ok (sh_env H) m x"
  shows "\<exists>t1 model h key. t = t1\<lparr>st_active := None\<rparr> \<and> inside (az_user auth) w t1
    \<and> admitted H auth m aid input deps w t1 a model h key \<and> replays H auth w m aid key h t1 (replayed x)"
proof -
  from ret obtain a' model h key t1 where adm: "admitted H auth m aid input deps w e a' model h key" and t: "t = t1\<lparr>st_active := None\<rparr>"
    and run: "t1 = e \<and> replays H auth w m aid key h e x \<or> ran_fresh H auth w m aid input key h a' e x t1"
    and e: "inside (az_user auth) w e" "store_ok H e"
    unfolding returned_in_def by blast
  from adm a(1) have a': "a' = a" and mo: "module_by_id m \<noteq> None"
    by (auto simp: admitted_def admit_def bind_e_Inr_iff split: option.splits)
  from adm a(2) obtain k where k: "key = Some k"
    by (auto simp: admitted_def command_key_def a' Let_def split: if_splits)
  from run show ?thesis
  proof
    assume "t1 = e \<and> replays H auth w m aid key h e x"
    moreover from this have "replayed x = x" by (auto simp: replays_def dest: replay_of_replay)
    ultimately show ?thesis using adm e t unfolding a' by metis
  next
    assume fresh: "ran_fresh H auth w m aid input key h a' e x t1"
    then have good: "good H e t1" and maps: "st_workspaces t1 = st_workspaces e" "st_members t1 = st_members e"
      and none: "receipts_under e (sw_id w) m aid k = []" and kept: "response_kept H auth w m aid input k h e x t1"
      by (simp_all add: ran_fresh_def k)
    have ins: "inside (az_user auth) w t1" using same_maps[OF good e(1) maps] good by (simp add: good_def)
    from kept obtain s1 :: store and xx :: exec_result and y0 i r where q: "domain_changes (sw_id w) (jget (st_records e)) (jget (st_records s1))"
      and fits: "response_fits H w xx y0" "x = filed y0 i" "audit_fits (sw_id w) (az_user auth) m aid input h (x_audit xx)"
      and r: "receipt_of H auth w m aid k h x r" "jget (st_records t1) = (jget (st_records s1))(sd_id r \<mapsto> r)"
      unfolding response_kept_def receipt_kept_def quiet_def by blast
    have only: "receipts_under t1 (sw_id w) m aid k = [r]"
      by (rule kept_receipt_only[OF none q r]) (use good in \<open>simp add: good_def\<close>)
    have "replays H auth w m aid key h t1 (replayed x)"
      using only r(1) receipt_back[OF r(1) fits(2,1,3) ok mo] by (auto simp: replays_def k receipt_of_def)
    moreover have "workspace_for (az_user auth) w t1 = workspace_for (az_user auth) w e" "acting_here auth w t1 = acting_here auth w e"
      by (simp_all add: workspace_for_def role_in_def acting_here_def maps)
    then have "admitted H auth m aid input deps w t1 a model h key" using adm by (simp add: admitted_def a')
    ultimately show ?thesis using t ins by blast
  qed
qed

lemma admit_clock: "admit auth m aid input (deps\<lparr>dp_now := n\<rparr>) w = admit auth m aid input deps w"
proof -
  have same: "dp_model (deps\<lparr>dp_now := n\<rparr>) = dp_model deps" by simp
  show ?thesis unfolding admit_def same ..
qed

text \<open>C5: A retry. When a command with an idempotency key returned, and its response shows distinct, dated records of its module,
  the same actor repeating the same input at any later time gets the same kind, records and preview again, with the
  audit of the first run marked as a replay, and the store stays exactly as the first run left it.
\<close>

theorem command_retry_replays:
  assumes "inj (sh_uuid H)" and "store_ok H s" and "st_active s = None"
    and "execute_with_store H auth m aid input deps s = (Inr x, t)"
    and "action_by_key m aid = Some a" and "a_idempotent a" and "response_ok (sh_env H) m x"
  shows "execute_with_store H auth m aid input (deps\<lparr>dp_now := n\<rparr>) t = (Inr (replayed x), t)"
proof -
  from wpD[OF command_run[OF assms(1-3)] assms(4)] obtain w e where ret: "returned_in H auth m aid input deps s w e x t" by blast
  from returned_replays[OF assms(1-3) ret assms(5-7)] obtain t1 model h key where t: "t = t1\<lparr>st_active := None\<rparr>"
    and ins: "inside (az_user auth) w t1" and adm: "admitted H auth m aid input deps w t1 a model h key"
    and rep: "replays H auth w m aid key h t1 (replayed x)" by blast
  have base: "base_workspace (az_user auth) t = Some w" by (rule returned_maps(4)[OF ret])
  have again: "t\<lparr>st_active := Some (sw_id w)\<rparr> = t1" using ins by (simp add: t inside_def)
  have v: "workspace_for (az_user auth) w t = workspace_for (az_user auth) w t1" by (simp add: t workspace_for_def)
  have "admitted H auth m aid input (deps\<lparr>dp_now := n\<rparr>) w t1 a model h key" using adm by (simp add: admitted_def admit_clock)
  note run = replay_run[OF ins this rep]
  have "get_or_create_workspace H (az_user auth) t = (Inr (workspace_for (az_user auth) w t), t)"
    using base by (simp add: get_or_create_run enter_inside base_of_def)
  then have "on_store (get_or_create_workspace H (az_user auth)) t = (Inr (workspace_for (az_user auth) w t1), t)"
    by (simp add: on_store_def v)
  moreover have "st_active t = None" "t1\<lparr>st_active := None\<rparr> = t" by (simp_all add: t)
  ultimately show ?thesis using run by (simp add: execute_with_store_def transact_def bnd_def again)
qed

end
