(* ===== verification/Adapter_Samples.thy ===== *)
theory Adapter_Samples
  imports Adapter_Replay Additive_Samples Suite_Samples
begin

text \<open>
  A small host and a workspace with the module \<open>tables\<close>, and the run there of a command that creates a base:
  it meets the hypotheses of the theorems on commands through the store.
\<close>

section \<open>Host and workspace\<close>

definition plain_id :: "nat \<Rightarrow> string" where
  "plain_id n = CHR ''u'' # replicate n CHR ''i''"

definition zeros :: string where
  "zeros = replicate 64 CHR ''0''"

definition plain_env :: js_env where
  "plain_env = \<lparr>sha256_hex = (\<lambda>_. zeros), num_text = (\<lambda>_. ''1''), text_num = (\<lambda>_. NaN), parse_date = (\<lambda>_. Some 0),
     iso_text = (\<lambda>_. ''1''), collate = (\<lambda>_ _. 0), uuid_at = plain_id\<rparr>"

definition plain_host :: suite_host where
  "plain_host = \<lparr>sh_env = plain_env, sh_clock = int, sh_uuid = plain_id, sh_random = (\<lambda>n. [n]), sh_challenge = plain_id,
     sh_is_uuid = (\<lambda>s. True), sh_url_host = (\<lambda>s. None), sh_unrestricted = True, sh_plans = [], sh_host_target = ''host'',
     sh_control_domain = None, sh_app_url = [], sh_model = ''m'', sh_default_plan = PlanScale\<rparr>"

lemma plain_sel [simp]:
  "sha256_hex plain_env s = zeros" "num_text plain_env q = ''1''" "parse_date plain_env s = Some 0" "iso_text plain_env n = ''1''"
  "collate plain_env s s' = 0" "uuid_at plain_env = plain_id"
  "sh_env plain_host = plain_env" "sh_uuid plain_host = plain_id" "sh_unrestricted plain_host" "sh_plans plain_host = []"
  "sh_clock plain_host = int"
  by (simp_all add: plain_env_def plain_host_def)

lemma plain_engine_env [simp]: "engine_env plain_host = plain_env"
  by (simp add: engine_env_def plain_host_def plain_env_def)

lemma plain_ids: "plain_id m = plain_id n \<longleftrightarrow> m = n"
  by (simp add: plain_id_def replicate_eq_replicate)

lemma plain_inj: "inj (sh_uuid plain_host)"
  by (simp add: inj_def plain_ids)

lemma plain_digest: "encodable v \<Longrightarrow> digest plain_env v = Inr zeros"
proof -
  have "parse_number ''1'' \<noteq> None" by code_simp
  then have "number_format_ok plain_env" by (simp add: number_format_ok_def)
  then show "encodable v \<Longrightarrow> digest plain_env v = Inr zeros"
    using digest_total[of plain_env v] by (auto simp: digest_def bind_e_Inr_iff)
qed

definition desk_workspace :: suite_workspace where
  "desk_workspace = \<lparr>sw_id = plain_id 0, sw_user = ''ann'', sw_name = ''My workspace'', sw_slug = ''workspace-ann'',
     sw_plan = PlanScale, sw_modules = [''tables''], sw_role = None, sw_created = ''0'', sw_updated = ''0''\<rparr>"

definition desk_store :: store where
  "desk_store = (empty_store empty_registry)\<lparr>st_workspaces := [(''ann'', desk_workspace)],
     st_members := [(''ann'', \<lparr>mb_owner = ''ann'', mb_role = Owner, mb_created = ''0''\<rparr>)], st_ticks := 3, st_draws := 1\<rparr>"

definition desk :: "store \<Rightarrow> bool" where
  "desk s \<longleftrightarrow> inside ''ann'' desk_workspace s \<and> role_in ''ann'' s = Some Owner \<and> (\<forall>r \<in> set (jvals (st_records s)). sd_module r = ''tables'')"

lemma desk_sel [simp]:
  "sw_id desk_workspace = plain_id 0" "sw_modules desk_workspace = [''tables'']" "sw_plan desk_workspace = PlanScale"
  "sw_user desk_workspace = ''ann''"
  by (simp_all add: desk_workspace_def)

lemma desk_store_ok: "store_ok plain_host desk_store"
proof -
  have ids: "workspace_ids desk_store = {plain_id 0}" by (auto simp: workspace_ids_def jget_Cons desk_store_def)
  have "drawn plain_host desk_store = {plain_id 0}" by (auto simp: drawn_def desk_store_def)
  then show ?thesis
    by (simp add: store_ok_def maps_ok_def workspaces_ok_def members_ok_def records_ok_def actions_ok_def domains_ok_def
        record_ids_ok_def ids)
      (simp add: desk_store_def empty_store_def jkeys_def jget_Cons desk_workspace_def)
qed

section \<open>Writes that succeed\<close>

lemma tables_unregistered: "suite_storage_object_registration E ''tables'' t d = Inr None"
  by (simp add: suite_storage_object_registration_def)

lemma tables_allowed: "plan_allows plain_host p ''tables''"
proof -
  have "''tables'' \<in> set suite_module_ids" by (simp add: suite_module_ids_eq)
  then obtain d where "suite_module_by_id ''tables'' = Some d" by (auto simp: suite_module_ids_def suite_module_by_id_iff)
  then show ?thesis by (simp add: plan_allows_def)
qed

lemma desk_registrations: "desk s \<Longrightarrow> registrations E (records_of s i) = Inr []"
proof -
  have "each_e (\<lambda>r. suite_storage_object_registration E (sd_module r) (sd_type r) (sd_data r)) rs = Inr (replicate (length rs) None)"
    if "\<forall>r \<in> set rs. sd_module r = ''tables''" for rs
    using that by (induction rs) (simp_all add: tables_unregistered)
  moreover assume "desk s"
  then have "\<forall>r \<in> set (records_of s i). sd_module r = ''tables''" by (simp add: desk_def records_of_def)
  ultimately have "each_e (\<lambda>r. suite_storage_object_registration E (sd_module r) (sd_type r) (sd_data r)) (records_of s i)
      = Inr (replicate (length (records_of s i)) None)" by blast
  then show "registrations E (records_of s i) = Inr []" by (simp add: registrations_def)
qed

lemma desk_quota: "quota_for_plan plain_host PlanScale = \<lparr>pq_records = num_of_int 500000, pq_ai_actions = num_of_int 10000, pq_storage = Fin 0\<rparr>"
  by (simp add: quota_for_plan_def storage_gb_for_plan_def suite_plan_quota_def plan_quotas_def num_of_int_def first_such_def round64_def)

lemma desk_usage:
  assumes "desk s"
  shows "\<exists>us. get_usage plain_host ''ann'' s = (Inr us, s\<lparr>st_ticks := st_ticks s + 2\<rparr>) \<and> us_record_limit us = num_of_int 500000
    \<and> us_records us = length (records_of s (plain_id 0)) \<and> us_storage_limit us = Fin 0 \<and> us_registered us = Fin 0"
proof -
  have b: "base_workspace ''ann'' s = Some desk_workspace" using assms by (simp add: desk_def inside_def)
  show ?thesis
    by (simp add: get_usage_def bnd_def get_or_create_run enter_inside base_of_def now_def lift_storage_def lift_e_def
        desk_registrations[OF assms] desk_quota Let_def sum_bytes_def b)
qed

lemma desk_check:
  assumes "desk s" "ri_module i = ''tables''" "length (records_of s (plain_id 0)) < 100"
  shows "check_new_record plain_host ''ann'' i x y True s = (Inr (), s\<lparr>st_ticks := st_ticks s + 2\<rparr>)"
  using desk_usage[OF assms(1)] assms(2,3)
  by (auto simp: check_new_record_def bnd_def suite_registered_object_bytes_def tables_unregistered lift_storage_def lift_e_def
      num_of_int_def round64_def Let_def)

lemma desk_create:
  assumes "desk s" "ri_module i = ''tables''" "length (records_of s (plain_id 0)) < 100"
    and "record_payload_bytes plain_env (input_data i) = Inr n"
  shows "create_record plain_host ''ann'' i s = (Inr (Some (record_from_input i (plain_id (st_draws s)) (plain_id 0) ''1'')),
    s\<lparr>st_ticks := st_ticks s + 3, st_draws := Suc (st_draws s),
      st_records := jset (plain_id (st_draws s)) (record_from_input i (plain_id (st_draws s)) (plain_id 0) ''1'') (st_records s)\<rparr>)"
proof -
  have b: "base_workspace ''ann'' s = Some desk_workspace" "st_active s = Some (plain_id 0)" "role_can_write ''ann'' s"
    using assms(1) by (simp_all add: desk_def inside_def role_can_write_def)
  show ?thesis
    using assms(2,4) by (simp add: create_record_def bnd_def run_in_transaction_def b tables_allowed desk_check[OF assms(1-3)] now_def random_uuid_def
        put_record_def Suite_Store.put_record_def numeral_3_eq_3)
qed

lemma desk_update:
  assumes "desk s" "jget (st_records s) k = Some r" "sd_workspace r = plain_id 0" "sd_module r = ''tables''"
    and "record_payload_bytes plain_env (sd_data (patch_record p r)) = Inr n"
  shows "update_record plain_host ''ann'' k p s = (Inr (Some ((patch_record p r)\<lparr>sd_updated := ''1''\<rparr>)),
    s\<lparr>st_ticks := st_ticks s + 3, st_records := jset (sd_id r) ((patch_record p r)\<lparr>sd_updated := ''1''\<rparr>) (st_records s)\<rparr>)"
proof -
  have b: "base_workspace ''ann'' s = Some desk_workspace" "st_active s = Some (plain_id 0)" "role_can_write ''ann'' s"
    using assms(1) by (simp_all add: desk_def inside_def role_can_write_def)
  have "assert_suite_storage_object_update plain_env ''tables'' t a a' = Inr (Fin 0, Fin 0)" for t a a'
    by (simp add: assert_suite_storage_object_update_def tables_unregistered)
  then show ?thesis
    using desk_usage[OF assms(1)] assms(2-5)
    by (auto simp: update_record_def bnd_def run_in_transaction_def b tables_allowed write_patch_def lift_storage_def lift_e_def now_def
        Suite_Store.put_record_def num_sub_def neg_num_def round64_def)
qed

section \<open>The command\<close>

definition desk_auth :: authorization where
  "desk_auth = \<lparr>az_user = ''ann'', az_workspace = plain_id 0, az_role = Owner, az_scopes = [''*'']\<rparr>"

definition desk_deps :: store_deps where
  "desk_deps = \<lparr>dp_now = Some (Some 1000), dp_model = None\<rparr>"

definition desk_ctx :: ctx where
  "desk_ctx = \<lparr>c_workspace = plain_id 0, c_actor = ''ann'', c_plan = ''scale'', c_role = ''owner'', c_members = [(''ann'', ''owner'')],
     c_model_policy = None, c_scopes = Some [''*''], c_request_id = None, c_now = Some 1000\<rparr>"

definition made :: "string \<Rightarrow> brecord" where
  "made i = \<lparr>b_id = i, b_workspace = plain_id 0, b_module = ''tables'', b_type = ''table-base'', b_title = ''CRM'', b_state = ''active'',
     b_version = 1, b_hash = zeros, b_data = [(''key'', JStr ''crm''), (''purpose'', JStr ''facts''), (''schemaVersion'', jint 1)],
     b_created = ''1'', b_updated = ''1''\<rparr>"

definition desk_audit :: audit where
  "desk_audit = \<lparr>au_receipt = plain_id 2, au_request = None, au_workspace = plain_id 0, au_actor = ''ann'', au_module = ''tables'',
     au_action = ''base-create'', au_digest = zeros, au_dry_run = False, au_replayed = False, au_decision = DecApplied,
     au_approved_by = None, au_decision_id = None, au_approved_at = None, au_reason = None, au_model_executed = False,
     au_automatic_mutation = False, au_external_effect = False, au_created = ''1''\<rparr>"

definition desk_result :: "string \<Rightarrow> exec_result" where
  "desk_result i = \<lparr>x_body = \<lparr>o_kind = KCommand, o_records = [made i], o_preview = None\<rparr>, x_audit = desk_audit\<rparr>"

lemma desk_context: "assert_context desk_ctx = Inr ()" "assert_plan desk_ctx ''tables'' = Inr ()"
  "assert_scope desk_ctx m sc = Inr ()" "assert_role desk_ctx a = Inr ()"
proof -
  have "trim (plain_id 0) \<noteq> []" "trim ''ann'' \<noteq> []" by code_simp+
  then show "assert_context desk_ctx = Inr ()"
    by (simp add: assert_context_def desk_ctx_def plan_of_def role_of_def bind_e_def)
  show "assert_plan desk_ctx ''tables'' = Inr ()"  "assert_scope desk_ctx m sc = Inr ()" "assert_role desk_ctx a = Inr ()"
    by (auto simp: assert_plan_def assert_scope_def assert_role_def desk_ctx_def
      plan_of_def role_of_def module_by_id_def first_such_def additive_modules_def plan_below_def role_below_def
      plan_order role_order bind_e_def check_that_def split: option.splits role.splits)
qed

definition is_base_create :: "action \<Rightarrow> bool" where
  "is_base_create a \<longleftrightarrow> defined_action (draft_of ''tables'' ''SchemaDeck'' ''base-create''
    ''Create governed base'' OpMutation ''table-base'' [''key'', ''name'', ''purpose'']
    [(''key'', text_schema 80), (''name'', text_schema 160), (''purpose'', text_schema 2000)]
    [(''key'', JStr ''customers''), (''name'', JStr ''Customers''), (''purpose'', JStr ''Track opted-in customer facts'')]) a"

lemma base_create_action: "\<exists>a. is_base_create a"
  using base_create_defined by (simp add: is_base_create_def)

lemma base_create_facts:
  assumes "is_base_create a"
  shows "action_by_key ''tables'' ''base-create'' = Some a" "a_module a = ''tables''" "a_id a = ''base-create''" "a_operation a = OpMutation"
    "a_role a = Member" "\<not> a_requires_approval a" "\<not> a_supports_dry_run a" "a_idempotent a"
  using defined_lookup[OF assms[unfolded is_base_create_def]] defined_plain_mutation[OF assms[unfolded is_base_create_def]]
  by (simp_all add: draft_of_sel)

lemma desk_authorized:
  assumes "is_base_create a"
  shows "authorize plain_env desk_ctx ''tables'' ''base-create'' base_input = Inr a"
proof -
  have "validate_input plain_env (a_input a) base_input = Inr ()"
    using defined_plain_mutation[OF assms[unfolded is_base_create_def]]
    by (simp add: validate_input_ok base_input_def lookup_undefined_own uniq_def text_schema_def
        validate_string_def idempotency_key_schema_def key_pattern_sample matches_re_def)
  then show ?thesis using base_create_facts(1)[OF assms] by (simp add: authorize_def desk_context)
qed

lemma no_nul: "\<not> has_nul ''tables''" "\<not> has_nul ''ann''" "\<not> has_nul (plain_id n)"
  by (auto simp: has_nul_def plain_id_def)

lemma desk_engine:
  assumes "is_base_create a"
  shows "\<exists>g. execute plain_env desk_ctx ''tables'' ''base-create'' base_input (empty_engine\<lparr>e_draws := 1\<rparr>) = (Inr (desk_result (plain_id 1)), g)
    \<and> changed_records g = [made (plain_id 1)] \<and> e_draws g = 3"
proof -
  note a = base_create_facts[OF assms]
  let ?s = "empty_engine\<lparr>e_draws := 1\<rparr>"
  have h: "input_digest plain_env desk_ctx base_input = Inr zeros"
    by (simp add: input_digest_def plain_digest desk_ctx_def base_input_def has_nul_def plain_id_def)
  let ?r = "new_record plain_env desk_ctx ''tables'' ''table-base'' ''CRM'' ''active''
       [(''key'', JStr ''crm''), (''purpose'', JStr ''facts''), (''schemaVersion'', jint 1)] ''1'' 1"
  have g: "record_digest plain_env ?r = Inr zeros"
    by (simp add: record_digest_def new_record_def plain_digest encodable_content has_nul_def)
  have made: "?r\<lparr>b_hash := zeros\<rparr> = made (plain_id 1)" by (simp add: new_record_def made_def desk_ctx_def)
  have ev: "evaluate plain_env desk_ctx a base_input model (iso_text plain_env 1000) (clear_dirty ?s)
    = (Inr (command [made (plain_id 1)]), mark_dirty (plain_id 1) (Additive_State.put_record (made (plain_id 1)) ((clear_dirty ?s)\<lparr>e_draws := Suc 1\<rparr>)))" for model
    using a g made
    by (simp add: evaluate_def is_dry_run_def dispatch_def tables_def base_create_def bnd_def guard_def one_record_def
        create_run base_input_def new_record_def list_records_def empty_engine_def clear_dirty_def jvals_def sort_cmp_def del: One_nat_def)
  have ap: "approve plain_env desk_ctx a base_input 1000 (clear_dirty ?s) = (Inr None, clear_dirty ?s)"
    using a by (simp add: approve_ok is_dry_run_def assert_approval_if_required_def)
  have "c_now desk_ctx = Some 1000" "e_receipts ?s = []" by (simp_all add: desk_ctx_def empty_engine_def)
  from execute_run[OF desk_authorized[OF assms] _ h this(2,1) ap ev] a obtain x where
    run: "execute plain_env desk_ctx ''tables'' ''base-create'' base_input ?s = (Inr x, store_receipt desk_ctx ''tables'' a
      (to_str plain_env (oget base_input ''idempotencyKey'')) zeros (receipt_key plain_env desk_ctx ''tables'' a base_input) x
      ((mark_dirty (plain_id 1) (Additive_State.put_record (made (plain_id 1)) ((clear_dirty ?s)\<lparr>e_draws := Suc 1\<rparr>)))\<lparr>e_draws := Suc (Suc 1)\<rparr>))"
    "x_body x = command [made (plain_id 1)]" "x_audit x = audit_of desk_ctx ''tables'' a base_input zeros None (plain_id (Suc 1)) ''1''"
    by fastforce
  have "audit_of desk_ctx ''tables'' a base_input zeros None (plain_id (Suc 1)) ''1'' = desk_audit"
    using a by (simp add: audit_of_def desk_audit_def desk_ctx_def is_dry_run_def numeral_2_eq_2)
  then have "x = desk_result (plain_id 1)" using run(2,3) by (cases x) (simp add: desk_result_def command_def)
  moreover have "receipt_key plain_env desk_ctx ''tables'' a base_input \<noteq> None" using a by (simp add: receipt_key_def base_input_def)
  ultimately show ?thesis
    using run(1) by (auto simp: store_receipt_def changed_records_def mark_dirty_def Additive_State.put_record_def clear_dirty_def
        empty_engine_def made_def jget_jset)
qed

end
