(* ===== verification/Adapter_Witnesses.thy ===== *)
theory Adapter_Witnesses
  imports Adapter_Samples
begin

text \<open>
  The whole run of the sample command on the store, step by step, and the theorems on commands applied to it.
\<close>

section \<open>Loading and evaluating\<close>

definition desk_start :: store where
  "desk_start = desk_store\<lparr>st_active := Some (plain_id 0)\<rparr>"

lemma desk_start_sel [simp]:
  "st_records desk_start = []" "st_draws desk_start = 1" "st_ticks desk_start = 3" "st_active desk_start = Some (plain_id 0)"
  by (simp_all add: desk_start_def desk_store_def empty_store_def)

lemma desk_start: "desk desk_start"
  by (simp add: desk_def inside_def desk_start_def desk_store_def base_workspace_def role_in_def empty_store_def jget_Cons jvals_def)

lemma deskD: "desk s \<Longrightarrow> inside ''ann'' desk_workspace s"
  by (simp add: desk_def)

lemma desk_frame [simp]: "desk (s\<lparr>st_ticks := n\<rparr>) = desk s" "desk (s\<lparr>st_draws := n\<rparr>) = desk s"
  by (simp_all add: desk_def inside_def base_workspace_def role_in_def cong: option.case_cong)

lemma desk_auth_sel [simp]: "az_user desk_auth = ''ann''" "az_role desk_auth = Owner" "az_workspace desk_auth = plain_id 0"
    "az_scopes desk_auth = [''*'']" "dp_now desk_deps = Some (Some 1000)" "dp_model desk_deps = None"
  by (simp_all add: desk_auth_def desk_deps_def)

lemma base_input_ids: "input_record_ids base_input = Inr []"
  by code_simp

lemma desk_load: "load_records plain_host desk_auth ''tables'' ''base-create'' base_input v desk_start = (Inr [], desk_start)"
proof -
  have "wp (load_records plain_host desk_auth ''tables'' ''base-create'' base_input v) (\<lambda>x t. x = [] \<and> t = desk_start) (\<lambda>_ _. False) desk_start"
    by (simp add: load_records_def load_module_def load_targets_def wp_rules wp_lift_e reads_within[OF deskD[OF desk_start]]
        records_of_def jvals_def base_input_ids record_map_def domain_records_def stored_relation_ids_def kept_def sort_cmp_def)
  then show ?thesis by (auto simp: wp_def split: prod.splits sum.splits)
qed

lemma desk_engine_ctx:
  "engine_ctx desk_auth (workspace_for ''ann'' desk_workspace desk_start) (members_in plain_host desk_workspace desk_start) None (Some 1000) = desk_ctx"
  by (simp add: engine_ctx_def desk_ctx_def workspace_for_def members_in_def desk_start_def desk_store_def empty_store_def
      sort_cmp_def jget_Cons plan_name_def role_name_def)

lemma desk_evaluate:
  assumes "is_base_create a"
  shows "\<exists>g. evaluate_in_store plain_host desk_auth ''tables'' ''base-create'' base_input desk_deps (workspace_for ''ann'' desk_workspace desk_start)
      (members_in plain_host desk_workspace desk_start) None [] desk_start = (Inr (desk_result (plain_id 1), g), desk_start\<lparr>st_draws := 3\<rparr>)
    \<and> changed_records g = [made (plain_id 1)]"
proof -
  obtain g where g: "execute plain_env desk_ctx ''tables'' ''base-create'' base_input (empty_engine\<lparr>e_draws := 1\<rparr>) = (Inr (desk_result (plain_id 1)), g)"
    "changed_records g = [made (plain_id 1)]" "e_draws g = 3" using desk_engine[OF assms] by blast
  have "hydrate_records [] (empty_engine\<lparr>e_draws := n\<rparr>) = (Inr (), empty_engine\<lparr>e_draws := n\<rparr>)"
    "hydrate_external [] (empty_engine\<lparr>e_draws := n\<rparr>) = (Inr (), empty_engine\<lparr>e_draws := n\<rparr>)" for n
    by (simp_all add: hydrate_records_def hydrate_external_def bnd_def guard_def empty_engine_def)
  then have "evaluate_in_store plain_host desk_auth ''tables'' ''base-create'' base_input desk_deps (workspace_for ''ann'' desk_workspace desk_start)
      (members_in plain_host desk_workspace desk_start) None [] desk_start = (Inr (desk_result (plain_id 1), g), desk_start\<lparr>st_draws := 3\<rparr>)"
    using g(1,3)
    by (simp add: evaluate_in_store_def bnd_def lift_e_def domain_records_def external_evidence_def kept_def adapter_clock_def
        desk_engine_ctx evaluate_loaded_def on_engine_def del: One_nat_def)
  with g(2) show ?thesis by blast
qed

section \<open>Sizes\<close>

text \<open>A bound of the length of a text, from the lengths of the strings of the value.\<close>

function bulk :: "json \<Rightarrow> nat" where
  "bulk (JArr xs) = 2 + sum_list (map (\<lambda>v. bulk v + 1) xs)"
| "bulk (JObj d) = 2 + sum_list (map (\<lambda>(k, v). 6 * length k + 4 + bulk v) d)"
| "bulk JUndef = 4"
| "bulk JNull = 4"
| "bulk (JBool b) = 5"
| "bulk (JNum n) = 4"
| "bulk (JStr s) = 6 * length s + 2"
  by pat_completeness auto
termination
  by (relation "measure size") (auto dest: size_entry size_list_estimation'[where f = size])

lemma utf8_length: "length (utf8 s) \<le> 2 * length s"
  by (induction s) (auto simp: utf8_def)

lemma quote_length: "length (json_quote s) \<le> 6 * length s + 2"
proof -
  have "length (concat (map json_escape s)) \<le> 6 * length s"
    by (induction s) (auto simp: json_escape_def)
  then show ?thesis by (simp add: json_quote_def)
qed

lemma join_length: "length (join_with [c] xs) \<le> sum_list (map (\<lambda>x. length x + 1) xs)"
  by (induction xs rule: induct_list012) auto

lemma sum_filter: "\<forall>x \<in> set xs. f x \<le> g x \<Longrightarrow> sum_list (map f (filter P xs)) \<le> sum_list (map g xs)" for f :: "'a \<Rightarrow> nat"
  by (induction xs) (auto simp: add_mono add_increasing)

lemma text_length: "length (json_text plain_env v) \<le> bulk v"
proof (induction v rule: bulk.induct)
  case (1 xs)
  have "sum_list (map (\<lambda>v. length (json_text plain_env v) + 1) xs) \<le> sum_list (map (\<lambda>v. bulk v + 1) xs)"
    by (rule sum_list_mono) (simp add: 1)
  then show ?case using join_length[of "CHR '',''" "map (json_text plain_env) xs"] by (simp add: o_def)
next
  case (2 d)
  have "length (json_quote k @ '':'' @ json_text plain_env v) + 1 \<le> 6 * length k + 4 + bulk v" if "(k, v) \<in> set d" for k v
    using 2[OF that] quote_length[of k] by auto
  then have "\<forall>x \<in> set d. length ((\<lambda>(k, v). json_quote k @ '':'' @ json_text plain_env v) x) + 1
      \<le> (\<lambda>(k, v). 6 * length k + 4 + bulk v) x" by auto
  from sum_filter[OF this]
  have "sum_list (map (\<lambda>x. length x + 1) (map (\<lambda>(k, v). json_quote k @ '':'' @ json_text plain_env v) (defined_entries d)))
      \<le> sum_list (map (\<lambda>(k, v). 6 * length k + 4 + bulk v) d)"
    by (simp add: defined_entries_def o_def)
  then show ?case
    using join_length[of "CHR '',''" "map (\<lambda>(k, v). json_quote k @ '':'' @ json_text plain_env v) (defined_entries d)"] by simp
qed (use quote_length in \<open>auto simp: json_number_def split: num.split\<close>)

lemma small_text: "length (utf8 (json_text plain_env v)) \<le> 2 * bulk v"
  using utf8_length[of "json_text plain_env v"] text_length[of v] by linarith

lemma small_payload: "bulk (JObj d) < 30000 \<Longrightarrow> \<exists>n. record_payload_bytes plain_env d = Inr n"
  using small_text[of "JObj d"] by (auto simp: record_payload_bytes_def Let_def record_payload_limit_def num_of_int_def round64_def)

definition shown :: "response \<Rightarrow> obj" where
  "shown y = [(''kind'', JStr (re_kind y)), (''audit'', JObj (re_audit y)), (''recordIds'', JArr (map (\<lambda>r. oget r ''id'') (re_records y))),
     (''recordSnapshots'', JArr (map JObj (re_records y)))]"

lemma small_snapshot:
  assumes "bulk (JObj (shown y)) < 30000" "re_preview y = JUndef"
  shows "receipt_snapshot plain_env y = Inr (shown y)"
  using small_text[of "JObj (shown y)"] assms by (auto simp: receipt_snapshot_def receipt_snapshot_limit_def shown_def truthy_def)

definition desk_response :: "string \<Rightarrow> response" where
  "desk_response i = response_of (desk_result i)"

definition desk_filed :: response where
  "desk_filed = (desk_response (plain_id 3))\<lparr>re_audit := spread (re_audit (desk_response (plain_id 3))) [(''receiptId'', JStr (plain_id 4))]\<rparr>"

definition desk_receipt :: "obj \<Rightarrow> obj" where
  "desk_receipt d = receipt_data desk_auth ''base-create'' ''base-create-0001'' zeros (desk_response (plain_id 3)) d"

definition desk_final :: obj where
  "desk_final = spread (desk_receipt (shown (desk_response (plain_id 3)))) (spread (desk_receipt (shown (desk_response (plain_id 3))))
     [(''result'', JObj (shown desk_filed))])"

lemma plain_length [simp]: "length (plain_id n) = Suc n" "length zeros = 64"
  by (simp_all add: plain_id_def zeros_def)

lemma bulk_int [simp]: "bulk (jint n) = 4"
  by (simp add: jint_def)

lemma bulk_made: "bulk (JObj (brecord_json (made i))) \<le> 5000 + 10 * length i"
  by (simp add: brecord_json_def made_def)

lemma bulk_envelope: "bulk (JObj (record_envelope (made i))) \<le> 6000 + 10 * length i"
  using bulk_made[of i] by (simp add: record_envelope_def record_contract_def)

lemma audit_bulk: "bulk (JObj (audit_json desk_audit)) \<le> 5000"
  by (simp add: audit_json_def desk_audit_def or_null_def decision_name_def)

lemma bulk_shown: "bulk (JObj (shown (desk_response i))) \<le> 14000 + 20 * length i"
  using bulk_made[of i] audit_bulk by (simp add: shown_def desk_response_def response_of_def desk_result_def kind_name_def brecord_json_def made_def)

lemma desk_filed_parts: "re_kind desk_filed = ''command''" "re_records desk_filed = [brecord_json (made (plain_id 3))]" "re_preview desk_filed = JUndef"
  "re_audit desk_filed = spread (audit_json desk_audit) [(''receiptId'', JStr (plain_id 4))]"
  by (simp_all add: desk_filed_def desk_response_def response_of_def desk_result_def kind_name_def preview_json_def)

lemma bulk_filed: "bulk (JObj (shown desk_filed)) \<le> 15000"
  using bulk_made[of "plain_id 3"]
  by (simp add: shown_def desk_filed_parts oset_def audit_json_def desk_audit_def or_null_def decision_name_def brecord_json_def made_def)

lemma receipt_fields: "desk_receipt d = [(''additiveContract'', JStr receipt_contract), (''actionId'', JStr ''base-create''),
     (''idempotencyKey'', JStr ''base-create-0001''), (''actorUserId'', JStr ''ann''), (''inputDigest'', JStr zeros),
     (''approvalDecisionId'', JNull), (''result'', JObj d)]"
  by (simp add: desk_receipt_def receipt_data_def desk_auth_def desk_response_def response_of_def audit_json_def desk_result_def desk_audit_def
      or_null_def)

lemma desk_final: "desk_final = desk_receipt (shown desk_filed)"
  by (simp add: desk_final_def receipt_fields oset_def)

lemma bulk_receipt: "bulk (JObj (desk_receipt d)) \<le> 4000 + bulk (JObj d)"
  by (simp add: receipt_fields receipt_contract_def)

lemma desk_payloads: "\<exists>n. record_payload_bytes plain_env (record_envelope (made (plain_id 1))) = Inr n"
    "\<exists>n. record_payload_bytes plain_env (record_envelope (made (plain_id 3))) = Inr n"
    "\<exists>n. record_payload_bytes plain_env (desk_receipt (shown (desk_response (plain_id 3)))) = Inr n"
    "\<exists>n. record_payload_bytes plain_env desk_final = Inr n"
  using bulk_envelope[of "plain_id 1"] bulk_envelope[of "plain_id 3"] bulk_shown[of "plain_id 3"] bulk_filed
    bulk_receipt[of "shown (desk_response (plain_id 3))"] bulk_receipt[of "shown desk_filed"]
  by (auto simp: desk_final intro!: small_payload simp del: bulk.simps)

lemma desk_snapshots: "receipt_snapshot plain_env (desk_response i) = Inr (shown (desk_response i))" if "length i < 10"
  using bulk_shown[of i] that
  by (intro small_snapshot) (simp_all add: desk_response_def response_of_def desk_result_def preview_json_def del: bulk.simps)

lemma filed_snapshot: "receipt_snapshot plain_env desk_filed = Inr (shown desk_filed)"
  using bulk_filed by (intro small_snapshot) (simp_all add: desk_filed_parts(3) del: bulk.simps)

section \<open>Writing back\<close>

lemma wp_exact: "m s = (Inr x, t) \<Longrightarrow> wp m Q X s = Q x t"
  by (simp add: wp_def)

lemma desk_rehash: "rehash plain_env (made i) = Inr (made i)"
proof -
  have "digest plain_env (content_of ''tables'' ''table-base'' ''CRM'' ''active'' 1
      [(''key'', JStr ''crm''), (''purpose'', JStr ''facts''), (''schemaVersion'', jint 1)]) = Inr zeros"
    by (rule plain_digest) (simp add: encodable_content has_nul_def)
  then show ?thesis by (simp add: rehash_def adapter_digest_def made_def)
qed

lemma desk_persisted:
  assumes "sw_id v = plain_id 0"
  shows "persisted_record plain_env v [(plain_id 1, plain_id 3)] (made (plain_id 1)) = Inr (made (plain_id 3))"
proof -
  have "remap_ids [(plain_id 1, plain_id 3)] (jint 1) = jint 1" by (simp add: jint_def)
  moreover have "plain_id 1 \<noteq> ''crm''" "plain_id 1 \<noteq> ''facts''" by (simp_all add: plain_id_def)
  ultimately have "(made (plain_id 1))\<lparr>b_id := plain_id 3, b_workspace := sw_id v,
      b_data := map (\<lambda>(k, x). (k, remap_ids [(plain_id 1, plain_id 3)] x)) (b_data (made (plain_id 1)))\<rparr> = made (plain_id 3)"
    using assms by (simp add: made_def jget_Cons del: One_nat_def)
  then show ?thesis
    by (simp add: persisted_record_def jget_Cons made_def[of "plain_id 1"] desk_rehash del: One_nat_def)
qed

lemma desk_envelopes: "spread (record_envelope r) (record_envelope q) = record_envelope q"
  by (simp add: record_envelope_def oset_def)

lemma jset_vals: "set (jvals (jset k r m)) \<subseteq> insert r (set (jvals m))"
  by (induction m) (auto simp: jvals_def jset_def)

lemma desk_written: "desk s \<Longrightarrow> sd_module r = ''tables'' \<Longrightarrow> desk (s\<lparr>st_records := jset k r (st_records s)\<rparr>)"
  using jset_vals[of k r "st_records s"]
  by (auto simp: desk_def inside_def base_workspace_def role_in_def cong: option.case_cong)

lemma records_few: "length (records_of s i) \<le> length (st_records s)"
  by (simp add: records_of_def jvals_def)

definition desk_base :: "brecord \<Rightarrow> suite_record" where
  "desk_base b = \<lparr>sd_id = plain_id 3, sd_workspace = plain_id 0, sd_module = ''tables'', sd_type = ''table-base'', sd_title = ''CRM'',
     sd_state = ''active'', sd_data = record_envelope b, sd_created = ''1'', sd_updated = ''1''\<rparr>"

lemma made_sel [simp]: "b_id (made i) = i" "b_module (made i) = ''tables''" "b_type (made i) = ''table-base''" "b_title (made i) = ''CRM''"
    "b_state (made i) = ''active''"
  by (simp_all add: made_def)

definition desk_input :: record_input where
  "desk_input = \<lparr>ri_id = None, ri_module = ''tables'', ri_type = ''table-base'', ri_title = ''CRM'', ri_state = Some ''active'',
     ri_data = Some (record_envelope (made (plain_id 1)))\<rparr>"

lemma desk_base_sel [simp]: "sd_id (desk_base b) = plain_id 3" "sd_workspace (desk_base b) = plain_id 0" "sd_module (desk_base b) = ''tables''"
  by (simp_all add: desk_base_def)

lemma desk_target:
  assumes s: "desk s" "st_records s = []" "st_draws s = 3"
  shows "wp (persist_target plain_host ''ann'' [] (made (plain_id 1))) (\<lambda>p t. p = (plain_id 1, desk_base (made (plain_id 1)))
     \<and> desk t \<and> st_records t = [(plain_id 3, desk_base (made (plain_id 1)))] \<and> st_draws t = 4) (\<lambda>_ _. False) s"
proof -
  have new: "record_from_input desk_input (plain_id 3) (plain_id 0) ''1'' = desk_base (made (plain_id 1))"
    by (simp add: record_from_input_def input_data_def desk_base_def desk_input_def)
  obtain n where "record_payload_bytes plain_env (input_data desk_input) = Inr n"
    using desk_payloads(1) by (auto simp: input_data_def desk_input_def)
  moreover have "ri_module desk_input = ''tables''" by (simp add: desk_input_def)
  ultimately have "create_record plain_host ''ann'' desk_input s = (Inr (Some (desk_base (made (plain_id 1)))), s\<lparr>st_ticks := st_ticks s + 3, st_draws := 4,
      st_records := [(plain_id 3, desk_base (made (plain_id 1)))]\<rparr>)"
    using desk_create[OF s(1)] s records_few[of s "plain_id 0"] by (simp add: new jset_def)
  note run = wp_exact[of "create_record plain_host ''ann'' desk_input" s, OF this, unfolded desk_input_def]
  show ?thesis
    using desk_written[of "s\<lparr>st_ticks := st_ticks s + 3, st_draws := 4\<rparr>" "desk_base (made (plain_id 1))" "plain_id 3"] s
    by (simp add: persist_target_def wp_rules wp_lift_e run jset_def del: One_nat_def)
qed

lemma record_map_Nil: "record_map [] = []"
  by (simp add: record_map_def)

lemma desk_persist:
  assumes s: "desk s" "st_records s = []" "st_draws s = 3" and v: "sw_id v = plain_id 0"
  shows "wp (persist_changes plain_host ''ann'' v [] [made (plain_id 1)] [made (plain_id 1)])
     (\<lambda>(ids, out) t. ids = [(plain_id 1, plain_id 3)] \<and> out = [made (plain_id 3)] \<and> desk t
        \<and> st_records t = [(plain_id 3, desk_base (made (plain_id 3)))] \<and> st_draws t = 4) (\<lambda>_ _. False) s"
proof -
  let ?r = "desk_base (made (plain_id 1))" and ?p = "\<lparr>rp_title = Some ''CRM'', rp_state = Some ''active'', rp_data = Some (record_envelope (made (plain_id 3)))\<rparr>"
  have new: "(patch_record ?p ?r)\<lparr>sd_updated := ''1''\<rparr> = desk_base (made (plain_id 3))"
    by (simp add: patch_record_def desk_base_def desk_envelopes)
  obtain n where n: "record_payload_bytes plain_env (sd_data (patch_record ?p ?r)) = Inr n"
    using desk_payloads(2) by (auto simp: patch_record_def desk_base_def desk_envelopes)
  have stored: "wp (persist_record plain_host ''ann'' v [(plain_id 1, ?r)] (made (plain_id 1)))
     (\<lambda>p t. p = (plain_id 1, made (plain_id 3)) \<and> desk t \<and> st_records t = [(plain_id 3, desk_base (made (plain_id 3)))] \<and> st_draws t = 4)
     (\<lambda>_ _. False) t" if t: "desk t" "st_records t = [(plain_id 3, ?r)]" "st_draws t = 4" for t
  proof -
    from desk_update[OF t(1) _ _ _ n, of "plain_id 3"] have "update_record plain_host ''ann'' (plain_id 3) ?p t = (Inr (Some (desk_base (made (plain_id 3)))),
       t\<lparr>st_ticks := st_ticks t + 3, st_records := [(plain_id 3, desk_base (made (plain_id 3)))]\<rparr>)"
      unfolding new by (simp add: t jget_Cons jset_def)
    note run = wp_exact[of "update_record plain_host ''ann'' (plain_id 3) ?p" t, OF this]
    have "desk (t\<lparr>st_ticks := st_ticks t + 3, st_records := [(plain_id 3, desk_base (made (plain_id 3)))]\<rparr>)"
      using desk_written[of "t\<lparr>st_ticks := st_ticks t + 3\<rparr>" "desk_base (made (plain_id 3))" "plain_id 3"] t
      by (simp add: jset_def)
    then show ?thesis
      by (simp add: persist_record_def wp_rules wp_lift_e write_envelope_def id_map_def target_map_def jset_def jget_Cons run
          desk_persisted[OF v] t del: One_nat_def)
  qed
  show ?thesis
    unfolding persist_changes_def wp_bnd each.simps record_map_Nil
  proof (rule wp_mono[OF desk_target[OF s]], goal_cases)
    case (1 x t)
    then have t: "desk t" "st_records t = [(plain_id 3, ?r)]" "st_draws t = 4" and x: "x = (plain_id 1, ?r)" by simp_all
    show ?case
      unfolding x using wp_mono[OF stored[OF t]]
      by (simp add: wp_rules id_map_def jget_Cons jset_def del: One_nat_def)
  qed simp
qed

section \<open>The receipt\<close>

definition desk_kept :: "string \<Rightarrow> obj \<Rightarrow> suite_record" where
  "desk_kept title d = \<lparr>sd_id = plain_id 4, sd_workspace = plain_id 0, sd_module = ''tables'', sd_type = ''additive-command-receipt'',
     sd_title = title, sd_state = ''committed'', sd_data = d, sd_created = ''1'', sd_updated = ''1''\<rparr>"

lemma kept_id [simp]: "sd_id (desk_kept n d) = plain_id 4" "sd_workspace (desk_kept n d) = plain_id 0" "sd_module (desk_kept n d) = ''tables''"
  by (simp_all add: desk_kept_def)

lemma jset_two: "jset (plain_id 4) r [(plain_id 3, q)] = [(plain_id 3, q), (plain_id 4, r)]"
  by (simp add: jset_def plain_ids)

lemma desk_keep:
  assumes s: "desk s" "st_records s = [(plain_id 3, desk_base b)]" "st_draws s = 4"
  shows "wp (keep_receipt plain_host desk_auth ''tables'' a ''base-create'' ''base-create-0001'' zeros (desk_response (plain_id 3)))
     (\<lambda>y t. y = desk_filed) (\<lambda>_ _. False) s"
proof -
  let ?x = "desk_response (plain_id 3)" and ?d = "shown (desk_response (plain_id 3))"
  let ?i = "receipt_input ''tables'' a ?x (desk_receipt ?d)" and ?r = "desk_kept (a_title a @ '' receipt'') (desk_receipt ?d)"
  let ?p = "\<lparr>rp_title = None, rp_state = None, rp_data = Some (spread (desk_receipt ?d) [(''result'', JObj (shown desk_filed))])\<rparr>"
  have "oget (re_audit ?x) ''dryRun'' = JBool False"
    by (simp add: desk_response_def response_of_def desk_result_def audit_json_def desk_audit_def)
  then have new: "record_from_input ?i (plain_id 4) (plain_id 0) ''1'' = ?r" "ri_module ?i = ''tables''" "input_data ?i = desk_receipt ?d"
    by (simp_all add: record_from_input_def receipt_input_def input_data_def desk_kept_def truthy_def)
  obtain n n' where n: "record_payload_bytes plain_env (desk_receipt ?d) = Inr n" "record_payload_bytes plain_env desk_final = Inr n'"
    using desk_payloads(3,4) by blast
  have "sd_data (patch_record ?p ?r) = desk_final" by (simp add: patch_record_def desk_kept_def desk_final_def)
  note n' = n(2)[folded this]
  let ?t = "s\<lparr>st_ticks := st_ticks s + 3, st_draws := 5, st_records := [(plain_id 3, desk_base b), (plain_id 4, ?r)]\<rparr>"
  have few: "length (records_of s (plain_id 0)) < 100" using records_few[of s "plain_id 0"] s(2) by simp
  have n1: "record_payload_bytes plain_env (input_data ?i) = Inr n" unfolding new(3) by (rule n(1))
  have c: "create_record plain_host ''ann'' ?i s = (Inr (Some ?r), ?t)"
    using desk_create[OF s(1) new(2) few n1] unfolding s(2,3) new(1) by (simp only: jset_two kept_id) simp
  have t: "desk ?t"
    using desk_written[of "s\<lparr>st_ticks := st_ticks s + 3, st_draws := 5\<rparr>" ?r "plain_id 4"] s
    by (simp add: jset_two)
  obtain q u where u: "update_record plain_host ''ann'' (plain_id 4) ?p ?t = (Inr (Some q), u)"
    using desk_update[OF t _ _ _ n', of "plain_id 4"] by (auto simp: jget_Cons plain_ids)
  have data: "receipt_data desk_auth ''base-create'' ''base-create-0001'' zeros ?x ?d = desk_receipt ?d" by (simp add: desk_receipt_def)
  have y: "?x\<lparr>re_audit := spread (re_audit ?x) [(''receiptId'', JStr (plain_id 4))]\<rparr> = desk_filed" by (simp add: desk_filed_def)
  show ?thesis
    unfolding keep_receipt_def Let_def
    by (simp only: wp_rules wp_lift_e plain_sel desk_auth_sel desk_snapshots[of "plain_id 3"] plain_length sum.case option.case data
        wp_exact[of "create_record plain_host ''ann'' ?i" s, OF c] y filed_snapshot kept_id
        wp_exact[of "update_record plain_host ''ann'' (plain_id 4) ?p" ?t, OF u]) simp
qed

section \<open>The run\<close>

lemma desk_commit:
  assumes a: "is_base_create a" and s: "desk s" "st_records s = []" "st_draws s = 3" and v: "sw_id v = plain_id 0"
    and g: "changed_records g = [made (plain_id 1)]"
  shows "wp (commit_evaluated plain_host desk_auth ''tables'' a base_input v model [] (desk_result (plain_id 1), g))
    (\<lambda>x t. x = desk_response (plain_id 3) \<and> desk t \<and> st_records t = [(plain_id 3, desk_base (made (plain_id 3)))] \<and> st_draws t = 4) (\<lambda>_ _. False) s"
  using base_create_facts(4)[OF a]
  by (simp add: commit_evaluated_def wp_rules g desk_result_def[of "plain_id 1"] Let_def del: One_nat_def)
    (rule wp_mono[OF desk_persist[OF s v]],
      auto simp: wp_rules desk_response_def response_of_def desk_result_def preview_json_def)

lemma desk_fresh:
  assumes a: "is_base_create a"
  shows "wp (run_fresh plain_host desk_auth ''tables'' ''base-create'' base_input desk_deps (workspace_for ''ann'' desk_workspace desk_start) a None
     (members_in plain_host desk_workspace desk_start) (Some ''base-create-0001'') zeros) (\<lambda>y t. y = desk_filed) (\<lambda>_ _. False) desk_start"
proof -
  let ?v = "workspace_for ''ann'' desk_workspace desk_start" and ?s = "desk_start\<lparr>st_draws := 3\<rparr>"
  obtain g where g: "evaluate_in_store plain_host desk_auth ''tables'' ''base-create'' base_input desk_deps ?v
      (members_in plain_host desk_workspace desk_start) None [] desk_start = (Inr (desk_result (plain_id 1), g), ?s)"
    "changed_records g = [made (plain_id 1)]" using desk_evaluate[OF a] by blast
  have d: "wp (check_decision plain_host desk_auth a base_input) Q X s = Q () s" for Q X s
    using base_create_facts(6)[OF a] by (simp add: check_decision_def wp_rules)
  have v: "sw_id ?v = plain_id 0" by (simp add: workspace_for_def)
  have s: "desk ?s" "st_records ?s = []" "st_draws ?s = 3" using desk_start by simp_all
  have keep: "wp (keep_receipt plain_host desk_auth ''tables'' a ''base-create'' ''base-create-0001'' zeros x) (\<lambda>y t. y = desk_filed) (\<lambda>_ _. False) t"
    if "x = desk_response (plain_id 3) \<and> desk t \<and> st_records t = [(plain_id 3, desk_base (made (plain_id 3)))] \<and> st_draws t = 4" for x t
    using desk_keep that by simp
  have load: "wp (load_records plain_host desk_auth ''tables'' ''base-create'' base_input ?v) Q X desk_start = Q [] desk_start" for Q X
    by (simp add: wp_def desk_load)
  have ev: "wp (evaluate_in_store plain_host desk_auth ''tables'' ''base-create'' base_input desk_deps ?v
      (members_in plain_host desk_workspace desk_start) None []) Q X desk_start = Q (desk_result (plain_id 1), g) ?s" for Q X
    by (simp add: wp_def g(1))
  show ?thesis
    unfolding run_fresh_def
    using wp_mono[OF desk_commit[OF a s v g(2)] keep]
    by (simp add: wp_bnd d load ev wp_lift_e desk_snapshots desk_response_def[symmetric])
qed

lemma desk_admitted:
  assumes "is_base_create a"
  shows "admitted plain_host desk_auth ''tables'' ''base-create'' base_input desk_deps desk_workspace desk_start a None zeros (Some ''base-create-0001'')"
proof -
  note a = base_create_facts[OF assms]
  obtain b where b: "module_by_id ''tables'' = Some b" "m_min_plan b \<le> PlanScale"
    by (auto simp: module_by_id_def first_such_def additive_modules_def plan_order)
  have "desk_auth\<lparr>az_role := Owner\<rparr> = desk_auth" by (simp add: desk_auth_def)
  have "admit desk_auth ''tables'' ''base-create'' base_input desk_deps (workspace_for ''ann'' desk_workspace desk_start) = Inr (a, None)"
    using a b desk_start by (simp add: admit_def workspace_for_def desk_def bind_e_def check_that_def role_order)
  moreover have "acting_here desk_auth desk_workspace desk_start"
    by (simp add: acting_here_def desk_start_def desk_store_def empty_store_def jget_Cons)
  moreover have "command_digest plain_env desk_auth desk_workspace base_input = Inr zeros"
    by (simp add: command_digest_def adapter_digest_def plain_digest base_input_def has_nul_def plain_id_def)
  moreover have "command_key plain_env a base_input = Inr (Some ''base-create-0001'')"
    using a by (simp add: command_key_def base_input_def or_else_def nullish_def)
  moreover have "command_receipt_lookup_ok ''additive-command-receipt'' ''tables'' ''base-create'' ''base-create-0001''"
    by code_simp
  ultimately show ?thesis by (simp add: admitted_def)
qed

lemma desk_body: "wp (execute_in_workspace plain_host desk_auth ''tables'' ''base-create'' base_input desk_deps
    (workspace_for ''ann'' desk_workspace desk_start)) (\<lambda>y t. y = desk_filed) (\<lambda>_ _. False) desk_start"
proof -
  obtain a where a: "is_base_create a" using base_create_action by blast
  have i: "inside (az_user desk_auth) desk_workspace desk_start" using deskD[OF desk_start] by simp
  have none: "receipts_under desk_start (plain_id 0) m aid k = []" for m aid k by (simp add: receipts_under_def records_of_def jvals_def)
  show ?thesis
    using desk_admitted[OF a] desk_fresh[OF a] unfolding execute_in_workspace_def admitted_def
    by (simp add: wp_rules wp_lift_e members_run[OF i[simplified]] find_receipt_run[OF i] members_acting[of plain_host desk_workspace desk_start desk_auth, simplified] digest_for none)
qed

lemma desk_run: "\<exists>t. execute_with_store plain_host desk_auth ''tables'' ''base-create'' base_input desk_deps desk_store = (Inr desk_filed, t)"
proof -
  obtain t where t: "execute_in_workspace plain_host desk_auth ''tables'' ''base-create'' base_input desk_deps
      (workspace_for ''ann'' desk_workspace desk_start) desk_start = (Inr desk_filed, t)"
    using desk_body by (auto simp: wp_def split: prod.splits sum.splits)
  have base: "base_workspace ''ann'' desk_store = Some desk_workspace"
    by (simp add: base_workspace_def desk_store_def empty_store_def jget_Cons)
  have v: "workspace_for ''ann'' desk_workspace desk_store = workspace_for ''ann'' desk_workspace desk_start"
    by (simp add: workspace_for_def desk_start_def role_in_def cong: option.case_cong)
  have "get_or_create_workspace plain_host ''ann'' desk_store = (Inr (workspace_for ''ann'' desk_workspace desk_start), desk_store)"
    using base by (simp add: get_or_create_run enter_inside base_of_def v)
  moreover have "st_active desk_store = None" by (simp add: desk_store_def empty_store_def)
  moreover have "sw_id (workspace_for ''ann'' desk_workspace desk_start) = plain_id 0" by (simp add: workspace_for_def)
  ultimately show ?thesis
    using t by (simp add: execute_with_store_def transact_def on_store_def bnd_def desk_start_def)
qed

section \<open>The theorems at the run\<close>

lemma desk_response_ok: "response_ok plain_env ''tables'' desk_filed"
proof -
  have "safe_positive (jint 1)" by (simp add: safe_positive_def jint_def is_safe_integer_def num_of_int_def round64_def max_safe_def)
  moreover have "trim ''1'' \<noteq> []" by code_simp
  then have "valid_date_time plain_env (JStr ''1'')" by (simp add: valid_date_time_def)
  ultimately show ?thesis
    by (simp add: response_ok_def desk_filed_parts(2) brecord_json_def) (simp add: made_def)
qed

theorem command_confined_witness:
  "\<exists>t. execute_with_store plain_host desk_auth ''tables'' ''base-create'' base_input desk_deps desk_store = (Inr desk_filed, t)
     \<and> store_ok plain_host t \<and> stays_in (plain_id 0) (jget (st_records desk_store)) (jget (st_records t))"
proof -
  obtain t where t: "execute_with_store plain_host desk_auth ''tables'' ''base-create'' base_input desk_deps desk_store = (Inr desk_filed, t)"
    using desk_run by blast
  have "st_active desk_store = None" by (simp add: desk_store_def empty_store_def)
  from command_confined[OF plain_inj desk_store_ok this t] t show ?thesis by auto
qed

theorem command_retry_replays_witness:
  "\<exists>t. execute_with_store plain_host desk_auth ''tables'' ''base-create'' base_input desk_deps desk_store = (Inr desk_filed, t)
     \<and> execute_with_store plain_host desk_auth ''tables'' ''base-create'' base_input (desk_deps\<lparr>dp_now := Some (Some 90000)\<rparr>) t
         = (Inr (replayed desk_filed), t)"
proof -
  obtain t where t: "execute_with_store plain_host desk_auth ''tables'' ''base-create'' base_input desk_deps desk_store = (Inr desk_filed, t)"
    using desk_run by blast
  obtain a where a: "is_base_create a" using base_create_action by blast
  have "st_active desk_store = None" by (simp add: desk_store_def empty_store_def)
  from command_retry_replays[OF plain_inj desk_store_ok this t base_create_facts(1,8)[OF a], of "Some (Some 90000)"] t desk_response_ok
  show ?thesis by auto
qed

text \<open>A store where a decision has been spent.\<close>

definition spent_record :: suite_record where
  "spent_record = \<lparr>sd_id = plain_id 5, sd_workspace = plain_id 0, sd_module = ''tables'', sd_type = ''additive-command-receipt'',
     sd_title = ''receipt'', sd_state = ''committed'', sd_data = [(''approvalDecisionId'', JStr ''decision-0001'')],
     sd_created = ''1'', sd_updated = ''1''\<rparr>"

definition spent_store :: store where
  "spent_store = desk_store\<lparr>st_draws := 6, st_records := [(plain_id 5, spent_record)]\<rparr>"

lemma spent_store_ok: "store_ok plain_host spent_store"
proof -
  have ids: "workspace_ids spent_store = {plain_id 0}" by (auto simp: workspace_ids_def jget_Cons spent_store_def desk_store_def)
  have "plain_id ` {..<6} \<supseteq> {plain_id 0, plain_id 5}" by auto
  then have "drawn plain_host spent_store \<supseteq> {plain_id 0, plain_id 5}" by (auto simp: drawn_def spent_store_def)
  then show ?thesis
    by (simp add: store_ok_def maps_ok_def workspaces_ok_def members_ok_def records_ok_def actions_ok_def domains_ok_def
        record_ids_ok_def ids)
      (auto simp: spent_store_def desk_store_def empty_store_def jkeys_def jget_Cons desk_workspace_def spent_record_def)
qed

theorem store_decision_spent_once_witness:
  "\<exists>out t. execute_with_store plain_host (desk_auth\<lparr>az_workspace := ''elsewhere''\<rparr>) ''tables'' ''base-create'' base_input desk_deps spent_store = (out, t)
     \<and> {i. \<exists>r. jget (st_records t) i = Some r \<and> sd_workspace r = plain_id 0 \<and> command_decision r = Some ''decision-0001''} = {plain_id 5}"
proof -
  obtain out t where run: "execute_with_store plain_host (desk_auth\<lparr>az_workspace := ''elsewhere''\<rparr>) ''tables'' ''base-create'' base_input desk_deps spent_store
      = (out, t)" by fastforce
  have idle: "st_active spent_store = None" by (simp add: spent_store_def desk_store_def empty_store_def)
  have r: "sd_workspace spent_record = plain_id 0" "command_decision spent_record = Some ''decision-0001''"
    by (simp_all add: spent_record_def command_decision_def command_receipt_types_def)
  have get: "jget (st_records spent_store) k = (if k = plain_id 5 then Some spent_record else None)" for k
    by (simp add: spent_store_def jget_Cons)
  then have once: "spent_once (jget (st_records spent_store))" by (auto simp: spent_once_def split: if_splits)
  have "plain_id 0 \<noteq> ''elsewhere''" by (simp add: plain_id_def)
  then have kept: "jget (st_records t) (plain_id 5) = Some spent_record"
    using command_confined_of[OF plain_inj spent_store_ok idle run] get r(1) by (auto simp: stays_in_def split: sum.splits)
  have "command_history plain_host spent_store t" using command_history.command[OF command_history.start run] .
  note spent = store_decision_spent_once[OF plain_inj spent_store_ok idle once this _ kept _ _ r(2)]
  have "i = plain_id 5" if "jget (st_records t) i = Some q" "sd_workspace q = plain_id 0" "command_decision q = Some ''decision-0001''" for i q
    using spent[OF that(1) _ that(3)] that(2) r(1) by simp
  then have "{i. \<exists>q. jget (st_records t) i = Some q \<and> sd_workspace q = plain_id 0 \<and> command_decision q = Some ''decision-0001''} = {plain_id 5}"
    using kept r by blast
  then show ?thesis using run by blast
qed

end
