(* ===== verification/Spec2Isabelle.thy ===== *)
theory Spec2Isabelle
  imports Additive_Command_Witnesses Visibility Hostnames Manifest_Properties Worker_Properties Compose_Upgrade Gateway Destinations Capacity Storage_Accounting Suite_Properties Ai_Result_Properties Adapter_Witnesses
begin

text \<open>
  A verification development for the managed OSS cloud (TypeScript, under \<open>src/\<close>).

  Parts of the program. The server keeps business records per workspace. A command names a module
  and an action of a registry (\<open>shared/additive-business-actions.ts\<close>); an engine
  (\<open>server/additive-business-engine.ts\<close>) authorizes the caller, validates the input, replays a
  repeated idempotency key, asks for human approval where the action needs it, and then runs the
  action's handler on its map of records. What a caller can see is decided by
  \<open>server/suite-record-visibility.ts\<close>; what a record or a batch contains is pinned by a digest of
  its canonical JSON text (\<open>server/ai-result.ts\<close>). Beside the records stands the hosting platform: a
  customer claims a hostname and proves it by DNS (\<open>server/hostname-claims.ts\<close>,
  \<open>server/domain-verification.ts\<close>); an application of the catalog is deployed from a compose manifest
  (\<open>server/app-manifests.ts\<close>) whose limits must match what was reserved for it on a worker
  (\<open>server/worker-resource-enforcement.ts\<close>), and is migrated in place
  (\<open>server/compose-upgrade.ts\<close>).

  Theories.
  \<open>Prelude\<close>: the command monad, its footprint predicates, ordered maps, sorting.
  \<open>Js_Number\<close>, \<open>Js_Value\<close>: binary64 numbers and JSON values with the JavaScript operations the code
  uses. The host (SHA-256, numeral text, dates, collation, random identifiers) is the record
  \<open>js_env\<close>, a parameter of every definition that uses it.
  \<open>Canonical_Json\<close>: canonical text and digest; that texts determine values rests only on the host printing
  numbers that read back. \<open>Visibility\<close>: who reads what.
  \<open>Additive_Schema\<close>, \<open>Additive_Actions\<close>: input schemas, validation and what a schema means
  (\<open>conforms\<close>, which the validator decides), and the registry of 46 actions. \<open>Action_Gates\<close>: which of them
  can be dry-run under an approval and which demand the version of the record they edit.
  \<open>Additive_State\<close>, \<open>Additive_Handlers\<close>, \<open>Additive_Engine\<close>: the state of the engine, one
  definition per action handler, previews, proposals and the pipeline \<open>execute\<close>.
  \<open>Additive_Frames\<close>, \<open>Additive_Properties\<close>, \<open>Additive_Commands\<close>: footprints of all operations and the
  theorems about them. \<open>Sample_Host\<close>, \<open>Additive_Samples\<close>, \<open>Additive_Witnesses\<close> and
  \<open>Additive_Command_Witnesses\<close>: a concrete host and workspace on which every theorem is applied.
  \<open>Hostnames\<close>: normalization, the claim registry as a state of claims with its operations, the DNS proof;
  its theorems follow a hostname through every history of claims, checks, releases, imports and transactions that
  fail and put a snapshot back. \<open>Json_Text\<close>: the texts of
  \<open>JSON.stringify\<close>, which determine their values. \<open>Platform_Types\<close>: the records of \<open>shared/types.ts\<close>.
  \<open>App_Manifests\<close> and \<open>Manifest_Properties\<close>: one definition per service of each application and the
  theorems that add up and inspect all of them. \<open>Worker_Resources\<close> and \<open>Worker_Properties\<close>: limits,
  reservations, the consistency check of a worker (whole megabytes, millicores and gigabytes up to four million, whole
  bytes up to \<open>2^52\<close>, at most a million assigned applications: there every sum is exact) and the quarantine contract,
  whose host operations are parameters. \<open>Compose_Upgrade\<close>: the migrations of a deployed compose file.

  \<open>Gateway\<close>: the rendered configuration of the gateway (\<open>server/gateway-reconciler.ts\<close>). \<open>Destinations\<close>:
  which outbound URLs are public (\<open>server/public-destination.ts\<close>), on 32-bit words. \<open>Capacity\<close>: quotes, fees
  and plan capacity (\<open>shared/pricing.ts\<close>, \<open>shared/plan-capacity.ts\<close>). \<open>Storage_Accounting\<close>: quotas and
  retained objects (\<open>shared/suite-quotas.ts\<close>). \<open>Suite_Registry\<close>: the modules of a workspace, the plans they
  need and the modules an AI action may read (\<open>shared/suite.ts\<close>).

  The workspace store (\<open>MemorySuiteStore\<close> of \<open>server/suite-store.ts\<close>). \<open>Suite_Store\<close> holds its maps as
  one record \<open>store\<close> and its operations on workspaces, members, usage, domains, plans and records as computations with
  state and errors; \<open>Suite_Actions\<close> holds the AI queue, the API tokens and the read model service
  (\<open>server/module-read-model.ts\<close>). \<open>Record_Pages\<close> is \<open>server/suite-record-page.ts\<close>, on the library functions of
  \<open>Json_Parse\<close>; \<open>Ai_Results\<close> is the result contract of \<open>server/ai-result.ts\<close>, and \<open>Ai_Result_Properties\<close> shows
  that a result only proposes and a job is pinned to the evidence it was authorized for. \<open>Act_Logic\<close> gives weakest
  preconditions of computations. \<open>Suite_Invariant\<close> states the well-formedness of a store and the abstract store of
  records; \<open>Suite_Runs\<close> and \<open>Suite_Action_Runs\<close> show that every operation keeps them, and \<open>Suite_Steps\<close> makes the
  store a step relation, transactions included. \<open>Suite_Writes\<close>, \<open>Suite_Queue\<close> and \<open>Suite_Paging\<close> say exactly what
  writes, claims, completions and paged reads do; \<open>Suite_Samples\<close> is a concrete host and store, and
  \<open>Suite_Properties\<close> holds the theorems. The fuel of the JSON parser is the length of its text and is shown to be
  enough. The SQL store of the same file is not modelled. An operation is one step of the model: the awaits inside an
  operation outside a transaction are not interleaved with others.

  The path of the server (\<open>executeAdditiveBusinessActionWithStore\<close> of \<open>server/additive-business-engine.ts\<close>). \<open>Additive_Adapter\<close>
  runs an additive command inside one transaction of the workspace store: guards, replay of a receipt, the approval decision,
  loading of what the actor may read, a fresh engine on it, writing back under identifiers of the store, queueing of a
  proposal, and the receipt. Its errors are those of the store and of the engine and its own; \<open>transact\<close> is the transaction
  of the store for them (\<open>transact_store\<close>). The engine and the store share the host and its source of identifiers; the
  clock of the server is read once, as the evaluation starts. \<open>Adapter_Runs\<close> states what a command may do to the records
  (\<open>domain_change\<close>) and follows loading and evaluation, \<open>Adapter_Commits\<close> follows writing back and the receipt,
  \<open>Adapter_Properties\<close> shows that a command is granted and confined, that a failing one changes nothing and that a
  decision is spent once over every history of commands, \<open>Adapter_Replay\<close> that a retry reads the response back from the
  receipt. \<open>Adapter_Samples\<close> and \<open>Adapter_Witnesses\<close> run a whole command on a concrete workspace.

  Loops that the code may leave only with luck (drawing an unused challenge token) are partial functions whose value is
  \<open>None\<close> when they never end, and the theorem states when they return. Reading and writing files, SQL and the network are
  not modelled; a parsed file or an answer of the host is an argument. Not modelled either: the other business engines, which
  repeat the command pattern of the additive engine over other record types, the HTTP and client layers, and the scripts.
\<close>

end
